(* ===== verification/Prelude.thy ===== *)
theory Prelude
  imports Complex_Main "HOL-Library.Word" "HOL-Library.AList" "HOL-Library.Sublist"
begin

text \<open>
  Shared ground of the development: the fact collections the components add to, the generic
  lemmas on lists, options and association lists they use, and the JavaScript operators that
  have no state of their own (\<open>??\<close>, \<open>&&\<close> before a JSX element, \<open>Array.prototype.find\<close>,
  \<open>array.map((x, i) => \<dots>)\<close>).
\<close>

named_theorems site_data \<open>field equations of the shipped content constants\<close>
named_theorems site_shape \<open>structural facts of the shipped content, used by the navigation proofs\<close>

section \<open>Operators of the language\<close>

text \<open>\<open>a ?? b\<close>, with \<open>None\<close> for \<open>undefined\<close>.\<close>

definition nullish :: "'a option \<Rightarrow> 'a option \<Rightarrow> 'a option" where
  "nullish a b = (case a of None \<Rightarrow> b | Some x \<Rightarrow> Some x)"

lemma nullish_simps [simp]:
  "nullish None b = b" "nullish (Some x) b = Some x" "nullish a None = a"
  by (simp_all add: nullish_def split: option.splits)

text \<open>\<open>{cond && element}\<close> among JSX children: nothing is rendered when the condition fails.\<close>

definition show_if :: "bool \<Rightarrow> 'a list \<Rightarrow> 'a list" where
  "show_if b xs = (if b then xs else [])"

lemma show_if_simps [simp]: "show_if True xs = xs" "show_if False xs = []"
  by (simp_all add: show_if_def)

lemma set_show_if: "set (show_if b xs) = (if b then set xs else {})"
  by (simp add: show_if_def)

text \<open>\<open>xs.map((x, i) => f x i)\<close>.\<close>

definition map_idx :: "('a \<Rightarrow> nat \<Rightarrow> 'b) \<Rightarrow> 'a list \<Rightarrow> 'b list" where
  "map_idx f xs = map (\<lambda>(i, x). f x i) (enumerate 0 xs)"

lemma length_map_idx [simp]: "length (map_idx f xs) = length xs"
  by (simp add: map_idx_def)

lemma nth_map_idx [simp]: "i < length xs \<Longrightarrow> map_idx f xs ! i = f (xs ! i) i"
  by (simp add: map_idx_def nth_enumerate_eq)

lemma map_idx_Nil [simp]: "map_idx f [] = []"
  by (simp add: map_idx_def)

lemma map_idx_Cons [simp]: "map_idx f (x # xs) = f x 0 # map_idx (\<lambda>y i. f y (Suc i)) xs"
proof -
  have "map (\<lambda>(i, x). f x i) (enumerate (Suc 0) xs) = map (\<lambda>(i, y). f y (Suc i)) (enumerate 0 xs)"
    by (rule nth_equalityI) (simp_all add: nth_enumerate_eq)
  then show ?thesis by (simp add: map_idx_def)
qed

lemma set_map_idx: "set (map_idx f xs) = {f (xs ! i) i | i. i < length xs}"
  by (force simp: set_conv_nth)

lemma map_map_idx: "map g (map_idx f xs) = map_idx (\<lambda>x i. g (f x i)) xs"
  by (rule nth_equalityI) simp_all

section \<open>Lists and association lists\<close>

lemma find_map_distinct:
  "distinct (map f xs) \<Longrightarrow> x \<in> set xs \<Longrightarrow> List.find (\<lambda>y. f y = f x) xs = Some x"
  by (induction xs) auto

lemma find_upt_nth:
  assumes "map f xs = [1..<Suc (length xs)]" and "k < length xs"
  shows "List.find (\<lambda>y. f y = Suc k) xs = Some (xs ! k)"
proof -
  have "f (xs ! k) = map f xs ! k" using assms(2) by simp
  also have "\<dots> = Suc k" using assms by (simp add: nth_upt del: upt_Suc)
  finally have "f (xs ! k) = Suc k" .
  moreover have "distinct (map f xs)" using assms(1) by (simp del: upt_Suc)
  ultimately show ?thesis using find_map_distinct [of f xs "xs ! k"] assms(2) by simp
qed

lemma find_upt_None:
  assumes "map f xs = [1..<Suc (length xs)]" and "k = 0 \<or> length xs < k"
  shows "List.find (\<lambda>y. f y = k) xs = None"
proof -
  have "set (map f xs) = {1..length xs}" using assms(1) by (auto simp del: upt_Suc)
  then have "f y \<noteq> k" if "y \<in> set xs" for y
    using that assms(2) by (metis atLeastAtMost_iff image_eqI linorder_not_le list.set_map not_one_le_zero)
  then show ?thesis by (auto simp: find_None_iff)
qed

lemma find_Some_set: "List.find P xs = Some x \<Longrightarrow> x \<in> set xs \<and> P x"
  by (metis find_Some_iff nth_mem)

lemma map_of_keys_cong: "map fst xs = map fst ys \<Longrightarrow> (map_of xs k \<noteq> None) = (map_of ys k \<noteq> None)"
  by (metis list.set_map map_of_eq_None_iff)

lemma nth_cong_map: "map f xs = map g ys \<Longrightarrow> i < length xs \<Longrightarrow> f (xs ! i) = g (ys ! i)"
  by (metis length_map nth_map)

lemma nth_map_update:
  assumes "map f ps = (map g cs) [k := d]" and "i < length cs" and "i \<noteq> k"
  shows "f (ps ! i) = g (cs ! i)"
  using assms by (metis length_list_update length_map nth_list_update_neq nth_map)

lemma map_of_upt_nth:
  assumes "map fst cs = [0..<n]" and "i < length cs" and "map_of cs i = Some c"
  shows "cs ! i = (i, c)"
proof -
  have n: "n = length cs" using assms(1) by (metis diff_zero length_map length_upt)
  have "distinct (map fst cs)" "(fst (cs ! i), snd (cs ! i)) \<in> set cs" using assms by simp_all
  then have "map_of cs (fst (cs ! i)) = Some (snd (cs ! i))" by (rule map_of_is_SomeI)
  moreover have "fst (cs ! i) = i" using assms n by (metis add_0 nth_map nth_upt)
  ultimately show ?thesis using assms(3) by (metis option.inject prod.collapse)
qed

end
