(* ===== verification/Js_String.thy ===== *)
theory Js_String
  imports Prelude
begin

text \<open>
  JavaScript strings: sequences of UTF-16 code units (\<open>16 word list\<close>), with the operations of
  \<open>String.prototype\<close> and \<open>RegExp\<close> that the web site calls. String constants of the source are
  written as ASCII text; a character outside ASCII, a quote, a backslash or a percent sign is
  written in the form of JavaScript's \<open>escape\<close> function (\<open>%uXXXX\<close> or \<open>%XX\<close>), which
  \<open>js\<close> decodes; a run of one such character (the rules of the box drawings) is written
  \<open>%rNNXXXX\<close>, the hexadecimal count before the code unit. \<open>jcat\<close> joins the pieces of a long literal, \<open>jlines\<close> the lines of a
  template literal.
\<close>

type_synonym jstring = "16 word list"

section \<open>String constants\<close>

definition hex_digit :: "char \<Rightarrow> nat" where
  "hex_digit c = (let n = of_char c in
     if 48 \<le> n \<and> n \<le> 57 then n - 48 else if 97 \<le> n \<and> n \<le> 102 then n - 87
     else if 65 \<le> n \<and> n \<le> 70 then n - 55 else 0)"

definition hex_value :: "char list \<Rightarrow> nat" where
  "hex_value cs = foldl (\<lambda>v c. 16 * v + hex_digit c) 0 cs"

definition hex_unit :: "char list \<Rightarrow> 16 word" where
  "hex_unit cs = of_nat (hex_value cs)"

function unescape :: "char list \<Rightarrow> jstring" where
  "unescape [] = []"
| "unescape (c # cs) =
    (if c \<noteq> CHR ''%'' then of_char c # unescape cs
     else if take 1 cs = ''u'' then hex_unit (take 4 (drop 1 cs)) # unescape (drop 5 cs)
     else if take 1 cs = ''r'' then
       replicate (hex_value (take 2 (drop 1 cs))) (hex_unit (take 4 (drop 3 cs)))
         @ unescape (drop 7 cs)
     else hex_unit (take 2 cs) # unescape (drop 2 cs))"
  by pat_completeness auto
termination
  by (relation "measure length") auto

definition js :: "string \<Rightarrow> jstring" where
  "js s = unescape s"

definition jcat :: "string list \<Rightarrow> jstring" where
  "jcat ss = concat (map js ss)"

definition newline :: "16 word" where
  "newline = 10"

fun jlines :: "string list \<Rightarrow> jstring" where
  "jlines [] = []"
| "jlines [s] = js s"
| "jlines (s # ss) = js s @ newline # jlines ss"

declare jlines.simps [simp del]

text \<open>
  The simplifier leaves string constants alone unless a proof unfolds them: the weak congruence
  rules keep it out of the literals, and two constants are compared by decoding both.
\<close>

lemma js_cong [cong]: "js s = js s" ..
lemma jcat_cong [cong]: "jcat s = jcat s" ..
lemma jlines_cong [cong]: "jlines s = jlines s" ..

lemma js_eq_iff [simp]: "js s = js t \<longleftrightarrow> unescape s = unescape t"
  by (simp add: js_def)

end
