(* ===== verification/Js_Number.thy ===== *)
theory Js_Number
  imports Js_String
begin

text \<open>
  JavaScript numbers as the web site uses them: the value of \<open>Number(s)\<close> on a route parameter,
  \<open>String(n)\<close> in a template literal, \<open>===\<close>, \<open><\<close>, \<open>+\<close>, \<open>-\<close> and array indexing. A
  finite number is the rational value of its binary64 datum, so \<open>0\<close> and \<open>-0\<close> are one value:
  \<open>===\<close>, the comparisons, property keys and text conversion cannot tell them apart, and the site
  uses nothing else.
\<close>

datatype jsnum = NaN | Infinity | NegInfinity | Fin rat

section \<open>Rounding to binary64\<close>

fun bitlen :: "nat \<Rightarrow> nat" where
  "bitlen n = (if n = 0 then 0 else Suc (bitlen (n div 2)))"

declare bitlen.simps [simp del]

text \<open>\<open>floor_log2 n d\<close> is the integer \<open>k\<close> with \<open>2^k \<le> n/d < 2^(k+1)\<close>, for positive \<open>n\<close>, \<open>d\<close>.\<close>

definition pow2 :: "int \<Rightarrow> rat" where
  "pow2 k = (if 0 \<le> k then 2 ^ nat k else 1 / 2 ^ nat (- k))"

definition floor_log2 :: "nat \<Rightarrow> nat \<Rightarrow> int" where
  "floor_log2 n d = (let a = int (bitlen n) - int (bitlen d) in
     if of_nat d * pow2 a \<le> of_nat n then a else a - 1)"

text \<open>Round half to even, of the fraction \<open>n/d\<close>.\<close>

definition round_even :: "nat \<Rightarrow> nat \<Rightarrow> nat" where
  "round_even n d = (let f = n div d; r = n mod d in
     if 2 * r < d \<or> (2 * r = d \<and> even f) then f else f + 1)"

text \<open>
  The nearest binary64 datum of the non-negative fraction \<open>n/d\<close>: 53 significant bits, the
  exponent not below \<open>-1074\<close> (subnormal numbers), infinity from \<open>2^1024\<close> on.
\<close>

definition round_double :: "nat \<Rightarrow> nat \<Rightarrow> jsnum" where
  "round_double n d = (if n = 0 then Fin 0 else
     let e = max (floor_log2 n d - 52) (- 1074);
         m = (if 0 \<le> e then round_even n (d * 2 ^ nat e) else round_even (n * 2 ^ nat (- e)) d);
         v = of_nat m * pow2 e
     in if 2 ^ 1024 \<le> v then Infinity else Fin v)"

fun num_neg :: "jsnum \<Rightarrow> jsnum" where
  "num_neg NaN = NaN"
| "num_neg Infinity = NegInfinity"
| "num_neg NegInfinity = Infinity"
| "num_neg (Fin q) = Fin (- q)"

definition round_rat :: "rat \<Rightarrow> jsnum" where
  "round_rat q = (let (n, d) = quotient_of q in
     if n < 0 then num_neg (round_double (nat (- n)) (nat d)) else round_double (nat n) (nat d))"

section \<open>Arithmetic and comparison\<close>

fun num_add :: "jsnum \<Rightarrow> jsnum \<Rightarrow> jsnum" where
  "num_add (Fin a) (Fin b) = round_rat (a + b)"
| "num_add NaN _ = NaN"
| "num_add _ NaN = NaN"
| "num_add Infinity NegInfinity = NaN"
| "num_add NegInfinity Infinity = NaN"
| "num_add Infinity _ = Infinity"
| "num_add _ Infinity = Infinity"
| "num_add NegInfinity _ = NegInfinity"
| "num_add _ NegInfinity = NegInfinity"

definition num_sub :: "jsnum \<Rightarrow> jsnum \<Rightarrow> jsnum" where
  "num_sub a b = num_add a (num_neg b)"

text \<open>\<open>a === b\<close> and \<open>a < b\<close>: both false when an operand is \<open>NaN\<close>.\<close>

fun num_eq :: "jsnum \<Rightarrow> jsnum \<Rightarrow> bool" where
  "num_eq NaN _ = False"
| "num_eq a b = (a = b)"

fun num_less :: "jsnum \<Rightarrow> jsnum \<Rightarrow> bool" where
  "num_less (Fin a) (Fin b) = (a < b)"
| "num_less (Fin _) Infinity = True"
| "num_less NegInfinity (Fin _) = True"
| "num_less NegInfinity Infinity = True"
| "num_less _ _ = False"

definition num_of :: "nat \<Rightarrow> jsnum" where
  "num_of n = Fin (of_nat n)"

section \<open>String(n)\<close>

fun nat_str :: "nat \<Rightarrow> jstring" where
  "nat_str n = (if n < 10 then [48 + of_nat n] else nat_str (n div 10) @ [48 + of_nat (n mod 10)])"

declare nat_str.simps [simp del]

text \<open>
  The decimal text of an integral number below \<open>10^21\<close>. Fractions and larger numbers print in
  forms no page shows (a page prints only numbers that name one of its lessons): they are \<open>None\<close>.
\<close>

fun num_str :: "jsnum \<Rightarrow> jstring option" where
  "num_str NaN = Some (js ''NaN'')"
| "num_str Infinity = Some (js ''Infinity'')"
| "num_str NegInfinity = Some (js ''-Infinity'')"
| "num_str (Fin q) = (let (n, d) = quotient_of q in
     if d = 1 \<and> \<bar>n\<bar> < 10 ^ 21
     then Some ((if n < 0 then js ''-'' else []) @ nat_str (nat \<bar>n\<bar>)) else None)"

text \<open>
  A number among JSX children or in a template literal. The branch without a text form is never
  printed: the pages convert only numbers that name a lesson, and those next to them.
\<close>

definition num_text :: "jsnum \<Rightarrow> jstring" where
  "num_text n = (case num_str n of Some s \<Rightarrow> s | None \<Rightarrow> [])"

section \<open>Number(s)\<close>

text \<open>\<open>WhiteSpace\<close> and \<open>LineTerminator\<close> code units, stripped from both ends.\<close>

definition is_space :: "16 word \<Rightarrow> bool" where
  "is_space c \<longleftrightarrow> c \<in> {0x9, 0xA, 0xB, 0xC, 0xD, 0x20, 0xA0, 0x1680, 0x2028, 0x2029, 0x202F,
     0x205F, 0x3000, 0xFEFF} \<or> (0x2000 \<le> c \<and> c \<le> 0x200A)"

definition js_trim :: "jstring \<Rightarrow> jstring" where
  "js_trim s = rev (dropWhile is_space (rev (dropWhile is_space s)))"

definition digit_of :: "16 word \<Rightarrow> nat option" where
  "digit_of c = (if 48 \<le> c \<and> c \<le> 57 then Some (unat c - 48)
     else if 97 \<le> c \<and> c \<le> 102 then Some (unat c - 87)
     else if 65 \<le> c \<and> c \<le> 70 then Some (unat c - 55) else None)"

fun radix_value :: "nat \<Rightarrow> nat \<Rightarrow> jstring \<Rightarrow> nat option" where
  "radix_value b acc [] = Some acc"
| "radix_value b acc (c # cs) = (case digit_of c of
     Some d \<Rightarrow> if d < b then radix_value b (b * acc + d) cs else None
   | None \<Rightarrow> None)"

definition is_digit :: "16 word \<Rightarrow> bool" where
  "is_digit c \<longleftrightarrow> 48 \<le> c \<and> c \<le> 57"

definition split_sign :: "jstring \<Rightarrow> bool \<times> jstring" where
  "split_sign s = (case s of c # cs \<Rightarrow> if c = 43 then (False, cs) else if c = 45 then (True, cs)
     else (False, s) | [] \<Rightarrow> (False, s))"

text \<open>The exponent part: nothing, or \<open>e\<close> or \<open>E\<close>, a sign and at least one digit.\<close>

definition parse_exponent :: "jstring \<Rightarrow> int option" where
  "parse_exponent s = (case s of [] \<Rightarrow> Some 0
   | c # cs \<Rightarrow> if c = 101 \<or> c = 69 then (let (neg, ds) = split_sign cs in
       if ds \<noteq> [] \<and> list_all is_digit ds
       then map_option (\<lambda>v. if neg then - int v else int v) (radix_value 10 0 ds) else None)
     else None)"

text \<open>\<open>StrUnsignedDecimalLiteral\<close>: the digits \<open>m\<close> and the exponent \<open>x\<close> of \<open>m * 10^x\<close>.\<close>

definition parse_decimal :: "jstring \<Rightarrow> (nat \<times> int) option" where
  "parse_decimal s = (
     let ip = takeWhile is_digit s; r = dropWhile is_digit s;
         dot = (r \<noteq> [] \<and> hd r = 46);
         fp = (if dot then takeWhile is_digit (tl r) else []);
         r' = (if dot then dropWhile is_digit (tl r) else r)
     in if ip @ fp = [] then None
        else case (radix_value 10 0 (ip @ fp), parse_exponent r') of
          (Some m, Some x) \<Rightarrow> Some (m, x - int (length fp)) | _ \<Rightarrow> None)"

definition scaled :: "nat \<Rightarrow> int \<Rightarrow> jsnum" where
  "scaled m x = (if 0 \<le> x then round_double (m * 10 ^ nat x) 1 else round_double m (10 ^ nat (- x)))"

definition parse_str_decimal :: "jstring \<Rightarrow> jsnum" where
  "parse_str_decimal s = (let (neg, u) = split_sign s;
     v = (if u = js ''Infinity'' then Infinity
          else case parse_decimal u of None \<Rightarrow> NaN | Some (m, x) \<Rightarrow> scaled m x)
     in if neg then num_neg v else v)"

definition parse_radix :: "nat \<Rightarrow> jstring \<Rightarrow> jsnum" where
  "parse_radix b ds = (if ds = [] then NaN
     else case radix_value b 0 ds of None \<Rightarrow> NaN | Some v \<Rightarrow> round_double v 1)"

definition Number :: "jstring \<Rightarrow> jsnum" where
  "Number s = (let u = js_trim s; p = take 2 u in
     if u = [] then Fin 0
     else if p = js ''0x'' \<or> p = js ''0X'' then parse_radix 16 (drop 2 u)
     else if p = js ''0o'' \<or> p = js ''0O'' then parse_radix 8 (drop 2 u)
     else if p = js ''0b'' \<or> p = js ''0B'' then parse_radix 2 (drop 2 u)
     else parse_str_decimal u)"

section \<open>Array indexing\<close>

text \<open>\<open>xs[n]\<close>: the element when \<open>n\<close> is an index of the array, \<open>undefined\<close> otherwise.\<close>

fun arr_get :: "'a list \<Rightarrow> jsnum \<Rightarrow> 'a option" where
  "arr_get xs (Fin q) = (let (n, d) = quotient_of q in
     if d = 1 \<and> 0 \<le> n \<and> nat n < length xs then Some (xs ! nat n) else None)"
| "arr_get xs _ = None"

text \<open>\<open>Number.isSafeInteger\<close>, for natural numbers.\<close>

definition safe_integer :: "nat \<Rightarrow> bool" where
  "safe_integer n \<longleftrightarrow> n < 2 ^ 53"

section \<open>Exactness on integers\<close>

lemma num_of_inject [simp]: "num_of a = num_of b \<longleftrightarrow> a = b"
  by (simp add: num_of_def)

lemma num_of_neq [simp]: "num_of n \<noteq> NaN" "num_of n \<noteq> Infinity" "num_of n \<noteq> NegInfinity"
  by (simp_all add: num_of_def)

lemma bitlen_le: "n < 2 ^ k \<Longrightarrow> bitlen n \<le> k"
proof (induction k arbitrary: n)
  case 0
  then show ?case by (simp add: bitlen.simps)
next
  case (Suc k)
  from Suc.prems have "n div 2 < 2 ^ k" by auto
  then have "bitlen (n div 2) \<le> k" by (rule Suc.IH)
  then show ?case by (simp add: bitlen.simps [of n])
qed

lemma bitlen_pos: "0 < n \<Longrightarrow> 0 < bitlen n"
  by (simp add: bitlen.simps [of n])

lemma bitlen_1 [simp]: "bitlen (Suc 0) = 1"
  by (simp add: bitlen.simps)

lemma round_even_1 [simp]: "round_even n (Suc 0) = n"
  by (simp add: round_even_def)

lemma pow2_cancel: "e \<le> 0 \<Longrightarrow> 2 ^ nat (- e) * pow2 e = 1"
  by (auto simp: pow2_def)

lemma floor_log2_bounds:
  assumes "0 < n" "n < 2 ^ 53"
  shows "- 1 \<le> floor_log2 n 1" "floor_log2 n 1 \<le> 52"
  using bitlen_le [OF assms(2)] bitlen_pos [OF assms(1)]
  by (auto simp: floor_log2_def Let_def)

text \<open>An integer below \<open>2^53\<close> is a binary64 datum: rounding leaves it alone.\<close>

lemma round_double_nat:
  assumes "n < 2 ^ 53"
  shows "round_double n 1 = num_of n"
proof (cases "n = 0")
  case True
  then show ?thesis by (simp add: round_double_def num_of_def)
next
  case False
  define e where "e = max (floor_log2 n 1 - 52) (- 1074)"
  have e: "e \<le> 0" using floor_log2_bounds [of n] False assms by (simp add: e_def)
  have m: "(if 0 \<le> e then round_even n (1 * 2 ^ nat e) else round_even (n * 2 ^ nat (- e)) 1)
      = n * 2 ^ nat (- e)" using e by (auto simp: round_even_def)
  have v: "of_nat (n * 2 ^ nat (- e)) * pow2 e = (of_nat n :: rat)"
    using pow2_cancel [OF e] by (simp add: mult.assoc)
  have "(of_nat n :: rat) < of_nat (2 ^ 53)" using assms by (simp only: of_nat_less_iff)
  also have "\<dots> \<le> 2 ^ 1024" by simp
  finally have "\<not> 2 ^ 1024 \<le> (of_nat n :: rat)" by simp
  then show ?thesis
    using False by (simp only: round_double_def Let_def e_def [symmetric] m v if_False num_of_def)
qed

text \<open>Rounding to an integer is to the nearest one: the error is at most one half.\<close>

lemma round_even_nearest:
  assumes "0 < d"
  shows "2 * \<bar>int (round_even n d * d) - int n\<bar> \<le> int d"
proof -
  have "n mod d < d" using assms by simp
  have eq: "int n = int (n div d) * int d + int (n mod d)"
    by (metis div_mult_mod_eq of_nat_add of_nat_mult)
  have r: "int (n mod d) < int d" using assms by simp
  show ?thesis
    unfolding round_even_def Let_def using eq r
    by (auto simp: algebra_simps)
qed

lemma quotient_of_nat [simp]: "quotient_of (of_nat n) = (int n, 1)"
  using quotient_of_int [of "int n"] by simp

lemma safe_integer_le: "safe_integer n \<Longrightarrow> m \<le> n \<Longrightarrow> safe_integer m"
  unfolding safe_integer_def by (rule le_less_trans)

lemma round_rat_nat: "safe_integer n \<Longrightarrow> round_rat (of_nat n) = num_of n"
  unfolding safe_integer_def by (drule round_double_nat) (simp add: round_rat_def)

lemma num_add_nat: "safe_integer (a + b) \<Longrightarrow> num_add (num_of a) (num_of b) = num_of (a + b)"
  by (drule round_rat_nat) (simp add: num_of_def)

lemma num_sub_nat:
  assumes "b \<le> a" "safe_integer a"
  shows "num_sub (num_of a) (num_of b) = num_of (a - b)"
proof -
  have "(of_nat a + - of_nat b :: rat) = of_nat (a - b)" using assms(1) by (simp add: of_nat_diff)
  moreover have "round_rat (of_nat (a - b)) = num_of (a - b)"
    by (rule round_rat_nat) (rule safe_integer_le [OF assms(2)], simp)
  ultimately show ?thesis by (simp only: num_sub_def num_of_def num_neg.simps num_add.simps)
qed

lemma num_less_nat [simp]: "num_less (num_of a) (num_of b) \<longleftrightarrow> a < b"
  by (simp add: num_of_def)

lemma num_eq_nat [simp]: "num_eq (num_of a) (num_of b) \<longleftrightarrow> a = b"
  by (simp add: num_of_def)

lemma num_eq_iff: "num_eq a b \<longleftrightarrow> a \<noteq> NaN \<and> a = b"
  by (cases a) auto

lemma num_str_nat: "n < 10 ^ 21 \<Longrightarrow> num_str (num_of n) = Some (nat_str n)"
proof -
  assume "n < 10 ^ 21"
  then have "int n < int (10 ^ 21)" by (simp only: of_nat_less_iff)
  then show ?thesis by (simp add: num_of_def)
qed

lemma num_text_nat: "safe_integer n \<Longrightarrow> num_text (num_of n) = nat_str n"
proof -
  assume "safe_integer n"
  moreover have "(2 ^ 53 :: nat) \<le> 10 ^ 21" by simp
  ultimately have "n < 10 ^ 21" unfolding safe_integer_def by (rule less_le_trans)
  then show ?thesis by (simp add: num_text_def num_str_nat)
qed

lemma arr_get_nat [simp]: "arr_get xs (num_of n) = (if n < length xs then Some (xs ! n) else None)"
  by (simp add: num_of_def)

section \<open>Number(String(n)) = n\<close>

lemma nat_str_not_Nil [simp]: "nat_str n \<noteq> []"
  by (simp add: nat_str.simps [of n])

lemma digit_unit:
  assumes "d < 10"
  shows "is_digit (48 + of_nat d)" "digit_of (48 + of_nat d) = Some d"
proof -
  have u: "unat (48 + of_nat d :: 16 word) = 48 + d"
    using assms by (simp add: unat_word_ariths unat_of_nat)
  show "is_digit (48 + of_nat d)"
    using u assms by (simp add: is_digit_def word_le_nat_alt)
  then show "digit_of (48 + of_nat d) = Some d"
    using u by (simp add: digit_of_def is_digit_def)
qed

lemma nat_str_digits: "list_all is_digit (nat_str n)"
proof (induction n rule: nat_str.induct)
  case (1 n)
  then show ?case by (cases "n < 10") (simp_all add: nat_str.simps [of n] digit_unit)
qed

lemma radix_value_append:
  "radix_value b acc (xs @ ys) = Option.bind (radix_value b acc xs) (\<lambda>v. radix_value b v ys)"
  by (induction xs arbitrary: acc) (auto split: option.splits)

lemma radix_value_nat_str: "radix_value 10 0 (nat_str n) = Some n"
proof (induction n rule: nat_str.induct)
  case (1 n)
  show ?case
  proof (cases "n < 10")
    case True
    then show ?thesis by (simp add: nat_str.simps [of n] digit_unit)
  next
    case False
    with 1 show ?thesis by (simp add: nat_str.simps [of n] radix_value_append digit_unit)
  qed
qed

lemma digit_facts:
  assumes "is_digit c"
  shows "\<not> is_space c" "c \<noteq> 43" "c \<noteq> 45" "c \<noteq> 46" "c \<noteq> of_char CHR ''I''"
    "c \<noteq> 120" "c \<noteq> 88" "c \<noteq> 111" "c \<noteq> 79" "c \<noteq> 98" "c \<noteq> 66"
  using assms by (auto simp: is_digit_def is_space_def word_le_nat_alt)

lemma js_trim_digits: "list_all is_digit s \<Longrightarrow> js_trim s = s"
proof -
  assume s: "list_all is_digit s"
  then have "dropWhile is_space s = s" "dropWhile is_space (rev s) = rev s"
    by (auto simp: dropWhile_eq_self_iff list_all_iff digit_facts hd_rev)
  then show ?thesis by (simp add: js_trim_def)
qed

lemma parse_decimal_digits:
  assumes "list_all is_digit s" "s \<noteq> []" "radix_value 10 0 s = Some n"
  shows "parse_decimal s = Some (n, 0)"
proof -
  have tw: "takeWhile is_digit s = s" and dw: "dropWhile is_digit s = []"
    using assms(1) by (auto simp: list_all_iff takeWhile_eq_all_conv dropWhile_eq_Nil_conv)
  show ?thesis
    using assms(2,3) by (simp add: parse_decimal_def parse_exponent_def Let_def tw dw)
qed

lemma Number_digits:
  assumes "list_all is_digit s" "s \<noteq> []" "radix_value 10 0 s = Some n" "safe_integer n"
  shows "Number s = num_of n"
proof -
  obtain c cs where s: "s = c # cs" using assms(2) by (cases s) auto
  have c: "is_digit c" and cs: "list_all is_digit cs" using assms(1) by (simp_all add: s)
  have prefix: "take 2 s \<noteq> js ''0x''" "take 2 s \<noteq> js ''0X''" "take 2 s \<noteq> js ''0o''"
      "take 2 s \<noteq> js ''0O''" "take 2 s \<noteq> js ''0b''" "take 2 s \<noteq> js ''0B''"
    using cs by (cases cs; simp add: s js_def digit_facts; fail)+
  have sign: "split_sign s = (False, s)" using c by (simp add: s split_sign_def digit_facts)
  have "s \<noteq> js ''Infinity''" using digit_facts(5) [OF c] by (auto simp: s js_def)
  moreover have "parse_decimal s = Some (n, 0)"
    using assms(1-3) by (rule parse_decimal_digits)
  ultimately show ?thesis
    using js_trim_digits [OF assms(1)] prefix sign round_double_nat [OF assms(4) [unfolded safe_integer_def]] assms(2)
    by (simp add: Number_def parse_str_decimal_def scaled_def)
qed

lemma Number_nat_str: "safe_integer n \<Longrightarrow> Number (nat_str n) = num_of n"
  by (rule Number_digits) (simp_all add: nat_str_digits radix_value_nat_str)

text \<open>The numbers of phases and lessons are far below the bounds.\<close>

lemma safe_small: "n \<le> 10 \<Longrightarrow> safe_integer n"
  by (simp add: safe_integer_def)

lemma num_text_small: "n \<le> 10 \<Longrightarrow> num_text (num_of n) = nat_str n"
  by (simp add: num_text_nat safe_small)

lemma Number_small: "n \<le> 10 \<Longrightarrow> Number (nat_str n) = num_of n"
  by (simp add: Number_nat_str safe_small)

end
