(* ===== verification/Js_Object.thy ===== *)
theory Js_Object
  imports Js_Number
begin

text \<open>
  Object literals used as lookup tables. Reading \<open>obj[key]\<close> or asking \<open>key in obj\<close> looks at the
  own properties first and then at \<open>Object.prototype\<close>, which every object literal inherits from:
  a value found there is a built-in function or object, never an entry of the table. Calling a method
  that such a value does not have throws a \<open>TypeError\<close>.
\<close>

datatype js_error = TypeError | ContextError

datatype 'v jsval = Own 'v | Inherited jstring

definition object_prototype :: "jstring list" where
  "object_prototype = map js [''constructor'', ''__defineGetter__'', ''__defineSetter__'',
     ''hasOwnProperty'', ''__lookupGetter__'', ''__lookupSetter__'', ''isPrototypeOf'',
     ''propertyIsEnumerable'', ''toString'', ''valueOf'', ''__proto__'', ''toLocaleString'']"

type_synonym 'v obj = "(jstring \<times> 'v) list"

definition prop_get :: "'v obj \<Rightarrow> jstring \<Rightarrow> 'v jsval option" where
  "prop_get obj k = (case map_of obj k of
     Some v \<Rightarrow> Some (Own v)
   | None \<Rightarrow> if k \<in> set object_prototype then Some (Inherited k) else None)"

text \<open>
  The names a built-in found on \<open>Object.prototype\<close> answers to itself, by ECMAScript 2020 (the target
  of the build): all of them are functions except \<open>__proto__\<close>, which is \<open>Object.prototype\<close> and
  whose own \<open>__proto__\<close> is \<open>null\<close>; \<open>constructor\<close> is the function \<open>Object\<close>.
\<close>

definition function_members :: "jstring list" where
  "function_members = map js [''length'', ''name'', ''apply'', ''bind'', ''call'', ''caller'', ''arguments'']"

definition object_members :: "jstring list" where
  "object_members = map js [''prototype'', ''assign'', ''create'', ''defineProperties'',
     ''defineProperty'', ''entries'', ''freeze'', ''fromEntries'', ''getOwnPropertyDescriptor'',
     ''getOwnPropertyDescriptors'', ''getOwnPropertyNames'', ''getOwnPropertySymbols'',
     ''getPrototypeOf'', ''is'', ''isExtensible'', ''isFrozen'', ''isSealed'', ''keys'',
     ''preventExtensions'', ''seal'', ''setPrototypeOf'', ''values'']"

definition builtin_members :: "jstring \<Rightarrow> jstring list" where
  "builtin_members n = (
     if n = js ''__proto__'' then removeAll (js ''__proto__'') object_prototype
     else object_prototype @ function_members @ (if n = js ''constructor'' then object_members else []))"

text \<open>
  \<open>v?.[k]\<close> for a value read from a table of tables: \<open>undefined\<close> has no members, an entry is an
  object literal, a built-in answers to its members with a value that is not an entry either.
\<close>

definition member_get :: "'v obj jsval option \<Rightarrow> jstring \<Rightarrow> 'v jsval option" where
  "member_get v k = (case v of
     None \<Rightarrow> None
   | Some (Own obj) \<Rightarrow> prop_get obj k
   | Some (Inherited n) \<Rightarrow> if k \<in> set (builtin_members n) then Some (Inherited k) else None)"

text \<open>The names with a dot, such as all message keys of the site.\<close>

definition dotted :: "jstring \<Rightarrow> bool" where
  "dotted k \<longleftrightarrow> 46 \<in> set k"

definition prop_in :: "jstring \<Rightarrow> 'v obj \<Rightarrow> bool" where
  "prop_in k obj \<longleftrightarrow> prop_get obj k \<noteq> None"

text \<open>
  \<open>obj[key]?.[n]\<close> where the table's entries are tables with integer keys and \<open>n\<close> is a number. The
  second lookup on a built-in finds nothing: no built-in has a property whose name is the text of a
  number.
\<close>

definition opt_member :: "'v jsval option \<Rightarrow> ('v \<Rightarrow> 'w option) \<Rightarrow> 'w option" where
  "opt_member v f = (case v of Some (Own x) \<Rightarrow> f x | _ \<Rightarrow> None)"

text \<open>
  A table with integer keys, read with a number. The key is the text of the number, so a fraction,
  \<open>NaN\<close> or an infinity names no entry, and no inherited property either.
\<close>

fun num_get :: "(nat \<times> 'v) list \<Rightarrow> jsnum \<Rightarrow> 'v option" where
  "num_get obj (Fin q) = (let (n, d) = quotient_of q in
     if d = 1 \<and> 0 \<le> n then map_of obj (nat n) else None)"
| "num_get obj _ = None"

section \<open>Lookup laws\<close>

lemma num_get_nat [simp]: "num_get obj (num_of n) = map_of obj n"
  by (simp add: num_of_def)

declare num_get.simps [simp del]

lemma num_get_Some:
  assumes "num_get obj x = Some v"
  shows "\<exists>n. x = num_of n \<and> map_of obj n = Some v"
proof (cases x)
  case (Fin q)
  obtain n d where q: "quotient_of q = (n, d)" by (cases "quotient_of q") auto
  with assms have "d = 1" "0 \<le> n" "map_of obj (nat n) = Some v"
    by (auto simp: Fin num_get.simps split: if_splits)
  moreover from this q have "q = of_nat (nat n)"
    using quotient_of_div [OF q] by (simp add: of_nat_nat)
  ultimately show ?thesis unfolding Fin num_of_def by blast
qed (use assms in \<open>simp_all add: num_get.simps\<close>)

lemma num_get_keys: "num_get obj k \<noteq> None \<longleftrightarrow> k \<in> num_of ` fst ` set obj"
proof
  assume "num_get obj k \<noteq> None"
  then obtain v where "num_get obj k = Some v" by blast
  from num_get_Some [OF this] obtain n where n: "k = num_of n" "map_of obj n = Some v" by blast
  show "k \<in> num_of ` fst ` set obj"
    unfolding n(1) using map_of_SomeD [OF n(2)] by (intro imageI) (metis fst_conv imageI)
next
  assume "k \<in> num_of ` fst ` set obj"
  then obtain n where n: "n \<in> fst ` set obj" and k: "k = num_of n" by blast
  show "num_get obj k \<noteq> None" unfolding k using n by (simp add: map_of_eq_None_iff)
qed

lemma prop_in_iff: "prop_in k obj \<longleftrightarrow> k \<in> fst ` set obj \<or> k \<in> set object_prototype"
  using map_of_eq_None_iff [of obj k]
  by (cases "map_of obj k") (simp_all add: prop_in_def prop_get_def)

lemma opt_member_simps [simp]:
  "opt_member None f = None" "opt_member (Some (Own x)) f = f x"
  "opt_member (Some (Inherited k)) f = None"
  by (simp_all add: opt_member_def)

lemma prop_get_None: "prop_get obj k = None \<longleftrightarrow> k \<notin> fst ` set obj \<union> set object_prototype"
  using map_of_eq_None_iff [of obj k] by (auto simp: prop_get_def split: option.splits)

text \<open>No built-in has a member whose name contains a dot.\<close>

lemma builtin_not_dotted: "k \<in> set object_prototype \<union> set (builtin_members n) \<Longrightarrow> \<not> dotted k"
  by (auto simp: builtin_members_def object_prototype_def function_members_def object_members_def
      dotted_def js_def split: if_splits)

lemma prop_get_dotted: "dotted k \<Longrightarrow> prop_get obj k = map_option Own (map_of obj k)"
  using builtin_not_dotted [of k] by (auto simp: prop_get_def split: option.splits)

lemma member_get_dotted:
  "dotted k \<Longrightarrow> member_get (prop_get tab l) k =
     Option.bind (map_of tab l) (\<lambda>obj. map_option Own (map_of obj k))"
  using builtin_not_dotted [of k l] prop_get_dotted [of k]
  by (auto simp: member_get_def prop_get_def [of tab l] split: option.splits)

lemma opt_member_map_of: "opt_member (prop_get obj k) f = Option.bind (map_of obj k) f"
  by (simp add: prop_get_def split: option.splits)

end
