(* ===== verification/Localized.thy ===== *)
theory Localized
  imports Js_Object
begin

text \<open>
  The interface every translated table of the site offers to its readers: a lookup that answers from
  the table of the current locale and otherwise from one fixed fallback locale. The providers are the
  lesson content (\<open>data/index.ts\<close>) and the message dictionaries (\<open>i18n/LocaleContext.tsx\<close>), which
  interpret the locales below; the readers' lemmas are proved here once.
\<close>

locale localized =
  fixes table :: "jstring \<Rightarrow> 'k \<Rightarrow> 'v option"
    and fallback :: jstring
    and get :: "jstring \<Rightarrow> 'k \<Rightarrow> 'v option"
  assumes get_law: "get l k = nullish (table l k) (table fallback k)"
begin

lemma get_fallback: "get fallback k = table fallback k"
  by (simp add: get_law nullish_def split: option.splits)

lemma get_source:
  assumes "get l k = Some v"
  shows "table l k = Some v \<or> table l k = None \<and> table fallback k = Some v"
  using assms by (auto simp: get_law nullish_def split: option.splits)

end

text \<open>
  A provider whose tables all have the same keys. A supported locale then never needs the fallback.
  A locale that is not supported has no table, though a built-in may take its place and answer to
  names of its own; at the keys the readers ask for it does not, and there whether a lookup answers
  does not depend on the locale at all.
\<close>

locale translated = localized +
  fixes supported :: "jstring set"
    and keys :: "'a set"
    and asked :: "'a \<Rightarrow> bool"
  assumes supported_keys: "l \<in> supported \<Longrightarrow> table l k \<noteq> None \<longleftrightarrow> k \<in> keys"
    and fallback_supported: "fallback \<in> supported"
    and unsupported: "l \<notin> supported \<Longrightarrow> asked k \<Longrightarrow> table l k = None"
begin

lemma get_iff_keys:
  assumes "asked k"
  shows "get l k \<noteq> None \<longleftrightarrow> k \<in> keys"
proof (cases "l \<in> supported")
  case True
  with supported_keys [of l k] supported_keys [OF fallback_supported, of k] show ?thesis
    by (auto simp: get_law nullish_def split: option.splits)
next
  case False
  with supported_keys [OF fallback_supported, of k] show ?thesis
    by (simp add: get_law unsupported [OF _ assms])
qed

lemma get_own_language: "l \<in> supported \<Longrightarrow> get l k = table l k"
  using supported_keys [of l k] supported_keys [OF fallback_supported, of k]
  by (auto simp: get_law nullish_def split: option.splits)

lemma get_unsupported: "l \<notin> supported \<Longrightarrow> asked k \<Longrightarrow> get l k = table fallback k"
  by (simp add: get_law unsupported)

end

section \<open>The locales of the site\<close>

text \<open>The type \<open>Locale\<close> of \<open>i18n/LocaleContext.tsx\<close>, as the strings it stands for.\<close>

definition zh_CN :: jstring where "zh_CN = js ''zh-CN''"
definition zh_TW :: jstring where "zh_TW = js ''zh-TW''"
definition en_locale :: jstring where "en_locale = js ''en''"

definition Locale :: "jstring set" where
  "Locale = {zh_CN, zh_TW, en_locale}"

lemma locale_neq [simp]:
  "zh_CN \<noteq> zh_TW" "zh_TW \<noteq> zh_CN" "zh_CN \<noteq> en_locale" "en_locale \<noteq> zh_CN"
  "zh_TW \<noteq> en_locale" "en_locale \<noteq> zh_TW"
  by (simp_all add: zh_CN_def zh_TW_def en_locale_def)

lemma locale_not_inherited: "l \<in> Locale \<Longrightarrow> l \<notin> set object_prototype"
  by (auto simp: Locale_def zh_CN_def zh_TW_def en_locale_def object_prototype_def)

end
