(* ===== verification/Vdom.thy ===== *)
theory Vdom
  imports Localized
begin

text \<open>
  What a component returns: a tree of elements with their attributes and children, as JSX builds it.
  A text child is \<open>Text\<close>; a component from a library (\<open>Link\<close> of the router) is an element with that
  name; a handler is the state change it asks for (\<open>action\<close>), so that the tree says which actions the
  page offers. Styles are property lists, merged the way the spread operator does;
  tags, attribute names and style properties are identifiers of the source, so plain strings.
\<close>

section \<open>Elements\<close>

datatype cssval = CssStr jstring | CssNum rat

type_synonym style = "(string \<times> cssval) list"

text \<open>\<open>{...base, k: v, \<dots>}\<close>: a later value of a key replaces the earlier one.\<close>

definition merge_style :: "style \<Rightarrow> style \<Rightarrow> style" where
  "merge_style base s = foldl (\<lambda>acc kv. AList.update (fst kv) (snd kv) acc) base s"

datatype action =
    SetLocale jstring
  | SetActiveTab jstring
  | SetActivePhase "nat option"
  | ToggleSection nat
  | ToggleHint jstring
  | TogglePseudo jstring
  | Navigate jstring

datatype attribute =
    Key jstring
  | Style style
  | Attr string jstring
  | OnClick action
  | OnMouseEnter style
  | OnMouseLeave style

datatype vnode = Text jstring | Elem string "attribute list" "vnode list"

text \<open>The truth value of an optional string: neither missing nor empty.\<close>

definition truthy :: "jstring option \<Rightarrow> bool" where
  "truthy s \<longleftrightarrow> (case s of None \<Rightarrow> False | Some x \<Rightarrow> x \<noteq> [])"

text \<open>A string that may be missing, among JSX children: \<open>undefined\<close> renders nothing.\<close>

definition opt_text :: "jstring option \<Rightarrow> vnode list" where
  "opt_text s = (case s of Some x \<Rightarrow> [Text x] | None \<Rightarrow> [])"

text \<open>The \<open>key\<close> given to a component element, on the tree the component returns.\<close>

fun with_key :: "jstring \<Rightarrow> vnode \<Rightarrow> vnode" where
  "with_key k (Text s) = Text s"
| "with_key k (Elem tag ps cs) = Elem tag (Key k # ps) cs"

section \<open>Reading a tree\<close>

definition prop_keys :: "attribute list \<Rightarrow> jstring list" where
  "prop_keys ps = concat (map (\<lambda>p. case p of Key k \<Rightarrow> [k] | _ \<Rightarrow> []) ps)"

definition prop_clicks :: "attribute list \<Rightarrow> action list" where
  "prop_clicks ps = concat (map (\<lambda>p. case p of OnClick a \<Rightarrow> [a] | _ \<Rightarrow> []) ps)"

definition prop_attr :: "string \<Rightarrow> attribute list \<Rightarrow> jstring list" where
  "prop_attr name ps = concat (map (\<lambda>p. case p of Attr n x \<Rightarrow> (if n = name then [x] else []) | _ \<Rightarrow> []) ps)"

text \<open>
  What a user can do on the page: the click handlers, and for a router \<open>Link\<close> the navigation to its
  \<open>to\<close> path.
\<close>

fun clicks :: "vnode \<Rightarrow> action list" where
  "clicks (Text s) = []"
| "clicks (Elem tag ps cs) =
     prop_clicks ps @ (if tag = ''Link'' then map Navigate (prop_attr ''to'' ps) else [])
     @ concat (map clicks cs)"

fun node_keys :: "vnode \<Rightarrow> jstring list" where
  "node_keys (Text s) = []"
| "node_keys (Elem tag ps cs) = prop_keys ps"

text \<open>React's rule for keyed children: no two siblings with the same key, anywhere in the tree.\<close>

fun keys_ok :: "vnode \<Rightarrow> bool" where
  "keys_ok (Text s) = True"
| "keys_ok (Elem tag ps cs) \<longleftrightarrow>
     distinct (concat (map node_keys cs)) \<and> (\<forall>c \<in> set cs. keys_ok c)"

text \<open>All text of the page, in reading order.\<close>

fun texts :: "vnode \<Rightarrow> jstring list" where
  "texts (Text s) = [s]"
| "texts (Elem tag ps cs) = concat (map texts cs)"

fun hrefs :: "vnode \<Rightarrow> jstring list" where
  "hrefs (Text s) = []"
| "hrefs (Elem tag ps cs) = prop_attr ''href'' ps @ concat (map hrefs cs)"

section \<open>Laws\<close>

lemma show_if_list [simp]:
  "map f (show_if b xs) = show_if b (map f xs)" "concat (show_if b xss) = show_if b (concat xss)"
  "show_if b [] = []" "(\<forall>x \<in> set (show_if b xs). P x) \<longleftrightarrow> (b \<longrightarrow> (\<forall>x \<in> set xs. P x))"
  by (cases b; simp)+

lemma if_list [simp]:
  "map f (if b then xs else ys) = (if b then map f xs else map f ys)"
  "concat (if b then xss else yss) = (if b then concat xss else concat yss)"
  by simp_all

lemma concat_map_Nil [simp]: "concat (map (\<lambda>x. []) xs) = []"
  by (induction xs) simp_all

lemma concat_map_idx_Nil [simp]: "concat (map_idx (\<lambda>x i. []) xs) = []"
  by (induction xs) simp_all

lemma concat_map_idx_single: "concat (map_idx (\<lambda>x i. [f i]) xs) = map f [0..<length xs]"
proof -
  have "map_idx (\<lambda>x i. [f i]) xs = map (\<lambda>i. [f i]) [0..<length xs]"
    by (rule nth_equalityI) simp_all
  also have "concat \<dots> = map f [0..<length xs]"
    by (induction xs) simp_all
  finally show ?thesis .
qed

lemma ball_map_idx: "(\<forall>y \<in> set (map_idx f xs). P y) \<longleftrightarrow> (\<forall>i < length xs. P (f (xs ! i) i))"
  by (auto simp: set_map_idx)


lemma prop_keys_simps [simp]:
  "prop_keys [] = []" "prop_keys (Key k # ps) = k # prop_keys ps"
  "prop_keys (Style s # ps) = prop_keys ps" "prop_keys (Attr n x # ps) = prop_keys ps"
  "prop_keys (OnClick a # ps) = prop_keys ps" "prop_keys (OnMouseEnter s # ps) = prop_keys ps"
  "prop_keys (OnMouseLeave s # ps) = prop_keys ps"
  by (simp_all add: prop_keys_def)

lemma prop_clicks_simps [simp]:
  "prop_clicks [] = []" "prop_clicks (Key k # ps) = prop_clicks ps"
  "prop_clicks (Style s # ps) = prop_clicks ps" "prop_clicks (Attr n x # ps) = prop_clicks ps"
  "prop_clicks (OnClick a # ps) = a # prop_clicks ps"
  "prop_clicks (OnMouseEnter s # ps) = prop_clicks ps"
  "prop_clicks (OnMouseLeave s # ps) = prop_clicks ps"
  by (simp_all add: prop_clicks_def)

lemma prop_attr_simps [simp]:
  "prop_attr n [] = []" "prop_attr n (Key k # ps) = prop_attr n ps"
  "prop_attr n (Style s # ps) = prop_attr n ps"
  "prop_attr n (Attr m x # ps) = (if m = n then x # prop_attr n ps else prop_attr n ps)"
  "prop_attr n (OnClick a # ps) = prop_attr n ps" "prop_attr n (OnMouseEnter s # ps) = prop_attr n ps"
  "prop_attr n (OnMouseLeave s # ps) = prop_attr n ps"
  by (simp_all add: prop_attr_def)

lemma with_key_reads [simp]:
  "clicks (with_key k n) = clicks n" "texts (with_key k n) = texts n" "hrefs (with_key k n) = hrefs n"
  "keys_ok (with_key k n) = keys_ok n"
  by (cases n; simp)+

lemma opt_text_reads [simp]:
  "concat (map clicks (opt_text s)) = []" "concat (map node_keys (opt_text s)) = []"
  "concat (map hrefs (opt_text s)) = []"
  "(\<forall>n \<in> set (opt_text s). keys_ok n)"
  by (cases s; simp add: opt_text_def)+

text \<open>Evaluation of a page part, and index keys.\<close>

lemmas page_eval = map_map_idx comp_def Let_def

lemma nat_str_inject [simp]: "nat_str m = nat_str n \<longleftrightarrow> m = n"
proof
  assume "nat_str m = nat_str n"
  then have "radix_value 10 0 (nat_str m) = radix_value 10 0 (nat_str n)" by (rule arg_cong)
  then show "m = n" by (simp only: radix_value_nat_str option.inject)
qed (rule arg_cong)

lemma distinct_index_keys [simp]: "distinct (map nat_str [0..<n])"
  by (simp add: distinct_map inj_on_def)

lemma concat_map_idx_const: "concat (map_idx (\<lambda>x i. f x) xs) = concat (map f xs)"
proof -
  have "map_idx (\<lambda>x i. f x) xs = map f xs" by (rule nth_equalityI) simp_all
  then show ?thesis by simp
qed

lemmas key_eval = page_eval concat_map_idx_single ball_map_idx ball_Un

end
