(* ===== verification/I18n.thy ===== *)
theory I18n
  imports Localized
begin

text \<open>
  \<open>website/src/i18n\<close>: the message dictionaries (\<open>zh-CN.ts\<close>, \<open>zh-TW.ts\<close>, \<open>en.ts\<close>) and the
  locale context (\<open>LocaleContext.tsx\<close>): the choice of the first locale, \<open>setLocale\<close>, which also
  writes \<open>localStorage\<close>, and the message function \<open>t\<close> with its placeholders. Theorems: the
  dictionaries are a translated table (interpretation \<open>messages\<close>), the stored locale is read back,
  which stored names are accepted, that every dictionary is complete, and what the placeholder substitution yields.
\<close>

section \<open>Dictionaries\<close>

definition zhCN :: "jstring obj" where
  \<open>zhCN = [(js ''header.badge'', js ''Engineering Practicum %u00b7 12 Weeks %u00b7 Rust + RISC-V''),
     (js ''header.title'', js ''%u4ece%u96f6%u6784%u5efa TinyOS''),
     (js ''header.subtitle1'', jcat [''%u7528 Rust %u5728 QEMU RISC-V %u4e0a%u5b9e%u73b0%u4e00%u4e2a%u53ef%u542f%u52a8'',
        ''%u3001%u53ef%u5206%u65f6%u3001%u53ef%u5206%u9875%u3001%u53ef%u6301%u4e45%u5316%u6587'',
        ''%u4ef6%u3001%u53ef shell %u4ea4%u4e92%u7684%u5c0f%u578b Unix-like %u5185%u6838%u3002'']),
     (js ''header.subtitle2'', jcat [''%u6bcf%u4e2a Phase %u90fd%u6709%u53ef%u8fd0%u884c%u7684%u4ea4%u4ed8%u7269%uff0c'',
        ''%u6700%u7ec8%u4ea7%u51fa%u4e00%u4e2a star-ready %u7684%u5f00%u6e90 OS%u3002'']),
     (js ''tab.roadmap'', js ''%u8bfe%u7a0b%u8def%u7ebf''),
     (js ''tab.architecture'', js ''%u7cfb%u7edf%u67b6%u6784''),
     (js ''tab.principles'', js ''%u8bbe%u8ba1%u539f%u5219''),
     (js ''phase.concepts'', js ''%u6838%u5fc3%u77e5%u8bc6%u70b9''),
     (js ''phase.references'', js ''%u53c2%u8003%u8d44%u6599''),
     (js ''phase.deliverable'', js ''%u2726 %u4ea4%u4ed8%u7269''),
     (js ''phase.acceptance'', js ''%u9a8c%u6536%u6807%u51c6''),
     (js ''phase.enter'', js ''%u8fdb%u5165%u8bfe%u7a0b %u2192''),
     (js ''arch.desc'', jcat [''%u6574%u4f53%u67b6%u6784%u91c7%u7528%u81ea%u5e95%u5411%u4e0a%u7684%u5206%u5c42%u8bbe'',
        ''%u8ba1%uff1a%u6bcf%u4e00%u5c42%u5bf9%u5e94%u4e00%u4e2a Phase '',
        ''%u7684%u4ea4%u4ed8%u7269%uff0c%u4e0a%u5c42%u4f9d%u8d56%u4e0b%u5c42%uff0c%u4e0b%u5c42%u4e0d%u611f%u77e5'',
        ''%u4e0a%u5c42%u3002%u4efb%u4f55%u4e00%u5c42%u7684 bug '',
        ''%u90fd%u5e94%u8be5%u53ef%u4ee5%u5728%u5b83%u81ea%u5df1%u7684 phase '',
        ''%u5185%u88ab%u5b9a%u4f4d%u548c%u4fee%u590d%u3002'']),
     (js ''arch.dataflow'', js ''%u4e00%u6b21 sys_read %u7684%u5b8c%u6574%u6570%u636e%u6d41''),
     (js ''principles.desc'', jcat [''%u6e90%u81ea xv6 / rCore / OSTEP %u7684%u6559%u5b66%u7ecf%u9a8c%uff0c%u8d2f%u7a7f'',
        ''%u6574%u4e2a%u8bfe%u7a0b%u3002%u5982%u679c%u67d0%u4e00%u6b65%u89c9%u5f97%u8d70%u4e0d'',
        ''%u4e0b%u53bb%u4e86%uff0c%u56de%u6765%u5bf9%u7167%u8fd9%u51e0%u6761%u539f%u5219%u901a'',
        ''%u5e38%u80fd%u627e%u5230%u75c7%u7ed3%u3002'']),
     (js ''lesson.back'', js ''%u2190 %u8fd4%u56de%u8bfe%u7a0b%u8def%u7ebf''),
     (js ''lesson.prev'', js ''%u2190 %u4e0a%u4e00%u8bfe''),
     (js ''lesson.next'', js ''%u4e0b%u4e00%u8bfe %u2192''),
     (js ''lesson.complete'', js ''%u5b8c%u6210 Phase {phaseId} %u2192''),
     (js ''lesson.objectives'', js ''%u5b66%u4e60%u76ee%u6807''),
     (js ''lesson.content'', js ''%u8bfe%u7a0b%u5185%u5bb9''),
     (js ''lesson.exercises'', js ''%u5b9e%u6218%u7ec3%u4e60''),
     (js ''lesson.criteria'', js ''%u9a8c%u6536%u6807%u51c6''),
     (js ''lesson.references'', js ''%u53c2%u8003%u8d44%u6599''),
     (js ''lesson.showPseudo'', js ''%u67e5%u770b%u4f2a%u4ee3%u7801''),
     (js ''lesson.hidePseudo'', js ''%u9690%u85cf%u4f2a%u4ee3%u7801''),
     (js ''lesson.showHints'', js ''%u663e%u793a%u63d0%u793a''),
     (js ''lesson.hideHints'', js ''%u9690%u85cf%u63d0%u793a''),
     (js ''lesson.notFound'', js ''%u8bfe%u7a0b%u5185%u5bb9%u5c1a%u672a%u5f00%u653e''),
     (js ''lang.zhCN'', js ''%u7b80%u4e2d''),
     (js ''lang.zhTW'', js ''%u7e41%u4e2d''),
     (js ''lang.en'', js ''EN'')]\<close>

definition en :: "jstring obj" where
  \<open>en = [(js ''header.badge'', js ''Engineering Practicum %u00b7 12 Weeks %u00b7 Rust + RISC-V''),
     (js ''header.title'', js ''Build TinyOS from Scratch''),
     (js ''header.subtitle1'', jcat [''Implement a bootable, preemptive, paged, persistent-FS, shell-interactive Unix-like '',
        ''kernel in Rust on QEMU RISC-V.'']),
     (js ''header.subtitle2'', js ''Every Phase delivers a runnable artifact; the finale is a star-ready open-source OS.''),
     (js ''tab.roadmap'', js ''Roadmap''),
     (js ''tab.architecture'', js ''Architecture''),
     (js ''tab.principles'', js ''Principles''),
     (js ''phase.concepts'', js ''Key Concepts''),
     (js ''phase.references'', js ''References''),
     (js ''phase.deliverable'', js ''%u2726 Deliverable''),
     (js ''phase.acceptance'', js ''Acceptance''),
     (js ''phase.enter'', js ''Enter Course %u2192''),
     (js ''arch.desc'', jcat [''A bottom-up layered architecture: each layer maps to one Phase's deliverable. Upper '',
        ''layers depend on lower ones; lower layers have no knowledge of upper ones. Bugs in '',
        ''any layer should be traceable and fixable within that phase.'']),
     (js ''arch.dataflow'', js ''A sys_read's complete data flow''),
     (js ''principles.desc'', jcat [''Five principles distilled from xv6 / rCore / OSTEP teaching experience. When you're '',
        ''stuck, revisit these %u2014 they usually point to the root cause.'']),
     (js ''lesson.back'', js ''%u2190 Back to Roadmap''),
     (js ''lesson.prev'', js ''%u2190 Previous''),
     (js ''lesson.next'', js ''Next %u2192''),
     (js ''lesson.complete'', js ''Finish Phase {phaseId} %u2192''),
     (js ''lesson.objectives'', js ''Learning Objectives''),
     (js ''lesson.content'', js ''Content''),
     (js ''lesson.exercises'', js ''Exercises''),
     (js ''lesson.criteria'', js ''Acceptance Criteria''),
     (js ''lesson.references'', js ''References''),
     (js ''lesson.showPseudo'', js ''Show Pseudocode''),
     (js ''lesson.hidePseudo'', js ''Hide Pseudocode''),
     (js ''lesson.showHints'', js ''Show Hints''),
     (js ''lesson.hideHints'', js ''Hide Hints''),
     (js ''lesson.notFound'', js ''Lesson not yet available''),
     (js ''lang.zhCN'', js ''%u7b80%u4e2d''),
     (js ''lang.zhTW'', js ''%u7e41%u4e2d''),
     (js ''lang.en'', js ''EN'')]\<close>

definition zhTW :: "jstring obj" where
  "zhTW = zhCN"

definition dictionaries :: "jstring obj obj" where
  "dictionaries = [(zh_CN, zhCN), (zh_TW, zhTW), (en_locale, en)]"

section \<open>The locale context\<close>

definition startsWith :: "jstring \<Rightarrow> jstring \<Rightarrow> bool" where
  "startsWith s p \<longleftrightarrow> prefix p s"

text \<open>
  The initial state of \<open>LocaleProvider\<close>: \<open>saved\<close> is \<open>localStorage.getItem("locale")\<close>, \<open>lang\<close> is
  \<open>navigator.language\<close>. The empty string is falsy, and \<open>in\<close> also answers for inherited names.
\<close>

definition init_locale :: "jstring option \<Rightarrow> jstring \<Rightarrow> jstring" where
  "init_locale saved lang = (
     if (case saved of None \<Rightarrow> False | Some s \<Rightarrow> s \<noteq> [] \<and> prop_in s dictionaries) then the saved
     else if startsWith lang (js ''zh-CN'') \<or> lang = js ''zh'' then zh_CN
     else if startsWith lang (js ''zh'') then zh_TW
     else en_locale)"

record locale_state =
  locale_value :: jstring
  stored_locale :: "jstring option"

definition handleSetLocale :: "jstring \<Rightarrow> locale_state \<Rightarrow> locale_state" where
  "handleSetLocale l st = st\<lparr>locale_value := l, stored_locale := Some l\<rparr>"

text \<open>\<open>useLocale\<close> throws outside a provider: the context is \<open>null\<close> there.\<close>

definition useLocale :: "'c option \<Rightarrow> js_error + 'c" where
  "useLocale ctx = (case ctx of None \<Rightarrow> Inl ContextError | Some c \<Rightarrow> Inr c)"

section \<open>Messages\<close>

text \<open>
  The replacement text of \<open>String.prototype.replace\<close>: \<open>$$\<close> is a dollar sign, \<open>$&\<close> the match and
  a dollar with a backquote or quote the text before or after it; any other dollar stands for itself,
  since the pattern has no groups.
\<close>

fun get_substitution :: "jstring \<Rightarrow> jstring \<Rightarrow> jstring \<Rightarrow> jstring \<Rightarrow> jstring" where
  "get_substitution m before after [] = []"
| "get_substitution m before after [c] = [c]"
| "get_substitution m before after (c # d # cs) = (
     if c = 36 \<and> d = 36 then 36 # get_substitution m before after cs
     else if c = 36 \<and> d = 38 then m @ get_substitution m before after cs
     else if c = 36 \<and> d = 96 then before @ get_substitution m before after cs
     else if c = 36 \<and> d = 39 then after @ get_substitution m before after cs
     else c # get_substitution m before after (d # cs))"

text \<open>
  \<open>text.replace(new RegExp("{k}", "g"), v)\<close> (the braces are escaped in the source) for a name
  \<open>k\<close> made of word characters, which stand for themselves in a pattern: the pattern then matches the
  text \<open>{k}\<close> and nothing else, and the matches are found from left to right. The only name in the
  source is \<open>phaseId\<close>; for a name with other characters the definitions below say nothing about the
  program.
\<close>

definition is_identifier :: "jstring \<Rightarrow> bool" where
  "is_identifier k \<longleftrightarrow> k \<noteq> [] \<and> list_all (\<lambda>c. is_digit c \<or> 65 \<le> c \<and> c \<le> 90 \<or> 97 \<le> c \<and> c \<le> 122 \<or> c = 95) k"

definition placeholder :: "jstring \<Rightarrow> jstring" where
  "placeholder k = 123 # k @ [125]"

function replace_from :: "jstring \<Rightarrow> jstring \<Rightarrow> jstring \<Rightarrow> jstring \<Rightarrow> jstring" where
  "replace_from k v before [] = []"
| "replace_from k v before (c # cs) = (
     if prefix (placeholder k) (c # cs)
     then let rest = drop (length k + 1) cs in
       get_substitution (placeholder k) before rest v @ replace_from k v (before @ placeholder k) rest
     else c # replace_from k v (before @ [c]) cs)"
  by pat_completeness auto
termination
  by (relation "measure (\<lambda>(k, v, before, s). length s)") auto

definition replace_placeholder :: "jstring \<Rightarrow> jstring \<times> jstring \<Rightarrow> jstring" where
  "replace_placeholder text kv = replace_from (fst kv) (snd kv) [] text"

text \<open>
  \<open>dictionaries[locale]?.[key] ?? dictionaries["zh-TW"]?.[key]\<close>. Both lookups see inherited names:
  the locale may name a built-in, and a dictionary is an object too.
\<close>

definition message :: "jstring \<Rightarrow> jstring \<Rightarrow> jstring jsval option" where
  "message locale key =
     nullish (member_get (prop_get dictionaries locale) key)
             (member_get (prop_get dictionaries zh_TW) key)"

text \<open>The type of the message function the pages get from the context.\<close>

type_synonym message_fn = "jstring \<Rightarrow> (jstring \<times> jstring) list \<Rightarrow> jstring"

text \<open>
  \<open>t(key, vars)\<close>, the values of \<open>vars\<close> already converted by \<open>String\<close>, in entry order. A key that
  finds a built-in is outside the function's type, and no text stands for it here; the pages ask for
  dotted keys only, which find none.
\<close>

definition translate :: "jstring \<Rightarrow> message_fn" where
  "translate locale key vars = foldl replace_placeholder
     (case message locale key of Some (Own text) \<Rightarrow> text | Some (Inherited _) \<Rightarrow> [] | None \<Rightarrow> key) vars"

text \<open>The text with its placeholders, as pieces around a separator.\<close>

fun joined :: "jstring \<Rightarrow> jstring list \<Rightarrow> jstring" where
  "joined sep [] = []"
| "joined sep [p] = p"
| "joined sep (p # ps) = p @ sep @ joined sep ps"

text \<open>The keys of the dictionaries, as plain strings.\<close>

definition message_names :: "string list" where
  "message_names = [''header.badge'', ''header.title'', ''header.subtitle1'',
     ''header.subtitle2'', ''tab.roadmap'', ''tab.architecture'', ''tab.principles'',
     ''phase.concepts'', ''phase.references'', ''phase.deliverable'', ''phase.acceptance'',
     ''phase.enter'', ''arch.desc'', ''arch.dataflow'', ''principles.desc'', ''lesson.back'',
     ''lesson.prev'', ''lesson.next'', ''lesson.complete'', ''lesson.objectives'',
     ''lesson.content'', ''lesson.exercises'', ''lesson.criteria'', ''lesson.references'',
     ''lesson.showPseudo'', ''lesson.hidePseudo'', ''lesson.showHints'', ''lesson.hideHints'',
     ''lesson.notFound'', ''lang.zhCN'', ''lang.zhTW'', ''lang.en'']"

section \<open>The dictionaries are complete\<close>

lemma zhCN_keys: "map fst zhCN = map js message_names"
  by (simp add: zhCN_def message_names_def)

lemma message_key: "s \<in> set message_names \<Longrightarrow> js s \<in> fst ` set zhCN"
  unfolding set_map [symmetric] zhCN_keys by simp

lemma dictionary_keys: "map fst en = map fst zhCN"
  by (simp add: en_def zhCN_def)

lemma dictionaries_locale:
  "map_of dictionaries l = (if l = zh_CN \<or> l = zh_TW then Some zhCN
     else if l = en_locale then Some en else None)"
  by (simp add: dictionaries_def zhTW_def)

abbreviation message_table :: "jstring \<Rightarrow> jstring \<Rightarrow> jstring jsval option" where
  "message_table l k \<equiv> member_get (prop_get dictionaries l) k"

lemma message_table_own: "map_of dictionaries l = Some d \<Longrightarrow> message_table l k = prop_get d k"
  by (simp add: member_get_def prop_get_def [of dictionaries])

lemma dictionary_cases:
  assumes "map_of dictionaries l = Some d"
  shows "d = zhCN \<or> d = en" and "l \<in> Locale"
  using assms by (auto simp: dictionaries_locale Locale_def split: if_splits)

lemma Locale_dictionary: "l \<in> Locale \<Longrightarrow> map_of dictionaries l = Some (if l = en_locale then en else zhCN)"
  by (auto simp: dictionaries_locale Locale_def)

lemma dictionary_key_set: "map_of dictionaries l = Some d \<Longrightarrow> fst ` set d = fst ` set zhCN"
  using dictionary_cases(1) [of l d] dictionary_keys by (metis list.set_map)

interpretation messages: translated message_table zh_TW message Locale
  "fst ` set zhCN \<union> set object_prototype" dotted
proof unfold_locales
  fix l k
  show "message l k = nullish (message_table l k) (message_table zh_TW k)"
    by (simp add: message_def)
  show "message_table l k \<noteq> None \<longleftrightarrow> k \<in> fst ` set zhCN \<union> set object_prototype" if "l \<in> Locale"
    using dictionary_key_set [OF Locale_dictionary [OF that]] message_table_own [OF Locale_dictionary [OF that], of k]
      prop_get_None [of "if l = en_locale then en else zhCN" k] by simp
  show "zh_TW \<in> Locale" by (simp add: Locale_def)
  show "l \<notin> Locale \<Longrightarrow> dotted k \<Longrightarrow> message_table l k = None"
    by (simp add: member_get_dotted dictionaries_locale Locale_def)
qed

text \<open>A supported locale reads its own dictionary; the traditional Chinese one is the simplified one.\<close>

lemma message_own: "map_of dictionaries l = Some d \<Longrightarrow> message l k = prop_get d k"
  using messages.get_own_language [OF dictionary_cases(2)] message_table_own by simp

text \<open>No message is empty.\<close>

lemma js_not_Nil:
  "c \<noteq> CHR ''%'' \<or> take 1 cs \<noteq> ''r'' \<Longrightarrow> [] \<noteq> js (c # cs)"
  "c \<noteq> CHR ''%'' \<or> take 1 cs \<noteq> ''r'' \<Longrightarrow> [] \<noteq> jcat ((c # cs) # ss)"
  by (auto simp: js_def jcat_def)

lemma message_texts: "map_of dictionaries l = Some d \<Longrightarrow> [] \<notin> snd ` set d"
proof -
  have "[] \<notin> snd ` set zhCN" by (simp add: zhCN_def js_not_Nil)
  moreover have "[] \<notin> snd ` set en" by (simp add: en_def js_not_Nil)
  moreover assume "map_of dictionaries l = Some d"
  ultimately show ?thesis using dictionary_cases(1) by metis
qed

text \<open>At dotted keys every locale without a dictionary, and traditional Chinese, reads the Chinese one.\<close>

lemma message_chinese:
  assumes "loc \<notin> Locale \<or> loc = zh_TW" and "dotted k"
  shows "message loc k = message zh_CN k"
proof -
  have own: "message l k = prop_get zhCN k" if "l = zh_CN \<or> l = zh_TW" for l
    by (rule message_own) (use that in \<open>auto simp: dictionaries_locale\<close>)
  show ?thesis
    using assms messages.get_unsupported [of loc k] messages.get_fallback [of k] own by auto
qed

lemma key_dotted: "k \<in> fst ` set zhCN \<Longrightarrow> dotted k"
  unfolding set_map [symmetric] zhCN_keys by (auto simp: message_names_def dotted_def js_def)

section \<open>The stored locale\<close>

lemma dictionaries_in: "prop_in l dictionaries \<longleftrightarrow> l \<in> Locale \<or> l \<in> set object_prototype"
  by (auto simp: prop_in_iff dictionaries_def Locale_def)

lemma names_not_Nil: "l \<in> Locale \<or> l \<in> set object_prototype \<Longrightarrow> l \<noteq> []"
  by (auto simp: Locale_def zh_CN_def zh_TW_def en_locale_def object_prototype_def js_def)

lemma init_locale_eq:
  "init_locale saved lang =
     (case saved of Some s \<Rightarrow> if s \<in> Locale \<or> s \<in> set object_prototype then s
        else init_locale None lang | None \<Rightarrow> init_locale None lang)"
  using names_not_Nil by (auto simp: init_locale_def dictionaries_in split: option.splits)

lemma init_locale_None: "init_locale None lang \<in> Locale"
  by (simp add: init_locale_def Locale_def)

lemma init_locale_supported:
  "init_locale saved lang \<in> Locale \<longleftrightarrow> (\<forall>s \<in> set object_prototype. saved \<noteq> Some s)"
  using init_locale_None [of lang] locale_not_inherited
  by (subst init_locale_eq) (auto split: option.splits)

section \<open>Placeholders\<close>

lemma get_substitution_plain: "36 \<notin> set v \<Longrightarrow> get_substitution m b a v = v"
  by (induction m b a v rule: get_substitution.induct) auto

lemma prefix_placeholder_hd: "prefix (placeholder k) (c # cs) \<Longrightarrow> c = 123"
  by (simp add: placeholder_def)

lemma replace_from_plain:
  "123 \<notin> set s \<Longrightarrow> replace_from k v b (s @ r) = s @ replace_from k v (b @ s) r"
proof (induction s arbitrary: b)
  case (Cons c s)
  then have "\<not> prefix (placeholder k) (c # s @ r)" using prefix_placeholder_hd [of k c] by auto
  with Cons show ?case by simp
qed simp

lemma replace_from_hit:
  "replace_from k v b (placeholder k @ r) =
     get_substitution (placeholder k) b r v @ replace_from k v (b @ placeholder k) r"
  by (simp add: placeholder_def)

text \<open>
  In a text cut into pieces by the placeholder \<open>{k}\<close>, every occurrence is replaced by the value, and
  nothing else changes, when the value has no dollar sign.
\<close>

lemma replace_from_joined:
  assumes "36 \<notin> set v" and "\<forall>p \<in> set ps. 123 \<notin> set p"
  shows "replace_from k v b (joined (placeholder k) ps) = joined v ps"
  using assms(2)
proof (induction "placeholder k" ps arbitrary: b rule: joined.induct)
  case (2 p)
  then show ?case using replace_from_plain [of p k v b "[]"] by simp
next
  case (3 p q ps)
  then show ?case
    using replace_from_plain [of p k v b "placeholder k @ joined (placeholder k) (q # ps)"]
    by (simp add: replace_from_hit get_substitution_plain [OF assms(1)])
qed simp

text \<open>The one message with a placeholder.\<close>

lemma complete_message:
  "map_of en (js ''lesson.complete'') =
     Some (joined (placeholder (js ''phaseId'')) [js ''Finish Phase '', js '' %u2192''])"
  "map_of zhCN (js ''lesson.complete'') =
     Some (joined (placeholder (js ''phaseId'')) [js ''%u5b8c%u6210 Phase '', js '' %u2192''])"
  by (simp add: en_def, simp add: js_def placeholder_def)
    (simp add: zhCN_def, simp add: js_def placeholder_def)

lemma digits_no_dollar: "list_all is_digit s \<Longrightarrow> 36 \<notin> set s"
  by (auto simp: list_all_iff is_digit_def)

text \<open>The keys the pages use are in the dictionaries.\<close>

lemma message_keys_lesson:
  "js ''lesson.back'' \<in> fst ` set zhCN" "js ''lesson.prev'' \<in> fst ` set zhCN"
  "js ''lesson.next'' \<in> fst ` set zhCN" "js ''lesson.complete'' \<in> fst ` set zhCN"
  "js ''lesson.objectives'' \<in> fst ` set zhCN" "js ''lesson.content'' \<in> fst ` set zhCN"
  "js ''lesson.exercises'' \<in> fst ` set zhCN" "js ''lesson.criteria'' \<in> fst ` set zhCN"
  "js ''lesson.references'' \<in> fst ` set zhCN" "js ''lesson.showPseudo'' \<in> fst ` set zhCN"
  "js ''lesson.hidePseudo'' \<in> fst ` set zhCN" "js ''lesson.showHints'' \<in> fst ` set zhCN"
  "js ''lesson.hideHints'' \<in> fst ` set zhCN" "js ''lesson.notFound'' \<in> fst ` set zhCN"
  by (intro message_key, simp add: message_names_def)+

lemma message_keys_roadmap:
  "js ''header.badge'' \<in> fst ` set zhCN" "js ''header.title'' \<in> fst ` set zhCN"
  "js ''header.subtitle1'' \<in> fst ` set zhCN" "js ''header.subtitle2'' \<in> fst ` set zhCN"
  "js ''tab.roadmap'' \<in> fst ` set zhCN" "js ''tab.architecture'' \<in> fst ` set zhCN"
  "js ''tab.principles'' \<in> fst ` set zhCN" "js ''phase.concepts'' \<in> fst ` set zhCN"
  "js ''phase.references'' \<in> fst ` set zhCN" "js ''phase.deliverable'' \<in> fst ` set zhCN"
  "js ''phase.acceptance'' \<in> fst ` set zhCN" "js ''phase.enter'' \<in> fst ` set zhCN"
  "js ''arch.desc'' \<in> fst ` set zhCN" "js ''arch.dataflow'' \<in> fst ` set zhCN"
  "js ''principles.desc'' \<in> fst ` set zhCN"
  by (intro message_key, simp add: message_names_def)+

lemma message_keys_lang:
  "js ''lang.zhCN'' \<in> fst ` set zhCN" "js ''lang.zhTW'' \<in> fst ` set zhCN"
  "js ''lang.en'' \<in> fst ` set zhCN"
  by (intro message_key, simp add: message_names_def)+

end
