(* ===== verification/Content_Types.thy ===== *)
theory Content_Types
  imports Js_String
begin

text \<open>
  The data model of \<open>website/src/data/types.ts\<close>: the rich-text blocks of a lesson as a datatype
  with one constructor per interface of the union, the interfaces as records (the field names carry
  the interface's name, since a record field is a constant of the theory), optional fields as
  \<open>option\<close>. Numbers of the data are natural numbers. Below them the well-formedness conditions the
  pages rely on and the \<open>outline\<close> of a lesson, in which two translations of it must agree.
\<close>

section \<open>Rich content blocks\<close>

datatype heading_level = Level2 | Level3 | Level4

datatype callout_variant = Info | Warning | Tip | Quote

datatype ContentBlock =
    ParagraphBlock jstring
  | HeadingBlock heading_level jstring
  | CodeBlock "jstring option" jstring
  | DiagramBlock jstring
  | TableBlock "jstring list" "jstring list list"
  | CalloutBlock callout_variant jstring
  | ListBlock bool "jstring list"

record ContentSection =
  section_title :: jstring
  section_blocks :: "ContentBlock list"

section \<open>Lesson data\<close>

record LessonReference =
  reference_title :: jstring
  reference_description :: jstring
  reference_url :: jstring

record CodeExercise =
  exercise_id :: jstring
  exercise_title :: jstring
  exercise_description :: jstring
  exercise_labFile :: "jstring option"
  exercise_hints :: "jstring list"
  exercise_pseudocode :: "jstring option"

record Lesson =
  lesson_phaseId :: nat
  lesson_lessonId :: nat
  lesson_title :: jstring
  lesson_subtitle :: jstring
  lesson_type :: jstring
  lesson_duration :: jstring
  lesson_objectives :: "jstring list"
  lesson_sections :: "ContentSection list"
  lesson_exercises :: "CodeExercise list"
  lesson_acceptanceCriteria :: "jstring list"
  lesson_references :: "LessonReference list"

record PhaseContent =
  content_phaseId :: nat
  content_color :: jstring
  content_accent :: jstring
  content_lessons :: "Lesson list"

section \<open>Well-formed content\<close>

text \<open>A table is rectangular, a list or a table has something to show.\<close>

fun block_ok :: "ContentBlock \<Rightarrow> bool" where
  "block_ok (TableBlock headers rows) \<longleftrightarrow>
     rows \<noteq> [] \<and> list_all (\<lambda>row. length row = length headers) rows"
| "block_ok (ListBlock ordered items) \<longleftrightarrow> items \<noteq> []"
| "block_ok _ \<longleftrightarrow> True"

definition section_ok :: "ContentSection \<Rightarrow> bool" where
  "section_ok s \<longleftrightarrow> section_blocks s \<noteq> [] \<and> list_all block_ok (section_blocks s)"

text \<open>
  \<open>LessonPage\<close> keys the exercise cards and their open or closed state by \<open>id\<close>, so the ids of one
  lesson are distinct.
\<close>

definition lesson_ok :: "Lesson \<Rightarrow> bool" where
  "lesson_ok l \<longleftrightarrow> list_all section_ok (lesson_sections l)
     \<and> distinct (map exercise_id (lesson_exercises l))
     \<and> lesson_objectives l \<noteq> [] \<and> lesson_sections l \<noteq> [] \<and> lesson_exercises l \<noteq> []
     \<and> lesson_acceptanceCriteria l \<noteq> [] \<and> lesson_references l \<noteq> []"

text \<open>
  A phase's lessons carry its id and are numbered 1, 2, \<dots>, n in order: the page indexes
  \<open>phase.lessons\<close> with \<open>lId - 2\<close> and \<open>lId\<close> and counts on \<open>lessonId\<close> being the position.
\<close>

definition content_ok :: "PhaseContent \<Rightarrow> bool" where
  "content_ok p \<longleftrightarrow> content_lessons p \<noteq> []
     \<and> map lesson_lessonId (content_lessons p) = [1..<Suc (length (content_lessons p))]
     \<and> list_all (\<lambda>l. lesson_phaseId l = content_phaseId p) (content_lessons p)
     \<and> list_all lesson_ok (content_lessons p)"

section \<open>Outlines\<close>

datatype block_kind = Paragraph | Heading heading_level | Code "jstring option" | Diagram
  | Table nat nat | Callout callout_variant | BulletList bool nat

fun block_outline :: "ContentBlock \<Rightarrow> block_kind" where
  "block_outline (ParagraphBlock _) = Paragraph"
| "block_outline (HeadingBlock lv _) = Heading lv"
| "block_outline (CodeBlock lang _) = Code lang"
| "block_outline (DiagramBlock _) = Diagram"
| "block_outline (TableBlock headers rows) = Table (length headers) (length rows)"
| "block_outline (CalloutBlock v _) = Callout v"
| "block_outline (ListBlock ordered items) = BulletList ordered (length items)"

record exercise_outline =
  out_id :: jstring
  out_labFile :: "jstring option"
  out_hints :: nat
  out_pseudocode :: bool

definition outline_exercise :: "CodeExercise \<Rightarrow> exercise_outline" where
  "outline_exercise e = \<lparr>out_id = exercise_id e, out_labFile = exercise_labFile e,
     out_hints = length (exercise_hints e), out_pseudocode = (exercise_pseudocode e \<noteq> None)\<rparr>"

record lesson_outline =
  out_phaseId :: nat
  out_lessonId :: nat
  out_objectives :: nat
  out_sections :: "block_kind list list"
  out_exercises :: "exercise_outline list"
  out_criteria :: nat
  out_references :: nat

definition outline_lesson :: "Lesson \<Rightarrow> lesson_outline" where
  "outline_lesson l = \<lparr>out_phaseId = lesson_phaseId l, out_lessonId = lesson_lessonId l,
     out_objectives = length (lesson_objectives l),
     out_sections = map (\<lambda>s. map block_outline (section_blocks s)) (lesson_sections l),
     out_exercises = map outline_exercise (lesson_exercises l),
     out_criteria = length (lesson_acceptanceCriteria l),
     out_references = length (lesson_references l)\<rparr>"

end
