(* ===== verification/Phase0_ZhCN.thy ===== *)
theory Phase0_ZhCN
  imports Content_Types
begin

text \<open>
  Phase 0, boot and kernel entry, in Simplified Chinese: the constant \<open>phase0ZhCN\<close> of
  \<open>website/src/data/phase0.ts\<close>, one definition per section, exercise and lesson. Below it, that the
  content is well formed.
\<close>

section \<open>Lesson 1\<close>

definition phase0ZhCN_lesson1_section1 :: ContentSection where
  \<open>phase0ZhCN_lesson1_section1 = \<lparr>
    section_title = js ''%u4f60%u5728%u6784%u5efa%u4ec0%u4e48'',
    section_blocks = [ParagraphBlock (jcat [''Phase 0 %u7ed3%u675f%u65f6%uff0c%u4f60%u4f1a%u4eb2%u773c%u770b%u7740%u4e00%u53f0'',
          ''%u865a%u62df RISC-V %u673a%u5668%u4ece%u96f6%u542f%u52a8%uff1aCPU %u52a0%u7535 '',
          ''%u2192 OpenSBI %u521d%u59cb%u5316 %u2192 %u8df3%u8fdb%u4f60%u5199%u7684 rust_main '',
          ''%u2192 UART %u6253%u5370 "Hello, TinyOS!" %u2192 panic!() '',
          ''%u4f18%u96c5%u5173%u673a%u3002%u8fd9 5 %u6b65%u770b%u8d77%u6765%u7b80%u5355%uff0c%u4f46%u6bcf%u4e00%u6b65'',
          ''%u80cc%u540e%u90fd%u6709%u4e00%u6574%u5957%u786c%u4ef6%u4e0e%u7ea6%u5b9a%u3002'']),
      DiagramBlock (jlines [''%u250c%r0e2500%u2510    %u250c%r0b2500%u2510    %u250c%r0e2500%u2510'',
          ''%u2502  CPU Reset   %u2502 %u2192  %u2502 OpenSBI   %u2502 %u2192  %u2502  %u4f60%u7684 _start %u2502'',
          ''%u2502  at M-mode   %u2502    %u2502 (M-mode)  %u2502    %u2502  at S-mode   %u2502'',
          ''%u2514%r0e2500%u2518    %u2514%r0b2500%u2518    %u2514%r062500%u252c%r072500%u2518'',
          ''                                            %u2193'',
          ''                    %u250c%r232500%u2510'',
          ''                    %u2502  rust_main()                      %u2502'',
          ''                    %u2502   %u251c%u2500 clear_bss()                  %u2502'',
          ''                    %u2502   %u251c%u2500 println!("Hello, TinyOS!");  %u2502'',
          ''                    %u2502   %u2514%u2500 loop { wfi }                 %u2502'',
          ''                    %u2514%r232500%u2518''])]\<rparr>\<close>

definition phase0ZhCN_lesson1_section2 :: ContentSection where
  \<open>phase0ZhCN_lesson1_section2 = \<lparr>
    section_title = js ''%u5fc3%u667a%u6a21%u578b%uff1a%u88f8%u673a Rust %u5c31%u662f Rust %u51cf%u6389 std'',
    section_blocks = [ParagraphBlock (jcat [''%u65e5%u5e38 Rust %u9760 libstd %u63d0%u4f9b%u7684%u64cd%u4f5c%u7cfb%u7edf%u670d'',
          ''%u52a1%u8fd0%u884c%uff1aprintln! %u8d70 stdout%u3001Vec %u8d70 alloc%u3001panic '',
          ''%u8d70 unwind%u3002%u6211%u4eec%u73b0%u5728%u8981%u5199%u7684%u5c31%u662f%u90a3'',
          ''%u4e2a libstd %u7684%u4e0b%u5c42%u2014%u2014%u6ca1%u6709%u5b83%u53ef%u4f9d%u8d56'',
          ''%uff0c%u4e00%u5207%u90fd%u8981%u81ea%u5df1%u6765%u3002'']),
      CodeBlock (Some (js ''rust'')) (jlines [''#![no_std]                     // %u7981%u7528 libstd'',
          ''#![no_main]                    // %u7981%u7528 libstd %u7684 main %u5165%u53e3'',
          '''',
          ''#[no_mangle]'',
          ''pub extern "C" fn rust_main() -> ! {'',
          ''    println!("Hello, TinyOS!");  // %u8fd9%u4e2a println! %u662f%u6211%u4eec%u81ea%u5df1%u5b9a%u4e49%u7684'',
          ''    sbi::shutdown();'',
          ''    loop {}'',
          ''}'',
          '''',
          ''#[panic_handler]               // %u5fc5%u987b%u624b%u52a8%u63d0%u4f9b'',
          ''fn panic(info: &PanicInfo) -> ! { ... }'']),
      ListBlock True
        [jcat [''Lab 1%uff1a%u81ea%u5df1%u5199 entry.asm + linker.ld %u2014 '',
           ''%u8ba9%u63a7%u5236%u6743%u6b63%u786e%u843d%u5230 rust_main%u3002''],
         jcat [''Lab 2%uff1a%u5b9e%u73b0 sbi_ecall %u4e0e println! %u2014 %u8ba9 rust_main '',
           ''%u80fd%u8bf4%u8bdd%u3002''],
         jcat [''Lab 3%uff1a%u5199 panic_handler %u2014 %u8ba9 panic '',
           ''%u6709%u5c0a%u4e25%u5730%u6b7b%u6389%u3002'']]]\<rparr>\<close>

definition phase0ZhCN_lesson1_section3 :: ContentSection where
  \<open>phase0ZhCN_lesson1_section3 = \<lparr>
    section_title = js ''RISC-V %u4e09%u7ea7%u7279%u6743%u7ea7'',
    section_blocks = [TableBlock [js ''%u7279%u6743%u7ea7'',
         js ''%u8c01%u8fd0%u884c'',
         js ''%u80fd%u505a%u4ec0%u4e48'']
        [[js ''M-mode (Machine)'',
          js ''OpenSBI / firmware'',
          js ''%u8bbf%u95ee%u6240%u6709 CSR%u3001%u6240%u6709%u7269%u7406%u5185%u5b58%u3001%u4e2d%u65ad''],
         [js ''S-mode (Supervisor)'',
          js ''%u6211%u4eec%u7684%u5185%u6838 TinyOS'',
          js ''%u7ba1%u7406%u7528%u6237%u8fdb%u7a0b%u3001%u865a%u62df%u5185%u5b58%u3001syscall''],
         [js ''U-mode (User)'',
          js ''%u7528%u6237%u7a0b%u5e8f'',
          js ''%u53ea%u80fd%u505a%u7b97%u672f%u548c%u8bbf%u95ee%u81ea%u5df1%u7684%u865a%u62df%u5185%u5b58'']],
      CalloutBlock Info (jcat [''%u4e3a%u4ec0%u4e48%u6211%u4eec%u4e0d%u76f4%u63a5%u8fd0%u884c%u5728 '',
          ''M-mode%uff1f%u56e0%u4e3a QEMU %u542f%u52a8%u65f6 OpenSBI %u5df2%u7ecf%u63a5%u7ba1%u4e86 M-mode '',
          ''%u5e76%u63d0%u4f9b%u4e86%u4e00%u5957%u6807%u51c6 SBI '',
          ''%u670d%u52a1%uff08console%u3001timer%u3001shutdown%uff09%u3002%u6211%u4eec%u5728 S-mode %u901a%u8fc7 ecall '',
          ''%u8c03%u7528%u5b83%u4eec%uff0c%u65e2%u7701%u4e8b%u53c8%u6807%u51c6%u3002''])]\<rparr>\<close>

definition phase0ZhCN_lesson1_exercise1 :: CodeExercise where
  \<open>phase0ZhCN_lesson1_exercise1 = \<lparr>
    exercise_id = js ''lab1'',
    exercise_title = js ''Lab 1 %u2b50 entry.asm + linker.ld'',
    exercise_description = jcat [''%u8ba9 CPU %u4ece 0x80200000 %u8d77%u6b65%u540e%uff0c%u6b63%u786e%u8bbe%u7f6e '',
        ''sp%u3001%u8df3%u8fdb rust_main%u3002''],
    exercise_labFile = Some (js ''labs/phase_0_boot/src/entry.asm''),
    exercise_hints = [jcat [''sp %u5fc5%u987b%u6307%u5411%u5185%u6838%u6808%u9876%u2014%u2014%u6ce8%u610f%u6808'',
         ''%u662f%u5411%u4e0b%u751f%u957f%u7684''],
       jcat [''%u7528 la%uff08load address%uff09%u800c%u4e0d%u662f '',
         ''li%uff1b%u5730%u5740%u5728%u94fe%u63a5%u671f%u624d%u786e%u5b9a''],
       js ''%u8df3%u8f6c%u7528 call rust_main%uff1b%u540e%u9762%u63a5 unimp %u505a%u5b89%u5168%u7f51''],
    exercise_pseudocode = Some (jlines [''.section .text.entry'',
          ''.globl _start'',
          ''_start:'',
          ''    la sp, boot_stack_top    # sp %u6307%u5411%u6808%u9876'',
          ''    call rust_main           # %u4e0d%u8fd4%u56de'',
          ''    unimp                    # %u5b89%u5168%u7f51%uff1a%u82e5 rust_main %u9519%u8bef%u8fd4%u56de%uff0c%u7acb%u5373%u5f02%u5e38''])\<rparr>\<close>

definition phase0ZhCN_lesson1_exercise2 :: CodeExercise where
  \<open>phase0ZhCN_lesson1_exercise2 = \<lparr>
    exercise_id = js ''lab2'',
    exercise_title = js ''Lab 2 %u2b50%u2b50 SBI + println!'',
    exercise_description = jcat [''%u5b9e%u73b0 sbi_ecall %u5185%u8054%u6c47%u7f16%u4e0e Stdout '',
        ''%u7c7b%u578b%uff0c%u8ba9 println! %u5b8f%u53ef%u7528%u3002''],
    exercise_labFile = Some (js ''labs/phase_0_boot/src/sbi.rs''),
    exercise_hints = [jcat [''ecall %u7684 7 %u4e2a%u53c2%u6570%uff1aa7 %u662f EID, a6 %u662f FID, a0-a5 '',
         ''%u662f%u53c2%u6570''],
       js ''inline asm %u8bb0%u5f97%u6807 "memory" clobber'',
       js ''Stdout %u5b9e%u73b0 core::fmt::Write trait%uff0cprint! %u57fa%u4e8e%u5b83''],
    exercise_pseudocode = None\<rparr>\<close>

definition phase0ZhCN_lesson1_exercise3 :: CodeExercise where
  \<open>phase0ZhCN_lesson1_exercise3 = \<lparr>
    exercise_id = js ''lab3'',
    exercise_title = js ''Lab 3 %u2b50%u2b50 panic_handler'',
    exercise_description = jcat [''%u5b9e%u73b0 #[panic_handler]%uff1a%u6253%u5370 location + '',
        ''message%uff0c%u7136%u540e sbi_shutdown%u3002''],
    exercise_labFile = Some (js ''labs/phase_0_boot/src/lang_items.rs''),
    exercise_hints = [js ''PanicInfo::location() %u53ef%u80fd%u662f None%uff0c%u8981%u5904%u7406'',
       jcat [''%u6253%u5b8c panic %u4fe1%u606f%u540e%u5fc5%u987b%u8fdb%u5165%u6b7b%u5faa%u73af'',
         ''%u6216 shutdown %u2014%u2014 %u51fd%u6570%u8fd4%u56de%u7c7b%u578b%u662f !'']],
    exercise_pseudocode = None\<rparr>\<close>

definition phase0ZhCN_lesson1 :: Lesson where
  \<open>phase0ZhCN_lesson1 = \<lparr>
    lesson_phaseId = 0, lesson_lessonId = 1,
    lesson_title = js ''Phase 0 %u5bfc%u8bfb%uff1a%u4ece%u4e0a%u7535%u5230 rust_main'',
    lesson_subtitle = js ''%u4e3a%u4ec0%u4e48%u7b2c%u4e00%u884c println! %u8fd9%u4e48%u96be'',
    lesson_type = js ''Concept'',
    lesson_duration = js ''1.5 hours'',
    lesson_objectives = [jcat [''%u7406%u89e3 RISC-V %u4e09%u7ea7%u7279%u6743%u7ea7%uff08M / S / U '',
         ''mode%uff09%u7684%u786c%u4ef6%u6a21%u578b''],
       jcat [''%u770b%u61c2 OpenSBI %u542f%u52a8%u6d41%u7a0b%uff0c%u660e%u767d%u4e3a%u4ec0%u4e48'',
         ''%u6211%u4eec%u4ece 0x80200000 %u8d77%u6b65''],
       jcat [''%u638c%u63e1 no_std Rust %u7684%u7ea6%u675f%uff1a%u6ca1%u6709 std%u3001%u6ca1%u6709 '',
         ''main%u3001%u6ca1%u6709 panic_handler''],
       js ''%u80fd%u7528%u81ea%u5df1%u7684%u94fe%u63a5%u811a%u672c%u5e03%u5c40%u5185%u6838%u5185%u5b58''],
    lesson_sections = [phase0ZhCN_lesson1_section1,
      phase0ZhCN_lesson1_section2,
      phase0ZhCN_lesson1_section3],
    lesson_exercises = [phase0ZhCN_lesson1_exercise1, phase0ZhCN_lesson1_exercise2, phase0ZhCN_lesson1_exercise3],
    lesson_acceptanceCriteria = [js ''make qemu %u540e%u4e32%u53e3%u6253%u5370 "Hello, TinyOS!"'',
       js ''panic!() %u80fd%u8f93%u51fa%u6587%u4ef6%u540d+%u884c%u53f7%u5e76%u4f18%u96c5%u5173%u673a'',
       jcat [''%u94fe%u63a5%u811a%u672c%u660e%u786e text/rodata/data/bss '',
         ''%u8fb9%u754c%u5e76%u5728%u542f%u52a8%u65f6%u6e05%u96f6 bss''],
       js ''gdb %u53ef%u4ece 0x80200000 %u5355%u6b65%u8c03%u8bd5''],
    lesson_references = [\<lparr>reference_title = js ''xv6-riscv book Ch. 1-2'',
       reference_description = jcat [''[%u5fc5%u8bfb] MIT 6.S081 %u6559%u6750%uff0c%u6700%u6e05%u6670%u7684 RISC-V '',
          ''%u542f%u52a8%u6d41%u7a0b walkthrough''],
       reference_url = js ''https://pdos.csail.mit.edu/6.828/2023/xv6/book-riscv-rev3.pdf''\<rparr>,
      \<lparr>reference_title = js ''rCore-Tutorial %u00a71'',
       reference_description = jcat [''[%u5fc5%u8bfb] %u6e05%u534e rCore %u6559%u5b66%u5185%u6838%uff0cRust + RISC-V '',
          ''%u7684%u8d77%u70b9''],
       reference_url = js ''https://rcore-os.cn/rCore-Tutorial-Book-v3/chapter1/index.html''\<rparr>,
      \<lparr>reference_title = js ''RISC-V Privileged Spec v1.12'',
       reference_description = jcat [''[%u6df1%u5165%u9605%u8bfb] %u67e5%u5bc4%u5b58%u5668%u8bed%u4e49%u7684%u6700%u7ec8'',
          ''%u4f9d%u636e''],
       reference_url = js ''https://github.com/riscv/riscv-isa-manual/releases''\<rparr>,
      \<lparr>reference_title = js ''OpenSBI %u6587%u6863'',
       reference_description = js ''[%u6df1%u5165%u9605%u8bfb] %u4e86%u89e3 SBI %u670d%u52a1%u96c6'',
       reference_url = js ''https://github.com/riscv-software-src/opensbi/tree/master/docs''\<rparr>]\<rparr>\<close>

section \<open>The phase\<close>

definition phase0ZhCN :: PhaseContent where
  \<open>phase0ZhCN = \<lparr>
    content_phaseId = 0,
    content_color = js ''#E8453C'',
    content_accent = js ''#FF6B5E'',
    content_lessons = [phase0ZhCN_lesson1]\<rparr>\<close>

section \<open>Well-formedness\<close>

lemma phase0ZhCN_lesson1_ok: "lesson_ok phase0ZhCN_lesson1"
  by (simp add: lesson_ok_def section_ok_def phase0ZhCN_lesson1_def
      phase0ZhCN_lesson1_section1_def
      phase0ZhCN_lesson1_section2_def
      phase0ZhCN_lesson1_section3_def
      phase0ZhCN_lesson1_exercise1_def
      phase0ZhCN_lesson1_exercise2_def
      phase0ZhCN_lesson1_exercise3_def)

lemma phase0ZhCN_lesson1_ids: "lesson_phaseId phase0ZhCN_lesson1 = 0" "lesson_lessonId phase0ZhCN_lesson1 = 1"
  by (simp_all add: phase0ZhCN_lesson1_def)

lemma phase0ZhCN_shape [site_shape]:
  "content_phaseId phase0ZhCN = 0" "length (content_lessons phase0ZhCN) = 1"
  by (simp_all add: phase0ZhCN_def)

lemma phase0ZhCN_ok [site_shape]: "content_ok phase0ZhCN"
  by (simp add: content_ok_def phase0ZhCN_def upt_rec
      phase0ZhCN_lesson1_ok
      phase0ZhCN_lesson1_ids)

end
