(* ===== verification/Phase0_En.thy ===== *)
theory Phase0_En
  imports Content_Types
begin

text \<open>
  Phase 0, boot and kernel entry, in English: the constant \<open>phase0En\<close> of
  \<open>website/src/data/phase0.ts\<close>, one definition per section, exercise and lesson. Below it, that the
  content is well formed.
\<close>

section \<open>Lesson 1\<close>

definition phase0En_lesson1_section1 :: ContentSection where
  \<open>phase0En_lesson1_section1 = \<lparr>
    section_title = js ''What you're building'',
    section_blocks = [ParagraphBlock (jcat [''By the end of Phase 0 you'll watch a virtual RISC-V machine boot from zero: CPU '',
          ''reset %u2192 OpenSBI init %u2192 your rust_main %u2192 UART prints "Hello, TinyOS!" '',
          ''%u2192 panic!() cleanly shuts down. Five steps, but every step hides a protocol you '',
          ''now have to know.'']),
      DiagramBlock (jlines [''%u250c%r0e2500%u2510    %u250c%r0b2500%u2510    %u250c%r0e2500%u2510'',
          ''%u2502  CPU Reset   %u2502 %u2192  %u2502 OpenSBI   %u2502 %u2192  %u2502  your _start %u2502'',
          ''%u2502  in M-mode   %u2502    %u2502 (M-mode)  %u2502    %u2502  in S-mode   %u2502'',
          ''%u2514%r0e2500%u2518    %u2514%r0b2500%u2518    %u2514%r062500%u252c%r072500%u2518'',
          ''                                            %u2193'',
          ''                    %u250c%r232500%u2510'',
          ''                    %u2502  rust_main()                      %u2502'',
          ''                    %u2502   %u251c%u2500 clear_bss()                  %u2502'',
          ''                    %u2502   %u251c%u2500 println!("Hello, TinyOS!");  %u2502'',
          ''                    %u2502   %u2514%u2500 loop { wfi }                 %u2502'',
          ''                    %u2514%r232500%u2518''])]\<rparr>\<close>

definition phase0En_lesson1_section2 :: ContentSection where
  \<open>phase0En_lesson1_section2 = \<lparr>
    section_title = js ''Mental model: bare-metal Rust = Rust minus std'',
    section_blocks = [ParagraphBlock (jcat [''Day-to-day Rust leans on libstd for OS services: println! uses stdout, Vec uses '',
          ''alloc, panic uses unwind. We are writing that lower layer. Nothing below us to depend '',
          ''on %u2014 we build it all.'']),
      CodeBlock (Some (js ''rust'')) (jlines [''#![no_std]                     // no libstd'',
          ''#![no_main]                    // no libstd main entry'',
          '''',
          ''#[no_mangle]'',
          ''pub extern "C" fn rust_main() -> ! {'',
          ''    println!("Hello, TinyOS!");  // our own println!'',
          ''    sbi::shutdown();'',
          ''    loop {}'',
          ''}'',
          '''',
          ''#[panic_handler]               // must be supplied by hand'',
          ''fn panic(info: &PanicInfo) -> ! { ... }'']),
      ListBlock True
        [js ''Lab 1: write entry.asm + linker.ld %u2014 land control in rust_main correctly.'',
         js ''Lab 2: implement sbi_ecall + println! %u2014 let rust_main speak.'',
         js ''Lab 3: write panic_handler %u2014 let panics die with dignity.'']]\<rparr>\<close>

definition phase0En_lesson1_section3 :: ContentSection where
  \<open>phase0En_lesson1_section3 = \<lparr>
    section_title = js ''The three RISC-V privilege levels'',
    section_blocks = [TableBlock [js ''Level'',
         js ''Runs'',
         js ''Can do'']
        [[js ''M-mode (Machine)'',
          js ''OpenSBI / firmware'',
          js ''All CSRs, all physical memory, interrupts''],
         [js ''S-mode (Supervisor)'',
          js ''Our kernel TinyOS'',
          js ''Manages user processes, VM, syscalls''],
         [js ''U-mode (User)'',
          js ''User programs'',
          js ''Arithmetic and its own virtual memory'']],
      CalloutBlock Info (jcat [''Why not run in M-mode directly? On boot, QEMU's OpenSBI already took over M-mode '',
          ''and exposes a standard set of SBI services (console, timer, shutdown). We sit in '',
          ''S-mode and ecall into them %u2014 simpler and portable.''])]\<rparr>\<close>

definition phase0En_lesson1_exercise1 :: CodeExercise where
  \<open>phase0En_lesson1_exercise1 = \<lparr>
    exercise_id = js ''lab1'',
    exercise_title = js ''Lab 1 %u2b50 entry.asm + linker.ld'',
    exercise_description = js ''From 0x80200000, set up sp and jump into rust_main correctly.'',
    exercise_labFile = Some (js ''labs/phase_0_boot/src/entry.asm''),
    exercise_hints = [js ''sp must point to the top of the kernel stack %u2014 stacks grow downward'',
       js ''Use la (load address), not li; the address is fixed at link time'',
       js ''Use call rust_main; follow with unimp as a safety net''],
    exercise_pseudocode = Some (jlines [''.section .text.entry'',
          ''.globl _start'',
          ''_start:'',
          ''    la sp, boot_stack_top    # sp %u2192 stack top'',
          ''    call rust_main           # never returns'',
          ''    unimp                    # safety net if it does''])\<rparr>\<close>

definition phase0En_lesson1_exercise2 :: CodeExercise where
  \<open>phase0En_lesson1_exercise2 = \<lparr>
    exercise_id = js ''lab2'',
    exercise_title = js ''Lab 2 %u2b50%u2b50 SBI + println!'',
    exercise_description = js ''Implement sbi_ecall (inline asm) and a Stdout writer so the println! macro works.'',
    exercise_labFile = Some (js ''labs/phase_0_boot/src/sbi.rs''),
    exercise_hints = [js ''ecall takes 7 regs: a7=EID, a6=FID, a0-a5=args'',
       js ''Remember the "memory" clobber in inline asm'',
       js ''Stdout implements core::fmt::Write; print! delegates to it''],
    exercise_pseudocode = None\<rparr>\<close>

definition phase0En_lesson1_exercise3 :: CodeExercise where
  \<open>phase0En_lesson1_exercise3 = \<lparr>
    exercise_id = js ''lab3'',
    exercise_title = js ''Lab 3 %u2b50%u2b50 panic_handler'',
    exercise_description = js ''Implement #[panic_handler] to print location + message, then sbi_shutdown.'',
    exercise_labFile = Some (js ''labs/phase_0_boot/src/lang_items.rs''),
    exercise_hints = [js ''PanicInfo::location() may be None %u2014 handle both'',
       js ''The fn must be ! %u2014 loop or shutdown after printing''],
    exercise_pseudocode = None\<rparr>\<close>

definition phase0En_lesson1 :: Lesson where
  \<open>phase0En_lesson1 = \<lparr>
    lesson_phaseId = 0, lesson_lessonId = 1,
    lesson_title = js ''Phase 0 Overview: From Power-On to rust_main'',
    lesson_subtitle = js ''Why the first println! is so hard'',
    lesson_type = js ''Concept'',
    lesson_duration = js ''1.5 hours'',
    lesson_objectives = [js ''Understand RISC-V's three privilege levels (M / S / U mode)'',
       js ''Follow the OpenSBI boot flow and why we start at 0x80200000'',
       js ''Master the constraints of no_std Rust: no std, no main, no panic_handler'',
       js ''Lay out kernel memory with your own linker script''],
    lesson_sections = [phase0En_lesson1_section1,
      phase0En_lesson1_section2,
      phase0En_lesson1_section3],
    lesson_exercises = [phase0En_lesson1_exercise1, phase0En_lesson1_exercise2, phase0En_lesson1_exercise3],
    lesson_acceptanceCriteria = [js ''make qemu prints "Hello, TinyOS!" on the UART'',
       js ''panic!() emits file+line and shuts down gracefully'',
       js ''Linker script defines .text/.rodata/.data/.bss; BSS zeroed at startup'',
       js ''gdb can single-step from 0x80200000''],
    lesson_references = [\<lparr>reference_title = js ''xv6-riscv book Ch. 1-2'',
       reference_description = js ''[Required] MIT 6.S081 textbook %u2014 clearest RISC-V boot walkthrough'',
       reference_url = js ''https://pdos.csail.mit.edu/6.828/2023/xv6/book-riscv-rev3.pdf''\<rparr>,
      \<lparr>reference_title = js ''rCore-Tutorial %u00a71'',
       reference_description = js ''[Required] Tsinghua rCore teaching kernel %u2014 the Rust+RISC-V starting point'',
       reference_url = js ''https://rcore-os.cn/rCore-Tutorial-Book-v3/chapter1/index.html''\<rparr>,
      \<lparr>reference_title = js ''RISC-V Privileged Spec v1.12'',
       reference_description = js ''[Deep dive] Ultimate reference for CSR semantics'',
       reference_url = js ''https://github.com/riscv/riscv-isa-manual/releases''\<rparr>,
      \<lparr>reference_title = js ''OpenSBI Docs'',
       reference_description = js ''[Deep dive] SBI service set reference'',
       reference_url = js ''https://github.com/riscv-software-src/opensbi/tree/master/docs''\<rparr>]\<rparr>\<close>

section \<open>The phase\<close>

definition phase0En :: PhaseContent where
  \<open>phase0En = \<lparr>
    content_phaseId = 0,
    content_color = js ''#E8453C'',
    content_accent = js ''#FF6B5E'',
    content_lessons = [phase0En_lesson1]\<rparr>\<close>

section \<open>Well-formedness\<close>

lemma phase0En_lesson1_ok: "lesson_ok phase0En_lesson1"
  by (simp add: lesson_ok_def section_ok_def phase0En_lesson1_def
      phase0En_lesson1_section1_def
      phase0En_lesson1_section2_def
      phase0En_lesson1_section3_def
      phase0En_lesson1_exercise1_def
      phase0En_lesson1_exercise2_def
      phase0En_lesson1_exercise3_def)

lemma phase0En_lesson1_ids: "lesson_phaseId phase0En_lesson1 = 0" "lesson_lessonId phase0En_lesson1 = 1"
  by (simp_all add: phase0En_lesson1_def)

lemma phase0En_shape [site_shape]:
  "content_phaseId phase0En = 0" "length (content_lessons phase0En) = 1"
  by (simp_all add: phase0En_def)

lemma phase0En_ok [site_shape]: "content_ok phase0En"
  by (simp add: content_ok_def phase0En_def upt_rec
      phase0En_lesson1_ok
      phase0En_lesson1_ids)

end
