(* ===== verification/Phase1_ZhCN.thy ===== *)
theory Phase1_ZhCN
  imports Content_Types
begin

text \<open>
  Phase 1, traps and system calls, in Simplified Chinese: the constant \<open>phase1ZhCN\<close> of
  \<open>website/src/data/phase1.ts\<close>, one definition per section, exercise and lesson. Below it, that the
  content is well formed.
\<close>

section \<open>Lesson 1\<close>

definition phase1ZhCN_lesson1_section1 :: ContentSection where
  \<open>phase1ZhCN_lesson1_section1 = \<lparr>
    section_title = js ''%u4ece%u5355%u4e00%u7279%u6743%u7ea7%u5230%u53cc%u7279%u6743%u7ea7'',
    section_blocks = [ParagraphBlock (jcat [''Phase 0 %u91cc%u4e00%u5207%u90fd%u8dd1%u5728 '',
          ''S-mode%uff1a%u4ee3%u7801%u3001%u6808%u3001%u6570%u636e%u90fd%u662f%u5185%u6838%u7684%u3002Phase 1 '',
          ''%u7684%u4efb%u52a1%u662f%u628a%u7528%u6237%u7a0b%u5e8f%u653e%u5230 U-mode '',
          ''%u53bb%u8dd1%u2014%u2014%u8fd9%u4ef6%u4e8b%u4e00%u65e6%u505a%u6210%uff0c%u4f60%u5c31%u62e5%u6709%u4e86%u4e24'',
          ''%u4e2a%u76f8%u4e92%u4e0d%u4fe1%u4efb%u7684%u4e16%u754c%uff0c%u4ee5%u53ca%u4e00%u6761'',
          ''%u53d7%u63a7%u901a%u9053%u8fde%u63a5%u5b83%u4eec%u3002%u8fd9%u6761%u901a%u9053%u5c31'',
          ''%u662f trap%u3002'']),
      DiagramBlock (jlines [''U-mode (%u7528%u6237%u7a0b%u5e8f)                       S-mode (%u5185%u6838)'',
          ''%r0d2500                          %r0c2500'',
          ''  li a7, 64'',
          ''  li a0, 1'',
          ''  la a1, msg                 %u786c%u4ef6%u81ea%u52a8%uff1a'',
          ''  li a2, 12       %r032500ecall%u2500%u2500%u25b6  1) sepc    %u2190 pc'',
          ''                                2) scause  %u2190 8 (ecall from U)'',
          ''                                3) sstatus.SPP %u2190 0 (%u6765%u81ea U-mode)'',
          ''                                4) sstatus.SIE %u2190 SPIE'',
          ''                                5) pc      %u2190 stvec'',
          ''                                6) %u7279%u6743%u7ea7  %u2190 S'',
          ''                                          %u2193'',
          ''                              __alltraps:'',
          ''                                %u4fdd%u5b58 32 x %u5bc4%u5b58%u5668 + sstatus + sepc'',
          ''                                %u8c03%u7528 Rust trap_handler(cx)'',
          ''                                %u6062%u590d%u6240%u6709%u5bc4%u5b58%u5668'',
          ''                                sret %r062500%u2510'',
          ''                                           %u2502'',
          ''  %u7ee7%u7eed%u4e0b%u4e00%u6761%u6307%u4ee4       %u25c0%r122500%u2518'']),
      CalloutBlock Info (jcat [''trap %u7684%u672c%u8d28%u662f%u786c%u4ef6%u903c%u8feb CPU '',
          ''%u653e%u4e0b%u624b%u4e0a%u7684%u4e8b%u53bb%u8fd0%u884c%u5185%u6838%u6307%u5b9a%u7684%u4ee3%u7801%u3002%u5b83'',
          ''%u662f%u552f%u4e00%u80fd%u628a CPU %u4ece U-mode %u5e26%u5230 S-mode '',
          ''%u7684%u5408%u6cd5%u9014%u5f84%u2014%u2014%u6ca1%u6709 '',
          ''trap%uff0c%u5185%u6838%u5bf9%u7528%u6237%u7a0b%u5e8f%u5c31%u6ca1%u6709%u4efb%u4f55%u63a7%u5236%u529b%u3002''])]\<rparr>\<close>

definition phase1ZhCN_lesson1_section2 :: ContentSection where
  \<open>phase1ZhCN_lesson1_section2 = \<lparr>
    section_title = js ''trap %u7684%u4e09%u79cd%u6765%u6e90'',
    section_blocks = [TableBlock [js ''%u7c7b%u578b'',
         js ''%u89e6%u53d1%u65b9%u5f0f'',
         js ''scause %u9ad8%u4f4d'',
         js ''%u5178%u578b%u4f8b%u5b50'']
        [[js ''Exception'',
          js ''%u5f53%u524d%u6307%u4ee4%u672c%u8eab%u51fa%u9519%u6216%u4e3b%u52a8 ecall'',
          js ''0'',
          js ''%u975e%u6cd5%u6307%u4ee4 (2)%u3001%u7f3a%u9875 (13/15)%u3001ecall (8)''],
         [js ''Interrupt'',
          js ''%u5916%u90e8%u5f02%u6b65%u4e8b%u4ef6'',
          js ''1'',
          js ''%u65f6%u949f (5)%u3001%u5916%u90e8%u8bbe%u5907 (9)%u3001%u8f6f%u4e2d%u65ad (1)''],
         [js ''Syscall'',
          js ''Exception %u7684%u5b50%u96c6%u2014%u2014code=8'',
          js ''0'',
          js ''%u7528%u6237%u7a0b%u5e8f ecall %u4e3b%u52a8%u8bf7%u6c42%u5185%u6838%u670d%u52a1'']],
      ParagraphBlock (jcat [''scause %u6700%u9ad8%u4f4d%u533a%u5206%u4e2d%u65ad%u548c%u5f02%u5e38%uff0c%u4f4e'',
          ''%u4f4d%u662f%u539f%u56e0%u7f16%u53f7%u3002Phase 1 %u53ea%u5904%u7406 ecall '',
          ''(=8)%uff0c%u4e2d%u65ad%u7559%u7ed9 Phase 2 %u7684%u65f6%u949f%u3002%u4f46%u4f60%u7684 '',
          ''trap_handler %u9aa8%u67b6%u73b0%u5728%u5c31%u8981%u5199%u6210%u80fd%u5206%u53d1%u6240'',
          ''%u6709%u7c7b%u578b%u2014%u2014%u540e%u9762%u53ea%u662f%u5f80 match '',
          ''%u91cc%u52a0%u5206%u652f%u3002''])]\<rparr>\<close>

definition phase1ZhCN_lesson1_section3 :: ContentSection where
  \<open>phase1ZhCN_lesson1_section3 = \<lparr>
    section_title = js ''%u672c Phase %u7684 5 %u4e2a%u8bfe%u65f6'',
    section_blocks = [ListBlock True
        [jcat [''Lesson 1%uff08%u672c%u9875%uff09%uff1a%u5bfc%u8bfb%u2014%u2014%u7406%u89e3%u4e3a'',
           ''%u4ec0%u4e48%u8981 trap%u3001%u4f55%u65f6%u8981 trap%u3002''],
         jcat [''Lesson 2%uff1aCSR %u786c%u4ef6%u6a21%u578b%u2014%u2014stvec/sepc/scause/stval/sstatu'',
           ''s %u7684%u7cbe%u786e%u8bed%u4e49%u3002''],
         jcat [''Lesson 3%uff1aTrapContext %u8bbe%u8ba1%u2014%u2014%u4e3a%u4ec0%u4e48%u662f 34 '',
           ''%u4e2a u64%u3001%u6808%u4e0a%u600e%u4e48%u6392%u3002''],
         jcat [''Lesson 4%uff1a__alltraps / __restore %u6c47%u7f16%u2014%u2014%u4fdd%u5b58/%u6062'',
           ''%u590d%u6bcf%u4e00%u6761%u7684%u539f%u56e0%u3002''],
         jcat [''Lesson 5%uff1aSyscall ABI + %u8ba9%u7b2c%u4e00%u4e2a U-mode '',
           ''%u7a0b%u5e8f%u8dd1%u8d77%u6765%u3002'']],
      CalloutBlock Tip (jcat [''%u505a%u5b8c Lesson 5 %u7684%u7efc%u5408%u5b9e%u9a8c%uff0c%u4f60%u5c31%u62e5%u6709'',
          ''%u4e86%u4e00%u4e2a%u80fd%u8dd1%u4efb%u610f%u7528%u6237%u7a0b%u5e8f%u7684%u6700%u5c0f'',
          ''%u5185%u6838%u2014%u2014%u867d%u7136%u53ea%u6709%u4e00%u4e2a%u8fdb%u7a0b%uff0c%u4f46'',
          '' Phase 2 %u6240%u6709%u7684%u8fdb%u7a0b/%u8c03%u5ea6%u90fd%u5efa%u7acb%u5728%u8fd9'',
          ''%u6761 trap %u901a%u8def%u4e4b%u4e0a%u3002''])]\<rparr>\<close>

definition phase1ZhCN_lesson1_exercise1 :: CodeExercise where
  \<open>phase1ZhCN_lesson1_exercise1 = \<lparr>
    exercise_id = js ''lab0-read'',
    exercise_title = js ''%u9605%u8bfb%u4efb%u52a1%uff1a%u753b%u51fa ecall %u65f6%u5e8f%u56fe'',
    exercise_description = jcat [''%u4e0d%u770b%u6587%u6863%uff0c%u5728%u7eb8%u4e0a%u753b%u51fa%u4ece U-mode '',
        ''%u6267%u884c ecall %u5230 S-mode trap_handler %u7684%u524d 10 '',
        ''%u6761%u786c%u4ef6%u6b65%u9aa4%u3002%u4e0b%u4e00%u8bfe%u6211%u4eec%u4f1a%u5bf9%u7167%u6807%u51c6%u7b54%u6848'',
        ''%u3002''],
    exercise_labFile = None,
    exercise_hints = [js ''%u5173%u6ce8 CSR %u72b6%u6001%u53d8%u5316%uff0c%u4e0d%u8981%u53ea%u76ef pc'',
       jcat [''sstatus.SPP %u548c sstatus.SPIE %u5728 trap '',
         ''%u524d%u540e%u5404%u662f%u4ec0%u4e48%u503c%uff1f''],
       jcat [''%u4e3a%u4ec0%u4e48 sepc %u5b58%u7684%u662f ecall '',
         ''%u672c%u8eab%u7684%u5730%u5740%u3001%u4e0d%u662f%u4e0b%u4e00%u6761%uff1f'']],
    exercise_pseudocode = None\<rparr>\<close>

definition phase1ZhCN_lesson1 :: Lesson where
  \<open>phase1ZhCN_lesson1 = \<lparr>
    lesson_phaseId = 1, lesson_lessonId = 1,
    lesson_title = js ''Phase 1 %u5bfc%u8bfb%uff1a%u4e3a%u4ec0%u4e48%u9700%u8981 trap'',
    lesson_subtitle = js ''U-mode %u21c4 S-mode %u7684%u786c%u4ef6%u8fb9%u754c'',
    lesson_type = js ''Concept'',
    lesson_duration = js ''1 hour'',
    lesson_objectives = [jcat [''%u7406%u89e3%u4ec0%u4e48%u662f trap%u3001%u5f02%u5e38%u3001%u4e2d%u65ad%u3001%u7cfb'',
         ''%u7edf%u8c03%u7528%uff0c%u4ee5%u53ca%u5b83%u4eec%u7684%u5173%u7cfb''],
       jcat [''%u770b%u61c2%u4ece U-mode %u89e6%u53d1 ecall %u5230 S-mode '',
         ''%u5904%u7406%u5e76%u8fd4%u56de%u7684%u5b8c%u6574%u786c%u4ef6%u6d41%u7a0b''],
       jcat [''%u638c%u63e1%u672c phase 5 %u4e2a%u8bfe%u65f6%u4e4b%u95f4%u7684%u4f9d%u8d56%u5173'',
         ''%u7cfb%u4e0e%u5b8c%u6210%u987a%u5e8f''],
       jcat [''%u77e5%u9053%u4e3a%u4ec0%u4e48 trap %u5904%u7406%u5fc5%u987b%u5148%u7528%u6c47%u7f16'',
         ''%u800c%u4e0d%u80fd%u76f4%u63a5%u5199 Rust'']],
    lesson_sections = [phase1ZhCN_lesson1_section1,
      phase1ZhCN_lesson1_section2,
      phase1ZhCN_lesson1_section3],
    lesson_exercises = [phase1ZhCN_lesson1_exercise1],
    lesson_acceptanceCriteria = [jcat [''%u80fd%u7528%u81ea%u5df1%u7684%u8bdd%u5411%u522b%u4eba%u89e3%u91ca exception / '',
         ''interrupt / syscall %u7684%u533a%u522b''],
       jcat [''%u77e5%u9053 Phase 1 %u5c06%u4ea4%u4ed8%u4ec0%u4e48%uff08%u53ef%u8dd1 U-mode '',
         ''%u7a0b%u5e8f + sys_write + sys_exit%uff09''],
       js ''%u660e%u767d%u4e3a%u4ec0%u4e48 trap %u5165%u53e3%u5fc5%u987b%u662f%u6c47%u7f16''],
    lesson_references = [\<lparr>reference_title = js ''xv6-riscv book Ch. 4'',
       reference_description = jcat [''[%u5fc5%u8bfb] Traps and system calls%u2014%u2014%u6982%u5ff5%u4e0e%u5b9e%u73b0'',
          ''%u7684%u9ec4%u91d1%u53c2%u8003''],
       reference_url = js ''https://pdos.csail.mit.edu/6.828/2023/xv6/book-riscv-rev3.pdf''\<rparr>,
      \<lparr>reference_title = js ''rCore-Tutorial %u00a72'',
       reference_description = jcat [''[%u5fc5%u8bfb] %u6279%u5904%u7406%u7cfb%u7edf%u4e0e%u7279%u6743%u7ea7%u5207%u6362'',
          ''%uff08Rust %u5b9e%u73b0%uff09''],
       reference_url = js ''https://rcore-os.cn/rCore-Tutorial-Book-v3/chapter2/index.html''\<rparr>,
      \<lparr>reference_title = js ''RISC-V Privileged Spec Ch. 4'',
       reference_description = js ''[%u6df1%u5165%u9605%u8bfb] Supervisor-Level ISA%u2014%u2014CSR %u6743%u5a01%u5b9a%u4e49'',
       reference_url = js ''https://github.com/riscv/riscv-isa-manual/releases''\<rparr>]\<rparr>\<close>

section \<open>Lesson 2\<close>

definition phase1ZhCN_lesson2_section1 :: ContentSection where
  \<open>phase1ZhCN_lesson2_section1 = \<lparr>
    section_title = js ''5 %u4e2a%u6838%u5fc3 CSR'',
    section_blocks = [TableBlock [js ''CSR'',
         js ''%u5199%u5165%u8005'',
         js ''%u8bfb%u53d6%u8005'',
         js ''%u4f5c%u7528'']
        [[js ''stvec'',
          js ''%u5185%u6838%u542f%u52a8%u65f6%u4e00%u6b21'',
          js ''%u786c%u4ef6 trap %u65f6'',
          js ''trap %u5165%u53e3%u5730%u5740 + MODE''],
         [js ''sepc'',
          js ''%u786c%u4ef6 trap %u65f6'',
          js ''%u5185%u6838 sret %u65f6'',
          js ''%u88ab%u4e2d%u65ad%u6307%u4ee4%u7684 PC''],
         [js ''scause'',
          js ''%u786c%u4ef6 trap %u65f6'',
          js ''trap_handler'',
          js ''trap %u539f%u56e0%u7f16%u7801''],
         [js ''stval'',
          js ''%u786c%u4ef6 trap %u65f6'',
          js ''trap_handler'',
          jcat [''%u9644%u52a0%u4fe1%u606f%uff08%u7f3a%u9875%u5730%u5740%u3001%u975e%u6cd5%u6307%u4ee4'',
            ''%u7801%u7b49%uff09'']],
         [js ''sstatus'',
          js ''%u5185%u6838%u3001%u786c%u4ef6'',
          js ''%u5185%u6838'',
          js ''S-mode %u72b6%u6001%u5b57%uff0c%u542b SPP/SIE/SPIE'']]]\<rparr>\<close>

definition phase1ZhCN_lesson2_section2 :: ContentSection where
  \<open>phase1ZhCN_lesson2_section2 = \<lparr>
    section_title = js ''stvec%uff1atrap %u5165%u53e3%u7684%u8def%u6807'',
    section_blocks = [DiagramBlock (jlines ['' 63                                           2  1  0'',
          ''%u250c%r2e2500%u252c%r042500%u2510'',
          ''%u2502              BASE (trap %u5165%u53e3%u5730%u5740 >> 2)        %u2502MODE%u2502'',
          ''%u2514%r2e2500%u2534%r042500%u2518'',
          ''MODE = 0  Direct   %u2014%u2014 %u6240%u6709 trap %u90fd%u8df3%u5230 BASE'',
          ''MODE = 1  Vectored %u2014%u2014 %u4e2d%u65ad%u8df3%u5230 BASE + cause*4%uff0c%u5f02%u5e38%u4ecd%u5230 BASE'']),
      ParagraphBlock (jcat [''TinyOS %u7528 Direct %u6a21%u5f0f%uff1a%u5728 trap::init() '',
          ''%u91cc%u4e00%u6b21%u6027%u628a stvec %u5199%u6210 __alltraps %u7684%u5730%u5740%u3002Vectored '',
          ''%u6a21%u5f0f%u5728%u591a%u4e2d%u65ad%u6e90%u7684%u9ad8%u6027%u80fd%u5185%u6838%uff08Linux%uff09'',
          ''%u91cc%u624d%u6709%u4f18%u52bf%uff0c%u6559%u5b66%u9636%u6bb5%u4e0d%u503c%u5f97%u590d'',
          ''%u6742%u5ea6%u3002'']),
      CodeBlock (Some (js ''rust'')) (jlines [''pub fn init() {'',
          ''    extern "C" { fn __alltraps(); }'',
          ''    unsafe {'',
          ''        stvec::write(__alltraps as usize, TrapMode::Direct);'',
          ''    }'',
          ''}''])]\<rparr>\<close>

definition phase1ZhCN_lesson2_section3 :: ContentSection where
  \<open>phase1ZhCN_lesson2_section3 = \<lparr>
    section_title = js ''sepc%uff1a%u88ab%u4e2d%u65ad%u7684%u90a3%u6761%u6307%u4ee4'',
    section_blocks = [CalloutBlock Warning (jcat [''sepc %u6307%u5411%u89e6%u53d1 trap %u7684%u6307%u4ee4%u672c%u8eab%uff0c%u4e0d%u662f'',
          ''%u4e0b%u4e00%u6761%u3002%u5bf9 ecall%uff0c%u6211%u4eec%u5e0c%u671b%u8fd4%u56de%u540e'',
          ''%u6267%u884c%u300cecall %u4e4b%u540e%u300d%u7684%u6307%u4ee4%u2014%u2014%u6240%u4ee5'',
          '' trap_handler %u5fc5%u987b%u663e%u5f0f%u6267%u884c cx.sepc += '',
          ''4%u3002%u5fd8%u4e86%u8fd9%u4e00%u6b65%uff0c%u7528%u6237%u7a0b%u5e8f%u4f1a%u9677%u5165%u6b7b%u5faa%u73af'',
          ''%uff1a%u8fd4%u56de%u53bb%u53c8 ecall%u3001%u53c8%u8fdb trap%u2026%u2026'']),
      CodeBlock (Some (js ''rust'')) (jlines [''Trap::Exception(Exception::UserEnvCall) => {'',
          ''    cx.sepc += 4;                // %u2605 %u5fc5%u987b%uff0c%u4e0d%u80fd%u7701'',
          ''    cx.x[10] = syscall(cx.x[17], [cx.x[10], cx.x[11], cx.x[12]]) as usize;'',
          ''}'']),
      ParagraphBlock (jcat [''%u7f3a%u9875%u5f02%u5e38%u4e0d%u540c%uff1a%u6211%u4eec%u5e0c%u671b%u91cd%u65b0%u6267'',
          ''%u884c%u90a3%u6761%u8bbf%u5b58%u6307%u4ee4%uff08%u4fee%u5b8c%u9875%u8868%u4e4b%u540e'',
          ''%u5b83%u5e94%u8be5%u6210%u529f%uff09%uff0c%u6240%u4ee5%u4e0d +4%u3002Phase 4 '',
          ''%u4f1a%u7528%u5230%u3002''])]\<rparr>\<close>

definition phase1ZhCN_lesson2_section4 :: ContentSection where
  \<open>phase1ZhCN_lesson2_section4 = \<lparr>
    section_title = js ''sstatus%uff1aS-mode %u7684%u5fc3%u810f'',
    section_blocks = [DiagramBlock (jlines [''%u5173%u5fc3%u7684 4 %u4e2a%u4f4d%uff1a'',
          ''  SPP  (bit 8)   trap %u6765%u81ea%u54ea%u4e2a%u7279%u6743%u7ea7%uff080=U%uff0c1=S%uff09'',
          ''  SPIE (bit 5)   trap %u524d SIE %u7684%u503c%uff08%u786c%u4ef6%u5907%u4efd%u4f4d%uff09'',
          ''  SIE  (bit 1)   S-mode %u4e2d%u65ad%u4f7f%u80fd'',
          ''  SUM  (bit 18)  S-mode %u8bbf%u95ee U-mode %u5185%u5b58%u7684%u8bb8%u53ef%uff08Phase 4%uff09'',
          '''',
          ''%u72b6%u6001%u673a%uff1atrap %u8fdb%u5165%u65f6'',
          ''  SPP  %u2190 %u5f53%u524d%u7279%u6743%u7ea7'',
          ''  SPIE %u2190 SIE'',
          ''  SIE  %u2190 0          %uff08%u81ea%u52a8%u5173%u4e2d%u65ad%uff0c%u9632%u6b62%u5d4c%u5957%uff09'',
          ''  %u7279%u6743%u7ea7 %u2190 S'',
          '''',
          ''sret %u65f6'',
          ''  %u7279%u6743%u7ea7 %u2190 SPP'',
          ''  SIE    %u2190 SPIE'',
          ''  SPP    %u2190 0'',
          ''  SPIE   %u2190 1'']),
      CalloutBlock Info (jcat [''%u8fd9%u4e2a%u81ea%u52a8%u5173%u4e2d%u65ad + '',
          ''%u81ea%u52a8%u6062%u590d%u7684%u673a%u5236%u662f RISC-V '',
          ''%u5904%u7406%u5d4c%u5957%u4e2d%u65ad%u7684%u4f18%u96c5%u4e4b%u5904%u2014%u2014%u5185%u6838%u5728 trap_handler '',
          ''%u5f00%u5934%u5929%u7136%u5c31%u662f%u5173%u4e2d%u65ad%u7684%uff0c%u60f3%u518d%u5f00%u53ea%u9700%u5199 '',
          ''sstatus.SIE=1%u3002Phase 3 %u505a%u62a2%u5360%u5f0f%u540c%u6b65%u65f6%u4f1a%u9891%u7e41%u7528'',
          ''%u5230%u3002''])]\<rparr>\<close>

definition phase1ZhCN_lesson2_section5 :: ContentSection where
  \<open>phase1ZhCN_lesson2_section5 = \<lparr>
    section_title = js ''%u8bfb%u5199 CSR %u7684%u4e09%u6761%u6307%u4ee4'',
    section_blocks = [CodeBlock (Some (js ''asm'')) (jlines [''csrr  rd, csr           # rd = csr'',
          ''csrw  csr, rs           # csr = rs'',
          ''csrrw rd, csr, rs       # %u539f%u5b50%u4ea4%u6362%uff1atmp=csr; csr=rs; rd=tmp'']),
      ParagraphBlock (jcat [''csrrw %u7684%u539f%u5b50%u6027%u662f trap %u4fdd%u5b58%u7528%u6237 sp '',
          ''%u7684%u5173%u952e%u2014%u2014Lesson 4 %u4f1a%u770b%u5230 __alltraps %u5f00%u5934%u7528 csrrw '',
          ''sp, sscratch, sp %u4e00%u6761%u6307%u4ee4%u6362%u51fa%u7528%u6237 sp '',
          ''%u5e76%u6362%u5165%u5185%u6838 sp%u3002''])]\<rparr>\<close>

definition phase1ZhCN_lesson2_exercise1 :: CodeExercise where
  \<open>phase1ZhCN_lesson2_exercise1 = \<lparr>
    exercise_id = js ''lab1-trap-init'',
    exercise_title = js ''Lab 1a %u2b50 %u5b9e%u73b0 trap::init()'',
    exercise_description = jcat [''%u5199%u4e00%u4e2a pub fn init() %u628a stvec %u6307%u5411 __alltraps%uff08Direct '',
        ''%u6a21%u5f0f%uff09%u3002%u8fd9%u662f%u6574%u4e2a Phase 1 '',
        ''%u7b2c%u4e00%u884c%u771f%u6b63%u8fd0%u884c%u8d77%u6765%u7684%u4ee3%u7801%u3002''],
    exercise_labFile = Some (js ''labs/phase_1_trap/src/trap/mod.rs''),
    exercise_hints = [jcat [''%u7528 riscv %u8fd9%u4e2a crate %u7684 stvec::write %u9ad8%u5c42 '',
         ''API%uff0c%u6bd4%u624b%u5199 csrw %u53ef%u8bfb''],
       js ''MODE=Direct'',
       js ''extern "C" { fn __alltraps(); }''],
    exercise_pseudocode = Some (jlines [''pub fn init() {'',
          ''    extern "C" { fn __alltraps(); }'',
          ''    unsafe {'',
          ''        stvec::write(__alltraps as usize, TrapMode::Direct);'',
          ''    }'',
          ''}''])\<rparr>\<close>

definition phase1ZhCN_lesson2 :: Lesson where
  \<open>phase1ZhCN_lesson2 = \<lparr>
    lesson_phaseId = 1, lesson_lessonId = 2,
    lesson_title = js ''CSR %u786c%u4ef6%u6a21%u578b%uff1a5 %u4e2a%u5bc4%u5b58%u5668%u6491%u8d77%u6574%u4e2a trap'',
    lesson_subtitle = js ''stvec / sepc / scause / stval / sstatus'',
    lesson_type = js ''Concept'',
    lesson_duration = js ''1.5 hours'',
    lesson_objectives = [jcat [''%u8bb0%u4f4f 5 %u4e2a trap %u76f8%u5173 CSR '',
         ''%u7684%u5b8c%u6574%u8bed%u4e49%u53ca%u8bfb%u5199%u65f6%u673a''],
       jcat [''%u770b%u61c2 sstatus %u4e2d SPP / SIE / SPIE '',
         ''%u7684%u4f4d%u5e03%u5c40%u4e0e%u72b6%u6001%u673a''],
       jcat [''%u7406%u89e3 sepc %u4e3a%u4ec0%u4e48%u6307%u5411%u300c%u89e6%u53d1%u6307%u4ee4%u672c'',
         ''%u8eab%u300d%uff0cecall %u8fd4%u56de%u65f6%u4e3a%u4ec0%u4e48%u8981 +4''],
       js ''%u4f1a%u5199 csrr / csrw / csrrw %u4e09%u79cd%u8bfb%u5199%u6307%u4ee4''],
    lesson_sections = [phase1ZhCN_lesson2_section1,
      phase1ZhCN_lesson2_section2,
      phase1ZhCN_lesson2_section3,
      phase1ZhCN_lesson2_section4,
      phase1ZhCN_lesson2_section5],
    lesson_exercises = [phase1ZhCN_lesson2_exercise1],
    lesson_acceptanceCriteria = [js ''%u80fd%u76f2%u5199%u51fa 5 %u4e2a CSR %u7684%u4f5c%u7528'',
       jcat [''%u80fd%u89e3%u91ca%u300c%u4e3a%u4ec0%u4e48 ecall %u7684 cx.sepc %u8981 +4 '',
         ''%u4f46%u7f3a%u9875%u4e0d%u8981%u300d''],
       jcat [''trap::init() %u8dd1%u901a%uff08gdb %u91cc%u8bfb stvec %u770b%u5230 __alltraps '',
         ''%u5730%u5740%uff09'']],
    lesson_references = [\<lparr>reference_title = js ''RISC-V Privileged Spec %u00a74.1.1'',
       reference_description = js ''[%u5fc5%u8bfb] sstatus %u7684%u5b8c%u6574%u4f4d%u5e03%u5c40'',
       reference_url = js ''https://github.com/riscv/riscv-isa-manual/releases''\<rparr>,
      \<lparr>reference_title = js ''riscv crate docs'',
       reference_description = js ''[%u5fc5%u8bfb] Rust %u4fa7%u7684 CSR %u5c01%u88c5'',
       reference_url = js ''https://docs.rs/riscv/latest/riscv/''\<rparr>,
      \<lparr>reference_title = js ''xv6-riscv kernel/riscv.h'',
       reference_description = js ''[%u6df1%u5165%u9605%u8bfb] %u5bf9%u7167 C %u7248%u7684 CSR %u5b8f'',
       reference_url = js ''https://github.com/mit-pdos/xv6-riscv/blob/riscv/kernel/riscv.h''\<rparr>]\<rparr>\<close>

section \<open>Lesson 3\<close>

definition phase1ZhCN_lesson3_section1 :: ContentSection where
  \<open>phase1ZhCN_lesson3_section1 = \<lparr>
    section_title = js ''%u5b57%u6bb5%u6e05%u5355'',
    section_blocks = [CodeBlock (Some (js ''rust'')) (jlines [''#[repr(C)]'',
          ''pub struct TrapContext {'',
          ''    pub x: [usize; 32],   // x0..x31 %u901a%u7528%u5bc4%u5b58%u5668'',
          ''    pub sstatus: Sstatus, // S-mode %u72b6%u6001%uff08%u4e3b%u8981%u662f SPP%uff0c%u51b3%u5b9a sret %u53bb%u54ea%uff09'',
          ''    pub sepc: usize,      // %u8fd4%u56de%u7528%u6237%u7684 PC'',
          ''}'',
          ''// sizeof = 34 * 8 = 272 bytes'']),
      ParagraphBlock (jcat [''34 %u4e2a usize %u662f%u6700%u5c0f%u53ef%u884c%u96c6%u3002Phase 1 '',
          ''%u4e0d%u4fdd%u5b58%u6d6e%u70b9%u5bc4%u5b58%u5668%uff08%u6211%u4eec%u7684%u7528%u6237%u7a0b%u5e8f%u4e0d'',
          ''%u7528%uff09%uff0c%u4e0d%u4fdd%u5b58 satp%uff08%u5355%u5730%u5740%u7a7a%u95f4%uff09'',
          ''%u3002Phase 4 %u4e0a%u4e86%u865a%u62df%u5185%u5b58%u540e%uff0cTrapContext '',
          ''%u4f1a%u957f%u5230 37+ %u4e2a usize%u2014%u2014%u4f46%u90a3%u662f%u540e%u8bdd%u3002''])]\<rparr>\<close>

definition phase1ZhCN_lesson3_section2 :: ContentSection where
  \<open>phase1ZhCN_lesson3_section2 = \<lparr>
    section_title = js ''%u4e3a%u4ec0%u4e48%u4fdd%u7559 x0%uff1f'',
    section_blocks = [CalloutBlock Info (jcat [''x0 %u6c38%u8fdc%u662f 0%uff0c%u6309%u7406%u53ef%u4ee5%u7701%u3002%u4f46%u6c47%u7f16'',
          ''%u91cc%u6211%u4eec%u5e0c%u671b sd x0, 0*8(sp) %u548c sd x1, 1*8(sp) ... '',
          ''%u7684%u5faa%u73af%u5bf9%u79f0%u2014%u2014%u504f%u79fb = %u5bc4%u5b58%u5668%u53f7 * '',
          ''8%u3002%u7701%u6389 x0 %u4f1a%u8ba9%u504f%u79fb%u8ba1%u7b97%u51fa%u9519%u6982%u7387%u98d9'',
          ''%u5347%u3002%u4e00%u4e2a u64 %u6362 32 %u884c%u4ee3%u7801%u7684%u5bf9%u79f0%u6027'',
          ''%uff0c%u975e%u5e38%u5212%u7b97%u3002''])]\<rparr>\<close>

definition phase1ZhCN_lesson3_section3 :: ContentSection where
  \<open>phase1ZhCN_lesson3_section3 = \<lparr>
    section_title = js ''%u6808%u4e0a%u7684%u5e03%u5c40%u56fe'',
    section_blocks = [DiagramBlock (jlines [''%u5185%u6838%u6808 (kernel_stack[0..8192])                         %u5730%u5740%u9ad8'',
          ''                                 %u250c%r0f2500%u2510  %u2190 stack_top'',
          ''                                 %u2502  (%u4fdd%u7559/%u5bf9%u9f50)    %u2502'',
          ''                                 %u251c%r0f2500%u2524'',
          ''                                 %u2502  sepc         %u2502  %u2190 sp+33*8'',
          ''                                 %u2502  sstatus      %u2502  %u2190 sp+32*8'',
          ''                                 %u2502  x31 = t6     %u2502  %u2190 sp+31*8'',
          ''                                 %u2502       ...     %u2502'',
          ''                                 %u2502  x2  = sp(u)  %u2502  %u2190 sp+2*8   %u7528%u6237%u6808%u6307%u9488%u5feb%u7167'',
          ''                                 %u2502  x1  = ra     %u2502  %u2190 sp+1*8'',
          ''                                 %u2502  x0  = 0      %u2502  %u2190 sp+0*8'',
          ''                                 %u2514%r0f2500%u2518  %u2190 sp (%u8fdb%u5165 trap_handler %u65f6)'']),
      ParagraphBlock (jcat [''%u5173%u952e%u4e0d%u53d8%u91cf%uff1atrap_handler(cx: &mut TrapContext) %u91cc cx '',
          ''%u5c31%u7b49%u4e8e%u5f53%u524d sp%u3002%u8fd9%u662f%u901a%u8fc7%u6c47%u7f16 mv a0, '',
          ''sp %u5b9e%u73b0%u7684%u2014%u2014%u4fdd%u5b58%u5b8c 34 '',
          ''%u4e2a%u5b57%u6bb5%u540e%u6808%u9876%u6b63%u597d%u6307%u5411%u7b2c%u4e00%u4e2a%u5b57%u6bb5%uff0c%u7b26%u5408 '',
          ''#[repr(C)] %u7684%u5e03%u5c40%u3002''])]\<rparr>\<close>

definition phase1ZhCN_lesson3_section4 :: ContentSection where
  \<open>phase1ZhCN_lesson3_section4 = \<lparr>
    section_title = js ''app_init_context%uff1a%u9996%u6b21%u8fdb%u5165 U-mode %u7684%u4f2a%u9020%u73b0%u573a'',
    section_blocks = [ParagraphBlock (jcat [''%u7528%u6237%u7a0b%u5e8f%u7b2c%u4e00%u6b21%u8fd0%u884c%u65f6%u8fd8%u6ca1%u8fdb%u8fc7'',
          '' trap%u2014%u2014%u6ca1%u4eba%u7ed9%u5b83%u4fdd%u5b58%u8fc7%u4e0a%u4e0b%u6587%u3002'',
          ''%u6211%u4eec%u5fc5%u987b%u624b%u5de5%u6784%u9020%u4e00%u4e2a '',
          ''TrapContext%uff0c%u8ba9 sret %u80fd%u6b63%u786e%u628a%u5b83%u300c%u9001%u300d%u8fdb '',
          ''U-mode%u3002%u8fd9%u662f TinyOS %u91cc%u6700 hacky '',
          ''%u4e5f%u6700%u6709%u6559%u80b2%u610f%u4e49%u7684%u4e00%u6bb5%u4ee3%u7801%u3002'']),
      CodeBlock (Some (js ''rust'')) (jlines [''impl TrapContext {'',
          ''    pub fn app_init_context(entry: usize, sp: usize) -> Self {'',
          ''        let mut sstatus = sstatus::read();'',
          ''        sstatus.set_spp(SPP::User);   // sret %u5c06%u8fdb%u5165 U-mode'',
          ''        let mut cx = Self {'',
          ''            x: [0; 32],'',
          ''            sstatus,'',
          ''            sepc: entry,              // sret %u7684%u76ee%u7684%u5730'',
          ''        };'',
          ''        cx.set_sp(sp);                // x[2] = sp (%u7528%u6237%u6808)'',
          ''        cx'',
          ''    }'',
          ''    pub fn set_sp(&mut self, sp: usize) { self.x[2] = sp; }'',
          ''}'']),
      CalloutBlock Tip (jcat [''%u6ce8%u610f sstatus.SPP=User %u540e%uff0csret '',
          ''%u6267%u884c%u65f6%u786c%u4ef6%u4f1a%uff1a%u7279%u6743%u7ea7%u2190SPP%u3001pc%u2190sepc%u3001SIE%u2190SPIE%u3002%u4e8e'',
          ''%u662f CPU %u8df3%u8fdb 0x80400000%uff08%u7528%u6237%u7a0b%u5e8f%u5165%u53e3%uff09'',
          ''%u4e14%u5904%u4e8e U-mode%u2014%u2014%u7b2c%u4e00%u6b21 trap '',
          ''%u5c31%u8fd9%u6837%u88ab%u9006%u5411%u300c%u4f2a%u9020%u300d%u3002''])]\<rparr>\<close>

definition phase1ZhCN_lesson3_exercise1 :: CodeExercise where
  \<open>phase1ZhCN_lesson3_exercise1 = \<lparr>
    exercise_id = js ''lab1-context'',
    exercise_title = js ''Lab 1b %u2b50%u2b50 TrapContext + app_init_context'',
    exercise_description = jcat [''%u8865%u5168 TrapContext %u7ed3%u6784%u4f53%u4e0e '',
        ''app_init_context()%u3002%u540e%u8005%u4f1a%u5728 Lesson 5 %u7efc%u5408%u5b9e%u9a8c%u91cc%u88ab loader '',
        ''%u8c03%u7528%u3002''],
    exercise_labFile = Some (js ''labs/phase_1_trap/src/trap/context.rs''),
    exercise_hints = [jcat [''#[repr(C)] %u5fc5%u4e0d%u53ef%u5c11%u2014%u2014%u6c47%u7f16%u786c%u7f16%u7801%u4e86'',
         ''%u504f%u79fb''],
       js ''sstatus::read() %u8bfb%u5f53%u524d S-mode %u72b6%u6001%u5b57%uff0c%u518d set_spp(User)'',
       js ''sepc = entry%uff08%u7528%u6237%u7a0b%u5e8f%u5165%u53e3%u5730%u5740%uff09'',
       js ''x[2] = sp%uff08%u7528%u6237%u6808%u9876%uff09''],
    exercise_pseudocode = Some (jlines [''#[repr(C)]'',
          ''pub struct TrapContext {'',
          ''    pub x: [usize; 32],'',
          ''    pub sstatus: Sstatus,'',
          ''    pub sepc: usize,'',
          ''}'',
          ''impl TrapContext {'',
          ''    pub fn set_sp(&mut self, sp: usize) { self.x[2] = sp; }'',
          ''    pub fn app_init_context(entry: usize, sp: usize) -> Self {'',
          ''        let mut s = sstatus::read();'',
          ''        s.set_spp(SPP::User);'',
          ''        let mut cx = Self { x: [0; 32], sstatus: s, sepc: entry };'',
          ''        cx.set_sp(sp);'',
          ''        cx'',
          ''    }'',
          ''}''])\<rparr>\<close>

definition phase1ZhCN_lesson3 :: Lesson where
  \<open>phase1ZhCN_lesson3 = \<lparr>
    lesson_phaseId = 1, lesson_lessonId = 3,
    lesson_title = js ''TrapContext%uff1a%u4e3a%u4ec0%u4e48%u662f 34 %u4e2a u64'',
    lesson_subtitle = js ''%u4e0a%u4e0b%u6587%u6570%u636e%u7ed3%u6784%u7684%u7cbe%u786e%u8bbe%u8ba1'',
    lesson_type = js ''Concept + Practice'',
    lesson_duration = js ''1.5 hours'',
    lesson_objectives = [jcat [''%u638c%u63e1 TrapContext %u4e3a%u4ec0%u4e48%u5305%u542b 32 '',
         ''%u4e2a%u901a%u7528%u5bc4%u5b58%u5668 + sstatus + sepc''],
       jcat [''%u7406%u89e3%u7ed3%u6784%u4f53%u5185%u5b58%u5e03%u5c40%uff08#[repr(C)]%uff09%u4e0e'',
         ''%u6c47%u7f16%u504f%u79fb%u7684%u5bf9%u5e94%u5173%u7cfb''],
       jcat [''%u80fd%u89e3%u91ca%u300c%u4e3a%u4ec0%u4e48%u4fdd%u5b58 x0 '',
         ''%u4e5f%u5360%u4e00%u4e2a%u69fd%u4f4d%u800c%u4e0d%u662f%u8df3%u8fc7%u300d''],
       jcat [''%u4f1a%u5199 TrapContext::app_init_context() '',
         ''%u4e3a%u7528%u6237%u7a0b%u5e8f%u6784%u9020%u521d%u59cb%u73b0%u573a'']],
    lesson_sections = [phase1ZhCN_lesson3_section1,
      phase1ZhCN_lesson3_section2,
      phase1ZhCN_lesson3_section3,
      phase1ZhCN_lesson3_section4],
    lesson_exercises = [phase1ZhCN_lesson3_exercise1],
    lesson_acceptanceCriteria = [js ''TrapContext size %u6b63%u597d%u662f 272 %u5b57%u8282%uff08cargo test %u68c0%u67e5%uff09'',
       jcat [''app_init_context %u8fd4%u56de%u503c%u7684 sstatus.SPP == User%u3001sepc == '',
         ''entry%u3001x[2] == sp''],
       js ''%u80fd%u53e3%u5934%u89e3%u91ca%u300c%u4e3a%u4ec0%u4e48%u4e0d%u80fd%u7701 x0%u300d''],
    lesson_references = [\<lparr>reference_title = js ''rCore-Tutorial %u00a72.3'',
       reference_description = js ''[%u5fc5%u8bfb] TrapContext %u7684%u9010%u884c%u8bb2%u89e3'',
       reference_url = js ''https://rcore-os.cn/rCore-Tutorial-Book-v3/chapter2/4trap-handling.html''\<rparr>,
      \<lparr>reference_title = js ''Rust Reference: repr(C)'',
       reference_description = jcat [''[%u6df1%u5165%u9605%u8bfb] %u4e3a%u4ec0%u4e48%u5185%u5b58%u5e03%u5c40%u5fc5%u987b'',
          ''%u786e%u5b9a''],
       reference_url = js ''https://doc.rust-lang.org/reference/type-layout.html#the-c-representation''\<rparr>]\<rparr>\<close>

section \<open>Lesson 4\<close>

definition phase1ZhCN_lesson4_section1 :: ContentSection where
  \<open>phase1ZhCN_lesson4_section1 = \<lparr>
    section_title = js ''%u4efb%u52a1%u5206%u89e3'',
    section_blocks = [ListBlock True
        [js ''%u5207%u6362%u5230%u5185%u6838%u6808%uff08csrrw sp, sscratch, sp%uff09'',
         js ''%u5728%u6808%u4e0a%u817e%u51fa 34*8 %u5b57%u8282'',
         jcat [''%u4fdd%u5b58 x0..x31%uff08%u9664%u4e86 x2 %u9700%u8981%u4ece sscratch '',
           ''%u8bfb%u51fa%u6765%uff09''],
         js ''%u4fdd%u5b58 sstatus%u3001sepc'',
         js ''mv a0, sp%uff1bcall trap_handler'',
         jcat [''trap_handler %u8fd4%u56de%u540e%uff0c__restore %u6062%u590d%u5168%u90e8 34 '',
           ''%u4e2a%u5b57%u6bb5''],
         js ''csrrw sp, sscratch, sp %u5207%u56de%u7528%u6237%u6808'',
         js ''sret'']]\<rparr>\<close>

definition phase1ZhCN_lesson4_section2 :: ContentSection where
  \<open>phase1ZhCN_lesson4_section2 = \<lparr>
    section_title = js ''%u7528%u6237/%u5185%u6838%u6808%u5207%u6362%uff1acsrrw %u7684%u5999%u7528'',
    section_blocks = [ParagraphBlock (jcat [''%u8fdb%u5165 trap %u65f6 sp %u8fd8%u6307%u5411%u7528%u6237%u6808%u2014%u2014%u4e0d'',
          ''%u80fd%u76f4%u63a5 push%uff0c%u4f1a%u5199%u574f%u7528%u6237%u5185%u5b58%u3002%u6211'',
          ''%u4eec%u9884%u5148%u5728%u5185%u6838 trap_init '',
          ''%u65f6%u628a%u5185%u6838%u6808%u9876%u5b58%u5230 sscratch%u3002%u4e8e%u662f%u7b2c%u4e00%u6761%u6307%u4ee4%u662f%uff1a'']),
      CodeBlock (Some (js ''asm'')) (jcat [''csrrw sp, sscratch, sp    # %u539f%u5b50%u5730%uff1atmp=sscratch; '',
          ''sscratch=sp(%u7528%u6237); sp=tmp(%u5185%u6838)'']),
      ParagraphBlock (jcat [''%u4e00%u6761%u6307%u4ee4%u5c31%u540c%u65f6%u505a%u5230%u300c%u628a%u7528%u6237 sp '',
          ''%u85cf%u8fdb sscratch%u3001%u628a%u5185%u6838 sp %u62ff%u8fdb '',
          ''sp%u300d%u3002%u5982%u679c%u7528%u4e24%u6761%u6307%u4ee4%u4f1a%u6709 '',
          ''race%u2014%u2014%u88ab%u4e2d%u65ad%u5939%u51fb%u65f6%u53ef%u80fd%u5d29%u3002Phase 3 '',
          ''%u4f60%u4f1a%u66f4%u6df1%u523b%u5730%u4f53%u4f1a%u5230%u3002''])]\<rparr>\<close>

definition phase1ZhCN_lesson4_section3 :: ContentSection where
  \<open>phase1ZhCN_lesson4_section3 = \<lparr>
    section_title = js ''__alltraps %u5b8c%u6574%u4ee3%u7801'',
    section_blocks = [CodeBlock (Some (js ''asm'')) (jlines [''    .altmacro'',
          ''    .macro SAVE_GP n'',
          ''        sd x%5cn, %5cn*8(sp)'',
          ''    .endm'',
          ''    .macro LOAD_GP n'',
          ''        ld x%5cn, %5cn*8(sp)'',
          ''    .endm'',
          '''',
          ''    .section .text'',
          ''    .globl __alltraps'',
          ''    .align 2'',
          ''__alltraps:'',
          ''    csrrw sp, sscratch, sp       # sp %u2192 %u5185%u6838%u6808%uff1bsscratch %u2192 %u7528%u6237%u6808'',
          ''    addi sp, sp, -34*8           # %u817e%u51fa TrapContext %u7a7a%u95f4'',
          '''',
          ''    sd x1, 1*8(sp)'',
          ''    # x2 (=%u7528%u6237 sp) %u6682%u65f6%u4e0d%u5b58%uff0cx4 %u4fdd%u7559'',
          ''    .set n, 3'',
          ''    .rept 29'',
          ''        SAVE_GP %25n'',
          ''        .set n, n+1'',
          ''    .endr                        # %u4fdd%u5b58 x3..x31'',
          '''',
          ''    csrr t0, sstatus'',
          ''    csrr t1, sepc'',
          ''    sd t0, 32*8(sp)'',
          ''    sd t1, 33*8(sp)'',
          '''',
          ''    csrr t2, sscratch            # %u8bfb%u56de%u7528%u6237 sp'',
          ''    sd t2, 2*8(sp)               # %u5b58%u5230 x[2] %u69fd'',
          '''',
          ''    mv a0, sp                    # trap_handler %u7684%u53c2%u6570'',
          ''    call trap_handler            # %u8c03%u7528 Rust'',
          '''',
          ''    # %u843d%u4e0b%u6765%u5c31%u662f __restore'',
          ''    .globl __restore'',
          ''__restore:'',
          ''    ld t0, 32*8(sp)'',
          ''    ld t1, 33*8(sp)'',
          ''    csrw sstatus, t0'',
          ''    csrw sepc, t1'',
          '''',
          ''    ld t2, 2*8(sp)'',
          ''    csrw sscratch, t2            # %u7528%u6237 sp %u5b58%u56de sscratch'',
          '''',
          ''    ld x1, 1*8(sp)'',
          ''    .set n, 3'',
          ''    .rept 29'',
          ''        LOAD_GP %25n'',
          ''        .set n, n+1'',
          ''    .endr'',
          '''',
          ''    addi sp, sp, 34*8            # %u91ca%u653e TrapContext'',
          ''    csrrw sp, sscratch, sp       # %u5207%u56de%u7528%u6237%u6808'',
          ''    sret''])]\<rparr>\<close>

definition phase1ZhCN_lesson4_section4 :: ContentSection where
  \<open>phase1ZhCN_lesson4_section4 = \<lparr>
    section_title = js ''__restore %u7684%u4e24%u4e2a%u8eab%u4efd'',
    section_blocks = [CalloutBlock Warning (jcat [''__restore %u4e0d%u53ea%u662f trap %u8fd4%u56de%u2014%u2014%u5b83%u8fd8%u662f%u9996'',
          ''%u6b21%u8fdb%u5165 U-mode %u7684%u552f%u4e00%u5165%u53e3%u3002Loader '',
          ''%u628a%u624b%u5de5%u6784%u9020%u7684 TrapContext '',
          ''%u63a8%u5230%u5185%u6838%u6808%u9876%uff0c%u7136%u540e jr __restore%u3002__restore '',
          ''%u4e0d%u95ee%u4e0a%u4e0b%u6587%u600e%u4e48%u6765%u7684%uff0c%u53ea%u8d1f%u8d23%u5fe0%u5b9e%u5730%u628a 34 %u4e2a%u5b57%u6bb5 '',
          ''pop %u8fdb%u5bc4%u5b58%u5668%u548c CSR%uff0c%u518d '',
          ''sret%u3002%u8fd9%u4e2a%u300c%u53bb%u6e90%u5316%u300d%u8bbe%u8ba1%u662f Phase 2 '',
          ''%u4efb%u52a1%u5207%u6362%u7684%u57fa%u7840%u3002''])]\<rparr>\<close>

definition phase1ZhCN_lesson4_section5 :: ContentSection where
  \<open>phase1ZhCN_lesson4_section5 = \<lparr>
    section_title = js ''%u5e38%u89c1%u9519%u8bef'',
    section_blocks = [ListBlock False
        [jcat [''%u4fdd%u5b58%u524d%u6ca1%u5207%u6808 %u2192 %u7528%u6237 sp '',
           ''%u6307%u5411%u54ea%u91cc%u5c31%u5199%u54ea%u91cc%uff0c%u7ecf%u5e38%u6bb5%u9519%u8bef''],
         jcat [''x[2] %u76f4%u63a5 sd x2, 2*8(sp) %u2192 %u5b58%u8fdb%u53bb%u7684%u662f%u5185%u6838 '',
           ''sp%uff0c%u9519%u6210%u4e00%u56e2''],
         js ''%u5fd8%u4e86 mv a0, sp %u2192 trap_handler %u6536%u5230%u5783%u573e%u6307%u9488'',
         jcat [''__restore %u91cc%u5fd8%u4e86 csrw sscratch %u2192 %u4e0b%u4e00%u6b21 trap '',
           ''%u7528%u9519%u6808''],
         jcat [''sret %u4e4b%u524d%u6ca1%u5207%u56de%u7528%u6237 sp %u2192 '',
           ''%u5728%u5185%u6838%u6808%u4e0a%u8dd1%u7528%u6237%u4ee3%u7801''],
         jcat [''%u5fd8%u4e86 .align 2 %u2192 stvec %u4f4e 2 %u4f4d%u88ab%u5f53%u6210 '',
           ''MODE%uff0c%u4f1a%u5d29'']]]\<rparr>\<close>

definition phase1ZhCN_lesson4_exercise1 :: CodeExercise where
  \<open>phase1ZhCN_lesson4_exercise1 = \<lparr>
    exercise_id = js ''lab2'',
    exercise_title = js ''Lab 2 %r032b50 %u5199 trap.S'',
    exercise_description = jcat [''%u628a%u4e0a%u9762%u7684 __alltraps / __restore '',
        ''%u5b8c%u6574%u5b9e%u73b0%u5e76%u901a%u8fc7 make test%u3002%u8fd9%u662f%u6574%u4e2a Phase 1 '',
        ''%u6700%u6709%u6311%u6218%u7684%u4e00%u5173%u3002''],
    exercise_labFile = Some (js ''labs/phase_1_trap/src/trap/trap.S''),
    exercise_hints = [js ''%u5148%u5199 SAVE_GP / LOAD_GP %u5b8f%u518d%u5c55%u5f00'',
       jcat [''sscratch %u7684 init %u5728 trap::init() %u91cc%u505a%u2014%u2014%u628a%u5185%u6838'',
         ''%u6808%u9876%u5199%u8fdb%u53bb''],
       jcat [''%u8c03%u8bd5%u6280%u5de7%uff1a%u5728 mv a0, sp %u540e%u4e0b%u65ad%u70b9%uff0c%u7528 '',
         ''info reg %u68c0%u67e5 34 %u4e2a%u5b57%u6bb5%u503c''],
       jcat [''%u4e0d%u786e%u5b9a%u54ea%u91cc%u9519%uff1fgdb %u7684 x/34gx $a0 '',
         ''%u4e00%u773c%u770b%u7a7f TrapContext'']],
    exercise_pseudocode = Some (jlines [''__alltraps:'',
          ''    csrrw sp, sscratch, sp'',
          ''    addi sp, sp, -34*8'',
          ''    save x1, x3..x31 into TrapContext'',
          ''    save sstatus, sepc from CSR'',
          ''    save user sp from sscratch into x[2]'',
          ''    mv a0, sp'',
          ''    call trap_handler'',
          ''__restore:'',
          ''    restore sstatus, sepc'',
          ''    save x[2] back into sscratch'',
          ''    restore x1, x3..x31'',
          ''    addi sp, sp, 34*8'',
          ''    csrrw sp, sscratch, sp'',
          ''    sret''])\<rparr>\<close>

definition phase1ZhCN_lesson4 :: Lesson where
  \<open>phase1ZhCN_lesson4 = \<lparr>
    lesson_phaseId = 1, lesson_lessonId = 4,
    lesson_title = js ''__alltraps / __restore%uff1a%u90a3 60 %u884c%u6c47%u7f16'',
    lesson_subtitle = js ''%u4fdd%u5b58%u3001%u5206%u53d1%u3001%u6062%u590d%uff0c%u4e00%u884c%u90fd%u4e0d%u80fd%u9519'',
    lesson_type = js ''Practice'',
    lesson_duration = js ''2 hours'',
    lesson_objectives = [jcat [''%u80fd%u9010%u884c%u89e3%u91ca __alltraps %u7684%u6bcf%u4e00%u6761%u6307%u4ee4%u5728'',
         ''%u5e72%u4ec0%u4e48%u3001%u4e3a%u4ec0%u4e48%u8fd9%u4e2a%u987a%u5e8f''],
       jcat [''%u7406%u89e3 csrrw sp, sscratch, sp %u7684%u539f%u5b50%u7528%u6237/%u5185%u6838'',
         ''%u6808%u5207%u6362''],
       jcat [''%u4f1a%u5199 __restore %u5e76%u77e5%u9053%u5b83%u7684%u7b2c%u4e8c%u4e2a%u8eab%u4efd'',
         ''%u2014%u2014%u9996%u6b21%u8fdb%u5165 U-mode''],
       js ''%u4f1a%u7528 .altmacro + .rept %u7b80%u5316%u5bc4%u5b58%u5668%u4fdd%u5b58%u5faa%u73af''],
    lesson_sections = [phase1ZhCN_lesson4_section1,
      phase1ZhCN_lesson4_section2,
      phase1ZhCN_lesson4_section3,
      phase1ZhCN_lesson4_section4,
      phase1ZhCN_lesson4_section5],
    lesson_exercises = [phase1ZhCN_lesson4_exercise1],
    lesson_acceptanceCriteria = [jcat [''make test %u4e2d trap.S %u7684%u5355%u5143%u6d4b%u8bd5%u901a%u8fc7%uff08%u4fdd%u5b58'',
         ''%u540e 34 %u4e2a%u5b57%u6bb5%u4f4d%u7f6e%u7cbe%u786e%uff09''],
       jcat [''%u80fd%u7528 gdb %u5355%u6b65%u8d70%u5b8c __alltraps %u5230 '',
         ''__restore%uff0c%u6bcf%u4e00%u6b65%u7b26%u5408%u9884%u671f''],
       jcat [''%u80fd%u89e3%u91ca%uff1a%u4e3a%u4ec0%u4e48 x[2] '',
         ''%u7684%u4fdd%u5b58%u4e0d%u80fd%u5728%u5faa%u73af%u91cc%u548c%u5176%u5b83%u5bc4%u5b58%u5668%u4e00%u8d77%u505a'']],
    lesson_references = [\<lparr>reference_title = js ''rCore-Tutorial trap.S %u89e3%u6790'',
       reference_description = js ''[%u5fc5%u8bfb] %u6bcf%u6761%u6307%u4ee4%u7684%u4e2d%u6587%u9010%u884c%u6ce8%u91ca'',
       reference_url = js ''https://rcore-os.cn/rCore-Tutorial-Book-v3/chapter2/4trap-handling.html#trap''\<rparr>,
      \<lparr>reference_title = js ''RISC-V Asm Manual'',
       reference_description = js ''[%u6df1%u5165%u9605%u8bfb] .altmacro / .rept %u7684%u7528%u6cd5'',
       reference_url = js ''https://github.com/riscv-non-isa/riscv-asm-manual/blob/master/src/asm-manual.adoc''\<rparr>,
      \<lparr>reference_title = js ''xv6 kernel/trampoline.S'',
       reference_description = jcat [''[%u6df1%u5165%u9605%u8bfb] C %u5185%u6838%u7684%u7b49%u4ef7%u5b9e%u73b0%uff08%u7528 '',
          ''trampoline %u9875%u800c%u975e sscratch%uff09''],
       reference_url = js ''https://github.com/mit-pdos/xv6-riscv/blob/riscv/kernel/trampoline.S''\<rparr>]\<rparr>\<close>

section \<open>Lesson 5\<close>

definition phase1ZhCN_lesson5_section1 :: ContentSection where
  \<open>phase1ZhCN_lesson5_section1 = \<lparr>
    section_title = js ''syscall ABI'',
    section_blocks = [TableBlock [js ''%u5bc4%u5b58%u5668'',
         js ''%u7528%u9014'']
        [[js ''a7 (x17)'',
          js ''syscall %u53f7''],
         [js ''a0-a5 (x10-x15)'',
          js ''%u53c2%u6570 1-6''],
         [js ''a0 (x10)'',
          js ''%u8fd4%u56de%u503c%uff08%u8986%u76d6%u53c2%u6570 1%uff09'']],
      ParagraphBlock (jcat [''%u8fd9%u4e0e Linux RISC-V %u7684%u7ea6%u5b9a%u5b8c%u5168%u4e00%u81f4%u2014%u2014'',
          ''%u672a%u6765%u4f60%u7684%u7528%u6237%u7a0b%u5e8f%u53ef%u4ee5%u590d%u7528 musl '',
          ''%u7684 syscall %u5c01%u88c5%u3002TinyOS Phase 1 %u53ea%u5b9e%u73b0 2 %u4e2a%u53f7%uff1a'']),
      TableBlock [js ''%u53f7'',
         js ''%u540d%u5b57'',
         js ''%u8bed%u4e49'']
        [[js ''64'',
          js ''sys_write(fd, buf, len)'',
          jcat [''%u628a buf %u7684 len %u5b57%u8282%u6253%u5370%u5230 stdout%uff08fd '',
            ''%u5fc5%u987b%u662f 1%uff09'']],
         [js ''93'',
          js ''sys_exit(code)'',
          jcat [''%u9000%u51fa%u5f53%u524d%u4efb%u52a1%uff0c%u6253%u5370 code%uff0c%u8c03 '',
            ''shutdown%uff08Phase 2 %u4f1a%u6539%uff09'']]]]\<rparr>\<close>

definition phase1ZhCN_lesson5_section2 :: ContentSection where
  \<open>phase1ZhCN_lesson5_section2 = \<lparr>
    section_title = js ''trap_handler %u5206%u53d1%u9aa8%u67b6'',
    section_blocks = [CodeBlock (Some (js ''rust'')) (jlines [''#[no_mangle]'',
          ''pub fn trap_handler(cx: &mut TrapContext) -> &mut TrapContext {'',
          ''    let scause = scause::read();'',
          ''    let stval = stval::read();'',
          ''    match scause.cause() {'',
          ''        Trap::Exception(Exception::UserEnvCall) => {'',
          ''            cx.sepc += 4;                      // %u2605 %u8df3%u8fc7 ecall %u6307%u4ee4'',
          ''            cx.x[10] = syscall('',
          ''                cx.x[17],                       // sysno'',
          ''                [cx.x[10], cx.x[11], cx.x[12]], // args'',
          ''            ) as usize;'',
          ''        }'',
          ''        Trap::Exception(Exception::StoreFault)'',
          ''        | Trap::Exception(Exception::StorePageFault) => {'',
          ''            println!("[kernel] PageFault @ {:#x}, killing app", stval);'',
          ''            run_next_app();                    // %u89c1 Lesson 5 loader'',
          ''        }'',
          ''        Trap::Exception(Exception::IllegalInstruction) => {'',
          ''            println!("[kernel] IllegalInstruction, killing app");'',
          ''            run_next_app();'',
          ''        }'',
          ''        _ => panic!("unhandled trap: {:?}, stval={:#x}", scause.cause(), stval),'',
          ''    }'',
          ''    cx'',
          ''}'']),
      CalloutBlock Info (jcat [''%u8fd4%u56de &mut TrapContext %u662f%u4e3a%u4e86%u8ba9 __restore '',
          ''%u4e0d%u7528%u91cd%u65b0%u8ba1%u7b97 sp%u2014%u2014%u8c03%u7528%u7ea6%u5b9a%u4fdd%u8bc1 a0 '',
          ''%u8fd4%u56de%u7684%u5c31%u662f cx %u6307%u9488%uff0c__restore '',
          ''%u62ff%u5230%u540e%u76f4%u63a5%u5f53 sp %u7528%u3002''])]\<rparr>\<close>

definition phase1ZhCN_lesson5_section3 :: ContentSection where
  \<open>phase1ZhCN_lesson5_section3 = \<lparr>
    section_title = js ''sys_write %u4e0e sys_exit'',
    section_blocks = [CodeBlock (Some (js ''rust'')) (jlines [''pub fn sys_write(fd: usize, buf: *const u8, len: usize) -> isize {'',
          ''    if fd != 1 { return -1; }'',
          ''    let slice = unsafe { core::slice::from_raw_parts(buf, len) };'',
          ''    let s = core::str::from_utf8(slice).unwrap_or("<non-utf8>");'',
          ''    print!("{}", s);'',
          ''    len as isize'',
          ''}'',
          '''',
          ''pub fn sys_exit(code: i32) -> ! {'',
          ''    println!("[kernel] app exited with code {}", code);'',
          ''    run_next_app();'',
          ''}'']),
      CalloutBlock Warning (jcat [''sys_write %u8fd9%u91cc%u76f4%u63a5 from_raw_parts '',
          ''%u7528%u4e86%u7528%u6237%u6307%u9488%u2014%u2014%u5728 Phase 1 %u7684%u5355%u5730%u5740%u7a7a%u95f4%u91cc '',
          ''OK%uff0c%u4f46 Phase 4 %u6709%u4e86%u865a%u62df%u5185%u5b58%u540e%u5fc5%u987b%u6539%u6210 '',
          ''translate_byte_buffer()%u3002%u5148%u8bb0%u4f4f%u8fd9%u4e2a TODO%u3002''])]\<rparr>\<close>

definition phase1ZhCN_lesson5_section4 :: ContentSection where
  \<open>phase1ZhCN_lesson5_section4 = \<lparr>
    section_title = js ''app loader%uff1a%u628a ELF %u642c%u5230 0x80400000'',
    section_blocks = [ParagraphBlock (jcat [''loader %u7684%u804c%u8d23%uff1a%u628a link_app.S %u91cc pack %u8fdb%u5185%u6838 '',
          ''.data %u6bb5%u7684%u7528%u6237%u4e8c%u8fdb%u5236 copy '',
          ''%u5230%u7ea6%u5b9a%u7684%u8fd0%u884c%u5730%u5740%uff08Phase 1 %u7528 0x80400000 + app_id * '',
          ''0x20000%uff09%uff0c%u7136%u540e%u5728%u5185%u6838%u6808%u9876%u6784%u9020 TrapContext %u5e76 jr '',
          ''__restore%u3002'']),
      CodeBlock (Some (js ''rust'')) (jlines [''pub fn run_next_app() -> ! {'',
          ''    let cur = APP_MANAGER.next_app();'',
          ''    APP_MANAGER.load_app(cur);                  // memcpy %u5230 0x80400000'',
          ''    extern "C" { fn __restore(cx_addr: usize); }'',
          ''    unsafe {'',
          ''        __restore(KERNEL_STACK.push_context('',
          ''            TrapContext::app_init_context(APP_BASE + cur * APP_SIZE, USER_STACK.top())'',
          ''        ) as *const _ as usize);'',
          ''    }'',
          ''    unreachable!();'',
          ''}''])]\<rparr>\<close>

definition phase1ZhCN_lesson5_exercise1 :: CodeExercise where
  \<open>phase1ZhCN_lesson5_exercise1 = \<lparr>
    exercise_id = js ''lab3'',
    exercise_title = js ''Lab 3 %u2b50%u2b50 syscall %u5206%u53d1 + sys_write + sys_exit'',
    exercise_description = jcat [''%u628a trap_handler%u3001syscall %u5206%u53d1%u8868%u3001sys_write%u3001sys_exit '',
        ''%u8865%u5b8c%u6574%u3002make qemu %u5e94%u770b%u5230%u5185%u7f6e%u7528%u6237%u7a0b'',
        ''%u5e8f%u6253%u5370 hello %u5e76%u9000%u51fa%u3002''],
    exercise_labFile = Some (js ''labs/phase_1_trap/src/syscall/mod.rs''),
    exercise_hints = [jcat [''syscall(sysno, args) %u662f%u4e2a%u5927 match%u2014%u2014%u5148%u53ea%u5904%u7406 '',
         ''64/93%uff0c%u5176%u5b83 panic''],
       js ''sepc += 4 %u4e0d%u80fd%u5fd8%uff0c%u5426%u5219%u6b7b%u5faa%u73af'',
       js ''sys_exit %u4e0d%u8fd4%u56de%uff1a%u7c7b%u578b%u662f ! %u6216 -> isize { unreachable!() }'',
       js ''fd==1 %u624d%u5141%u8bb8%u5199%uff1b%u5176%u5b83%u8fd4%u56de -1''],
    exercise_pseudocode = Some (jlines [''pub fn syscall(id: usize, args: [usize; 3]) -> isize {'',
          ''    match id {'',
          ''        64 => sys_write(args[0], args[1] as *const u8, args[2]),'',
          ''        93 => sys_exit(args[0] as i32),'',
          ''        _ => panic!("unknown syscall {}", id),'',
          ''    }'',
          ''}''])\<rparr>\<close>

definition phase1ZhCN_lesson5_exercise2 :: CodeExercise where
  \<open>phase1ZhCN_lesson5_exercise2 = \<lparr>
    exercise_id = js ''integration'',
    exercise_title = js ''%u7efc%u5408%u9a8c%u6536%uff1a%u8dd1%u4e09%u4e2a%u7528%u6237%u7a0b%u5e8f'',
    exercise_description = jcat [''%u5728 labs/phase_1_trap/user/src/bin/ %u5df2%u6709 3 '',
        ''%u4e2a%u793a%u4f8b%u7528%u6237%u7a0b%u5e8f%uff08hello_world / bad_address / power%uff09%u3002make qemu '',
        ''%u5e94%u4f9d%u6b21%u6267%u884c%u5b83%u4eec%uff0c%u5404%u81ea%u8f93%u51fa%u5e76%u9000%u51fa'',
        ''%u3002''],
    exercise_labFile = None,
    exercise_hints = [js ''hello_world%uff1asys_write + sys_exit %u7684%u6700%u5c0f%u6f14%u793a'',
       jcat [''bad_address%uff1a%u6545%u610f%u8bbf%u95ee%u975e%u6cd5%u5730%u5740%uff0c%u89e6%u53d1 '',
         ''PageFault %u88ab kill''],
       js ''power%uff1a%u5faa%u73af%u8ba1%u7b97 pow(3,10) %u5e76%u6253%u5370''],
    exercise_pseudocode = None\<rparr>\<close>

definition phase1ZhCN_lesson5 :: Lesson where
  \<open>phase1ZhCN_lesson5 = \<lparr>
    lesson_phaseId = 1, lesson_lessonId = 5,
    lesson_title = js ''Syscall %u5206%u53d1%u4e0e%u7b2c%u4e00%u4e2a%u7528%u6237%u7a0b%u5e8f'',
    lesson_subtitle = js ''sys_write / sys_exit / %u6574%u5408%u9a8c%u6536'',
    lesson_type = js ''Practice + Integration'',
    lesson_duration = js ''2 hours'',
    lesson_objectives = [jcat [''%u638c%u63e1 RISC-V syscall %u8c03%u7528%u7ea6%u5b9a%uff1aa7=%u53f7%u3001a0-a5='',
         ''%u53c2%u3001a0=%u8fd4%u56de''],
       jcat [''%u5b9e%u73b0 trap_handler %u7684%u5f02%u5e38%u5206%u53d1%uff1aecall %u2192 '',
         ''syscall%u3001%u5176%u5b83 %u2192 %u8bca%u65ad + kill''],
       jcat [''%u5b9e%u73b0 sys_write / sys_exit%uff0c%u8ba9%u7528%u6237%u7a0b%u5e8f%u80fd%u8bf4'',
         ''%u8bdd%u3001%u80fd%u9000%u51fa''],
       jcat [''%u628a Lesson 1-4 %u4e32%u8d77%u6765%uff1a%u8f7d%u5165%u7528%u6237%u7a0b%u5e8f%u5e76'',
         ''%u8fd0%u884c%u5230%u9000%u51fa'']],
    lesson_sections = [phase1ZhCN_lesson5_section1,
      phase1ZhCN_lesson5_section2,
      phase1ZhCN_lesson5_section3,
      phase1ZhCN_lesson5_section4],
    lesson_exercises = [phase1ZhCN_lesson5_exercise1, phase1ZhCN_lesson5_exercise2],
    lesson_acceptanceCriteria = [jcat [''make qemu %u6309%u987a%u5e8f%u8fd0%u884c 3 %u4e2a%u7528%u6237%u7a0b%u5e8f%uff0c'',
         ''%u8f93%u51fa%u4e0e README %u5bf9%u9f50''],
       jcat [''bad_address %u89e6%u53d1 StoreFault %u88ab kill%uff0c%u5185%u6838%u7ee7%u7eed%u8fd0'',
         ''%u884c%u4e0b%u4e00%u4e2a''],
       js ''scripts/grade.py %u62a5%u6ee1%u5206'',
       jcat [''%u6240%u6709 syscall %u5206%u53d1%u90fd%u5728 syscall/mod.rs '',
         ''%u5355%u4e00%u5165%u53e3%u8868%u91cc'']],
    lesson_references = [\<lparr>reference_title = js ''xv6-riscv Ch. 4.3 Code: Calling system calls'',
       reference_description = js ''[%u5fc5%u8bfb] syscall %u5206%u53d1%u7684 C %u7b49%u4ef7%u7269'',
       reference_url = js ''https://pdos.csail.mit.edu/6.828/2023/xv6/book-riscv-rev3.pdf''\<rparr>,
      \<lparr>reference_title = js ''rCore-Tutorial %u00a72.4 & %u00a72.5'',
       reference_description = js ''[%u5fc5%u8bfb] %u6279%u5904%u7406 + ecall %u5b8c%u6574%u94fe%u8def'',
       reference_url = js ''https://rcore-os.cn/rCore-Tutorial-Book-v3/chapter2/5exercise.html''\<rparr>,
      \<lparr>reference_title = js ''Linux RISC-V syscall ABI'',
       reference_description = jcat [''[%u6df1%u5165%u9605%u8bfb] %u6211%u4eec%u7684%u53f7%u7801%u6cbf%u7528%u8fd9%u91cc'',
          ''%u2014%u2014%u517c%u5bb9%u672a%u6765%u6269%u5c55''],
       reference_url = js ''https://man7.org/linux/man-pages/man2/syscalls.2.html''\<rparr>,
      \<lparr>reference_title = js ''%u6269%u5c55%u601d%u8003'',
       reference_description = jcat [''[%u6269%u5c55] %u5982%u679c%u60f3%u652f%u6301 fd=2 '',
          ''(stderr)%uff0c%u9700%u8981%u6539%u54ea%u51e0%u5904%uff1f%u5982%u679c%u4e00%u4e2a%u7528%u6237%u7a0b%u5e8f%u75af%u72c2'',
          '' ecall %u4e0d%u505a%u4e8b%uff0c%u5185%u6838%u80fd%u9650%u901f%u5417%uff1f''],
       reference_url = js ''''\<rparr>]\<rparr>\<close>

section \<open>The phase\<close>

definition phase1ZhCN :: PhaseContent where
  \<open>phase1ZhCN = \<lparr>
    content_phaseId = 1,
    content_color = js ''#D97706'',
    content_accent = js ''#F59E0B'',
    content_lessons = [phase1ZhCN_lesson1, phase1ZhCN_lesson2, phase1ZhCN_lesson3, phase1ZhCN_lesson4, phase1ZhCN_lesson5]\<rparr>\<close>

section \<open>Well-formedness\<close>

lemma phase1ZhCN_lesson1_ok: "lesson_ok phase1ZhCN_lesson1"
  by (simp add: lesson_ok_def section_ok_def phase1ZhCN_lesson1_def
      phase1ZhCN_lesson1_section1_def
      phase1ZhCN_lesson1_section2_def
      phase1ZhCN_lesson1_section3_def
      phase1ZhCN_lesson1_exercise1_def)

lemma phase1ZhCN_lesson2_ok: "lesson_ok phase1ZhCN_lesson2"
  by (simp add: lesson_ok_def section_ok_def phase1ZhCN_lesson2_def
      phase1ZhCN_lesson2_section1_def
      phase1ZhCN_lesson2_section2_def
      phase1ZhCN_lesson2_section3_def
      phase1ZhCN_lesson2_section4_def
      phase1ZhCN_lesson2_section5_def
      phase1ZhCN_lesson2_exercise1_def)

lemma phase1ZhCN_lesson3_ok: "lesson_ok phase1ZhCN_lesson3"
  by (simp add: lesson_ok_def section_ok_def phase1ZhCN_lesson3_def
      phase1ZhCN_lesson3_section1_def
      phase1ZhCN_lesson3_section2_def
      phase1ZhCN_lesson3_section3_def
      phase1ZhCN_lesson3_section4_def
      phase1ZhCN_lesson3_exercise1_def)

lemma phase1ZhCN_lesson4_ok: "lesson_ok phase1ZhCN_lesson4"
  by (simp add: lesson_ok_def section_ok_def phase1ZhCN_lesson4_def
      phase1ZhCN_lesson4_section1_def
      phase1ZhCN_lesson4_section2_def
      phase1ZhCN_lesson4_section3_def
      phase1ZhCN_lesson4_section4_def
      phase1ZhCN_lesson4_section5_def
      phase1ZhCN_lesson4_exercise1_def)

lemma phase1ZhCN_lesson5_ok: "lesson_ok phase1ZhCN_lesson5"
  by (simp add: lesson_ok_def section_ok_def phase1ZhCN_lesson5_def
      phase1ZhCN_lesson5_section1_def
      phase1ZhCN_lesson5_section2_def
      phase1ZhCN_lesson5_section3_def
      phase1ZhCN_lesson5_section4_def
      phase1ZhCN_lesson5_exercise1_def
      phase1ZhCN_lesson5_exercise2_def)

lemma phase1ZhCN_lesson1_ids: "lesson_phaseId phase1ZhCN_lesson1 = 1" "lesson_lessonId phase1ZhCN_lesson1 = 1"
  by (simp_all add: phase1ZhCN_lesson1_def)

lemma phase1ZhCN_lesson2_ids: "lesson_phaseId phase1ZhCN_lesson2 = 1" "lesson_lessonId phase1ZhCN_lesson2 = 2"
  by (simp_all add: phase1ZhCN_lesson2_def)

lemma phase1ZhCN_lesson3_ids: "lesson_phaseId phase1ZhCN_lesson3 = 1" "lesson_lessonId phase1ZhCN_lesson3 = 3"
  by (simp_all add: phase1ZhCN_lesson3_def)

lemma phase1ZhCN_lesson4_ids: "lesson_phaseId phase1ZhCN_lesson4 = 1" "lesson_lessonId phase1ZhCN_lesson4 = 4"
  by (simp_all add: phase1ZhCN_lesson4_def)

lemma phase1ZhCN_lesson5_ids: "lesson_phaseId phase1ZhCN_lesson5 = 1" "lesson_lessonId phase1ZhCN_lesson5 = 5"
  by (simp_all add: phase1ZhCN_lesson5_def)

lemma phase1ZhCN_shape [site_shape]:
  "content_phaseId phase1ZhCN = 1" "length (content_lessons phase1ZhCN) = 5"
  by (simp_all add: phase1ZhCN_def)

lemma phase1ZhCN_ok [site_shape]: "content_ok phase1ZhCN"
  by (simp add: content_ok_def phase1ZhCN_def upt_rec
      phase1ZhCN_lesson1_ok phase1ZhCN_lesson2_ok phase1ZhCN_lesson3_ok phase1ZhCN_lesson4_ok phase1ZhCN_lesson5_ok
      phase1ZhCN_lesson1_ids phase1ZhCN_lesson2_ids phase1ZhCN_lesson3_ids phase1ZhCN_lesson4_ids phase1ZhCN_lesson5_ids)

end
