(* ===== verification/Phase1_En.thy ===== *)
theory Phase1_En
  imports Content_Types
begin

text \<open>
  Phase 1, traps and system calls, in English: the constant \<open>phase1En\<close> of
  \<open>website/src/data/phase1.ts\<close>, one definition per section, exercise and lesson. Below it, that the
  content is well formed.
\<close>

section \<open>Lesson 1\<close>

definition phase1En_lesson1_section1 :: ContentSection where
  \<open>phase1En_lesson1_section1 = \<lparr>
    section_title = js ''From one privilege level to two'',
    section_blocks = [ParagraphBlock (jcat [''In Phase 0 everything ran in S-mode: code, stack, data %u2014 all kernel. The job '',
          ''of Phase 1 is to launch user programs in U-mode. The moment you succeed, you own two '',
          ''mutually-distrustful worlds plus one controlled channel between them. That channel '',
          ''is the trap.'']),
      DiagramBlock (jlines [''U-mode (user)                           S-mode (kernel)'',
          ''%r0d2500                          %r0c2500'',
          ''  li a7, 64'',
          ''  li a0, 1'',
          ''  la a1, msg                 Hardware automatically:'',
          ''  li a2, 12       %r032500ecall%u2500%u2500%u25b6  1) sepc    %u2190 pc'',
          ''                                2) scause  %u2190 8 (ecall from U)'',
          ''                                3) sstatus.SPP %u2190 0'',
          ''                                4) sstatus.SIE %u2190 SPIE'',
          ''                                5) pc      %u2190 stvec'',
          ''                                6) priv    %u2190 S'',
          ''                                          %u2193'',
          ''                              __alltraps:'',
          ''                                save 32 x regs + sstatus + sepc'',
          ''                                call rust trap_handler(cx)'',
          ''                                restore everything'',
          ''                                sret %r062500%u2510'',
          ''                                           %u2502'',
          ''  next instruction      %u25c0%r122500%u2518'']),
      CalloutBlock Info (jcat [''A trap is hardware forcing the CPU to drop what it's doing and run code the kernel '',
          ''pre-designated. It's the only legal route from U to S mode %u2014 without it the '',
          ''kernel has zero control over user code.''])]\<rparr>\<close>

definition phase1En_lesson1_section2 :: ContentSection where
  \<open>phase1En_lesson1_section2 = \<lparr>
    section_title = js ''Three flavors of trap'',
    section_blocks = [TableBlock [js ''Kind'',
         js ''Triggered by'',
         js ''scause MSB'',
         js ''Examples'']
        [[js ''Exception'',
          js ''Current instruction faults or ecalls'',
          js ''0'',
          js ''Illegal insn (2), page fault (13/15), ecall (8)''],
         [js ''Interrupt'',
          js ''External async event'',
          js ''1'',
          js ''Timer (5), external device (9), software (1)''],
         [js ''Syscall'',
          js ''Subset of Exception %u2014 code=8'',
          js ''0'',
          js ''User ecall asking kernel for a service'']],
      ParagraphBlock (jcat [''scause's MSB distinguishes interrupts from exceptions; the low bits encode the '',
          ''cause. Phase 1 only handles ecall (=8); timer comes in Phase 2. But the skeleton '',
          ''dispatcher is written for all cases from day one %u2014 later phases just add match arms.''])]\<rparr>\<close>

definition phase1En_lesson1_section3 :: ContentSection where
  \<open>phase1En_lesson1_section3 = \<lparr>
    section_title = js ''The 5 lessons of this Phase'',
    section_blocks = [ListBlock True
        [js ''Lesson 1 (this page): Overview %u2014 why traps, when traps.'',
         js ''Lesson 2: CSR hardware model %u2014 precise semantics of stvec/sepc/scause/stval/sstatus.'',
         js ''Lesson 3: TrapContext %u2014 why 34 u64s, how they sit on the stack.'',
         js ''Lesson 4: __alltraps / __restore %u2014 assembly, every line justified.'',
         js ''Lesson 5: Syscall ABI + running your first U-mode program.''],
      CalloutBlock Tip (jcat [''After Lesson 5 you'll own a minimal kernel that can run any user program. One '',
          ''process only %u2014 but every process/scheduler of Phase 2 is built on this trap path.''])]\<rparr>\<close>

definition phase1En_lesson1_exercise1 :: CodeExercise where
  \<open>phase1En_lesson1_exercise1 = \<lparr>
    exercise_id = js ''lab0-read'',
    exercise_title = js ''Reading task: draw the ecall timeline'',
    exercise_description = jcat [''Without the docs, draw the first 10 hardware steps from U-mode ecall to S-mode '',
        ''trap_handler. Next lesson we'll match it against the spec.''],
    exercise_labFile = None,
    exercise_hints = [js ''Track CSR state changes, not just pc'',
       js ''What are sstatus.SPP and SPIE before and after?'',
       js ''Why does sepc point at the ecall itself, not the next instruction?''],
    exercise_pseudocode = None\<rparr>\<close>

definition phase1En_lesson1 :: Lesson where
  \<open>phase1En_lesson1 = \<lparr>
    lesson_phaseId = 1, lesson_lessonId = 1,
    lesson_title = js ''Phase 1 Overview: Why we need traps'',
    lesson_subtitle = js ''The hardware boundary between U-mode and S-mode'',
    lesson_type = js ''Concept'',
    lesson_duration = js ''1 hour'',
    lesson_objectives = [js ''Understand what trap / exception / interrupt / syscall mean and how they relate'',
       js ''Follow the full hardware sequence from a U-mode ecall to S-mode handling and return'',
       js ''Know how the 5 lessons of this phase depend on each other'',
       js ''See why trap entry must be assembly, not Rust''],
    lesson_sections = [phase1En_lesson1_section1,
      phase1En_lesson1_section2,
      phase1En_lesson1_section3],
    lesson_exercises = [phase1En_lesson1_exercise1],
    lesson_acceptanceCriteria = [js ''You can explain exception / interrupt / syscall in your own words'',
       js ''You know Phase 1's deliverable (run U-mode apps + sys_write + sys_exit)'',
       js ''You see why the trap entry point must be assembly''],
    lesson_references = [\<lparr>reference_title = js ''xv6-riscv book Ch. 4'',
       reference_description = js ''[Required] Traps and system calls %u2014 the golden reference'',
       reference_url = js ''https://pdos.csail.mit.edu/6.828/2023/xv6/book-riscv-rev3.pdf''\<rparr>,
      \<lparr>reference_title = js ''rCore-Tutorial %u00a72'',
       reference_description = js ''[Required] Batch system & privilege switching in Rust'',
       reference_url = js ''https://rcore-os.cn/rCore-Tutorial-Book-v3/chapter2/index.html''\<rparr>,
      \<lparr>reference_title = js ''RISC-V Privileged Spec Ch. 4'',
       reference_description = js ''[Deep dive] Supervisor-Level ISA %u2014 CSR bible'',
       reference_url = js ''https://github.com/riscv/riscv-isa-manual/releases''\<rparr>]\<rparr>\<close>

section \<open>Lesson 2\<close>

definition phase1En_lesson2_section1 :: ContentSection where
  \<open>phase1En_lesson2_section1 = \<lparr>
    section_title = js ''Five core CSRs'',
    section_blocks = [TableBlock [js ''CSR'',
         js ''Written by'',
         js ''Read by'',
         js ''Role'']
        [[js ''stvec'',
          js ''Kernel once at boot'',
          js ''Hardware on trap'',
          js ''Trap entry address + MODE''],
         [js ''sepc'',
          js ''Hardware on trap'',
          js ''Kernel at sret'',
          js ''PC of the trapped instruction''],
         [js ''scause'',
          js ''Hardware on trap'',
          js ''trap_handler'',
          js ''Encoded cause''],
         [js ''stval'',
          js ''Hardware on trap'',
          js ''trap_handler'',
          js ''Aux info (faulting addr, bad opcode)''],
         [js ''sstatus'',
          js ''Kernel + hardware'',
          js ''Kernel'',
          js ''S-mode status word %u2014 SPP/SIE/SPIE'']]]\<rparr>\<close>

definition phase1En_lesson2_section2 :: ContentSection where
  \<open>phase1En_lesson2_section2 = \<lparr>
    section_title = js ''stvec: the signpost'',
    section_blocks = [DiagramBlock (jlines ['' 63                                           2  1  0'',
          ''%u250c%r2e2500%u252c%r042500%u2510'',
          ''%u2502              BASE (entry address >> 2)        %u2502MODE%u2502'',
          ''%u2514%r2e2500%u2534%r042500%u2518'',
          ''MODE = 0  Direct   %u2014 every trap jumps to BASE'',
          ''MODE = 1  Vectored %u2014 interrupts go to BASE + cause*4, exceptions to BASE'']),
      ParagraphBlock (jcat [''TinyOS uses Direct mode: trap::init() writes stvec once to the address of '',
          ''__alltraps. Vectored only pays off in high-performance kernels with many interrupt sources '',
          ''(Linux). Not worth the complexity here.'']),
      CodeBlock (Some (js ''rust'')) (jlines [''pub fn init() {'',
          ''    extern "C" { fn __alltraps(); }'',
          ''    unsafe {'',
          ''        stvec::write(__alltraps as usize, TrapMode::Direct);'',
          ''    }'',
          ''}''])]\<rparr>\<close>

definition phase1En_lesson2_section3 :: ContentSection where
  \<open>phase1En_lesson2_section3 = \<lparr>
    section_title = js ''sepc: the interrupted instruction'',
    section_blocks = [CalloutBlock Warning (jcat [''sepc holds the PC of the instruction that caused the trap, not the next one. For '',
          ''ecall we want to resume after it %u2014 so trap_handler must explicitly do cx.sepc += '',
          ''4. Skip this and the app loops forever: return, re-ecall, trap again, repeat.'']),
      CodeBlock (Some (js ''rust'')) (jlines [''Trap::Exception(Exception::UserEnvCall) => {'',
          ''    cx.sepc += 4;                // required, not optional'',
          ''    cx.x[10] = syscall(cx.x[17], [cx.x[10], cx.x[11], cx.x[12]]) as usize;'',
          ''}'']),
      ParagraphBlock (jcat [''Page faults are different: we want to retry the faulting load/store after fixing '',
          ''the page table %u2014 so we don't increment. Phase 4 will need this.''])]\<rparr>\<close>

definition phase1En_lesson2_section4 :: ContentSection where
  \<open>phase1En_lesson2_section4 = \<lparr>
    section_title = js ''sstatus: the heart of S-mode'',
    section_blocks = [DiagramBlock (jlines [''The 4 bits we care about:'',
          ''  SPP  (bit 8)   Which privilege the trap came from (0=U, 1=S)'',
          ''  SPIE (bit 5)   SIE's value before the trap (hardware backup)'',
          ''  SIE  (bit 1)   S-mode interrupt enable'',
          ''  SUM  (bit 18)  Allow S-mode to read U-mode memory (Phase 4)'',
          '''',
          ''On trap entry:'',
          ''  SPP  %u2190 current privilege'',
          ''  SPIE %u2190 SIE'',
          ''  SIE  %u2190 0          (auto-disable interrupts to prevent nesting)'',
          ''  priv %u2190 S'',
          '''',
          ''On sret:'',
          ''  priv %u2190 SPP'',
          ''  SIE  %u2190 SPIE'',
          ''  SPP  %u2190 0'',
          ''  SPIE %u2190 1'']),
      CalloutBlock Info (jcat [''The auto-disable + auto-restore of interrupts is one of RISC-V's cleanest pieces of '',
          ''design %u2014 trap_handler starts with interrupts disabled naturally, and you only '',
          ''re-enable when you want to. Phase 3's synchronization relies on this constantly.''])]\<rparr>\<close>

definition phase1En_lesson2_section5 :: ContentSection where
  \<open>phase1En_lesson2_section5 = \<lparr>
    section_title = js ''The three CSR instructions'',
    section_blocks = [CodeBlock (Some (js ''asm'')) (jlines [''csrr  rd, csr           # rd = csr'',
          ''csrw  csr, rs           # csr = rs'',
          ''csrrw rd, csr, rs       # atomic swap: tmp=csr; csr=rs; rd=tmp'']),
      ParagraphBlock (jcat [''csrrw's atomicity is the key to stack-switching in Lesson 4: one instruction %u2014 '',
          ''csrrw sp, sscratch, sp %u2014 swaps user sp out and kernel sp in.''])]\<rparr>\<close>

definition phase1En_lesson2_exercise1 :: CodeExercise where
  \<open>phase1En_lesson2_exercise1 = \<lparr>
    exercise_id = js ''lab1-trap-init'',
    exercise_title = js ''Lab 1a %u2b50 implement trap::init()'',
    exercise_description = jcat [''Write pub fn init() that points stvec at __alltraps (Direct mode). The first live '',
        ''line of Phase 1.''],
    exercise_labFile = Some (js ''labs/phase_1_trap/src/trap/mod.rs''),
    exercise_hints = [js ''Use the riscv crate's high-level stvec::write %u2014 far more readable than csrw'',
       js ''MODE = Direct'',
       js ''extern "C" { fn __alltraps(); }''],
    exercise_pseudocode = Some (jlines [''pub fn init() {'',
          ''    extern "C" { fn __alltraps(); }'',
          ''    unsafe {'',
          ''        stvec::write(__alltraps as usize, TrapMode::Direct);'',
          ''    }'',
          ''}''])\<rparr>\<close>

definition phase1En_lesson2 :: Lesson where
  \<open>phase1En_lesson2 = \<lparr>
    lesson_phaseId = 1, lesson_lessonId = 2,
    lesson_title = js ''CSR hardware model: 5 registers hold up every trap'',
    lesson_subtitle = js ''stvec / sepc / scause / stval / sstatus'',
    lesson_type = js ''Concept'',
    lesson_duration = js ''1.5 hours'',
    lesson_objectives = [js ''Memorize the semantics and write-times of all 5 trap CSRs'',
       js ''Read the SPP / SIE / SPIE bit layout and state machine in sstatus'',
       js ''Understand why sepc points at the faulting insn and why ecall needs sepc += 4'',
       js ''Write csrr / csrw / csrrw fluently''],
    lesson_sections = [phase1En_lesson2_section1,
      phase1En_lesson2_section2,
      phase1En_lesson2_section3,
      phase1En_lesson2_section4,
      phase1En_lesson2_section5],
    lesson_exercises = [phase1En_lesson2_exercise1],
    lesson_acceptanceCriteria = [js ''You can name the role of each of the 5 CSRs from memory'',
       js ''You can explain why ecall does cx.sepc += 4 but page faults don't'',
       js ''trap::init() works %u2014 gdb shows stvec pointing to __alltraps''],
    lesson_references = [\<lparr>reference_title = js ''RISC-V Privileged Spec %u00a74.1.1'',
       reference_description = js ''[Required] The full sstatus bit layout'',
       reference_url = js ''https://github.com/riscv/riscv-isa-manual/releases''\<rparr>,
      \<lparr>reference_title = js ''riscv crate docs'',
       reference_description = js ''[Required] Rust-side CSR wrappers'',
       reference_url = js ''https://docs.rs/riscv/latest/riscv/''\<rparr>,
      \<lparr>reference_title = js ''xv6-riscv kernel/riscv.h'',
       reference_description = js ''[Deep dive] CSR macros in the C version'',
       reference_url = js ''https://github.com/mit-pdos/xv6-riscv/blob/riscv/kernel/riscv.h''\<rparr>]\<rparr>\<close>

section \<open>Lesson 3\<close>

definition phase1En_lesson3_section1 :: ContentSection where
  \<open>phase1En_lesson3_section1 = \<lparr>
    section_title = js ''The fields'',
    section_blocks = [CodeBlock (Some (js ''rust'')) (jlines [''#[repr(C)]'',
          ''pub struct TrapContext {'',
          ''    pub x: [usize; 32],   // x0..x31 general registers'',
          ''    pub sstatus: Sstatus, // S-mode status (mainly SPP %u2014 where sret goes)'',
          ''    pub sepc: usize,      // PC to resume at'',
          ''}'',
          ''// sizeof = 34 * 8 = 272 bytes'']),
      ParagraphBlock (jcat [''34 usize is the minimum viable set. Phase 1 doesn't save FP regs (no user FP yet) '',
          ''or satp (single address space). Phase 4, with VM, will push it to 37+ %u2014 but '',
          ''that's for later.''])]\<rparr>\<close>

definition phase1En_lesson3_section2 :: ContentSection where
  \<open>phase1En_lesson3_section2 = \<lparr>
    section_title = js ''Why keep x0?'',
    section_blocks = [CalloutBlock Info (jcat [''x0 is hard-wired to 0, so you could omit it. But the asm wants a clean loop: sd x0, '',
          ''0*8(sp); sd x1, 1*8(sp); ... where offset = reg_num * 8. Dropping x0 breaks the '',
          ''symmetry and invites off-by-ones. A free u64 buys 32 lines of boring regularity. Trade '',
          ''made.''])]\<rparr>\<close>

definition phase1En_lesson3_section3 :: ContentSection where
  \<open>phase1En_lesson3_section3 = \<lparr>
    section_title = js ''Stack layout diagram'',
    section_blocks = [DiagramBlock (jlines [''kernel stack (kernel_stack[0..8192])                  high addr'',
          ''                                 %u250c%r0f2500%u2510  %u2190 stack_top'',
          ''                                 %u2502  (reserve/pad) %u2502'',
          ''                                 %u251c%r0f2500%u2524'',
          ''                                 %u2502  sepc          %u2502  %u2190 sp+33*8'',
          ''                                 %u2502  sstatus       %u2502  %u2190 sp+32*8'',
          ''                                 %u2502  x31 = t6      %u2502  %u2190 sp+31*8'',
          ''                                 %u2502       ...      %u2502'',
          ''                                 %u2502  x2  = sp(u)   %u2502  %u2190 sp+2*8  user sp snapshot'',
          ''                                 %u2502  x1  = ra      %u2502  %u2190 sp+1*8'',
          ''                                 %u2502  x0  = 0       %u2502  %u2190 sp+0*8'',
          ''                                 %u2514%r0f2500%u2518  %u2190 sp on enter'']),
      ParagraphBlock (jcat [''Key invariant: inside trap_handler(cx: &mut TrapContext), cx equals the current sp. '',
          ''This is achieved by mv a0, sp after saving %u2014 because with #[repr(C)] the first '',
          ''field's offset is 0, the struct header sits right at sp.''])]\<rparr>\<close>

definition phase1En_lesson3_section4 :: ContentSection where
  \<open>phase1En_lesson3_section4 = \<lparr>
    section_title = js ''app_init_context: forging the first context'',
    section_blocks = [ParagraphBlock (jcat [''A user program booting up has never been in a trap %u2014 no one ever saved its '',
          ''context. We have to manually forge a TrapContext so that sret 'delivers' it into '',
          ''U-mode. This is the hackiest and most instructive snippet in TinyOS.'']),
      CodeBlock (Some (js ''rust'')) (jlines [''impl TrapContext {'',
          ''    pub fn app_init_context(entry: usize, sp: usize) -> Self {'',
          ''        let mut sstatus = sstatus::read();'',
          ''        sstatus.set_spp(SPP::User);   // sret lands in U-mode'',
          ''        let mut cx = Self {'',
          ''            x: [0; 32],'',
          ''            sstatus,'',
          ''            sepc: entry,              // sret's destination'',
          ''        };'',
          ''        cx.set_sp(sp);                // x[2] = sp (user stack)'',
          ''        cx'',
          ''    }'',
          ''    pub fn set_sp(&mut self, sp: usize) { self.x[2] = sp; }'',
          ''}'']),
      CalloutBlock Tip (jcat [''With SPP=User, sret does: priv%u2190SPP, pc%u2190sepc, SIE%u2190SPIE. The CPU jumps '',
          ''to 0x80400000 in U-mode. We've 'reverse-forged' the first trap.''])]\<rparr>\<close>

definition phase1En_lesson3_exercise1 :: CodeExercise where
  \<open>phase1En_lesson3_exercise1 = \<lparr>
    exercise_id = js ''lab1-context'',
    exercise_title = js ''Lab 1b %u2b50%u2b50 TrapContext + app_init_context'',
    exercise_description = js ''Fill in TrapContext and app_init_context(). The loader in Lesson 5 will call it.'',
    exercise_labFile = Some (js ''labs/phase_1_trap/src/trap/context.rs''),
    exercise_hints = [js ''#[repr(C)] is mandatory %u2014 the asm hardcodes offsets'',
       js ''sstatus::read() then set_spp(User)'',
       js ''sepc = entry (user program entry)'',
       js ''x[2] = sp (user stack top)''],
    exercise_pseudocode = Some (jlines [''#[repr(C)]'',
          ''pub struct TrapContext {'',
          ''    pub x: [usize; 32],'',
          ''    pub sstatus: Sstatus,'',
          ''    pub sepc: usize,'',
          ''}'',
          ''impl TrapContext {'',
          ''    pub fn set_sp(&mut self, sp: usize) { self.x[2] = sp; }'',
          ''    pub fn app_init_context(entry: usize, sp: usize) -> Self {'',
          ''        let mut s = sstatus::read();'',
          ''        s.set_spp(SPP::User);'',
          ''        let mut cx = Self { x: [0; 32], sstatus: s, sepc: entry };'',
          ''        cx.set_sp(sp);'',
          ''        cx'',
          ''    }'',
          ''}''])\<rparr>\<close>

definition phase1En_lesson3 :: Lesson where
  \<open>phase1En_lesson3 = \<lparr>
    lesson_phaseId = 1, lesson_lessonId = 3,
    lesson_title = js ''TrapContext: why 34 u64s'',
    lesson_subtitle = js ''The precise design of the context struct'',
    lesson_type = js ''Concept + Practice'',
    lesson_duration = js ''1.5 hours'',
    lesson_objectives = [js ''Know why TrapContext holds 32 GPRs + sstatus + sepc'',
       js ''Match the Rust struct layout (#[repr(C)]) to the asm offsets'',
       js ''Explain why we keep a slot for x0 instead of skipping it'',
       js ''Write TrapContext::app_init_context() to forge the first user context''],
    lesson_sections = [phase1En_lesson3_section1,
      phase1En_lesson3_section2,
      phase1En_lesson3_section3,
      phase1En_lesson3_section4],
    lesson_exercises = [phase1En_lesson3_exercise1],
    lesson_acceptanceCriteria = [js ''sizeof(TrapContext) == 272 (cargo test checks it)'',
       js ''app_init_context result has sstatus.SPP == User, sepc == entry, x[2] == sp'',
       js ''You can explain out loud why we keep x0''],
    lesson_references = [\<lparr>reference_title = js ''rCore-Tutorial %u00a72.3'',
       reference_description = js ''[Required] Line-by-line TrapContext walkthrough'',
       reference_url = js ''https://rcore-os.cn/rCore-Tutorial-Book-v3/chapter2/4trap-handling.html''\<rparr>,
      \<lparr>reference_title = js ''Rust Reference: repr(C)'',
       reference_description = js ''[Deep dive] Why layout must be fixed'',
       reference_url = js ''https://doc.rust-lang.org/reference/type-layout.html#the-c-representation''\<rparr>]\<rparr>\<close>

section \<open>Lesson 4\<close>

definition phase1En_lesson4_section1 :: ContentSection where
  \<open>phase1En_lesson4_section1 = \<lparr>
    section_title = js ''Task breakdown'',
    section_blocks = [ListBlock True
        [js ''Switch to kernel stack (csrrw sp, sscratch, sp)'',
         js ''Reserve 34*8 bytes on it'',
         js ''Save x0..x31 (x2 comes from sscratch, not the current sp)'',
         js ''Save sstatus, sepc'',
         js ''mv a0, sp; call trap_handler'',
         js ''After return, __restore pops all 34 fields'',
         js ''csrrw sp, sscratch, sp to swap back to user stack'',
         js ''sret'']]\<rparr>\<close>

definition phase1En_lesson4_section2 :: ContentSection where
  \<open>phase1En_lesson4_section2 = \<lparr>
    section_title = js ''Stack swap: csrrw's magic'',
    section_blocks = [ParagraphBlock (jcat [''On trap entry, sp still points at the user stack %u2014 we can't push directly, '',
          ''that'd trash user memory. We pre-stashed the kernel stack top into sscratch at '',
          ''trap_init. So the first instruction is:'']),
      CodeBlock (Some (js ''asm'')) (js ''csrrw sp, sscratch, sp    # atomic: tmp=sscratch; sscratch=sp(user); sp=tmp(kernel)''),
      ParagraphBlock (jcat [''One instruction simultaneously hides user sp in sscratch and brings in kernel sp. '',
          ''Splitting into two would open a nested-interrupt window. Phase 3 will make this '',
          ''painfully clear.''])]\<rparr>\<close>

definition phase1En_lesson4_section3 :: ContentSection where
  \<open>phase1En_lesson4_section3 = \<lparr>
    section_title = js ''Full __alltraps code'',
    section_blocks = [CodeBlock (Some (js ''asm'')) (jlines [''    .altmacro'',
          ''    .macro SAVE_GP n'',
          ''        sd x%5cn, %5cn*8(sp)'',
          ''    .endm'',
          ''    .macro LOAD_GP n'',
          ''        ld x%5cn, %5cn*8(sp)'',
          ''    .endm'',
          '''',
          ''    .section .text'',
          ''    .globl __alltraps'',
          ''    .align 2'',
          ''__alltraps:'',
          ''    csrrw sp, sscratch, sp       # sp %u2192 kernel; sscratch %u2192 user sp'',
          ''    addi sp, sp, -34*8           # reserve TrapContext'',
          '''',
          ''    sd x1, 1*8(sp)'',
          ''    # x2 (=user sp) later, x4 reserved'',
          ''    .set n, 3'',
          ''    .rept 29'',
          ''        SAVE_GP %25n'',
          ''        .set n, n+1'',
          ''    .endr                        # save x3..x31'',
          '''',
          ''    csrr t0, sstatus'',
          ''    csrr t1, sepc'',
          ''    sd t0, 32*8(sp)'',
          ''    sd t1, 33*8(sp)'',
          '''',
          ''    csrr t2, sscratch            # read user sp back'',
          ''    sd t2, 2*8(sp)               # store into x[2] slot'',
          '''',
          ''    mv a0, sp                    # arg for trap_handler'',
          ''    call trap_handler            # Rust'',
          '''',
          ''    # falls into __restore'',
          ''    .globl __restore'',
          ''__restore:'',
          ''    ld t0, 32*8(sp)'',
          ''    ld t1, 33*8(sp)'',
          ''    csrw sstatus, t0'',
          ''    csrw sepc, t1'',
          '''',
          ''    ld t2, 2*8(sp)'',
          ''    csrw sscratch, t2            # user sp %u2192 sscratch'',
          '''',
          ''    ld x1, 1*8(sp)'',
          ''    .set n, 3'',
          ''    .rept 29'',
          ''        LOAD_GP %25n'',
          ''        .set n, n+1'',
          ''    .endr'',
          '''',
          ''    addi sp, sp, 34*8            # free TrapContext'',
          ''    csrrw sp, sscratch, sp       # swap back to user stack'',
          ''    sret''])]\<rparr>\<close>

definition phase1En_lesson4_section4 :: ContentSection where
  \<open>phase1En_lesson4_section4 = \<lparr>
    section_title = js ''__restore's double life'',
    section_blocks = [CalloutBlock Warning (jcat [''__restore is not only trap return %u2014 it's also the only path into U-mode for '',
          ''the first time. The loader pushes a forged TrapContext onto the kernel stack and does '',
          ''jr __restore. __restore doesn't ask where the context came from; it just faithfully '',
          ''pops the 34 fields and sret. That source-agnosticism is the foundation Phase 2's '',
          ''task switching is built on.''])]\<rparr>\<close>

definition phase1En_lesson4_section5 :: ContentSection where
  \<open>phase1En_lesson4_section5 = \<lparr>
    section_title = js ''Common mistakes'',
    section_blocks = [ListBlock False
        [js ''No stack swap before saving %u2192 writes wherever user sp pointed, usually segfault'',
         js ''sd x2 directly %u2192 you stored kernel sp, not user sp, into the x[2] slot'',
         js ''Forgot mv a0, sp %u2192 trap_handler receives a garbage pointer'',
         js ''__restore forgot csrw sscratch %u2192 next trap uses the wrong stack'',
         js ''Didn't swap back before sret %u2192 user code starts executing on the kernel stack'',
         js ''Forgot .align 2 %u2192 stvec's low 2 bits become MODE, machine crashes'']]\<rparr>\<close>

definition phase1En_lesson4_exercise1 :: CodeExercise where
  \<open>phase1En_lesson4_exercise1 = \<lparr>
    exercise_id = js ''lab2'',
    exercise_title = js ''Lab 2 %r032b50 write trap.S'',
    exercise_description = js ''Implement __alltraps / __restore fully and pass make test. The hardest gate in Phase 1.'',
    exercise_labFile = Some (js ''labs/phase_1_trap/src/trap/trap.S''),
    exercise_hints = [js ''Write SAVE_GP / LOAD_GP macros first, then unroll'',
       js ''sscratch init lives in trap::init() %u2014 store kernel stack top into it'',
       js ''Debug: breakpoint after mv a0, sp, then info reg to verify the 34 fields'',
       js ''x/34gx $a0 in gdb shows the full TrapContext at once''],
    exercise_pseudocode = Some (jlines [''__alltraps:'',
          ''    csrrw sp, sscratch, sp'',
          ''    addi sp, sp, -34*8'',
          ''    save x1, x3..x31 into TrapContext'',
          ''    save sstatus, sepc from CSR'',
          ''    save user sp (from sscratch) into x[2]'',
          ''    mv a0, sp'',
          ''    call trap_handler'',
          ''__restore:'',
          ''    restore sstatus, sepc'',
          ''    save x[2] back into sscratch'',
          ''    restore x1, x3..x31'',
          ''    addi sp, sp, 34*8'',
          ''    csrrw sp, sscratch, sp'',
          ''    sret''])\<rparr>\<close>

definition phase1En_lesson4 :: Lesson where
  \<open>phase1En_lesson4 = \<lparr>
    lesson_phaseId = 1, lesson_lessonId = 4,
    lesson_title = js ''__alltraps / __restore: those 60 lines of asm'',
    lesson_subtitle = js ''Save, dispatch, restore %u2014 no line can be wrong'',
    lesson_type = js ''Practice'',
    lesson_duration = js ''2 hours'',
    lesson_objectives = [js ''Explain every line of __alltraps and why the order matters'',
       js ''Understand csrrw sp, sscratch, sp as an atomic user/kernel stack swap'',
       js ''Write __restore and know its second role %u2014 entering U-mode for the first time'',
       js ''Use .altmacro + .rept to collapse the save/restore loops''],
    lesson_sections = [phase1En_lesson4_section1,
      phase1En_lesson4_section2,
      phase1En_lesson4_section3,
      phase1En_lesson4_section4,
      phase1En_lesson4_section5],
    lesson_exercises = [phase1En_lesson4_exercise1],
    lesson_acceptanceCriteria = [js ''make test's trap.S unit tests pass (field placements correct)'',
       js ''You can single-step through __alltraps %u2192 __restore in gdb and match every move'',
       js ''You can explain: why x[2] must be saved separately, not inside the loop''],
    lesson_references = [\<lparr>reference_title = js ''rCore-Tutorial trap.S walkthrough'',
       reference_description = js ''[Required] Line-by-line annotation'',
       reference_url = js ''https://rcore-os.cn/rCore-Tutorial-Book-v3/chapter2/4trap-handling.html#trap''\<rparr>,
      \<lparr>reference_title = js ''RISC-V Asm Manual'',
       reference_description = js ''[Deep dive] .altmacro / .rept syntax'',
       reference_url = js ''https://github.com/riscv-non-isa/riscv-asm-manual/blob/master/src/asm-manual.adoc''\<rparr>,
      \<lparr>reference_title = js ''xv6 kernel/trampoline.S'',
       reference_description = js ''[Deep dive] Equivalent in the C kernel (trampoline-page variant)'',
       reference_url = js ''https://github.com/mit-pdos/xv6-riscv/blob/riscv/kernel/trampoline.S''\<rparr>]\<rparr>\<close>

section \<open>Lesson 5\<close>

definition phase1En_lesson5_section1 :: ContentSection where
  \<open>phase1En_lesson5_section1 = \<lparr>
    section_title = js ''Syscall ABI'',
    section_blocks = [TableBlock [js ''Register'',
         js ''Purpose'']
        [[js ''a7 (x17)'',
          js ''syscall number''],
         [js ''a0-a5 (x10-x15)'',
          js ''arguments 1-6''],
         [js ''a0 (x10)'',
          js ''return value (overwrites arg 1)'']],
      ParagraphBlock (jcat [''This matches Linux RISC-V exactly %u2014 in the future you could reuse musl's '',
          ''syscall wrappers. Phase 1 implements two numbers:'']),
      TableBlock [js ''No.'',
         js ''Name'',
         js ''Semantics'']
        [[js ''64'',
          js ''sys_write(fd, buf, len)'',
          js ''Write len bytes of buf to stdout (fd must be 1)''],
         [js ''93'',
          js ''sys_exit(code)'',
          js ''Exit current task, print code, call shutdown (Phase 2 changes this)'']]]\<rparr>\<close>

definition phase1En_lesson5_section2 :: ContentSection where
  \<open>phase1En_lesson5_section2 = \<lparr>
    section_title = js ''trap_handler dispatch skeleton'',
    section_blocks = [CodeBlock (Some (js ''rust'')) (jlines [''#[no_mangle]'',
          ''pub fn trap_handler(cx: &mut TrapContext) -> &mut TrapContext {'',
          ''    let scause = scause::read();'',
          ''    let stval = stval::read();'',
          ''    match scause.cause() {'',
          ''        Trap::Exception(Exception::UserEnvCall) => {'',
          ''            cx.sepc += 4;                      // skip the ecall'',
          ''            cx.x[10] = syscall('',
          ''                cx.x[17],                       // sysno'',
          ''                [cx.x[10], cx.x[11], cx.x[12]], // args'',
          ''            ) as usize;'',
          ''        }'',
          ''        Trap::Exception(Exception::StoreFault)'',
          ''        | Trap::Exception(Exception::StorePageFault) => {'',
          ''            println!("[kernel] PageFault @ {:#x}, killing app", stval);'',
          ''            run_next_app();                    // see loader in this lesson'',
          ''        }'',
          ''        Trap::Exception(Exception::IllegalInstruction) => {'',
          ''            println!("[kernel] IllegalInstruction, killing app");'',
          ''            run_next_app();'',
          ''        }'',
          ''        _ => panic!("unhandled trap: {:?}, stval={:#x}", scause.cause(), stval),'',
          ''    }'',
          ''    cx'',
          ''}'']),
      CalloutBlock Info (jcat [''Returning &mut TrapContext saves __restore from recomputing sp %u2014 by the RISC-V '',
          ''C ABI, a0 == cx pointer == sp. __restore takes a0 and treats it as sp.''])]\<rparr>\<close>

definition phase1En_lesson5_section3 :: ContentSection where
  \<open>phase1En_lesson5_section3 = \<lparr>
    section_title = js ''sys_write & sys_exit'',
    section_blocks = [CodeBlock (Some (js ''rust'')) (jlines [''pub fn sys_write(fd: usize, buf: *const u8, len: usize) -> isize {'',
          ''    if fd != 1 { return -1; }'',
          ''    let slice = unsafe { core::slice::from_raw_parts(buf, len) };'',
          ''    let s = core::str::from_utf8(slice).unwrap_or("<non-utf8>");'',
          ''    print!("{}", s);'',
          ''    len as isize'',
          ''}'',
          '''',
          ''pub fn sys_exit(code: i32) -> ! {'',
          ''    println!("[kernel] app exited with code {}", code);'',
          ''    run_next_app();'',
          ''}'']),
      CalloutBlock Warning (jcat [''sys_write here uses the user pointer directly %u2014 OK in Phase 1's single address '',
          ''space, but once Phase 4 introduces VM it must switch to translate_byte_buffer(). '',
          ''Note this TODO now.''])]\<rparr>\<close>

definition phase1En_lesson5_section4 :: ContentSection where
  \<open>phase1En_lesson5_section4 = \<lparr>
    section_title = js ''App loader: copy ELF to 0x80400000'',
    section_blocks = [ParagraphBlock (jcat [''The loader's job: copy user binaries %u2014 packed into the kernel's .data by '',
          ''link_app.S %u2014 to their run address (Phase 1 uses 0x80400000 + app_id * 0x20000). Then '',
          ''it builds a TrapContext on the kernel stack top and does jr __restore.'']),
      CodeBlock (Some (js ''rust'')) (jlines [''pub fn run_next_app() -> ! {'',
          ''    let cur = APP_MANAGER.next_app();'',
          ''    APP_MANAGER.load_app(cur);                  // memcpy to 0x80400000'',
          ''    extern "C" { fn __restore(cx_addr: usize); }'',
          ''    unsafe {'',
          ''        __restore(KERNEL_STACK.push_context('',
          ''            TrapContext::app_init_context(APP_BASE + cur * APP_SIZE, USER_STACK.top())'',
          ''        ) as *const _ as usize);'',
          ''    }'',
          ''    unreachable!();'',
          ''}''])]\<rparr>\<close>

definition phase1En_lesson5_exercise1 :: CodeExercise where
  \<open>phase1En_lesson5_exercise1 = \<lparr>
    exercise_id = js ''lab3'',
    exercise_title = js ''Lab 3 %u2b50%u2b50 syscall dispatch + sys_write + sys_exit'',
    exercise_description = jcat [''Fill in trap_handler, the syscall dispatch table, sys_write, sys_exit. make qemu '',
        ''should print hello from the built-in user app and exit.''],
    exercise_labFile = Some (js ''labs/phase_1_trap/src/syscall/mod.rs''),
    exercise_hints = [js ''syscall(sysno, args) is one big match %u2014 handle 64/93, panic on unknown'',
       js ''Don't forget sepc += 4 %u2014 otherwise infinite loop'',
       js ''sys_exit doesn't return: fn ... -> ! { unreachable!() }'',
       js ''Only fd==1 is writable; else return -1''],
    exercise_pseudocode = Some (jlines [''pub fn syscall(id: usize, args: [usize; 3]) -> isize {'',
          ''    match id {'',
          ''        64 => sys_write(args[0], args[1] as *const u8, args[2]),'',
          ''        93 => sys_exit(args[0] as i32),'',
          ''        _ => panic!("unknown syscall {}", id),'',
          ''    }'',
          ''}''])\<rparr>\<close>

definition phase1En_lesson5_exercise2 :: CodeExercise where
  \<open>phase1En_lesson5_exercise2 = \<lparr>
    exercise_id = js ''integration'',
    exercise_title = js ''End-to-end: run three user programs'',
    exercise_description = jcat [''labs/phase_1_trap/user/src/bin/ contains 3 sample programs (hello_world / '',
        ''bad_address / power). make qemu should run all three in order, each producing its expected '',
        ''output and exiting.''],
    exercise_labFile = None,
    exercise_hints = [js ''hello_world: minimal sys_write + sys_exit demo'',
       jcat [''bad_address: intentionally writes an illegal address %u2014 triggers PageFault, '',
         ''gets killed''],
       js ''power: loops computing pow(3,10) and prints the result''],
    exercise_pseudocode = None\<rparr>\<close>

definition phase1En_lesson5 :: Lesson where
  \<open>phase1En_lesson5 = \<lparr>
    lesson_phaseId = 1, lesson_lessonId = 5,
    lesson_title = js ''Syscall dispatch + your first user program'',
    lesson_subtitle = js ''sys_write / sys_exit / end-to-end integration'',
    lesson_type = js ''Practice + Integration'',
    lesson_duration = js ''2 hours'',
    lesson_objectives = [js ''Master the RISC-V syscall ABI: a7=number, a0-a5=args, a0=return'',
       js ''Implement trap_handler dispatch: ecall %u2192 syscall, others %u2192 diagnose + kill'',
       js ''Implement sys_write / sys_exit so user programs can speak and exit'',
       js ''Wire Lessons 1-4 together: load a user program and run it to exit''],
    lesson_sections = [phase1En_lesson5_section1,
      phase1En_lesson5_section2,
      phase1En_lesson5_section3,
      phase1En_lesson5_section4],
    lesson_exercises = [phase1En_lesson5_exercise1, phase1En_lesson5_exercise2],
    lesson_acceptanceCriteria = [js ''make qemu runs all 3 user programs in order, outputs match the README'',
       js ''bad_address triggers StoreFault, gets killed, kernel proceeds to the next app'',
       js ''scripts/grade.py reports full score'',
       js ''All syscall dispatch goes through a single table in syscall/mod.rs''],
    lesson_references = [\<lparr>reference_title = js ''xv6-riscv Ch. 4.3 Code: Calling system calls'',
       reference_description = js ''[Required] C equivalent of syscall dispatch'',
       reference_url = js ''https://pdos.csail.mit.edu/6.828/2023/xv6/book-riscv-rev3.pdf''\<rparr>,
      \<lparr>reference_title = js ''rCore-Tutorial %u00a72.4 & %u00a72.5'',
       reference_description = js ''[Required] Full ecall path of the batch system'',
       reference_url = js ''https://rcore-os.cn/rCore-Tutorial-Book-v3/chapter2/5exercise.html''\<rparr>,
      \<lparr>reference_title = js ''Linux RISC-V syscall ABI'',
       reference_description = js ''[Deep dive] Our numbering follows this %u2014 future-compatible'',
       reference_url = js ''https://man7.org/linux/man-pages/man2/syscalls.2.html''\<rparr>,
      \<lparr>reference_title = js ''Stretch question'',
       reference_description = jcat [''[Stretch] What changes are needed to support fd=2 (stderr)? If a user program spams '',
          ''ecalls, can the kernel rate-limit it?''],
       reference_url = js ''''\<rparr>]\<rparr>\<close>

section \<open>The phase\<close>

definition phase1En :: PhaseContent where
  \<open>phase1En = \<lparr>
    content_phaseId = 1,
    content_color = js ''#D97706'',
    content_accent = js ''#F59E0B'',
    content_lessons = [phase1En_lesson1, phase1En_lesson2, phase1En_lesson3, phase1En_lesson4, phase1En_lesson5]\<rparr>\<close>

section \<open>Well-formedness\<close>

lemma phase1En_lesson1_ok: "lesson_ok phase1En_lesson1"
  by (simp add: lesson_ok_def section_ok_def phase1En_lesson1_def
      phase1En_lesson1_section1_def
      phase1En_lesson1_section2_def
      phase1En_lesson1_section3_def
      phase1En_lesson1_exercise1_def)

lemma phase1En_lesson2_ok: "lesson_ok phase1En_lesson2"
  by (simp add: lesson_ok_def section_ok_def phase1En_lesson2_def
      phase1En_lesson2_section1_def
      phase1En_lesson2_section2_def
      phase1En_lesson2_section3_def
      phase1En_lesson2_section4_def
      phase1En_lesson2_section5_def
      phase1En_lesson2_exercise1_def)

lemma phase1En_lesson3_ok: "lesson_ok phase1En_lesson3"
  by (simp add: lesson_ok_def section_ok_def phase1En_lesson3_def
      phase1En_lesson3_section1_def
      phase1En_lesson3_section2_def
      phase1En_lesson3_section3_def
      phase1En_lesson3_section4_def
      phase1En_lesson3_exercise1_def)

lemma phase1En_lesson4_ok: "lesson_ok phase1En_lesson4"
  by (simp add: lesson_ok_def section_ok_def phase1En_lesson4_def
      phase1En_lesson4_section1_def
      phase1En_lesson4_section2_def
      phase1En_lesson4_section3_def
      phase1En_lesson4_section4_def
      phase1En_lesson4_section5_def
      phase1En_lesson4_exercise1_def)

lemma phase1En_lesson5_ok: "lesson_ok phase1En_lesson5"
  by (simp add: lesson_ok_def section_ok_def phase1En_lesson5_def
      phase1En_lesson5_section1_def
      phase1En_lesson5_section2_def
      phase1En_lesson5_section3_def
      phase1En_lesson5_section4_def
      phase1En_lesson5_exercise1_def
      phase1En_lesson5_exercise2_def)

lemma phase1En_lesson1_ids: "lesson_phaseId phase1En_lesson1 = 1" "lesson_lessonId phase1En_lesson1 = 1"
  by (simp_all add: phase1En_lesson1_def)

lemma phase1En_lesson2_ids: "lesson_phaseId phase1En_lesson2 = 1" "lesson_lessonId phase1En_lesson2 = 2"
  by (simp_all add: phase1En_lesson2_def)

lemma phase1En_lesson3_ids: "lesson_phaseId phase1En_lesson3 = 1" "lesson_lessonId phase1En_lesson3 = 3"
  by (simp_all add: phase1En_lesson3_def)

lemma phase1En_lesson4_ids: "lesson_phaseId phase1En_lesson4 = 1" "lesson_lessonId phase1En_lesson4 = 4"
  by (simp_all add: phase1En_lesson4_def)

lemma phase1En_lesson5_ids: "lesson_phaseId phase1En_lesson5 = 1" "lesson_lessonId phase1En_lesson5 = 5"
  by (simp_all add: phase1En_lesson5_def)

lemma phase1En_shape [site_shape]:
  "content_phaseId phase1En = 1" "length (content_lessons phase1En) = 5"
  by (simp_all add: phase1En_def)

lemma phase1En_ok [site_shape]: "content_ok phase1En"
  by (simp add: content_ok_def phase1En_def upt_rec
      phase1En_lesson1_ok phase1En_lesson2_ok phase1En_lesson3_ok phase1En_lesson4_ok phase1En_lesson5_ok
      phase1En_lesson1_ids phase1En_lesson2_ids phase1En_lesson3_ids phase1En_lesson4_ids phase1En_lesson5_ids)

end
