(* ===== verification/Phase2_ZhCN.thy ===== *)
theory Phase2_ZhCN
  imports Content_Types
begin

text \<open>
  Phase 2, processes and scheduling, in Simplified Chinese: the constant \<open>phase2ZhCN\<close> of
  \<open>website/src/data/phase2.ts\<close>, one definition per section, exercise and lesson. Below it, that the
  content is well formed.
\<close>

section \<open>Lesson 1\<close>

definition phase2ZhCN_lesson1_section1 :: ContentSection where
  \<open>phase2ZhCN_lesson1_section1 = \<lparr>
    section_title = js ''%u4ece%u5355%u4efb%u52a1%u5230%u591a%u4efb%u52a1'',
    section_blocks = [ParagraphBlock (jcat [''Phase 1 %u91cc%u6574%u4e2a%u5185%u6838%u53ea%u6709%u4e00%u6761%u6267%u884c%u6d41'',
          ''%uff1a_start %u2192 ecall %u2192 trap_handler %u2192 sret %u2192 '',
          ''%u7528%u6237%u4ee3%u7801 %u2192 exit%u3002%u6240%u6709%u5bc4%u5b58%u5668%u3001%u4e00%u6761%u5185%u6838'',
          ''%u6808%u5c31%u591f%u4e86%u3002Phase 2 %u8981%u540c%u65f6%u8dd1 N '',
          ''%u4e2a%u7528%u6237%u7a0b%u5e8f%uff0c%u610f%u5473%u7740%u5fc5%u987b%u80fd%u300c%u6682%u505c '',
          ''A%u3001%u5207%u53bb B%u300d%u2014%u2014%u800c%u8fd9%u4e4b%u524d%uff0c%u6211%u4eec%u5f97'',
          ''%u5148%u56de%u7b54%uff1a%u5185%u6838%u91cc%u4e00%u4e2a%u4efb%u52a1%u5230%u5e95%u662f'',
          ''%u4ec0%u4e48%uff1f'']),
      CalloutBlock Info (jcat [''%u4e00%u4e2a%u4efb%u52a1 = %u4e00%u4e2a TaskControlBlock (TCB) + '',
          ''%u4e00%u6761%u5185%u6838%u6808 + %u4e00%u6761%u7528%u6237%u6808%u3002%u8fdb%u7a0b%u4e0d%u662f%u98d8'',
          ''%u5728%u4ee5%u592a%u91cc%u7684%u62bd%u8c61%u5bf9%u8c61%u2014%u2014%u5b83%u5c31%u662f'',
          ''%u8fd9%u4e09%u5757%u5185%u5b58%u7684%u603b%u548c%u3002Phase 3-5 '',
          ''%u4f1a%u7ed9%u5b83%u52a0%u4e0a%u5730%u5740%u7a7a%u95f4%u3001%u6587%u4ef6%u8868%u3001%u7236%u6307%u9488'',
          ''%uff0c%u4f46%u9aa8%u67b6%u5c31%u8fd9%u4e09%u6837%u3002''])]\<rparr>\<close>

definition phase2ZhCN_lesson1_section2 :: ContentSection where
  \<open>phase2ZhCN_lesson1_section2 = \<lparr>
    section_title = js ''TCB %u7684%u5b57%u6bb5'',
    section_blocks = [CodeBlock (Some (js ''rust'')) (jlines [''#[derive(Copy, Clone)]'',
          ''pub struct TaskControlBlock {'',
          ''    pub task_status: TaskStatus,   // UnInit / Ready / Running / Exited'',
          ''    pub task_cx: TaskContext,      // 14 %u5b57%u7684%u5bc4%u5b58%u5668%u5feb%u7167%uff08%u4e0b%u8282%u8bfe%u8bb2%uff09'',
          ''}'',
          '''',
          ''#[derive(Copy, Clone, PartialEq)]'',
          ''pub enum TaskStatus { UnInit, Ready, Running, Exited }'']),
      ParagraphBlock (jcat [''TCB %u662f%u4e00%u4e2a%u7eaf Rust %u7ed3%u6784%u4f53%uff0c%u8eba%u5728%u5185%u6838 '',
          ''.data %u6bb5%u7684%u4e00%u4e2a%u56fa%u5b9a%u5927%u5c0f%u6570%u7ec4%u91cc%u3002Phase '',
          ''2 %u4e0d%u505a%u52a8%u6001%u5206%u914d%u2014%u2014MAX_APP_NUM '',
          ''%u5728%u7f16%u8bd1%u671f%u5b9a%u6b7b%uff0cloader '',
          ''%u626b%u63cf%u94fe%u63a5%u8fdb%u6765%u7684%u7528%u6237 ELF %u4e2a%u6570%u5e76%u586b%u597d%u5bf9%u5e94%u69fd%u4f4d%u3002'']),
      CalloutBlock Tip (jcat [''Phase 5 %u91cc TCB %u4f1a%u642c%u5230%u5806%u4e0a%u5e76%u7528 Arc<Mutex<TCB>> '',
          ''%u5305%u88f9%uff08fork/exec %u9700%u8981%u52a8%u6001%u521b%u5efa%uff09%u3002%u73b0%u5728'',
          ''%u5148%u7528%u9759%u6001%u6570%u7ec4%u2014%u2014%u53d8%u91cf%u5c11%u4e00%u4e2a%uff0c'',
          ''%u601d%u8def%u6e05%u6670%u4e00%u4e2a%u3002''])]\<rparr>\<close>

definition phase2ZhCN_lesson1_section3 :: ContentSection where
  \<open>phase2ZhCN_lesson1_section3 = \<lparr>
    section_title = js ''%u4e09%u5757%u5185%u5b58%u7684%u7a7a%u95f4%u5e03%u5c40'',
    section_blocks = [DiagramBlock (jlines [''kernel .bss / .data                                          %u9ad8%u5730%u5740'',
          ''%u250c%r392500%u2510'',
          ''%u2502 KERNEL_STACK[MAX_APP_NUM]   %u6bcf%u4e2a%u4efb%u52a1 8 KiB %u5185%u6838%u6808         %u2502'',
          ''%u2502   %u250c%u2500 KernelStack[0] %u2500%u2510                                   %u2502'',
          ''%u2502   %u2502    8192 bytes    %u2502  %u2190 %u4efb%u52a1 0 ecall %u8fdb%u6765%u65f6 sp %u6307%u5411%u8fd9   %u2502'',
          ''%u2502   %u2514%r122500%u2518                                   %u2502'',
          ''%u2502   %u250c%u2500 KernelStack[1] %u2500%u2510                                   %u2502'',
          ''%u2502   %u2502    8192 bytes    %u2502                                   %u2502'',
          ''%u2502   %u2514%r122500%u2518                                   %u2502'',
          ''%u2502        ......                                            %u2502'',
          ''%u251c%r392500%u2524'',
          ''%u2502 USER_STACK[MAX_APP_NUM]     %u6bcf%u4e2a%u4efb%u52a1 8 KiB %u7528%u6237%u6808          %u2502'',
          ''%u251c%r392500%u2524'',
          ''%u2502 TASK_MANAGER {                                           %u2502'',
          ''%u2502   num_app: usize,                                        %u2502'',
          ''%u2502   inner: UPSafeCell<TaskManagerInner> {                  %u2502'',
          ''%u2502     tasks: [TCB; MAX_APP_NUM],                           %u2502'',
          ''%u2502     current_task: usize,                                 %u2502'',
          ''%u2502   }                                                      %u2502'',
          ''%u2502 }                                                        %u2502'',
          ''%u2514%r392500%u2518'',
          ''%u7528%u6237%u7a0b%u5e8f .text/.data %u88ab loader %u4ece app_N_start %u62f7%u5230 APP_BASE + N * APP_SIZE_LIMIT'']),
      ParagraphBlock (jcat [''%u4e3a%u4ec0%u4e48%u6bcf%u4e2a%u4efb%u52a1%u8981%u4e00%u6761%u72ec%u7acb%u7684%u5185'',
          ''%u6838%u6808%uff1f%u60f3%u8c61%u4efb%u52a1 A %u9677%u5165 trap_handler '',
          ''%u6267%u884c%u5230%u4e00%u534a%u65f6%uff0c%u65f6%u949f%u4e2d%u65ad%u89e6%u53d1%u5207%u6362%u5230'',
          ''%u4efb%u52a1 B%uff1bB %u4e5f%u4f1a%u8d70 trap_handler%u3002%u5982%u679c%u5171%u7528'',
          ''%u4e00%u6761%u5185%u6838%u6808%uff0cB %u7684%u6808%u5e27%u4f1a%u8986%u76d6 A '',
          ''%u7684%uff0cA %u9192%u6765%u65f6%u6808%u9876%u5df2%u88ab%u6539%u5199%uff0c%u5fc5%u5d29'',
          ''%u3002%u4e00%u4eba%u4e00%u6761%u624d%u5e72%u51c0%u3002''])]\<rparr>\<close>

definition phase2ZhCN_lesson1_section4 :: ContentSection where
  \<open>phase2ZhCN_lesson1_section4 = \<lparr>
    section_title = js ''%u72b6%u6001%u673a'',
    section_blocks = [DiagramBlock (jlines [''            loader::init_app_cx()'',
          ''   UnInit %r172500%u25ba Ready %u25c0%r092500%u2510'',
          ''                                     %u2502              %u2502 suspend'',
          ''                                     %u25bc              %u2502'',
          ''                                  Running %r0a2500%u2518'',
          ''                                     %u2502'',
          ''                                     %u2502 exit (sys_exit)'',
          ''                                     %u25bc'',
          ''                                   Exited'']),
      TableBlock [js ''%u72b6%u6001'',
         js ''%u542b%u4e49'',
         js ''%u4e0b%u4e00%u6b65%u7684%u89e6%u53d1%u8005'']
        [[js ''UnInit'',
          jcat [''%u69fd%u4f4d%u672a%u4f7f%u7528%uff0c%u6216 loader '',
            ''%u8fd8%u6ca1%u4e3a%u5176%u6784%u9020 TrapContext''],
          js ''loader''],
         [js ''Ready'',
          js ''%u53ef%u8fd0%u884c%uff0c%u7b49%u5f85 CPU'',
          js ''scheduler''],
         [js ''Running'',
          js ''%u6b63%u5728%u67d0%u4e2a hart %u4e0a%u6267%u884c'',
          js ''%u65f6%u949f%u4e2d%u65ad / sys_yield / sys_exit''],
         [js ''Exited'',
          js ''%u5df2%u9000%u51fa%uff0c%u5185%u6838%u6808%u4e0d%u518d%u4f1a%u88ab%u5207%u56de'',
          js ''%u65e0%uff08Phase 5 %u4f1a%u7531%u7236%u8fdb%u7a0b wait %u56de%u6536%uff09'']],
      CalloutBlock Info (jcat [''Phase 3 %u4f1a%u52a0 Sleeping%uff08%u963b%u585e%u5728%u9501%u4e0a%uff09%uff0cPhase '',
          ''5 %u4f1a%u52a0 Zombie%uff08%u5df2%u9000%u51fa%u4f46%u7236%u8fdb%u7a0b%u672a '',
          ''wait%uff09%u3002%u73b0%u5728%u53ea%u8981%u56db%u4e2a%u72b6%u6001%u2014%u2014%u591a%u4e00'',
          ''%u4e2a%u90fd%u662f%u63d0%u524d%u590d%u6742%u5ea6%u3002''])]\<rparr>\<close>

definition phase2ZhCN_lesson1_exercise1 :: CodeExercise where
  \<open>phase2ZhCN_lesson1_exercise1 = \<lparr>
    exercise_id = js ''lab1-tcb'',
    exercise_title = js ''Lab 1a %u2b50 TCB %u4e0e%u72b6%u6001%u679a%u4e3e'',
    exercise_description = jcat [''%u5728 task/task.rs %u4e2d%u8865%u5168 TaskStatus %u4e0e '',
        ''TaskControlBlock%u3002%u6240%u6709%u5b57%u6bb5%u90fd%u662f Copy%u2014%u2014TCB '',
        ''%u6570%u7ec4%u6309%u503c%u5b58%u653e%uff0c%u65b9%u4fbf%u88ab UPSafeCell %u7ba1%u7406%u3002''],
    exercise_labFile = Some (js ''labs/phase_2_proc/src/task/task.rs''),
    exercise_hints = [js ''TaskStatus %u8981 derive Copy, Clone, PartialEq, Debug'',
       js ''TaskControlBlock %u8981 derive Copy, Clone'',
       jcat [''task_cx %u5b57%u6bb5%u7c7b%u578b%u662f TaskContext%uff08%u4e0b%u8282%u8bfe%u5b9a'',
         ''%u4e49%uff09'']],
    exercise_pseudocode = Some (jlines [''#[derive(Copy, Clone, PartialEq, Debug)]'',
          ''pub enum TaskStatus { UnInit, Ready, Running, Exited }'',
          '''',
          ''#[derive(Copy, Clone)]'',
          ''pub struct TaskControlBlock {'',
          ''    pub task_status: TaskStatus,'',
          ''    pub task_cx: TaskContext,'',
          ''}''])\<rparr>\<close>

definition phase2ZhCN_lesson1 :: Lesson where
  \<open>phase2ZhCN_lesson1 = \<lparr>
    lesson_phaseId = 2, lesson_lessonId = 1,
    lesson_title = js ''%u8fdb%u7a0b%u62bd%u8c61%u4e0e TCB'',
    lesson_subtitle = jcat [''%u4ec0%u4e48%u662f%u300c%u4e00%u4e2a%u4efb%u52a1%u300d%u2014%u2014TCB + '',
        ''%u5185%u6838%u6808 + %u7528%u6237%u6808''],
    lesson_type = js ''Concept'',
    lesson_duration = js ''1.5 hours'',
    lesson_objectives = [jcat [''%u7406%u89e3%u300c%u8fdb%u7a0b%u300d%u5728%u5185%u6838%u91cc%u5230%u5e95%u662f%u54ea'',
         ''%u51e0%u5757%u5185%u5b58''],
       js ''%u638c%u63e1 TaskControlBlock (TCB) %u7684%u5b57%u6bb5%u4e0e%u72b6%u6001%u673a'',
       jcat [''%u770b%u61c2%u6bcf%u4e2a%u4efb%u52a1%u4e3a%u4ec0%u4e48%u9700%u8981%u4e00%u6761%u72ec'',
         ''%u7acb%u7684%u5185%u6838%u6808''],
       jcat [''%u80fd%u753b%u51fa UnInit %u2192 Ready %u2192 Running %u2192 Exited '',
         ''%u7684%u72b6%u6001%u8fc1%u79fb'']],
    lesson_sections = [phase2ZhCN_lesson1_section1,
      phase2ZhCN_lesson1_section2,
      phase2ZhCN_lesson1_section3,
      phase2ZhCN_lesson1_section4],
    lesson_exercises = [phase2ZhCN_lesson1_exercise1],
    lesson_acceptanceCriteria = [jcat [''%u80fd%u53e3%u5934%u89e3%u91ca%u300c%u4e00%u4e2a%u4efb%u52a1%u7531%u54ea%u4e09%u5757'',
         ''%u5185%u5b58%u6784%u6210%u300d''],
       js ''%u80fd%u753b%u51fa 4 %u4e2a%u72b6%u6001%u4e4b%u95f4%u7684%u8fc1%u79fb%u56fe'',
       jcat [''TaskControlBlock %u7684%u5c3a%u5bf8%u7b49%u4e8e 1 %u5b57%u8282%u72b6%u6001 + '',
         ''%u586b%u5145 + 112 %u5b57%u8282 TaskContext%uff08%u6309 8 %u5bf9%u9f50%u7ea6 120%uff09'']],
    lesson_references = [\<lparr>reference_title = js ''OSTEP Ch.4-6: The Abstraction: The Process'',
       reference_description = js ''[%u5fc5%u8bfb] %u8fdb%u7a0b%u62bd%u8c61%u7684%u7ecf%u5178%u6587%u672c'',
       reference_url = js ''https://pages.cs.wisc.edu/~remzi/OSTEP/cpu-intro.pdf''\<rparr>,
      \<lparr>reference_title = js ''xv6-riscv book Ch.7'',
       reference_description = jcat [''[%u5fc5%u8bfb] Scheduling%u2014%u2014%u548c%u6211%u4eec%u7684 Rust '',
          ''%u7248%u5bf9%u7167%u770b''],
       reference_url = js ''https://pdos.csail.mit.edu/6.828/2023/xv6/book-riscv-rev3.pdf''\<rparr>,
      \<lparr>reference_title = js ''rCore-Tutorial %u00a73.1'',
       reference_description = js ''[%u6df1%u5165%u9605%u8bfb] %u591a%u9053%u7a0b%u5e8f%u4e0e%u5206%u65f6%u591a%u4efb%u52a1'',
       reference_url = js ''https://rcore-os.cn/rCore-Tutorial-Book-v3/chapter3/index.html''\<rparr>]\<rparr>\<close>

section \<open>Lesson 2\<close>

definition phase2ZhCN_lesson2_section1 :: ContentSection where
  \<open>phase2ZhCN_lesson2_section1 = \<lparr>
    section_title = js ''%u4e24%u6761%u8fb9%u754c%u3001%u4e24%u5957%u4e0a%u4e0b%u6587'',
    section_blocks = [ParagraphBlock (jcat [''Phase 1 %u5df2%u7ecf%u6709%u4e86 TrapContext%u2014%u2014%u5b83%u4fdd%u62a4%u7684'',
          ''%u662f%u300cU-mode %u21c4 S-mode%u300d%u8fd9%u6761%u7279%u6743%u7ea7%u8fb9%u754c'',
          ''%u3002Phase 2 %u518d%u52a0%u4e00%u4e2a TaskContext%u2014%u2014%u5b83%u4fdd%u62a4'',
          ''%u7684%u662f%u300c%u5185%u6838%u7ebf%u7a0b A %u21c4 %u5185%u6838%u7ebf%u7a0b '',
          ''B%u300d%u8fd9%u6761%u8bed%u8a00%u7ea7%u8fb9%u754c%u3002%u4e24%u8005%u7684%u5bc4%u5b58%u5668'',
          ''%u96c6%u5408%u3001%u89e6%u53d1%u65f6%u673a%u3001%u5199%u5165%u65b9%u5b8c%u5168%u4e0d'',
          ''%u540c%u3002'']),
      DiagramBlock (jlines [''            U-mode %u7528%u6237%u4ee3%u7801'',
          ''                %u2502'',
          ''                %u2502 ecall / timer'',
          ''                %u2502                  %u250c%u2500 TrapContext 34 %u5b57%uff1a%u786c%u4ef6%u9a71%u52a8'',
          ''                %u25bc                  %u2502  %u4efb%u4f55%u6307%u4ee4%u90fd%u53ef%u80fd trap%uff0c'',
          ''          %r052500%u2534%r0a2500         %u2502  %u6240%u4ee5%u901a%u7528%u5bc4%u5b58%u5668%u5168%u8981%u4fdd%u5b58'',
          ''          S-mode trap handler %r052500%u2518'',
          ''                %u2502'',
          ''                %u2502 suspend_current_and_run_next()'',
          ''                %u2502                  %u250c%u2500 TaskContext 14 %u5b57%uff1a%u51fd%u6570%u8c03%u7528'',
          ''                %u25bc                  %u2502  __switch %u662f Rust %u8c03%u7528%u7684%uff0c'',
          ''          %r052500%u2534%r0a2500         %u2502  caller-saved %u7f16%u8bd1%u5668%u5df2%u5e2e%u5fd9%u4fdd%u5b58'',
          ''          S-mode trap handler      %u2502  %u6211%u4eec%u53ea%u8981%u5b58 callee-saved'',
          ''                %u2502                  %u2514%u2500'',
          ''                %u2502 sret'',
          ''                %u25bc'',
          ''            U-mode %u7528%u6237%u4ee3%u7801%uff08%u4f46%u4e5f%u8bb8%u662f%u53e6%u4e00%u4e2a app%uff09''])]\<rparr>\<close>

definition phase2ZhCN_lesson2_section2 :: ContentSection where
  \<open>phase2ZhCN_lesson2_section2 = \<lparr>
    section_title = js ''TaskContext%uff1a14 %u4e2a usize'',
    section_blocks = [CodeBlock (Some (js ''rust'')) (jlines [''#[derive(Copy, Clone)]'',
          ''#[repr(C)]'',
          ''pub struct TaskContext {'',
          ''    ra: usize,       // +0   %u4e0b%u6b21 __switch %u8fd4%u56de%u65f6%u8df3%u53bb%u54ea'',
          ''    sp: usize,       // +8   %u8fd9%u4e2a%u4efb%u52a1%u7684%u5185%u6838%u6808%u9876'',
          ''    s: [usize; 12],  // +16 .. +104   s0 .. s11'',
          ''}'',
          ''// sizeof = 14 * 8 = 112 %u5b57%u8282'']),
      ParagraphBlock (jcat [''%u4e3a%u4ec0%u4e48%u53ea%u4fdd%u5b58 ra%u3001sp%u3001s0-s11%uff1f%u56e0%u4e3a '',
          ''__switch %u662f%u88ab Rust %u4ee3%u7801%u901a%u8fc7%u6b63%u5e38%u7684%u51fd%u6570%u8c03'',
          ''%u7528%u7ea6%u5b9a%u8c03%u7528%u7684%u3002RISC-V calling convention '',
          ''%u89c4%u5b9a%uff1acaller-saved %u5bc4%u5b58%u5668%uff08t0-t6%u3001a0-a7%u3001ft0-ft11%uff09'',
          ''%u7531%u8c03%u7528%u65b9%u81ea%u884c%u4fdd%u5b58%u3002%u7f16%u8bd1%u5668%u5df2%u7ecf'',
          ''%u5728 __switch %u7684 call site %u628a%u8fd8%u9700%u8981%u7528%u7684%u503c%u5199'',
          ''%u56de%u6808%u6216%u91cd%u65b0%u8bfb%u51fa%u2014%u2014__switch '',
          ''%u6839%u672c%u4e0d%u9700%u8981%u7ba1%u5b83%u4eec%u3002'']),
      CalloutBlock Warning (jcat [''%u8fd9%u548c TrapContext %u7684%u300c%u4fdd%u5b58%u5168%u90e8%u300d%u601d%u8def'',
          ''%u622a%u7136%u76f8%u53cd%uff1atrap %u7531%u786c%u4ef6%u5f02%u6b65%u89e6%u53d1%uff0c'',
          ''%u6ca1%u4eba%u5e2e%u4f60 spill caller-saved%u3002%u800c __switch '',
          ''%u662f%u4f60%u81ea%u5df1%u8c03%u7684%u51fd%u6570%uff0c%u7f16%u8bd1%u5668%u4f1a%u5e2e%u4f60 '',
          ''spill%u2014%u2014%u6240%u4ee5%u7701%u3002''])]\<rparr>\<close>

definition phase2ZhCN_lesson2_section3 :: ContentSection where
  \<open>phase2ZhCN_lesson2_section3 = \<lparr>
    section_title = js ''%u5bf9%u6bd4%u8868'',
    section_blocks = [TableBlock [js ''%u7ef4%u5ea6'',
         js ''TrapContext'',
         js ''TaskContext'']
        [[js ''%u5927%u5c0f'',
          js ''34 %u00d7 8 = 272 %u5b57%u8282'',
          js ''14 %u00d7 8 = 112 %u5b57%u8282''],
         [js ''%u4fdd%u62a4%u7684%u8fb9%u754c'',
          js ''U-mode %u21c4 S-mode%uff08%u7279%u6743%u7ea7%uff09'',
          js ''%u5185%u6838%u7ebf%u7a0b A %u21c4 %u5185%u6838%u7ebf%u7a0b B%uff08%u8bed%u8a00%u7ea7%uff09''],
         [js ''%u89e6%u53d1%u65f6%u673a'',
          js ''%u786c%u4ef6 trap%uff08%u5f02%u6b65 + %u4efb%u4f55%u6307%u4ee4%uff09'',
          js ''%u5185%u6838%u4e3b%u52a8 __switch() %u8c03%u7528''],
         [js ''%u4fdd%u5b58%u8005'',
          js ''__alltraps %u6c47%u7f16%uff08%u786c%u4ef6%u9a71%u52a8%uff09'',
          js ''__switch %u6c47%u7f16%uff08%u51fd%u6570%u8c03%u7528%u9a71%u52a8%uff09''],
         [js ''%u5bc4%u5b58%u5668%u96c6'',
          js ''x0-x31 %u5168%u90e8 + sstatus + sepc'',
          js ''ra + sp + s0-s11%uff08callee-saved%uff09''],
         [js ''%u4e3a%u4ec0%u4e48%u4e0d%u4fdd%u5b58 caller-saved'',
          js ''%u2014%u2014%uff08%u5fc5%u987b%u5168%u4fdd%u5b58%uff09'',
          js ''Rust %u8c03%u7528%u8005%u5df2%u7ecf spill %u8fc7%u4e86''],
         [js ''%u7ed3%u6784%u6240%u5728%u4f4d%u7f6e'',
          js ''%u4efb%u52a1%u7684%u5185%u6838%u6808%u4e0a'',
          js ''%u4efb%u52a1%u7684 TCB %u91cc''],
         [js ''%u9996%u6b21%u6784%u9020%u8005'',
          js ''loader::init_app_cx()'',
          js ''TaskContext::goto_restore()'']]]\<rparr>\<close>

definition phase2ZhCN_lesson2_section4 :: ContentSection where
  \<open>phase2ZhCN_lesson2_section4 = \<lparr>
    section_title = js ''goto_restore%uff1a%u628a%u65b0%u4efb%u52a1%u7684 ra %u6307%u5411 __restore'',
    section_blocks = [ParagraphBlock (jcat [''%u4e00%u4e2a%u4ece%u672a%u8dd1%u8fc7%u7684%u4efb%u52a1%uff0c%u5b83%u7684 '',
          ''TaskContext %u8be5%u600e%u4e48%u521d%u59cb%u5316%uff1f%u601d%u8def%uff1a%u8ba9%u8c03%u5ea6'',
          ''%u5668%u7b2c%u4e00%u6b21%u5207%u5230%u5b83%u65f6%uff0c__switch %u7684 ret '',
          ''%u6307%u4ee4%u628a%u63a7%u5236%u6743%u9001%u5230%u6c47%u7f16%u4f8b%u7a0b '',
          ''__restore%u2014%u2014__restore %u4f1a%u4ece%u5185%u6838%u6808%u4e0a%u52a0%u8f7d%u6211%u4eec%u9884'',
          ''%u5148%u4f2a%u9020%u597d%u7684 TrapContext%uff0csret %u56de U-mode%u3002'']),
      CodeBlock (Some (js ''rust'')) (jlines [''impl TaskContext {'',
          ''    pub fn goto_restore(kstack_ptr: usize) -> Self {'',
          ''        extern "C" { fn __restore(); }'',
          ''        Self {'',
          ''            ra: __restore as usize,   // %u2605 %u8c03%u5ea6%u5207%u5165%u540e%u7b2c%u4e00%u6761%u8981%u6267%u884c%u7684%u6c47%u7f16'',
          ''            sp: kstack_ptr,           // %u2605 %u5185%u6838%u6808%u9876%uff1aTrapContext %u5c31%u8eba%u5728%u4e0a%u9762'',
          ''            s:  [0; 12],'',
          ''        }'',
          ''    }'',
          ''}'']),
      CalloutBlock Tip (jcat [''loader %u5728%u542f%u52a8%u65f6%u5148%u5728%u6bcf%u6761%u5185%u6838%u6808%u4e0a'',
          ''%u6784%u9020 TrapContext%uff08%u901a%u8fc7 push_context%uff09%uff0c%u7136%u540e'',
          ''%u8fd4%u56de%u6808%u9876%u5730%u5740%u7ed9 goto_restore%u2014%u2014%u4e24%u8005'',
          ''%u4e00%u62fc%u63a5%uff0c%u6574%u6761%u542f%u52a8%u94fe%u8def%u5c31%u901a%u4e86%uff1a'',
          ''__switch %u2192 ret %u2192 __restore %u2192 sret %u2192 '',
          ''%u7528%u6237%u7a0b%u5e8f%u3002''])]\<rparr>\<close>

definition phase2ZhCN_lesson2_exercise1 :: CodeExercise where
  \<open>phase2ZhCN_lesson2_exercise1 = \<lparr>
    exercise_id = js ''lab1-context'',
    exercise_title = js ''Lab 1b %u2b50%u2b50 TaskContext + goto_restore'',
    exercise_description = jcat [''%u8865%u5168 task/context.rs%u3002%u5b9a%u4e49 14 '',
        ''%u5b57%u7684%u7ed3%u6784%u4f53%uff0c%u5e76%u5199%u51fa zero_init() %u4e0e goto_restore(kstack_ptr)%u3002''],
    exercise_labFile = Some (js ''labs/phase_2_proc/src/task/context.rs''),
    exercise_hints = [jcat [''#[repr(C)] %u4e0d%u80fd%u7701%u2014%u2014switch.S %u786c%u7f16%u7801%u504f%u79fb '',
         ''0/8/16 ...''],
       js ''extern "C" { fn __restore(); } %u7528%u6765%u53d6%u6c47%u7f16%u7b26%u53f7%u5730%u5740'',
       js ''zero_init() %u7ed9 UnInit %u69fd%u4f4d%u7528%uff0c%u5168%u586b 0 %u5373%u53ef'',
       js ''goto_restore %u53ea%u521d%u59cb%u5316 ra %u548c sp%uff0cs[0..12] %u7559 0''],
    exercise_pseudocode = Some (jlines [''#[repr(C)]'',
          ''#[derive(Copy, Clone)]'',
          ''pub struct TaskContext { ra: usize, sp: usize, s: [usize; 12] }'',
          '''',
          ''impl TaskContext {'',
          ''    pub fn zero_init() -> Self { Self { ra: 0, sp: 0, s: [0; 12] } }'',
          ''    pub fn goto_restore(kstack_ptr: usize) -> Self {'',
          ''        extern "C" { fn __restore(); }'',
          ''        Self { ra: __restore as usize, sp: kstack_ptr, s: [0; 12] }'',
          ''    }'',
          ''}''])\<rparr>\<close>

definition phase2ZhCN_lesson2 :: Lesson where
  \<open>phase2ZhCN_lesson2 = \<lparr>
    lesson_phaseId = 2, lesson_lessonId = 2,
    lesson_title = js ''TaskContext vs TrapContext'',
    lesson_subtitle = js ''%u4e3a%u4ec0%u4e48%u4e00%u4e2a 14 %u5b57%u3001%u53e6%u4e00%u4e2a 34 %u5b57'',
    lesson_type = js ''Concept'',
    lesson_duration = js ''1.5 hours'',
    lesson_objectives = [jcat [''%u6e05%u695a%u4e24%u79cd%u4e0a%u4e0b%u6587%u5404%u81ea%u4fdd%u62a4%u7684%u662f%u54ea'',
         ''%u6761%u8fb9%u754c''],
       jcat [''%u7406%u89e3%u300c%u53ea%u4fdd%u5b58 callee-saved '',
         ''%u5bc4%u5b58%u5668%u300d%u4e3a%u4ec0%u4e48%u591f%u7528''],
       jcat [''%u77e5%u9053 TaskContext %u7684 ra %u6307%u5411%u54ea%u91cc%u3001sp '',
         ''%u6307%u5411%u54ea%u6761%u5185%u6838%u6808''],
       js ''%u80fd%u7528%u4e00%u5f20%u8868%u51c6%u786e%u8bf4%u51fa%u4e24%u8005%u7684%u5dee%u5f02''],
    lesson_sections = [phase2ZhCN_lesson2_section1,
      phase2ZhCN_lesson2_section2,
      phase2ZhCN_lesson2_section3,
      phase2ZhCN_lesson2_section4],
    lesson_exercises = [phase2ZhCN_lesson2_exercise1],
    lesson_acceptanceCriteria = [js ''sizeof::<TaskContext>() == 112'',
       js ''%u80fd%u56de%u7b54%u300c%u4e3a%u4ec0%u4e48%u4e0d%u4fdd%u5b58 t0-t6 %u548c a0-a7%u300d'',
       js ''%u80fd%u753b%u51fa TrapContext vs TaskContext %u5bf9%u6bd4%u8868''],
    lesson_references = [\<lparr>reference_title = js ''RISC-V Calling Convention'',
       reference_description = js ''[%u5fc5%u8bfb] %u54ea%u4e9b%u5bc4%u5b58%u5668 caller-saved%u3001%u54ea%u4e9b callee-saved'',
       reference_url = js ''https://riscv.org/wp-content/uploads/2015/01/riscv-calling.pdf''\<rparr>,
      \<lparr>reference_title = js ''rCore-Tutorial %u00a73.2'',
       reference_description = jcat [''[%u5fc5%u8bfb] %u4efb%u52a1%u5207%u6362%u2014%u2014TaskContext '',
          ''%u7684%u4e2d%u6587%u8bb2%u89e3''],
       reference_url = js ''https://rcore-os.cn/rCore-Tutorial-Book-v3/chapter3/2task-switching.html''\<rparr>,
      \<lparr>reference_title = js ''xv6-riscv kernel/proc.h'',
       reference_description = js ''[%u6df1%u5165%u9605%u8bfb] %u5bf9%u7167 C %u7248%u7684 struct context'',
       reference_url = js ''https://github.com/mit-pdos/xv6-riscv/blob/riscv/kernel/proc.h''\<rparr>]\<rparr>\<close>

section \<open>Lesson 3\<close>

definition phase2ZhCN_lesson3_section1 :: ContentSection where
  \<open>phase2ZhCN_lesson3_section1 = \<lparr>
    section_title = js ''__switch %u7684%u7b7e%u540d'',
    section_blocks = [CodeBlock (Some (js ''rust'')) (jlines [''extern "C" {'',
          ''    pub fn __switch('',
          ''        current_task_cx_ptr: *mut TaskContext,   // a0'',
          ''        next_task_cx_ptr:    *const TaskContext, // a1'',
          ''    );'',
          ''}'']),
      ParagraphBlock (jcat [''a0 %u662f%u300c%u5b58%u5230%u54ea%u91cc%u300d%u2014%u2014%u5f53%u524d%u4efb%u52a1'',
          ''%u7684 TaskContext %u5730%u5740%uff1ba1 %u662f%u300c%u4ece%u54ea%u91cc%u52a0%u8f7d'',
          ''%u300d%u2014%u2014%u4e0b%u4e00%u4e2a%u4efb%u52a1%u7684 TaskContext '',
          ''%u5730%u5740%u3002%u6309 RISC-V C ABI%uff0c%u524d%u4e24%u4e2a%u6307%u9488%u53c2%u6570%u5206'',
          ''%u522b%u843d%u5728 a0%u3001a1%uff0c%u6c47%u7f16%u91cc%u76f4%u63a5%u7528%u3002''])]\<rparr>\<close>

definition phase2ZhCN_lesson3_section2 :: ContentSection where
  \<open>phase2ZhCN_lesson3_section2 = \<lparr>
    section_title = js ''%u5bc4%u5b58%u5668%u5feb%u7167%uff1abefore / after'',
    section_blocks = [DiagramBlock (jlines [''%u8c03%u7528 __switch(&A.cx, &B.cx) %u4e4b%u524d%uff1a'',
          '''',
          ''  %u250c%u2500%u2500 CPU %r0e2500%u2510    %u250c%u2500%u2500 %u5185%u5b58 A.cx %u2500%u2500%u2510   %u250c%u2500%u2500 %u5185%u5b58 B.cx %u2500%u2500%u2510'',
          ''  %u2502 ra   = return_to_A  %u2502    %u2502 ra   = ???    %u2502   %u2502 ra   = __restore %u2502'',
          ''  %u2502 sp   = A_kstack_top %u2502    %u2502 sp   = ???    %u2502   %u2502 sp   = B_kstack  %u2502'',
          ''  %u2502 s0   = A_s0         %u2502    %u2502 s0   = ???    %u2502   %u2502 s0   = B_s0_old  %u2502'',
          ''  %u2502  ...                %u2502    %u2502  ...          %u2502   %u2502  ...             %u2502'',
          ''  %u2514%r152500%u2518    %u2514%r0f2500%u2518   %u2514%r122500%u2518'',
          '''',
          ''%u6267%u884c 14 %u6b21 sd %u4fdd%u5b58%u5230 A.cx%u300114 %u6b21 ld %u4ece B.cx %u52a0%u8f7d%uff1a'',
          '''',
          ''  %u250c%u2500%u2500 CPU %r0e2500%u2510    %u250c%u2500%u2500 %u5185%u5b58 A.cx %u2500%u2500%u2510   %u250c%u2500%u2500 %u5185%u5b58 B.cx %u2500%u2500%u2510'',
          ''  %u2502 ra   = __restore    %u2502    %u2502 ra = return_to_A %u2502 %u2502 ra   = __restore %u2502'',
          ''  %u2502 sp   = B_kstack     %u2502    %u2502 sp = A_kstack  %u2502  %u2502 sp   = B_kstack  %u2502'',
          ''  %u2502 s0   = B_s0_old     %u2502    %u2502 s0 = A_s0      %u2502  %u2502 s0   = B_s0_old  %u2502'',
          ''  %u2502  ...                %u2502    %u2502  ...           %u2502  %u2502  ...             %u2502'',
          ''  %u2514%r152500%u2518    %u2514%r102500%u2518  %u2514%r122500%u2518'',
          '''',
          ''%u6700%u540e ret = jr ra %u2014%u2014 %u8df3%u5230 __restore%uff0c%u7528 B_kstack %u4f5c%u6808%uff0c%u5f00%u59cb%u8dd1 B%u3002''])]\<rparr>\<close>

definition phase2ZhCN_lesson3_section3 :: ContentSection where
  \<open>phase2ZhCN_lesson3_section3 = \<lparr>
    section_title = js ''switch.S %u5b8c%u6574%u4ee3%u7801'',
    section_blocks = [CodeBlock (Some (js ''asm'')) (jlines [''    .section .text'',
          ''    .globl __switch'',
          ''__switch:'',
          ''    # a0 = &mut current_task_cx'',
          ''    # a1 = &next_task_cx'',
          ''    sd   ra,  0*8(a0)'',
          ''    sd   sp,  1*8(a0)'',
          ''    sd   s0,  2*8(a0)'',
          ''    sd   s1,  3*8(a0)'',
          ''    sd   s2,  4*8(a0)'',
          ''    sd   s3,  5*8(a0)'',
          ''    sd   s4,  6*8(a0)'',
          ''    sd   s5,  7*8(a0)'',
          ''    sd   s6,  8*8(a0)'',
          ''    sd   s7,  9*8(a0)'',
          ''    sd   s8, 10*8(a0)'',
          ''    sd   s9, 11*8(a0)'',
          ''    sd   s10,12*8(a0)'',
          ''    sd   s11,13*8(a0)'',
          '''',
          ''    ld   ra,  0*8(a1)'',
          ''    ld   sp,  1*8(a1)'',
          ''    ld   s0,  2*8(a1)'',
          ''    ld   s1,  3*8(a1)'',
          ''    ld   s2,  4*8(a1)'',
          ''    ld   s3,  5*8(a1)'',
          ''    ld   s4,  6*8(a1)'',
          ''    ld   s5,  7*8(a1)'',
          ''    ld   s6,  8*8(a1)'',
          ''    ld   s7,  9*8(a1)'',
          ''    ld   s8, 10*8(a1)'',
          ''    ld   s9, 11*8(a1)'',
          ''    ld   s10,12*8(a1)'',
          ''    ld   s11,13*8(a1)'',
          '''',
          ''    ret'',
          '''']),
      CalloutBlock Info (jcat [''14 sd + 14 ld + 1 ret = 29 %u6761%u6307%u4ee4%u3002%u6700%u540e%u90a3%u6761 ret = '',
          ''jr ra%u2014%u2014%u4f46 ra %u548c sp %u521a%u521a%u88ab%u6211%u4eec%u6574%u4f53%u6362'',
          ''%u6389%uff0c%u6240%u4ee5%u8fd9%u6761%u300c%u8fd4%u56de%u6307%u4ee4%u300d%u5176%u5b9e'',
          ''%u662f%u8df3%u8fdb%u4e86%u53e6%u4e00%u4e2a%u4efb%u52a1%u7684%u6808%u548c '',
          ''PC%u3002%u6574%u4e2a%u591a%u4efb%u52a1%u7684%u9b54%u6cd5%u5c31%u6d53%u7f29%u5728%u8fd9%u4e00'',
          ''%u6761 ret %u91cc%u3002''])]\<rparr>\<close>

definition phase2ZhCN_lesson3_section4 :: ContentSection where
  \<open>phase2ZhCN_lesson3_section4 = \<lparr>
    section_title = js ''%u4e3a%u4ec0%u4e48%u4e0d%u80fd%u7528 Rust %u5199%uff1f'',
    section_blocks = [ParagraphBlock (jcat [''%u770b%u4f3c%u300c%u6211%u5728 Rust %u91cc%u624b%u52a8%u8bfb%u5199 ra/sp '',
          ''%u4e0d%u5c31%u884c%u4e86%u300d%u2014%u2014%u4e0d%u884c%u3002Rust '',
          ''%u51fd%u6570%u6709%u81ea%u5df1%u7684 prologue/epilogue%uff1a%u7f16%u8bd1%u5668%u4f1a%u5728%u5165%u53e3%u5904'',
          ''%u628a ra %u538b%u6808%u3001%u7533%u8bf7%u6808%u5e27%uff0c%u51fa%u53e3%u5904%u53c8'',
          ''%u6062%u590d%u3002%u4f60%u6ca1%u529e%u6cd5%u7cbe%u786e%u63a7%u5236%u300csd ra '',
          ''%u7684%u90a3%u4e00%u523b ra %u8fd8%u662f%u65e7%u7684%u3001ld sp %u7684%u90a3%u4e00%u523b '',
          ''sp %u8fd8%u6ca1%u53d8%u300d%u2014%u2014%u8fd9%u4e9b%u987a%u5e8f%u4e00%u65e6%u88ab'',
          ''%u7f16%u8bd1%u5668%u6539%u5199%uff0c%u6808%u5c31%u88ab%u6495%u6210%u4e24%u534a%u3002'']),
      CalloutBlock Warning (jcat [''%u6240%u4ee5 __switch %u5fc5%u987b%u6574%u6bb5%u6c47%u7f16%u3001%u4e0d%u8bb8%u6709 '',
          ''Rust %u4ee3%u7801%u6df7%u5165%u3002%u800c%u4e14 naked function%uff08%u53bb%u6389 '',
          ''prologue%uff09%u5728 stable Rust %u91cc%u8fd8%u4e0d%u7a33%u5b9a%u2014%u2014%u4e0d%u5982'',
          ''%u76f4%u63a5 .S %u6587%u4ef6%u7701%u4e8b%u3002''])]\<rparr>\<close>

definition phase2ZhCN_lesson3_section5 :: ContentSection where
  \<open>phase2ZhCN_lesson3_section5 = \<lparr>
    section_title = js ''%u5e38%u89c1%u9519%u8bef'',
    section_blocks = [ListBlock True
        [jcat [''%u504f%u79fb%u5199%u9519%uff1a%u7ed3%u6784%u4f53%u7b2c 0 %u4e2a%u5b57%u6bb5%u662f '',
           ''ra%uff0c%u4f46%u4f60%u4ee5%u4e3a%u7b2c 0 %u4e2a%u662f '',
           ''sp%u2014%u2014%u7ed3%u679c%u5207%u6362%u540e%u5d29%u5728%u7b2c%u4e00%u6761 ld %u4e0a%u3002''],
         jcat [''%u628a sd/ld %u7684 a0/a1 %u641e%u53cd%uff1a%u5199%u8fdb%u4e86 next%u3001%u4ece '',
           ''current %u8bfb%u2014%u2014%u76f8%u5f53%u4e8e%u628a%u5f53%u524d%u4efb%u52a1%u7684%u73b0'',
           ''%u573a%u8986%u76d6%u6389%u4e0b%u4e00%u4e2a%u7684%u3002''],
         jcat [''%u6f0f%u4fdd%u5b58 ra%uff1a%u4e0b%u4e00%u6b21%u5207%u56de%u6765%u65f6%u627e%u4e0d'',
           ''%u5230%u8fd4%u56de%u5730%u5740%uff0c%u8df3%u8fdb%u7a7a%u6307%u9488%u3002''],
         jcat [''%u591a%u5b58%u4e86 caller-saved%uff08t0-t6%uff09%uff1a%u4e0d%u4ec5%u6d6a%u8d39%u6808'',
           ''%u7a7a%u95f4%uff0c%u8fd8%u5bb9%u6613%u6f0f%u6389%u5176%u4e2d%u4e00%u4e2a%uff0c%u5f62'',
           ''%u6210%u95f4%u6b47%u6027%u6570%u636e%u7ade%u4e89%u2014%u2014%u975e%u5e38%u96be%u8c03'',
           ''%u8bd5%u3002''],
         jcat [''%u5fd8%u8bb0 ret%uff1a__switch %u8d70%u5b8c%u540e%u76f4%u63a5%u6389%u8fdb%u4e0b'',
           ''%u4e00%u4e2a%u51fd%u6570%u7684%u5f00%u5934%u2014%u2014%u75c7%u72b6%u901a%u5e38%u662f'',
           ''%u300c%u83ab%u540d%u5176%u5999%u6267%u884c%u5230%u67d0%u4e2a%u65e0%u5173%u7b26%u53f7'',
           ''%u300d%u3002'']]]\<rparr>\<close>

definition phase2ZhCN_lesson3_exercise1 :: CodeExercise where
  \<open>phase2ZhCN_lesson3_exercise1 = \<lparr>
    exercise_id = js ''lab1-switch'',
    exercise_title = js ''Lab 1c %u2b50%u2b50 switch.S'',
    exercise_description = jcat [''%u5728 task/switch.S %u5199%u51fa 29 %u6761%u6307%u4ee4%u3002%u914d%u5408 Lab 1b '',
        ''%u7684 goto_restore%uff0c%u7b2c%u4e00%u6b21 __switch '',
        ''%u5e94%u8be5%u80fd%u628a%u63a7%u5236%u6743%u9001%u5230 __restore%u3002''],
    exercise_labFile = Some (js ''labs/phase_2_proc/src/task/switch.S''),
    exercise_hints = [js ''%u7ed3%u6784%u4f53%u504f%u79fb%uff1ara=0, sp=8, s0=16, s1=24, ..., s11=104'',
       js ''sd/ld %u7684%u7acb%u5373%u6570%u5fc5%u987b%u662f 8 %u7684%u500d%u6570'',
       js ''.globl __switch %u522b%u5fd8'',
       js ''gdb %u91cc b __switch%u3001stepi %u89c2%u5bdf%u6bcf%u6761%u6307%u4ee4''],
    exercise_pseudocode = Some (jlines [''.section .text'',
          ''.globl __switch'',
          ''__switch:'',
          ''    # save current (a0)'',
          ''    sd ra,  0*8(a0)'',
          ''    sd sp,  1*8(a0)'',
          ''    .set n, 0'',
          ''    .rept 12'',
          ''        sd s%5cn, (2+n)*8(a0)'',
          ''        .set n, n+1'',
          ''    .endr'',
          ''    # load next (a1)'',
          ''    ld ra,  0*8(a1)'',
          ''    ld sp,  1*8(a1)'',
          ''    ...'',
          ''    ret''])\<rparr>\<close>

definition phase2ZhCN_lesson3 :: Lesson where
  \<open>phase2ZhCN_lesson3 = \<lparr>
    lesson_phaseId = 2, lesson_lessonId = 3,
    lesson_title = js ''__switch%uff1a29 %u6761%u6307%u4ee4%u7684%u9b54%u6cd5'',
    lesson_subtitle = js ''sd / ld / ret%u2014%u2014%u591a%u4efb%u52a1%u7684%u5fc3%u810f'',
    lesson_type = js ''Practice'',
    lesson_duration = js ''2 hours'',
    lesson_objectives = [js ''%u80fd%u9010%u884c%u5199%u51fa switch.S %u7684%u5168%u90e8 29 %u6761%u6307%u4ee4'',
       jcat [''%u7406%u89e3%u300c%u4e3a%u4ec0%u4e48%u6700%u540e%u4e00%u6761 ret '',
         ''%u80fd%u8df3%u53bb%u53e6%u4e00%u4e2a%u4efb%u52a1%u300d''],
       js ''%u77e5%u9053%u4e3a%u4ec0%u4e48%u5fc5%u987b%u7528%u6c47%u7f16%u800c%u4e0d%u80fd%u5199 Rust'',
       jcat [''%u4f1a%u7528 gdb %u5728 __switch %u524d%u540e%u6253%u65ad%u70b9%u89c2%u5bdf ra/sp '',
         ''%u53d8%u5316'']],
    lesson_sections = [phase2ZhCN_lesson3_section1,
      phase2ZhCN_lesson3_section2,
      phase2ZhCN_lesson3_section3,
      phase2ZhCN_lesson3_section4,
      phase2ZhCN_lesson3_section5],
    lesson_exercises = [phase2ZhCN_lesson3_exercise1],
    lesson_acceptanceCriteria = [jcat [''gdb %u5728 __switch %u5355%u6b65%u80fd%u770b%u5230 ra/sp %u5148%u5199%u5165 a0 '',
         ''%u6307%u5411%u7684%u5185%u5b58%u3001%u518d%u4ece a1 %u52a0%u8f7d''],
       jcat [''ret %u4e4b%u540e PC %u8df3%u5230 __restore%uff08%u6216%u4e0a%u4e00%u6b21%u6682%u505c'',
         ''%u5904%uff09''],
       js ''%u5b8c%u6210 Lab 1 %u540e make qemu %u81f3%u5c11%u80fd%u8dd1%u8d77%u7b2c%u4e00%u4e2a app''],
    lesson_references = [\<lparr>reference_title = js ''rCore-Tutorial %u00a73.2.2'',
       reference_description = js ''[%u5fc5%u8bfb] __switch %u7684%u4e2d%u6587%u9010%u884c%u8bb2%u89e3'',
       reference_url = js ''https://rcore-os.cn/rCore-Tutorial-Book-v3/chapter3/2task-switching.html''\<rparr>,
      \<lparr>reference_title = js ''xv6-riscv kernel/swtch.S'',
       reference_description = js ''[%u5fc5%u8bfb] C %u7248%u7684 swtch%u2014%u2014%u7ed3%u6784%u51e0%u4e4e%u4e00%u6837'',
       reference_url = js ''https://github.com/mit-pdos/xv6-riscv/blob/riscv/kernel/swtch.S''\<rparr>,
      \<lparr>reference_title = js ''RISC-V Unprivileged ISA'',
       reference_description = js ''[%u6df1%u5165%u9605%u8bfb] sd/ld/jalr/ret %u7684%u5f62%u5f0f%u5316%u8bed%u4e49'',
       reference_url = js ''https://riscv.org/technical/specifications/''\<rparr>]\<rparr>\<close>

section \<open>Lesson 4\<close>

definition phase2ZhCN_lesson4_section1 :: ContentSection where
  \<open>phase2ZhCN_lesson4_section1 = \<lparr>
    section_title = js ''TaskManager %u7684%u9aa8%u67b6'',
    section_blocks = [CodeBlock (Some (js ''rust'')) (jlines [''pub struct TaskManager {'',
          ''    num_app: usize,'',
          ''    inner: UPSafeCell<TaskManagerInner>,'',
          ''}'',
          '''',
          ''pub struct TaskManagerInner {'',
          ''    tasks: [TaskControlBlock; MAX_APP_NUM],'',
          ''    current_task: usize,'',
          ''}'',
          '''',
          ''lazy_static! {'',
          ''    pub static ref TASK_MANAGER: TaskManager = {'',
          ''        let num_app = loader::get_num_app();'',
          ''        let mut tasks = [TCB { task_cx: TaskContext::zero_init(),'',
          ''                               task_status: TaskStatus::UnInit };'',
          ''                         MAX_APP_NUM];'',
          ''        for i in 0..num_app {'',
          ''            tasks[i].task_cx = TaskContext::goto_restore(loader::init_app_cx(i));'',
          ''            tasks[i].task_status = TaskStatus::Ready;'',
          ''        }'',
          ''        TaskManager { num_app, inner: UPSafeCell::new(TaskManagerInner {'',
          ''            tasks, current_task: 0,'',
          ''        })}'',
          ''    };'',
          ''}'']),
      ParagraphBlock (jcat [''UPSafeCell %u662f Phase 1 %u6211%u4eec%u5199%u7684%u5355%u6838%u300c%u5047%u4e92'',
          ''%u65a5%u300d%u2014%u2014%u5185%u90e8%u662f RefCell%uff0c%u501f%u51fa%u65f6 panic '',
          ''%u800c%u4e0d%u662f%u963b%u585e%u3002%u5230 Phase 3 '',
          ''%u624d%u4f1a%u6362%u6210%u771f%u6b63%u7684 SpinLock%u3002''])]\<rparr>\<close>

definition phase2ZhCN_lesson4_section2 :: ContentSection where
  \<open>phase2ZhCN_lesson4_section2 = \<lparr>
    section_title = js ''%u4e09%u4e2a%u6838%u5fc3%u65b9%u6cd5'',
    section_blocks = [CodeBlock (Some (js ''rust'')) (jlines [''impl TaskManager {'',
          ''    // %u6c38%u4e0d%u8fd4%u56de%u2014%u2014%u88ab rust_main %u6700%u540e%u8c03%u7528%uff0c%u5f00%u542f%u591a%u4efb%u52a1%u4e16%u754c'',
          ''    fn run_first_task(&self) -> ! {'',
          ''        let mut inner = self.inner.exclusive_access();'',
          ''        let task0 = &mut inner.tasks[0];'',
          ''        task0.task_status = TaskStatus::Running;'',
          ''        let next_cx_ptr = &task0.task_cx as *const TaskContext;'',
          ''        drop(inner);                              // %u2605 %u5207%u6362%u524d%u5fc5%u987b%u91ca%u653e'',
          ''        let mut unused = TaskContext::zero_init();'',
          ''        unsafe { __switch(&mut unused, next_cx_ptr); }'',
          ''        unreachable!("after __switch to first task")'',
          ''    }'',
          '''',
          ''    // Round-robin %u626b%u63cf'',
          ''    fn find_next_task(&self) -> Option<usize> {'',
          ''        let inner = self.inner.exclusive_access();'',
          ''        let cur = inner.current_task;'',
          ''        (cur + 1 .. cur + self.num_app + 1)'',
          ''            .map(|i| i %25 self.num_app)'',
          ''            .find(|&i| inner.tasks[i].task_status == TaskStatus::Ready)'',
          ''    }'',
          '''',
          ''    // suspend / yield / timer %u90fd%u8d70%u5b83'',
          ''    fn run_next_task(&self) {'',
          ''        if let Some(next) = self.find_next_task() {'',
          ''            let mut inner = self.inner.exclusive_access();'',
          ''            let cur = inner.current_task;'',
          ''            inner.tasks[next].task_status = TaskStatus::Running;'',
          ''            inner.current_task = next;'',
          ''            let cur_cx_ptr  = &mut inner.tasks[cur].task_cx  as *mut  TaskContext;'',
          ''            let next_cx_ptr = &    inner.tasks[next].task_cx as *const TaskContext;'',
          ''            drop(inner);                          // %u2605 %u540c%u6837%u8981%u91ca%u653e'',
          ''            unsafe { __switch(cur_cx_ptr, next_cx_ptr); }'',
          ''        } else {'',
          ''            println!("[kernel] All apps finished!");'',
          ''            shutdown(false);'',
          ''        }'',
          ''    }'',
          ''}''])]\<rparr>\<close>

definition phase2ZhCN_lesson4_section3 :: ContentSection where
  \<open>phase2ZhCN_lesson4_section3 = \<lparr>
    section_title = js ''Round-Robin %u7684%u72b6%u6001%u6d41%u8f6c'',
    section_blocks = [DiagramBlock (jlines [''%u65f6%u95f4 %r372500%u25ba'',
          ''%u4efb%u52a1 A  R R R -  -   -  R R  -    -    -     (yield)'',
          ''%u4efb%u52a1 B  -  - R R  -  -    R R  -  -    -     (yield)'',
          ''%u4efb%u52a1 C  -  - -  - R R  -   -  R R  -          (timer)'',
          '''',
          ''        %u2191   %u2191    %u2191   %u2191    %u2191   %u2191   %u2191   %u2191   %u2191'',
          ''        %u2502   %u2502    %u2502   %u2502    %u2502   %u2502   %u2502   %u2502   %u2514%u2500 C exit'',
          ''        %u2502   %u2502    %u2502   %u2502    %u2502   %u2502   %u2502   %u2514%r032500 C preempted'',
          ''        %u2502   %u2502    %u2502   %u2502    %u2502   %u2502   %u2514%r032500 B yield'',
          ''        %u2502   %u2502    %u2502   %u2502    %u2502   %u2514%r032500 A yield'',
          ''        %u2502   %u2502    %u2502   %u2502    %u2514%r032500 B yield'',
          ''        %u2502   %u2502    %u2502   %u2514%r032500 A yield'',
          ''        %u2502   %u2502    %u2514%r032500 C preempted'',
          ''        %u2502   %u2514%r032500 B yield'',
          ''        %u2514%r032500 A yield  (cooperative)'']),
      ParagraphBlock (jcat [''run_first_task %u542f%u52a8 A%uff1bA %u7684 sys_yield %u89e6%u53d1 run_next_task '',
          ''%u2192 find_next_task %u8fd4%u56de B %u2192 __switch %u5230 '',
          ''B%uff1b%u4f9d%u6b21%u7c7b%u63a8%u3002Lab 3 %u7684%u65f6%u949f%u4e2d%u65ad%u628a%u540c%u6837%u7684 '',
          ''run_next_task %u65e0%u6761%u4ef6%u585e%u8fdb%u6765%u2014%u2014%u4efb%u52a1%u611f%u89c9'',
          ''%u4e0d%u5230%u533a%u522b%u3002''])]\<rparr>\<close>

definition phase2ZhCN_lesson4_section4 :: ContentSection where
  \<open>phase2ZhCN_lesson4_section4 = \<lparr>
    section_title = js ''%u6700%u5bb9%u6613%u72af%u7684%u9519%uff1a%u6301%u9501 __switch'',
    section_blocks = [CalloutBlock Warning (jcat [''%u7edd%u5bf9%u4e0d%u80fd%u5728 __switch %u4e4b%u524d%u5fd8%u8bb0 '',
          ''drop(inner)%u3002%u60f3%u8c61 A %u6301%u7740 TaskManagerInner %u7684 RefMut %u5207%u5230 B%uff1bB '',
          ''%u7a0d%u540e%u4e5f%u8981 sys_yield%u2192run_next_task%u2192exclusive_access()%u2014'',
          ''%u2014%u5b83%u4f1a%u5728 UPSafeCell %u4e0a panic%uff08%u5355%u6838%uff09%u6216%u6b7b'',
          ''%u9501%uff08%u771f%u6b63%u7684 SpinLock%uff0cPhase 3 %u4f1a%u9047%u5230%uff09%u3002'']),
      CodeBlock (Some (js ''rust'')) (jlines [''// %u2718 %u9519%u8bef%u793a%u8303'',
          ''let mut inner = self.inner.exclusive_access();'',
          ''...'',
          ''unsafe { __switch(cur_cx_ptr, next_cx_ptr); }  // %u9501%u8fd8%u5728%uff01'',
          ''// B %u7684 run_next_task() %u4e00%u8fdb%u6765%u5c31 RefCell already borrowed''])]\<rparr>\<close>

definition phase2ZhCN_lesson4_section5 :: ContentSection where
  \<open>phase2ZhCN_lesson4_section5 = \<lparr>
    section_title = js ''%u5e38%u89c1%u9519%u8bef'',
    section_blocks = [ListBlock True
        [jcat [''%u5fd8%u8bb0 drop(inner)%uff1a%u4e0b%u4e00%u4e2a%u4efb%u52a1 yield %u65f6 borrow '',
           ''%u51b2%u7a81%u3002''],
         jcat [''current/next %u6307%u9488%u65b9%u5411%u5199%u53cd%uff1acurrent %u662f '',
           ''*mut%uff08%u5199%u5165%u73b0%u573a%uff09%uff0cnext %u662f *const%uff08%u8bfb%u53d6%uff09%u3002''],
         jcat [''run_first_task %u4e0d%u662f -> !%uff1arustc %u4f1a%u5f3a%u5236%u4f60%u5728 __switch '',
           ''%u540e return %u67d0%u4e2a%u503c%uff0c%u4ee3%u7801%u770b%u7740%u522b%u626d%uff0c'',
           ''%u8bf4%u660e%u7b7e%u540d%u5c31%u9519%u4e86%u3002''],
         jcat [''%u628a Exited %u4efb%u52a1%u9519%u6807%u6210 Ready%uff1afind_next_task '',
           ''%u4f1a%u6c38%u8fdc%u5207%u56de%u4e00%u4e2a%u5df2%u6b7b%u7684%u4efb%u52a1%u3002sys_exit '',
           ''%u91cc%u5fc5%u987b task_status = Exited%u3002''],
         jcat [''MAX_APP_NUM %u786c%u7f16%u7801%u6bd4%u5b9e%u9645 num_app %u5c0f%uff1aloader '',
           ''%u4f1a%u6084%u6084%u622a%u65ad%u2014%u2014grade.py '',
           ''%u4f1a%u53d1%u73b0%u4f60%u5c11%u8dd1%u4e86%u4e00%u4e2a app%u3002'']]]\<rparr>\<close>

definition phase2ZhCN_lesson4_exercise1 :: CodeExercise where
  \<open>phase2ZhCN_lesson4_exercise1 = \<lparr>
    exercise_id = js ''lab2-manager'',
    exercise_title = js ''Lab 2 %r032b50 TaskManager'',
    exercise_description = jcat [''%u5728 task/mod.rs %u5b9e%u73b0 run_first_task / find_next_task / run_next_task '',
        ''%u4ee5%u53ca%u5bf9%u5916%u66b4%u9732%u7684 suspend_current_and_run_next / '',
        ''exit_current_and_run_next%u3002''],
    exercise_labFile = Some (js ''labs/phase_2_proc/src/task/mod.rs''),
    exercise_hints = [js ''%u6240%u6709 __switch %u8c03%u7528%u524d%u90fd%u8981 drop inner'',
       jcat [''find_next_task %u7528 (cur+1..cur+num_app+1).map(|i| i%25num_app) '',
         ''%u53ef%u907f%u514d%u6a21%u7cca%u7684 for''],
       jcat [''suspend_current_and_run_next%uff1aRunning %u2192 Ready%uff1bexit%uff1aRunning '',
         ''%u2192 Exited''],
       jcat [''run_first_task %u7684 unused %u53d8%u91cf%u5c31%u662f%u8c03%u5ea6%u5668%u672c%u8eab'',
         ''%u7684%u4f2a TaskContext%u2014%u2014%u5207%u51fa%u53bb%u4e4b%u540e%u518d%u4e5f%u4e0d'',
         ''%u7528%u5207%u56de%u6765'']],
    exercise_pseudocode = Some (jlines [''pub fn suspend_current_and_run_next() {'',
          ''    TASK_MANAGER.mark_current_suspended();'',
          ''    TASK_MANAGER.run_next_task();'',
          ''}'',
          ''pub fn exit_current_and_run_next() {'',
          ''    TASK_MANAGER.mark_current_exited();'',
          ''    TASK_MANAGER.run_next_task();'',
          ''}''])\<rparr>\<close>

definition phase2ZhCN_lesson4 :: Lesson where
  \<open>phase2ZhCN_lesson4 = \<lparr>
    lesson_phaseId = 2, lesson_lessonId = 4,
    lesson_title = js ''Round-Robin %u8c03%u5ea6%u5668'',
    lesson_subtitle = js ''run_first_task / find_next_task / run_next_task'',
    lesson_type = js ''Practice'',
    lesson_duration = js ''2 hours'',
    lesson_objectives = [js ''%u5b9e%u73b0 TaskManager %u7684%u4e09%u4e2a%u5173%u952e%u65b9%u6cd5'',
       jcat [''%u7406%u89e3%u300c%u6301%u9501%u8c03%u7528 __switch%u300d%u4e3a%u4ec0%u4e48%u4f1a'',
         ''%u6b7b%u9501''],
       jcat [''%u638c%u63e1 cooperative %u8c03%u5ea6%uff08sys_yield / '',
         ''sys_exit%uff09%u7684%u63a7%u5236%u6d41''],
       js ''%u80fd%u5728 gdb %u91cc%u89c2%u5bdf%u4efb%u52a1%u7684 A/B/C %u4ea4%u66ff%u8f93%u51fa''],
    lesson_sections = [phase2ZhCN_lesson4_section1,
      phase2ZhCN_lesson4_section2,
      phase2ZhCN_lesson4_section3,
      phase2ZhCN_lesson4_section4,
      phase2ZhCN_lesson4_section5],
    lesson_exercises = [phase2ZhCN_lesson4_exercise1],
    lesson_acceptanceCriteria = [jcat [''make qemu %u80fd%u770b%u5230 A/B %u4ea4%u66ff%u8f93%u51fa%uff0ccooperative yield '',
         ''%u8dd1%u901a''],
       jcat [''%u6240%u6709 app %u9000%u51fa%u540e%u5185%u6838%u6253%u5370 All apps finished! '',
         ''%u5e76 shutdown''],
       jcat [''gdb %u5728 __switch %u524d%u770b%u5230 inner %u5df2%u7ecf%u88ab '',
         ''drop%uff08%u501f%u7528%u8ba1%u6570%u5f52%u96f6%uff09'']],
    lesson_references = [\<lparr>reference_title = js ''OSTEP Ch.7 Scheduling: Introduction'',
       reference_description = js ''[%u5fc5%u8bfb] Round-robin %u4e0e SJF/STCF %u7684%u5bf9%u6bd4'',
       reference_url = js ''https://pages.cs.wisc.edu/~remzi/OSTEP/cpu-sched.pdf''\<rparr>,
      \<lparr>reference_title = js ''xv6-riscv book Ch.7 %u00a77.3'',
       reference_description = js ''[%u5fc5%u8bfb] C %u7248 scheduler() %u7684%u7ed3%u6784'',
       reference_url = js ''https://pdos.csail.mit.edu/6.828/2023/xv6/book-riscv-rev3.pdf''\<rparr>,
      \<lparr>reference_title = js ''rCore-Tutorial %u00a73.3'',
       reference_description = js ''[%u6df1%u5165%u9605%u8bfb] %u7ba1%u7406%u591a%u9053%u7a0b%u5e8f%u7684 TaskManager'',
       reference_url = js ''https://rcore-os.cn/rCore-Tutorial-Book-v3/chapter3/3multiprogramming.html''\<rparr>]\<rparr>\<close>

section \<open>Lesson 5\<close>

definition phase2ZhCN_lesson5_section1 :: ContentSection where
  \<open>phase2ZhCN_lesson5_section1 = \<lparr>
    section_title = js ''%u786c%u4ef6%u8ba1%u65f6%u4e09%u4ef6%u5957'',
    section_blocks = [DiagramBlock (jlines [''Machine mode (OpenSBI %u56fa%u4ef6, %u6211%u4eec%u770b%u4e0d%u89c1)'',
          ''  %u250c%r2d2500%u2510'',
          ''  %u2502 mtime      %u2014 64 %u4f4d%u81ea%u7531%u8fd0%u884c%u8ba1%u6570%u5668%uff08MMIO%uff09     %u2502'',
          ''  %u2502 mtimecmp   %u2014 %u6bcf hart %u4e00%u4e2a%u7684%u6bd4%u8f83%u9608%u503c%uff08MMIO%uff09  %u2502'',
          ''  %u2502 if mtime >= mtimecmp:                        %u2502'',
          ''  %u2502     %u89e6%u53d1 M-mode timer interrupt              %u2502'',
          ''  %u2502     SBI %u628a%u5b83%u8f6c%u6210 S-mode %u7684 SupervisorTimer   %u2502'',
          ''  %u2514%r2d2500%u2518'',
          ''                       %u2502'',
          ''                       %u2502 ecall from S (opcode 0x00, fid 0)'',
          ''                       %u25b2'',
          ''Supervisor mode (%u6211%u4eec%u7684%u5185%u6838)'',
          ''  %u250c%r2d2500%u2510'',
          ''  %u2502 sbi::set_timer(deadline) %u2500%u2500%u25ba %u8bbe mtimecmp     %u2502'',
          ''  %u2502 trap_handler %u7684 SupervisorTimer %u5206%u652f%uff1a       %u2502'',
          ''  %u2502   1) set_next_trigger()  %u91cd%u65b0%u6b66%u88c5%u5b9a%u65f6%u5668      %u2502'',
          ''  %u2502   2) suspend_current_and_run_next()  %u5207%u4efb%u52a1 %u2502'',
          ''  %u2514%r2d2500%u2518'']),
      ParagraphBlock (jcat [''mtime %u548c mtimecmp %u90fd%u662f M-mode %u624d%u80fd%u76f4%u63a5%u8bfb%u5199%u7684'',
          '' MMIO%u2014%u2014%u6211%u4eec%u5728 S-mode %u5fc5%u987b%u901a%u8fc7 SBI '',
          ''%u8d70%u4e00%u906d%u3002OpenSBI %u63d0%u4f9b%u4e86%u6807%u51c6%u7684 sbi_set_timer(stime_value) '',
          ''%u8c03%u7528%uff0c%u5e95%u5c42%u5c31%u662f%u5e2e%u6211%u4eec%u6539 mtimecmp '',
          ''%u5e76%u6e05 mip.STIP%u3002''])]\<rparr>\<close>

definition phase2ZhCN_lesson5_section2 :: ContentSection where
  \<open>phase2ZhCN_lesson5_section2 = \<lparr>
    section_title = js ''%u4e09%u4e2a%u4f7f%u80fd%u4f4d'',
    section_blocks = [TableBlock [js ''%u4f4d'',
         js ''%u5728%u54ea%u91cc'',
         js ''%u4f5c%u7528'',
         js ''%u8bbe%u7f6e%u65f6%u673a'']
        [[js ''sie.STIE (bit 5)'',
          js ''sie CSR'',
          js ''%u5141%u8bb8 S-mode %u65f6%u949f%u4e2d%u65ad%u9012%u9001%u5230 CPU'',
          js ''%u5185%u6838%u542f%u52a8 trap::enable_timer_interrupt() %u65f6%u4e00%u6b21''],
         [js ''sstatus.SIE (bit 1)'',
          js ''sstatus CSR'',
          jcat [''S-mode %u5168%u5c40%u4e2d%u65ad%u4f7f%u80fd%uff080 %u5219%u6240%u6709 S '',
            ''%u4e2d%u65ad%u90fd%u5c4f%u853d%uff09''],
          js ''%u8fd4%u56de U-mode %u65f6%u901a%u8fc7 SPIE%u21901 %u95f4%u63a5%u6253%u5f00''],
         [js ''sstatus.SPIE (bit 5)'',
          js ''sstatus CSR'',
          js ''sret %u65f6%u4f1a%u88ab%u62f7%u56de SIE%u2014%u2014%u6784%u9020 TrapContext %u65f6%u7f6e 1'',
          js ''app_init_context() %u65f6''],
         [js ''sie.SEIE / SSIE'',
          js ''sie CSR'',
          js ''S-mode %u5916%u90e8 / %u8f6f%u4ef6%u4e2d%u65ad%u2014%u2014Phase 2 %u5148%u4e0d%u78b0'',
          js ''%u7559%u5f85%u540e%u7eed phase'']],
      CodeBlock (Some (js ''rust'')) (jlines [''pub fn enable_timer_interrupt() {'',
          ''    unsafe { sie::set_stimer(); }    // %u7f6e sie.STIE=1'',
          ''}'',
          '''',
          ''// %u5728 app_init_context %u91cc%uff1a'',
          ''let mut sstatus = sstatus::read();'',
          ''sstatus.set_spp(SPP::User);'',
          ''sstatus.set_spie(true);              // %u2190 Phase 2 %u65b0%u589e%u7684%u4e00%u884c'',
          ''                                     //   sret %u65f6 SIE %u4f1a%u88ab%u62f7%u6210 1'']),
      CalloutBlock Warning (jcat [''%u8fd9%u4e09%u4e2a%u4f4d%u7684%u5173%u7cfb%u7ecf%u5e38%u8ba9%u4eba%u8e29%u5751%uff1a'',
          ''stie %u662f%u300c%u5141%u4e0d%u5141%u8bb8%u8fd9%u4e00%u8def%u4e2d%u65ad%u300d%uff0cs'',
          ''ie %u662f%u300cS-mode %u613f%u4e0d%u613f%u610f%u88ab%u6253%u65ad%u300d%u3002%u4e24'',
          ''%u4e2a%u90fd%u5f97%u662f 1%uff0c%u4e2d%u65ad%u624d%u771f%u6b63%u5230%u8fbe%u3002sepc'',
          '' %u91cc%u6709 pending %u4f46 sie=0 %u2014%u2014 '',
          ''%u4e2d%u65ad%u4f1a%u4e00%u76f4%u60ac%u5728 mip %u91cc%u7b49%u5230 sret %u89e6%u53d1 SPIE%u2190SIE '',
          ''%u540e%u624d%u9001%u8fbe%u3002''])]\<rparr>\<close>

definition phase2ZhCN_lesson5_section3 :: ContentSection where
  \<open>phase2ZhCN_lesson5_section3 = \<lparr>
    section_title = js ''timer.rs %u7684%u4e24%u4e2a%u51fd%u6570'',
    section_blocks = [CodeBlock (Some (js ''rust'')) (jlines [''use riscv::register::time;'',
          ''use crate::sbi::set_timer;'',
          ''use crate::config::CLOCK_FREQ;'',
          '''',
          ''pub const TICKS_PER_SEC: usize = 100;     // 10 ms %u4e00%u7247'',
          '''',
          ''pub fn get_time() -> usize { time::read() }'',
          '''',
          ''pub fn set_next_trigger() {'',
          ''    let next = get_time() + CLOCK_FREQ / TICKS_PER_SEC;'',
          ''    set_timer(next as u64);               // %u544a%u8bc9 SBI %u4e0b%u4e00%u6b21%u9608%u503c'',
          ''}'']),
      ParagraphBlock (jcat [''set_timer %u4f20%u7684%u662f%u7edd%u5bf9 mtime '',
          ''%u503c%uff08deadline%uff09%uff0c%u4e0d%u662f%u95f4%u9694%u3002%u8fd9%u662f%u6700%u5bb9%u6613%u5199%u9519%u7684%u5730'',
          ''%u65b9%u2014%u2014%u5199%u6210 set_timer(CLOCK_FREQ/TICKS_PER_SEC) '',
          ''%u53ea%u4f1a%u5f97%u5230%u300c%u5f00%u673a 10 ms '',
          ''%u540e%u4e2d%u65ad%u4e00%u6b21%u300d%uff0c%u7136%u540e%u5c31%u6c38%u8fdc%u4e0d%u518d%u89e6%u53d1%u3002''])]\<rparr>\<close>

definition phase2ZhCN_lesson5_section4 :: ContentSection where
  \<open>phase2ZhCN_lesson5_section4 = \<lparr>
    section_title = js ''trap_handler %u91cc%u65b0%u589e%u7684%u5206%u652f'',
    section_blocks = [CodeBlock (Some (js ''rust'')) (jlines [''#[no_mangle]'',
          ''pub fn trap_handler(cx: &mut TrapContext) -> &mut TrapContext {'',
          ''    let scause = scause::read();'',
          ''    let stval  = stval::read();'',
          ''    match scause.cause() {'',
          ''        Trap::Exception(Exception::UserEnvCall) => {'',
          ''            cx.sepc += 4;'',
          ''            cx.x[10] = syscall(cx.x[17], [cx.x[10], cx.x[11], cx.x[12]]) as usize;'',
          ''        }'',
          ''        Trap::Interrupt(Interrupt::SupervisorTimer) => {  // %u2605 %u65b0%u589e'',
          ''            crate::timer::set_next_trigger();             //   1) %u91cd%u65b0%u6b66%u88c5'',
          ''            crate::task::suspend_current_and_run_next();  //   2) %u5207%u4efb%u52a1'',
          ''        }'',
          ''        _ => panic!("unsupported trap {:?}, stval={:#x}", scause.cause(), stval),'',
          ''    }'',
          ''    cx'',
          ''}'']),
      CalloutBlock Info (jcat [''%u6ce8%u610f set_next_trigger %u5fc5%u987b%u5148%u8c03%u2014%u2014%u5982%u679c%u5148'',
          ''%u5207%u4efb%u52a1%u518d%u91cd%u65b0%u6b66%u88c5%uff0c%u5207%u8fc7%u53bb%u7684%u4efb'',
          ''%u52a1%u53ef%u80fd%u518d%u4e5f%u4e0d%u4f1a%u88ab '',
          ''preempt%uff08%u56e0%u4e3a%u65b0%u4efb%u52a1%u4e5f%u8bb8%u6c38%u8fdc%u4e0d%u518d%u89e6%u53d1 trap%uff0ctimer '',
          ''%u5c31%u6c38%u8fdc%u6ca1%u673a%u4f1a re-arm%uff09%u3002''])]\<rparr>\<close>

definition phase2ZhCN_lesson5_section5 :: ContentSection where
  \<open>phase2ZhCN_lesson5_section5 = \<lparr>
    section_title = js ''cooperative vs preemptive %u5bf9%u6bd4'',
    section_blocks = [TableBlock [js ''%u7ef4%u5ea6'',
         js ''Cooperative%uff08Lab 2%uff09'',
         js ''Preemptive%uff08Lab 3%uff09'']
        [[js ''%u89e6%u53d1%u6e90'',
          js ''%u7528%u6237%u4e3b%u52a8 sys_yield / sys_exit'',
          js ''%u786c%u4ef6%u65f6%u949f%u4e2d%u65ad%uff08%u6bcf 10 ms%uff09''],
         [js ''app %u80fd%u4e0d%u80fd%u8d56%u7740%u4e0d%u8d70'',
          js ''%u80fd%u2014%u2014%u6b7b%u5faa%u73af%u7684 app %u4f1a%u997f%u6b7b%u522b%u4eba'',
          js ''%u4e0d%u80fd%u2014%u2014%u5b9a%u65f6%u88ab%u62d6%u8d70''],
         [js ''%u6240%u9700%u5185%u6838%u6539%u52a8'',
          js ''TaskManager + syscall %u5206%u53d1'',
          js ''+ timer.rs + trap SupervisorTimer %u5206%u652f + sie/sstatus %u914d%u7f6e''],
         [js ''%u73b0%u5b9e%u4e16%u754c%u91cc%u8c01%u5728%u7528'',
          js ''Windows 3.x / %u65e9%u671f Mac OS'',
          js ''%u6240%u6709%u73b0%u4ee3%u5185%u6838%uff08Linux/Windows NT/xv6%uff09''],
         [js ''%u516c%u5e73%u6027'',
          js ''%u5b8c%u5168%u4f9d%u8d56%u5e94%u7528%u81ea%u89c9'',
          js ''%u6700%u5dee%u60c5%u51b5%u4e5f%u53ea%u5dee%u4e00%u4e2a%u65f6%u95f4%u7247''],
         [js ''%u5b9e%u65f6%u6027'',
          js ''%u4e0d%u53ef%u63a7'',
          js ''%u4e0a%u754c = %u4e00%u4e2a%u65f6%u95f4%u7247'']]]\<rparr>\<close>

definition phase2ZhCN_lesson5_section6 :: ContentSection where
  \<open>phase2ZhCN_lesson5_section6 = \<lparr>
    section_title = js ''%u5e38%u89c1%u9519%u8bef'',
    section_blocks = [ListBlock True
        [jcat [''%u628a set_timer %u5f53%u6210%u300cfire in %u0394t%u300d%uff1a%u4f20%u6210%u4e86'',
           ''%u95f4%u9694%u800c%u4e0d%u662f%u7edd%u5bf9 deadline%u2014%u2014%u53ea%u4f1a%u89e6'',
           ''%u53d1%u4e00%u6b21%u3002''],
         jcat [''%u5fd8%u8bb0%u5728 ISR %u91cc%u91cd%u65b0%u6b66%u88c5%uff1a%u7b2c%u4e00%u6b21 '',
           ''preempt %u4e4b%u540e mtime %u53c8%u722c%u8fc7 '',
           ''mtimecmp%uff0c%u4f46%u6211%u4eec%u6ca1%u66f4%u65b0%u5b83%u2014%u2014%u540e%u7eed%u4efb%u52a1%u518d%u4e5f%u4e0d%u88ab%u6253%u65ad'',
           ''%u3002''],
         jcat [''%u5f00%u4e86 sie.STIE %u4f46 TrapContext %u91cc%u6ca1%u7f6e SPIE=1%uff1asret '',
           ''%u56de%u7528%u6237%u6001%u540e SIE %u8fd8%u662f '',
           ''0%uff0c%u4e2d%u65ad%u60ac%u6302%u4f46%u6c38%u4e0d%u5230%u8fbe%u3002''],
         jcat [''SupervisorTimer %u5206%u652f%u91cc%u6f0f%u6389 set_next_trigger%uff0c%u76f4%u63a5 '',
           ''suspend%u2014%u2014%u540c%u6837%u53ea%u6709%u4e00%u6b21 preempt%u3002''],
         jcat [''%u628a set_timer %u4f20%u6210 i64 %u800c%u975e u64%uff1a%u8d1f%u6570 deadline '',
           ''%u5728 SBI %u91cc%u53ef%u80fd%u88ab%u5f53%u6210%u300c%u8fc7%u53bb%u65f6%u95f4%u300d%uff0c'',
           ''%u5bfc%u81f4%u5b9a%u65f6%u5668%u75af%u72c2%u89e6%u53d1%u2014%u2014CPU %u88ab ISR '',
           ''%u5403%u6ee1%u3002'']]]\<rparr>\<close>

definition phase2ZhCN_lesson5_exercise1 :: CodeExercise where
  \<open>phase2ZhCN_lesson5_exercise1 = \<lparr>
    exercise_id = js ''lab3-timer'',
    exercise_title = js ''Lab 3a %u2b50 timer.rs'',
    exercise_description = jcat [''%u5b9e%u73b0 get_time / set_next_trigger%u3002%u6ce8%u610f CLOCK_FREQ %u5728 '',
        ''config.rs %u91cc%uff0cQEMU virt %u673a%u662f 10_000_000%u3002''],
    exercise_labFile = Some (js ''labs/phase_2_proc/src/timer.rs''),
    exercise_hints = [js ''riscv::register::time::read() %u8bfb mtime'',
       js ''set_timer %u6765%u81ea crate::sbi%u2014%u2014%u5c01%u88c5%u597d%u7684 ecall'',
       js ''deadline = %u73b0%u5728 + CLOCK_FREQ / TICKS_PER_SEC''],
    exercise_pseudocode = Some (jlines [''pub fn set_next_trigger() {'',
          ''    let next = get_time() + CLOCK_FREQ / TICKS_PER_SEC;'',
          ''    set_timer(next as u64);'',
          ''}''])\<rparr>\<close>

definition phase2ZhCN_lesson5_exercise2 :: CodeExercise where
  \<open>phase2ZhCN_lesson5_exercise2 = \<lparr>
    exercise_id = js ''lab3-trap'',
    exercise_title = js ''Lab 3b %u2b50%u2b50 SupervisorTimer %u5206%u652f'',
    exercise_description = jcat [''%u5728 trap/mod.rs %u7684 match %u91cc%u628a todo!() '',
        ''%u66ff%u6362%u6210%u6b63%u786e%u7684%u4e24%u53e5%uff1are-arm + suspend%u3002''],
    exercise_labFile = Some (js ''labs/phase_2_proc/src/trap/mod.rs''),
    exercise_hints = [js ''Trap::Interrupt(Interrupt::SupervisorTimer)'',
       js ''%u987a%u5e8f%uff1aset_next_trigger %u5728%u524d%u3001suspend %u5728%u540e'',
       jcat [''%u522b%u5fd8%u5728 rust_main %u91cc%u8c03 trap::enable_timer_interrupt() %u548c '',
         ''timer::set_next_trigger()'']],
    exercise_pseudocode = Some (jlines [''Trap::Interrupt(Interrupt::SupervisorTimer) => {'',
          ''    crate::timer::set_next_trigger();'',
          ''    crate::task::suspend_current_and_run_next();'',
          ''}''])\<rparr>\<close>

definition phase2ZhCN_lesson5 :: Lesson where
  \<open>phase2ZhCN_lesson5 = \<lparr>
    lesson_phaseId = 2, lesson_lessonId = 5,
    lesson_title = js ''%u65f6%u949f%u4e2d%u65ad%u4e0e%u62a2%u5360'',
    lesson_subtitle = js ''sbi_set_timer + sie.STIE + sstatus.SIE'',
    lesson_type = js ''Practice'',
    lesson_duration = js ''2 hours'',
    lesson_objectives = [jcat [''%u7406%u89e3 RISC-V %u7684 mtime/mtimecmp %u8ba1%u65f6%u6a21%u578b%u4ee5%u53ca SBI '',
         ''%u7684%u89d2%u8272''],
       jcat [''%u4f1a%u914d%u7f6e sie.STIE %u4e0e sstatus.SIE %u8ba9 S-mode '',
         ''%u771f%u6b63%u6536%u5230%u65f6%u949f%u4e2d%u65ad''],
       js ''%u5b9e%u73b0 set_next_trigger %u4e0e SupervisorTimer %u7684 trap %u5206%u652f'',
       jcat [''%u80fd%u89c2%u5bdf%u5230%u62a2%u5360%u5f0f%u8c03%u5ea6%uff1a%u4e0d%u8c03%u7528 '',
         ''yield %u7684 app_timer %u4e5f%u88ab%u5207%u8d70'']],
    lesson_sections = [phase2ZhCN_lesson5_section1,
      phase2ZhCN_lesson5_section2,
      phase2ZhCN_lesson5_section3,
      phase2ZhCN_lesson5_section4,
      phase2ZhCN_lesson5_section5,
      phase2ZhCN_lesson5_section6],
    lesson_exercises = [phase2ZhCN_lesson5_exercise1, phase2ZhCN_lesson5_exercise2],
    lesson_acceptanceCriteria = [jcat [''make qemu %u80fd%u770b%u5230 app_timer%uff08%u6b7b%u5faa%u73af%u4e0d yield %u7684 '',
         ''app%uff09%u7684%u8f93%u51fa%u4e5f%u88ab%u5207%u8fdb%u5207%u51fa%u2014%u2014preemption '',
         ''%u6210%u529f''],
       js ''%u4e09%u4e2a app %u90fd%u6253%u5370 [X done]'',
       js ''scripts/grade.py %u6ee1%u5206''],
    lesson_references = [\<lparr>reference_title = js ''RISC-V Privileged Spec Ch.3.1.6 & 3.1.9'',
       reference_description = js ''[%u5fc5%u8bfb] sie / sstatus %u7684%u4f4d%u56fe%u4e0e%u4e2d%u65ad%u9012%u9001%u89c4%u5219'',
       reference_url = js ''https://github.com/riscv/riscv-isa-manual/releases''\<rparr>,
      \<lparr>reference_title = js ''RISC-V SBI Specification v1.0'',
       reference_description = js ''[%u5fc5%u8bfb] set_timer %u7684%u5b98%u65b9%u8bed%u4e49'',
       reference_url = js ''https://github.com/riscv-non-isa/riscv-sbi-doc''\<rparr>,
      \<lparr>reference_title = js ''OSTEP Ch.8 MLFQ'',
       reference_description = jcat [''[%u6df1%u5165%u9605%u8bfb] round-robin %u4e4b%u540e%uff1a%u591a%u7ea7%u53cd%u9988'',
          ''%u961f%u5217''],
       reference_url = js ''https://pages.cs.wisc.edu/~remzi/OSTEP/cpu-sched-mlfq.pdf''\<rparr>,
      \<lparr>reference_title = js ''rCore-Tutorial %u00a73.4'',
       reference_description = jcat [''[%u6df1%u5165%u9605%u8bfb] %u62a2%u5360%u5f0f%u8c03%u5ea6%u2014%u2014%u540c%u6559'',
          ''%u5b66%u8def%u5f84%u7684%u4e2d%u6587%u53c2%u8003''],
       reference_url = js ''https://rcore-os.cn/rCore-Tutorial-Book-v3/chapter3/4time-sharing-system.html''\<rparr>]\<rparr>\<close>

section \<open>The phase\<close>

definition phase2ZhCN :: PhaseContent where
  \<open>phase2ZhCN = \<lparr>
    content_phaseId = 2,
    content_color = js ''#059669'',
    content_accent = js ''#34D399'',
    content_lessons = [phase2ZhCN_lesson1, phase2ZhCN_lesson2, phase2ZhCN_lesson3, phase2ZhCN_lesson4, phase2ZhCN_lesson5]\<rparr>\<close>

section \<open>Well-formedness\<close>

lemma phase2ZhCN_lesson1_ok: "lesson_ok phase2ZhCN_lesson1"
  by (simp add: lesson_ok_def section_ok_def phase2ZhCN_lesson1_def
      phase2ZhCN_lesson1_section1_def
      phase2ZhCN_lesson1_section2_def
      phase2ZhCN_lesson1_section3_def
      phase2ZhCN_lesson1_section4_def
      phase2ZhCN_lesson1_exercise1_def)

lemma phase2ZhCN_lesson2_ok: "lesson_ok phase2ZhCN_lesson2"
  by (simp add: lesson_ok_def section_ok_def phase2ZhCN_lesson2_def
      phase2ZhCN_lesson2_section1_def
      phase2ZhCN_lesson2_section2_def
      phase2ZhCN_lesson2_section3_def
      phase2ZhCN_lesson2_section4_def
      phase2ZhCN_lesson2_exercise1_def)

lemma phase2ZhCN_lesson3_ok: "lesson_ok phase2ZhCN_lesson3"
  by (simp add: lesson_ok_def section_ok_def phase2ZhCN_lesson3_def
      phase2ZhCN_lesson3_section1_def
      phase2ZhCN_lesson3_section2_def
      phase2ZhCN_lesson3_section3_def
      phase2ZhCN_lesson3_section4_def
      phase2ZhCN_lesson3_section5_def
      phase2ZhCN_lesson3_exercise1_def)

lemma phase2ZhCN_lesson4_ok: "lesson_ok phase2ZhCN_lesson4"
  by (simp add: lesson_ok_def section_ok_def phase2ZhCN_lesson4_def
      phase2ZhCN_lesson4_section1_def
      phase2ZhCN_lesson4_section2_def
      phase2ZhCN_lesson4_section3_def
      phase2ZhCN_lesson4_section4_def
      phase2ZhCN_lesson4_section5_def
      phase2ZhCN_lesson4_exercise1_def)

lemma phase2ZhCN_lesson5_ok: "lesson_ok phase2ZhCN_lesson5"
  by (simp add: lesson_ok_def section_ok_def phase2ZhCN_lesson5_def
      phase2ZhCN_lesson5_section1_def
      phase2ZhCN_lesson5_section2_def
      phase2ZhCN_lesson5_section3_def
      phase2ZhCN_lesson5_section4_def
      phase2ZhCN_lesson5_section5_def
      phase2ZhCN_lesson5_section6_def
      phase2ZhCN_lesson5_exercise1_def
      phase2ZhCN_lesson5_exercise2_def)

lemma phase2ZhCN_lesson1_ids: "lesson_phaseId phase2ZhCN_lesson1 = 2" "lesson_lessonId phase2ZhCN_lesson1 = 1"
  by (simp_all add: phase2ZhCN_lesson1_def)

lemma phase2ZhCN_lesson2_ids: "lesson_phaseId phase2ZhCN_lesson2 = 2" "lesson_lessonId phase2ZhCN_lesson2 = 2"
  by (simp_all add: phase2ZhCN_lesson2_def)

lemma phase2ZhCN_lesson3_ids: "lesson_phaseId phase2ZhCN_lesson3 = 2" "lesson_lessonId phase2ZhCN_lesson3 = 3"
  by (simp_all add: phase2ZhCN_lesson3_def)

lemma phase2ZhCN_lesson4_ids: "lesson_phaseId phase2ZhCN_lesson4 = 2" "lesson_lessonId phase2ZhCN_lesson4 = 4"
  by (simp_all add: phase2ZhCN_lesson4_def)

lemma phase2ZhCN_lesson5_ids: "lesson_phaseId phase2ZhCN_lesson5 = 2" "lesson_lessonId phase2ZhCN_lesson5 = 5"
  by (simp_all add: phase2ZhCN_lesson5_def)

lemma phase2ZhCN_shape [site_shape]:
  "content_phaseId phase2ZhCN = 2" "length (content_lessons phase2ZhCN) = 5"
  by (simp_all add: phase2ZhCN_def)

lemma phase2ZhCN_ok [site_shape]: "content_ok phase2ZhCN"
  by (simp add: content_ok_def phase2ZhCN_def upt_rec
      phase2ZhCN_lesson1_ok phase2ZhCN_lesson2_ok phase2ZhCN_lesson3_ok phase2ZhCN_lesson4_ok phase2ZhCN_lesson5_ok
      phase2ZhCN_lesson1_ids phase2ZhCN_lesson2_ids phase2ZhCN_lesson3_ids phase2ZhCN_lesson4_ids phase2ZhCN_lesson5_ids)

end
