(* ===== verification/Phase2_En.thy ===== *)
theory Phase2_En
  imports Content_Types
begin

text \<open>
  Phase 2, processes and scheduling, in English: the constant \<open>phase2En\<close> of
  \<open>website/src/data/phase2.ts\<close>, one definition per section, exercise and lesson. Below it, that the
  content is well formed.
\<close>

section \<open>Lesson 1\<close>

definition phase2En_lesson1_section1 :: ContentSection where
  \<open>phase2En_lesson1_section1 = \<lparr>
    section_title = js ''From single-task to multi-task'',
    section_blocks = [ParagraphBlock (jcat [''In Phase 1 the kernel had exactly one straight line of execution: _start %u2192 '',
          ''ecall %u2192 trap_handler %u2192 sret %u2192 user code %u2192 exit. One set of '',
          ''registers and one kernel stack were enough. Phase 2 wants N user apps sharing the CPU %u2014 '',
          ''which means we need the ability to pause A and resume B. But first: what *is* a '',
          ''task, concretely, inside the kernel?'']),
      CalloutBlock Info (jcat [''A task = a TaskControlBlock (TCB) + a kernel stack + a user stack. A process isn't '',
          ''an object floating in the ether %u2014 it *is* those three pieces of memory. Phases '',
          ''3%u20135 will add address spaces, file tables, parent pointers, but the skeleton is '',
          ''already here.''])]\<rparr>\<close>

definition phase2En_lesson1_section2 :: ContentSection where
  \<open>phase2En_lesson1_section2 = \<lparr>
    section_title = js ''TCB fields'',
    section_blocks = [CodeBlock (Some (js ''rust'')) (jlines [''#[derive(Copy, Clone)]'',
          ''pub struct TaskControlBlock {'',
          ''    pub task_status: TaskStatus,   // UnInit / Ready / Running / Exited'',
          ''    pub task_cx: TaskContext,      // 14-word register snapshot (next lesson)'',
          ''}'',
          '''',
          ''#[derive(Copy, Clone, PartialEq)]'',
          ''pub enum TaskStatus { UnInit, Ready, Running, Exited }'']),
      ParagraphBlock (jcat [''TCB is a plain Rust struct, living inside a fixed-size array in the kernel's .data '',
          ''section. Phase 2 does no dynamic allocation: MAX_APP_NUM is fixed at compile time, '',
          ''and loader scans the linked-in user ELFs and populates the slots.'']),
      CalloutBlock Tip (jcat [''Phase 5 will move the TCB onto the heap wrapped in Arc<Mutex<TCB>> (fork/exec need '',
          ''dynamic creation). For now a static array %u2014 one fewer variable, one clearer '',
          ''mental model.''])]\<rparr>\<close>

definition phase2En_lesson1_section3 :: ContentSection where
  \<open>phase2En_lesson1_section3 = \<lparr>
    section_title = js ''The three-block memory layout'',
    section_blocks = [DiagramBlock (jlines [''kernel .bss / .data                                          high'',
          ''%u250c%r392500%u2510'',
          ''%u2502 KERNEL_STACK[MAX_APP_NUM]   8 KiB kernel stack per task %u2502'',
          ''%u2502   %u250c%u2500 KernelStack[0] %u2500%u2510                                   %u2502'',
          ''%u2502   %u2502    8192 bytes    %u2502  %u2190 task 0's sp on ecall           %u2502'',
          ''%u2502   %u2514%r122500%u2518                                   %u2502'',
          ''%u2502   %u250c%u2500 KernelStack[1] %u2500%u2510                                   %u2502'',
          ''%u2502   %u2502    8192 bytes    %u2502                                   %u2502'',
          ''%u2502   %u2514%r122500%u2518                                   %u2502'',
          ''%u2502        ......                                            %u2502'',
          ''%u251c%r392500%u2524'',
          ''%u2502 USER_STACK[MAX_APP_NUM]     8 KiB user stack per task    %u2502'',
          ''%u251c%r392500%u2524'',
          ''%u2502 TASK_MANAGER {                                           %u2502'',
          ''%u2502   num_app: usize,                                        %u2502'',
          ''%u2502   inner: UPSafeCell<TaskManagerInner> {                  %u2502'',
          ''%u2502     tasks: [TCB; MAX_APP_NUM],                           %u2502'',
          ''%u2502     current_task: usize,                                 %u2502'',
          ''%u2502   }                                                      %u2502'',
          ''%u2502 }                                                        %u2502'',
          ''%u2514%r392500%u2518'',
          ''User .text/.data copied by loader to APP_BASE + N * APP_SIZE_LIMIT'']),
      ParagraphBlock (jcat [''Why does every task need its own kernel stack? Picture task A half-way through '',
          ''trap_handler when a timer fires and we switch to B; B's ecall runs trap_handler too. If '',
          ''they shared one stack, B would overwrite A's frames; when A resumes, its stack is '',
          ''garbage %u2014 instant crash. One-per-task keeps it clean.''])]\<rparr>\<close>

definition phase2En_lesson1_section4 :: ContentSection where
  \<open>phase2En_lesson1_section4 = \<lparr>
    section_title = js ''State machine'',
    section_blocks = [DiagramBlock (jlines [''            loader::init_app_cx()'',
          ''   UnInit %r172500%u25ba Ready %u25c0%r092500%u2510'',
          ''                                     %u2502              %u2502 suspend'',
          ''                                     %u25bc              %u2502'',
          ''                                  Running %r0a2500%u2518'',
          ''                                     %u2502'',
          ''                                     %u2502 exit (sys_exit)'',
          ''                                     %u25bc'',
          ''                                   Exited'']),
      TableBlock [js ''State'',
         js ''Meaning'',
         js ''Who causes the next transition'']
        [[js ''UnInit'',
          js ''Slot unused, or loader hasn't built a TrapContext yet'',
          js ''loader''],
         [js ''Ready'',
          js ''Runnable, waiting for CPU'',
          js ''scheduler''],
         [js ''Running'',
          js ''Executing on some hart'',
          js ''timer / sys_yield / sys_exit''],
         [js ''Exited'',
          js ''Done, kernel stack never resumed'',
          js ''no one (Phase 5: parent wait reaps it)'']],
      CalloutBlock Info (jcat [''Phase 3 adds Sleeping (blocked on a lock); Phase 5 adds Zombie (exited but parent '',
          ''hasn't wait()ed). Four states suffice now %u2014 any more is premature complexity.''])]\<rparr>\<close>

definition phase2En_lesson1_exercise1 :: CodeExercise where
  \<open>phase2En_lesson1_exercise1 = \<lparr>
    exercise_id = js ''lab1-tcb'',
    exercise_title = js ''Lab 1a %u2b50 TCB & state enum'',
    exercise_description = jcat [''Fill in TaskStatus and TaskControlBlock in task/task.rs. Both are Copy so the TCB '',
        ''array can live by-value inside UPSafeCell.''],
    exercise_labFile = Some (js ''labs/phase_2_proc/src/task/task.rs''),
    exercise_hints = [js ''TaskStatus: derive Copy, Clone, PartialEq, Debug'',
       js ''TaskControlBlock: derive Copy, Clone'',
       js ''task_cx has type TaskContext (defined next lesson)''],
    exercise_pseudocode = Some (jlines [''#[derive(Copy, Clone, PartialEq, Debug)]'',
          ''pub enum TaskStatus { UnInit, Ready, Running, Exited }'',
          '''',
          ''#[derive(Copy, Clone)]'',
          ''pub struct TaskControlBlock {'',
          ''    pub task_status: TaskStatus,'',
          ''    pub task_cx: TaskContext,'',
          ''}''])\<rparr>\<close>

definition phase2En_lesson1 :: Lesson where
  \<open>phase2En_lesson1 = \<lparr>
    lesson_phaseId = 2, lesson_lessonId = 1,
    lesson_title = js ''The Process Abstraction & the TCB'',
    lesson_subtitle = js ''What a task really is %u2014 TCB + kernel stack + user stack'',
    lesson_type = js ''Concept'',
    lesson_duration = js ''1.5 hours'',
    lesson_objectives = [js ''Understand which pieces of memory actually constitute a process'',
       js ''Master the TaskControlBlock (TCB) %u2014 fields and state machine'',
       js ''See why every task needs its own kernel stack'',
       js ''Draw the UnInit %u2192 Ready %u2192 Running %u2192 Exited transitions''],
    lesson_sections = [phase2En_lesson1_section1,
      phase2En_lesson1_section2,
      phase2En_lesson1_section3,
      phase2En_lesson1_section4],
    lesson_exercises = [phase2En_lesson1_exercise1],
    lesson_acceptanceCriteria = [js ''You can explain "a task is which three pieces of memory" out loud'',
       js ''You can draw the 4-state transition diagram'',
       js ''sizeof TaskControlBlock is ~120 bytes (1 byte enum + padding + 112-byte TaskContext)''],
    lesson_references = [\<lparr>reference_title = js ''OSTEP Ch.4-6: The Abstraction: The Process'',
       reference_description = js ''[Required] The classic text on the process abstraction'',
       reference_url = js ''https://pages.cs.wisc.edu/~remzi/OSTEP/cpu-intro.pdf''\<rparr>,
      \<lparr>reference_title = js ''xv6-riscv book Ch.7'',
       reference_description = js ''[Required] Scheduling %u2014 read in parallel with our Rust version'',
       reference_url = js ''https://pdos.csail.mit.edu/6.828/2023/xv6/book-riscv-rev3.pdf''\<rparr>,
      \<lparr>reference_title = js ''rCore-Tutorial %u00a73.1'',
       reference_description = js ''[Deep dive] Multiprogramming and time-sharing'',
       reference_url = js ''https://rcore-os.cn/rCore-Tutorial-Book-v3/chapter3/index.html''\<rparr>]\<rparr>\<close>

section \<open>Lesson 2\<close>

definition phase2En_lesson2_section1 :: ContentSection where
  \<open>phase2En_lesson2_section1 = \<lparr>
    section_title = js ''Two boundaries, two contexts'',
    section_blocks = [ParagraphBlock (jcat [''Phase 1 already has TrapContext %u2014 it guards the privilege boundary U-mode '',
          ''%u21c4 S-mode. Phase 2 adds TaskContext %u2014 it guards the language-level '',
          ''boundary kernel thread A %u21c4 kernel thread B. The register set, the trigger, and the '',
          ''writer are all different.'']),
      DiagramBlock (jlines [''            U-mode user code'',
          ''                %u2502'',
          ''                %u2502 ecall / timer'',
          ''                %u2502                  %u250c%u2500 TrapContext 34 words: hardware-driven'',
          ''                %u25bc                  %u2502  Any instruction can trap,'',
          ''          %r052500%u2534%r0a2500         %u2502  so we save every general register'',
          ''          S-mode trap handler %r052500%u2518'',
          ''                %u2502'',
          ''                %u2502 suspend_current_and_run_next()'',
          ''                %u2502                  %u250c%u2500 TaskContext 14 words: Rust-driven'',
          ''                %u25bc                  %u2502  __switch is a regular Rust call,'',
          ''          %r052500%u2534%r0a2500         %u2502  compiler spilled caller-saved already,'',
          ''          S-mode trap handler      %u2502  we only save callee-saved.'',
          ''                %u2502                  %u2514%u2500'',
          ''                %u2502 sret'',
          ''                %u25bc'',
          ''            U-mode user code (perhaps a different app)''])]\<rparr>\<close>

definition phase2En_lesson2_section2 :: ContentSection where
  \<open>phase2En_lesson2_section2 = \<lparr>
    section_title = js ''TaskContext: 14 %u00d7 usize'',
    section_blocks = [CodeBlock (Some (js ''rust'')) (jlines [''#[derive(Copy, Clone)]'',
          ''#[repr(C)]'',
          ''pub struct TaskContext {'',
          ''    ra: usize,       // +0   where __switch will ret to next time'',
          ''    sp: usize,       // +8   this task's kernel stack pointer'',
          ''    s: [usize; 12],  // +16 .. +104   s0 .. s11'',
          ''}'',
          ''// sizeof = 14 * 8 = 112 bytes'']),
      ParagraphBlock (jcat [''Why just ra, sp, s0..s11? Because __switch is *called* from Rust through the normal '',
          ''calling convention. The RISC-V ABI specifies that caller-saved registers (t0-t6, '',
          ''a0-a7, ft0-ft11) are preserved by the caller. The compiler has already spilled the '',
          ''values it still cares about %u2014 __switch need not touch them.'']),
      CalloutBlock Warning (jcat [''This is the mirror image of TrapContext's "save everything": a trap is '',
          ''asynchronous, no one spills caller-saved for you. __switch is a function you call %u2014 the '',
          ''compiler helps. Hence the asymmetry.''])]\<rparr>\<close>

definition phase2En_lesson2_section3 :: ContentSection where
  \<open>phase2En_lesson2_section3 = \<lparr>
    section_title = js ''Comparison table'',
    section_blocks = [TableBlock [js ''Aspect'',
         js ''TrapContext'',
         js ''TaskContext'']
        [[js ''Size'',
          js ''34 %u00d7 8 = 272 bytes'',
          js ''14 %u00d7 8 = 112 bytes''],
         [js ''Boundary'',
          js ''U-mode %u21c4 S-mode (privilege)'',
          js ''kernel A %u21c4 kernel B (language)''],
         [js ''Trigger'',
          js ''hardware trap (async, any insn)'',
          js ''explicit __switch() call''],
         [js ''Saver'',
          js ''__alltraps asm (hw-driven)'',
          js ''__switch asm (call-driven)''],
         [js ''Register set'',
          js ''x0-x31 + sstatus + sepc'',
          js ''ra + sp + s0-s11 (callee-saved)''],
         [js ''Caller-saved skipped?'',
          js ''%u2014 (must save all)'',
          js ''Rust caller already spilled''],
         [js ''Lives where'',
          js ''on the task's kernel stack'',
          js ''inside the TCB''],
         [js ''Built first by'',
          js ''loader::init_app_cx()'',
          js ''TaskContext::goto_restore()'']]]\<rparr>\<close>

definition phase2En_lesson2_section4 :: ContentSection where
  \<open>phase2En_lesson2_section4 = \<lparr>
    section_title = js ''goto_restore: point ra at __restore'',
    section_blocks = [ParagraphBlock (jcat [''How do we initialize a never-run task's TaskContext? Trick: make the scheduler's '',
          ''first __switch ret into the assembly routine __restore. __restore then pops the fake '',
          ''TrapContext we pre-built on the kernel stack and sret's to U-mode.'']),
      CodeBlock (Some (js ''rust'')) (jlines [''impl TaskContext {'',
          ''    pub fn goto_restore(kstack_ptr: usize) -> Self {'',
          ''        extern "C" { fn __restore(); }'',
          ''        Self {'',
          ''            ra: __restore as usize,   // first insn after __switch returns'',
          ''            sp: kstack_ptr,           // kernel stack top: TrapContext lives there'',
          ''            s:  [0; 12],'',
          ''        }'',
          ''    }'',
          ''}'']),
      CalloutBlock Tip (jcat [''At boot, loader builds a TrapContext at the top of each kernel stack (via '',
          ''push_context) and returns that pointer to goto_restore. The chain is: __switch %u2192 ret '',
          ''%u2192 __restore %u2192 sret %u2192 user program. Phase 2's cold start path is '',
          ''exactly this chain.''])]\<rparr>\<close>

definition phase2En_lesson2_exercise1 :: CodeExercise where
  \<open>phase2En_lesson2_exercise1 = \<lparr>
    exercise_id = js ''lab1-context'',
    exercise_title = js ''Lab 1b %u2b50%u2b50 TaskContext + goto_restore'',
    exercise_description = jcat [''Complete task/context.rs: define the 14-word struct and write zero_init() + '',
        ''goto_restore(kstack_ptr).''],
    exercise_labFile = Some (js ''labs/phase_2_proc/src/task/context.rs''),
    exercise_hints = [js ''#[repr(C)] is mandatory %u2014 switch.S hard-codes offsets 0/8/16/...'',
       js ''extern "C" { fn __restore(); } gets the asm symbol address'',
       js ''zero_init() returns all zeros %u2014 used for UnInit slots'',
       js ''goto_restore sets only ra and sp, leaves s[0..12] = 0''],
    exercise_pseudocode = Some (jlines [''#[repr(C)]'',
          ''#[derive(Copy, Clone)]'',
          ''pub struct TaskContext { ra: usize, sp: usize, s: [usize; 12] }'',
          '''',
          ''impl TaskContext {'',
          ''    pub fn zero_init() -> Self { Self { ra: 0, sp: 0, s: [0; 12] } }'',
          ''    pub fn goto_restore(kstack_ptr: usize) -> Self {'',
          ''        extern "C" { fn __restore(); }'',
          ''        Self { ra: __restore as usize, sp: kstack_ptr, s: [0; 12] }'',
          ''    }'',
          ''}''])\<rparr>\<close>

definition phase2En_lesson2 :: Lesson where
  \<open>phase2En_lesson2 = \<lparr>
    lesson_phaseId = 2, lesson_lessonId = 2,
    lesson_title = js ''TaskContext vs TrapContext'',
    lesson_subtitle = js ''Why one is 14 words and the other is 34'',
    lesson_type = js ''Concept'',
    lesson_duration = js ''1.5 hours'',
    lesson_objectives = [js ''Know which boundary each context guards'',
       js ''Understand why saving callee-saved registers alone is sufficient'',
       js ''Know where TaskContext's ra and sp point'',
       js ''Recite the comparison table from memory''],
    lesson_sections = [phase2En_lesson2_section1,
      phase2En_lesson2_section2,
      phase2En_lesson2_section3,
      phase2En_lesson2_section4],
    lesson_exercises = [phase2En_lesson2_exercise1],
    lesson_acceptanceCriteria = [js ''sizeof::<TaskContext>() == 112'',
       js ''You can answer "why don't we save t0-t6 and a0-a7"'',
       js ''You can draw the TrapContext vs TaskContext table''],
    lesson_references = [\<lparr>reference_title = js ''RISC-V Calling Convention'',
       reference_description = js ''[Required] Caller- vs callee-saved registers, authoritative'',
       reference_url = js ''https://riscv.org/wp-content/uploads/2015/01/riscv-calling.pdf''\<rparr>,
      \<lparr>reference_title = js ''rCore-Tutorial %u00a73.2'',
       reference_description = js ''[Required] Task switching and TaskContext, walked line by line'',
       reference_url = js ''https://rcore-os.cn/rCore-Tutorial-Book-v3/chapter3/2task-switching.html''\<rparr>,
      \<lparr>reference_title = js ''xv6-riscv kernel/proc.h'',
       reference_description = js ''[Deep dive] Cross-check against the C struct context'',
       reference_url = js ''https://github.com/mit-pdos/xv6-riscv/blob/riscv/kernel/proc.h''\<rparr>]\<rparr>\<close>

section \<open>Lesson 3\<close>

definition phase2En_lesson3_section1 :: ContentSection where
  \<open>phase2En_lesson3_section1 = \<lparr>
    section_title = js ''__switch's signature'',
    section_blocks = [CodeBlock (Some (js ''rust'')) (jlines [''extern "C" {'',
          ''    pub fn __switch('',
          ''        current_task_cx_ptr: *mut TaskContext,   // a0'',
          ''        next_task_cx_ptr:    *const TaskContext, // a1'',
          ''    );'',
          ''}'']),
      ParagraphBlock (jcat [''a0 = "save to here" (current task's TaskContext pointer); a1 = "load from here" '',
          ''(next task's TaskContext pointer). Per RISC-V C ABI, the first two pointer arguments '',
          ''land in a0 and a1, so asm reads them directly.''])]\<rparr>\<close>

definition phase2En_lesson3_section2 :: ContentSection where
  \<open>phase2En_lesson3_section2 = \<lparr>
    section_title = js ''Register snapshot: before / after'',
    section_blocks = [DiagramBlock (jlines [''Before __switch(&A.cx, &B.cx):'',
          '''',
          ''  %u250c%u2500%u2500 CPU %r0e2500%u2510    %u250c%u2500%u2500 mem A.cx %r032500%u2510   %u250c%u2500%u2500 mem B.cx %r032500%u2510'',
          ''  %u2502 ra   = return_to_A  %u2502    %u2502 ra   = ???    %u2502   %u2502 ra   = __restore %u2502'',
          ''  %u2502 sp   = A_kstack_top %u2502    %u2502 sp   = ???    %u2502   %u2502 sp   = B_kstack  %u2502'',
          ''  %u2502 s0   = A_s0         %u2502    %u2502 s0   = ???    %u2502   %u2502 s0   = B_s0_old  %u2502'',
          ''  %u2502  ...                %u2502    %u2502  ...          %u2502   %u2502  ...             %u2502'',
          ''  %u2514%r152500%u2518    %u2514%r0f2500%u2518   %u2514%r122500%u2518'',
          '''',
          ''After 14 sd %u2192 A.cx, 14 ld %u2190 B.cx:'',
          '''',
          ''  %u250c%u2500%u2500 CPU %r0e2500%u2510    %u250c%u2500%u2500 mem A.cx %r032500%u2510   %u250c%u2500%u2500 mem B.cx %r032500%u2510'',
          ''  %u2502 ra   = __restore    %u2502    %u2502 ra = return_to_A %u2502 %u2502 ra   = __restore %u2502'',
          ''  %u2502 sp   = B_kstack     %u2502    %u2502 sp = A_kstack  %u2502  %u2502 sp   = B_kstack  %u2502'',
          ''  %u2502 s0   = B_s0_old     %u2502    %u2502 s0 = A_s0      %u2502  %u2502 s0   = B_s0_old  %u2502'',
          ''  %u2502  ...                %u2502    %u2502  ...           %u2502  %u2502  ...             %u2502'',
          ''  %u2514%r152500%u2518    %u2514%r102500%u2518  %u2514%r122500%u2518'',
          '''',
          ''Final ret = jr ra %u2014 jumps into __restore, on B's stack, now running B.''])]\<rparr>\<close>

definition phase2En_lesson3_section3 :: ContentSection where
  \<open>phase2En_lesson3_section3 = \<lparr>
    section_title = js ''switch.S in full'',
    section_blocks = [CodeBlock (Some (js ''asm'')) (jlines [''    .section .text'',
          ''    .globl __switch'',
          ''__switch:'',
          ''    # a0 = &mut current_task_cx'',
          ''    # a1 = &next_task_cx'',
          ''    sd   ra,  0*8(a0)'',
          ''    sd   sp,  1*8(a0)'',
          ''    sd   s0,  2*8(a0)'',
          ''    sd   s1,  3*8(a0)'',
          ''    sd   s2,  4*8(a0)'',
          ''    sd   s3,  5*8(a0)'',
          ''    sd   s4,  6*8(a0)'',
          ''    sd   s5,  7*8(a0)'',
          ''    sd   s6,  8*8(a0)'',
          ''    sd   s7,  9*8(a0)'',
          ''    sd   s8, 10*8(a0)'',
          ''    sd   s9, 11*8(a0)'',
          ''    sd   s10,12*8(a0)'',
          ''    sd   s11,13*8(a0)'',
          '''',
          ''    ld   ra,  0*8(a1)'',
          ''    ld   sp,  1*8(a1)'',
          ''    ld   s0,  2*8(a1)'',
          ''    ld   s1,  3*8(a1)'',
          ''    ld   s2,  4*8(a1)'',
          ''    ld   s3,  5*8(a1)'',
          ''    ld   s4,  6*8(a1)'',
          ''    ld   s5,  7*8(a1)'',
          ''    ld   s6,  8*8(a1)'',
          ''    ld   s7,  9*8(a1)'',
          ''    ld   s8, 10*8(a1)'',
          ''    ld   s9, 11*8(a1)'',
          ''    ld   s10,12*8(a1)'',
          ''    ld   s11,13*8(a1)'',
          '''',
          ''    ret'',
          '''']),
      CalloutBlock Info (jcat [''14 sd + 14 ld + 1 ret = 29 instructions. That final ret = jr ra %u2014 but we '',
          ''*just* replaced ra and sp wholesale, so this "return" actually jumps into another task's '',
          ''stack and PC. The whole magic of multitasking compresses into that one ret.''])]\<rparr>\<close>

definition phase2En_lesson3_section4 :: ContentSection where
  \<open>phase2En_lesson3_section4 = \<lparr>
    section_title = js ''Why not Rust?'',
    section_blocks = [ParagraphBlock (jcat [''Surely "read/write ra/sp in Rust" should work? It does not. Rust functions have '',
          ''prologues/epilogues: the compiler pushes ra on entry, allocates a frame, and restores '',
          ''both on exit. You cannot precisely control the moment "ra is still old, sp is still '',
          ''old, store it all now" %u2014 any reorder and the stack is torn in half.'']),
      CalloutBlock Warning (jcat [''So __switch must be pure asm with no Rust mixed in. Naked functions (no prologue) '',
          ''are still unstable in Rust; a .S file is the pragmatic choice.''])]\<rparr>\<close>

definition phase2En_lesson3_section5 :: ContentSection where
  \<open>phase2En_lesson3_section5 = \<lparr>
    section_title = js ''Common mistakes'',
    section_blocks = [ListBlock True
        [js ''Wrong offset: ra is field 0, not sp %u2014 the first ld crashes the new task.'',
         js ''Swapping a0/a1 on sd/ld: you overwrite the *next* task with current's state.'',
         js ''Forgetting to save ra: next resume has no return address %u2014 jumps to null.'',
         jcat [''Saving caller-saved registers (t0-t6) too: wastes memory and risks missing one '',
           ''%u2014 creates intermittent data races, painful to debug.''],
         jcat [''Forgetting ret: control falls into whatever function follows in the .text section '',
           ''%u2014 symptom is "PC mysteriously lands in some unrelated symbol".'']]]\<rparr>\<close>

definition phase2En_lesson3_exercise1 :: CodeExercise where
  \<open>phase2En_lesson3_exercise1 = \<lparr>
    exercise_id = js ''lab1-switch'',
    exercise_title = js ''Lab 1c %u2b50%u2b50 switch.S'',
    exercise_description = jcat [''Write the 29 instructions in task/switch.S. Together with Lab 1b's goto_restore, '',
        ''the first __switch should deliver control to __restore.''],
    exercise_labFile = Some (js ''labs/phase_2_proc/src/task/switch.S''),
    exercise_hints = [js ''Struct offsets: ra=0, sp=8, s0=16, s1=24, ..., s11=104'',
       js ''sd/ld immediates must be multiples of 8'',
       js ''Don't forget .globl __switch'',
       js ''In gdb: b __switch, then stepi to watch each instruction''],
    exercise_pseudocode = Some (jlines [''.section .text'',
          ''.globl __switch'',
          ''__switch:'',
          ''    # save current (a0)'',
          ''    sd ra,  0*8(a0)'',
          ''    sd sp,  1*8(a0)'',
          ''    .set n, 0'',
          ''    .rept 12'',
          ''        sd s%5cn, (2+n)*8(a0)'',
          ''        .set n, n+1'',
          ''    .endr'',
          ''    # load next (a1)'',
          ''    ld ra,  0*8(a1)'',
          ''    ld sp,  1*8(a1)'',
          ''    ...'',
          ''    ret''])\<rparr>\<close>

definition phase2En_lesson3 :: Lesson where
  \<open>phase2En_lesson3 = \<lparr>
    lesson_phaseId = 2, lesson_lessonId = 3,
    lesson_title = js ''__switch: 29 instructions of magic'',
    lesson_subtitle = js ''sd / ld / ret %u2014 the heart of multitasking'',
    lesson_type = js ''Practice'',
    lesson_duration = js ''2 hours'',
    lesson_objectives = [js ''Write every instruction of switch.S from memory'',
       js ''Explain why the final ret ends up in a *different* task'',
       js ''Know why this must be asm, not Rust'',
       js ''Use gdb to watch ra/sp flip across the call''],
    lesson_sections = [phase2En_lesson3_section1,
      phase2En_lesson3_section2,
      phase2En_lesson3_section3,
      phase2En_lesson3_section4,
      phase2En_lesson3_section5],
    lesson_exercises = [phase2En_lesson3_exercise1],
    lesson_acceptanceCriteria = [js ''In gdb, single-stepping shows ra/sp stored via a0 then loaded from a1'',
       js ''After ret, PC lands in __restore (first time) or the last suspension point'',
       js ''After Lab 1, make qemu runs at least the first app''],
    lesson_references = [\<lparr>reference_title = js ''rCore-Tutorial %u00a73.2.2'',
       reference_description = js ''[Required] __switch walked line by line'',
       reference_url = js ''https://rcore-os.cn/rCore-Tutorial-Book-v3/chapter3/2task-switching.html''\<rparr>,
      \<lparr>reference_title = js ''xv6-riscv kernel/swtch.S'',
       reference_description = js ''[Required] The C world's swtch %u2014 nearly identical structure'',
       reference_url = js ''https://github.com/mit-pdos/xv6-riscv/blob/riscv/kernel/swtch.S''\<rparr>,
      \<lparr>reference_title = js ''RISC-V Unprivileged ISA'',
       reference_description = js ''[Deep dive] Formal semantics of sd/ld/jalr/ret'',
       reference_url = js ''https://riscv.org/technical/specifications/''\<rparr>]\<rparr>\<close>

section \<open>Lesson 4\<close>

definition phase2En_lesson4_section1 :: ContentSection where
  \<open>phase2En_lesson4_section1 = \<lparr>
    section_title = js ''TaskManager's skeleton'',
    section_blocks = [CodeBlock (Some (js ''rust'')) (jlines [''pub struct TaskManager {'',
          ''    num_app: usize,'',
          ''    inner: UPSafeCell<TaskManagerInner>,'',
          ''}'',
          '''',
          ''pub struct TaskManagerInner {'',
          ''    tasks: [TaskControlBlock; MAX_APP_NUM],'',
          ''    current_task: usize,'',
          ''}'',
          '''',
          ''lazy_static! {'',
          ''    pub static ref TASK_MANAGER: TaskManager = {'',
          ''        let num_app = loader::get_num_app();'',
          ''        let mut tasks = [TCB { task_cx: TaskContext::zero_init(),'',
          ''                               task_status: TaskStatus::UnInit };'',
          ''                         MAX_APP_NUM];'',
          ''        for i in 0..num_app {'',
          ''            tasks[i].task_cx = TaskContext::goto_restore(loader::init_app_cx(i));'',
          ''            tasks[i].task_status = TaskStatus::Ready;'',
          ''        }'',
          ''        TaskManager { num_app, inner: UPSafeCell::new(TaskManagerInner {'',
          ''            tasks, current_task: 0,'',
          ''        })}'',
          ''    };'',
          ''}'']),
      ParagraphBlock (jcat [''UPSafeCell is our single-core "fake mutex" from Phase 1 %u2014 wraps a RefCell and '',
          ''panics on reentrant borrow rather than blocking. Phase 3 swaps it for a real '',
          ''SpinLock.''])]\<rparr>\<close>

definition phase2En_lesson4_section2 :: ContentSection where
  \<open>phase2En_lesson4_section2 = \<lparr>
    section_title = js ''The three core methods'',
    section_blocks = [CodeBlock (Some (js ''rust'')) (jlines [''impl TaskManager {'',
          ''    // never returns %u2014 called once by rust_main to open multitasking world'',
          ''    fn run_first_task(&self) -> ! {'',
          ''        let mut inner = self.inner.exclusive_access();'',
          ''        let task0 = &mut inner.tasks[0];'',
          ''        task0.task_status = TaskStatus::Running;'',
          ''        let next_cx_ptr = &task0.task_cx as *const TaskContext;'',
          ''        drop(inner);                              // release BEFORE switch'',
          ''        let mut unused = TaskContext::zero_init();'',
          ''        unsafe { __switch(&mut unused, next_cx_ptr); }'',
          ''        unreachable!("after __switch to first task")'',
          ''    }'',
          '''',
          ''    // Round-robin scan'',
          ''    fn find_next_task(&self) -> Option<usize> {'',
          ''        let inner = self.inner.exclusive_access();'',
          ''        let cur = inner.current_task;'',
          ''        (cur + 1 .. cur + self.num_app + 1)'',
          ''            .map(|i| i %25 self.num_app)'',
          ''            .find(|&i| inner.tasks[i].task_status == TaskStatus::Ready)'',
          ''    }'',
          '''',
          ''    // suspend / yield / timer all funnel here'',
          ''    fn run_next_task(&self) {'',
          ''        if let Some(next) = self.find_next_task() {'',
          ''            let mut inner = self.inner.exclusive_access();'',
          ''            let cur = inner.current_task;'',
          ''            inner.tasks[next].task_status = TaskStatus::Running;'',
          ''            inner.current_task = next;'',
          ''            let cur_cx_ptr  = &mut inner.tasks[cur].task_cx  as *mut  TaskContext;'',
          ''            let next_cx_ptr = &    inner.tasks[next].task_cx as *const TaskContext;'',
          ''            drop(inner);                          // release BEFORE switch'',
          ''            unsafe { __switch(cur_cx_ptr, next_cx_ptr); }'',
          ''        } else {'',
          ''            println!("[kernel] All apps finished!");'',
          ''            shutdown(false);'',
          ''        }'',
          ''    }'',
          ''}''])]\<rparr>\<close>

definition phase2En_lesson4_section3 :: ContentSection where
  \<open>phase2En_lesson4_section3 = \<lparr>
    section_title = js ''Round-Robin in motion'',
    section_blocks = [DiagramBlock (jlines [''time %r372500%u25ba'',
          ''task A  R R R -  -   -  R R  -    -    -     (yield)'',
          ''task B  -  - R R  -  -    R R  -  -    -     (yield)'',
          ''task C  -  - -  - R R  -   -  R R  -          (timer)'',
          '''',
          ''        %u2191   %u2191    %u2191   %u2191    %u2191   %u2191   %u2191   %u2191   %u2191'',
          ''        %u2502   %u2502    %u2502   %u2502    %u2502   %u2502   %u2502   %u2502   %u2514%u2500 C exit'',
          ''        %u2502   %u2502    %u2502   %u2502    %u2502   %u2502   %u2502   %u2514%r032500 C preempted'',
          ''        %u2502   %u2502    %u2502   %u2502    %u2502   %u2502   %u2514%r032500 B yield'',
          ''        %u2502   %u2502    %u2502   %u2502    %u2502   %u2514%r032500 A yield'',
          ''        %u2502   %u2502    %u2502   %u2502    %u2514%r032500 B yield'',
          ''        %u2502   %u2502    %u2502   %u2514%r032500 A yield'',
          ''        %u2502   %u2502    %u2514%r032500 C preempted'',
          ''        %u2502   %u2514%r032500 B yield'',
          ''        %u2514%r032500 A yield  (cooperative)'']),
      ParagraphBlock (jcat [''run_first_task kicks off A; A's sys_yield triggers run_next_task %u2192 '',
          ''find_next_task returns B %u2192 __switch to B; and so on. Lab 3's timer interrupt wedges the '',
          ''same run_next_task in unconditionally %u2014 tasks can't tell the difference.''])]\<rparr>\<close>

definition phase2En_lesson4_section4 :: ContentSection where
  \<open>phase2En_lesson4_section4 = \<lparr>
    section_title = js ''The #1 bug: holding the lock across __switch'',
    section_blocks = [CalloutBlock Warning (jcat [''You absolutely must drop(inner) before __switch. Picture A holding the RefMut '',
          ''crossing into B; moments later B calls sys_yield %u2192 run_next_task %u2192 '',
          ''exclusive_access() %u2014 panic in UPSafeCell (single-core) or deadlock in a real SpinLock '',
          ''(Phase 3). Either way, instant bug.'']),
      CodeBlock (Some (js ''rust'')) (jlines [''// %u2718 wrong'',
          ''let mut inner = self.inner.exclusive_access();'',
          ''...'',
          ''unsafe { __switch(cur_cx_ptr, next_cx_ptr); }  // lock still held!'',
          ''// B's run_next_task will see "RefCell already borrowed"''])]\<rparr>\<close>

definition phase2En_lesson4_section5 :: ContentSection where
  \<open>phase2En_lesson4_section5 = \<lparr>
    section_title = js ''Common mistakes'',
    section_blocks = [ListBlock True
        [js ''Forgetting drop(inner): next task's yield sees a borrow conflict.'',
         jcat [''Swapping current/next direction: current is *mut (we save into it); next is *const '',
           ''(we load from it).''],
         jcat [''run_first_task isn't -> !: rustc forces a return value after __switch, which looks '',
           ''awkward and signals the signature is wrong.''],
         js ''Marking an Exited task as Ready by mistake: find_next_task will forever pick a dead task.'',
         jcat [''Hard-coding MAX_APP_NUM smaller than the real app count: loader silently truncates '',
           ''%u2014 grade.py will notice you skipped one.'']]]\<rparr>\<close>

definition phase2En_lesson4_exercise1 :: CodeExercise where
  \<open>phase2En_lesson4_exercise1 = \<lparr>
    exercise_id = js ''lab2-manager'',
    exercise_title = js ''Lab 2 %r032b50 TaskManager'',
    exercise_description = jcat [''In task/mod.rs implement run_first_task / find_next_task / run_next_task plus the '',
        ''public wrappers suspend_current_and_run_next / exit_current_and_run_next.''],
    exercise_labFile = Some (js ''labs/phase_2_proc/src/task/mod.rs''),
    exercise_hints = [js ''Every call to __switch must be preceded by drop(inner)'',
       js ''(cur+1..cur+num_app+1).map(|i| i%25num_app) avoids a fiddly for loop'',
       js ''suspend: Running %u2192 Ready; exit: Running %u2192 Exited'',
       jcat [''The unused variable in run_first_task is a throwaway TaskContext %u2014 we switch '',
         ''out and never back'']],
    exercise_pseudocode = Some (jlines [''pub fn suspend_current_and_run_next() {'',
          ''    TASK_MANAGER.mark_current_suspended();'',
          ''    TASK_MANAGER.run_next_task();'',
          ''}'',
          ''pub fn exit_current_and_run_next() {'',
          ''    TASK_MANAGER.mark_current_exited();'',
          ''    TASK_MANAGER.run_next_task();'',
          ''}''])\<rparr>\<close>

definition phase2En_lesson4 :: Lesson where
  \<open>phase2En_lesson4 = \<lparr>
    lesson_phaseId = 2, lesson_lessonId = 4,
    lesson_title = js ''The Round-Robin scheduler'',
    lesson_subtitle = js ''run_first_task / find_next_task / run_next_task'',
    lesson_type = js ''Practice'',
    lesson_duration = js ''2 hours'',
    lesson_objectives = [js ''Implement the three core methods of TaskManager'',
       js ''Understand why calling __switch while holding the lock deadlocks'',
       js ''Master the cooperative control flow (sys_yield / sys_exit)'',
       js ''Observe A/B/C interleaved output in gdb''],
    lesson_sections = [phase2En_lesson4_section1,
      phase2En_lesson4_section2,
      phase2En_lesson4_section3,
      phase2En_lesson4_section4,
      phase2En_lesson4_section5],
    lesson_exercises = [phase2En_lesson4_exercise1],
    lesson_acceptanceCriteria = [js ''make qemu shows A/B interleaved output %u2014 cooperative yield works'',
       js ''After all apps finish, the kernel prints 'All apps finished!' and shuts down'',
       js ''In gdb, the lock is observably released (borrow count zero) before __switch''],
    lesson_references = [\<lparr>reference_title = js ''OSTEP Ch.7 Scheduling: Introduction'',
       reference_description = js ''[Required] Round-robin vs SJF/STCF'',
       reference_url = js ''https://pages.cs.wisc.edu/~remzi/OSTEP/cpu-sched.pdf''\<rparr>,
      \<lparr>reference_title = js ''xv6-riscv book Ch.7 %u00a77.3'',
       reference_description = js ''[Required] Structure of scheduler() in C'',
       reference_url = js ''https://pdos.csail.mit.edu/6.828/2023/xv6/book-riscv-rev3.pdf''\<rparr>,
      \<lparr>reference_title = js ''rCore-Tutorial %u00a73.3'',
       reference_description = js ''[Deep dive] Managing multiple programs with TaskManager'',
       reference_url = js ''https://rcore-os.cn/rCore-Tutorial-Book-v3/chapter3/3multiprogramming.html''\<rparr>]\<rparr>\<close>

section \<open>Lesson 5\<close>

definition phase2En_lesson5_section1 :: ContentSection where
  \<open>phase2En_lesson5_section1 = \<lparr>
    section_title = js ''The timing trio'',
    section_blocks = [DiagramBlock (jlines [''Machine mode (OpenSBI firmware, invisible to us)'',
          ''  %u250c%r2d2500%u2510'',
          ''  %u2502 mtime      %u2014 64-bit free-running counter    %u2502'',
          ''  %u2502 mtimecmp   %u2014 per-hart comparator (MMIO)     %u2502'',
          ''  %u2502 if mtime >= mtimecmp:                       %u2502'',
          ''  %u2502     raise M-mode timer interrupt            %u2502'',
          ''  %u2502     SBI promotes it to S-mode SupervisorTimer%u2502'',
          ''  %u2514%r2d2500%u2518'',
          ''                       %u2502'',
          ''                       %u2502 ecall from S (opcode 0x00, fid 0)'',
          ''                       %u25b2'',
          ''Supervisor mode (our kernel)'',
          ''  %u250c%r2d2500%u2510'',
          ''  %u2502 sbi::set_timer(deadline) %u2500%u2500%u25ba program mtimecmp%u2502'',
          ''  %u2502 trap_handler SupervisorTimer arm:            %u2502'',
          ''  %u2502   1) set_next_trigger()  re-arm              %u2502'',
          ''  %u2502   2) suspend_current_and_run_next()  switch  %u2502'',
          ''  %u2514%r2d2500%u2518'']),
      ParagraphBlock (jcat [''mtime and mtimecmp are M-mode-only MMIO %u2014 in S-mode we must trip through SBI. '',
          ''OpenSBI provides the standard sbi_set_timer(stime_value) call, which underneath '',
          ''updates mtimecmp and clears mip.STIP.''])]\<rparr>\<close>

definition phase2En_lesson5_section2 :: ContentSection where
  \<open>phase2En_lesson5_section2 = \<lparr>
    section_title = js ''The three enable bits'',
    section_blocks = [TableBlock [js ''Bit'',
         js ''Where'',
         js ''Role'',
         js ''When to set'']
        [[js ''sie.STIE (bit 5)'',
          js ''sie CSR'',
          js ''Allow S-mode timer IRQs to reach CPU'',
          js ''Once at boot, trap::enable_timer_interrupt()''],
         [js ''sstatus.SIE (bit 1)'',
          js ''sstatus CSR'',
          js ''Global S-mode interrupt enable (0 masks everything)'',
          js ''Indirectly on return to U-mode via SPIE%u21901''],
         [js ''sstatus.SPIE (bit 5)'',
          js ''sstatus CSR'',
          js ''Becomes SIE after sret %u2014 set in TrapContext'',
          js ''In app_init_context()''],
         [js ''sie.SEIE / SSIE'',
          js ''sie CSR'',
          js ''S-mode external / software IRQs %u2014 ignore in Phase 2'',
          js ''Later phases'']],
      CodeBlock (Some (js ''rust'')) (jlines [''pub fn enable_timer_interrupt() {'',
          ''    unsafe { sie::set_stimer(); }    // sie.STIE = 1'',
          ''}'',
          '''',
          ''// Inside app_init_context:'',
          ''let mut sstatus = sstatus::read();'',
          ''sstatus.set_spp(SPP::User);'',
          ''sstatus.set_spie(true);              // %u2190 Phase 2 new line'',
          ''                                     //   sret will copy SPIE %u2192 SIE'']),
      CalloutBlock Warning (jcat [''The relationship is the classic pitfall: stie gates "this one interrupt line"; sie '',
          ''is the S-mode global "am I interruptible" flag. Both must be 1 for the interrupt to '',
          ''actually fire. Pending in sepc but sie=0 %u2014 the IRQ sits in mip until sret's '',
          ''SPIE%u2192SIE lets it through.''])]\<rparr>\<close>

definition phase2En_lesson5_section3 :: ContentSection where
  \<open>phase2En_lesson5_section3 = \<lparr>
    section_title = js ''Two functions in timer.rs'',
    section_blocks = [CodeBlock (Some (js ''rust'')) (jlines [''use riscv::register::time;'',
          ''use crate::sbi::set_timer;'',
          ''use crate::config::CLOCK_FREQ;'',
          '''',
          ''pub const TICKS_PER_SEC: usize = 100;     // 10 ms slice'',
          '''',
          ''pub fn get_time() -> usize { time::read() }'',
          '''',
          ''pub fn set_next_trigger() {'',
          ''    let next = get_time() + CLOCK_FREQ / TICKS_PER_SEC;'',
          ''    set_timer(next as u64);               // tell SBI the next deadline'',
          ''}'']),
      ParagraphBlock (jcat [''set_timer takes an absolute mtime value (a deadline), NOT an interval. This is the '',
          ''single most common bug %u2014 writing set_timer(CLOCK_FREQ/TICKS_PER_SEC) fires '',
          ''exactly once 10 ms after boot and then never again.''])]\<rparr>\<close>

definition phase2En_lesson5_section4 :: ContentSection where
  \<open>phase2En_lesson5_section4 = \<lparr>
    section_title = js ''The new trap arm'',
    section_blocks = [CodeBlock (Some (js ''rust'')) (jlines [''#[no_mangle]'',
          ''pub fn trap_handler(cx: &mut TrapContext) -> &mut TrapContext {'',
          ''    let scause = scause::read();'',
          ''    let stval  = stval::read();'',
          ''    match scause.cause() {'',
          ''        Trap::Exception(Exception::UserEnvCall) => {'',
          ''            cx.sepc += 4;'',
          ''            cx.x[10] = syscall(cx.x[17], [cx.x[10], cx.x[11], cx.x[12]]) as usize;'',
          ''        }'',
          ''        Trap::Interrupt(Interrupt::SupervisorTimer) => {  // %u2605 new arm'',
          ''            crate::timer::set_next_trigger();             //   1) re-arm'',
          ''            crate::task::suspend_current_and_run_next();  //   2) switch'',
          ''        }'',
          ''        _ => panic!("unsupported trap {:?}, stval={:#x}", scause.cause(), stval),'',
          ''    }'',
          ''    cx'',
          ''}'']),
      CalloutBlock Info (jcat [''set_next_trigger must come first %u2014 if you switch tasks first then re-arm, the '',
          ''switched-to task may never touch this code path again (it could be a user loop that '',
          ''never traps), and preemption stops.''])]\<rparr>\<close>

definition phase2En_lesson5_section5 :: ContentSection where
  \<open>phase2En_lesson5_section5 = \<lparr>
    section_title = js ''cooperative vs preemptive'',
    section_blocks = [TableBlock [js ''Aspect'',
         js ''Cooperative (Lab 2)'',
         js ''Preemptive (Lab 3)'']
        [[js ''Trigger'',
          js ''app calls sys_yield / sys_exit'',
          js ''HW timer IRQ (every 10 ms)''],
         [js ''Can an app hog CPU?'',
          js ''yes %u2014 infinite loop starves others'',
          js ''no %u2014 yanked on next tick''],
         [js ''Kernel work required'',
          js ''TaskManager + syscall dispatch'',
          js ''+ timer.rs + SupervisorTimer arm + sie/sstatus config''],
         [js ''Who uses it in the wild'',
          js ''Windows 3.x / early Mac OS'',
          js ''every modern kernel (Linux/NT/xv6)''],
         [js ''Fairness'',
          js ''relies on app courtesy'',
          js ''worst case 1 slice behind''],
         [js ''Realtime bounds'',
          js ''unbounded'',
          js ''bounded by slice length'']]]\<rparr>\<close>

definition phase2En_lesson5_section6 :: ContentSection where
  \<open>phase2En_lesson5_section6 = \<lparr>
    section_title = js ''Common mistakes'',
    section_blocks = [ListBlock True
        [jcat [''Passing an interval to set_timer: it's mtimecmp (absolute), not "fire in %u0394t" '',
           ''%u2014 one shot and done.''],
         jcat [''Forgetting to re-arm inside the ISR: mtime eventually passes mtimecmp but we never '',
           ''updated mtimecmp %u2014 no more preemption.''],
         jcat [''Setting sie.STIE but leaving SPIE=0 in TrapContext: sret returns to user with SIE=0 '',
           ''%u2014 IRQ stays pending, never delivered.''],
         jcat [''SupervisorTimer arm calls suspend without set_next_trigger: same symptom %u2014 '',
           ''exactly one preemption.''],
         jcat [''Passing set_timer an i64 that went negative: SBI sees a deadline in the past %u2014 '',
           ''IRQ storms, CPU pinned in the ISR.'']]]\<rparr>\<close>

definition phase2En_lesson5_exercise1 :: CodeExercise where
  \<open>phase2En_lesson5_exercise1 = \<lparr>
    exercise_id = js ''lab3-timer'',
    exercise_title = js ''Lab 3a %u2b50 timer.rs'',
    exercise_description = jcat [''Implement get_time and set_next_trigger. CLOCK_FREQ lives in config.rs; QEMU virt '',
        ''reports 10_000_000.''],
    exercise_labFile = Some (js ''labs/phase_2_proc/src/timer.rs''),
    exercise_hints = [js ''riscv::register::time::read() reads mtime'',
       js ''set_timer comes from crate::sbi %u2014 an ecall wrapper'',
       js ''deadline = now + CLOCK_FREQ / TICKS_PER_SEC''],
    exercise_pseudocode = Some (jlines [''pub fn set_next_trigger() {'',
          ''    let next = get_time() + CLOCK_FREQ / TICKS_PER_SEC;'',
          ''    set_timer(next as u64);'',
          ''}''])\<rparr>\<close>

definition phase2En_lesson5_exercise2 :: CodeExercise where
  \<open>phase2En_lesson5_exercise2 = \<lparr>
    exercise_id = js ''lab3-trap'',
    exercise_title = js ''Lab 3b %u2b50%u2b50 SupervisorTimer arm'',
    exercise_description = js ''In trap/mod.rs, replace the todo!() in the match with re-arm + suspend.'',
    exercise_labFile = Some (js ''labs/phase_2_proc/src/trap/mod.rs''),
    exercise_hints = [js ''Trap::Interrupt(Interrupt::SupervisorTimer)'',
       js ''Order matters: set_next_trigger first, then suspend'',
       js ''In rust_main don't forget trap::enable_timer_interrupt() and timer::set_next_trigger()''],
    exercise_pseudocode = Some (jlines [''Trap::Interrupt(Interrupt::SupervisorTimer) => {'',
          ''    crate::timer::set_next_trigger();'',
          ''    crate::task::suspend_current_and_run_next();'',
          ''}''])\<rparr>\<close>

definition phase2En_lesson5 :: Lesson where
  \<open>phase2En_lesson5 = \<lparr>
    lesson_phaseId = 2, lesson_lessonId = 5,
    lesson_title = js ''Timer interrupts & preemption'',
    lesson_subtitle = js ''sbi_set_timer + sie.STIE + sstatus.SIE'',
    lesson_type = js ''Practice'',
    lesson_duration = js ''2 hours'',
    lesson_objectives = [js ''Understand the mtime/mtimecmp model and SBI's role'',
       js ''Configure sie.STIE + sstatus.SIE to actually receive S-timer interrupts'',
       js ''Implement set_next_trigger and the SupervisorTimer trap arm'',
       js ''Watch app_timer (which never yields) being preempted %u2014 proof of preemption''],
    lesson_sections = [phase2En_lesson5_section1,
      phase2En_lesson5_section2,
      phase2En_lesson5_section3,
      phase2En_lesson5_section4,
      phase2En_lesson5_section5,
      phase2En_lesson5_section6],
    lesson_exercises = [phase2En_lesson5_exercise1, phase2En_lesson5_exercise2],
    lesson_acceptanceCriteria = [jcat [''make qemu shows app_timer (the never-yielding app) being switched in and out %u2014 '',
         ''preemption confirmed''],
       js ''All three apps print [X done]'',
       js ''scripts/grade.py reports full marks''],
    lesson_references = [\<lparr>reference_title = js ''RISC-V Privileged Spec %u00a73.1.6 & %u00a73.1.9'',
       reference_description = js ''[Required] sie / sstatus bit layouts and IRQ delivery rules'',
       reference_url = js ''https://github.com/riscv/riscv-isa-manual/releases''\<rparr>,
      \<lparr>reference_title = js ''RISC-V SBI Specification v1.0'',
       reference_description = js ''[Required] Authoritative semantics of set_timer'',
       reference_url = js ''https://github.com/riscv-non-isa/riscv-sbi-doc''\<rparr>,
      \<lparr>reference_title = js ''OSTEP Ch.8 MLFQ'',
       reference_description = js ''[Deep dive] Beyond round-robin: multi-level feedback queue'',
       reference_url = js ''https://pages.cs.wisc.edu/~remzi/OSTEP/cpu-sched-mlfq.pdf''\<rparr>,
      \<lparr>reference_title = js ''rCore-Tutorial %u00a73.4'',
       reference_description = js ''[Deep dive] Preemptive scheduling %u2014 Chinese companion text'',
       reference_url = js ''https://rcore-os.cn/rCore-Tutorial-Book-v3/chapter3/4time-sharing-system.html''\<rparr>]\<rparr>\<close>

section \<open>The phase\<close>

definition phase2En :: PhaseContent where
  \<open>phase2En = \<lparr>
    content_phaseId = 2,
    content_color = js ''#059669'',
    content_accent = js ''#34D399'',
    content_lessons = [phase2En_lesson1, phase2En_lesson2, phase2En_lesson3, phase2En_lesson4, phase2En_lesson5]\<rparr>\<close>

section \<open>Well-formedness\<close>

lemma phase2En_lesson1_ok: "lesson_ok phase2En_lesson1"
  by (simp add: lesson_ok_def section_ok_def phase2En_lesson1_def
      phase2En_lesson1_section1_def
      phase2En_lesson1_section2_def
      phase2En_lesson1_section3_def
      phase2En_lesson1_section4_def
      phase2En_lesson1_exercise1_def)

lemma phase2En_lesson2_ok: "lesson_ok phase2En_lesson2"
  by (simp add: lesson_ok_def section_ok_def phase2En_lesson2_def
      phase2En_lesson2_section1_def
      phase2En_lesson2_section2_def
      phase2En_lesson2_section3_def
      phase2En_lesson2_section4_def
      phase2En_lesson2_exercise1_def)

lemma phase2En_lesson3_ok: "lesson_ok phase2En_lesson3"
  by (simp add: lesson_ok_def section_ok_def phase2En_lesson3_def
      phase2En_lesson3_section1_def
      phase2En_lesson3_section2_def
      phase2En_lesson3_section3_def
      phase2En_lesson3_section4_def
      phase2En_lesson3_section5_def
      phase2En_lesson3_exercise1_def)

lemma phase2En_lesson4_ok: "lesson_ok phase2En_lesson4"
  by (simp add: lesson_ok_def section_ok_def phase2En_lesson4_def
      phase2En_lesson4_section1_def
      phase2En_lesson4_section2_def
      phase2En_lesson4_section3_def
      phase2En_lesson4_section4_def
      phase2En_lesson4_section5_def
      phase2En_lesson4_exercise1_def)

lemma phase2En_lesson5_ok: "lesson_ok phase2En_lesson5"
  by (simp add: lesson_ok_def section_ok_def phase2En_lesson5_def
      phase2En_lesson5_section1_def
      phase2En_lesson5_section2_def
      phase2En_lesson5_section3_def
      phase2En_lesson5_section4_def
      phase2En_lesson5_section5_def
      phase2En_lesson5_section6_def
      phase2En_lesson5_exercise1_def
      phase2En_lesson5_exercise2_def)

lemma phase2En_lesson1_ids: "lesson_phaseId phase2En_lesson1 = 2" "lesson_lessonId phase2En_lesson1 = 1"
  by (simp_all add: phase2En_lesson1_def)

lemma phase2En_lesson2_ids: "lesson_phaseId phase2En_lesson2 = 2" "lesson_lessonId phase2En_lesson2 = 2"
  by (simp_all add: phase2En_lesson2_def)

lemma phase2En_lesson3_ids: "lesson_phaseId phase2En_lesson3 = 2" "lesson_lessonId phase2En_lesson3 = 3"
  by (simp_all add: phase2En_lesson3_def)

lemma phase2En_lesson4_ids: "lesson_phaseId phase2En_lesson4 = 2" "lesson_lessonId phase2En_lesson4 = 4"
  by (simp_all add: phase2En_lesson4_def)

lemma phase2En_lesson5_ids: "lesson_phaseId phase2En_lesson5 = 2" "lesson_lessonId phase2En_lesson5 = 5"
  by (simp_all add: phase2En_lesson5_def)

lemma phase2En_shape [site_shape]:
  "content_phaseId phase2En = 2" "length (content_lessons phase2En) = 5"
  by (simp_all add: phase2En_def)

lemma phase2En_ok [site_shape]: "content_ok phase2En"
  by (simp add: content_ok_def phase2En_def upt_rec
      phase2En_lesson1_ok phase2En_lesson2_ok phase2En_lesson3_ok phase2En_lesson4_ok phase2En_lesson5_ok
      phase2En_lesson1_ids phase2En_lesson2_ids phase2En_lesson3_ids phase2En_lesson4_ids phase2En_lesson5_ids)

end
