(* ===== verification/Phase3_ZhCN.thy ===== *)
theory Phase3_ZhCN
  imports Content_Types
begin

text \<open>
  Phase 3, concurrency and locks, in Simplified Chinese: the constant \<open>phase3ZhCN\<close> of
  \<open>website/src/data/phase3.ts\<close>, one definition per section, exercise and lesson. Below it, that the
  content is well formed.
\<close>

section \<open>Lesson 1\<close>

definition phase3ZhCN_lesson1_section1 :: ContentSection where
  \<open>phase3ZhCN_lesson1_section1 = \<lparr>
    section_title = js ''%u4f1a%u5fd8%u8bb0%u7684%u8ba1%u6570%u5668'',
    section_blocks = [ParagraphBlock (jcat [''Phase 2 %u91cc%u4f60%u5b9e%u73b0%u4e86%u62a2%u5360%u5f0f%u8c03%u5ea6%u2014%u2014'',
          ''%u65f6%u949f%u4e2d%u65ad%u53ef%u4ee5%u5728%u4efb%u4f55%u4e00%u6761%u6307%u4ee4%u4e4b'',
          ''%u95f4%u5207%u8d70%u5f53%u524d%u4efb%u52a1%u3002%u73b0%u5728%u628a%u4e24%u4e2a%u4efb'',
          ''%u52a1%u90fd%u53bb%u505a counter += 1%uff0c%u6bcf%u4eba 10000 '',
          ''%u6b21%u3002%u671f%u671b%u6700%u7ec8 counter == 20000%u3002%u771f%u5b9e%u7ed3%u679c%uff1a10002 %u5230 '',
          ''19998 %u4e4b%u95f4%u6d6e%u52a8%uff0c%u6c38%u8fdc%u51d1%u4e0d%u9f50%u3002'']),
      CodeBlock (Some (js ''asm'')) (jlines [''# counter += 1 %u5728 RISC-V %u4e0a%u5e76%u4e0d%u662f%u4e00%u6761%u6307%u4ee4%uff1a'',
          ''lw   t0, (a0)      # 1. %u8bfb counter'',
          ''addi t0, t0, 1     # 2. %u5bc4%u5b58%u5668%u91cc +1'',
          ''sw   t0, (a0)      # 3. %u5199%u56de'']),
      DiagramBlock (jlines [''counter %u521d%u503c = 5%uff0cT1 %u548c T2 %u90fd%u505a +1%uff0c%u4e00%u79cd"%u4e22%u66f4%u65b0"%u7684%u4ea4%u7ec7%uff1a'',
          '''',
          ''T1: lw  t0 <- 5       %r032500%u2510'',
          ''                         %u2502  (%u65f6%u949f%u4e2d%u65ad%uff0c%u5207%u5230 T2)'',
          ''T2: lw  t0 <- 5          %u2502'',
          ''T2: addi t0 = 6          %u2502'',
          ''T2: sw  6 -> counter     %u2502  %u2190 counter = 6'',
          ''                         %u2502  (%u5207%u56de T1)'',
          ''T1: addi t0 = 6       %r032500%u2518'',
          ''T1: sw  6 -> counter      %u2190 counter = 6 (%u800c%u4e0d%u662f 7)'',
          '''',
          ''%u4e24%u6b21 +1 %u53ea%u751f%u6548%u4e00%u6b21%u2014%u2014T2 %u7684%u5199%u88ab"%u4e22"%u4e86%u3002'']),
      CalloutBlock Warning (jcat [''%u8fd9%u79cd bug %u662f%u6d4b%u8bd5%u6781%u96be%u53d1%u73b0%u7684%u2014%u20141000 '',
          ''%u6b21%u91cc%u9519%u4e00%u6b21%u3002%u751f%u4ea7%u73af%u5883%u4e0b%u8dd1%u51e0%u5929'',
          ''%u624d%u51fa%u95ee%u9898%uff0c%u65e5%u5fd7%u91cc%u5374%u770b%u4e0d%u51fa%u4efb%u4f55'',
          ''%u5f02%u5e38%u3002%u552f%u4e00%u9760%u8c31%u7684%u89e3%u6cd5%u662f%u8ba9%u8fd9%u7c7b'',
          ''%u64cd%u4f5c%u5728%u8bed%u4e49%u4e0a%u4e0d%u53ef%u6253%u65ad%uff0c%u4e5f%u5c31%u662f'',
          ''%u539f%u5b50%u3002''])]\<rparr>\<close>

definition phase3ZhCN_lesson1_section2 :: ContentSection where
  \<open>phase3ZhCN_lesson1_section2 = \<lparr>
    section_title = js ''%u4e09%u4e2a%u5fc5%u987b%u5206%u6e05%u7684%u6982%u5ff5'',
    section_blocks = [TableBlock [js ''%u6982%u5ff5'',
         js ''%u5b9a%u4e49'',
         js ''%u5728 counter += 1 %u4f8b%u5b50%u91cc'']
        [[js ''Race condition'',
          js ''%u6b63%u786e%u6027%u4f9d%u8d56%u64cd%u4f5c%u7684%u76f8%u5bf9%u65f6%u5e8f'',
          jcat [''%u4e24%u4e2a%u4efb%u52a1%u540c%u65f6 +1%uff0c%u7ed3%u679c%u53d6%u51b3%u4e8e%u4ea4'',
            ''%u7ec7%u987a%u5e8f'']],
         [js ''%u539f%u5b50%u6027 (Atomic)'',
          js ''%u5176%u5b83 CPU/%u4efb%u52a1%u65e0%u6cd5%u89c2%u5bdf%u5230%u4e2d%u95f4%u6001'',
          jcat [''%u5355%u6761 lw/sw %u5bf9%u9f50%u5b57%u662f%u539f%u5b50%u7684%uff1blw+addi+sw '',
            ''%u4e09%u6761%u4e0d%u662f'']],
         [js ''%u4e34%u754c%u533a'',
          js ''%u8bbf%u95ee%u5171%u4eab%u72b6%u6001%u7684%u4ee3%u7801%u533a%u57df'',
          js ''%u5305%u542b counter += 1 %u8fd9%u4e09%u6761%u6307%u4ee4%u7684%u6574%u6bb5%u4ee3%u7801'']],
      CalloutBlock Info (jcat [''%u7ecf%u9a8c%u6cd5%u5219%uff1a%u4e00%u4e2a%u53d8%u91cf%u5982%u679c%u88ab%u591a%u4e2a'',
          ''%u4efb%u52a1%u540c%u65f6%u8bfb%u5199%uff0c%u8981%u4e48%u6574%u4e2a%u653e%u8fdb%u9501'',
          ''%u91cc%uff0c%u8981%u4e48%u6bcf%u6b21%u8bbf%u95ee%u90fd%u662f%u5355%u6761%u539f%u5b50'',
          ''%u6307%u4ee4%u3002%u4e24%u8005%u5fc5%u5c45%u5176%u4e00%u2014%u2014%u4e2d%u95f4%u5730'',
          ''%u5e26%u90fd%u662f bug%u3002''])]\<rparr>\<close>

definition phase3ZhCN_lesson1_section3 :: ContentSection where
  \<open>phase3ZhCN_lesson1_section3 = \<lparr>
    section_title = js ''RISC-V A %u6269%u5c55%uff1a%u786c%u4ef6%u7ed9%u7684%u539f%u5b50%u6307%u4ee4'',
    section_blocks = [ParagraphBlock (jcat [''A (Atomic) %u6269%u5c55%u7ed9%u6bcf%u6761 read-modify-write '',
          ''%u90fd%u52a0%u4e86%u4e00%u4e2a%u5355%u6307%u4ee4%u7248%u672c%uff0c%u786c%u4ef6%u4fdd%u8bc1%u5bf9%u5176%u5b83'',
          '' hart %u800c%u8a00%u8fd9%u6761%u6307%u4ee4%u662f%u4e00%u77ac%u95f4%u5b8c%u6210%u7684'',
          ''%u3002Rust %u7684 AtomicBool::compare_exchange / AtomicUsize::fetch_add '',
          ''%u5e95%u5c42%u90fd%u4f1a%u964d%u5230%u4e0b%u9762%u8fd9%u51e0%u6761%u3002'']),
      TableBlock [js ''%u6307%u4ee4'',
         js ''%u8bed%u4e49'',
         js ''%u5178%u578b%u7528%u9014'']
        [[js ''amoswap.w.aq rd,rs2,(rs1)'',
          js ''rd = *rs1;  *rs1 = rs2  (%u5e26 acquire)'',
          jcat [''SpinLock %u7684 lock%u2014%u2014%u628a 1 %u6362%u8fdb%u53bb%uff0c%u770b%u6362%u51fa'',
            ''%u7684%u662f%u4e0d%u662f 0'']],
         [js ''amoadd.w.aqrl rd,rs2,(rs1)'',
          js ''rd = *rs1;  *rs1 += rs2'',
          js ''%u539f%u5b50%u8ba1%u6570%u5668%uff0cfetch_add''],
         [js ''lr.w rd, (rs1)'',
          js ''%u52a0%u8f7d%u5e76%u5728%u8fd9%u4e2a%u5730%u5740%u4e0a%u653e%u4fdd%u7559%u4f4d'',
          js ''CAS %u5faa%u73af%u7684%u7b2c%u4e00%u6b65''],
         [js ''sc.w rd, rs2, (rs1)'',
          jcat [''%u5982%u679c%u4fdd%u7559%u4f4d%u8fd8%u5728%u5219%u5199%u5165%u5e76%u8fd4%u56de '',
            ''0%uff1b%u5426%u5219%u8fd4%u56de 1''],
          jcat [''CAS %u5faa%u73af%u7684%u7b2c%u4e8c%u6b65%uff1b%u914d%u5408 lr.w '',
            ''%u5b9e%u73b0%u65e0%u9501%u7b97%u6cd5'']],
         [js ''amocas.w (Zacas)'',
          js ''%u5355%u6307%u4ee4 compare-and-swap'',
          js ''%u8f83%u65b0%u786c%u4ef6%uff0cxv6-riscv %u4e0d%u4f9d%u8d56'']],
      CodeBlock (Some (js ''asm'')) (jlines [''# %u5178%u578b%u7684 lr/sc CAS %u5faa%u73af%uff1a%u628a *a0 %u4ece old %u6539%u6210 new'',
          ''retry:'',
          ''    lr.w   t0, (a0)        # %u8bfb%u5e76%u4fdd%u7559'',
          ''    bne    t0, a1, fail    # %u671f%u671b%u503c%u4e0d%u5bf9'',
          ''    sc.w   t1, a2, (a0)    # %u5c1d%u8bd5%u5199'',
          ''    bnez   t1, retry       # %u5982%u679c%u4fdd%u7559%u88ab%u6253%u7834%uff0c%u91cd%u6765'',
          ''fail:'']),
      CalloutBlock Tip (jcat [''amoswap %u4e00%u5b9a%u5199%uff1blr/sc %u53ef%u80fd%u4e0d%u5199%u3002%u5199%u5c11'',
          ''%u9501%u7ade%u4e89%u573a%u666f%u4e0b lr/sc %u6bd4 amoswap '',
          ''%u7701%u4e00%u6b21%u7f13%u5b58%u884c ping-pong%u2014%u2014%u4f46 RISC-V %u89c4%u8303%u89c4%u5b9a sc '',
          ''%u4e4b%u95f4%u6700%u591a 16 %u6761%u6307%u4ee4%uff0c%u8d85%u8fc7%u5c31%u4f1a%u6c38%u8fdc'',
          ''%u5931%u8d25%u3002%u6240%u4ee5%u5faa%u73af%u4f53%u8981%u77ed%u3002''])]\<rparr>\<close>

definition phase3ZhCN_lesson1_section4 :: ContentSection where
  \<open>phase3ZhCN_lesson1_section4 = \<lparr>
    section_title = js ''%u5185%u5b58%u5e8f%uff1aAcquire / Release / SeqCst'',
    section_blocks = [ParagraphBlock (jcat [''%u539f%u5b50%u6027%u53ea%u4fdd%u8bc1%u201c%u8fd9%u6761%u6307%u4ee4%u4e0d%u4f1a%u88ab'',
          ''%u6495%u5f00%u201d%uff0c%u4f46%u7f16%u8bd1%u5668%u548c%u4e71%u5e8f CPU '',
          ''%u8fd8%u4f1a%u642c%u52a8%u5b83%u524d%u540e%u7684%u666e%u901a%u8bbf%u5b58%u3002Rust '',
          ''%u91cc%u6bcf%u4e2a atomic %u64cd%u4f5c%u90fd%u8981%u6307%u5b9a '',
          ''Ordering%uff0c%u544a%u8bc9%u4f18%u5316%u5668%u54ea%u4e9b%u642c%u52a8%u662f%u5141%u8bb8%u7684%u3002'']),
      TableBlock [js ''Ordering'',
         js ''%u6548%u679c'',
         js ''%u4f55%u65f6%u7528'']
        [[js ''Relaxed'',
          jcat [''%u53ea%u4fdd%u8bc1%u8fd9%u6761%u6307%u4ee4%u672c%u8eab%u539f%u5b50%uff1b%u524d%u540e'',
            ''%u53ef%u968f%u610f%u91cd%u6392''],
          js ''%u7eaf%u8ba1%u6570%u5668%u3001%u7edf%u8ba1%u503c''],
         [js ''Acquire'',
          js ''%u8fd9%u6761%u4e4b%u540e%u7684%u8bfb%u5199%u4e0d%u80fd%u91cd%u6392%u5230%u5b83%u4e4b%u524d'',
          jcat [''lock() %u6210%u529f%u90a3%u4e00%u523b%u2014%u2014%u4e4b%u540e%u8bfb%u5171%u4eab'',
            ''%u6570%u636e%u624d%u5b89%u5168'']],
         [js ''Release'',
          js ''%u8fd9%u6761%u4e4b%u524d%u7684%u8bfb%u5199%u4e0d%u80fd%u91cd%u6392%u5230%u5b83%u4e4b%u540e'',
          jcat [''unlock()%u2014%u2014%u4e34%u754c%u533a%u5199%u5fc5%u987b%u5728%u91ca%u653e%u524d'',
            ''%u5bf9%u5176%u4ed6%u6838%u53ef%u89c1'']],
         [js ''AcqRel'',
          js ''Acquire + Release%uff08%u53ea%u5bf9 RMW %u6709%u610f%u4e49%uff09'',
          js ''compare_exchange %u7684 success %u5e8f''],
         [js ''SeqCst'',
          js ''%u6240%u6709 SeqCst %u64cd%u4f5c%u6709%u5168%u5c40%u552f%u4e00%u603b%u5e8f'',
          jcat [''%u4e0d%u60f3%u60f3%u6e05%u695a%u65f6%u7684%u5b89%u5168%u515c%u5e95%uff0c%u6027%u80fd'',
            ''%u6700%u5dee'']]],
      CalloutBlock Warning (jcat [''Lab 1 %u91cc%u6700%u5e38%u89c1%u7684 bug %u662f lock() CAS %u7528 '',
          ''Relaxed%u2014%u2014%u7f16%u8bd1%u5668%u4f1a%u628a%u53d7%u4fdd%u62a4%u7684 counter %u8bfb hoist '',
          ''%u5230 CAS %u4e4b%u524d%uff0c%u7ed3%u679c%u4f60%u62ff%u5230%u9501%u4e4b%u524d%u5c31'',
          ''%u5df2%u7ecf%u8bfb%u4e86%u810f%u6570%u636e%u3002%u8bb0%u5fc6%u53e3%u8bc0%uff1a%u53d6'',
          ''%u9501%u7528 Acquire%uff0c%u653e%u9501%u7528 Release%u3002''])]\<rparr>\<close>

definition phase3ZhCN_lesson1_exercise1 :: CodeExercise where
  \<open>phase3ZhCN_lesson1_exercise1 = \<lparr>
    exercise_id = js ''lab-race-demo'',
    exercise_title = js ''%u5b9e%u9a8c%uff1a%u590d%u73b0 lost update'',
    exercise_description = jcat [''%u5728 phase_2 %u7684%u62a2%u5360%u5f0f%u8c03%u5ea6%u4e0a%u8dd1%u4e24%u4e2a task '',
        ''%u5404%u505a counter += 1 %u5341%u4e07%u6b21%uff0c%u6253%u5370%u6700%u7ec8%u503c'',
        ''%u3002%u591a%u8dd1%u51e0%u6b21%u89c2%u5bdf%u6296%u52a8%uff0c%u518d%u628a counter '',
        ''%u6362%u6210 AtomicUsize::fetch_add %u770b%u7ed3%u679c%u7a33%u5b9a%u4e3a '',
        ''200000%u3002''],
    exercise_labFile = Some (js ''labs/phase_3_sync/src/sync/spin.rs''),
    exercise_hints = [js ''%u5148%u4e0d%u52a0%u9501%u3001%u4e0d%u7528 Atomic%u2014%u2014%u76f4%u63a5%u770b race'',
       jcat [''%u518d%u7528 core::sync::atomic::AtomicUsize %u6539 '',
         ''fetch_add%uff0cOrdering::Relaxed %u5c31%u591f%u4e86''],
       jcat [''%u53cd%u6c47%u7f16 counter += 1 %u7684%u7248%u672c%uff0c%u770b lw/addi/sw '',
         ''%u4e09%u6761%u6307%u4ee4%u2014%u2014%u4eb2%u773c%u770b%u5230%u624d%u8bb0%u5f97%u4f4f'']],
    exercise_pseudocode = Some (jlines [''// race %u7248%u672c'',
          ''static mut COUNTER: usize = 0;'',
          ''for _ in 0..100_000 { unsafe { COUNTER += 1; } }'',
          '''',
          ''// atomic %u7248%u672c'',
          ''static COUNTER: AtomicUsize = AtomicUsize::new(0);'',
          ''for _ in 0..100_000 { COUNTER.fetch_add(1, Ordering::Relaxed); }''])\<rparr>\<close>

definition phase3ZhCN_lesson1 :: Lesson where
  \<open>phase3ZhCN_lesson1 = \<lparr>
    lesson_phaseId = 3, lesson_lessonId = 1,
    lesson_title = js ''Phase 3 %u5bfc%u8bfb%uff1arace condition %u4e0e%u539f%u5b50%u6307%u4ee4'',
    lesson_subtitle = js ''%u4ece%u4e22%u5931%u66f4%u65b0%u5230 RISC-V A %u6269%u5c55'',
    lesson_type = js ''Concept'',
    lesson_duration = js ''1.5 hours'',
    lesson_objectives = [jcat [''%u7528%u4e00%u4e2a counter += 1 %u7684%u4f8b%u5b50%u8fd8%u539f lost update '',
         ''%u662f%u600e%u4e48%u53d1%u751f%u7684''],
       jcat [''%u7406%u89e3%u539f%u5b50%u6027%u3001%u4e34%u754c%u533a%u3001race condition '',
         ''%u4e09%u4e2a%u6982%u5ff5%u7684%u7cbe%u786e%u542b%u4e49''],
       jcat [''%u638c%u63e1 RISC-V A %u6269%u5c55%u7684%u4e09%u6761%u6838%u5fc3%u6307%u4ee4%uff1aam'',
         ''oswap.w / lr.w / sc.w''],
       jcat [''%u77e5%u9053 Rust %u5185%u5b58%u5e8f Acquire / Release / SeqCst '',
         ''%u4f55%u65f6%u7528%u54ea%u4e2a'']],
    lesson_sections = [phase3ZhCN_lesson1_section1,
      phase3ZhCN_lesson1_section2,
      phase3ZhCN_lesson1_section3,
      phase3ZhCN_lesson1_section4],
    lesson_exercises = [phase3ZhCN_lesson1_exercise1],
    lesson_acceptanceCriteria = [jcat [''%u80fd%u7528 counter += 1 %u7684%u4f8b%u5b50%u5411%u522b%u4eba%u753b%u51fa%u4e22'',
         ''%u66f4%u65b0%u7684%u65f6%u5e8f%u56fe''],
       jcat [''%u80fd%u8bf4%u51fa amoswap %u548c lr/sc %u7684%u533a%u522b%u4ee5%u53ca%u5404%u81ea'',
         ''%u9002%u7528%u573a%u666f''],
       js ''%u80fd%u89e3%u91ca%u4e3a%u4ec0%u4e48 lock %u7528 Acquire%u3001unlock %u7528 Release''],
    lesson_references = [\<lparr>reference_title = js ''xv6-riscv book Ch. 6'',
       reference_description = jcat [''[%u5fc5%u8bfb] Locking%u2014%u2014%u4ece race %u5230 spinlock '',
          ''%u7684%u6700%u7ecf%u5178%u8bb2%u89e3''],
       reference_url = js ''https://pdos.csail.mit.edu/6.828/2023/xv6/book-riscv-rev3.pdf''\<rparr>,
      \<lparr>reference_title = js ''OSTEP Ch. 28'',
       reference_description = js ''[%u5fc5%u8bfb] Locks%u2014%u2014%u6982%u5ff5%u5c42%u9762%u7684%u6743%u5a01%u6559%u6750'',
       reference_url = js ''https://pages.cs.wisc.edu/~remzi/OSTEP/threads-locks.pdf''\<rparr>,
      \<lparr>reference_title = js ''RISC-V A Extension Spec'',
       reference_description = js ''[%u6df1%u5165%u9605%u8bfb] amoswap / lr.w / sc.w %u7684%u6743%u5a01%u5b9a%u4e49'',
       reference_url = js ''https://github.com/riscv/riscv-isa-manual/releases''\<rparr>]\<rparr>\<close>

section \<open>Lesson 2\<close>

definition phase3ZhCN_lesson2_section1 :: ContentSection where
  \<open>phase3ZhCN_lesson2_section1 = \<lparr>
    section_title = js ''%u6570%u636e%u7ed3%u6784%u4e0e%u72b6%u6001%u673a'',
    section_blocks = [ParagraphBlock (jcat [''SpinLock %u5c31%u662f%u4e00%u4e2a%u5b57%u8282%u2014%u2014locked: '',
          ''AtomicBool%u2014%u2014%u52a0%u4e0a%u88ab%u4fdd%u62a4%u7684%u6570%u636e%u3002lock() '',
          ''%u81ea%u65cb%u5230%u628a false CAS %u6210 true%uff1bunlock() %u5b58 false %u56de%u53bb%u3002'']),
      DiagramBlock (jlines [''  %u250c%r0e2500%u2510   lock() CAS(false -> true) %u6210%u529f   %u250c%r0e2500%u2510'',
          ''  %u2502    FREE      %u2502 %r212500%u25b6 %u2502    HELD      %u2502'',
          ''  %u2502 locked=false %u2502                                    %u2502 locked=true  %u2502'',
          ''  %u2502 irq %u672a%u53d8     %u2502                                    %u2502 irq %u5df2%u5173     %u2502'',
          ''  %u2514%r0e2500%u2518 %u25c0%r052500 unlock() store(false) %r052500 %u2514%r0e2500%u2518'',
          ''        %u25b2                                                     %u2502'',
          ''        %u2502                                                     %u2502'',
          ''        %u2514%r082500 %u522b%u7684%u6838/%u4efb%u52a1 CAS %u5931%u8d25%uff0c%u539f%u5730%u81ea%u65cb %u25c0%r0c2500%u2518'']),
      CodeBlock (Some (js ''rust'')) (jlines [''pub struct SpinLock<T> {'',
          ''    locked: AtomicBool,'',
          ''    data:   UnsafeCell<T>,'',
          ''}'',
          ''pub struct SpinLockGuard<'a, T> {'',
          ''    lock:      &'a SpinLock<T>,'',
          ''    irq_saved: bool,      // %u8fdb%u5165%u524d sstatus.SIE %u7684%u503c'',
          ''}'',
          ''unsafe impl<T: Send> Sync for SpinLock<T> {}''])]\<rparr>\<close>

definition phase3ZhCN_lesson2_section2 :: ContentSection where
  \<open>phase3ZhCN_lesson2_section2 = \<lparr>
    section_title = js ''%u4e3a%u4ec0%u4e48%u5355%u6838%u4e5f%u5fc5%u987b%u5173%u4e2d%u65ad'',
    section_blocks = [ParagraphBlock (jcat [''%u591a%u6838%u4e0b%u5173%u4e2d%u65ad%u662f%u4e3a%u4e86%u9632%u6b62%u4e2d%u65ad%u5904'',
          ''%u7406%u7a0b%u5e8f%u91cd%u5165%u540c%u4e00%u628a%u9501%u2014%u2014%u8fd9%u70b9%u597d'',
          ''%u7406%u89e3%u3002%u4f46%u5355%u6838%u5462%uff1f%u76f4%u89c9%u4e0a%u201c%u53cd%u6b63'',
          ''%u53ea%u6709%u4e00%u4e2a CPU%uff0c%u540c%u4e00%u65f6%u523b%u53ea%u6709%u4e00%u4e2a'',
          ''%u4efb%u52a1%u5728%u8dd1%u201d%uff0c%u4e3a%u4ec0%u4e48%u8fd8%u8981%u5173%uff1f'']),
      DiagramBlock (jlines [''hart 0:'',
          ''  L.lock()           %u2190 locked %u53d8 true'',
          ''  ... %u4e34%u754c%u533a ...'',
          ''                     %u2190 %u65f6%u949f%u4e2d%u65ad%uff01'',
          ''  trap_handler:'',
          ''    scheduler %u628a%u4efb%u52a1 T2 %u8c03%u5ea6%u4e0a%u6765'',
          ''    T2 %u91cc%u67d0%u5904%u4e5f%u8c03%u7528 L.lock()'',
          ''                     %u2190 %u81ea%u65cb%u7b49 locked %u53d8 false'',
          ''                     %u2190 %u4f46%u539f%u5148%u6301%u9501%u7684%u4efb%u52a1 T1 %u6c38%u8fdc%u6ca1%u673a%u4f1a%u7ee7%u7eed%u8dd1'',
          ''                     %u2190 hart 0 %u5bf9%u81ea%u5df1%u6b7b%u9501%u4e86'']),
      CalloutBlock Warning (jcat [''%u8fd9%u53eb%u201c%u81ea%u9501%u201d(self-deadlock)%u2014%u2014%u548c%u591a%u6838'',
          ''%u6b7b%u9501%u4e0d%u540c%uff0c%u5355%u6838%u5355%u4efb%u52a1%u5c31%u80fd%u590d%u73b0'',
          ''%u3002xv6 %u7528%u4e00%u5bf9%u51fd%u6570 push_off/pop_off '',
          ''%u8ba1%u6570%u5f0f%u5730%u5173/%u5f00%u4e2d%u65ad%uff0c%u5141%u8bb8%u5d4c%u5957%u3002%u6211%u4eec%u7684 '',
          ''Rust %u7248%u7528 RAII guard %u7684 irq_saved '',
          ''%u5b57%u6bb5%u8bb0%u5f55%u4e0a%u4e0b%u6587%u3002'']),
      CodeBlock (Some (js ''rust'')) (jlines [''impl<T> SpinLock<T> {'',
          ''    pub fn lock(&self) -> SpinLockGuard<'_, T> {'',
          ''        let saved = disable_and_save_intr();           // %u2460 %u5148%u5173%u4e2d%u65ad'',
          ''        while self.locked'',
          ''            .compare_exchange(false, true,'',
          ''                              Ordering::Acquire,       // %u2461 %u5173%u952e'',
          ''                              Ordering::Relaxed)'',
          ''            .is_err()'',
          ''        {'',
          ''            core::hint::spin_loop();                   // %u2462 pause %u63d0%u793a'',
          ''        }'',
          ''        SpinLockGuard { lock: self, irq_saved: saved }'',
          ''    }'',
          ''}'',
          ''impl<T> Drop for SpinLockGuard<'_, T> {'',
          ''    fn drop(&mut self) {'',
          ''        self.lock.locked.store(false, Ordering::Release);  // %u2463 %u5148%u653e%u9501'',
          ''        restore_intr(self.irq_saved);                      // %u2464 %u518d%u6062%u590d%u4e2d%u65ad'',
          ''    }'',
          ''}''])]\<rparr>\<close>

definition phase3ZhCN_lesson2_section3 :: ContentSection where
  \<open>phase3ZhCN_lesson2_section3 = \<lparr>
    section_title = js ''%u4e09%u4e2a%u6700%u81f4%u547d%u7684 bug'',
    section_blocks = [TableBlock [js ''%u9519%u8bef'',
         js ''%u75c7%u72b6'',
         js ''%u6839%u56e0'']
        [[js ''drop %u91cc%u5148 restore_intr %u540e store'',
          js ''%u6781%u4f4e%u6982%u7387%u6b7b%u9501%u6216%u6570%u636e%u9519%u4e71'',
          jcat [''%u4e34%u754c%u533a%u5199%u8fd8%u6ca1%u5bf9%u5916%u53ef%u89c1%u65f6%u5c31%u5f00%u4e86'',
            ''%u4e2d%u65ad%uff0cirq %u5904%u7406%u7a0b%u5e8f%u770b%u5230%u65e7%u6570%u636e'']],
         [js ''CAS %u7528 Relaxed %u7684 success %u5e8f'',
          js ''%u538b%u529b%u6d4b%u8bd5%u4e0b%u5076%u53d1%u810f%u8bfb'',
          js ''%u53d7%u4fdd%u62a4%u6570%u636e%u8bfb%u88ab hoist %u5230 CAS %u4e4b%u524d''],
         [js ''%u5fd8%u4e86 core::hint::spin_loop()'',
          js ''%u529f%u80fd%u6b63%u786e%u4f46%u70ed%u5ea6%u62c9%u6ee1%u3001%u522b%u7684%u6838%u997f%u6b7b'',
          jcat [''%u73b0%u4ee3 CPU %u9700%u8981 pause %u63d0%u793a%u624d%u80fd%u8ba9%u51fa%u6d41%u6c34'',
            ''%u7ebf%u7ed9%u540c%u6838%u5144%u5f1f hart'']]],
      CalloutBlock Tip (jcat [''Rust %u7684 Drop + %u501f%u7528%u68c0%u67e5%u5668%u8ba9%u4f60%u201c%u4e0d%u53ef'',
          ''%u80fd%u5fd8%u8bb0%u89e3%u9501%u201d%u2014%u2014%u53ea%u8981%u4f60%u4e0d '',
          ''mem::forget(guard)%u3002%u5bf9%u6bd4 C %u91cc xv6 %u624b%u5199%u7684 '',
          ''acquire/release%uff0c%u80fd%u5426%u914d%u5bf9%u5168%u9760%u5ba1%u8ba1%uff0c%u5c11%u4e86%u4e00%u6b21 '',
          ''release %u5c31%u662f%u6c38%u4e45%u6b7b%u9501%u3002''])]\<rparr>\<close>

definition phase3ZhCN_lesson2_section4 :: ContentSection where
  \<open>phase3ZhCN_lesson2_section4 = \<lparr>
    section_title = js ''RAII guard %u7684%u4e00%u70b9%u54f2%u5b66'',
    section_blocks = [CodeBlock (Some (js ''rust'')) (jlines [''// %u597d%u7684%u7528%u6cd5%uff1aguard %u7684%u751f%u547d%u5468%u671f = %u4e34%u754c%u533a'',
          ''{'',
          ''    let mut g = lock.lock();'',
          ''    *g += 1;'',
          ''}   // %u2190 guard drop%uff0c%u81ea%u52a8%u89e3%u9501'',
          ''// lock %u5df2%u91ca%u653e%uff0c%u7ee7%u7eed%u4e0b%u9762%u7684%u4ee3%u7801'',
          '''',
          ''// %u574f%u7684%u7528%u6cd5%uff1a%u4e34%u754c%u533a%u6bd4%u9884%u671f%u957f'',
          ''let mut g = lock.lock();'',
          ''*g += 1;'',
          ''some_slow_io();                 // %u2605 %u9501%u8fd8%u6301%u6709%u7740'',
          ''*g -= 1;'']),
      ParagraphBlock (jcat [''RAII %u628a%u201c%u9501%u7684%u6709%u6548%u671f = '',
          ''%u53d8%u91cf%u7684%u751f%u547d%u5468%u671f%u201d%u8fd9%u4e00%u4e0d%u53d8%u5f0f%u4ea4%u7ed9%u7f16%u8bd1%u5668%u4fdd'',
          ''%u8bc1%u3002%u4ee3%u4ef7%u662f%u4f60%u5fc5%u987b%u4e3b%u52a8%u8ba9%u53d8%u91cf '',
          ''drop%u2014%u2014%u7528 { } %u5212%u5b9a%u4f5c%u7528%u57df%u6216%u663e%u5f0f '',
          ''drop(g)%u3002SpinLock %u8981%u6c42%u4e34%u754c%u533a%u6781%u77ed%uff08%u51e0%u5fae%u79d2'',
          ''%uff09%uff0c%u6240%u4ee5%u8fd9%u79cd%u63a7%u5236%u7c92%u5ea6%u5f88%u91cd%u8981%u3002''])]\<rparr>\<close>

definition phase3ZhCN_lesson2_exercise1 :: CodeExercise where
  \<open>phase3ZhCN_lesson2_exercise1 = \<lparr>
    exercise_id = js ''lab-spinlock'',
    exercise_title = js ''Lab 1 %u2b50 %u5b9e%u73b0 SpinLock<T>'',
    exercise_description = jcat [''%u5728 src/sync/spin.rs %u91cc%u5b9e%u73b0 SpinLock::lock / try_lock / raw_unlock '',
        ''%u548c SpinLockGuard::drop%u3002%u6587%u4ef6%u91cc%u5df2%u6709%u9aa8%u67b6%u548c '',
        ''HINT %u6ce8%u91ca%u3002''],
    exercise_labFile = Some (js ''labs/phase_3_sync/src/sync/spin.rs''),
    exercise_hints = [jcat [''lock() %u5148%u5173%u4e2d%u65ad%u518d CAS%u2014%u2014%u987a%u5e8f%u53cd%u4e86%u4f1a'',
         ''%u5728%u5f00%u4e2d%u65ad%u90a3%u4e00%u77ac%u95f4%u88ab%u62a2%u5360''],
       js ''drop() %u5148 store(false, Release) %u518d restore_intr'',
       jcat [''%u7528 compare_exchange_weak %u505a%u5faa%u73af%uff0c%u5141%u8bb8 spurious '',
         ''fail%uff0c%u6027%u80fd%u66f4%u597d''],
       jcat [''try_lock %u4e0d%u81ea%u65cb%u2014%u2014%u4e00%u6b21 CAS '',
         ''%u5931%u8d25%u5c31%u8fd4%u56de None'']],
    exercise_pseudocode = Some (jlines [''fn lock(&self) -> Guard<'_, T> {'',
          ''    let saved = disable_intr();'',
          ''    loop {'',
          ''        match self.locked.compare_exchange_weak('',
          ''            false, true, Acquire, Relaxed)'',
          ''        {'',
          ''            Ok(_) => return Guard { lock: self, irq_saved: saved },'',
          ''            Err(_) => hint::spin_loop(),'',
          ''        }'',
          ''    }'',
          ''}'',
          ''fn drop(&mut self) {'',
          ''    self.lock.locked.store(false, Release);'',
          ''    restore_intr(self.irq_saved);'',
          ''}''])\<rparr>\<close>

definition phase3ZhCN_lesson2 :: Lesson where
  \<open>phase3ZhCN_lesson2 = \<lparr>
    lesson_phaseId = 3, lesson_lessonId = 2,
    lesson_title = js ''SpinLock%uff1a%u539f%u5b50 flag + %u5173%u4e2d%u65ad'',
    lesson_subtitle = js ''%u6700%u7b80%u5355%u4f46%u6700%u57fa%u7840%u7684%u9501'',
    lesson_type = js ''Lab'',
    lesson_duration = js ''2 hours'',
    lesson_objectives = [jcat [''%u7528 AtomicBool + compare_exchange %u5b9e%u73b0%u4e00%u4e2a%u6b63%u786e%u7684 '',
         ''SpinLock<T>''],
       jcat [''%u7406%u89e3%u4e3a%u4ec0%u4e48%u5355%u5904%u7406%u5668%u4e5f%u8981%u5173%u4e2d%u65ad'',
         ''%u2014%u2014%u5426%u5219 irq %u91cc%u62ff%u540c%u4e00%u628a%u9501%u5c31%u4f1a%u81ea'',
         ''%u9501''],
       jcat [''%u7528 RAII guard %u8ba9 unlock %u5728 drop '',
         ''%u65f6%u81ea%u52a8%u6267%u884c%uff0c%u907f%u514d%u5fd8%u8bb0%u91ca%u653e''],
       jcat [''%u5199%u51fa%u6b63%u786e%u7684 drop %u987a%u5e8f%uff1a%u5148%u653e%u9501%u3001%u518d'',
         ''%u5f00%u4e2d%u65ad'']],
    lesson_sections = [phase3ZhCN_lesson2_section1,
      phase3ZhCN_lesson2_section2,
      phase3ZhCN_lesson2_section3,
      phase3ZhCN_lesson2_section4],
    lesson_exercises = [phase3ZhCN_lesson2_exercise1],
    lesson_acceptanceCriteria = [jcat [''cargo test sync::spin %u5168%u90e8%u901a%u8fc7%uff08%u591a%u7ebf%u7a0b stress test '',
         ''%u542b 100k %u6b21 fetch_add%uff09''],
       jcat [''%u80fd%u56de%u7b54%uff1a%u5355%u6838%u4e3a%u4ec0%u4e48%u8981%u5173%u4e2d%u65ad%uff1f'',
         ''drop %u987a%u5e8f%u4e3a%u4ec0%u4e48%u4e0d%u80fd%u53cd%uff1f''],
       jcat [''%u4f1a%u7528 compare_exchange_weak %u914d%u5faa%u73af%uff0c%u77e5%u9053%u5b83%u548c '',
         ''_strong %u7684%u533a%u522b'']],
    lesson_references = [\<lparr>reference_title = js ''xv6-riscv book %u00a76.3'',
       reference_description = js ''[%u5fc5%u8bfb] Code: Locks%u2014%u2014push_off/pop_off %u7684%u7ecf%u5178%u5b9e%u73b0'',
       reference_url = js ''https://pdos.csail.mit.edu/6.828/2023/xv6/book-riscv-rev3.pdf''\<rparr>,
      \<lparr>reference_title = js ''OSTEP Ch. 28 %u00a728.10'',
       reference_description = js ''[%u5fc5%u8bfb] Spin Locks with Test-and-Set / CAS'',
       reference_url = js ''https://pages.cs.wisc.edu/~remzi/OSTEP/threads-locks.pdf''\<rparr>,
      \<lparr>reference_title = js ''Rust std::sync::atomic'',
       reference_description = jcat [''[%u6df1%u5165%u9605%u8bfb] Ordering %u5404%u53d8%u4f53%u7684%u5b98%u65b9%u89e3%u91ca'',
          ''%uff0c%u542b examples''],
       reference_url = js ''https://doc.rust-lang.org/std/sync/atomic/''\<rparr>]\<rparr>\<close>

section \<open>Lesson 3\<close>

definition phase3ZhCN_lesson3_section1 :: ContentSection where
  \<open>phase3ZhCN_lesson3_section1 = \<lparr>
    section_title = js ''%u81ea%u65cb%u8fd8%u662f%u7761%uff1f%u4e00%u5f20%u8868%u8bf4%u6e05'',
    section_blocks = [TableBlock [js ''%u7ef4%u5ea6'',
         js ''SpinLock'',
         js ''SleepLock'']
        [[js ''%u4e34%u754c%u533a%u957f%u5ea6'',
          js ''< %u51e0%u5fae%u79d2%uff0c%u51e0%u5341%u6761%u6307%u4ee4'',
          js ''%u53ef%u4ee5%u51e0%u6beb%u79d2%u5230%u51e0%u79d2''],
         [js ''%u6301%u9501%u65f6%u80fd%u5426%u7761%uff1f'',
          js ''%u7edd%u5bf9%u4e0d%u80fd%u2014%u2014%u4f1a%u6b7b%u9501%u8c03%u5ea6%u5668'',
          js ''%u53ef%u4ee5%u2014%u2014%u672c%u8eab%u5c31%u662f%u963b%u585e%u539f%u8bed''],
         [js ''%u4e2d%u65ad%u4e0a%u4e0b%u6587%u53ef%u7528%uff1f'',
          js ''%u53ef%u4ee5%uff08%u4f46%u8981%u5173%u672c%u5730%u4e2d%u65ad%uff09'',
          js ''%u4e0d%u53ef%u4ee5%u2014%u2014%u4e2d%u65ad%u91cc%u4e0d%u80fd yield''],
         [js ''%u62a2%u5360%uff1f'',
          js ''%u6301%u9501%u671f%u95f4%u5173%u4e2d%u65ad%u963b%u6b62%u62a2%u5360'',
          js ''%u6301%u9501%u671f%u95f4%u53ef%u88ab%u62a2%u5360''],
         [js ''CPU %u5f00%u9500'',
          js ''%u7b49%u5f85%u65f6 100%25 CPU %u81ea%u65cb'',
          js ''%u7b49%u5f85%u65f6%u8ba9%u51fa CPU%uff0c0 %u5f00%u9500''],
         [js ''%u5178%u578b%u7528%u9014'',
          js ''%u4fdd%u62a4%u94fe%u8868%u5934%u3001bump %u8ba1%u6570%u5668'',
          js ''%u78c1%u76d8 I/O%u3001%u7f51%u7edc%u3001%u53ef%u80fd%u6269%u5bb9%u7684%u5806%u5206%u914d'']],
      CalloutBlock Info (jcat [''%u7ecf%u9a8c%u6cd5%u5219%uff1a%u5982%u679c%u4e34%u754c%u533a%u5305%u542b%u4efb%u4f55'',
          ''%u53ef%u80fd%u8ba9%u51fa CPU %u7684%u8c03%u7528%uff08I/O%u3001%u53ef%u80fd%u89e6'',
          ''%u53d1 panic %u7684%u5206%u914d%u3001%u5d4c%u5957%u52a0%u9501%uff09%uff0c%u5c31'',
          ''%u5fc5%u987b%u7528 SleepLock%u3002SpinLock %u91cc%u8c03%u5ea6 = %u5fc5%u6b7b%u3002''])]\<rparr>\<close>

definition phase3ZhCN_lesson3_section2 :: ContentSection where
  \<open>phase3ZhCN_lesson3_section2 = \<lparr>
    section_title = js ''%u6570%u636e%u7ed3%u6784'',
    section_blocks = [CodeBlock (Some (js ''rust'')) (jlines [''pub struct SleepLock<T> {'',
          ''    inner: SpinLock<SleepLockInner<T>>,   // %u2190 %u5185%u5c42 SpinLock %u4fdd%u62a4%u5143%u6570%u636e'',
          ''}'',
          ''struct SleepLockInner<T> {'',
          ''    locked:     bool,'',
          ''    wait_queue: VecDeque<TaskHandle>,     // %u7b49%u5f85%u4efb%u52a1%u7684%u53e5%u67c4'',
          ''    data:       T,                        // %u88ab%u4fdd%u62a4%u7684%u6570%u636e'',
          ''}'']),
      CalloutBlock Warning (jcat [''%u6ce8%u610f%u5d4c%u5957%uff1aSleepLock %u5185%u90e8%u7684 wait_queue '',
          ''%u672c%u8eab%u4e5f%u662f%u5171%u4eab%u72b6%u6001%uff0c%u9700%u8981%u4e00%u628a%u9501%u2014%u2014'',
          ''%u4f46%u8fd9%u628a%u201c%u5185%u9501%u201d%u4e0d%u80fd%u518d%u662f '',
          ''SleepLock%uff08%u65e0%u9650%u9012%u5f52%uff09%uff0c%u5fc5%u987b%u662f '',
          ''SpinLock%u3002%u6301%u5185%u5c42 SpinLock %u7684%u65f6%u95f4%u6781%u77ed%uff0c%u53ea%u591f%u64cd%u4f5c%u961f'',
          ''%u5217%u3002''])]\<rparr>\<close>

definition phase3ZhCN_lesson3_section3 :: ContentSection where
  \<open>phase3ZhCN_lesson3_section3 = \<lparr>
    section_title = js ''lock %u4e0e unlock %u7684%u65f6%u5e8f'',
    section_blocks = [DiagramBlock (jlines [''lock() %u2500%u2500%u252c%r042500 inner.lock()'',
          ''         %u2502      if !locked:                    %u2190 %u5e78%u8fd0%u8def%u5f84'',
          ''         %u2502          locked = true'',
          ''         %u2502          drop inner guard'',
          ''         %u2502          return'',
          ''         %u2502'',
          ''         %u2514%r042500 else:'',
          ''                  %u628a self push %u8fdb wait_queue'',
          ''                  drop inner guard'',
          ''                  sched::block_current()       %u2190 %u8ba9%u51fa CPU'',
          ''                  (%u5524%u9192%u65f6%u8fd4%u56de%uff0c%u5df2%u6301%u9501)'',
          '''',
          ''unlock() %r042500inner.lock()'',
          ''              if wait_queue %u975e%u7a7a:'',
          ''                  waiter = pop_front()'',
          ''                  // locked %u4fdd%u6301%u4e3a true%uff01'',
          ''                  drop inner guard'',
          ''                  sched::wake(waiter)          %u2190 %u76f4%u63a5%u4ea4%u63a5'',
          ''              else:'',
          ''                  locked = false'',
          ''                  drop inner guard'']),
      CalloutBlock Tip (jcat [''%u5173%u952e%u8bbe%u8ba1%uff1aunlock %u53d1%u73b0%u6709%u7b49%u5f85%u8005%u65f6 '',
          ''**%u4e0d%u6e05 locked %u4f4d**%uff0c%u800c%u662f%u628a%u9501%u201c%u76f4%u63a5%u4ea4'',
          ''%u63a5%u201d%u7ed9%u88ab%u5524%u9192%u7684%u4efb%u52a1%u3002%u5982%u679c%u5148%u6e05'',
          '' locked %u518d%u5524%u9192%uff0c%u7b2c%u4e09%u4e2a%u4efb%u52a1%u53ef%u80fd%u63d2'',
          ''%u961f CAS %u6210%u529f%u5077%u8d70%u9501%uff0c%u88ab%u5524%u9192%u7684 waiter '',
          ''%u9192%u6765%u53d1%u73b0%u9501%u88ab%u5077%u4e86%u2014%u2014%u8fd8%u5f97%u518d%u7761'',
          ''%u4e00%u6b21%u3002''])]\<rparr>\<close>

definition phase3ZhCN_lesson3_section4 :: ContentSection where
  \<open>phase3ZhCN_lesson3_section4 = \<lparr>
    section_title = js ''producer-consumer%uff1aSleepLock %u7684%u5178%u578b%u5ba2%u6237'',
    section_blocks = [CodeBlock (Some (js ''rust'')) (jlines [''// %u6709%u754c%u73af%u5f62%u7f13%u51b2%u533a'',
          ''static BUF:   SleepLock<RingBuf<u8>>   = ...;'',
          ''static EMPTY: Semaphore = Semaphore::new(N as isize);   // %u7a7a%u69fd%u6570'',
          ''static FULL:  Semaphore = Semaphore::new(0);            // %u6ee1%u69fd%u6570'',
          '''',
          ''fn producer(item: u8) {'',
          ''    EMPTY.down();                  // %u7b49%u7a7a%u69fd'',
          ''    BUF.lock().push(item);         // %u77ed%u4e34%u754c%u533a%u5199%u5165'',
          ''    FULL.up();                     // %u901a%u77e5%u6d88%u8d39%u8005'',
          ''}'',
          ''fn consumer() -> u8 {'',
          ''    FULL.down();                   // %u7b49%u6ee1%u69fd'',
          ''    let x = BUF.lock().pop();'',
          ''    EMPTY.up();'',
          ''    x'',
          ''}'']),
      ParagraphBlock (jcat [''BUF %u7684%u4e34%u754c%u533a%uff08push/pop%uff09%u8db3%u591f%u77ed%uff0c%u7528 '',
          ''SpinLock %u5176%u5b9e%u4e5f%u884c%u2014%u2014%u4f46 EMPTY/FULL '',
          ''%u662f%u5929%u7136%u7684%u963b%u585e%uff1a%u751f%u4ea7%u5f97%u8fc7%u5feb%u65f6%u9700%u8981%u7761%uff0c%u4e0d'',
          ''%u80fd%u81ea%u65cb 10 %u79d2%u3002%u8fd9%u5c31%u662f Semaphore '',
          ''%u5b58%u5728%u7684%u7406%u7531%uff0c%u4e0b%u4e00%u8bfe%u8be6%u8ff0%u3002''])]\<rparr>\<close>

definition phase3ZhCN_lesson3_section5 :: ContentSection where
  \<open>phase3ZhCN_lesson3_section5 = \<lparr>
    section_title = js ''%u60ca%u7fa4 (thundering herd)'',
    section_blocks = [ParagraphBlock (jcat [''%u60f3%u8c61 100 %u4e2a%u4efb%u52a1%u90fd%u5728%u7b49%u540c%u4e00%u628a%u9501%u3002'',
          ''%u6301%u9501%u8005 unlock %u7684%u77ac%u95f4%u5982%u679c '',
          ''**%u5168%u90e8%u5524%u9192**%uff0c%u5b83%u4eec%u540c%u65f6%u51b2%u5411 '',
          ''CAS%uff0c%u53ea%u6709%u4e00%u4e2a%u6210%u529f%uff0c%u5176%u5b83 99 %u4e2a%u53c8%u8981%u7761%u56de%u53bb%u2014%u201499 '',
          ''%u6b21%u65e0%u7528%u7684%u4e0a%u4e0b%u6587%u5207%u6362%u3002'']),
      CalloutBlock Info (jcat [''SleepLock %u6bcf%u6b21%u53ea%u5524%u9192%u4e00%u4e2a%uff08pop_front + '',
          ''%u76f4%u63a5%u4ea4%u63a5%uff09%uff0c%u5929%u7136%u65e0%u60ca%u7fa4%u3002Condvar %u7684 '',
          ''notify_all %u662f%u663e%u5f0f%u8ba9%u4f60%u63a5%u53d7%u60ca%u7fa4%u2014%u2014%u67d0%u4e9b'',
          ''%u573a%u666f%uff08%u4f8b%u5982%u201c%u6240%u6709%u8bfb%u8005%u90fd%u8be5%u9192%u201d'',
          ''%uff09%u662f%u5fc5%u8981%u7684%u3002notify_one %u5219%u53ea%u53eb%u4e00%u4e2a%u3002''])]\<rparr>\<close>

definition phase3ZhCN_lesson3_exercise1 :: CodeExercise where
  \<open>phase3ZhCN_lesson3_exercise1 = \<lparr>
    exercise_id = js ''lab-sleeplock'',
    exercise_title = js ''Lab 2 %u2b50%u2b50 %u5b9e%u73b0 SleepLock<T>'',
    exercise_description = jcat [''%u5728 src/sync/sleep.rs %u91cc%u5b9e%u73b0 SleepLock::lock / '',
        ''unlock%uff0c%u5185%u90e8 wait_queue %u7528 VecDeque<TaskHandle>%uff0c%u5916%u5c42 inner '',
        ''%u7528%u4f60%u5728 Lab 1 %u5199%u7684 SpinLock%u3002''],
    exercise_labFile = Some (js ''labs/phase_3_sync/src/sync/sleep.rs''),
    exercise_hints = [jcat [''block_current() %u8981%u5728 drop(inner_guard) '',
         ''%u4e4b%u540e%u8c03%u7528%u2014%u2014%u5426%u5219%u8c03%u5ea6%u5668%u5207%u8d70%u65f6%u8fd8%u6301%u7740 SpinLock''],
       jcat [''unlock %u65f6%u5982%u679c wait_queue %u975e%u7a7a%uff1a**%u4e0d%u8981** %u628a '',
         ''locked %u6539%u6210 false''],
       jcat [''%u5524%u9192%u7528 sched::wake(task_handle)%u2014%u2014%u628a%u4efb%u52a1%u72b6'',
         ''%u6001%u4ece Blocked %u6539%u56de Ready''],
       jcat [''%u6d4b%u8bd5%u7528%u4f8b%uff1a%u4e24%u4e2a task %u62a2%u540c%u4e00%u628a '',
         ''SleepLock%uff0c%u65ad%u8a00%u5e8f%u5217%u5316%u800c%u975e%u5e76%u53d1'']],
    exercise_pseudocode = Some (jlines [''fn lock(&self) {'',
          ''    let mut g = self.inner.lock();'',
          ''    if !g.locked {'',
          ''        g.locked = true;'',
          ''        return;'',
          ''    }'',
          ''    g.wait_queue.push_back(current_task());'',
          ''    drop(g);                      // %u2605 %u5148%u653e%u5185%u9501'',
          ''    sched::block_current();       // %u2605 %u518d%u7761'',
          ''}'',
          ''fn unlock(&self) {'',
          ''    let mut g = self.inner.lock();'',
          ''    if let Some(w) = g.wait_queue.pop_front() {'',
          ''        // locked %u4fdd%u6301 true%u2014%u2014%u76f4%u63a5%u4ea4%u63a5'',
          ''        drop(g);'',
          ''        sched::wake(w);'',
          ''    } else {'',
          ''        g.locked = false;'',
          ''    }'',
          ''}''])\<rparr>\<close>

definition phase3ZhCN_lesson3 :: Lesson where
  \<open>phase3ZhCN_lesson3 = \<lparr>
    lesson_phaseId = 3, lesson_lessonId = 3,
    lesson_title = js ''SleepLock %u4e0e%u7b49%u5f85%u961f%u5217'',
    lesson_subtitle = js ''%u4ec0%u4e48%u65f6%u5019%u8be5%u7761%u3001%u4e0d%u8be5%u81ea%u65cb'',
    lesson_type = js ''Lab'',
    lesson_duration = js ''2 hours'',
    lesson_objectives = [js ''%u5224%u65ad%u4e00%u6bb5%u4e34%u754c%u533a%u8be5%u7528 SpinLock %u8fd8%u662f SleepLock'',
       jcat [''%u7528 SpinLock + %u7b49%u5f85%u961f%u5217 + %u8c03%u5ea6%u5668 yield '',
         ''%u5b9e%u73b0%u963b%u585e%u5f0f%u4e92%u65a5%u9501''],
       jcat [''%u7406%u89e3%u201c%u9501%u76f4%u63a5%u4ea4%u63a5%u201d%u5982%u4f55%u6d88%u9664 '',
         ''lost-wakeup %u4e0e%u5077%u9501''],
       js ''%u907f%u5f00%u60ca%u7fa4%u95ee%u9898%uff08thundering herd%uff09''],
    lesson_sections = [phase3ZhCN_lesson3_section1,
      phase3ZhCN_lesson3_section2,
      phase3ZhCN_lesson3_section3,
      phase3ZhCN_lesson3_section4,
      phase3ZhCN_lesson3_section5],
    lesson_exercises = [phase3ZhCN_lesson3_exercise1],
    lesson_acceptanceCriteria = [js ''cargo test sync::sleep %u901a%u8fc7'',
       jcat [''%u80fd%u753b%u51fa%u201cunlock %u6e05 locked + '',
         ''%u5524%u9192%u201d%u4f1a%u4ea7%u751f%u5077%u9501%u7684%u65f6%u5e8f%u56fe''],
       jcat [''%u80fd%u8bf4%u51fa SleepLock %u7684%u5185%u5c42%u9501%u4e3a%u4ec0%u4e48%u4e0d%u80fd'',
         ''%u53c8%u662f SleepLock'']],
    lesson_references = [\<lparr>reference_title = js ''xv6-riscv book %u00a76.5'',
       reference_description = jcat [''[%u5fc5%u8bfb] Sleep locks%u2014%u2014C %u7248%u7684%u6700%u5c0f%u5b9e%u73b0%uff0c'',
          ''%u5bf9%u7167 Rust %u7248''],
       reference_url = js ''https://pdos.csail.mit.edu/6.828/2023/xv6/book-riscv-rev3.pdf''\<rparr>,
      \<lparr>reference_title = js ''OSTEP Ch. 30'',
       reference_description = jcat [''[%u5fc5%u8bfb] Condition Variables%u2014%u2014producer-consumer '',
          ''%u7684%u6743%u5a01%u8bb2%u89e3''],
       reference_url = js ''https://pages.cs.wisc.edu/~remzi/OSTEP/threads-cv.pdf''\<rparr>,
      \<lparr>reference_title = js ''Linux Kernel Development Ch. 10'',
       reference_description = jcat [''[%u6df1%u5165%u9605%u8bfb] Love %u7b2c 10 %u7ae0%u2014%u2014%u5de5%u4e1a%u7ea7 '',
          ''spin/rw/seqlock/mutex %u5bf9%u6bd4''],
       reference_url = js ''https://www.oreilly.com/library/view/linux-kernel-development/9780672329463/''\<rparr>]\<rparr>\<close>

section \<open>Lesson 4\<close>

definition phase3ZhCN_lesson4_section1 :: ContentSection where
  \<open>phase3ZhCN_lesson4_section1 = \<lparr>
    section_title = js ''%u8ba1%u6570%u4fe1%u53f7%u91cf%uff1aisize + %u7b49%u5f85%u961f%u5217'',
    section_blocks = [ParagraphBlock (jcat [''Semaphore %u662f Dijkstra %u5728 1965 %u5e74%u53d1%u660e%u7684%u2014%u2014%u539f'',
          ''%u672c%u53eb P (proberen, %u5c1d%u8bd5) %u548c V (verhogen, '',
          ''%u589e%u52a0)%u3002%u672c%u8d28%u662f%u4e00%u4e2a isize '',
          ''%u8ba1%u6570%u5668%uff0c%u914d%u4e00%u4e2a%u7b49%u5f85%u961f%u5217%u3002%u521d%u503c%u662f%u51e0%uff0c%u5c31%u5141%u8bb8%u51e0'',
          ''%u4e2a%u5e76%u53d1%u6301%u6709%u8005%u3002%u521d%u503c%u4e3a 1 '',
          ''%u65f6%u9000%u5316%u4e3a%u4e92%u65a5%u9501%u3002'']),
      TableBlock [js ''%u8ba1%u6570%u503c'',
         js ''%u7269%u7406%u542b%u4e49'']
        [[js ''3'',
          js ''%u8fd8%u6709 3 %u4e2a%u8d44%u6e90%u53ef%u7528%uff1b%u5c1a%u65e0%u7b49%u5f85%u8005''],
         [js ''0'',
          js ''%u8d44%u6e90%u7528%u5b8c%uff1b%u4e0b%u6b21 down %u4f1a%u7761''],
         [js ''-2'',
          js ''%u8d44%u6e90%u7528%u5b8c + %u7b49%u5f85%u961f%u5217%u91cc%u6709 2 %u4e2a%u4efb%u52a1'']],
      CodeBlock (Some (js ''rust'')) (jlines [''pub struct Semaphore {'',
          ''    inner: SpinLock<SemInner>,'',
          ''}'',
          ''struct SemInner {'',
          ''    count:      isize,'',
          ''    wait_queue: VecDeque<TaskHandle>,'',
          ''}'',
          ''impl Semaphore {'',
          ''    pub fn down(&self) {'',
          ''        let mut g = self.inner.lock();'',
          ''        g.count -= 1;'',
          ''        if g.count < 0 {'',
          ''            g.wait_queue.push_back(current_task());'',
          ''            drop(g);'',
          ''            sched::block_current();'',
          ''        }'',
          ''    }'',
          ''    pub fn up(&self) {'',
          ''        let mut g = self.inner.lock();'',
          ''        g.count += 1;'',
          ''        if g.count <= 0 {'',
          ''            let w = g.wait_queue.pop_front().unwrap();'',
          ''            drop(g);'',
          ''            sched::wake(w);'',
          ''        }'',
          ''    }'',
          ''}'']),
      CalloutBlock Tip (jcat [''%u6ce8%u610f down %u603b%u662f%u5148 -1%u3001%u518d%u5224%u65ad%u2014%u2014%u8fd9'',
          ''%u6837%u201c%u5269%u4f59%u8d44%u6e90%u201d%u4e0e%u201c%u7b49%u5f85%u8005%u6570%u91cf'',
          ''%u201d%u53ef%u4ee5%u4ece%u540c%u4e00%u4e2a count %u8bfb%u51fa%uff1acount %u2265 0 '',
          ''%u662f%u5269%u4f59%uff0ccount < 0 %u662f -|%u7b49%u5f85%u8005|%u3002%u8fd9%u79cd'',
          ''%u81ea%u7f16%u7801%u6bd4%u7528%u4e24%u4e2a%u5b57%u6bb5%u66f4%u96be%u5199%u9519%u3002''])]\<rparr>\<close>

definition phase3ZhCN_lesson4_section2 :: ContentSection where
  \<open>phase3ZhCN_lesson4_section2 = \<lparr>
    section_title = js ''Condvar%uff1a%u7b49%u4e00%u4e2a%u8c13%u8bcd%u53d8%u771f'',
    section_blocks = [ParagraphBlock (jcat [''Semaphore %u9002%u5408%u8d44%u6e90%u8ba1%u6570%uff1b%u4f46%u5f53%u7b49%u5f85%u6761'',
          ''%u4ef6%u4e0d%u80fd%u7b80%u5355%u6620%u5c04%u4e3a%u201c%u8d44%u6e90%u6570%u201d%u65f6'',
          ''%uff08%u4f8b%u5982%u201c%u961f%u5217%u91cc%u6709%u5076%u6570%u4e2a%u5143%u7d20%u201d'',
          ''%uff09%uff0c%u5c31%u8981%u7528 Condition Variable%u3002Condvar '',
          ''%u603b%u662f%u548c%u4e00%u4e2a Mutex %u642d%u914d%u2014%u2014Mutex '',
          ''%u4fdd%u62a4%u8c13%u8bcd%u6d89%u53ca%u7684%u5171%u4eab%u72b6%u6001%uff0cCondvar '',
          ''%u63d0%u4f9b%u201c%u7761%u7b49%u901a%u77e5%u201d%u80fd%u529b%u3002'']),
      CodeBlock (Some (js ''rust'')) (jlines [''// %u6807%u51c6%u7b49%u5f85%u5faa%u73af%u2014%u2014%u5fc5%u987b%u7528 while %u4e0d%u80fd%u7528 if'',
          ''let mut g = mutex.lock();'',
          ''while !predicate(&*g) {'',
          ''    g = condvar.wait(g);     // %u2190 %u539f%u5b50%u5730%uff1a%u91ca%u653e%u9501 + %u5165%u961f + %u7761%uff1b%u5524%u9192%u540e%u91cd%u65b0%u52a0%u9501'',
          ''}'',
          ''// %u6b64%u65f6%u8c13%u8bcd%u4e3a%u771f%u4e14%u6301%u9501'',
          ''process(&mut *g);'',
          ''drop(g);'']),
      CalloutBlock Warning (jcat [''%u4e3a%u4ec0%u4e48%u5fc5%u987b%u7528 while%uff1f(1) '',
          ''%u5524%u9192%u53ef%u80fd%u662f%u201c%u4f2a%u5524%u9192%u201d%uff08%u67d0%u4e9b%u5b9e%u73b0%u5141%u8bb8%uff09%uff1b'',
          ''(2) notify_all %u65f6%u53ea%u6709%u4e00%u4e2a%u8d62%u5f97%u9501%uff0c%u5176%u4ed6'',
          ''%u9192%u6765%u65f6%u8c13%u8bcd%u53c8%u53d8%u5047%uff1b(3) '',
          ''%u5524%u9192%u548c%u8c13%u8bcd%u771f%u4e0d%u662f%u539f%u5b50%u7684%u2014%u2014%u9192%u6765%u65f6%u522b%u7684'',
          ''%u4efb%u52a1%u53ef%u80fd%u5df2%u7ecf%u5148%u6539%u4e86%u72b6%u6001%u3002%u5199 if '',
          ''%u5728 99%25 %u60c5%u51b5%u4e0b%u4e5f%u5bf9%u2014%u2014%u8fd9%u5c31%u662f%u5b83'',
          ''%u5371%u9669%u7684%u5730%u65b9%u3002''])]\<rparr>\<close>

definition phase3ZhCN_lesson4_section3 :: ContentSection where
  \<open>phase3ZhCN_lesson4_section3 = \<lparr>
    section_title = js ''%u4e22%u5524%u9192 (lost wakeup) %u4e0e Condvar::wait %u7684%u539f%u5b50%u6027'',
    section_blocks = [DiagramBlock (jlines [''%u9519%u8bef%u5b9e%u73b0%uff08wait %u4e0d%u539f%u5b50%uff09%uff1a'',
          ''  Waiter A                         Signaler B'',
          ''  ----------                       -----------'',
          ''  mutex.lock()'',
          ''  check pred %u2192 false'',
          ''  mutex.unlock()'',
          ''                                   mutex.lock()'',
          ''                                   set pred = true'',
          ''                                   condvar.signal()   %u2190 %u6ca1%u4eba%u5728%u961f%u5217%u4e0a%uff01'',
          ''                                   mutex.unlock()'',
          ''  condvar.wait()                   %u2190 %u6c38%u8fdc%u7761%u4e0b%u53bb'',
          '''',
          ''%u6b63%u786e%u5b9e%u73b0%uff1await %u5fc5%u987b"%u5148%u5165%u961f%u518d%u653e%u9501"%u2014%u2014%u8fd9%u4e24%u6b65%u5bf9%u5916%u5fc5%u987b%u539f%u5b50%u3002'',
          ''%u4e00%u79cd%u505a%u6cd5%uff1await %u5185%u90e8%u6301%u6709 Condvar %u81ea%u5df1%u7684 inner SpinLock %u8de8%u8d8a%u8fd9%u4e24%u6b65%u3002'']),
      CodeBlock (Some (js ''rust'')) (jlines [''pub fn wait<'a, T>(&self, guard: MutexGuard<'a, T>)'',
          ''    -> MutexGuard<'a, T>'',
          ''{'',
          ''    let mutex = guard.mutex();'',
          ''    let mut cv_inner = self.inner.lock();     // %u2460 %u6301%u4f4f Condvar %u5185%u9501'',
          ''    cv_inner.wait_queue.push_back(current());  // %u2461 %u5148%u5165%u961f'',
          ''    drop(guard);                              // %u2462 %u518d%u653e%u7528%u6237 Mutex'',
          ''    drop(cv_inner);                           // %u2463 %u653e Condvar %u5185%u9501'',
          ''    sched::block_current();                   // %u2464 %u7761'',
          ''    mutex.lock()                              // %u2465 %u9192%u6765%u91cd%u62ff%u7528%u6237%u9501'',
          ''}''])]\<rparr>\<close>

definition phase3ZhCN_lesson4_section4 :: ContentSection where
  \<open>phase3ZhCN_lesson4_section4 = \<lparr>
    section_title = js ''Coffman %u6b7b%u9501%u56db%u6761%u4ef6'',
    section_blocks = [ParagraphBlock (jcat [''1971 %u5e74 Coffman %u8bc1%u660e%uff1a%u6b7b%u9501%u53d1%u751f%u5f53%u4e14%u4ec5'',
          ''%u5f53%u4ee5%u4e0b%u56db%u6761%u4ef6%u540c%u65f6%u6210%u7acb%u3002%u7834%u574f%u4efb'',
          ''%u4f55%u4e00%u6761%uff0c%u6b7b%u9501%u4e0d%u53ef%u80fd%u53d1%u751f%u3002'']),
      TableBlock [js ''%u6761%u4ef6'',
         js ''%u542b%u4e49'',
         js ''%u7834%u574f%u65b9%u6cd5'']
        [[js ''%u2460 Mutual exclusion'',
          js ''%u8d44%u6e90%u4e0d%u53ef%u5171%u4eab'',
          jcat [''%u6539%u7528%u8bfb%u5199%u9501 / RCU / %u65e0%u9501%u7ed3%u6784%u2014%u2014%u4e0d'',
            ''%u603b%u662f%u53ef%u884c'']],
         [js ''%u2461 Hold and wait'',
          js ''%u6301%u6709%u8d44%u6e90%u7684%u540c%u65f6%u8bf7%u6c42%u53e6%u4e00%u4e2a'',
          js ''%u4e00%u6b21%u6027%u7533%u8bf7%u6240%u6709%u9501%uff08two-phase locking%uff09''],
         [js ''%u2462 No preemption'',
          js ''%u5185%u6838%u4e0d%u80fd%u5265%u593a%u5df2%u5206%u914d%u7684%u9501'',
          js ''%u8d85%u65f6%u56de%u6eda%uff08try_lock + %u5931%u8d25%u91cd%u6765%uff09''],
         [js ''%u2463 Circular wait'',
          js ''%u7b49%u5f85%u56fe%u4e2d%u5b58%u5728%u73af'',
          jcat [''%u5168%u5c40%u9501%u6392%u5e8f%u2014%u2014%u603b%u662f%u6309%u56fa%u5b9a%u987a%u5e8f'',
            ''%u83b7%u53d6'']]],
      CalloutBlock Info (jcat [''%u5de5%u7a0b%u4e0a%u6700%u5e38%u7528%u7684%u662f%u7834%u574f '',
          ''%u2463%uff1a%u7ed9%u6240%u6709%u9501%u4e00%u4e2a%u5168%u5c40%u5e8f%uff08%u4f8b%u5982%u6309%u5730%u5740'',
          ''%u6392%u5e8f%uff09%uff0c%u6c38%u8fdc%u5347%u5e8f%u83b7%u53d6%u3002%u8fd9%u6837%u7b49'',
          ''%u5f85%u56fe%u6bcf%u6761%u8fb9%u90fd%u662f%u201c%u5347%u5e8f%u201d%uff0c%u4e0d%u53ef'',
          ''%u80fd%u6210%u73af%u3002''])]\<rparr>\<close>

definition phase3ZhCN_lesson4_section5 :: ContentSection where
  \<open>phase3ZhCN_lesson4_section5 = \<lparr>
    section_title = js ''%u54f2%u5b66%u5bb6%u5c31%u9910%uff1a%u4e00%u4e2a%u5fc5%u7ecf%u7684%u6b7b%u9501%u7ec3%u4e60'',
    section_blocks = [DiagramBlock (jlines [''5 %u4f4d%u54f2%u5b66%u5bb6%uff0c5 %u6839%u7b77%u5b50%uff0c%u6bcf%u4eba%u5de6%u53f3%u5404%u4e00%u6839%u3002%u6bcf%u4eba%u53cd%u590d%uff1a%u601d%u8003 %u2192 %u62ff%u5de6 %u2192 %u62ff%u53f3 %u2192 %u5403 %u2192 %u653e%u5de6 %u2192 %u653e%u53f3%u3002'',
          '''',
          ''%u6240%u6709%u4eba%u540c%u65f6%u62ff%u8d77"%u5de6"%u7b77%u5b50%u540e%u7684%u6b7b%u9501%uff1a'',
          ''       P0 %u2500%u2500%u6301%u6709%u2500%u2500%u25b6 F0 %u2500%u2500%u7b49%u5f85%u2500%u2500%u25b6 P1'',
          ''        %u25b2                          %u2502'',
          ''        %u2502                          %u6301%u6709'',
          ''       %u7b49%u5f85                         %u2502'',
          ''        %u2502                          %u25bc'',
          ''        F4 %u25c0%u2500%u2500%u6301%u6709%u2500%u2500 P4 %u25c0%u2500%u2500%u7b49%u5f85%u2500%u2500 F1'',
          ''                     %u25b2             %u2502'',
          ''                     %u2502            %u6301%u6709'',
          ''                    %u7b49%u5f85           %u2502'',
          ''                     %u2502             %u25bc'',
          ''                     F3 %u25c0%u2500%u2500%u6301%u6709%u2500%u2500 P2 %u2500%u2500%u7b49%u5f85%u2500%u2500%u25b6 F2'',
          '''',
          ''%u4e94%u6761%u8fb9%u9996%u5c3e%u76f8%u8fde%u2014%u2014%u5b8c%u7f8e%u7684%u5faa%u73af%u7b49%u5f85%u3002'']),
      ParagraphBlock (jcat [''%u7ecf%u5178%u89e3%u6cd5%uff08%u7834%u574f%u6761%u4ef6 '',
          ''%u2463%uff09%uff1a%u7ed9%u7b77%u5b50%u7f16%u53f7 0..4%uff0c%u6bcf%u4eba%u62ff min(%u5de6%u53f7, '',
          ''%u53f3%u53f7) %u518d%u62ff%u53e6%u4e00%u6839%u3002%u8fd9%u6837 P4 %u4f1a%u5148%u62ff F0 '',
          ''%u518d%u62ff F4%uff08%u56e0%u4e3a 0 < 4%uff09%uff0c%u4e0d%u518d%u5f62%u6210%u73af%u3002'',
          ''%u53e6%u4e00%u79cd%uff08%u7834%u574f %u2461%uff09%uff1a%u62ff%u4e4b%u524d%u505a '',
          ''try_lock%uff0c%u5931%u8d25%u5c31%u628a%u5df2%u62ff%u7684%u4e5f%u653e%u56de%u53bb%u3002'']),
      CodeBlock (Some (js ''rust'')) (jlines [''// labs/phase_3_sync/user/src/bin/philosopher_dinner.rs %u5927%u610f'',
          ''fn philosopher(id: usize, forks: &[Mutex<()>; 5]) {'',
          ''    let (a, b) = {'',
          ''        let l = id;'',
          ''        let r = (id + 1) %25 5;'',
          ''        if l < r { (l, r) } else { (r, l) }   // %u2605 %u5c0f%u7f16%u53f7%u5148'',
          ''    };'',
          ''    loop {'',
          ''        think();'',
          ''        let _ga = forks[a].lock();'',
          ''        let _gb = forks[b].lock();'',
          ''        eat();'',
          ''    }'',
          ''}''])]\<rparr>\<close>

definition phase3ZhCN_lesson4_exercise1 :: CodeExercise where
  \<open>phase3ZhCN_lesson4_exercise1 = \<lparr>
    exercise_id = js ''lab-sem-cv'',
    exercise_title = js ''Lab 3a %u2b50%u2b50 Semaphore + Condvar'',
    exercise_description = jcat [''%u5728 src/sync/semaphore.rs %u548c src/sync/condvar.rs %u91cc%u5b9e%u73b0 '',
        ''Semaphore::{up,down}%u3001Condvar::{wait,notify_one,notify_all}%u3002''],
    exercise_labFile = Some (js ''labs/phase_3_sync/src/sync/semaphore.rs''),
    exercise_hints = [js ''Semaphore %u5185%u90e8 SpinLock %u4fdd%u62a4 (count, wait_queue) %u6574%u4f53'',
       jcat [''Condvar::wait %u5fc5%u987b%u505a%u5230%u201c%u5165%u961f + %u653e '',
         ''mutex%u201d%u5bf9%u5916%u539f%u5b50%u2014%u2014%u8981%u60f3%u6e05%u987a%u5e8f''],
       jcat [''notify_all %u53ef%u4ee5%u4e00%u6b21%u6027 pop '',
         ''%u6574%u4e2a%u961f%u5217%uff0c%u9010%u4e2a wake''],
       jcat [''%u6bcf%u4e2a%u539f%u8bed%u90fd%u8981%u5199 stress test%uff1a2 %u4e2a producer + 2 '',
         ''%u4e2a consumer %u8dd1 10000 %u6b21'']],
    exercise_pseudocode = Some (jlines [''// Semaphore'',
          ''fn down(&self) {'',
          ''    let mut g = self.inner.lock();'',
          ''    g.count -= 1;'',
          ''    if g.count < 0 {'',
          ''        g.wait_queue.push_back(current());'',
          ''        drop(g);'',
          ''        sched::block_current();'',
          ''    }'',
          ''}'',
          ''fn up(&self) {'',
          ''    let mut g = self.inner.lock();'',
          ''    g.count += 1;'',
          ''    if g.count <= 0 {'',
          ''        let w = g.wait_queue.pop_front().unwrap();'',
          ''        drop(g);'',
          ''        sched::wake(w);'',
          ''    }'',
          ''}''])\<rparr>\<close>

definition phase3ZhCN_lesson4_exercise2 :: CodeExercise where
  \<open>phase3ZhCN_lesson4_exercise2 = \<lparr>
    exercise_id = js ''lab-philosopher'',
    exercise_title = js ''Lab 3b %u2b50 %u54f2%u5b66%u5bb6%u5c31%u9910%u2014%u2014%u4e0d%u6b7b%u9501%u7248'',
    exercise_description = jcat [''%u5728 user/src/bin/philosopher_dinner.rs %u91cc%u7528 5 %u628a Mutex %u6a21%u62df '',
        ''5 %u6839%u7b77%u5b50%u3002%u7528%u9501%u6392%u5e8f%u4fdd%u8bc1 60 '',
        ''%u79d2%u5185%u6240%u6709%u54f2%u5b66%u5bb6%u5fc3%u8df3%u90fd%u5728%u63a8%u8fdb%u3002''],
    exercise_labFile = Some (js ''labs/phase_3_sync/src/sync/mutex.rs''),
    exercise_hints = [jcat [''%u8ba9 P0..P4 %u90fd%u6309 min(left, right) %u5148%u62ff%u2014%u2014%u53ea%u6709 P4 '',
         ''%u884c%u4e3a%u548c%u5176%u4ed6%u4eba%u4e0d%u540c''],
       js ''%u52a0 HEARTBEAT: [AtomicUsize; 5]%uff0c%u6bcf%u6b21 eat() +1'',
       jcat [''main %u76d1%u63a7 60 %u79d2%uff1a%u6240%u6709%u5fc3%u8df3%u4e25%u683c%u5355%u8c03'',
         ''%u9012%u589e = %u901a%u8fc7'']],
    exercise_pseudocode = None\<rparr>\<close>

definition phase3ZhCN_lesson4 :: Lesson where
  \<open>phase3ZhCN_lesson4 = \<lparr>
    lesson_phaseId = 3, lesson_lessonId = 4,
    lesson_title = js ''Semaphore / Condvar + %u6b7b%u9501%u56db%u6761%u4ef6'',
    lesson_subtitle = js ''%u4ece%u8ba1%u6570%u4fe1%u53f7%u91cf%u5230%u54f2%u5b66%u5bb6%u5c31%u9910'',
    lesson_type = js ''Lab + Concept'',
    lesson_duration = js ''2.5 hours'',
    lesson_objectives = [jcat [''%u5b9e%u73b0%u8ba1%u6570%u4fe1%u53f7%u91cf Semaphore::{up, '',
         ''down}%uff0c%u7406%u89e3%u8ba1%u6570%u503c%u7684%u7269%u7406%u542b%u4e49''],
       jcat [''%u7528 Mutex + Condvar %u5199%u51fa%u4e0d%u4f1a%u4e22%u5524%u9192%u7684%u7b49%u5f85'',
         ''%u5faa%u73af''],
       jcat [''%u80cc%u4e0b Coffman %u6b7b%u9501%u56db%u6761%u4ef6%uff0c%u80fd%u9010%u4e00%u8bf4'',
         ''%u51fa%u7834%u574f%u65b9%u6cd5''],
       js ''%u7528%u9501%u6392%u5e8f%u7834%u89e3%u54f2%u5b66%u5bb6%u5c31%u9910%u95ee%u9898''],
    lesson_sections = [phase3ZhCN_lesson4_section1,
      phase3ZhCN_lesson4_section2,
      phase3ZhCN_lesson4_section3,
      phase3ZhCN_lesson4_section4,
      phase3ZhCN_lesson4_section5],
    lesson_exercises = [phase3ZhCN_lesson4_exercise1, phase3ZhCN_lesson4_exercise2],
    lesson_acceptanceCriteria = [js ''cargo test sync::{semaphore,condvar,mutex} %u5168%u90e8%u901a%u8fc7'',
       jcat [''philosopher_dinner %u8fd0%u884c 60 %u79d2%u4e0d%u6b7b%u9501%uff0c5 '',
         ''%u4e2a%u5fc3%u8df3%u90fd%u5728%u589e%u957f''],
       jcat [''%u80fd%u80cc%u51fa Coffman %u56db%u6761%u4ef6%u5e76%u5bf9%u6bcf%u6761%u8bf4%u51fa'',
         ''%u81f3%u5c11%u4e00%u79cd%u7834%u574f%u65b9%u6cd5''],
       jcat [''%u80fd%u89e3%u91ca Condvar::wait %u4e3a%u4ec0%u4e48%u9700%u8981%u201c%u5165%u961f + '',
         ''%u653e%u9501%u201d%u7684%u539f%u5b50%u6027'']],
    lesson_references = [\<lparr>reference_title = js ''OSTEP Ch. 31'',
       reference_description = jcat [''[%u5fc5%u8bfb] Semaphores%u2014%u2014%u4ece down/up '',
          ''%u5230%u751f%u4ea7%u8005%u6d88%u8d39%u8005%u3001%u8bfb%u8005%u5199%u8005%u3001%u54f2%u5b66%u5bb6''],
       reference_url = js ''https://pages.cs.wisc.edu/~remzi/OSTEP/threads-sema.pdf''\<rparr>,
      \<lparr>reference_title = js ''OSTEP Ch. 32'',
       reference_description = jcat [''[%u5fc5%u8bfb] Common Concurrency Problems%u2014%u2014%u6b7b%u9501%u4e0e%u975e%u6b7b'',
          ''%u9501 bug %u7684%u5206%u7c7b%u5b66''],
       reference_url = js ''https://pages.cs.wisc.edu/~remzi/OSTEP/threads-bugs.pdf''\<rparr>,
      \<lparr>reference_title = js ''rCore-Tutorial Ch. 5'',
       reference_description = jcat [''[%u6df1%u5165%u9605%u8bfb] %u59ca%u59b9%u6559%u7a0b%u7684%u8fdb%u7a0b%u4e0e%u540c'',
          ''%u6b65%u7ae0%u8282%uff0cRust %u5b9e%u73b0''],
       reference_url = js ''https://rcore-os.cn/rCore-Tutorial-Book-v3/chapter5/''\<rparr>]\<rparr>\<close>

section \<open>The phase\<close>

definition phase3ZhCN :: PhaseContent where
  \<open>phase3ZhCN = \<lparr>
    content_phaseId = 3,
    content_color = js ''#7C3AED'',
    content_accent = js ''#A78BFA'',
    content_lessons = [phase3ZhCN_lesson1, phase3ZhCN_lesson2, phase3ZhCN_lesson3, phase3ZhCN_lesson4]\<rparr>\<close>

section \<open>Well-formedness\<close>

lemma phase3ZhCN_lesson1_ok: "lesson_ok phase3ZhCN_lesson1"
  by (simp add: lesson_ok_def section_ok_def phase3ZhCN_lesson1_def
      phase3ZhCN_lesson1_section1_def
      phase3ZhCN_lesson1_section2_def
      phase3ZhCN_lesson1_section3_def
      phase3ZhCN_lesson1_section4_def
      phase3ZhCN_lesson1_exercise1_def)

lemma phase3ZhCN_lesson2_ok: "lesson_ok phase3ZhCN_lesson2"
  by (simp add: lesson_ok_def section_ok_def phase3ZhCN_lesson2_def
      phase3ZhCN_lesson2_section1_def
      phase3ZhCN_lesson2_section2_def
      phase3ZhCN_lesson2_section3_def
      phase3ZhCN_lesson2_section4_def
      phase3ZhCN_lesson2_exercise1_def)

lemma phase3ZhCN_lesson3_ok: "lesson_ok phase3ZhCN_lesson3"
  by (simp add: lesson_ok_def section_ok_def phase3ZhCN_lesson3_def
      phase3ZhCN_lesson3_section1_def
      phase3ZhCN_lesson3_section2_def
      phase3ZhCN_lesson3_section3_def
      phase3ZhCN_lesson3_section4_def
      phase3ZhCN_lesson3_section5_def
      phase3ZhCN_lesson3_exercise1_def)

lemma phase3ZhCN_lesson4_ok: "lesson_ok phase3ZhCN_lesson4"
  by (simp add: lesson_ok_def section_ok_def phase3ZhCN_lesson4_def
      phase3ZhCN_lesson4_section1_def
      phase3ZhCN_lesson4_section2_def
      phase3ZhCN_lesson4_section3_def
      phase3ZhCN_lesson4_section4_def
      phase3ZhCN_lesson4_section5_def
      phase3ZhCN_lesson4_exercise1_def
      phase3ZhCN_lesson4_exercise2_def)

lemma phase3ZhCN_lesson1_ids: "lesson_phaseId phase3ZhCN_lesson1 = 3" "lesson_lessonId phase3ZhCN_lesson1 = 1"
  by (simp_all add: phase3ZhCN_lesson1_def)

lemma phase3ZhCN_lesson2_ids: "lesson_phaseId phase3ZhCN_lesson2 = 3" "lesson_lessonId phase3ZhCN_lesson2 = 2"
  by (simp_all add: phase3ZhCN_lesson2_def)

lemma phase3ZhCN_lesson3_ids: "lesson_phaseId phase3ZhCN_lesson3 = 3" "lesson_lessonId phase3ZhCN_lesson3 = 3"
  by (simp_all add: phase3ZhCN_lesson3_def)

lemma phase3ZhCN_lesson4_ids: "lesson_phaseId phase3ZhCN_lesson4 = 3" "lesson_lessonId phase3ZhCN_lesson4 = 4"
  by (simp_all add: phase3ZhCN_lesson4_def)

lemma phase3ZhCN_shape [site_shape]:
  "content_phaseId phase3ZhCN = 3" "length (content_lessons phase3ZhCN) = 4"
  by (simp_all add: phase3ZhCN_def)

lemma phase3ZhCN_ok [site_shape]: "content_ok phase3ZhCN"
  by (simp add: content_ok_def phase3ZhCN_def upt_rec
      phase3ZhCN_lesson1_ok phase3ZhCN_lesson2_ok phase3ZhCN_lesson3_ok phase3ZhCN_lesson4_ok
      phase3ZhCN_lesson1_ids phase3ZhCN_lesson2_ids phase3ZhCN_lesson3_ids phase3ZhCN_lesson4_ids)

end
