(* ===== verification/Phase3_En.thy ===== *)
theory Phase3_En
  imports Content_Types
begin

text \<open>
  Phase 3, concurrency and locks, in English: the constant \<open>phase3En\<close> of
  \<open>website/src/data/phase3.ts\<close>, one definition per section, exercise and lesson. Below it, that the
  content is well formed.
\<close>

section \<open>Lesson 1\<close>

definition phase3En_lesson1_section1 :: ContentSection where
  \<open>phase3En_lesson1_section1 = \<lparr>
    section_title = js ''The counter that forgets'',
    section_blocks = [ParagraphBlock (jcat [''Phase 2 gave you preemptive scheduling %u2014 a timer IRQ can fire between any two '',
          ''instructions. Now let two tasks each run counter += 1 ten thousand times. Expected '',
          ''final value: 20000. Observed: anywhere from 10002 to 19998, never exact.'']),
      CodeBlock (Some (js ''asm'')) (jlines [''# counter += 1 is NOT one instruction on RISC-V:'',
          ''lw   t0, (a0)      # 1. load counter'',
          ''addi t0, t0, 1     # 2. add in register'',
          ''sw   t0, (a0)      # 3. store back'']),
      DiagramBlock (jlines [''counter starts at 5. Both T1 and T2 do +1. One "lost update" interleaving:'',
          '''',
          ''T1: lw  t0 <- 5       %r032500%u2510'',
          ''                         %u2502  (timer IRQ, switch to T2)'',
          ''T2: lw  t0 <- 5          %u2502'',
          ''T2: addi t0 = 6          %u2502'',
          ''T2: sw  6 -> counter     %u2502  %u2190 counter = 6'',
          ''                         %u2502  (switch back)'',
          ''T1: addi t0 = 6       %r032500%u2518'',
          ''T1: sw  6 -> counter      %u2190 counter = 6 (should be 7)'',
          '''',
          ''Two increments, one effect. T2's write was lost.'']),
      CalloutBlock Warning (jcat [''This bug is brutal: fails 1-in-1000, only appears in production after days. The '',
          ''only reliable fix is to make the whole operation semantically indivisible %u2014 atomic.''])]\<rparr>\<close>

definition phase3En_lesson1_section2 :: ContentSection where
  \<open>phase3En_lesson1_section2 = \<lparr>
    section_title = js ''Three concepts you must keep apart'',
    section_blocks = [TableBlock [js ''Concept'',
         js ''Definition'',
         js ''In the counter example'']
        [[js ''Race condition'',
          js ''Correctness depends on relative timing'',
          js ''Two tasks both +1; result depends on interleaving''],
         [js ''Atomicity'',
          js ''No other CPU/task can observe a half-done state'',
          js ''Single aligned lw/sw is atomic; lw+addi+sw is not''],
         [js ''Critical section'',
          js ''Code region that touches shared state'',
          js ''The three-instruction block that forms counter += 1'']],
      CalloutBlock Info (jcat [''Rule of thumb: if a variable is read and written by more than one task, either wrap '',
          ''it in a lock or make every access a single atomic instruction. Middle grounds are '',
          ''bugs.''])]\<rparr>\<close>

definition phase3En_lesson1_section3 :: ContentSection where
  \<open>phase3En_lesson1_section3 = \<lparr>
    section_title = js ''RISC-V A extension: atomic instructions from hardware'',
    section_blocks = [ParagraphBlock (jcat [''The A (Atomic) extension adds single-instruction read-modify-write operations. The '',
          ''hardware guarantees each one appears instantaneous to other harts. Rust's '',
          ''AtomicBool::compare_exchange / AtomicUsize::fetch_add all lower to these.'']),
      TableBlock [js ''Instruction'',
         js ''Semantics'',
         js ''Typical use'']
        [[js ''amoswap.w.aq rd,rs2,(rs1)'',
          js ''rd = *rs1;  *rs1 = rs2  (with acquire)'',
          js ''SpinLock lock %u2014 swap 1 in, see if old was 0''],
         [js ''amoadd.w.aqrl rd,rs2,(rs1)'',
          js ''rd = *rs1;  *rs1 += rs2'',
          js ''Atomic counters, fetch_add''],
         [js ''lr.w rd, (rs1)'',
          js ''Load and set a reservation on the address'',
          js ''First half of a CAS loop''],
         [js ''sc.w rd, rs2, (rs1)'',
          js ''If reservation still held: write and return 0; else return 1'',
          js ''Second half; pair with lr.w for lock-free algos''],
         [js ''amocas.w (Zacas)'',
          js ''Single-instruction compare-and-swap'',
          js ''Newer hardware; xv6-riscv doesn't require it'']],
      CodeBlock (Some (js ''asm'')) (jlines [''# Typical lr/sc CAS loop: change *a0 from old (a1) to new (a2)'',
          ''retry:'',
          ''    lr.w   t0, (a0)        # load-reserved'',
          ''    bne    t0, a1, fail    # expected value mismatch'',
          ''    sc.w   t1, a2, (a0)    # store-conditional'',
          ''    bnez   t1, retry       # reservation broken %u2014 retry'',
          ''fail:'']),
      CalloutBlock Tip (jcat [''amoswap always writes. lr/sc may not. Under low contention, lr/sc avoids a '',
          ''cache-line ping-pong %u2014 but the RISC-V spec limits the lr/sc window to 16 instructions '',
          ''or fewer, or sc will always fail. Keep the loop body tiny.''])]\<rparr>\<close>

definition phase3En_lesson1_section4 :: ContentSection where
  \<open>phase3En_lesson1_section4 = \<lparr>
    section_title = js ''Memory ordering: Acquire / Release / SeqCst'',
    section_blocks = [ParagraphBlock (jcat [''Atomicity only says "this instruction is not torn." Compilers and out-of-order CPUs '',
          ''still reorder ordinary loads/stores around it. Every Rust atomic op takes an '',
          ''Ordering that tells optimizers which reorderings are allowed.'']),
      TableBlock [js ''Ordering'',
         js ''Effect'',
         js ''When to use'']
        [[js ''Relaxed'',
          js ''Only this op is atomic; neighbours may reorder freely'',
          js ''Plain counters, statistics''],
         [js ''Acquire'',
          js ''Loads/stores after this cannot be hoisted before it'',
          js ''The moment lock() succeeds %u2014 subsequent reads must see fresh data''],
         [js ''Release'',
          js ''Loads/stores before this cannot be sunk after it'',
          js ''unlock() %u2014 writes inside CS must be visible to the next acquirer''],
         [js ''AcqRel'',
          js ''Acquire + Release (only meaningful on RMW)'',
          js ''compare_exchange success ordering''],
         [js ''SeqCst'',
          js ''All SeqCst ops share one global total order'',
          js ''Safe default when unsure; costs the most'']],
      CalloutBlock Warning (jcat [''Lab 1's most common bug: lock() CAS uses Relaxed. The compiler hoists reads of the '',
          ''protected data above the CAS %u2014 you see stale data before the lock was even '',
          ''taken. Mnemonic: lock with Acquire, unlock with Release.''])]\<rparr>\<close>

definition phase3En_lesson1_exercise1 :: CodeExercise where
  \<open>phase3En_lesson1_exercise1 = \<lparr>
    exercise_id = js ''lab-race-demo'',
    exercise_title = js ''Exercise: reproduce the lost update'',
    exercise_description = jcat [''On top of Phase 2's preemptive scheduler, run two tasks each doing counter += 1 one '',
        ''hundred thousand times and print the total. Run it a few times to see the jitter. '',
        ''Then swap counter for AtomicUsize::fetch_add and confirm it's always 200000.''],
    exercise_labFile = Some (js ''labs/phase_3_sync/src/sync/spin.rs''),
    exercise_hints = [js ''First version: no lock, no Atomic %u2014 watch the race with your own eyes'',
       js ''Second version: core::sync::atomic::AtomicUsize with Ordering::Relaxed is enough'',
       js ''Disassemble the racy version to see lw/addi/sw %u2014 visual proof cements the lesson''],
    exercise_pseudocode = Some (jlines [''// racy version'',
          ''static mut COUNTER: usize = 0;'',
          ''for _ in 0..100_000 { unsafe { COUNTER += 1; } }'',
          '''',
          ''// atomic version'',
          ''static COUNTER: AtomicUsize = AtomicUsize::new(0);'',
          ''for _ in 0..100_000 { COUNTER.fetch_add(1, Ordering::Relaxed); }''])\<rparr>\<close>

definition phase3En_lesson1 :: Lesson where
  \<open>phase3En_lesson1 = \<lparr>
    lesson_phaseId = 3, lesson_lessonId = 1,
    lesson_title = js ''Phase 3 Overview: Race Conditions and Atomic Instructions'',
    lesson_subtitle = js ''From lost updates to the RISC-V A extension'',
    lesson_type = js ''Concept'',
    lesson_duration = js ''1.5 hours'',
    lesson_objectives = [js ''Reconstruct a lost update using a plain counter += 1 example'',
       js ''Distinguish atomicity, critical section, and race condition precisely'',
       js ''Know the three core RISC-V A-extension instructions: amoswap.w / lr.w / sc.w'',
       js ''Pick the right Rust memory ordering: Acquire / Release / SeqCst''],
    lesson_sections = [phase3En_lesson1_section1,
      phase3En_lesson1_section2,
      phase3En_lesson1_section3,
      phase3En_lesson1_section4],
    lesson_exercises = [phase3En_lesson1_exercise1],
    lesson_acceptanceCriteria = [js ''Can draw the lost-update timeline with counter += 1 for someone else'',
       js ''Can explain when to pick amoswap vs lr/sc'',
       js ''Can explain why lock uses Acquire and unlock uses Release''],
    lesson_references = [\<lparr>reference_title = js ''xv6-riscv book Ch. 6'',
       reference_description = js ''[Required] Locking %u2014 the canonical race-to-spinlock walkthrough'',
       reference_url = js ''https://pdos.csail.mit.edu/6.828/2023/xv6/book-riscv-rev3.pdf''\<rparr>,
      \<lparr>reference_title = js ''OSTEP Ch. 28'',
       reference_description = js ''[Required] Locks %u2014 the authoritative conceptual chapter'',
       reference_url = js ''https://pages.cs.wisc.edu/~remzi/OSTEP/threads-locks.pdf''\<rparr>,
      \<lparr>reference_title = js ''RISC-V A Extension Spec'',
       reference_description = js ''[Deep dive] Authoritative amoswap / lr.w / sc.w semantics'',
       reference_url = js ''https://github.com/riscv/riscv-isa-manual/releases''\<rparr>]\<rparr>\<close>

section \<open>Lesson 2\<close>

definition phase3En_lesson2_section1 :: ContentSection where
  \<open>phase3En_lesson2_section1 = \<lparr>
    section_title = js ''Data structure and state machine'',
    section_blocks = [ParagraphBlock (jcat [''A SpinLock is one byte %u2014 locked: AtomicBool %u2014 plus the protected data. '',
          ''lock() spins until it CASes false into true; unlock() stores false back.'']),
      DiagramBlock (jlines [''  %u250c%r0e2500%u2510   lock() CAS(false -> true) success  %u250c%r0e2500%u2510'',
          ''  %u2502    FREE      %u2502 %r252500%u25b6%u2502    HELD      %u2502'',
          ''  %u2502 locked=false %u2502                                       %u2502 locked=true  %u2502'',
          ''  %u2502 irq untouched%u2502                                       %u2502 irq disabled %u2502'',
          ''  %u2514%r0e2500%u2518 %u25c0%r042500 unlock() store(false) %r082500  %u2514%r0e2500%u2518'',
          ''        %u25b2                                                       %u2502'',
          ''        %u2502                                                       %u2502'',
          ''        %u2514%r042500 other hart/task: CAS fails, spin in place %u25c0%r062500%u2518'']),
      CodeBlock (Some (js ''rust'')) (jlines [''pub struct SpinLock<T> {'',
          ''    locked: AtomicBool,'',
          ''    data:   UnsafeCell<T>,'',
          ''}'',
          ''pub struct SpinLockGuard<'a, T> {'',
          ''    lock:      &'a SpinLock<T>,'',
          ''    irq_saved: bool,      // sstatus.SIE value before lock()'',
          ''}'',
          ''unsafe impl<T: Send> Sync for SpinLock<T> {}''])]\<rparr>\<close>

definition phase3En_lesson2_section2 :: ContentSection where
  \<open>phase3En_lesson2_section2 = \<lparr>
    section_title = js ''Why disable interrupts even on a single core'',
    section_blocks = [ParagraphBlock (jcat [''On multicore, disabling IRQs protects against an interrupt handler re-entering the '',
          ''same lock %u2014 easy to see. But on a single core, intuition says "only one task '',
          ''runs at a time, why bother?"'']),
      DiagramBlock (jlines [''hart 0:'',
          ''  L.lock()           %u2190 locked becomes true'',
          ''  ... critical section ...'',
          ''                     %u2190 timer IRQ!'',
          ''  trap_handler:'',
          ''    scheduler picks task T2'',
          ''    T2 somewhere calls L.lock()'',
          ''                     %u2190 spins waiting for locked = false'',
          ''                     %u2190 but T1 (the holder) never resumes'',
          ''                     %u2190 hart 0 deadlocks with itself'']),
      CalloutBlock Warning (jcat [''This is self-deadlock %u2014 unlike multicore deadlock, a single hart with a single '',
          ''task can reproduce it. xv6 uses push_off/pop_off to count nested disable/enable. '',
          ''Our Rust version puts the saved state in the RAII guard's irq_saved field.'']),
      CodeBlock (Some (js ''rust'')) (jlines [''impl<T> SpinLock<T> {'',
          ''    pub fn lock(&self) -> SpinLockGuard<'_, T> {'',
          ''        let saved = disable_and_save_intr();           // %u2460 disable IRQs first'',
          ''        while self.locked'',
          ''            .compare_exchange(false, true,'',
          ''                              Ordering::Acquire,       // %u2461 matters'',
          ''                              Ordering::Relaxed)'',
          ''            .is_err()'',
          ''        {'',
          ''            core::hint::spin_loop();                   // %u2462 pause hint'',
          ''        }'',
          ''        SpinLockGuard { lock: self, irq_saved: saved }'',
          ''    }'',
          ''}'',
          ''impl<T> Drop for SpinLockGuard<'_, T> {'',
          ''    fn drop(&mut self) {'',
          ''        self.lock.locked.store(false, Ordering::Release);  // %u2463 release lock first'',
          ''        restore_intr(self.irq_saved);                      // %u2464 then restore IRQs'',
          ''    }'',
          ''}''])]\<rparr>\<close>

definition phase3En_lesson2_section3 :: ContentSection where
  \<open>phase3En_lesson2_section3 = \<lparr>
    section_title = js ''Three deadly bugs'',
    section_blocks = [TableBlock [js ''Mistake'',
         js ''Symptom'',
         js ''Root cause'']
        [[js ''drop: restore_intr before store'',
          js ''Very rare deadlock / corruption'',
          js ''CS writes not yet visible when IRQ sees old state''],
         [js ''CAS success ordering = Relaxed'',
          js ''Stale reads under stress tests'',
          js ''Protected reads hoisted above the CAS''],
         [js ''Forgot core::hint::spin_loop()'',
          js ''Correct but starves sibling harts'',
          js ''Modern CPUs need pause to yield pipeline to SMT peer'']],
      CalloutBlock Tip (jcat [''Rust's Drop + borrow checker make it "impossible to forget unlock" %u2014 as long '',
          ''as you don't mem::forget the guard. Compare xv6's hand-written acquire/release in C: '',
          ''pairing them is an audit obligation; miss one release = permanent deadlock.''])]\<rparr>\<close>

definition phase3En_lesson2_section4 :: ContentSection where
  \<open>phase3En_lesson2_section4 = \<lparr>
    section_title = js ''A little RAII philosophy'',
    section_blocks = [CodeBlock (Some (js ''rust'')) (jlines [''// Good: guard lifetime == critical section'',
          ''{'',
          ''    let mut g = lock.lock();'',
          ''    *g += 1;'',
          ''}   // %u2190 guard drops, lock auto-released'',
          ''// continue without holding the lock'',
          '''',
          ''// Bad: CS accidentally long'',
          ''let mut g = lock.lock();'',
          ''*g += 1;'',
          ''some_slow_io();                 // %u2605 still holding the lock'',
          ''*g -= 1;'']),
      ParagraphBlock (jcat [''RAII hands the compiler the invariant "lock lifetime = variable lifetime." The '',
          ''price: you must actively let the guard drop %u2014 use a { } scope, or call drop(g) '',
          ''explicitly. Since SpinLock assumes microsecond CS, this fine control matters.''])]\<rparr>\<close>

definition phase3En_lesson2_exercise1 :: CodeExercise where
  \<open>phase3En_lesson2_exercise1 = \<lparr>
    exercise_id = js ''lab-spinlock'',
    exercise_title = js ''Lab 1 %u2b50 Implement SpinLock<T>'',
    exercise_description = jcat [''In src/sync/spin.rs, implement SpinLock::lock / try_lock / raw_unlock and '',
        ''SpinLockGuard::drop. A scaffold and HINT comments are already in the file.''],
    exercise_labFile = Some (js ''labs/phase_3_sync/src/sync/spin.rs''),
    exercise_hints = [jcat [''lock(): disable IRQs first, then CAS %u2014 reverse order gets you preempted the '',
         ''instant IRQs come back on''],
       js ''drop(): store(false, Release) first, restore_intr second'',
       js ''Use compare_exchange_weak in a loop %u2014 spurious failures are cheaper'',
       js ''try_lock: one CAS attempt, return None on failure (no spin)''],
    exercise_pseudocode = Some (jlines [''fn lock(&self) -> Guard<'_, T> {'',
          ''    let saved = disable_intr();'',
          ''    loop {'',
          ''        match self.locked.compare_exchange_weak('',
          ''            false, true, Acquire, Relaxed)'',
          ''        {'',
          ''            Ok(_)  => return Guard { lock: self, irq_saved: saved },'',
          ''            Err(_) => hint::spin_loop(),'',
          ''        }'',
          ''    }'',
          ''}'',
          ''fn drop(&mut self) {'',
          ''    self.lock.locked.store(false, Release);'',
          ''    restore_intr(self.irq_saved);'',
          ''}''])\<rparr>\<close>

definition phase3En_lesson2 :: Lesson where
  \<open>phase3En_lesson2 = \<lparr>
    lesson_phaseId = 3, lesson_lessonId = 2,
    lesson_title = js ''SpinLock: atomic flag + disabled interrupts'',
    lesson_subtitle = js ''The simplest lock that actually works'',
    lesson_type = js ''Lab'',
    lesson_duration = js ''2 hours'',
    lesson_objectives = [js ''Build a correct SpinLock<T> from AtomicBool + compare_exchange'',
       jcat [''Explain why even a uniprocessor must disable IRQs %u2014 otherwise an IRQ taking '',
         ''the same lock deadlocks with itself''],
       js ''Use an RAII guard so unlock runs in Drop and can't be forgotten'',
       js ''Get the drop order right: release the flag first, then restore IRQs''],
    lesson_sections = [phase3En_lesson2_section1,
      phase3En_lesson2_section2,
      phase3En_lesson2_section3,
      phase3En_lesson2_section4],
    lesson_exercises = [phase3En_lesson2_exercise1],
    lesson_acceptanceCriteria = [js ''cargo test sync::spin all green (including 100k-iteration fetch_add stress test)'',
       js ''Can explain: why disable IRQs on one core? why can't drop order be reversed?'',
       js ''Knows compare_exchange_weak vs _strong and when each is preferable''],
    lesson_references = [\<lparr>reference_title = js ''xv6-riscv book %u00a76.3'',
       reference_description = js ''[Required] Code: Locks %u2014 the canonical push_off/pop_off implementation'',
       reference_url = js ''https://pdos.csail.mit.edu/6.828/2023/xv6/book-riscv-rev3.pdf''\<rparr>,
      \<lparr>reference_title = js ''OSTEP Ch. 28 %u00a728.10'',
       reference_description = js ''[Required] Spin Locks with Test-and-Set / CAS'',
       reference_url = js ''https://pages.cs.wisc.edu/~remzi/OSTEP/threads-locks.pdf''\<rparr>,
      \<lparr>reference_title = js ''Rust std::sync::atomic'',
       reference_description = js ''[Deep dive] Official Ordering explainer with examples'',
       reference_url = js ''https://doc.rust-lang.org/std/sync/atomic/''\<rparr>]\<rparr>\<close>

section \<open>Lesson 3\<close>

definition phase3En_lesson3_section1 :: ContentSection where
  \<open>phase3En_lesson3_section1 = \<lparr>
    section_title = js ''Spin or sleep? One table decides'',
    section_blocks = [TableBlock [js ''Dimension'',
         js ''SpinLock'',
         js ''SleepLock'']
        [[js ''CS length'',
          js ''< a few %u00b5s, dozens of instructions'',
          js ''ms to seconds is fine''],
         [js ''Can you sleep while holding?'',
          js ''Never %u2014 scheduler deadlock'',
          js ''Yes %u2014 it's itself a blocking primitive''],
         [js ''Usable in IRQ context?'',
          js ''Yes (with local IRQs off)'',
          js ''No %u2014 cannot yield in an IRQ handler''],
         [js ''Preemption?'',
          js ''IRQs off while held %u21d2 no preempt'',
          js ''Preemptable while held''],
         [js ''CPU cost while waiting'',
          js ''100%25 busy-wait'',
          js ''Zero %u2014 scheduler runs something else''],
         [js ''Typical use'',
          js ''List heads, bump counters'',
          js ''Disk I/O, network, heap-growing alloc'']],
      CalloutBlock Info (jcat [''Rule of thumb: if the CS contains any call that can yield (I/O, fallible alloc, '',
          ''nested locking), you MUST use SleepLock. Yielding inside a SpinLock means certain death.''])]\<rparr>\<close>

definition phase3En_lesson3_section2 :: ContentSection where
  \<open>phase3En_lesson3_section2 = \<lparr>
    section_title = js ''Data structure'',
    section_blocks = [CodeBlock (Some (js ''rust'')) (jlines [''pub struct SleepLock<T> {'',
          ''    inner: SpinLock<SleepLockInner<T>>,   // %u2190 inner SpinLock guards metadata'',
          ''}'',
          ''struct SleepLockInner<T> {'',
          ''    locked:     bool,'',
          ''    wait_queue: VecDeque<TaskHandle>,     // blocked task handles'',
          ''    data:       T,                        // protected data'',
          ''}'']),
      CalloutBlock Warning (jcat [''Nesting caveat: the wait_queue itself is shared state and needs its own lock %u2014 '',
          ''but that inner lock can't be another SleepLock (infinite recursion). It must be a '',
          ''SpinLock. Hold it only long enough to manipulate the queue.''])]\<rparr>\<close>

definition phase3En_lesson3_section3 :: ContentSection where
  \<open>phase3En_lesson3_section3 = \<lparr>
    section_title = js ''lock and unlock timelines'',
    section_blocks = [DiagramBlock (jlines [''lock() %u2500%u2500%u252c%r042500 inner.lock()'',
          ''         %u2502      if !locked:                    %u2190 happy path'',
          ''         %u2502          locked = true'',
          ''         %u2502          drop inner guard'',
          ''         %u2502          return'',
          ''         %u2502'',
          ''         %u2514%r042500 else:'',
          ''                  push self onto wait_queue'',
          ''                  drop inner guard'',
          ''                  sched::block_current()       %u2190 yield CPU'',
          ''                  (on wake: return, holding lock)'',
          '''',
          ''unlock() %r042500inner.lock()'',
          ''              if wait_queue non-empty:'',
          ''                  waiter = pop_front()'',
          ''                  // keep locked = true!'',
          ''                  drop inner guard'',
          ''                  sched::wake(waiter)          %u2190 direct handoff'',
          ''              else:'',
          ''                  locked = false'',
          ''                  drop inner guard'']),
      CalloutBlock Tip (jcat [''Key design: on unlock with waiters, do NOT clear locked. Hand the lock over '',
          ''directly to the woken task. If you cleared locked and then woke, a third task could CAS '',
          ''true before the waiter gets scheduled %u2014 lock stolen, waiter has to sleep again.''])]\<rparr>\<close>

definition phase3En_lesson3_section4 :: ContentSection where
  \<open>phase3En_lesson3_section4 = \<lparr>
    section_title = js ''Producer-consumer: SleepLock's canonical customer'',
    section_blocks = [CodeBlock (Some (js ''rust'')) (jlines [''// Bounded ring buffer'',
          ''static BUF:   SleepLock<RingBuf<u8>>   = ...;'',
          ''static EMPTY: Semaphore = Semaphore::new(N as isize);   // empty slots'',
          ''static FULL:  Semaphore = Semaphore::new(0);            // filled slots'',
          '''',
          ''fn producer(item: u8) {'',
          ''    EMPTY.down();                  // wait for empty slot'',
          ''    BUF.lock().push(item);         // short CS'',
          ''    FULL.up();                     // signal consumers'',
          ''}'',
          ''fn consumer() -> u8 {'',
          ''    FULL.down();                   // wait for filled slot'',
          ''    let x = BUF.lock().pop();'',
          ''    EMPTY.up();'',
          ''    x'',
          ''}'']),
      ParagraphBlock (jcat [''BUF's CS (push/pop) is short enough that SpinLock would also work. But EMPTY/FULL '',
          ''are inherently blocking %u2014 producer may need to sleep for seconds, not spin. That '',
          ''is the whole raison d'%u00eatre of semaphores; next lesson.''])]\<rparr>\<close>

definition phase3En_lesson3_section5 :: ContentSection where
  \<open>phase3En_lesson3_section5 = \<lparr>
    section_title = js ''Thundering herd'',
    section_blocks = [ParagraphBlock (jcat [''Imagine 100 tasks all waiting on one lock. If unlock wakes them ALL, they race to '',
          ''CAS %u2014 one wins, 99 lose and sleep again. 99 wasted context switches.'']),
      CalloutBlock Info (jcat [''SleepLock wakes exactly one (pop_front + direct handoff) %u2014 no herd. '',
          ''Condvar::notify_all explicitly opts in to a herd; sometimes correct ("all readers should '',
          ''wake"). Use notify_one when you only need one woken.''])]\<rparr>\<close>

definition phase3En_lesson3_exercise1 :: CodeExercise where
  \<open>phase3En_lesson3_exercise1 = \<lparr>
    exercise_id = js ''lab-sleeplock'',
    exercise_title = js ''Lab 2 %u2b50%u2b50 Implement SleepLock<T>'',
    exercise_description = jcat [''In src/sync/sleep.rs, implement SleepLock::lock / unlock. The wait_queue is '',
        ''VecDeque<TaskHandle>; the inner lock is your Lab 1 SpinLock.''],
    exercise_labFile = Some (js ''labs/phase_3_sync/src/sync/sleep.rs''),
    exercise_hints = [jcat [''Call block_current() AFTER drop(inner_guard) %u2014 otherwise you yield while still '',
         ''holding the SpinLock''],
       jcat [''On unlock with non-empty queue, do NOT set locked = false %u2014 keep it true for '',
         ''the direct handoff''],
       js ''Waking uses sched::wake(handle) to move the task from Blocked to Ready'',
       js ''Test: two tasks contend on one SleepLock %u2014 assert serialization (not interleaving)''],
    exercise_pseudocode = Some (jlines [''fn lock(&self) {'',
          ''    let mut g = self.inner.lock();'',
          ''    if !g.locked {'',
          ''        g.locked = true;'',
          ''        return;'',
          ''    }'',
          ''    g.wait_queue.push_back(current_task());'',
          ''    drop(g);                      // %u2605 release inner lock first'',
          ''    sched::block_current();       // %u2605 then sleep'',
          ''}'',
          ''fn unlock(&self) {'',
          ''    let mut g = self.inner.lock();'',
          ''    if let Some(w) = g.wait_queue.pop_front() {'',
          ''        // keep locked = true %u2014 direct handoff'',
          ''        drop(g);'',
          ''        sched::wake(w);'',
          ''    } else {'',
          ''        g.locked = false;'',
          ''    }'',
          ''}''])\<rparr>\<close>

definition phase3En_lesson3 :: Lesson where
  \<open>phase3En_lesson3 = \<lparr>
    lesson_phaseId = 3, lesson_lessonId = 3,
    lesson_title = js ''SleepLock and wait queues'',
    lesson_subtitle = js ''When to sleep, when to spin'',
    lesson_type = js ''Lab'',
    lesson_duration = js ''2 hours'',
    lesson_objectives = [js ''Pick SpinLock vs SleepLock for a given critical section'',
       js ''Build a blocking mutex from SpinLock + wait queue + scheduler yield'',
       js ''Explain how "direct handoff" on unlock avoids lost wakeups and lock stealing'',
       js ''Avoid the thundering herd''],
    lesson_sections = [phase3En_lesson3_section1,
      phase3En_lesson3_section2,
      phase3En_lesson3_section3,
      phase3En_lesson3_section4,
      phase3En_lesson3_section5],
    lesson_exercises = [phase3En_lesson3_exercise1],
    lesson_acceptanceCriteria = [js ''cargo test sync::sleep passes'',
       js ''Can draw the timeline where "clear locked + wake" causes a stolen lock'',
       js ''Can explain why the inner lock of a SleepLock cannot itself be a SleepLock''],
    lesson_references = [\<lparr>reference_title = js ''xv6-riscv book %u00a76.5'',
       reference_description = js ''[Required] Sleep locks %u2014 the minimal C version to compare against Rust'',
       reference_url = js ''https://pdos.csail.mit.edu/6.828/2023/xv6/book-riscv-rev3.pdf''\<rparr>,
      \<lparr>reference_title = js ''OSTEP Ch. 30'',
       reference_description = js ''[Required] Condition Variables %u2014 producer-consumer from first principles'',
       reference_url = js ''https://pages.cs.wisc.edu/~remzi/OSTEP/threads-cv.pdf''\<rparr>,
      \<lparr>reference_title = js ''Linux Kernel Development Ch. 10'',
       reference_description = js ''[Deep dive] Love Ch. 10 %u2014 industrial spin/rw/seqlock/mutex comparison'',
       reference_url = js ''https://www.oreilly.com/library/view/linux-kernel-development/9780672329463/''\<rparr>]\<rparr>\<close>

section \<open>Lesson 4\<close>

definition phase3En_lesson4_section1 :: ContentSection where
  \<open>phase3En_lesson4_section1 = \<lparr>
    section_title = js ''Counting semaphore: isize + wait queue'',
    section_blocks = [ParagraphBlock (jcat [''Semaphores were invented by Dijkstra in 1965 %u2014 originally P (proberen, "to '',
          ''try") and V (verhogen, "to raise"). An isize counter plus a wait queue. Initial value N '',
          ''allows N concurrent holders. Initial value 1 degenerates into a mutex.'']),
      TableBlock [js ''count value'',
         js ''physical meaning'']
        [[js ''3'',
          js ''3 resources available; no waiters''],
         [js ''0'',
          js ''Resources exhausted; next down blocks''],
         [js ''-2'',
          js ''Resources exhausted + 2 tasks in the wait queue'']],
      CodeBlock (Some (js ''rust'')) (jlines [''pub struct Semaphore {'',
          ''    inner: SpinLock<SemInner>,'',
          ''}'',
          ''struct SemInner {'',
          ''    count:      isize,'',
          ''    wait_queue: VecDeque<TaskHandle>,'',
          ''}'',
          ''impl Semaphore {'',
          ''    pub fn down(&self) {'',
          ''        let mut g = self.inner.lock();'',
          ''        g.count -= 1;'',
          ''        if g.count < 0 {'',
          ''            g.wait_queue.push_back(current_task());'',
          ''            drop(g);'',
          ''            sched::block_current();'',
          ''        }'',
          ''    }'',
          ''    pub fn up(&self) {'',
          ''        let mut g = self.inner.lock();'',
          ''        g.count += 1;'',
          ''        if g.count <= 0 {'',
          ''            let w = g.wait_queue.pop_front().unwrap();'',
          ''            drop(g);'',
          ''            sched::wake(w);'',
          ''        }'',
          ''    }'',
          ''}'']),
      CalloutBlock Tip (jcat [''Note: down decrements first then checks %u2014 so one count value encodes both '',
          ''"remaining resources" (%u2265 0) and "negated waiter count" (< 0). This self-encoding is '',
          ''harder to desync than two separate fields.''])]\<rparr>\<close>

definition phase3En_lesson4_section2 :: ContentSection where
  \<open>phase3En_lesson4_section2 = \<lparr>
    section_title = js ''Condvar: sleep until a predicate becomes true'',
    section_blocks = [ParagraphBlock (jcat [''Semaphores suit resource counting. When the waiting condition doesn't map cleanly '',
          ''to "a count" (e.g. "queue has an even number of elements"), use a Condition Variable. '',
          ''A Condvar always pairs with a Mutex %u2014 Mutex protects the state the predicate '',
          ''reads, Condvar provides sleep-and-notify.'']),
      CodeBlock (Some (js ''rust'')) (jlines [''// Canonical wait loop %u2014 use while, NOT if'',
          ''let mut g = mutex.lock();'',
          ''while !predicate(&*g) {'',
          ''    g = condvar.wait(g);     // %u2190 atomically: release lock + enqueue + sleep;'',
          ''                             //   reacquire on wake'',
          ''}'',
          ''// predicate now true AND lock held'',
          ''process(&mut *g);'',
          ''drop(g);'']),
      CalloutBlock Warning (jcat [''Why while, not if? (1) Some implementations allow spurious wakeups; (2) notify_all '',
          ''wakes many but only one gets the mutex %u2014 others re-find a false predicate; (3) '',
          ''wake + predicate-true is not atomic. if works 99%25 of the time %u2014 which is '',
          ''exactly what makes it dangerous.''])]\<rparr>\<close>

definition phase3En_lesson4_section3 :: ContentSection where
  \<open>phase3En_lesson4_section3 = \<lparr>
    section_title = js ''Lost wakeups and the atomicity of Condvar::wait'',
    section_blocks = [DiagramBlock (jlines [''Broken implementation (wait not atomic):'',
          ''  Waiter A                         Signaler B'',
          ''  ----------                       -----------'',
          ''  mutex.lock()'',
          ''  check pred %u2192 false'',
          ''  mutex.unlock()'',
          ''                                   mutex.lock()'',
          ''                                   set pred = true'',
          ''                                   condvar.signal()   %u2190 nobody in queue!'',
          ''                                   mutex.unlock()'',
          ''  condvar.wait()                   %u2190 sleeps forever'',
          '''',
          ''Correct: wait() must "enqueue THEN release mutex" atomically from the'',
          ''outside. One technique: hold the Condvar's own inner SpinLock across'',
          ''both steps.'']),
      CodeBlock (Some (js ''rust'')) (jlines [''pub fn wait<'a, T>(&self, guard: MutexGuard<'a, T>)'',
          ''    -> MutexGuard<'a, T>'',
          ''{'',
          ''    let mutex = guard.mutex();'',
          ''    let mut cv_inner = self.inner.lock();      // %u2460 take Condvar's inner lock'',
          ''    cv_inner.wait_queue.push_back(current());   // %u2461 enqueue first'',
          ''    drop(guard);                               // %u2462 then release user mutex'',
          ''    drop(cv_inner);                            // %u2463 release Condvar inner'',
          ''    sched::block_current();                    // %u2464 sleep'',
          ''    mutex.lock()                               // %u2465 reacquire on wake'',
          ''}''])]\<rparr>\<close>

definition phase3En_lesson4_section4 :: ContentSection where
  \<open>phase3En_lesson4_section4 = \<lparr>
    section_title = js ''Coffman's four conditions'',
    section_blocks = [ParagraphBlock (jcat [''Coffman (1971) proved: deadlock occurs iff all four conditions hold simultaneously. '',
          ''Break any one %u2014 deadlock becomes impossible.'']),
      TableBlock [js ''Condition'',
         js ''Meaning'',
         js ''How to break'']
        [[js ''%u2460 Mutual exclusion'',
          js ''Resources are non-shareable'',
          js ''Switch to rwlock / RCU / lock-free %u2014 not always possible''],
         [js ''%u2461 Hold and wait'',
          js ''Hold a resource while asking for another'',
          js ''Acquire all locks at once (two-phase locking)''],
         [js ''%u2462 No preemption'',
          js ''Kernel can't yank a lock away'',
          js ''Timeouts with rollback (try_lock + retry)''],
         [js ''%u2463 Circular wait'',
          js ''A cycle in the wait-for graph'',
          js ''Global lock ordering %u2014 always acquire in fixed order'']],
      CalloutBlock Info (jcat [''In practice %u2463 is broken most often: give every lock a global order (e.g. by '',
          ''address), always acquire ascending. Every edge in the wait-for graph points "up," so '',
          ''no cycle is possible.''])]\<rparr>\<close>

definition phase3En_lesson4_section5 :: ContentSection where
  \<open>phase3En_lesson4_section5 = \<lparr>
    section_title = js ''Dining philosophers: a mandatory deadlock drill'',
    section_blocks = [DiagramBlock (jlines [''5 philosophers, 5 forks, each has one on left and right. Each repeats:'',
          ''think -> pick up left -> pick up right -> eat -> put left -> put right.'',
          '''',
          ''If all pick up "left" at once, here is the deadlock:'',
          ''       P0 %u2500%u2500holds%u2500%u2500%u25b6 F0 %u2500%u2500wanted by%u2500%u2500%u25b6 P1'',
          ''        %u25b2                                %u2502'',
          ''        %u2502                               holds'',
          ''       wants                             %u2502'',
          ''        %u2502                                %u25bc'',
          ''        F4 %u25c0%u2500%u2500holds%u2500%u2500 P4 %u25c0%u2500%u2500wants%u2500%u2500 F1'',
          ''                      %u25b2              %u2502'',
          ''                      %u2502             holds'',
          ''                     wants           %u2502'',
          ''                      %u2502              %u25bc'',
          ''                      F3 %u25c0%u2500%u2500holds%u2500%u2500 P2 %u2500%u2500wants%u2500%u2500%u25b6 F2'',
          '''',
          ''Five edges head-to-tail %u2014 a perfect cycle.'']),
      ParagraphBlock (jcat [''Classic fix (break %u2463): number the forks 0..4, each philosopher grabs min(left, '',
          ''right) first. Now P4 picks up F0 before F4 (since 0 < 4), and the cycle cannot '',
          ''form. Another fix (break %u2461): use try_lock, and if the second grab fails, release '',
          ''the first and retry.'']),
      CodeBlock (Some (js ''rust'')) (jlines [''// Gist of labs/phase_3_sync/user/src/bin/philosopher_dinner.rs'',
          ''fn philosopher(id: usize, forks: &[Mutex<()>; 5]) {'',
          ''    let (a, b) = {'',
          ''        let l = id;'',
          ''        let r = (id + 1) %25 5;'',
          ''        if l < r { (l, r) } else { (r, l) }   // %u2605 smaller index first'',
          ''    };'',
          ''    loop {'',
          ''        think();'',
          ''        let _ga = forks[a].lock();'',
          ''        let _gb = forks[b].lock();'',
          ''        eat();'',
          ''    }'',
          ''}''])]\<rparr>\<close>

definition phase3En_lesson4_exercise1 :: CodeExercise where
  \<open>phase3En_lesson4_exercise1 = \<lparr>
    exercise_id = js ''lab-sem-cv'',
    exercise_title = js ''Lab 3a %u2b50%u2b50 Semaphore + Condvar'',
    exercise_description = jcat [''In src/sync/semaphore.rs and src/sync/condvar.rs, implement Semaphore::{up,down} '',
        ''and Condvar::{wait,notify_one,notify_all}.''],
    exercise_labFile = Some (js ''labs/phase_3_sync/src/sync/semaphore.rs''),
    exercise_hints = [js ''Semaphore's inner SpinLock must guard (count, wait_queue) together'',
       jcat [''Condvar::wait must enqueue BEFORE releasing the user mutex %u2014 think the '',
         ''ordering through''],
       js ''notify_all can drain the queue in one pop loop, calling wake on each'',
       js ''Stress test each: 2 producers + 2 consumers %u00d7 10000 iterations''],
    exercise_pseudocode = Some (jlines [''// Semaphore'',
          ''fn down(&self) {'',
          ''    let mut g = self.inner.lock();'',
          ''    g.count -= 1;'',
          ''    if g.count < 0 {'',
          ''        g.wait_queue.push_back(current());'',
          ''        drop(g);'',
          ''        sched::block_current();'',
          ''    }'',
          ''}'',
          ''fn up(&self) {'',
          ''    let mut g = self.inner.lock();'',
          ''    g.count += 1;'',
          ''    if g.count <= 0 {'',
          ''        let w = g.wait_queue.pop_front().unwrap();'',
          ''        drop(g);'',
          ''        sched::wake(w);'',
          ''    }'',
          ''}''])\<rparr>\<close>

definition phase3En_lesson4_exercise2 :: CodeExercise where
  \<open>phase3En_lesson4_exercise2 = \<lparr>
    exercise_id = js ''lab-philosopher'',
    exercise_title = js ''Lab 3b %u2b50 Dining philosophers %u2014 deadlock-free'',
    exercise_description = jcat [''In user/src/bin/philosopher_dinner.rs, use 5 Mutexes as forks. Apply lock ordering '',
        ''so that over 60 seconds every philosopher's heartbeat keeps advancing.''],
    exercise_labFile = Some (js ''labs/phase_3_sync/src/sync/mutex.rs''),
    exercise_hints = [js ''Everyone picks min(left, right) first %u2014 only P4 behaves differently from the others'',
       js ''Add HEARTBEAT: [AtomicUsize; 5]; +1 per eat()'',
       js ''main watches for 60s: strictly monotonic increase on all five = pass''],
    exercise_pseudocode = None\<rparr>\<close>

definition phase3En_lesson4 :: Lesson where
  \<open>phase3En_lesson4 = \<lparr>
    lesson_phaseId = 3, lesson_lessonId = 4,
    lesson_title = js ''Semaphore / Condvar + the four conditions for deadlock'',
    lesson_subtitle = js ''From counting semaphores to the dining philosophers'',
    lesson_type = js ''Lab + Concept'',
    lesson_duration = js ''2.5 hours'',
    lesson_objectives = [js ''Implement Semaphore::{up, down}; read the physical meaning of the counter'',
       js ''Write a wait loop with Mutex + Condvar that cannot lose wakeups'',
       js ''Memorize Coffman's four conditions and one way to break each'',
       js ''Break the dining philosophers deadlock with lock ordering''],
    lesson_sections = [phase3En_lesson4_section1,
      phase3En_lesson4_section2,
      phase3En_lesson4_section3,
      phase3En_lesson4_section4,
      phase3En_lesson4_section5],
    lesson_exercises = [phase3En_lesson4_exercise1, phase3En_lesson4_exercise2],
    lesson_acceptanceCriteria = [js ''cargo test sync::{semaphore,condvar,mutex} all green'',
       js ''philosopher_dinner runs 60s without deadlock; all five heartbeats climb'',
       js ''Can recite Coffman's four conditions and one way to break each'',
       js ''Can explain why Condvar::wait needs "enqueue + release" atomicity''],
    lesson_references = [\<lparr>reference_title = js ''OSTEP Ch. 31'',
       reference_description = jcat [''[Required] Semaphores %u2014 down/up through producer-consumer, readers-writers, '',
          ''philosophers''],
       reference_url = js ''https://pages.cs.wisc.edu/~remzi/OSTEP/threads-sema.pdf''\<rparr>,
      \<lparr>reference_title = js ''OSTEP Ch. 32'',
       reference_description = js ''[Required] Common Concurrency Problems %u2014 taxonomy of deadlock and non-deadlock bugs'',
       reference_url = js ''https://pages.cs.wisc.edu/~remzi/OSTEP/threads-bugs.pdf''\<rparr>,
      \<lparr>reference_title = js ''rCore-Tutorial Ch. 5'',
       reference_description = js ''[Deep dive] Sister tutorial's process + synchronization chapter in Rust'',
       reference_url = js ''https://rcore-os.cn/rCore-Tutorial-Book-v3/chapter5/''\<rparr>]\<rparr>\<close>

section \<open>The phase\<close>

definition phase3En :: PhaseContent where
  \<open>phase3En = \<lparr>
    content_phaseId = 3,
    content_color = js ''#7C3AED'',
    content_accent = js ''#A78BFA'',
    content_lessons = [phase3En_lesson1, phase3En_lesson2, phase3En_lesson3, phase3En_lesson4]\<rparr>\<close>

section \<open>Well-formedness\<close>

lemma phase3En_lesson1_ok: "lesson_ok phase3En_lesson1"
  by (simp add: lesson_ok_def section_ok_def phase3En_lesson1_def
      phase3En_lesson1_section1_def
      phase3En_lesson1_section2_def
      phase3En_lesson1_section3_def
      phase3En_lesson1_section4_def
      phase3En_lesson1_exercise1_def)

lemma phase3En_lesson2_ok: "lesson_ok phase3En_lesson2"
  by (simp add: lesson_ok_def section_ok_def phase3En_lesson2_def
      phase3En_lesson2_section1_def
      phase3En_lesson2_section2_def
      phase3En_lesson2_section3_def
      phase3En_lesson2_section4_def
      phase3En_lesson2_exercise1_def)

lemma phase3En_lesson3_ok: "lesson_ok phase3En_lesson3"
  by (simp add: lesson_ok_def section_ok_def phase3En_lesson3_def
      phase3En_lesson3_section1_def
      phase3En_lesson3_section2_def
      phase3En_lesson3_section3_def
      phase3En_lesson3_section4_def
      phase3En_lesson3_section5_def
      phase3En_lesson3_exercise1_def)

lemma phase3En_lesson4_ok: "lesson_ok phase3En_lesson4"
  by (simp add: lesson_ok_def section_ok_def phase3En_lesson4_def
      phase3En_lesson4_section1_def
      phase3En_lesson4_section2_def
      phase3En_lesson4_section3_def
      phase3En_lesson4_section4_def
      phase3En_lesson4_section5_def
      phase3En_lesson4_exercise1_def
      phase3En_lesson4_exercise2_def)

lemma phase3En_lesson1_ids: "lesson_phaseId phase3En_lesson1 = 3" "lesson_lessonId phase3En_lesson1 = 1"
  by (simp_all add: phase3En_lesson1_def)

lemma phase3En_lesson2_ids: "lesson_phaseId phase3En_lesson2 = 3" "lesson_lessonId phase3En_lesson2 = 2"
  by (simp_all add: phase3En_lesson2_def)

lemma phase3En_lesson3_ids: "lesson_phaseId phase3En_lesson3 = 3" "lesson_lessonId phase3En_lesson3 = 3"
  by (simp_all add: phase3En_lesson3_def)

lemma phase3En_lesson4_ids: "lesson_phaseId phase3En_lesson4 = 3" "lesson_lessonId phase3En_lesson4 = 4"
  by (simp_all add: phase3En_lesson4_def)

lemma phase3En_shape [site_shape]:
  "content_phaseId phase3En = 3" "length (content_lessons phase3En) = 4"
  by (simp_all add: phase3En_def)

lemma phase3En_ok [site_shape]: "content_ok phase3En"
  by (simp add: content_ok_def phase3En_def upt_rec
      phase3En_lesson1_ok phase3En_lesson2_ok phase3En_lesson3_ok phase3En_lesson4_ok
      phase3En_lesson1_ids phase3En_lesson2_ids phase3En_lesson3_ids phase3En_lesson4_ids)

end
