(* ===== verification/Phase4_Paths.thy ===== *)
theory Phase4_Paths
  imports Content_Types
begin

text \<open>The lab file paths that both translations of phase 4 share (\<open>website/src/data/phase4.ts\<close>).\<close>

definition LAB_PT :: jstring where
  \<open>LAB_PT = js ''labs/phase_4_vm/src/mm/page_table.rs''\<close>

definition LAB_FA :: jstring where
  \<open>LAB_FA = js ''labs/phase_4_vm/src/mm/frame_allocator.rs''\<close>

definition LAB_MS :: jstring where
  \<open>LAB_MS = js ''labs/phase_4_vm/src/mm/memory_set.rs''\<close>

definition LAB_ADDR :: jstring where
  \<open>LAB_ADDR = js ''labs/phase_4_vm/src/mm/address.rs''\<close>

end
