(* ===== verification/Phase4_ZhCN.thy ===== *)
theory Phase4_ZhCN
  imports Phase4_Paths
begin

text \<open>
  Phase 4, virtual memory, in Simplified Chinese: the constant \<open>phase4ZhCN\<close> of
  \<open>website/src/data/phase4.ts\<close>, one definition per section, exercise and lesson. Below it, that the
  content is well formed.
\<close>

section \<open>Lesson 1\<close>

definition phase4ZhCN_lesson1_section1 :: ContentSection where
  \<open>phase4ZhCN_lesson1_section1 = \<lparr>
    section_title = js ''%u4e3a%u4ec0%u4e48%u4e00%u4e2a%u865a%u62df%u5730%u5740%u9700%u8981%u4e09%u6b21%u67e5%u8868'',
    section_blocks = [ParagraphBlock (jcat [''SV39 %u7528 39 %u4f4d%u865a%u62df%u5730%u5740%u6620%u5c04%u5230 56 '',
          ''%u4f4d%u7269%u7406%u5730%u5740%u3002%u5982%u679c%u7528%u4e00%u5f20%u5e73%u5766%u9875%u8868%uff0c'',
          ''%u9700%u8981 2^27 %u00d7 8B = 1 GiB %u7684%u8fde%u7eed%u5185%u5b58%uff0c%u8fd9%u65e2'',
          ''%u6d6a%u8d39%u53c8%u4e0d%u73b0%u5b9e%u3002%u591a%u7ea7%u9875%u8868%u628a%u5b83%u6309'',
          '' 9 %u4f4d%u4e00%u5c42%u5207%u6210 3 %u5c42%uff0c%u6bcf%u5f20%u9875%u8868%u53ea%u5360'',
          '' 4 KiB%uff08512 %u00d7 8B%uff09%uff0c%u6309%u9700%u5206%u914d%u4e2d%u95f4%u5c42'',
          ''%u3002'']),
      ParagraphBlock (jcat [''%u9875%u5927%u5c0f%u56fa%u5b9a 4 KiB%uff0812 '',
          ''%u4f4d%u504f%u79fb%uff09%uff0c%u6240%u4ee5 VA %u4e2d%u771f%u6b63%u7528%u6765%u627e%u9875%u7684%u4f4d%u6570%u662f 39 - '',
          ''12 = 27 %u4f4d%uff0c%u6070%u597d%u5206%u6210 9 + 9 + 9 '',
          ''%u4e09%u6bb5%uff0c%u5bf9%u5e94%u4e09%u7ea7%u9875%u8868%u7684%u7d22%u5f15%u3002'']),
      CalloutBlock Info (jcat [''SV39 %u53ea%u4f7f%u7528%u4f4e 39 %u4f4d%uff0c%u9ad8 25 '',
          ''%u4f4d%u5fc5%u987b%u662f%u7b2c 38 %u4f4d%u7684%u7b26%u53f7%u6269%u5c55%u2014%u2014%u5426%u5219%u53d6%u6307/'',
          ''%u8bbf%u5b58%u76f4%u63a5%u5f02%u5e38%u3002%u8fd9%u7b49%u4ef7%u4e8e%u628a VA '',
          ''%u7a7a%u95f4%u5207%u6210 [0, 2^38) %u548c [2^64-2^38, 2^64) '',
          ''%u4e24%u6bb5%uff08%u7528%u6237%u9ad8%u534a / %u5185%u6838%u9ad8%u534a%uff09%u3002''])]\<rparr>\<close>

definition phase4ZhCN_lesson1_section2 :: ContentSection where
  \<open>phase4ZhCN_lesson1_section2 = \<lparr>
    section_title = js ''%u865a%u62df%u5730%u5740%u7684%u4f4d%u5207%u5206'',
    section_blocks = [DiagramBlock (jlines ['' 63                    39 38       30 29       21 20       12 11         0'',
          '' %u250c%r172500%u252c%r0b2500%u252c%r0b2500%u252c%r0b2500%u252c%r0c2500%u2510'',
          '' %u2502    sign-extend (=38)  %u2502  VPN[2]   %u2502  VPN[1]   %u2502  VPN[0]   %u2502   offset   %u2502'',
          '' %u2514%r172500%u2534%r0b2500%u2534%r0b2500%u2534%r0b2500%u2534%r0c2500%u2518'',
          ''        25 bits            9 bits      9 bits      9 bits      12 bits'',
          ''                           (L2 idx)    (L1 idx)    (L0 idx)    (in-page)'']),
      ParagraphBlock (jcat [''%u5173%u952e%u76f4%u89c9%uff1aVPN[2]/VPN[1]/VPN[0] '',
          ''%u662f%u4e09%u5f20%u9875%u8868%u4e2d%u7684%u6570%u7ec4%u4e0b%u6807%uff0coffset '',
          ''%u662f%u6700%u540e%u4e00%u7ea7%u9875%u91cc%u9762%u7684%u5b57%u8282%u504f%u79fb%u3002%u56db%u4e2a%u5b57%u6bb5%u52a0'',
          ''%u8d77%u6765%u5c31%u662f%u4e00%u6b21%u5b8c%u6574%u7ffb%u8bd1%u3002''])]\<rparr>\<close>

definition phase4ZhCN_lesson1_section3 :: ContentSection where
  \<open>phase4ZhCN_lesson1_section3 = \<lparr>
    section_title = js ''%u4e09%u7ea7 walk%uff1a%u4e09%u6b21%u8bbf%u5b58%u5c31%u80fd%u7b97%u51fa%u4efb%u610f PA'',
    section_blocks = [DiagramBlock (jlines ['' satp.PPN %u2500%u2500%u25ba %u250c%r0a2500 L2 page table (512 %u00d7 PTE) %r0a2500%u2510'',
          ''              %u2502 ...                                            %u2502'',
          ''              %u2502 [VPN[2]] = PTE2:  V=1 PPN=0x80201             %u2502  (interior, R|W|X=0)'',
          ''              %u2502 ...                                            %u2502'',
          ''              %u2514%r0c2500%u252c%r232500%u2518'',
          ''                           %u2502 next = PTE2.PPN << 12 = 0x80201000'',
          ''                           %u25bc'',
          ''              %u250c%r0a2500 L1 page table at PA 0x80201000 %r052500%u2510'',
          ''              %u2502 [VPN[1]] = PTE1:  V=1 PPN=0x80202             %u2502'',
          ''              %u2514%r0c2500%u252c%r232500%u2518'',
          ''                           %u25bc'',
          ''              %u250c%r0a2500 L0 page table at PA 0x80202000 %r052500%u2510'',
          ''              %u2502 [VPN[0]] = PTE0:  V=1 R=1 W=1 U=1 PPN=0x80AFC %u2502  (leaf!)'',
          ''              %u2514%r0c2500%u252c%r232500%u2518'',
          ''                           %u25bc'',
          ''              PA = (0x80AFC << 12) | offset'']),
      ParagraphBlock (jcat [''%u786c%u4ef6%u6700%u591a%u4e09%u6b21%u5185%u5b58%u8bbf%u95ee%uff1b%u547d%u4e2d TLB '',
          ''%u65f6%u5c31%u662f%u4e00%u6b21%u5bc4%u5b58%u5668%u64cd%u4f5c%u3002"%u53f6%u5b50" '',
          ''%u7684%u5224%u636e%u4e0d%u662f "%u5728%u7b2c 0 %u7ea7"%uff0c%u800c%u662f "R|W|X '',
          ''%u4efb%u4e00%u4e3a 1"%u2014%u2014SV39 %u652f%u6301 2 MiB / 1 GiB '',
          ''%u5927%u9875%uff0c%u65b9%u5f0f%u5c31%u662f%u628a%u53f6%u5b50%u4e0a%u63d0%u5230%u7b2c 1 '',
          ''%u7ea7%u6216%u7b2c 2 %u7ea7%u3002'']),
      CodeBlock (Some (js ''rust'')) (jlines [''// labs/phase_4_vm/src/mm/page_table.rs %u7684%u6838%u5fc3 walk'',
          ''fn find_pte(&self, vpn: VirtPageNum) -> Option<&mut PageTableEntry> {'',
          ''    let idxs = vpn.indexes();               // [vpn2, vpn1, vpn0]'',
          ''    let mut ppn = self.root_ppn;            // %u6765%u81ea satp.PPN'',
          ''    for i in 0..3 {'',
          ''        let pte = &mut ppn.get_pte_array()[idxs[i]];'',
          ''        if i == 2 { return Some(pte); }     // %u7b2c 0 %u7ea7%u5c31%u662f%u53f6%u5b50'',
          ''        if !pte.is_valid() { return None; } // %u4e2d%u9014%u7f3a%u9875 %u2192 None'',
          ''        ppn = pte.ppn();                    // %u4e0b%u4e00%u7ea7%u7684 PPN'',
          ''    }'',
          ''    unreachable!()'',
          ''}''])]\<rparr>\<close>

definition phase4ZhCN_lesson1_section4 :: ContentSection where
  \<open>phase4ZhCN_lesson1_section4 = \<lparr>
    section_title = js ''satp CSR%uff1a%u544a%u8bc9 MMU "%u4ece%u54ea%u91cc%u5f00%u59cb walk"'',
    section_blocks = [DiagramBlock (jlines ['' 63    60 59               44 43                                       0'',
          '' %u250c%r072500%u252c%r132500%u252c%r292500%u2510'',
          '' %u2502 MODE  %u2502       ASID        %u2502             root PPN                    %u2502'',
          '' %u2514%r072500%u2534%r132500%u2534%r292500%u2518'',
          ''  4 bits       16 bits                       44 bits'']),
      TableBlock [js ''%u5b57%u6bb5'',
         js ''%u5bbd%u5ea6'',
         js ''%u542b%u4e49'']
        [[js ''MODE'',
          js ''4'',
          js ''0=Bare%uff08%u4e0d%u7ffb%u8bd1%uff09 / 8=Sv39 / 9=Sv48 / 10=Sv57''],
         [js ''ASID'',
          js ''16'',
          jcat [''%u5730%u5740%u7a7a%u95f4 ID%uff1b%u5141%u8bb8%u540c%u4e00 TLB '',
            ''%u627f%u8f7d%u591a%u4e2a%u8fdb%u7a0b'']],
         [js ''PPN'',
          js ''44'',
          js ''L2 %u9875%u8868%u6240%u5728%u7269%u7406%u9875%u7684%u7269%u7406%u9875%u53f7'']],
      CodeBlock (Some (js ''rust'')) (jlines [''// %u542f%u7528 SV39'',
          ''let satp = 8usize << 60             // MODE = Sv39'',
          ''         | 0usize << 44             // ASID = 0%uff08%u5185%u6838%uff09'',
          ''         | kernel_root_ppn.0;        // root PPN'',
          ''unsafe {'',
          ''    asm!("csrw satp, {0}", "sfence.vma", in(reg) satp);'',
          ''}'']),
      CalloutBlock Warning (jcat [''%u5199 satp %u4e0d%u4f1a%u81ea%u52a8%u5237 TLB%u3002%u5fc5%u987b%u7d27%u8ddf%u4e00'',
          ''%u6761 sfence.vma%u2014%u2014%u5426%u5219 CPU '',
          ''%u53ef%u80fd%u7ee7%u7eed%u7528%u65e7%u5730%u5740%u7a7a%u95f4%u7684%u7f13%u5b58%u7ffb%u8bd1%uff0c%u7b2c%u4e00%u6761%u6307'',
          ''%u4ee4%u5c31 InstructionPageFault%u3002''])]\<rparr>\<close>

definition phase4ZhCN_lesson1_section5 :: ContentSection where
  \<open>phase4ZhCN_lesson1_section5 = \<lparr>
    section_title = js ''SV39 vs SV48%uff1a%u4e3a%u4ec0%u4e48%u672c%u8bfe%u53ea%u505a SV39'',
    section_blocks = [TableBlock [js ''%u5c5e%u6027'',
         js ''SV39'',
         js ''SV48'']
        [[js ''VA %u4f4d%u6570'',
          js ''39'',
          js ''48''],
         [js ''%u53ef%u5bfb%u5740%u7a7a%u95f4'',
          js ''512 GiB'',
          js ''256 TiB''],
         [js ''%u5c42%u6570'',
          js ''3'',
          js ''4''],
         [js ''QEMU virt %u652f%u6301'',
          js ''%u662f'',
          js ''%u662f''],
         [js ''xv6-riscv / rCore %u9ed8%u8ba4'',
          js ''SV39'',
          js ''%u53ef%u9009'']],
      ParagraphBlock (jcat [''SV39 %u5bf9%u6559%u5b66%u8db3%u591f%uff1a3 %u5c42 walk '',
          ''%u624b%u753b%u5f97%u4e0b%uff0c512 GiB %u8fdc%u8d85 QEMU %u9ed8%u8ba4 128 MiB '',
          ''%u7269%u7406%u5185%u5b58%u3002SV48 %u53ea%u662f%u591a%u52a0%u4e00%u7ea7 '',
          ''VPN[3]%uff0c%u7b97%u6cd5%u5b8c%u5168%u76f8%u540c%u3002''])]\<rparr>\<close>

definition phase4ZhCN_lesson1_exercise1 :: CodeExercise where
  \<open>phase4ZhCN_lesson1_exercise1 = \<lparr>
    exercise_id = js ''hand-walk'',
    exercise_title = js ''%u624b%u5de5%u6f14%u7b97%u4e00%u6b21 walk'',
    exercise_description = jcat [''%u7ed9 VA = 0x0000_0040_0020_0ABC%u3001satp.PPN = 0x80000%uff0c%u624b%u7b97 '',
        ''VPN[2..0] %u4e0e offset%uff0c%u5e76%u5199%u51fa%u7ecf%u8fc7 L2/L1/L0 %u4e4b%u540e%u7684 '',
        ''PA%uff08%u5047%u8bbe%u6bcf%u7ea7 PTE.PPN = base + level%uff09%u3002''],
    exercise_labFile = Some LAB_ADDR,
    exercise_hints = [jcat [''0x0000_0040_0020_0ABC %u7684%u7b2c 38 %u4f4d%u5fc5%u987b%u7b49%u4e8e%u9ad8 25 '',
         ''%u4f4d%u2014%u2014%u5426%u5219%u8fd9%u662f%u975e%u6cd5 VA''],
       js ''%u5c0f%u5fc3 9 %u4f4d%u63a9%u7801 0x1FF = 511%uff0c%u4e0d%u8981%u5199%u6210 0xFFF'',
       js ''%u6700%u7ec8 PA = 56 %u4f4d%uff0c%u522b%u628a%u9ad8%u4f4d%u622a%u65ad%u5230 32 %u4f4d''],
    exercise_pseudocode = Some (jlines [''vpn2 = (va >> 30) & 0x1FF'',
          ''vpn1 = (va >> 21) & 0x1FF'',
          ''vpn0 = (va >> 12) & 0x1FF'',
          ''off  =  va        & 0xFFF'',
          ''pa   = (leaf_ppn << 12) | off''])\<rparr>\<close>

definition phase4ZhCN_lesson1_exercise2 :: CodeExercise where
  \<open>phase4ZhCN_lesson1_exercise2 = \<lparr>
    exercise_id = js ''indexes'',
    exercise_title = js ''%u5b9e%u73b0 VirtPageNum::indexes()'',
    exercise_description = jcat [''%u5728 address.rs %u4e2d%uff0c%u7ed9%u5b9a VPN%uff0827 %u4f4d%uff09%uff0c%u6309 L2 '',
        ''%u2192 L1 %u2192 L0 %u987a%u5e8f%u8fd4%u56de%u4e09%u4e2a 9 %u4f4d%u4e0b%u6807%u3002''],
    exercise_labFile = Some LAB_ADDR,
    exercise_hints = [jcat [''%u8fd4%u56de%u6570%u7ec4%u7684%u7d22%u5f15 0 '',
         ''%u5bf9%u5e94%u6700%u5148%u4f7f%u7528%u7684 L2%uff0c%u522b%u5199%u53cd''],
       jcat [''vpn %u5df2%u7ecf%u53f3%u79fb%u6389%u4e86 12 %u4f4d '',
         ''offset%u2014%u2014%u4e0d%u8981%u518d%u53f3%u79fb'']],
    exercise_pseudocode = Some (jlines [''fn indexes(self) -> [usize; 3] {'',
          ''    let mut vpn = self.0;'',
          ''    let mut out = [0; 3];'',
          ''    for i in (0..3).rev() {          // L0 %u6700%u5148%u88ab%u62ff%u51fa'',
          ''        out[i] = vpn & 0x1FF;'',
          ''        vpn >>= 9;'',
          ''    }'',
          ''    out                               // %u8fd4%u56de%u987a%u5e8f%uff1a[L2, L1, L0]'',
          ''}''])\<rparr>\<close>

definition phase4ZhCN_lesson1 :: Lesson where
  \<open>phase4ZhCN_lesson1 = \<lparr>
    lesson_phaseId = 4, lesson_lessonId = 1,
    lesson_title = jcat [''SV39 %u4e09%u7ea7%u9875%u8868%uff1a%u4ece%u865a%u62df%u5730%u5740%u5230%u7269%u7406'',
        ''%u5730%u5740''],
    lesson_subtitle = js ''39-bit VA %u00b7 9/9/9/12 %u00b7 3-level walk %u00b7 satp'',
    lesson_type = js ''Concept'',
    lesson_duration = js ''90 min'',
    lesson_objectives = [js ''%u8bb0%u4f4f SV39 %u865a%u62df%u5730%u5740 9/9/9/12 %u7684%u5207%u5206%u65b9%u5f0f'',
       js ''%u7528 ASCII %u56fe%u9ed8%u5199%u4e00%u6b21%u4e09%u7ea7%u9875%u8868 walk'',
       js ''%u533a%u5206 VPN%u3001PPN%u3001PA%u3001VA %u56db%u79cd%u5730%u5740/%u7d22%u5f15'',
       jcat [''%u5199%u51fa satp %u7684 MODE/ASID/PPN %u5b57%u6bb5%u5e76%u77e5%u9053%u5982%u4f55'',
         ''%u542f%u7528 SV39'']],
    lesson_sections = [phase4ZhCN_lesson1_section1,
      phase4ZhCN_lesson1_section2,
      phase4ZhCN_lesson1_section3,
      phase4ZhCN_lesson1_section4,
      phase4ZhCN_lesson1_section5],
    lesson_exercises = [phase4ZhCN_lesson1_exercise1, phase4ZhCN_lesson1_exercise2],
    lesson_acceptanceCriteria = [js ''%u80fd%u53e3%u8ff0 9/9/9/12 %u5207%u5206%u5e76%u753b%u51fa%u4e09%u7ea7 walk %u56fe'',
       js ''%u8bf4%u6e05 satp %u4e09%u4e2a%u5b57%u6bb5%u4e0e MODE=8 %u7684%u542b%u4e49'',
       js ''%u80fd%u89e3%u91ca%u4e3a%u4ec0%u4e48%u5199 satp %u540e%u5fc5%u987b sfence.vma'',
       js ''page_table::tests::test_walk_three_levels %u901a%u8fc7''],
    lesson_references = [\<lparr>reference_title = js ''[%u5fc5%u8bfb] RISC-V Privileged Spec %u00b7 Ch.10 Supervisor-Level Memory Management'',
       reference_description = jcat [''SV39 %u7684%u89c4%u8303%u6e90%u5934%uff1aVA %u683c%u5f0f%u3001PTE '',
          ''%u5e03%u5c40%u3001sfence %u8bed%u4e49''],
       reference_url = js ''https://github.com/riscv/riscv-isa-manual/releases''\<rparr>,
      \<lparr>reference_title = js ''[%u5fc5%u8bfb] rCore-Tutorial v3 %u00b7 Chapter 4.1 %u5730%u5740%u7a7a%u95f4'',
       reference_description = jcat [''%u540c%u6837 Rust + SV39 %u7684%u59d0%u59b9%u6559%u7a0b%uff0c%u4ee3%u7801%u98ce'',
          ''%u683c%u4e00%u81f4''],
       reference_url = js ''https://rcore-os.cn/rCore-Tutorial-Book-v3/chapter4/2sv39-implementation-1.html''\<rparr>,
      \<lparr>reference_title = js ''[%u6df1%u5165%u9605%u8bfb] xv6-riscv book %u00b7 Chapter 3 Page tables'',
       reference_description = js ''C %u5b9e%u73b0%u5bf9%u7167%u7248%uff0c%u53ef%u5bf9%u7167 Rust %u7248%u5dee%u5f02'',
       reference_url = js ''https://pdos.csail.mit.edu/6.828/2023/xv6/book-riscv-rev3.pdf''\<rparr>]\<rparr>\<close>

section \<open>Lesson 2\<close>

definition phase4ZhCN_lesson2_section1 :: ContentSection where
  \<open>phase4ZhCN_lesson2_section1 = \<lparr>
    section_title = js ''64 %u4f4d PTE %u4f4d%u5e03%u5c40'',
    section_blocks = [DiagramBlock (jlines ['' 63        54 53                            10 9   8 7 6 5 4 3 2 1 0'',
          '' %u250c%r0c2500%u252c%r212500%u252c%r052500%u252c%u2500%u252c%u2500%u252c%u2500%u252c%u2500%u252c%u2500%u252c%u2500%u252c%u2500%u252c%u2500%u2510'',
          '' %u2502  reserved  %u2502              PPN                %u2502 RSW %u2502D%u2502A%u2502G%u2502U%u2502X%u2502W%u2502R%u2502V%u2502'',
          '' %u2514%r0c2500%u2534%r212500%u2534%r052500%u2534%u2500%u2534%u2500%u2534%u2500%u2534%u2500%u2534%u2500%u2534%u2500%u2534%u2500%u2534%u2500%u2518'',
          ''     10              44 bits                     2    1 1 1 1 1 1 1 1'']),
      ParagraphBlock (jcat [''%u4f4e 10 %u4f4d%u662f%u6807%u5fd7%uff0c%u4e2d%u95f4 44 %u4f4d%u662f '',
          ''PPN%uff0c%u9ad8 10 %u4f4d%u4fdd%u7559%u4e3a 0%u3002PPN %u9700%u8981%u5de6%u79fb 12 '',
          ''%u4f4d%u624d%u662f%u7269%u7406%u5730%u5740%u2014%u2014%u8fd9%u6b63%u662f%u5927%u5bb6%u6700%u5e38'',
          ''%u8e29%u7684%u5751%uff08%u89c1 Lesson 3 %u5e38%u89c1%u9519%u8bef%uff09%u3002''])]\<rparr>\<close>

definition phase4ZhCN_lesson2_section2 :: ContentSection where
  \<open>phase4ZhCN_lesson2_section2 = \<lparr>
    section_title = js ''%u516b%u4e2a%u6807%u5fd7%u4f4d%u4e00%u8868%u770b%u61c2'',
    section_blocks = [TableBlock [js ''bit'',
         js ''%u540d'',
         js ''%u542b%u4e49'',
         js ''%u8c01%u5199'']
        [[js ''0'',
          js ''V'',
          jcat [''Valid%uff1aPTE %u672c%u8eab%u6709%u6548%uff1b%u6e05 0 '',
            ''%u7684%u4e00%u5207%u5176%u4ed6%u5b57%u6bb5%u90fd%u65e0%u610f%u4e49''],
          js ''OS''],
         [js ''1'',
          js ''R'',
          js ''%u53f6%u5b50%u53ef%u8bfb'',
          js ''OS''],
         [js ''2'',
          js ''W'',
          js ''%u53f6%u5b50%u53ef%u5199'',
          js ''OS''],
         [js ''3'',
          js ''X'',
          js ''%u53f6%u5b50%u53ef%u6267%u884c%uff08%u53d6%u6307%uff09'',
          js ''OS''],
         [js ''4'',
          js ''U'',
          js ''U-mode %u53ef%u8bbf%u95ee%uff1bS-mode %u8bbf%u95ee%u6b64%u9875%u9700 sstatus.SUM=1'',
          js ''OS''],
         [js ''5'',
          js ''G'',
          js ''Global%uff1a%u6240%u6709 ASID %u5171%u4eab%uff08%u5185%u6838%u9875%u5e38%u7f6e 1%uff09'',
          js ''OS''],
         [js ''6'',
          js ''A'',
          js ''Accessed%uff1a%u786c%u4ef6%u6216%u8f6f%u4ef6%u5728%u9996%u6b21%u8bbf%u95ee%u65f6%u7f6e 1'',
          js ''HW/SW''],
         [js ''7'',
          js ''D'',
          jcat [''Dirty%uff1a%u5199%u8bbf%u95ee%u65f6%u7f6e 1%uff08%u4ec5%u5bf9 W '',
            ''%u9875%u6709%u610f%u4e49%uff09''],
          js ''HW/SW''],
         [js ''8%u20139'',
          js ''RSW'',
          js ''Reserved for Software%uff1aOS %u81ea%u7531%u4f7f%u7528'',
          js ''OS'']]]\<rparr>\<close>

definition phase4ZhCN_lesson2_section3 :: ContentSection where
  \<open>phase4ZhCN_lesson2_section3 = \<lparr>
    section_title = js ''%u53f6%u5b50 PTE vs %u4e2d%u95f4 PTE'',
    section_blocks = [ParagraphBlock (jcat [''%u786c%u4ef6%u5982%u4f55%u5224%u5b9a%u4e00%u4e2a PTE %u662f%u53f6%u5b50%uff1f%u770b '',
          ''R|W|X%u2014%u2014%u4efb%u4e00%u4e3a 1 %u5c31%u662f%u53f6%u5b50%uff0c%u5426%u5219'',
          ''%u7ee7%u7eed%u5f80%u4e0b%u4e00%u7ea7%u8d70%u3002%u56e0%u6b64%uff1a'']),
      TableBlock [js ''R'',
         js ''W'',
         js ''X'',
         js ''%u786c%u4ef6%u89e3%u91ca'']
        [[js ''0'',
          js ''0'',
          js ''0'',
          js ''%u4e2d%u95f4 PTE%uff08%u4e0b%u4e00%u7ea7%u9875%u8868%u6307%u9488%uff09''],
         [js ''1'',
          js ''0'',
          js ''0'',
          js ''%u53f6%u5b50%uff1a%u53ea%u8bfb%u6570%u636e%u9875%uff08.rodata%uff09''],
         [js ''1'',
          js ''0'',
          js ''1'',
          js ''%u53f6%u5b50%uff1a%u4ee3%u7801%u9875%uff08.text / trampoline%uff09''],
         [js ''1'',
          js ''1'',
          js ''0'',
          js ''%u53f6%u5b50%uff1a%u8bfb%u5199%u6570%u636e%u9875%uff08.data / %u6808%uff09''],
         [js ''1'',
          js ''1'',
          js ''1'',
          jcat [''%u53f6%u5b50%uff1a%u53ef%u8bfb%u5199+%u53ef%u6267%u884c%uff08JIT '',
            ''%u624d%u7528%uff0c%u4e00%u822c%u7981%u6b62%uff09'']],
         [js ''0'',
          js ''1'',
          js ''*'',
          js ''%u4fdd%u7559%uff01%u786c%u4ef6 PageFault''],
         [js ''0'',
          js ''0'',
          js ''1'',
          js ''%u53f6%u5b50%uff1a%u53ea%u6267%u884c%uff08%u7f55%u89c1%uff0cSV39 %u5141%u8bb8%uff09'']],
      CalloutBlock Warning (jcat [''W=1 %u800c R=0 %u662f SV39 %u4fdd%u7559%u7ec4%u5408%uff0c%u786c%u4ef6%u76f4%u63a5'',
          ''%u62a5 PageFault%u3002%u522b%u4ee5%u4e3a "%u5199%u6743%u9650%u5305%u542b%u8bfb"'',
          ''%u2014%u2014RISC-V %u8981%u6c42%u5fc5%u987b%u663e%u5f0f%u7f6e R%u3002''])]\<rparr>\<close>

definition phase4ZhCN_lesson2_section4 :: ContentSection where
  \<open>phase4ZhCN_lesson2_section4 = \<lparr>
    section_title = js ''%u5e38%u89c1%u6743%u9650%u7ec4%u5408%u901f%u67e5%u8868'',
    section_blocks = [TableBlock [js ''%u7ec4%u5408'',
         js ''%u7528%u9014'']
        [[js ''V'',
          js ''%u4e2d%u95f4 PTE%uff08%u7eaf%u6307%u9488%uff0cR|W|X=0%uff09''],
         [js ''V R X'',
          js ''%u5185%u6838 .text / trampoline''],
         [js ''V R'',
          js ''%u5185%u6838 .rodata''],
         [js ''V R W'',
          js ''%u5185%u6838 .data / .bss / %u7269%u7406%u5e27%u7a97%u53e3''],
         [js ''V R W U'',
          js ''%u7528%u6237%u6808 / %u7528%u6237%u5806 / anon mmap''],
         [js ''V R X U'',
          js ''%u7528%u6237 .text''],
         [js ''V R U'',
          js ''%u7528%u6237 .rodata%uff08ELF %u7684 PT_LOAD R %u4f4d%uff09'']],
      CodeBlock (Some (js ''rust'')) (jlines [''// labs/phase_4_vm/src/mm/page_table.rs'',
          ''bitflags! {'',
          ''    pub struct PTEFlags: u8 {'',
          ''        const V = 1 << 0;'',
          ''        const R = 1 << 1;'',
          ''        const W = 1 << 2;'',
          ''        const X = 1 << 3;'',
          ''        const U = 1 << 4;'',
          ''        const G = 1 << 5;'',
          ''        const A = 1 << 6;'',
          ''        const D = 1 << 7;'',
          ''    }'',
          ''}'',
          '''',
          ''impl PageTableEntry {'',
          ''    pub fn new(ppn: PhysPageNum, flags: PTEFlags) -> Self {'',
          ''        Self { bits: (ppn.0 << 10) | flags.bits as usize }'',
          ''    }'',
          ''    pub fn ppn(&self)   -> PhysPageNum { ((self.bits >> 10) & ((1 << 44) - 1)).into() }'',
          ''    pub fn flags(&self) -> PTEFlags    { PTEFlags::from_bits_truncate(self.bits as u8) }'',
          ''    pub fn is_valid(&self) -> bool     { self.flags().contains(PTEFlags::V) }'',
          ''    pub fn is_leaf(&self)  -> bool     { self.flags().intersects(PTEFlags::R | PTEFlags::W | PTEFlags::X) }'',
          ''}''])]\<rparr>\<close>

definition phase4ZhCN_lesson2_section5 :: ContentSection where
  \<open>phase4ZhCN_lesson2_section5 = \<lparr>
    section_title = jcat [''U %u4f4d%u4e0e SUM%uff1a%u5185%u6838%u4e3a%u4ec0%u4e48%u9ed8%u8ba4%u4e0d%u80fd%u8bfb'',
        ''%u7528%u6237%u9875''],
    section_blocks = [ParagraphBlock (jcat [''%u5f53 S-mode CPU %u8bd5%u56fe%u8bbf%u95ee%u5e26 U '',
          ''%u6807%u5fd7%u7684%u9875%uff0c%u9ed8%u8ba4%u4f1a%u89e6%u53d1%u5f02%u5e38%uff0c%u9632%u6b62%u5185%u6838%u88ab '',
          ''"confused deputy" %u653b%u51fb%u8bef%u5f15%u5bfc%u8bfb%u7528%u6237%u6570%u636e%u3002'',
          ''%u8981%u4e34%u65f6%u5141%u8bb8%u8fd9%u4ef6%u4e8b%uff0c%u5fc5%u987b%u628a '',
          ''sstatus.SUM%uff08Supervisor User Memory%uff09%u7f6e 1%u3002Lesson 5 %u7684 copy_from_user '',
          ''%u6b63%u662f%u8981%u5229%u7528%u8fd9%u4e00%u70b9%u3002'']),
      CodeBlock (Some (js ''rust'')) (jlines [''// %u5728%u5185%u6838%u9700%u8981%u8bfb%u7528%u6237%u6307%u9488%u524d%u6253%u5f00 SUM'',
          ''unsafe { riscv::register::sstatus::set_sum(); }'',
          ''// %u2026%u8bfb%u7528%u6237 buffer%u2026'',
          ''unsafe { riscv::register::sstatus::clear_sum(); }''])]\<rparr>\<close>

definition phase4ZhCN_lesson2_exercise1 :: CodeExercise where
  \<open>phase4ZhCN_lesson2_exercise1 = \<lparr>
    exercise_id = js ''flags-encode'',
    exercise_title = js ''%u5b9e%u73b0 PageTableEntry::new'',
    exercise_description = jcat [''%u628a 44 %u4f4d PPN %u5de6%u79fb 10 %u4f4d%u5e76%u6216%u4e0a '',
        ''flags.bits%uff0c%u7ec4%u88c5 64 %u4f4d PTE%u3002%u6ce8%u610f%u522b%u628a flags '',
        ''%u622a%u5230%u9ad8%u4f4d%u3002''],
    exercise_labFile = Some LAB_PT,
    exercise_hints = [jcat [''flags %u53ea%u7528%u4f4e 10 %u4f4d%uff08%u542b '',
         ''RSW%uff09%uff0c%u4e0d%u8981%u6ea2%u51fa%u5230 PPN''],
       jcat [''PPN %u4e5f%u8981%u505a 44 %u4f4d%u63a9%u7801%uff0c%u9632%u6b62%u8c03%u7528%u65b9'',
         ''%u4f20%u8fdb%u6765%u810f%u6570%u636e'']],
    exercise_pseudocode = Some (js ''bits = (ppn & ((1<<44)-1)) << 10 | (flags.bits as usize & 0x3FF)'')\<rparr>\<close>

definition phase4ZhCN_lesson2_exercise2 :: CodeExercise where
  \<open>phase4ZhCN_lesson2_exercise2 = \<lparr>
    exercise_id = js ''is-leaf'',
    exercise_title = js ''%u5b9e%u73b0 is_leaf / is_interior'',
    exercise_description = jcat [''%u6839%u636e R|W|X %u4efb%u4e00%u4e3a 1 %u5224%u5b9a%u53f6%u5b50%uff1b%u5168 0 '',
        ''%u5373%u4e2d%u95f4 PTE%u3002%u6ce8%u610f V=0 %u7684 PTE '',
        ''%u65e0%u6240%u8c13%u53f6%u5b50/%u4e2d%u95f4%u2014%u2014%u8fd4%u56de%u4ec0%u4e48%u90fd%u4e0d%u5f71%u54cd'',
        ''%u540e%u7eed walk%uff0c%u4f46%u6700%u597d%u663e%u5f0f%u5904%u7406%u3002''],
    exercise_labFile = Some LAB_PT,
    exercise_hints = [js ''bitflags::intersects %u6bd4 contains %u66f4%u9002%u5408 "%u4efb%u4e00"'',
       js ''%u5148%u5224 is_valid%uff0c%u518d%u5224 leaf%uff0c%u903b%u8f91%u66f4%u6e05%u6670''],
    exercise_pseudocode = None\<rparr>\<close>

definition phase4ZhCN_lesson2 :: Lesson where
  \<open>phase4ZhCN_lesson2 = \<lparr>
    lesson_phaseId = 4, lesson_lessonId = 2,
    lesson_title = js ''PTE %u6807%u5fd7%u4f4d%uff1aV/R/W/X/U/G/A/D'',
    lesson_subtitle = jcat [''%u6743%u9650%u77e9%u9635 %u00b7 %u53f6%u5b50 vs %u4e2d%u95f4 %u00b7 '',
        ''%u975e%u6cd5%u7ec4%u5408''],
    lesson_type = js ''Concept'',
    lesson_duration = js ''60 min'',
    lesson_objectives = [js ''%u80cc%u4e0b PTE 8 %u4e2a%u4f4e%u4f4d%u6807%u5fd7%u7684%u8bed%u4e49'',
       js ''%u533a%u5206 "%u53f6%u5b50 PTE" %u4e0e "%u4e2d%u95f4 PTE" %u7684%u5199%u6cd5%u5dee%u5f02'',
       jcat [''%u5217%u51fa%u5e38%u89c1%u6743%u9650%u7ec4%u5408%u5e76%u5199%u51fa%u6bcf%u4e00%u79cd'',
         ''%u7684%u7528%u9014''],
       js ''%u8bc6%u522b SV39 %u7684%u4fdd%u7559/%u975e%u6cd5%u6807%u5fd7%u7ec4%u5408''],
    lesson_sections = [phase4ZhCN_lesson2_section1,
      phase4ZhCN_lesson2_section2,
      phase4ZhCN_lesson2_section3,
      phase4ZhCN_lesson2_section4,
      phase4ZhCN_lesson2_section5],
    lesson_exercises = [phase4ZhCN_lesson2_exercise1, phase4ZhCN_lesson2_exercise2],
    lesson_acceptanceCriteria = [js ''%u80fd%u9ed8%u5199 PTE %u7684 64 %u4f4d%u5e03%u5c40'',
       js ''%u80fd%u8bf4%u660e%u4e3a%u4ec0%u4e48 W=1, R=0 %u975e%u6cd5'',
       js ''%u80fd%u89e3%u91ca SUM %u4f4d%u7684%u4f5c%u7528'',
       js ''page_table::tests::test_pte_encode_decode %u901a%u8fc7''],
    lesson_references = [\<lparr>reference_title = js ''[%u5fc5%u8bfb] RISC-V Privileged Spec %u00b7 %u00a710.3.1 Addressing and Memory Protection'',
       reference_description = jcat [''PTE %u683c%u5f0f%u6743%u5a01%u6765%u6e90%uff0c%u5305%u542b%u4fdd%u7559%u7ec4%u5408'',
          ''%u7684%u5b8c%u6574%u5217%u8868''],
       reference_url = js ''https://github.com/riscv/riscv-isa-manual/releases''\<rparr>,
      \<lparr>reference_title = js ''[%u5fc5%u8bfb] rCore-Tutorial v3 %u00b7 4.2 SV39 %u9875%u8868%u9879'',
       reference_description = js ''%u4e2d%u6587%u89e3%u8bfb PTE %u5404%u4f4d%u7684%u542b%u4e49'',
       reference_url = js ''https://rcore-os.cn/rCore-Tutorial-Book-v3/chapter4/3sv39-implementation-2.html''\<rparr>,
      \<lparr>reference_title = js ''[%u6df1%u5165%u9605%u8bfb] Writing an OS in Rust %u00b7 Paging Introduction'',
       reference_description = jcat [''Phil-Opp %u7cfb%u5217%u7684%u9875%u8868%u7ae0%u8282%uff0cx86_64 '',
          ''%u4f46%u6982%u5ff5%u901a%u7528''],
       reference_url = js ''https://os.phil-opp.com/paging-introduction/''\<rparr>]\<rparr>\<close>

section \<open>Lesson 3\<close>

definition phase4ZhCN_lesson3_section1 :: ContentSection where
  \<open>phase4ZhCN_lesson3_section1 = \<lparr>
    section_title = js ''%u53ea%u6709%u4e00%u4e2a%u5168%u5c40%u5b9e%u4f8b'',
    section_blocks = [ParagraphBlock (jcat [''%u7269%u7406%u5185%u5b58%u662f%u5168%u5c40%u552f%u4e00%u8d44%u6e90%uff0c%u6240%u4ee5'',
          ''%u5206%u914d%u5668%u662f%u5355%u4f8b%u2014%u2014%u901a%u5e38%u662f%u4e00%u4e2a '',
          ''lazy_static %u7684 Mutex<StackFrameAllocator>%u3002%u5b83%u4ece%u5185%u6838 .bss '',
          ''%u4e4b%u540e (ekernel) %u5230 MEMORY_END %u4e4b%u95f4%u7684%u7269%u7406%u5e27%u91cc%u5206'',
          ''%u914d%u3002'']),
      DiagramBlock (jlines ['' ekernel                                                       MEMORY_END'',
          ''  %u2502                                                                   %u2502'',
          ''  %u25bc                                                                   %u25bc'',
          ''  %u250c%r062500%u252c%r3c2500%u2510'',
          ''  %u2502 .bss %u2502                 %u53ef%u5206%u914d%u7269%u7406%u5e27%u533a%u95f4                            %u2502'',
          ''  %u2514%r062500%u2534%r3c2500%u2518'',
          ''            %u25b2                                   %u25b2'',
          ''            %u2502                                   %u2502'',
          ''        current (%u4e0b%u4e00%u4e2a never-allocated)      end''])]\<rparr>\<close>

definition phase4ZhCN_lesson3_section2 :: ContentSection where
  \<open>phase4ZhCN_lesson3_section2 = \<lparr>
    section_title = js ''StackFrameAllocator %u7684%u6570%u636e%u7ed3%u6784'',
    section_blocks = [CodeBlock (Some (js ''rust'')) (jlines [''// labs/phase_4_vm/src/mm/frame_allocator.rs'',
          ''pub struct StackFrameAllocator {'',
          ''    current: usize,                  // %u4e0b%u4e00%u4e2a never-allocated %u7684 PPN'',
          ''    end: usize,                      // %u53ef%u5206%u914d%u533a%u95f4%u7684%u4e0a%u754c%uff08%u72ec%u5360%uff09'',
          ''    recycled: Vec<usize>,            // %u88ab dealloc %u5f52%u8fd8%u7684 PPN %u6808'',
          ''}'',
          '''',
          ''impl StackFrameAllocator {'',
          ''    pub fn alloc(&mut self) -> Option<PhysPageNum> {'',
          ''        if let Some(ppn) = self.recycled.pop() {'',
          ''            Some(ppn.into())         // %u4f18%u5148%u590d%u7528%u6700%u8fd1%u91ca%u653e%u7684'',
          ''        } else if self.current < self.end {'',
          ''            self.current += 1;'',
          ''            Some((self.current - 1).into())'',
          ''        } else {'',
          ''            None                     // OOM'',
          ''        }'',
          ''    }'',
          '''',
          ''    pub fn dealloc(&mut self, ppn: PhysPageNum) {'',
          ''        // validity check: %u4e0d%u80fd%u5f52%u8fd8%u4ece%u672a%u5206%u914d%u8fc7%u7684%u5e27'',
          ''        assert!(ppn.0 < self.current && !self.recycled.contains(&ppn.0),'',
          ''                "double free PPN {:#x}", ppn.0);'',
          ''        self.recycled.push(ppn.0);'',
          ''    }'',
          ''}'']),
      CalloutBlock Tip (jcat [''LIFO %u7684%u526f%u4f5c%u7528%uff1a%u521a%u91ca%u653e%u7684%u5e27%u6700%u53ef%u80fd'',
          ''%u8fd8%u5728 L1/L2 cache%uff0c%u4e5f%u6700%u53ef%u80fd%u6709 TLB '',
          ''%u6b8b%u7559%u2014%u2014%u9a6c%u4e0a%u590d%u7528%u5f80%u5f80%u514d%u4e00%u6b21 cache '',
          ''miss%u3002%u8fd9%u662f%u6808%u5f0f%u5206%u914d%u5668%u7684%u4e00%u4e2a%u9690%u6027%u4f18%u70b9%u3002''])]\<rparr>\<close>

definition phase4ZhCN_lesson3_section3 :: ContentSection where
  \<open>phase4ZhCN_lesson3_section3 = \<lparr>
    section_title = js ''%u6808%u5f0f vs %u4f4d%u56fe%u5f0f%uff1a%u600e%u4e48%u9009'',
    section_blocks = [TableBlock [js ''%u7ef4%u5ea6'',
         js ''%u6808%u5f0f (current/recycled)'',
         js ''%u4f4d%u56fe (bitmap)'']
        [[js ''%u5143%u6570%u636e%u5f00%u9500'',
          js ''O(%u7a7a%u95f2%u5e27%u6570)%uff0c%u6700%u574f == %u7269%u7406%u5185%u5b58 / 4KiB %u00d7 8B'',
          js ''%u56fa%u5b9a O(%u603b%u5e27%u6570 / 8)''],
         [js ''alloc %u590d%u6742%u5ea6'',
          js ''O(1)'',
          js ''O(N) %u627e%u7b2c%u4e00%u4e2a 0 %u4f4d%uff08%u53ef%u7528 free-list %u52a0%u901f%uff09''],
         [js ''dealloc %u590d%u6742%u5ea6'',
          js ''O(1)'',
          js ''O(1)''],
         [js ''%u788e%u7247'',
          js ''%u4e0d%u5904%u7406%uff08%u65e0%u8fde%u7eed%u6027%u4fdd%u8bc1%uff09'',
          js ''%u652f%u6301%u8fde%u7eed%u5206%u914d%uff08%u4f19%u4f34%u7cfb%u7edf%uff09''],
         [js ''%u9002%u7528%u573a%u666f'',
          js ''%u6559%u5b66/%u5c0f%u7cfb%u7edf%uff0c%u5355%u5e27%u5206%u914d%u4e3a%u4e3b'',
          js ''%u652f%u6301%u5927%u9875/%u8fde%u7eed DMA %u7684%u751f%u4ea7%u7ea7%u5185%u6838'']],
      ParagraphBlock (jcat [''Phase 4 %u9009%u6808%u5f0f%uff1a%u4ee3%u7801 40 '',
          ''%u884c%uff0c%u7f3a%u70b9%uff08%u4e0d%u652f%u6301%u8fde%u7eed%u7269%u7406%u533a%u95f4%uff09%u5bf9%u6211%u4eec%u65e0%u5f71'',
          ''%u54cd%u2014%u2014SV39 %u5141%u8bb8%u4efb%u610f%u7269%u7406%u5e27%u62fc%u63a5%u6210'',
          ''%u865a%u62df%u8fde%u7eed%u533a%u95f4%u3002''])]\<rparr>\<close>

definition phase4ZhCN_lesson3_section4 :: ContentSection where
  \<open>phase4ZhCN_lesson3_section4 = \<lparr>
    section_title = js ''FrameTracker%uff1aRAII %u628a drop %u7ed1%u6b7b%u5230%u5f52%u8fd8'',
    section_blocks = [CodeBlock (Some (js ''rust'')) (jlines [''pub struct FrameTracker {'',
          ''    pub ppn: PhysPageNum,'',
          ''}'',
          '''',
          ''impl FrameTracker {'',
          ''    pub fn new(ppn: PhysPageNum) -> Self {'',
          ''        // %u521d%u59cb%u5316%u5fc5%u987b%u6e05%u96f6%u2014%u2014%u9632%u6b62%u810f%u6570%u636e%u88ab%u5f53%u6210%u5408%u6cd5 PTE'',
          ''        let bytes = ppn.get_bytes_array();'',
          ''        for b in bytes { *b = 0; }'',
          ''        Self { ppn }'',
          ''    }'',
          ''}'',
          '''',
          ''impl Drop for FrameTracker {'',
          ''    fn drop(&mut self) {'',
          ''        FRAME_ALLOCATOR.lock().dealloc(self.ppn);'',
          ''    }'',
          ''}'',
          '''',
          ''pub fn frame_alloc() -> Option<FrameTracker> {'',
          ''    FRAME_ALLOCATOR.lock().alloc().map(FrameTracker::new)'',
          ''}'']),
      CalloutBlock Warning (jcat [''Rust %u5751%uff1alet ppn = frame_alloc().unwrap().ppn; '',
          ''%u4f1a%u5728%u8bed%u53e5%u7ed3%u675f%u65f6 Drop %u6574%u4e2a '',
          ''FrameTracker%u2014%u2014%u5e27%u7acb%u523b%u5f52%u8fd8%uff0c%u4f46%u4f60%u7684 PTE '',
          ''%u8fd8%u6307%u7740%u5b83%u3002%u5fc5%u987b%u628a FrameTracker '',
          ''%u5b58%u8fdb%u67d0%u4e2a%u751f%u547d%u5468%u671f%u548c%u6620%u5c04%u4e00%u81f4%u7684%u5bb9%u5668%uff08%u6bd4%u5982 '',
          ''MapArea.data_frames%u3001PageTable.frames%uff09%u3002''])]\<rparr>\<close>

definition phase4ZhCN_lesson3_section5 :: ContentSection where
  \<open>phase4ZhCN_lesson3_section5 = \<lparr>
    section_title = jcat [''%u788e%u7247%u95ee%u9898%uff1a%u6808%u5f0f%u5206%u914d%u5668%u6545%u610f%u5ffd%u7565'',
        ''%u7684%u4ee3%u4ef7''],
    section_blocks = [ParagraphBlock (jcat [''%u53ea%u7ed9%u5355%u5e27%uff0c%u4e0d%u4fdd%u8bc1%u8fde%u7eed%u6027%u2014%u2014%u56e0'',
          ''%u6b64%u65e0%u6cd5%u76f4%u63a5%u5206%u914d%u4e00%u4e2a 2 MiB %u5927%u9875%u6216 DMA '',
          ''%u7f13%u51b2%u533a%u3002%u751f%u4ea7%u5185%u6838%u7528%u4f19%u4f34%u7cfb%u7edf + '',
          ''slab %u89e3%u51b3%u8fd9%u4e2a%u95ee%u9898%u3002%u6559%u5b66%u7248%u672c%u91cc%u6211'',
          ''%u4eec%u63a5%u53d7%u8fd9%u4e2a%u4ee3%u4ef7%uff0c%u56e0%u4e3a%u6240%u6709%u6620%u5c04'',
          ''%u90fd%u662f 4 KiB %u7c92%u5ea6%uff0c%u865a%u62df%u5c42%u628a%u79bb%u6563%u7269'',
          ''%u7406%u5e27%u91cd%u65b0%u62fc%u6210%u4e86%u8fde%u7eed%u865a%u62df%u533a%u95f4%u3002''])]\<rparr>\<close>

definition phase4ZhCN_lesson3_exercise1 :: CodeExercise where
  \<open>phase4ZhCN_lesson3_exercise1 = \<lparr>
    exercise_id = js ''stack-alloc'',
    exercise_title = js ''%u5b9e%u73b0 StackFrameAllocator::alloc / dealloc'',
    exercise_description = jcat [''%u586b%u5199 alloc%uff1a%u4f18%u5148 pop recycled%uff0c%u5426%u5219 current++ '',
        ''%u76f4%u5230 end%u3002%u5b9e%u73b0 dealloc%uff1a%u52a0 double-free %u68c0%u67e5%u3002''],
    exercise_labFile = Some LAB_FA,
    exercise_hints = [js ''%u522b%u5fd8%u4e86 PhysPageNum::from(usize) %u7684%u7c7b%u578b%u8f6c%u6362'',
       js ''double-free %u68c0%u67e5%u53ef%u4ee5%u7528 recycled.iter().any(|&p| p == ppn.0)''],
    exercise_pseudocode = Some (jlines [''alloc():'',
          ''  if let Some(ppn) = recycled.pop(): return Some(ppn)'',
          ''  if current == end: return None'',
          ''  ppn = current; current += 1'',
          ''  return Some(ppn)'',
          '''',
          ''dealloc(ppn):'',
          ''  assert ppn < current'',
          ''  assert ppn not in recycled        // double free'',
          ''  recycled.push(ppn)''])\<rparr>\<close>

definition phase4ZhCN_lesson3_exercise2 :: CodeExercise where
  \<open>phase4ZhCN_lesson3_exercise2 = \<lparr>
    exercise_id = js ''frame-tracker'',
    exercise_title = js ''%u5b9e%u73b0 FrameTracker %u4e0e frame_alloc'',
    exercise_description = jcat [''%u4fdd%u8bc1%uff1a(1) new() %u628a 4 KiB %u6e05%u96f6%uff1b(2) Drop '',
        ''%u5f52%u8fd8%u5e27%u5230%u5168%u5c40%u5206%u914d%u5668%uff1b(3) frame_alloc() %u8fd4%u56de '',
        ''Option<FrameTracker>%u3002''],
    exercise_labFile = Some LAB_FA,
    exercise_hints = [js ''%u6e05%u96f6%u53ef%u4ee5%u7528 for b in ppn.get_bytes_array() { *b = 0; }'',
       js ''Drop %u91cc%u8c03%u7528 FRAME_ALLOCATOR.lock().dealloc(self.ppn)'',
       jcat [''%u522b%u52a0 #[derive(Copy)]%u2014%u2014FrameTracker '',
         ''%u7684%u6240%u6709%u6743%u5fc5%u987b%u552f%u4e00'']],
    exercise_pseudocode = None\<rparr>\<close>

definition phase4ZhCN_lesson3 :: Lesson where
  \<open>phase4ZhCN_lesson3 = \<lparr>
    lesson_phaseId = 4, lesson_lessonId = 3,
    lesson_title = js ''FrameAllocator%uff1a%u6808%u5f0f%u5206%u914d + RAII %u9632%u6cc4%u6f0f'',
    lesson_subtitle = js ''StackFrameAllocator %u00b7 FrameTracker %u00b7 recycled'',
    lesson_type = js ''Concept + Practice'',
    lesson_duration = js ''90 min'',
    lesson_objectives = [jcat [''%u6bd4%u8f83%u6808%u5f0f vs %u4f4d%u56fe%u5f0f%u5e27%u5206%u914d%u5668%u7684%u7a7a'',
         ''%u95f4/%u65f6%u95f4%u6743%u8861''],
       js ''%u7406%u89e3 FrameTracker %u7684 RAII %u91ca%u653e%u5951%u7ea6'',
       jcat [''%u80fd%u89e3%u91ca recycled Vec %u7684 LIFO %u8bed%u4e49%u4e3a%u4ec0%u4e48%u5bf9 '',
         ''TLB %u53cb%u597d''],
       jcat [''%u907f%u514d "FrameTracker %u6ca1%u88ab%u6301%u6709 %u2192 '',
         ''%u5e27%u63d0%u524d%u5f52%u8fd8" %u8fd9%u4e00 Rust %u4e13%u5c5e%u5751'']],
    lesson_sections = [phase4ZhCN_lesson3_section1,
      phase4ZhCN_lesson3_section2,
      phase4ZhCN_lesson3_section3,
      phase4ZhCN_lesson3_section4,
      phase4ZhCN_lesson3_section5],
    lesson_exercises = [phase4ZhCN_lesson3_exercise1, phase4ZhCN_lesson3_exercise2],
    lesson_acceptanceCriteria = [js ''frame_allocator::tests::test_alloc_recycle %u901a%u8fc7'',
       js ''frame_allocator::tests::double_free_panics %u89e6%u53d1 panic'',
       js ''%u80fd%u89e3%u91ca%u4e3a%u4ec0%u4e48 FrameTracker %u4e0d%u80fd%u5b9e%u73b0 Copy'',
       js ''%u80fd%u8bf4%u51fa%u6e05%u96f6%u7684%u5fc5%u8981%u6027''],
    lesson_references = [\<lparr>reference_title = js ''[%u5fc5%u8bfb] rCore-Tutorial v3 %u00b7 4.3 %u7ba1%u7406 SV39 %u591a%u7ea7%u9875%u8868'',
       reference_description = js ''StackFrameAllocator / FrameTracker %u7684%u539f%u7248%u8bb2%u89e3'',
       reference_url = js ''https://rcore-os.cn/rCore-Tutorial-Book-v3/chapter4/4sv39-implementation-3.html''\<rparr>,
      \<lparr>reference_title = js ''[%u5fc5%u8bfb] labs/phase_4_vm/COURSE.en.md %u00b7 Lab 1 guide'',
       reference_description = js ''%u672c%u4ed3%u5e93%u7684 Lab 1 %u5b8c%u6574%u8bb2%u89e3%u4e0e%u5e38%u89c1%u9519%u8bef'',
       reference_url = js ''./labs/phase_4_vm/COURSE.en.md''\<rparr>,
      \<lparr>reference_title = js ''[%u6df1%u5165%u9605%u8bfb] Linux Memory Management: Buddy Allocator'',
       reference_description = js ''%u751f%u4ea7%u7ea7%u8fde%u7eed%u5e27%u5206%u914d%u7684%u7ecf%u5178%u7b97%u6cd5'',
       reference_url = js ''https://www.kernel.org/doc/gorman/html/understand/understand009.html''\<rparr>]\<rparr>\<close>

section \<open>Lesson 4\<close>

definition phase4ZhCN_lesson4_section1 :: ContentSection where
  \<open>phase4ZhCN_lesson4_section1 = \<lparr>
    section_title = js ''%u4e09%u5c42%u5bf9%u8c61%u7684 ownership'',
    section_blocks = [DiagramBlock (jlines ['' MemorySet  (%u4e00%u4e2a%u8fdb%u7a0b/%u5185%u6838%u6709%u4e00%u4e2a)'',
          ''  %u251c%u2500%u2500 PageTable'',
          ''  %u2502     %u2514%u2500%u2500 frames: Vec<FrameTracker>   // %u6240%u6709%u4e2d%u95f4/%u53f6%u5b50%u9875%u8868%u5e27'',
          ''  %u251c%u2500%u2500 areas: Vec<MapArea>               // %u6bcf%u4e2a area %u662f%u4e00%u6bb5%u8fde%u7eed VPN %u533a%u95f4'',
          ''  %u2502     %u2514%u2500%u2500 MapArea'',
          ''  %u2502           %u251c%u2500%u2500 vpn_range: [start, end)'',
          ''  %u2502           %u251c%u2500%u2500 map_type: Identical | Framed'',
          ''  %u2502           %u251c%u2500%u2500 map_perm: PTEFlags (R/W/X/U)'',
          ''  %u2502           %u2514%u2500%u2500 data_frames: BTreeMap<VPN, FrameTracker>'',
          ''  %u2502                 // %u4ec5 Framed %u624d%u7528%uff1bIdentical %u6ca1%u6709%u81ea%u5df1%u7684%u5e27'']),
      ParagraphBlock (jcat [''%u6838%u5fc3%u60f3%u6cd5%uff1aMemorySet %u662f "PageTable + '',
          ''%u6709%u542b%u4e49%u7684%u533a%u95f4%u96c6%u5408"%u3002PageTable %u53ea%u77e5%u9053 PTE%uff0cMapArea '',
          ''%u8bb0%u4f4f "%u8fd9%u6bb5 VA %u539f%u672c%u662f%u4ec0%u4e48%uff08%u4ee3%u7801/%u6808/MMIO'',
          ''%uff09"%uff0c%u8fd9%u8ba9 unmap %u548c fork %u90fd%u5f88%u81ea%u7136%u3002''])]\<rparr>\<close>

definition phase4ZhCN_lesson4_section2 :: ContentSection where
  \<open>phase4ZhCN_lesson4_section2 = \<lparr>
    section_title = js ''Identity vs Framed%uff1a%u4e24%u79cd%u6620%u5c04%u7684%u5bf9%u7167'',
    section_blocks = [TableBlock [js ''%u65b9%u9762'',
         js ''Identical'',
         js ''Framed'']
        [[js ''VA %u2192 PA'',
          js ''PA = VA'',
          js ''PA = %u4ece FrameAllocator %u65b0%u53d6%u4e00%u5e27''],
         [js ''%u8c01%u7528'',
          js ''%u5185%u6838%u81ea%u8eab (.text/.rodata/.data/%u7269%u7406%u5185%u5b58%u7a97%u53e3)'',
          js ''%u7528%u6237 ELF %u6bb5%u3001%u7528%u6237%u6808%u3001TrapContext''],
         [js ''data_frames'',
          js ''%u7a7a%uff08%u4e0d%u6301%u6709%u5e27%uff09'',
          js ''%u6bcf%u4e2a VPN %u5bf9%u5e94%u4e00%u4e2a FrameTracker''],
         [js ''%u62f7%u8d1d ELF %u6570%u636e'',
          js ''%u4e0d%u9700%u8981%uff08%u5df2%u7ecf%u5728%u539f%u5730%uff09'',
          js ''%u9700%u8981 memcpy %u5230%u65b0%u5206%u914d%u7684%u5e27''],
         [js ''%u7279%u70b9'',
          jcat [''%u5730%u5740%u5173%u7cfb%u6700%u7b80%u5355%uff0c%u65b9%u4fbf%u5185%u6838%u8bbf%u95ee'',
            ''%u7269%u7406%u5185%u5b58''],
          js ''%u9694%u79bb%u6027%u5f3a%uff0c%u8fdb%u7a0b%u4e4b%u95f4%u65e0%u51b2%u7a81'']],
      CodeBlock (Some (js ''rust'')) (jlines [''// labs/phase_4_vm/src/mm/memory_set.rs'',
          ''pub enum MapType { Identical, Framed }'',
          '''',
          ''pub struct MapArea {'',
          ''    pub vpn_range: VPNRange,'',
          ''    pub data_frames: BTreeMap<VirtPageNum, FrameTracker>,'',
          ''    pub map_type: MapType,'',
          ''    pub map_perm: PTEFlags,'',
          ''}'',
          '''',
          ''impl MapArea {'',
          ''    pub fn map_one(&mut self, pt: &mut PageTable, vpn: VirtPageNum) {'',
          ''        let ppn = match self.map_type {'',
          ''            MapType::Identical => PhysPageNum(vpn.0),'',
          ''            MapType::Framed => {'',
          ''                let f = frame_alloc().unwrap();'',
          ''                let ppn = f.ppn;'',
          ''                self.data_frames.insert(vpn, f);   // %u5fc5%u987b%u6301%u6709%uff0c%u5426%u5219%u5e27%u88ab drop'',
          ''                ppn'',
          ''            }'',
          ''        };'',
          ''        pt.map(vpn, ppn, PTEFlags::V | self.map_perm);'',
          ''    }'',
          ''}''])]\<rparr>\<close>

definition phase4ZhCN_lesson4_section3 :: ContentSection where
  \<open>phase4ZhCN_lesson4_section3 = \<lparr>
    section_title = js ''%u5730%u5740%u7a7a%u95f4%u5e03%u5c40%uff08%u7528%u6237%u6001%uff09'',
    section_blocks = [DiagramBlock (jlines ['' %u7528%u6237%u5730%u5740%u7a7a%u95f4 (%u6bcf%u4e2a%u8fdb%u7a0b%u4e00%u4efd)                        %u5171%u4eab%uff1f'',
          '' %u250c%r262500%u2510 2^39-1'',
          '' %u2502  Trampoline (R X)                    %u2502   %r032550%u25ba %u4e0e%u5185%u6838%u5171%u4eab%u540c%u4e00 PA%uff01'',
          '' %u251c%r262500%u2524 TRAMPOLINE - 1'',
          '' %u2502  TrapContext (R W, no U)             %u2502   %u56fa%u5b9a%u69fd%u4f4d%uff1b%u5185%u6838%u901a%u8fc7%u5b83%u6062%u590d%u4e0a%u4e0b%u6587'',
          '' %u251c%r262500%u2524'',
          '' %u2502  %u2026%u2026 %u7a7a%u6d1e%uff08%u672a%u6620%u5c04%uff09%u2026%u2026                 %u2502'',
          '' %u251c%r262500%u2524 user_sp'',
          '' %u2502  user stack (R W U)                  %u2502'',
          '' %u251c%r262500%u2524'',
          '' %u2502  [guard page, unmapped]              %u2502   %u6808%u6ea2%u51fa%u4f1a%u89e6%u53d1 StorePageFault'',
          '' %u251c%r262500%u2524 max_end_vpn'',
          '' %u2502  .bss  (R W U)                       %u2502'',
          '' %u2502  .data (R W U)                       %u2502'',
          '' %u2502  .rodata (R U)                       %u2502'',
          '' %u2502  .text (R X U)                       %u2502'',
          '' %u2514%r262500%u2518 0'']),
      ParagraphBlock (jcat [''%u4e09%u4e2a%u5173%u952e%u5e38%u91cf%uff1aTRAMPOLINE = '',
          ''0xFFFF_FFFF_FFFF_F000%uff08VA %u7a7a%u95f4%u9876%u7aef%uff09%uff0cTRAP_CONTEXT = TRAMPOLINE - '',
          ''PAGE_SIZE%uff0cUSER_STACK %u7d27%u8d34 TrapContext %u4e0b%u65b9%u7559%u4e00%u9875 guard%u3002''])]\<rparr>\<close>

definition phase4ZhCN_lesson4_section4 :: ContentSection where
  \<open>phase4ZhCN_lesson4_section4 = \<lparr>
    section_title = js ''Trampoline%uff1a%u4e3a%u4ec0%u4e48%u5fc5%u987b%u8de8%u7a7a%u95f4%u540c VA %u540c PA'',
    section_blocks = [ParagraphBlock (jcat [''%u60f3%u8c61 trap_return %u7684%u6700%u540e%u4e09%u6761%u6307%u4ee4%uff1acsrw satp, '',
          ''t0 / sfence.vma / sret%u3002satp %u4e00%u65e6%u5207%u5230%u7528%u6237%u9875%u8868'',
          ''%uff0c%u4e0b%u4e00%u6761 sfence.vma %u5c31%u5fc5%u987b%u5728%u65b0%u9875%u8868%u91cc'',
          ''%u4e5f%u80fd%u53d6%u5230%u2014%u2014%u5426%u5219 PC+4 %u6389%u8fdb%u7a7a%u6d1e%u3002'']),
      DiagramBlock (jlines ['' %u5185%u6838%u5730%u5740%u7a7a%u95f4                           %u7528%u6237%u5730%u5740%u7a7a%u95f4'',
          '' %u250c%r142500%u2510 2^39-1         %u250c%r142500%u2510 2^39-1'',
          '' %u2502 Trampoline (R X)   %u2502%r0f2550 %u2502 Trampoline (R X)   %u2502'',
          '' %u2502 PPN = X            %u2502    %u540c%u4e00 X      %u2502 PPN = X            %u2502'',
          '' %u251c%r142500%u2524                %u251c%r142500%u2524'',
          '' %u2502 kernel identity%u2026   %u2502                %u2502 TrapContext        %u2502'',
          '' %u2502                    %u2502                %u2502 user stack         %u2502'',
          '' %u2502                    %u2502                %u2502 user elf segments  %u2502'',
          '' %u2514%r142500%u2518 0              %u2514%r142500%u2518 0'',
          '''',
          ''  csrw satp, t0         %u2190 %u8fd9%u6761%u6307%u4ee4 PC %u5728 Trampoline %u91cc'',
          ''  sfence.vma            %u2190 %u5207%u5230%u7528%u6237%u9875%u8868%u540e%uff0c%u540c%u4e00 VA %u4ecd%u6307%u5411%u540c%u4e00 PA'']),
      CalloutBlock Warning (jcat [''%u5982%u679c%u5185%u6838%u4e0d%u628a trampoline %u6620%u5c04%u5230 2^39 - '',
          ''4KiB%uff0ccsrw %u4e4b%u540e%u5c31%u7acb%u5373 InstructionPageFault%u3002%u8fd9%u662f Phase 4 '',
          ''%u8c03%u8bd5%u6700%u75db%u82e6%u7684 bug%uff0c%u56e0%u4e3a QEMU '',
          ''%u5076%u5c14%u80fd%u8499%u6df7%u8fc7%u53bb%uff0c%u786c%u4ef6%u5c31%u4e00%u5b9a%u6b7b%u3002'']),
      CodeBlock (Some (js ''rust'')) (jlines [''// %u6bcf%u4e2a MemorySet%uff08%u5185%u6838+%u7528%u6237%uff09%u90fd%u8981%u8c03%u7528'',
          ''fn map_trampoline(&mut self) {'',
          ''    self.page_table.map('',
          ''        VirtAddr::from(TRAMPOLINE).into(),'',
          ''        PhysAddr::from(strampoline as usize).into(),  // %u94fe%u63a5%u811a%u672c%u4e2d%u5bfc%u51fa%u7684%u7b26%u53f7'',
          ''        PTEFlags::R | PTEFlags::X,                     // %u6ce8%u610f%u6ca1%u6709 U'',
          ''    );'',
          ''}''])]\<rparr>\<close>

definition phase4ZhCN_lesson4_section5 :: ContentSection where
  \<open>phase4ZhCN_lesson4_section5 = \<lparr>
    section_title = js ''TrapContext %u9875%uff1a%u4e3a%u4ec0%u4e48%u653e%u5728%u56fa%u5b9a%u69fd%u4f4d'',
    section_blocks = [ParagraphBlock (jcat [''%u5185%u6838%u8981%u4fdd%u5b58/%u6062%u590d%u4e00%u4e2a%u8fdb%u7a0b%u7684%u5bc4'',
          ''%u5b58%u5668%uff0c%u4f46%u5728 trap_return %u6267%u884c csrw satp '',
          ''%u4e4b%u540e%uff0c%u5185%u6838%u7684%u6570%u636e%u5df2%u7ecf%u4e0d%u53ef%u89c1%u4e86%u3002%u5982%u679c'',
          '' TrapContext %u5728%u8fdb%u7a0b%u81ea%u5df1%u7684 VA '',
          ''%u91cc%u6709%u4e00%u4e2a%u56fa%u5b9a%u69fd%u4f4d%uff08TRAMPOLINE - PAGE_SIZE%uff09%uff0c%u90a3%u4e48 trampoline.S '',
          ''%u5c31%u53ef%u4ee5%u7528%u8fd9%u4e00%u4e2a%u7f16%u8bd1%u671f%u5e38%u91cf%u5bfb%u5740'',
          ''%u2014%u2014%u4e0d%u9700%u8981%u6bcf%u6b21%u4f20%u53c2%u3002'']),
      ListBlock True
        [jcat [''%u5185%u6838%u5728 __alltraps%uff1a%u5148%u4ece sscratch %u53d6 user_satp '',
           ''%u4e4b%u524d%u7684%u4e34%u65f6%u5bc4%u5b58%u5668%u6808%uff0c%u628a%u5bc4%u5b58%u5668%u4e00'',
           ''%u628a%u5b58%u5230 TRAP_CONTEXT_VA''],
         js ''%u5207%u5230%u5185%u6838%u6808%uff0c%u8c03%u7528 trap_handler'',
         jcat [''trap_return%uff1a%u628a TRAP_CONTEXT_VA %u91cc%u7684%u5bc4%u5b58%u5668%u6062%u590d'',
           ''%uff0c%u518d csrw satp %u2192 sret''],
         jcat [''%u6574%u4e2a%u8fc7%u7a0b%u5185%u6838%u53ea%u9700%u8981%u77e5%u9053%u4e00%u4e2a%u5e38'',
           ''%u91cf%uff1aTRAMPOLINE - 4KiB'']]]\<rparr>\<close>

definition phase4ZhCN_lesson4_exercise1 :: CodeExercise where
  \<open>phase4ZhCN_lesson4_exercise1 = \<lparr>
    exercise_id = js ''map-one'',
    exercise_title = js ''%u5b9e%u73b0 MapArea::map_one'',
    exercise_description = jcat [''%u6839%u636e map_type %u9009 identity %u6216 framed%u3002Framed '',
        ''%u60c5%u51b5%u4e0b%uff1aframe_alloc() %u2192 insert %u8fdb data_frames %u2192 page_table.map%u3002''],
    exercise_labFile = Some LAB_MS,
    exercise_hints = [jcat [''PhysPageNum(vpn.0) %u8fd9%u79cd%u8d64%u88f8 wrap %u5728 identity '',
         ''%u60c5%u5f62%u4e0b%u662f%u5408%u6cd5%u7684%u2014%u2014%u7269%u7406%u5e27%u53f7%u548c%u865a%u62df%u9875'',
         ''%u53f7%u6570%u503c%u76f8%u7b49''],
       js ''%u5fd8 insert FrameTracker %u2192 %u5e27%u7acb%u5373%u5f52%u8fd8 %u2192 PTE %u60ac%u7a7a''],
    exercise_pseudocode = Some (jlines [''fn map_one(pt, vpn):'',
          ''  ppn = match self.map_type:'',
          ''    Identical => PPN(vpn.0)'',
          ''    Framed    =>'',
          ''      f = frame_alloc().unwrap()'',
          ''      ppn = f.ppn'',
          ''      self.data_frames.insert(vpn, f)   // %u6301%u6709%uff0c%u5426%u5219%u7acb%u5373 drop'',
          ''      ppn'',
          ''  pt.map(vpn, ppn, V | self.map_perm)''])\<rparr>\<close>

definition phase4ZhCN_lesson4_exercise2 :: CodeExercise where
  \<open>phase4ZhCN_lesson4_exercise2 = \<lparr>
    exercise_id = js ''from-elf'',
    exercise_title = js ''%u5b9e%u73b0 MemorySet::from_elf'',
    exercise_description = jcat [''%u89e3%u6790 ELF %u7684 PT_LOAD %u7a0b%u5e8f%u5934%uff0c%u4e3a%u6bcf%u6bb5 push '',
        ''%u4e00%u4e2a Framed MapArea%uff1b%u5728%u6700%u9ad8%u6bb5%u4e4b%u4e0a%u7559 guard '',
        ''page + user stack%uff1b%u6700%u540e%u518d%u63d2 TrapContext %u9875%u548c '',
        ''trampoline%u3002%u8fd4%u56de (memory_set, user_sp, entry)%u3002''],
    exercise_labFile = Some LAB_MS,
    exercise_hints = [jcat [''ELF flags %u6765%u81ea ph.flags()%uff1a%u7b2c 0 %u4f4d X%u3001%u7b2c 1 %u4f4d '',
         ''W%u3001%u7b2c 2 %u4f4d R%uff08%u6ce8%u610f%u4f4d%u5e8f%uff09''],
       jcat [''push() %u5185%u90e8%u4f1a%u5bf9%u6bcf%u4e2a VPN %u8c03 '',
         ''map_one%uff0c%u7136%u540e%u628a data%uff08%u5982%u679c%u6709%uff09memcpy %u8fdb%u53bb''],
       jcat [''%u522b%u5fd8%u4e86 U %u4f4d%u2014%u2014%u4e0d%u7136%u7528%u6237%u8fdb%u7a0b%u8bfb'',
         ''%u81ea%u5df1%u4ee3%u7801%u90fd%u4f1a PageFault'']],
    exercise_pseudocode = Some (jlines [''fn from_elf(elf_bytes):'',
          ''  ms = MemorySet::new_bare()'',
          ''  ms.map_trampoline()'',
          ''  elf = ElfFile::new(elf_bytes)'',
          ''  max_end = 0'',
          ''  for ph in elf.program_iter() where ph.get_type() == Load:'',
          ''    start_va = ph.virtual_addr()'',
          ''    end_va   = start_va + ph.mem_size()'',
          ''    perm     = PTEFlags::U |'',
          ''               (R if ph.flags().R else 0) |'',
          ''               (W if ph.flags().W else 0) |'',
          ''               (X if ph.flags().X else 0)'',
          ''    area = MapArea::new(start_va, end_va, Framed, perm)'',
          ''    ms.push(area, Some(&elf_bytes[ph.offset()..ph.offset()+ph.file_size()]))'',
          ''    max_end = max(max_end, end_va)'',
          '''',
          ''  user_stack_bottom = max_end + PAGE_SIZE           // guard'',
          ''  user_stack_top    = user_stack_bottom + USER_STACK_SIZE'',
          ''  ms.push(MapArea::new(user_stack_bottom, user_stack_top, Framed, R|W|U), None)'',
          '''',
          ''  // TrapContext slot'',
          ''  ms.push(MapArea::new(TRAP_CONTEXT, TRAMPOLINE, Framed, R|W), None)'',
          '''',
          ''  return (ms, user_stack_top, elf.header.pt2.entry_point())''])\<rparr>\<close>

definition phase4ZhCN_lesson4 :: Lesson where
  \<open>phase4ZhCN_lesson4 = \<lparr>
    lesson_phaseId = 4, lesson_lessonId = 4,
    lesson_title = js ''MemorySet + MapArea + Trampoline'',
    lesson_subtitle = jcat [''%u5730%u5740%u7a7a%u95f4%u5bf9%u8c61 %u00b7 identity vs framed %u00b7 '',
        ''%u8de8%u7a7a%u95f4%u5171%u4eab%u9875''],
    lesson_type = js ''Concept + Practice'',
    lesson_duration = js ''120 min'',
    lesson_objectives = [js ''%u753b%u51fa MemorySet / MapArea / PageTable %u7684%u6301%u6709%u5173%u7cfb'',
       js ''%u533a%u5206 identity %u6620%u5c04%u4e0e framed %u6620%u5c04%u7684%u4f7f%u7528%u573a%u5408'',
       jcat [''%u89e3%u91ca%u4e3a%u4ec0%u4e48 trampoline %u5fc5%u987b%u5728%u5185%u6838/%u7528'',
         ''%u6237%u6620%u5c04%u5230%u540c%u4e00 VA''],
       js ''%u7406%u89e3 TrapContext %u9875 "%u56fa%u5b9a%u69fd%u4f4d" %u7684%u8bbe%u8ba1%u610f%u56fe''],
    lesson_sections = [phase4ZhCN_lesson4_section1,
      phase4ZhCN_lesson4_section2,
      phase4ZhCN_lesson4_section3,
      phase4ZhCN_lesson4_section4,
      phase4ZhCN_lesson4_section5],
    lesson_exercises = [phase4ZhCN_lesson4_exercise1, phase4ZhCN_lesson4_exercise2],
    lesson_acceptanceCriteria = [js ''memory_set::tests::test_from_elf_hello %u8fd4%u56de%u5408%u6cd5 (entry, sp)'',
       jcat [''memory_set::tests::test_trampoline_shared %u9a8c%u8bc1%u5185%u6838%u4e0e%u7528%u6237'',
         '' trampoline PPN %u76f8%u540c''],
       jcat [''%u80fd%u753b%u51fa%u7528%u6237%u5730%u5740%u7a7a%u95f4%u5e03%u5c40%u5e76%u6807%u51fa'',
         '' TRAMPOLINE / TRAP_CONTEXT''],
       js ''%u80fd%u89e3%u91ca%u4e3a%u4ec0%u4e48 trampoline %u4e0d%u5e26 U %u4f4d''],
    lesson_references = [\<lparr>reference_title = jcat [''[%u5fc5%u8bfb] rCore-Tutorial v3 %u00b7 4.4 '',
          ''%u5185%u6838%u4e0e%u5e94%u7528%u7684%u5730%u5740%u7a7a%u95f4''],
       reference_description = js ''MemorySet / MapArea / trampoline %u7684%u8bbe%u8ba1%u539f%u7248'',
       reference_url = js ''https://rcore-os.cn/rCore-Tutorial-Book-v3/chapter4/5kernel-app-spaces.html''\<rparr>,
      \<lparr>reference_title = js ''[%u5fc5%u8bfb] labs/phase_4_vm/COURSE.en.md %u00b7 %u00a74.5 trampoline trick'',
       reference_description = jcat [''%u672c%u4ed3%u5e93%u7684%u5b8c%u6574 trampoline %u8bb2%u89e3%uff08%u542b ASCII '',
          ''%u56fe%uff09''],
       reference_url = js ''./labs/phase_4_vm/COURSE.en.md''\<rparr>,
      \<lparr>reference_title = js ''[%u6df1%u5165%u9605%u8bfb] xv6-riscv book %u00b7 Ch.4 Traps and system calls'',
       reference_description = js ''C %u5b9e%u73b0%u7248 trampoline %u4e0e trapframe %u7684%u5bf9%u7167%u8bb2%u89e3'',
       reference_url = js ''https://pdos.csail.mit.edu/6.828/2023/xv6/book-riscv-rev3.pdf''\<rparr>]\<rparr>\<close>

section \<open>Lesson 5\<close>

definition phase4ZhCN_lesson5_section1 :: ContentSection where
  \<open>phase4ZhCN_lesson5_section1 = \<lparr>
    section_title = js ''%u4e3a%u4ec0%u4e48%u4e0d%u80fd unsafe *user_ptr'',
    section_blocks = [ParagraphBlock (jcat [''%u5185%u6838%u5728%u5904%u7406%u7cfb%u7edf%u8c03%u7528%u65f6%uff0csatp '',
          ''%u901a%u5e38%u5df2%u7ecf%u5207%u5230%u5185%u6838%u9875%u8868%uff08%u6216%u8005%u4ecd%u505c%u5728'',
          ''%u7528%u6237%u9875%u8868%uff0c%u53d6%u51b3%u4e8e%u8bbe%u8ba1%uff09%u3002%u65e0%u8bba'',
          ''%u54ea%u79cd%uff0c%u88f8 *ptr %u90fd%u6709%u4e24%u4e2a%u81f4%u547d%u95ee%u9898%uff1a'']),
      ListBlock True
        [jcat [''%u5730%u5740%u7a7a%u95f4%u9519%u914d%uff1a%u5185%u6838%u9875%u8868%u91cc%u53ef%u80fd'',
           ''%u6839%u672c%u6ca1%u6709%u6620%u5c04%u8fd9%u4e2a%u7528%u6237 VA%uff0c%u76f4%u63a5 '',
           ''deref %u4f1a LoadPageFault''],
         jcat [''%u6743%u9650%u4fdd%u62a4%uff1a%u5373%u4f7f%u6620%u5c04%u5b58%u5728%uff0cU '',
           ''%u4f4d%u7684%u5b58%u5728%u4f1a%u5728 S-mode %u89e6%u53d1%u5f02%u5e38%uff08%u9664%u975e '',
           ''SUM=1%uff0c%u4e14%u8fd9%u662f%u53d7%u63a7%u4e34%u65f6%u64cd%u4f5c%uff09''],
         jcat [''%u7269%u7406%u4e0d%u8fde%u7eed%uff1a%u4e00%u4e2a 4KB %u8de8%u9875%u7684%u7528%u6237 '',
           ''buffer%uff0c%u5728%u7269%u7406%u7a7a%u95f4%u91cc%u53ef%u80fd%u662f%u4e24%u5757%u4e0d'',
           ''%u76f8%u90bb%u7684%u5e27%u2014%u2014%u5355%u6b21 memcpy %u4f1a%u8d8a%u754c'']],
      CalloutBlock Warning (jcat [''%u7ed3%u8bba%uff1a%u5185%u6838%u5fc5%u987b%u663e%u5f0f%u8d70%u7528%u6237%u9875%u8868'',
          ''%u628a VA %u7ffb%u8bd1%u6210 PA%uff0c%u7136%u540e%u7528%u7269%u7406%u5730%u5740'',
          ''%uff08%u6216%u5185%u6838%u7684 identity %u6620%u5c04%uff09%u8bfb/%u5199%u3002%u8fd9'',
          ''%u6b63%u662f translate_byte_buffer %u505a%u7684%u4e8b%u3002''])]\<rparr>\<close>

definition phase4ZhCN_lesson5_section2 :: ContentSection where
  \<open>phase4ZhCN_lesson5_section2 = \<lparr>
    section_title = js ''translate_byte_buffer%uff1a%u4e00%u6bb5 VA %u6620%u5c04%u4e3a%u591a%u6bb5 PA'',
    section_blocks = [DiagramBlock (jlines ['' %u7528%u6237%u89c6%u89d2%uff1a%u4e00%u6bb5%u8fde%u7eed VA [ptr, ptr+len)'',
          ''   |%r2c2500|'',
          ''   ptr                                        ptr+len'',
          '''',
          '' %u7269%u7406%u89c6%u89d2%uff1a%u53ef%u80fd%u8de8%u82e5%u5e72%u5e27%uff0c%u6bcf%u5e27%u4e0d%u4e00%u5b9a%u76f8%u90bb'',
          ''   %u250c%r052500%u2510   %u250c%r052500%u2510         %u250c%r052500%u2510'',
          ''   %u2502 PA0 %u2502   %u2502 PA1 %u2502  %u2026%u2026     %u2502 PAn %u2502'',
          ''   %u2514%r052500%u2518   %u2514%r052500%u2518         %u2514%r052500%u2518'',
          ''   [...]     [full]          [...]'',
          ''   %u8d77%u59cb%u6bb5%uff1a     %u4e2d%u95f4%u6bb5%u5168%u9875:       %u672b%u5c3e%u6bb5%uff1a'',
          ''   %u4ece ptr&0xFFF  %u5b8c%u6574 4KiB         %u5230 (ptr+len)&0xFFF'',
          ''   %u5230 4096'']),
      CodeBlock (Some (js ''rust'')) (jlines [''// labs/phase_4_vm/src/mm/page_table.rs'',
          ''pub fn translated_byte_buffer('',
          ''    token: usize,                    // %u7528%u6237 satp%uff08%u542b MODE|ASID|PPN%uff09'',
          ''    ptr: *const u8,'',
          ''    len: usize,'',
          '') -> Vec<&'static mut [u8]> {'',
          ''    let page_table = PageTable::from_token(token);'',
          ''    let mut start = ptr as usize;'',
          ''    let end = start + len;'',
          ''    let mut v = Vec::new();'',
          ''    while start < end {'',
          ''        let start_va = VirtAddr::from(start);'',
          ''        let mut vpn: VirtPageNum = start_va.floor();'',
          ''        let ppn = page_table.translate(vpn).unwrap().ppn();'',
          ''        vpn.step();                   // %u4e0b%u4e00%u9875%u8d77%u70b9'',
          ''        let mut end_va: VirtAddr = vpn.into();'',
          ''        end_va = end_va.min(VirtAddr::from(end));'',
          ''        // %u8fd9%u4e00%u9875%u91cc%u7684 [start_va.page_offset(), end_va.page_offset() or 4096)'',
          ''        if end_va.page_offset() == 0 {'',
          ''            v.push(&mut ppn.get_bytes_array()[start_va.page_offset()..]);'',
          ''        } else {'',
          ''            v.push(&mut ppn.get_bytes_array()'',
          ''                [start_va.page_offset()..end_va.page_offset()]);'',
          ''        }'',
          ''        start = end_va.into();'',
          ''    }'',
          ''    v'',
          ''}'']),
      ParagraphBlock (jcat [''%u5173%u952e%u70b9%uff1a%u6bcf%u6b21%u5faa%u73af%u53ea%u5904%u7406 '',
          ''"%u5f53%u524d%u8fd9%u4e00%u9875%u5185%u7684%u7247%u6bb5"%u3002%u8de8%u9875%u7684%u7528%u6237 '',
          ''buffer %u88ab%u8fd4%u56de%u4e3a Vec<&mut [u8]>%u2014%u2014%u8c03%u7528%u8005%u9700%u8981'',
          ''%u904d%u5386%u8fd9%u4e9b%u5207%u7247%uff08sys_write '',
          ''%u5c31%u662f%u9010%u7247%u5199%u5230 stdout%uff09%u3002''])]\<rparr>\<close>

definition phase4ZhCN_lesson5_section3 :: ContentSection where
  \<open>phase4ZhCN_lesson5_section3 = \<lparr>
    section_title = js ''SUM %u4f4d%uff1a%u5185%u6838%u8bfb%u7528%u6237%u9875%u7684%u8bb8%u53ef%u8bc1'',
    section_blocks = [ParagraphBlock (jcat [''%u5373%u4f7f%u901a%u8fc7%u7269%u7406%u5730%u5740%u8d70 identity '',
          ''%u6620%u5c04%u8bbf%u95ee%uff0c%u6709%u4e9b%u5b9e%u73b0%uff08%u6216%u4f60%u628a%u5185%u6838%u7559%u5728'',
          ''%u7528%u6237%u9875%u8868%u91cc%u6267%u884c syscall '',
          ''%u7684%u67b6%u6784%uff09%u4f1a%u8ba9%u5185%u6838%u89e6%u78b0%u5e26 U %u4f4d%u7684 '',
          ''PTE%u3002%u8fd9%u65f6%u5fc5%u987b%u6253%u5f00 sstatus.SUM%uff1a'']),
      CodeBlock (Some (js ''rust'')) (jlines [''use riscv::register::sstatus;'',
          '''',
          ''pub fn with_sum<R>(f: impl FnOnce() -> R) -> R {'',
          ''    unsafe { sstatus::set_sum(); }'',
          ''    let r = f();'',
          ''    unsafe { sstatus::clear_sum(); }'',
          ''    r'',
          ''}'']),
      TableBlock [js ''%u573a%u666f'',
         js ''%u9700%u8981 SUM=1%uff1f'']
        [[js ''%u901a%u8fc7 translate_byte_buffer %u8bbf%u95ee identity-mapped phys mem'',
          js ''%u4e0d%u9700%u8981%uff08identity %u9875%u6ca1%u6709 U%uff09''],
         [jcat [''%u5185%u6838%u7559%u5728%u7528%u6237%u9875%u8868%uff0c%u76f4%u63a5%u8bbf%u95ee%u7528'',
            ''%u6237 VA''],
          js ''%u9700%u8981%uff08%u5426%u5219 S-mode %u8bbf%u95ee U %u9875 PageFault%uff09''],
         [jcat [''sret %u8fdb%u5165%u7528%u6237%u524d/%u4ece%u7528%u6237%u8fd4%u56de%u540e%u7684 '',
            ''trap_handler''],
          js ''%u5fc5%u987b clear %u56de 0%uff0c%u9632%u6b62 confused deputy'']],
      CalloutBlock Tip (jcat [''"confused deputy"%uff1a%u5982%u679c SUM %u4e00%u76f4%u5f00%u7740%uff0c%u5185%u6838'',
          ''%u4ee3%u7801%u53ef%u80fd%u88ab%u6b3a%u9a97%u53bb%u8bfb%u4efb%u610f%u7528%u6237%u9875'',
          ''%uff1bLinux %u6709 STAC/CLAC%u3001SMAP %u7b49%u786c%u4ef6%u673a%u5236%u89e3%u51b3'',
          ''%u540c%u6837%u95ee%u9898%u3002RISC-V %u7528 SUM + %u8f6f%u4ef6%u81ea%u5f8b%u3002''])]\<rparr>\<close>

definition phase4ZhCN_lesson5_section4 :: ContentSection where
  \<open>phase4ZhCN_lesson5_section4 = \<lparr>
    section_title = js ''%u5e38%u89c1%u9519%u8bef%u5408%u96c6%uff08Phase 4 %u5168%u5957%uff09'',
    section_blocks = [TableBlock [js ''#'',
         js ''%u75c7%u72b6'',
         js ''%u539f%u56e0'',
         js ''%u4fee%u590d'']
        [[js ''1'',
          js ''csrw satp %u4e4b%u540e%u7acb%u5373 InstructionPageFault'',
          js ''%u5fd8 sfence.vma%uff0cTLB %u4ecd%u6307%u65e7%u9875%u8868'',
          js ''csrw satp %u540e%u7d27%u8ddf sfence.vma zero, zero''],
         [js ''2'',
          js ''%u52a0%u8f7d PTE %u5c31 PageFault%uff0c%u6807%u5fd7%u770b%u4f3c%u5408%u6cd5'',
          js ''W=1, R=0 %u662f%u4fdd%u7559%u7ec4%u5408'',
          js ''%u7528 bitflags%uff0c%u6c38%u8fdc%u4e00%u8d77%u7f6e R|W''],
         [js ''3'',
          js ''%u8fdb%u7a0b%u8dd1%u51e0%u79d2%u540e LoadPageFault / %u8bfb%u5230%u522b%u4eba%u6570%u636e'',
          js ''FrameTracker %u6ca1%u88ab%u6301%u6709%uff0c%u5e27%u88ab drop %u5f52%u8fd8'',
          js ''%u628a FrameTracker %u5b58%u8fdb MapArea.data_frames''],
         [js ''4'',
          js ''%u4e09%u7ea7 walk %u8df3%u5230 0xdeadbeef'',
          js ''%u628a PTE %u4e2d%u7684%u5b57%u6bb5%u5f53 VPN %u7528%uff0c%u5fd8%u4e86 <<12'',
          js ''next_pt = pte.ppn() %u5df2%u662f PhysPageNum%uff0c%u5de6%u79fb 12 %u624d%u662f PA''],
         [js ''5'',
          js ''trap_return %u7684 sret %u4f4d%u7f6e InstructionPageFault'',
          js ''trampoline %u672a%u5728%u5185%u6838%u4fa7%u6620%u5c04%uff0c%u6216 VA %u4e0d%u4e00%u81f4'',
          js ''%u6240%u6709 MemorySet %u90fd map_trampoline()%uff0cVA = 2^39 - 4KiB''],
         [js ''6'',
          js ''%u7528%u6237%u6808%u6084%u6084%u8e29%u5230 .bss'',
          js ''%u7f3a guard page'',
          js ''stack_bottom = max_end + PAGE_SIZE%uff0c%u7559%u4e00%u9875%u7a7a%u6d1e''],
         [js ''7'',
          js ''%u8c03%u5ea6%u7b2c%u4e8c%u4e2a%u8fdb%u7a0b%u65f6 syscall %u53c2%u6570%u4e71%u7801'',
          js ''%u5207 TCB %u6ca1%u5207 satp'',
          js ''trap_return %u4e00%u5f00%u59cb csrw satp, user_satp''],
         [js ''8'',
          js ''sys_write %u8f93%u51fa%u88ab%u622a%u534a'',
          js ''%u8de8%u9875 buffer %u53ea%u5904%u7406%u4e86%u524d%u534a%u6bb5'',
          js ''translated_byte_buffer %u5faa%u73af%u76f4%u5230 start >= end''],
         [js ''9'',
          js ''PPN %u5f53 PA %u4f20%u7ed9 memcpy'',
          js ''PPN %u548c PA %u5dee 12 %u4f4d'',
          js ''PA = ppn.0 << 12%uff0c%u7528 PhysAddr::from(ppn) %u800c%u975e as usize'']]]\<rparr>\<close>

definition phase4ZhCN_lesson5_exercise1 :: CodeExercise where
  \<open>phase4ZhCN_lesson5_exercise1 = \<lparr>
    exercise_id = js ''translate-buffer'',
    exercise_title = js ''%u5b9e%u73b0 translated_byte_buffer'',
    exercise_description = jcat [''%u628a (token, ptr, len) %u8f6c%u6210 Vec<&mut '',
        ''[u8]>%u2014%u2014%u6bcf%u4e2a%u5207%u7247%u5bf9%u5e94%u4e00%u4e2a%u7269%u7406%u9875%u5185%u7684%u7247%u6bb5%u3002''],
    exercise_labFile = Some LAB_PT,
    exercise_hints = [js ''off_hi == 4096 %u65f6%uff0cbytes[off_lo..] %u548c bytes[off_lo..4096] %u7b49%u4ef7'',
       jcat [''translate() %u5931%u8d25%uff08%u7528%u6237%u4f20%u4e86%u975e%u6cd5%u6307%u9488%uff09'',
         ''%u5fc5%u987b%u5411%u4e0a%u62a5%u9519%uff0c%u4e0d%u8981 unwrap%u2014%u2014kill '',
         ''%u5f53%u524d%u4efb%u52a1%u66f4%u5408%u9002'']],
    exercise_pseudocode = Some (jlines [''v = []'',
          ''cur = ptr'',
          ''while cur < ptr + len:'',
          ''  vpn   = floor(cur)'',
          ''  ppn   = pt.translate(vpn).ppn'',
          ''  next  = (vpn + 1).start_va'',
          ''  slice_end = min(next, ptr + len)'',
          ''  off_lo = cur - vpn.start_va'',
          ''  off_hi = slice_end - vpn.start_va    // %u53ef%u80fd == 4096'',
          ''  v.push(&mut ppn.bytes[off_lo..off_hi])'',
          ''  cur = slice_end'',
          ''return v''])\<rparr>\<close>

definition phase4ZhCN_lesson5_exercise2 :: CodeExercise where
  \<open>phase4ZhCN_lesson5_exercise2 = \<lparr>
    exercise_id = js ''copy-to-user'',
    exercise_title = js ''%u5b9e%u73b0 copy_to_user'',
    exercise_description = jcat [''%u5bf9%u7167 translate_byte_buffer%uff0c%u5199%u4e00%u4e2a%u628a%u5185%u6838 &[u8] '',
        ''%u62f7%u8fdb%u7528%u6237 VA %u7684%u7248%u672c%u3002%u6ce8%u610f%uff1a%u53ef%u80fd'',
        ''%u8de8%u9875%u3002''],
    exercise_labFile = Some LAB_PT,
    exercise_hints = [js ''%u522b%u5fd8%u4e86%u7ef4%u62a4%u4e00%u4e2a offset %u7d2f%u52a0%u5230 src %u4e0a'',
       jcat [''zero-length %u8981%u63d0%u524d return%uff0c%u5426%u5219%u5faa%u73af%u4f1a%u7acb'',
         ''%u5373%u9000%u51fa%u4f46%u4ee3%u7801%u770b%u8d77%u6765%u66f4%u6e05%u6670'']],
    exercise_pseudocode = Some (jlines [''fn copy_to_user(token, dst_user: *mut u8, src: &[u8]):'',
          ''  for slice in translated_byte_buffer(token, dst_user, src.len()):'',
          ''    let n = slice.len()'',
          ''    slice.copy_from_slice(&src[offset..offset+n])'',
          ''    offset += n''])\<rparr>\<close>

definition phase4ZhCN_lesson5 :: Lesson where
  \<open>phase4ZhCN_lesson5 = \<lparr>
    lesson_phaseId = 4, lesson_lessonId = 5,
    lesson_title = js ''copy_from_user / copy_to_user%uff1a%u7a7f%u8d8a%u5730%u5740%u7a7a%u95f4%u7684%u6307%u9488'',
    lesson_subtitle = js ''translate_byte_buffer %u00b7 SUM %u4f4d %u00b7 %u8de8%u9875%u62f7%u8d1d'',
    lesson_type = js ''Concept + Practice'',
    lesson_duration = js ''80 min'',
    lesson_objectives = [jcat [''%u89e3%u91ca "%u5185%u6838%u4e0d%u80fd%u76f4%u63a5 deref %u7528%u6237%u6307%u9488" '',
         ''%u7684%u4e24%u6761%u6839%u56e0''],
       js ''%u5199%u51fa translate_byte_buffer %u7684%u5faa%u73af%u7ed3%u6784'',
       js ''%u77e5%u9053 SUM %u4f4d%u4f55%u65f6%u8be5%u5f00%u3001%u4f55%u65f6%u5fc5%u987b%u5173'',
       jcat [''%u907f%u514d "%u8de8%u9875%u7528%u6237%u7f13%u51b2%u533a" '',
         ''%u9020%u6210%u7684%u534a%u9875%u622a%u65ad bug'']],
    lesson_sections = [phase4ZhCN_lesson5_section1,
      phase4ZhCN_lesson5_section2,
      phase4ZhCN_lesson5_section3,
      phase4ZhCN_lesson5_section4],
    lesson_exercises = [phase4ZhCN_lesson5_exercise1, phase4ZhCN_lesson5_exercise2],
    lesson_acceptanceCriteria = [jcat [''page_table::tests::test_translate_cross_page %u901a%u8fc7%uff08buffer '',
         ''%u8de8%u4e24%u9875%uff09''],
       jcat [''sys_write(stdout, "hello", 5) %u5728%u7528%u6237%u7a0b%u5e8f%u91cc%u80fd%u6b63%u786e'',
         ''%u8f93%u51fa''],
       jcat [''%u80fd%u8bf4%u51fa SUM %u4f4d%u5728%u672c%u4ed3%u5e93%u5b9e%u73b0%u91cc '',
         ''"%u901a%u5e38%u662f%u5426%u9700%u8981" %u7684%u7b54%u6848''],
       jcat [''%u80fd%u5bf9%u7167 Common Mistakes %u8868%u53e3%u8ff0%u81f3%u5c11 3 %u4e2a bug '',
         ''%u7684%u6839%u56e0'']],
    lesson_references = [\<lparr>reference_title = js ''[%u5fc5%u8bfb] labs/phase_4_vm/COURSE.en.md %u00b7 Common Mistakes'',
       reference_description = jcat [''%u672c%u4ed3%u5e93 9 %u4e2a%u9ad8%u9891 bug '',
          ''%u7684%u75c7%u72b6/%u6839%u56e0/%u4fee%u590d%u5bf9%u7167%u8868''],
       reference_url = js ''./labs/phase_4_vm/COURSE.en.md''\<rparr>,
      \<lparr>reference_title = jcat [''[%u5fc5%u8bfb] rCore-Tutorial v3 %u00b7 4.5 '',
          ''%u57fa%u4e8e%u5730%u5740%u7a7a%u95f4%u7684%u5206%u65f6%u591a%u4efb%u52a1''],
       reference_description = jcat [''%u7528%u6237/%u5185%u6838%u5730%u5740%u7a7a%u95f4%u5207%u6362%u7684%u5b8c%u6574'',
          ''%u8def%u5f84''],
       reference_url = js ''https://rcore-os.cn/rCore-Tutorial-Book-v3/chapter4/6multitasking-based-on-as.html''\<rparr>,
      \<lparr>reference_title = js ''[%u6df1%u5165%u9605%u8bfb] Linux SMAP/SMEP & RISC-V SUM/MXR'',
       reference_description = js ''%u786c%u4ef6%u9694%u79bb%u7b56%u7565%u7684%u6a2a%u5411%u5bf9%u6bd4'',
       reference_url = js ''https://lwn.net/Articles/517251/''\<rparr>]\<rparr>\<close>

section \<open>The phase\<close>

definition phase4ZhCN :: PhaseContent where
  \<open>phase4ZhCN = \<lparr>
    content_phaseId = 4,
    content_color = js ''#2563EB'',
    content_accent = js ''#60A5FA'',
    content_lessons = [phase4ZhCN_lesson1, phase4ZhCN_lesson2, phase4ZhCN_lesson3, phase4ZhCN_lesson4, phase4ZhCN_lesson5]\<rparr>\<close>

section \<open>Well-formedness\<close>

lemma phase4ZhCN_lesson1_ok: "lesson_ok phase4ZhCN_lesson1"
  by (simp add: lesson_ok_def section_ok_def phase4ZhCN_lesson1_def
      phase4ZhCN_lesson1_section1_def
      phase4ZhCN_lesson1_section2_def
      phase4ZhCN_lesson1_section3_def
      phase4ZhCN_lesson1_section4_def
      phase4ZhCN_lesson1_section5_def
      phase4ZhCN_lesson1_exercise1_def
      phase4ZhCN_lesson1_exercise2_def)

lemma phase4ZhCN_lesson2_ok: "lesson_ok phase4ZhCN_lesson2"
  by (simp add: lesson_ok_def section_ok_def phase4ZhCN_lesson2_def
      phase4ZhCN_lesson2_section1_def
      phase4ZhCN_lesson2_section2_def
      phase4ZhCN_lesson2_section3_def
      phase4ZhCN_lesson2_section4_def
      phase4ZhCN_lesson2_section5_def
      phase4ZhCN_lesson2_exercise1_def
      phase4ZhCN_lesson2_exercise2_def)

lemma phase4ZhCN_lesson3_ok: "lesson_ok phase4ZhCN_lesson3"
  by (simp add: lesson_ok_def section_ok_def phase4ZhCN_lesson3_def
      phase4ZhCN_lesson3_section1_def
      phase4ZhCN_lesson3_section2_def
      phase4ZhCN_lesson3_section3_def
      phase4ZhCN_lesson3_section4_def
      phase4ZhCN_lesson3_section5_def
      phase4ZhCN_lesson3_exercise1_def
      phase4ZhCN_lesson3_exercise2_def)

lemma phase4ZhCN_lesson4_ok: "lesson_ok phase4ZhCN_lesson4"
  by (simp add: lesson_ok_def section_ok_def phase4ZhCN_lesson4_def
      phase4ZhCN_lesson4_section1_def
      phase4ZhCN_lesson4_section2_def
      phase4ZhCN_lesson4_section3_def
      phase4ZhCN_lesson4_section4_def
      phase4ZhCN_lesson4_section5_def
      phase4ZhCN_lesson4_exercise1_def
      phase4ZhCN_lesson4_exercise2_def)

lemma phase4ZhCN_lesson5_ok: "lesson_ok phase4ZhCN_lesson5"
  by (simp add: lesson_ok_def section_ok_def phase4ZhCN_lesson5_def
      phase4ZhCN_lesson5_section1_def
      phase4ZhCN_lesson5_section2_def
      phase4ZhCN_lesson5_section3_def
      phase4ZhCN_lesson5_section4_def
      phase4ZhCN_lesson5_exercise1_def
      phase4ZhCN_lesson5_exercise2_def)

lemma phase4ZhCN_lesson1_ids: "lesson_phaseId phase4ZhCN_lesson1 = 4" "lesson_lessonId phase4ZhCN_lesson1 = 1"
  by (simp_all add: phase4ZhCN_lesson1_def)

lemma phase4ZhCN_lesson2_ids: "lesson_phaseId phase4ZhCN_lesson2 = 4" "lesson_lessonId phase4ZhCN_lesson2 = 2"
  by (simp_all add: phase4ZhCN_lesson2_def)

lemma phase4ZhCN_lesson3_ids: "lesson_phaseId phase4ZhCN_lesson3 = 4" "lesson_lessonId phase4ZhCN_lesson3 = 3"
  by (simp_all add: phase4ZhCN_lesson3_def)

lemma phase4ZhCN_lesson4_ids: "lesson_phaseId phase4ZhCN_lesson4 = 4" "lesson_lessonId phase4ZhCN_lesson4 = 4"
  by (simp_all add: phase4ZhCN_lesson4_def)

lemma phase4ZhCN_lesson5_ids: "lesson_phaseId phase4ZhCN_lesson5 = 4" "lesson_lessonId phase4ZhCN_lesson5 = 5"
  by (simp_all add: phase4ZhCN_lesson5_def)

lemma phase4ZhCN_shape [site_shape]:
  "content_phaseId phase4ZhCN = 4" "length (content_lessons phase4ZhCN) = 5"
  by (simp_all add: phase4ZhCN_def)

lemma phase4ZhCN_ok [site_shape]: "content_ok phase4ZhCN"
  by (simp add: content_ok_def phase4ZhCN_def upt_rec
      phase4ZhCN_lesson1_ok phase4ZhCN_lesson2_ok phase4ZhCN_lesson3_ok phase4ZhCN_lesson4_ok phase4ZhCN_lesson5_ok
      phase4ZhCN_lesson1_ids phase4ZhCN_lesson2_ids phase4ZhCN_lesson3_ids phase4ZhCN_lesson4_ids phase4ZhCN_lesson5_ids)

end
