(* ===== verification/Phase4_En.thy ===== *)
theory Phase4_En
  imports Phase4_Paths
begin

text \<open>
  Phase 4, virtual memory, in English: the constant \<open>phase4En\<close> of
  \<open>website/src/data/phase4.ts\<close>, one definition per section, exercise and lesson. Below it, that the
  content is well formed.
\<close>

section \<open>Lesson 1\<close>

definition phase4En_lesson1_section1 :: ContentSection where
  \<open>phase4En_lesson1_section1 = \<lparr>
    section_title = js ''Why one VA needs three table lookups'',
    section_blocks = [ParagraphBlock (jcat [''SV39 maps 39-bit virtual addresses to 56-bit physical addresses. A flat page table '',
          ''would need 2^27 %u00d7 8 B = 1 GiB of contiguous memory per process %u2014 absurd. '',
          ''Multi-level paging slices the VPN into 9-bit chunks, so every page table is exactly '',
          ''one 4 KiB frame (512 %u00d7 8 B PTEs), and interior levels are allocated only on '',
          ''demand.'']),
      ParagraphBlock (jcat [''Pages are fixed at 4 KiB (12-bit offset), so the real "page number" part of a VA is '',
          ''39 %u2212 12 = 27 bits, split 9 + 9 + 9 across three levels.'']),
      CalloutBlock Info (jcat [''SV39 uses only the low 39 bits; bits 63..39 MUST be a sign-extension of bit 38 '',
          ''%u2014 otherwise fetch/load/store raises immediately. This carves the VA space into '',
          ''[0, 2^38) and [2^64 %u2212 2^38, 2^64) %u2014 the low half for user, high half for '',
          ''kernel.''])]\<rparr>\<close>

definition phase4En_lesson1_section2 :: ContentSection where
  \<open>phase4En_lesson1_section2 = \<lparr>
    section_title = js ''The 39-bit VA bit layout'',
    section_blocks = [DiagramBlock (jlines ['' 63                    39 38       30 29       21 20       12 11         0'',
          '' %u250c%r172500%u252c%r0b2500%u252c%r0b2500%u252c%r0b2500%u252c%r0c2500%u2510'',
          '' %u2502    sign-extend (=38)  %u2502  VPN[2]   %u2502  VPN[1]   %u2502  VPN[0]   %u2502   offset   %u2502'',
          '' %u2514%r172500%u2534%r0b2500%u2534%r0b2500%u2534%r0b2500%u2534%r0c2500%u2518'',
          ''        25 bits            9 bits      9 bits      9 bits      12 bits'',
          ''                           (L2 idx)    (L1 idx)    (L0 idx)    (in-page)'']),
      ParagraphBlock (jcat [''Mental model: VPN[2]/VPN[1]/VPN[0] are array indices into three page tables; offset '',
          ''is the byte offset inside the final 4 KiB frame. Together they form one full '',
          ''translation.''])]\<rparr>\<close>

definition phase4En_lesson1_section3 :: ContentSection where
  \<open>phase4En_lesson1_section3 = \<lparr>
    section_title = js ''The three-level walk, with concrete numbers'',
    section_blocks = [DiagramBlock (jlines ['' satp.PPN %u2500%u2500%u25ba %u250c%r0a2500 L2 page table (512 %u00d7 PTE) %r0a2500%u2510'',
          ''              %u2502 ...                                            %u2502'',
          ''              %u2502 [VPN[2]] = PTE2:  V=1 PPN=0x80201             %u2502 (interior, R|W|X=0)'',
          ''              %u2502 ...                                            %u2502'',
          ''              %u2514%r0c2500%u252c%r232500%u2518'',
          ''                           %u2502 next = PTE2.PPN << 12 = 0x80201000'',
          ''                           %u25bc'',
          ''              %u250c%r0a2500 L1 page table at PA 0x80201000 %r052500%u2510'',
          ''              %u2502 [VPN[1]] = PTE1:  V=1 PPN=0x80202             %u2502'',
          ''              %u2514%r0c2500%u252c%r232500%u2518'',
          ''                           %u25bc'',
          ''              %u250c%r0a2500 L0 page table at PA 0x80202000 %r052500%u2510'',
          ''              %u2502 [VPN[0]] = PTE0:  V=1 R=1 W=1 U=1 PPN=0x80AFC %u2502 (leaf!)'',
          ''              %u2514%r0c2500%u252c%r232500%u2518'',
          ''                           %u25bc'',
          ''              PA = (0x80AFC << 12) | offset'']),
      ParagraphBlock (jcat [''Up to three memory loads; a TLB hit collapses them to one register op. The "leaf" '',
          ''decision is not "am I at level 0?" %u2014 it is "is any of R|W|X set?". That is how '',
          ''SV39 supports 2 MiB and 1 GiB huge pages: promote the leaf to L1 or L2.'']),
      CodeBlock (Some (js ''rust'')) (jlines [''// labs/phase_4_vm/src/mm/page_table.rs %u2014 core walk'',
          ''fn find_pte(&self, vpn: VirtPageNum) -> Option<&mut PageTableEntry> {'',
          ''    let idxs = vpn.indexes();               // [vpn2, vpn1, vpn0]'',
          ''    let mut ppn = self.root_ppn;            // from satp.PPN'',
          ''    for i in 0..3 {'',
          ''        let pte = &mut ppn.get_pte_array()[idxs[i]];'',
          ''        if i == 2 { return Some(pte); }     // L0 is the leaf'',
          ''        if !pte.is_valid() { return None; } // hole in the middle'',
          ''        ppn = pte.ppn();                    // next-level base'',
          ''    }'',
          ''    unreachable!()'',
          ''}''])]\<rparr>\<close>

definition phase4En_lesson1_section4 :: ContentSection where
  \<open>phase4En_lesson1_section4 = \<lparr>
    section_title = js ''The satp CSR: "start walking from here"'',
    section_blocks = [DiagramBlock (jlines ['' 63    60 59               44 43                                       0'',
          '' %u250c%r072500%u252c%r132500%u252c%r292500%u2510'',
          '' %u2502 MODE  %u2502       ASID        %u2502             root PPN                    %u2502'',
          '' %u2514%r072500%u2534%r132500%u2534%r292500%u2518'',
          ''  4 bits       16 bits                       44 bits'']),
      TableBlock [js ''Field'',
         js ''Width'',
         js ''Meaning'']
        [[js ''MODE'',
          js ''4'',
          js ''0=Bare (no translation) / 8=Sv39 / 9=Sv48 / 10=Sv57''],
         [js ''ASID'',
          js ''16'',
          js ''Address-space ID; lets multiple processes coexist in TLB''],
         [js ''PPN'',
          js ''44'',
          js ''Physical page number of the root (L2) page table'']],
      CodeBlock (Some (js ''rust'')) (jlines [''// enable SV39'',
          ''let satp = 8usize << 60             // MODE = Sv39'',
          ''         | 0usize << 44             // ASID = 0 (kernel)'',
          ''         | kernel_root_ppn.0;        // root PPN'',
          ''unsafe {'',
          ''    asm!("csrw satp, {0}", "sfence.vma", in(reg) satp);'',
          ''}'']),
      CalloutBlock Warning (jcat [''Writing satp does NOT flush the TLB. You MUST follow with sfence.vma %u2014 '',
          ''otherwise the CPU keeps using cached translations from the old address space and your very '',
          ''first fetch is InstructionPageFault.''])]\<rparr>\<close>

definition phase4En_lesson1_section5 :: ContentSection where
  \<open>phase4En_lesson1_section5 = \<lparr>
    section_title = js ''SV39 vs SV48: why this course picks SV39'',
    section_blocks = [TableBlock [js ''Attribute'',
         js ''SV39'',
         js ''SV48'']
        [[js ''VA bits'',
          js ''39'',
          js ''48''],
         [js ''Addressable space'',
          js ''512 GiB'',
          js ''256 TiB''],
         [js ''Levels'',
          js ''3'',
          js ''4''],
         [js ''QEMU virt support'',
          js ''yes'',
          js ''yes''],
         [js ''xv6-riscv / rCore default'',
          js ''SV39'',
          js ''optional'']],
      ParagraphBlock (jcat [''SV39 is plenty for teaching: a 3-level walk fits on a page, 512 GiB dwarfs QEMU's '',
          ''default 128 MiB of physical memory, and the SV48 generalization is just "add VPN[3]".''])]\<rparr>\<close>

definition phase4En_lesson1_exercise1 :: CodeExercise where
  \<open>phase4En_lesson1_exercise1 = \<lparr>
    exercise_id = js ''hand-walk'',
    exercise_title = js ''Hand-walk a translation'',
    exercise_description = jcat [''Given VA = 0x0000_0040_0020_0ABC and satp.PPN = 0x80000, compute VPN[2..0] and '',
        ''offset, then write the PA produced by passing through L2/L1/L0 (assume each PTE.PPN = '',
        ''base + level).''],
    exercise_labFile = Some LAB_ADDR,
    exercise_hints = [js ''Bit 38 of the VA must equal the upper 25 bits %u2014 otherwise it is an illegal VA'',
       js ''9-bit mask is 0x1FF (= 511), not 0xFFF'',
       js ''Final PA is 56 bits wide %u2014 don't truncate to 32''],
    exercise_pseudocode = Some (jlines [''vpn2 = (va >> 30) & 0x1FF'',
          ''vpn1 = (va >> 21) & 0x1FF'',
          ''vpn0 = (va >> 12) & 0x1FF'',
          ''off  =  va        & 0xFFF'',
          ''pa   = (leaf_ppn << 12) | off''])\<rparr>\<close>

definition phase4En_lesson1_exercise2 :: CodeExercise where
  \<open>phase4En_lesson1_exercise2 = \<lparr>
    exercise_id = js ''indexes'',
    exercise_title = js ''Implement VirtPageNum::indexes()'',
    exercise_description = js ''In address.rs, given a 27-bit VPN, return the three 9-bit indices in [L2, L1, L0] order.'',
    exercise_labFile = Some LAB_ADDR,
    exercise_hints = [js ''Array index 0 is L2 (used first), don't flip the order'',
       js ''vpn already excludes the 12-bit offset %u2014 do not shift again''],
    exercise_pseudocode = Some (jlines [''fn indexes(self) -> [usize; 3] {'',
          ''    let mut vpn = self.0;'',
          ''    let mut out = [0; 3];'',
          ''    for i in (0..3).rev() {          // L0 pops first'',
          ''        out[i] = vpn & 0x1FF;'',
          ''        vpn >>= 9;'',
          ''    }'',
          ''    out                               // order: [L2, L1, L0]'',
          ''}''])\<rparr>\<close>

definition phase4En_lesson1 :: Lesson where
  \<open>phase4En_lesson1 = \<lparr>
    lesson_phaseId = 4, lesson_lessonId = 1,
    lesson_title = js ''SV39 Three-Level Page Tables'',
    lesson_subtitle = js ''39-bit VA %u00b7 9/9/9/12 split %u00b7 3-level walk %u00b7 satp'',
    lesson_type = js ''Concept'',
    lesson_duration = js ''90 min'',
    lesson_objectives = [js ''Memorize the 9/9/9/12 decomposition of an SV39 virtual address'',
       js ''Draw the three-level walk from scratch'',
       js ''Distinguish VPN vs PPN vs PA vs VA without confusion'',
       js ''Write the satp MODE/ASID/PPN fields and know how to enable SV39''],
    lesson_sections = [phase4En_lesson1_section1,
      phase4En_lesson1_section2,
      phase4En_lesson1_section3,
      phase4En_lesson1_section4,
      phase4En_lesson1_section5],
    lesson_exercises = [phase4En_lesson1_exercise1, phase4En_lesson1_exercise2],
    lesson_acceptanceCriteria = [js ''You can recite the 9/9/9/12 split and draw the 3-level walk'',
       js ''You can name the three satp fields and explain MODE=8'',
       js ''You can explain why sfence.vma must follow a satp write'',
       js ''page_table::tests::test_walk_three_levels passes''],
    lesson_references = [\<lparr>reference_title = js ''[Required] RISC-V Privileged Spec %u00b7 Ch.10 Supervisor-Level Memory Management'',
       reference_description = js ''The normative source for SV39 %u2014 VA format, PTE layout, sfence semantics'',
       reference_url = js ''https://github.com/riscv/riscv-isa-manual/releases''\<rparr>,
      \<lparr>reference_title = js ''[Required] rCore-Tutorial v3 %u00b7 Chapter 4.1 Address Space'',
       reference_description = js ''Sister tutorial with the same Rust + SV39 style'',
       reference_url = js ''https://rcore-os.cn/rCore-Tutorial-Book-v3/chapter4/2sv39-implementation-1.html''\<rparr>,
      \<lparr>reference_title = js ''[Deep dive] xv6-riscv book %u00b7 Chapter 3 Page tables'',
       reference_description = js ''C implementation %u2014 great for cross-checking the Rust version'',
       reference_url = js ''https://pdos.csail.mit.edu/6.828/2023/xv6/book-riscv-rev3.pdf''\<rparr>]\<rparr>\<close>

section \<open>Lesson 2\<close>

definition phase4En_lesson2_section1 :: ContentSection where
  \<open>phase4En_lesson2_section1 = \<lparr>
    section_title = js ''The 64-bit PTE layout'',
    section_blocks = [DiagramBlock (jlines ['' 63        54 53                            10 9   8 7 6 5 4 3 2 1 0'',
          '' %u250c%r0c2500%u252c%r212500%u252c%r052500%u252c%u2500%u252c%u2500%u252c%u2500%u252c%u2500%u252c%u2500%u252c%u2500%u252c%u2500%u252c%u2500%u2510'',
          '' %u2502  reserved  %u2502              PPN                %u2502 RSW %u2502D%u2502A%u2502G%u2502U%u2502X%u2502W%u2502R%u2502V%u2502'',
          '' %u2514%r0c2500%u2534%r212500%u2534%r052500%u2534%u2500%u2534%u2500%u2534%u2500%u2534%u2500%u2534%u2500%u2534%u2500%u2534%u2500%u2534%u2500%u2518'',
          ''     10              44 bits                     2    1 1 1 1 1 1 1 1'']),
      ParagraphBlock (jcat [''Low 10 bits are flags, middle 44 bits are PPN, high 10 bits are reserved-zero. PPN '',
          ''must be shifted left by 12 to become a physical address %u2014 the single most '',
          ''common bug (see Lesson 3's Common Mistakes).''])]\<rparr>\<close>

definition phase4En_lesson2_section2 :: ContentSection where
  \<open>phase4En_lesson2_section2 = \<lparr>
    section_title = js ''The 8 flag bits at a glance'',
    section_blocks = [TableBlock [js ''bit'',
         js ''name'',
         js ''meaning'',
         js ''who writes'']
        [[js ''0'',
          js ''V'',
          js ''Valid %u2014 cleared PTEs make all other bits meaningless'',
          js ''OS''],
         [js ''1'',
          js ''R'',
          js ''Leaf is readable'',
          js ''OS''],
         [js ''2'',
          js ''W'',
          js ''Leaf is writable'',
          js ''OS''],
         [js ''3'',
          js ''X'',
          js ''Leaf is executable (fetch)'',
          js ''OS''],
         [js ''4'',
          js ''U'',
          js ''U-mode may access; S-mode needs sstatus.SUM=1'',
          js ''OS''],
         [js ''5'',
          js ''G'',
          js ''Global (shared across ASIDs; usually on for kernel pages)'',
          js ''OS''],
         [js ''6'',
          js ''A'',
          js ''Accessed %u2014 HW or SW sets on first access'',
          js ''HW/SW''],
         [js ''7'',
          js ''D'',
          js ''Dirty %u2014 set on write (only meaningful if W)'',
          js ''HW/SW''],
         [js ''8%u20139'',
          js ''RSW'',
          js ''Reserved for Software %u2014 yours to use'',
          js ''OS'']]]\<rparr>\<close>

definition phase4En_lesson2_section3 :: ContentSection where
  \<open>phase4En_lesson2_section3 = \<lparr>
    section_title = js ''Leaf PTE vs interior PTE'',
    section_blocks = [ParagraphBlock (jcat [''How does hardware decide "this PTE is a leaf"? It checks R|W|X %u2014 if any of '',
          ''those is 1 it's a leaf; otherwise it descends. Hence:'']),
      TableBlock [js ''R'',
         js ''W'',
         js ''X'',
         js ''Hardware interpretation'']
        [[js ''0'',
          js ''0'',
          js ''0'',
          js ''Interior PTE (pointer to next-level table)''],
         [js ''1'',
          js ''0'',
          js ''0'',
          js ''Leaf: read-only data (.rodata)''],
         [js ''1'',
          js ''0'',
          js ''1'',
          js ''Leaf: code (.text / trampoline)''],
         [js ''1'',
          js ''1'',
          js ''0'',
          js ''Leaf: read-write data (.data / stack)''],
         [js ''1'',
          js ''1'',
          js ''1'',
          js ''Leaf: R+W+X (only JIT; usually forbidden)''],
         [js ''0'',
          js ''1'',
          js ''*'',
          js ''RESERVED! hardware raises PageFault''],
         [js ''0'',
          js ''0'',
          js ''1'',
          js ''Leaf: execute-only (rare but legal)'']],
      CalloutBlock Warning (jcat [''W=1 with R=0 is a reserved encoding in SV39 %u2014 hardware will PageFault on it. '',
          ''Don't assume "writable implies readable"; RISC-V requires R to be set explicitly.''])]\<rparr>\<close>

definition phase4En_lesson2_section4 :: ContentSection where
  \<open>phase4En_lesson2_section4 = \<lparr>
    section_title = js ''Common permission combos cheat sheet'',
    section_blocks = [TableBlock [js ''Combo'',
         js ''Use'']
        [[js ''V'',
          js ''Interior PTE (pure pointer; R|W|X=0)''],
         [js ''V R X'',
          js ''Kernel .text / trampoline''],
         [js ''V R'',
          js ''Kernel .rodata''],
         [js ''V R W'',
          js ''Kernel .data / .bss / phys-mem window''],
         [js ''V R W U'',
          js ''User stack / heap / anon mmap''],
         [js ''V R X U'',
          js ''User .text''],
         [js ''V R U'',
          js ''User .rodata (ELF PT_LOAD with R only)'']],
      CodeBlock (Some (js ''rust'')) (jlines [''// labs/phase_4_vm/src/mm/page_table.rs'',
          ''bitflags! {'',
          ''    pub struct PTEFlags: u8 {'',
          ''        const V = 1 << 0;'',
          ''        const R = 1 << 1;'',
          ''        const W = 1 << 2;'',
          ''        const X = 1 << 3;'',
          ''        const U = 1 << 4;'',
          ''        const G = 1 << 5;'',
          ''        const A = 1 << 6;'',
          ''        const D = 1 << 7;'',
          ''    }'',
          ''}'',
          '''',
          ''impl PageTableEntry {'',
          ''    pub fn new(ppn: PhysPageNum, flags: PTEFlags) -> Self {'',
          ''        Self { bits: (ppn.0 << 10) | flags.bits as usize }'',
          ''    }'',
          ''    pub fn ppn(&self)   -> PhysPageNum { ((self.bits >> 10) & ((1 << 44) - 1)).into() }'',
          ''    pub fn flags(&self) -> PTEFlags    { PTEFlags::from_bits_truncate(self.bits as u8) }'',
          ''    pub fn is_valid(&self) -> bool     { self.flags().contains(PTEFlags::V) }'',
          ''    pub fn is_leaf(&self)  -> bool     { self.flags().intersects(PTEFlags::R | PTEFlags::W | PTEFlags::X) }'',
          ''}''])]\<rparr>\<close>

definition phase4En_lesson2_section5 :: ContentSection where
  \<open>phase4En_lesson2_section5 = \<lparr>
    section_title = js ''The U bit and SUM: why the kernel can't read user pages by default'',
    section_blocks = [ParagraphBlock (jcat [''When a page has U=1, an S-mode access faults unless sstatus.SUM (Supervisor User '',
          ''Memory) is 1. This is a defense against confused-deputy attacks where a buggy kernel '',
          ''is tricked into reading user data at the wrong time. Lesson 5's copy_from_user '',
          ''leverages exactly this bit.'']),
      CodeBlock (Some (js ''rust'')) (jlines [''// open SUM briefly, then close it'',
          ''unsafe { riscv::register::sstatus::set_sum(); }'',
          ''// %u2026read user buffer%u2026'',
          ''unsafe { riscv::register::sstatus::clear_sum(); }''])]\<rparr>\<close>

definition phase4En_lesson2_exercise1 :: CodeExercise where
  \<open>phase4En_lesson2_exercise1 = \<lparr>
    exercise_id = js ''flags-encode'',
    exercise_title = js ''Implement PageTableEntry::new'',
    exercise_description = jcat [''Shift the 44-bit PPN left by 10 and OR in flags.bits to form a 64-bit PTE. Mask '',
        ''flags so they can't spill into PPN.''],
    exercise_labFile = Some LAB_PT,
    exercise_hints = [js ''Flags only use the low 10 bits (including RSW); don't let them leak into PPN'',
       js ''Mask the PPN too so callers can't inject garbage high bits''],
    exercise_pseudocode = Some (js ''bits = (ppn & ((1<<44)-1)) << 10 | (flags.bits as usize & 0x3FF)'')\<rparr>\<close>

definition phase4En_lesson2_exercise2 :: CodeExercise where
  \<open>phase4En_lesson2_exercise2 = \<lparr>
    exercise_id = js ''is-leaf'',
    exercise_title = js ''Implement is_leaf / is_interior'',
    exercise_description = jcat [''Leaf iff any of R|W|X is set; all zero means interior. A V=0 PTE has no '',
        ''leaf/interior meaning %u2014 handle that explicitly for clarity.''],
    exercise_labFile = Some LAB_PT,
    exercise_hints = [js ''bitflags::intersects fits "any of" better than contains'',
       js ''Check is_valid first, then leaf %u2014 keeps the control flow linear''],
    exercise_pseudocode = None\<rparr>\<close>

definition phase4En_lesson2 :: Lesson where
  \<open>phase4En_lesson2 = \<lparr>
    lesson_phaseId = 4, lesson_lessonId = 2,
    lesson_title = js ''PTE Flags: V/R/W/X/U/G/A/D'',
    lesson_subtitle = js ''Permission matrix %u00b7 leaf vs interior %u00b7 reserved combos'',
    lesson_type = js ''Concept'',
    lesson_duration = js ''60 min'',
    lesson_objectives = [js ''Know the semantics of all 8 low PTE flag bits'',
       js ''Tell a leaf PTE from an interior PTE'',
       js ''List the common permission combos and their purpose'',
       js ''Recognize SV39's reserved/illegal flag combinations''],
    lesson_sections = [phase4En_lesson2_section1,
      phase4En_lesson2_section2,
      phase4En_lesson2_section3,
      phase4En_lesson2_section4,
      phase4En_lesson2_section5],
    lesson_exercises = [phase4En_lesson2_exercise1, phase4En_lesson2_exercise2],
    lesson_acceptanceCriteria = [js ''You can draw the 64-bit PTE layout from memory'',
       js ''You can explain why W=1, R=0 is illegal'',
       js ''You can explain what the SUM bit does'',
       js ''page_table::tests::test_pte_encode_decode passes''],
    lesson_references = [\<lparr>reference_title = js ''[Required] RISC-V Privileged Spec %u00b7 %u00a710.3.1 Addressing and Memory Protection'',
       reference_description = js ''Canonical source for PTE format, including the full list of reserved combos'',
       reference_url = js ''https://github.com/riscv/riscv-isa-manual/releases''\<rparr>,
      \<lparr>reference_title = js ''[Required] rCore-Tutorial v3 %u00b7 4.2 SV39 PTE'',
       reference_description = js ''Bit-by-bit walkthrough in Chinese'',
       reference_url = js ''https://rcore-os.cn/rCore-Tutorial-Book-v3/chapter4/3sv39-implementation-2.html''\<rparr>,
      \<lparr>reference_title = js ''[Deep dive] Writing an OS in Rust %u00b7 Paging Introduction'',
       reference_description = js ''Phil-Opp's paging chapter %u2014 x86_64 but the concepts transfer'',
       reference_url = js ''https://os.phil-opp.com/paging-introduction/''\<rparr>]\<rparr>\<close>

section \<open>Lesson 3\<close>

definition phase4En_lesson3_section1 :: ContentSection where
  \<open>phase4En_lesson3_section1 = \<lparr>
    section_title = js ''One global allocator, full stop'',
    section_blocks = [ParagraphBlock (jcat [''Physical memory is a global-singleton resource, so is the allocator %u2014 '',
          ''typically a lazy_static Mutex<StackFrameAllocator>. It hands out frames from (ekernel .. '',
          ''MEMORY_END), i.e. anything after the kernel's .bss.'']),
      DiagramBlock (jlines ['' ekernel                                                       MEMORY_END'',
          ''  %u2502                                                                   %u2502'',
          ''  %u25bc                                                                   %u25bc'',
          ''  %u250c%r062500%u252c%r3c2500%u2510'',
          ''  %u2502 .bss %u2502               allocatable physical frames                   %u2502'',
          ''  %u2514%r062500%u2534%r3c2500%u2518'',
          ''            %u25b2                                   %u25b2'',
          ''            %u2502                                   %u2502'',
          ''        current (next never-allocated)         end''])]\<rparr>\<close>

definition phase4En_lesson3_section2 :: ContentSection where
  \<open>phase4En_lesson3_section2 = \<lparr>
    section_title = js ''StackFrameAllocator internals'',
    section_blocks = [CodeBlock (Some (js ''rust'')) (jlines [''// labs/phase_4_vm/src/mm/frame_allocator.rs'',
          ''pub struct StackFrameAllocator {'',
          ''    current: usize,                  // next never-allocated PPN'',
          ''    end: usize,                      // upper bound (exclusive)'',
          ''    recycled: Vec<usize>,            // PPNs handed back via dealloc'',
          ''}'',
          '''',
          ''impl StackFrameAllocator {'',
          ''    pub fn alloc(&mut self) -> Option<PhysPageNum> {'',
          ''        if let Some(ppn) = self.recycled.pop() {'',
          ''            Some(ppn.into())                 // reuse most recently freed'',
          ''        } else if self.current < self.end {'',
          ''            self.current += 1;'',
          ''            Some((self.current - 1).into())'',
          ''        } else {'',
          ''            None                              // OOM'',
          ''        }'',
          ''    }'',
          '''',
          ''    pub fn dealloc(&mut self, ppn: PhysPageNum) {'',
          ''        // sanity: never-allocated frames cannot be returned'',
          ''        assert!(ppn.0 < self.current && !self.recycled.contains(&ppn.0),'',
          ''                "double free PPN {:#x}", ppn.0);'',
          ''        self.recycled.push(ppn.0);'',
          ''    }'',
          ''}'']),
      CalloutBlock Tip (jcat [''LIFO side-effect: a just-freed frame is still hot in L1/L2 and probably still in '',
          ''the TLB %u2014 immediately reusing it often saves a cache miss. A quiet benefit of the '',
          ''stack allocator.''])]\<rparr>\<close>

definition phase4En_lesson3_section3 :: ContentSection where
  \<open>phase4En_lesson3_section3 = \<lparr>
    section_title = js ''Stack vs bitmap %u2014 how to choose'',
    section_blocks = [TableBlock [js ''Axis'',
         js ''Stack (current/recycled)'',
         js ''Bitmap'']
        [[js ''Metadata cost'',
          js ''O(free frames), worst case = (phys mem / 4 KiB) %u00d7 8 B'',
          js ''Fixed O(total frames / 8)''],
         [js ''alloc complexity'',
          js ''O(1)'',
          js ''O(N) to find first 0 bit (can add a free-list)''],
         [js ''dealloc complexity'',
          js ''O(1)'',
          js ''O(1)''],
         [js ''Fragmentation'',
          js ''Ignored %u2014 no contiguity guarantee'',
          js ''Supports contiguous regions (buddy system)''],
         [js ''Fit for%u2026'',
          js ''Teaching / small OS, mostly single-frame allocs'',
          js ''Production kernel with hugepages & contiguous DMA'']],
      ParagraphBlock (jcat [''Phase 4 goes with stack: about 40 LOC, and its downside (no contiguous runs) does '',
          ''not hurt us %u2014 SV39 happily stitches disjoint physical frames into contiguous '',
          ''virtual regions.''])]\<rparr>\<close>

definition phase4En_lesson3_section4 :: ContentSection where
  \<open>phase4En_lesson3_section4 = \<lparr>
    section_title = js ''FrameTracker: Drop-driven de-allocation'',
    section_blocks = [CodeBlock (Some (js ''rust'')) (jlines [''pub struct FrameTracker {'',
          ''    pub ppn: PhysPageNum,'',
          ''}'',
          '''',
          ''impl FrameTracker {'',
          ''    pub fn new(ppn: PhysPageNum) -> Self {'',
          ''        // zero the frame so stale data can't look like valid PTEs'',
          ''        let bytes = ppn.get_bytes_array();'',
          ''        for b in bytes { *b = 0; }'',
          ''        Self { ppn }'',
          ''    }'',
          ''}'',
          '''',
          ''impl Drop for FrameTracker {'',
          ''    fn drop(&mut self) {'',
          ''        FRAME_ALLOCATOR.lock().dealloc(self.ppn);'',
          ''    }'',
          ''}'',
          '''',
          ''pub fn frame_alloc() -> Option<FrameTracker> {'',
          ''    FRAME_ALLOCATOR.lock().alloc().map(FrameTracker::new)'',
          ''}'']),
      CalloutBlock Warning (jcat [''Rust trap: `let ppn = frame_alloc().unwrap().ppn;` drops the whole FrameTracker at '',
          ''the end of the statement. The frame is reclaimed immediately, but your PTE still '',
          ''points at it. Always store the FrameTracker inside something whose lifetime matches the '',
          ''mapping (MapArea.data_frames, PageTable.frames).''])]\<rparr>\<close>

definition phase4En_lesson3_section5 :: ContentSection where
  \<open>phase4En_lesson3_section5 = \<lparr>
    section_title = js ''Fragmentation %u2014 the cost the stack allocator willfully ignores'',
    section_blocks = [ParagraphBlock (jcat [''Single-frame only, no contiguity guarantee %u2014 you can't directly allocate a 2 '',
          ''MiB hugepage or a DMA buffer. Production kernels solve this with a buddy allocator + '',
          ''slab. We accept the cost in the teaching version because every mapping is 4 KiB '',
          ''granular and the virtual layer reassembles discontiguous physical frames into contiguous '',
          ''VA ranges.''])]\<rparr>\<close>

definition phase4En_lesson3_exercise1 :: CodeExercise where
  \<open>phase4En_lesson3_exercise1 = \<lparr>
    exercise_id = js ''stack-alloc'',
    exercise_title = js ''Implement StackFrameAllocator::alloc / dealloc'',
    exercise_description = jcat [''Fill in alloc: prefer recycled.pop(), otherwise current++ until end. Fill in '',
        ''dealloc with a double-free assertion.''],
    exercise_labFile = Some LAB_FA,
    exercise_hints = [js ''Remember PhysPageNum::from(usize) for the type conversion'',
       js ''double-free check: recycled.iter().any(|&p| p == ppn.0)''],
    exercise_pseudocode = Some (jlines [''alloc():'',
          ''  if let Some(ppn) = recycled.pop(): return Some(ppn)'',
          ''  if current == end: return None'',
          ''  ppn = current; current += 1'',
          ''  return Some(ppn)'',
          '''',
          ''dealloc(ppn):'',
          ''  assert ppn < current'',
          ''  assert ppn not in recycled       // double free'',
          ''  recycled.push(ppn)''])\<rparr>\<close>

definition phase4En_lesson3_exercise2 :: CodeExercise where
  \<open>phase4En_lesson3_exercise2 = \<lparr>
    exercise_id = js ''frame-tracker'',
    exercise_title = js ''Implement FrameTracker + frame_alloc'',
    exercise_description = jcat [''Guarantees: (1) new() zeroes the 4 KiB page; (2) Drop returns the frame to the '',
        ''global allocator; (3) frame_alloc() returns Option<FrameTracker>.''],
    exercise_labFile = Some LAB_FA,
    exercise_hints = [js ''Zero with: for b in ppn.get_bytes_array() { *b = 0; }'',
       js ''Drop body: FRAME_ALLOCATOR.lock().dealloc(self.ppn)'',
       js ''Do NOT #[derive(Copy)] %u2014 ownership of a frame must be unique''],
    exercise_pseudocode = None\<rparr>\<close>

definition phase4En_lesson3 :: Lesson where
  \<open>phase4En_lesson3 = \<lparr>
    lesson_phaseId = 4, lesson_lessonId = 3,
    lesson_title = js ''FrameAllocator: stack allocation + RAII safety'',
    lesson_subtitle = js ''StackFrameAllocator %u00b7 FrameTracker %u00b7 recycled'',
    lesson_type = js ''Concept + Practice'',
    lesson_duration = js ''90 min'',
    lesson_objectives = [js ''Compare stack vs bitmap frame allocators on time/space'',
       js ''Internalize the RAII contract behind FrameTracker'',
       js ''Explain why the recycled Vec's LIFO order is TLB-friendly'',
       js ''Avoid the Rust-specific pitfall: "tracker not held %u2192 frame returned early"''],
    lesson_sections = [phase4En_lesson3_section1,
      phase4En_lesson3_section2,
      phase4En_lesson3_section3,
      phase4En_lesson3_section4,
      phase4En_lesson3_section5],
    lesson_exercises = [phase4En_lesson3_exercise1, phase4En_lesson3_exercise2],
    lesson_acceptanceCriteria = [js ''frame_allocator::tests::test_alloc_recycle passes'',
       js ''frame_allocator::tests::double_free_panics triggers a panic'',
       js ''You can explain why FrameTracker cannot implement Copy'',
       js ''You can justify the zero-on-alloc behavior''],
    lesson_references = [\<lparr>reference_title = js ''[Required] rCore-Tutorial v3 %u00b7 4.3 Managing SV39 multi-level tables'',
       reference_description = js ''Original walkthrough of StackFrameAllocator / FrameTracker'',
       reference_url = js ''https://rcore-os.cn/rCore-Tutorial-Book-v3/chapter4/4sv39-implementation-3.html''\<rparr>,
      \<lparr>reference_title = js ''[Required] labs/phase_4_vm/COURSE.en.md %u00b7 Lab 1 guide'',
       reference_description = js ''This repo's Lab 1 full writeup + common-mistake table'',
       reference_url = js ''./labs/phase_4_vm/COURSE.en.md''\<rparr>,
      \<lparr>reference_title = js ''[Deep dive] Linux Memory Management: Buddy Allocator'',
       reference_description = js ''The production-grade contiguous-frame algorithm'',
       reference_url = js ''https://www.kernel.org/doc/gorman/html/understand/understand009.html''\<rparr>]\<rparr>\<close>

section \<open>Lesson 4\<close>

definition phase4En_lesson4_section1 :: ContentSection where
  \<open>phase4En_lesson4_section1 = \<lparr>
    section_title = js ''Three layers of ownership'',
    section_blocks = [DiagramBlock (jlines ['' MemorySet  (one per process / one for the kernel)'',
          ''  %u251c%u2500%u2500 PageTable'',
          ''  %u2502     %u2514%u2500%u2500 frames: Vec<FrameTracker>   // all interior/leaf table frames'',
          ''  %u251c%u2500%u2500 areas: Vec<MapArea>               // each area is a contiguous VPN range'',
          ''  %u2502     %u2514%u2500%u2500 MapArea'',
          ''  %u2502           %u251c%u2500%u2500 vpn_range: [start, end)'',
          ''  %u2502           %u251c%u2500%u2500 map_type: Identical | Framed'',
          ''  %u2502           %u251c%u2500%u2500 map_perm: PTEFlags (R/W/X/U)'',
          ''  %u2502           %u2514%u2500%u2500 data_frames: BTreeMap<VPN, FrameTracker>'',
          ''  %u2502                 // only used when Framed; Identical owns no frames'']),
      ParagraphBlock (jcat [''The core idea: MemorySet = "PageTable + a labelled set of regions". PageTable only '',
          ''knows PTEs; MapArea remembers "this VA range was originally .text / stack / MMIO", '',
          ''which makes unmap and fork natural.''])]\<rparr>\<close>

definition phase4En_lesson4_section2 :: ContentSection where
  \<open>phase4En_lesson4_section2 = \<lparr>
    section_title = js ''Identity vs Framed side-by-side'',
    section_blocks = [TableBlock [js ''Aspect'',
         js ''Identical'',
         js ''Framed'']
        [[js ''VA %u2192 PA'',
          js ''PA = VA'',
          js ''PA = fresh frame from FrameAllocator''],
         [js ''Who uses it'',
          js ''Kernel itself (.text/.rodata/.data/phys-mem window)'',
          js ''User ELF segments, user stack, TrapContext''],
         [js ''data_frames'',
          js ''Empty (owns no frames)'',
          js ''One FrameTracker per VPN''],
         [js ''Copy ELF data?'',
          js ''No (already in place)'',
          js ''Yes, memcpy into each new frame''],
         [js ''Trait'',
          js ''Simplest PA relationship %u2014 easy kernel phys access'',
          js ''Isolation %u2014 processes can't collide'']],
      CodeBlock (Some (js ''rust'')) (jlines [''// labs/phase_4_vm/src/mm/memory_set.rs'',
          ''pub enum MapType { Identical, Framed }'',
          '''',
          ''pub struct MapArea {'',
          ''    pub vpn_range: VPNRange,'',
          ''    pub data_frames: BTreeMap<VirtPageNum, FrameTracker>,'',
          ''    pub map_type: MapType,'',
          ''    pub map_perm: PTEFlags,'',
          ''}'',
          '''',
          ''impl MapArea {'',
          ''    pub fn map_one(&mut self, pt: &mut PageTable, vpn: VirtPageNum) {'',
          ''        let ppn = match self.map_type {'',
          ''            MapType::Identical => PhysPageNum(vpn.0),'',
          ''            MapType::Framed => {'',
          ''                let f = frame_alloc().unwrap();'',
          ''                let ppn = f.ppn;'',
          ''                self.data_frames.insert(vpn, f);   // must hold, else dropped'',
          ''                ppn'',
          ''            }'',
          ''        };'',
          ''        pt.map(vpn, ppn, PTEFlags::V | self.map_perm);'',
          ''    }'',
          ''}''])]\<rparr>\<close>

definition phase4En_lesson4_section3 :: ContentSection where
  \<open>phase4En_lesson4_section3 = \<lparr>
    section_title = js ''User address space layout'',
    section_blocks = [DiagramBlock (jlines ['' User address space (one per process)                     shared?'',
          '' %u250c%r262500%u2510 2^39-1'',
          '' %u2502  Trampoline (R X)                    %u2502   %r032550%u25ba same PA as kernel!'',
          '' %u251c%r262500%u2524 TRAMPOLINE - 1'',
          '' %u2502  TrapContext (R W, no U)             %u2502   fixed slot; kernel restores regs here'',
          '' %u251c%r262500%u2524'',
          '' %u2502  ...... hole (unmapped) ......       %u2502'',
          '' %u251c%r262500%u2524 user_sp'',
          '' %u2502  user stack (R W U)                  %u2502'',
          '' %u251c%r262500%u2524'',
          '' %u2502  [guard page, unmapped]              %u2502   stack overflow %u2192 StorePageFault'',
          '' %u251c%r262500%u2524 max_end_vpn'',
          '' %u2502  .bss   (R W U)                      %u2502'',
          '' %u2502  .data  (R W U)                      %u2502'',
          '' %u2502  .rodata (R U)                       %u2502'',
          '' %u2502  .text  (R X U)                      %u2502'',
          '' %u2514%r262500%u2518 0'']),
      ParagraphBlock (jcat [''Three key constants: TRAMPOLINE = 0xFFFF_FFFF_FFFF_F000 (top of VA), TRAP_CONTEXT = '',
          ''TRAMPOLINE %u2212 PAGE_SIZE, and USER_STACK sits right below TrapContext with one '',
          ''guard page.''])]\<rparr>\<close>

definition phase4En_lesson4_section4 :: ContentSection where
  \<open>phase4En_lesson4_section4 = \<lparr>
    section_title = js ''Trampoline: why same-VA-same-PA across spaces'',
    section_blocks = [ParagraphBlock (jcat [''Consider the last three instructions of trap_return: csrw satp, t0 / sfence.vma / '',
          ''sret. The moment satp switches, the *next* instruction must have a translation under '',
          ''the new page table too %u2014 otherwise PC+4 drops into a hole.'']),
      DiagramBlock (jlines ['' Kernel address space                      User address space'',
          '' %u250c%r142500%u2510 2^39-1            %u250c%r142500%u2510 2^39-1'',
          '' %u2502 Trampoline (R X)   %u2502%r132550%u2502 Trampoline (R X)   %u2502'',
          '' %u2502 PPN = X            %u2502     same X        %u2502 PPN = X            %u2502'',
          '' %u251c%r142500%u2524                   %u251c%r142500%u2524'',
          '' %u2502 kernel identity%u2026   %u2502                   %u2502 TrapContext        %u2502'',
          '' %u2502                    %u2502                   %u2502 user stack         %u2502'',
          '' %u2502                    %u2502                   %u2502 user elf segments  %u2502'',
          '' %u2514%r142500%u2518 0                 %u2514%r142500%u2518 0'',
          '''',
          ''  csrw satp, t0         %u2190 this PC lives inside Trampoline'',
          ''  sfence.vma            %u2190 after the switch, same VA still maps to same PA'']),
      CalloutBlock Warning (jcat [''If the kernel forgets to map trampoline at 2^39 %u2212 4KiB, the very next '',
          ''instruction after csrw hits InstructionPageFault. This is the Phase 4 bug students dread '',
          ''%u2014 QEMU sometimes forgives it, real silicon never does.'']),
      CodeBlock (Some (js ''rust'')) (jlines [''// every MemorySet (kernel + user) calls this'',
          ''fn map_trampoline(&mut self) {'',
          ''    self.page_table.map('',
          ''        VirtAddr::from(TRAMPOLINE).into(),'',
          ''        PhysAddr::from(strampoline as usize).into(),  // symbol from linker script'',
          ''        PTEFlags::R | PTEFlags::X,                     // note: no U'',
          ''    );'',
          ''}''])]\<rparr>\<close>

definition phase4En_lesson4_section5 :: ContentSection where
  \<open>phase4En_lesson4_section5 = \<lparr>
    section_title = js ''TrapContext page: why a fixed slot'',
    section_blocks = [ParagraphBlock (jcat [''The kernel has to save/restore a process's registers, but right after csrw satp the '',
          ''kernel's own data is no longer visible. If TrapContext lives at a fixed slot in the '',
          ''process's own VA (TRAMPOLINE %u2212 PAGE_SIZE), trampoline.S can address it with '',
          ''one compile-time constant %u2014 no argument passing needed.'']),
      ListBlock True
        [js ''In __alltraps: use sscratch as a scratch pointer; save all regs to TRAP_CONTEXT_VA'',
         js ''Switch to the kernel stack and call trap_handler'',
         js ''In trap_return: restore regs from TRAP_CONTEXT_VA, then csrw satp %u2192 sret'',
         js ''Through the whole dance the kernel needs exactly one constant: TRAMPOLINE %u2212 4KiB'']]\<rparr>\<close>

definition phase4En_lesson4_exercise1 :: CodeExercise where
  \<open>phase4En_lesson4_exercise1 = \<lparr>
    exercise_id = js ''map-one'',
    exercise_title = js ''Implement MapArea::map_one'',
    exercise_description = jcat [''Branch on map_type: Identical just wraps vpn as PPN; Framed calls frame_alloc(), '',
        ''inserts into data_frames, then page_table.map(vpn, ppn, V|perm).''],
    exercise_labFile = Some LAB_MS,
    exercise_hints = [js ''For Identical, PhysPageNum(vpn.0) is legitimate %u2014 the two numbers are equal'',
       js ''Forgetting the .insert() drops the FrameTracker immediately %u2192 dangling PTE''],
    exercise_pseudocode = Some (jlines [''fn map_one(pt, vpn):'',
          ''  ppn = match self.map_type:'',
          ''    Identical => PPN(vpn.0)'',
          ''    Framed    =>'',
          ''      f = frame_alloc().unwrap()'',
          ''      ppn = f.ppn'',
          ''      self.data_frames.insert(vpn, f)   // hold it, else dropped'',
          ''      ppn'',
          ''  pt.map(vpn, ppn, V | self.map_perm)''])\<rparr>\<close>

definition phase4En_lesson4_exercise2 :: CodeExercise where
  \<open>phase4En_lesson4_exercise2 = \<lparr>
    exercise_id = js ''from-elf'',
    exercise_title = js ''Implement MemorySet::from_elf'',
    exercise_description = jcat [''Walk PT_LOAD program headers, push a Framed MapArea for each; above max_end leave a '',
        ''guard page, then the user stack; then the TrapContext page + trampoline. Return '',
        ''(memory_set, user_sp, entry).''],
    exercise_labFile = Some LAB_MS,
    exercise_hints = [js ''ELF flags come from ph.flags(): bit0=X, bit1=W, bit2=R (mind the order)'',
       js ''push() internally calls map_one per VPN, then memcpy's data into each frame (if supplied)'',
       js ''Don't forget the U bit %u2014 otherwise a user process can't even read its own code''],
    exercise_pseudocode = Some (jlines [''fn from_elf(elf_bytes):'',
          ''  ms = MemorySet::new_bare()'',
          ''  ms.map_trampoline()'',
          ''  elf = ElfFile::new(elf_bytes)'',
          ''  max_end = 0'',
          ''  for ph in elf.program_iter() where ph.get_type() == Load:'',
          ''    start_va = ph.virtual_addr()'',
          ''    end_va   = start_va + ph.mem_size()'',
          ''    perm     = PTEFlags::U |'',
          ''               (R if ph.flags().R else 0) |'',
          ''               (W if ph.flags().W else 0) |'',
          ''               (X if ph.flags().X else 0)'',
          ''    area = MapArea::new(start_va, end_va, Framed, perm)'',
          ''    ms.push(area, Some(&elf_bytes[ph.offset()..ph.offset()+ph.file_size()]))'',
          ''    max_end = max(max_end, end_va)'',
          '''',
          ''  user_stack_bottom = max_end + PAGE_SIZE           // guard'',
          ''  user_stack_top    = user_stack_bottom + USER_STACK_SIZE'',
          ''  ms.push(MapArea::new(user_stack_bottom, user_stack_top, Framed, R|W|U), None)'',
          '''',
          ''  // TrapContext slot'',
          ''  ms.push(MapArea::new(TRAP_CONTEXT, TRAMPOLINE, Framed, R|W), None)'',
          '''',
          ''  return (ms, user_stack_top, elf.header.pt2.entry_point())''])\<rparr>\<close>

definition phase4En_lesson4 :: Lesson where
  \<open>phase4En_lesson4 = \<lparr>
    lesson_phaseId = 4, lesson_lessonId = 4,
    lesson_title = js ''MemorySet + MapArea + Trampoline'',
    lesson_subtitle = js ''Address-space struct %u00b7 identity vs framed %u00b7 cross-space page'',
    lesson_type = js ''Concept + Practice'',
    lesson_duration = js ''120 min'',
    lesson_objectives = [js ''Draw the ownership graph of MemorySet / MapArea / PageTable'',
       js ''Pick between identity and framed mapping for each region'',
       js ''Explain why the trampoline must share the same VA in kernel and user spaces'',
       js ''Internalize the "fixed-slot TrapContext" design''],
    lesson_sections = [phase4En_lesson4_section1,
      phase4En_lesson4_section2,
      phase4En_lesson4_section3,
      phase4En_lesson4_section4,
      phase4En_lesson4_section5],
    lesson_exercises = [phase4En_lesson4_exercise1, phase4En_lesson4_exercise2],
    lesson_acceptanceCriteria = [js ''memory_set::tests::test_from_elf_hello returns a valid (entry, sp)'',
       js ''memory_set::tests::test_trampoline_shared shows identical PPN in kernel and user'',
       js ''You can draw the user address space and label TRAMPOLINE / TRAP_CONTEXT'',
       js ''You can explain why trampoline has no U bit''],
    lesson_references = [\<lparr>reference_title = js ''[Required] rCore-Tutorial v3 %u00b7 4.4 Kernel and application address spaces'',
       reference_description = js ''The original MemorySet / MapArea / trampoline design writeup'',
       reference_url = js ''https://rcore-os.cn/rCore-Tutorial-Book-v3/chapter4/5kernel-app-spaces.html''\<rparr>,
      \<lparr>reference_title = js ''[Required] labs/phase_4_vm/COURSE.en.md %u00b7 %u00a74.5 trampoline trick'',
       reference_description = js ''This repo's full trampoline explanation (with ASCII diagrams)'',
       reference_url = js ''./labs/phase_4_vm/COURSE.en.md''\<rparr>,
      \<lparr>reference_title = js ''[Deep dive] xv6-riscv book %u00b7 Ch.4 Traps and system calls'',
       reference_description = js ''C-version trampoline + trapframe walkthrough'',
       reference_url = js ''https://pdos.csail.mit.edu/6.828/2023/xv6/book-riscv-rev3.pdf''\<rparr>]\<rparr>\<close>

section \<open>Lesson 5\<close>

definition phase4En_lesson5_section1 :: ContentSection where
  \<open>phase4En_lesson5_section1 = \<lparr>
    section_title = js ''Why `unsafe *user_ptr` is wrong'',
    section_blocks = [ParagraphBlock (jcat [''When a syscall runs, satp is usually pointing at the kernel page table (or still '',
          ''pointing at the user page table, depending on design). Either way, naked *ptr has two '',
          ''fatal issues:'']),
      ListBlock True
        [jcat [''Wrong address space: the kernel page table may not even have this user VA mapped '',
           ''%u2014 deref = LoadPageFault''],
         jcat [''Permission mismatch: even if mapped, U=1 pages fault in S-mode unless SUM=1 (a '',
           ''controlled, short-lived exception)''],
         jcat [''Non-contiguous physics: a 4 KB-crossing user buffer may sit on two non-adjacent '',
           ''frames %u2014 a single memcpy overruns the first frame'']],
      CalloutBlock Warning (jcat [''Conclusion: the kernel must explicitly walk the user page table to turn the VA into '',
          ''PAs, then read/write via physical addresses (or the kernel's identity mapping). '',
          ''That is exactly what translate_byte_buffer does.''])]\<rparr>\<close>

definition phase4En_lesson5_section2 :: ContentSection where
  \<open>phase4En_lesson5_section2 = \<lparr>
    section_title = js ''translate_byte_buffer: one VA range %u2192 several PA slices'',
    section_blocks = [DiagramBlock (jlines ['' User view: contiguous VA [ptr, ptr+len)'',
          ''   |%r2c2500|'',
          ''   ptr                                        ptr+len'',
          '''',
          '' Physical view: several frames, possibly not adjacent'',
          ''   %u250c%r052500%u2510   %u250c%r052500%u2510         %u250c%r052500%u2510'',
          ''   %u2502 PA0 %u2502   %u2502 PA1 %u2502  %u2026%u2026     %u2502 PAn %u2502'',
          ''   %u2514%r052500%u2518   %u2514%r052500%u2518         %u2514%r052500%u2518'',
          ''   [...]     [full]          [...]'',
          ''   first slice:  middle slices:   last slice:'',
          ''   from ptr&0xFFF full 4KiB       through (ptr+len)&0xFFF'',
          ''   to 4096'']),
      CodeBlock (Some (js ''rust'')) (jlines [''// labs/phase_4_vm/src/mm/page_table.rs'',
          ''pub fn translated_byte_buffer('',
          ''    token: usize,                    // user satp (MODE|ASID|PPN)'',
          ''    ptr: *const u8,'',
          ''    len: usize,'',
          '') -> Vec<&'static mut [u8]> {'',
          ''    let page_table = PageTable::from_token(token);'',
          ''    let mut start = ptr as usize;'',
          ''    let end = start + len;'',
          ''    let mut v = Vec::new();'',
          ''    while start < end {'',
          ''        let start_va = VirtAddr::from(start);'',
          ''        let mut vpn: VirtPageNum = start_va.floor();'',
          ''        let ppn = page_table.translate(vpn).unwrap().ppn();'',
          ''        vpn.step();                   // next page start'',
          ''        let mut end_va: VirtAddr = vpn.into();'',
          ''        end_va = end_va.min(VirtAddr::from(end));'',
          ''        if end_va.page_offset() == 0 {'',
          ''            v.push(&mut ppn.get_bytes_array()[start_va.page_offset()..]);'',
          ''        } else {'',
          ''            v.push(&mut ppn.get_bytes_array()'',
          ''                [start_va.page_offset()..end_va.page_offset()]);'',
          ''        }'',
          ''        start = end_va.into();'',
          ''    }'',
          ''    v'',
          ''}'']),
      ParagraphBlock (jcat [''Key idea: each iteration handles one page's worth of the buffer. Cross-page user '',
          ''buffers come back as Vec<&mut [u8]> %u2014 callers (e.g. sys_write) then iterate those '',
          ''slices, writing each to stdout in turn.''])]\<rparr>\<close>

definition phase4En_lesson5_section3 :: ContentSection where
  \<open>phase4En_lesson5_section3 = \<lparr>
    section_title = js ''SUM: the kernel's permit to touch user pages'',
    section_blocks = [ParagraphBlock (jcat [''Even when accessing via identity-mapped phys memory, certain designs (or '',
          ''architectures where the kernel stays on the user page table during syscalls) will land on a '',
          ''PTE with U=1. Then sstatus.SUM must be opened:'']),
      CodeBlock (Some (js ''rust'')) (jlines [''use riscv::register::sstatus;'',
          '''',
          ''pub fn with_sum<R>(f: impl FnOnce() -> R) -> R {'',
          ''    unsafe { sstatus::set_sum(); }'',
          ''    let r = f();'',
          ''    unsafe { sstatus::clear_sum(); }'',
          ''    r'',
          ''}'']),
      TableBlock [js ''Scenario'',
         js ''Need SUM=1?'']
        [[js ''Access via identity-mapped phys mem returned by translate_byte_buffer'',
          js ''No (identity pages have no U bit)''],
         [js ''Kernel stays on user page table and deref's user VA directly'',
          js ''Yes (otherwise S-mode access to U page faults)''],
         [js ''Before sret to user / after returning from user trap_handler'',
          js ''Must clear to 0 %u2014 prevents confused-deputy'']],
      CalloutBlock Tip (jcat [''"Confused deputy": if SUM is left on, kernel code can be tricked into reading '',
          ''arbitrary user pages. Linux handles the same problem with STAC/CLAC and SMAP; RISC-V uses '',
          ''SUM plus software discipline.''])]\<rparr>\<close>

definition phase4En_lesson5_section4 :: ContentSection where
  \<open>phase4En_lesson5_section4 = \<lparr>
    section_title = js ''Common mistakes across Phase 4'',
    section_blocks = [TableBlock [js ''#'',
         js ''Symptom'',
         js ''Root cause'',
         js ''Fix'']
        [[js ''1'',
          js ''InstructionPageFault right after csrw satp'',
          js ''Missing sfence.vma %u2014 stale TLB'',
          js ''sfence.vma zero, zero after every satp write''],
         [js ''2'',
          js ''PageFault with seemingly valid flags'',
          js ''W=1, R=0 is a reserved combo'',
          js ''Use bitflags; always set R with W''],
         [js ''3'',
          js ''Random LoadPageFault / reads of other process's data'',
          js ''FrameTracker not held, frame returned early'',
          js ''Store it inside MapArea.data_frames''],
         [js ''4'',
          js ''Walk jumps to 0xdeadbeef'',
          js ''Mixed up PPN vs VPN %u2014 forgot <<12'',
          js ''next_pt_base = pte.ppn() << 12 (use PhysAddr::from(PPN))''],
         [js ''5'',
          js ''Trap-return sret faults'',
          js ''Trampoline missing on kernel side, or VA mismatch'',
          js ''Every MemorySet calls map_trampoline(), VA = 2^39 %u2212 4KiB''],
         [js ''6'',
          js ''User stack silently steps on .bss'',
          js ''Missing guard page'',
          js ''stack_bottom = max_end + PAGE_SIZE''],
         [js ''7'',
          js ''Syscall args garbled on second task'',
          js ''Switched TCB but not satp'',
          js ''trap_return first csrw satp, user_satp''],
         [js ''8'',
          js ''sys_write output truncated'',
          js ''Cross-page buffer %u2014 only the first slice handled'',
          js ''Loop translate_byte_buffer until start >= end''],
         [js ''9'',
          js ''PPN passed where PA was expected'',
          js ''PPN and PA differ by 12 bits'',
          js ''PA = ppn.0 << 12; use PhysAddr::from(ppn), never as usize'']]]\<rparr>\<close>

definition phase4En_lesson5_exercise1 :: CodeExercise where
  \<open>phase4En_lesson5_exercise1 = \<lparr>
    exercise_id = js ''translate-buffer'',
    exercise_title = js ''Implement translated_byte_buffer'',
    exercise_description = jcat [''Turn (token, ptr, len) into a Vec<&mut [u8]> %u2014 each slice sits inside exactly '',
        ''one physical page.''],
    exercise_labFile = Some LAB_PT,
    exercise_hints = [js ''When off_hi == 4096, bytes[off_lo..] and bytes[off_lo..4096] are equivalent'',
       jcat [''If translate() fails (user passed a bad pointer), propagate an error %u2014 don't '',
         ''unwrap; killing the task is the right call'']],
    exercise_pseudocode = Some (jlines [''v = []'',
          ''cur = ptr'',
          ''while cur < ptr + len:'',
          ''  vpn   = floor(cur)'',
          ''  ppn   = pt.translate(vpn).ppn'',
          ''  next  = (vpn + 1).start_va'',
          ''  slice_end = min(next, ptr + len)'',
          ''  off_lo = cur - vpn.start_va'',
          ''  off_hi = slice_end - vpn.start_va   // may equal 4096'',
          ''  v.push(&mut ppn.bytes[off_lo..off_hi])'',
          ''  cur = slice_end'',
          ''return v''])\<rparr>\<close>

definition phase4En_lesson5_exercise2 :: CodeExercise where
  \<open>phase4En_lesson5_exercise2 = \<lparr>
    exercise_id = js ''copy-to-user'',
    exercise_title = js ''Implement copy_to_user'',
    exercise_description = jcat [''Mirror of translate_byte_buffer %u2014 copy a kernel &[u8] into a user VA. Handle '',
        ''cross-page destinations.''],
    exercise_labFile = Some LAB_PT,
    exercise_hints = [js ''Keep a running offset into src across iterations'',
       js ''Early-return on zero length keeps the loop's invariant clean''],
    exercise_pseudocode = Some (jlines [''fn copy_to_user(token, dst_user: *mut u8, src: &[u8]):'',
          ''  offset = 0'',
          ''  for slice in translated_byte_buffer(token, dst_user, src.len()):'',
          ''    let n = slice.len()'',
          ''    slice.copy_from_slice(&src[offset..offset+n])'',
          ''    offset += n''])\<rparr>\<close>

definition phase4En_lesson5 :: Lesson where
  \<open>phase4En_lesson5 = \<lparr>
    lesson_phaseId = 4, lesson_lessonId = 5,
    lesson_title = js ''copy_from_user / copy_to_user: crossing address spaces'',
    lesson_subtitle = js ''translate_byte_buffer %u00b7 SUM bit %u00b7 cross-page copies'',
    lesson_type = js ''Concept + Practice'',
    lesson_duration = js ''80 min'',
    lesson_objectives = [js ''Name the two root causes for "kernel can't just deref user pointers"'',
       js ''Write the loop structure of translate_byte_buffer from scratch'',
       js ''Know when SUM must be on, when it must be off'',
       js ''Avoid the "half-page truncation" bug on cross-page user buffers''],
    lesson_sections = [phase4En_lesson5_section1,
      phase4En_lesson5_section2,
      phase4En_lesson5_section3,
      phase4En_lesson5_section4],
    lesson_exercises = [phase4En_lesson5_exercise1, phase4En_lesson5_exercise2],
    lesson_acceptanceCriteria = [js ''page_table::tests::test_translate_cross_page passes (buffer spans two pages)'',
       js ''sys_write(stdout, "hello", 5) in user code prints correctly'',
       js ''You can answer whether SUM is "generally needed" in this repo's design'',
       js ''You can recite at least 3 bugs and their root causes from the Common Mistakes table''],
    lesson_references = [\<lparr>reference_title = js ''[Required] labs/phase_4_vm/COURSE.en.md %u00b7 Common Mistakes'',
       reference_description = js ''This repo's 9-item symptom/root-cause/fix table'',
       reference_url = js ''./labs/phase_4_vm/COURSE.en.md''\<rparr>,
      \<lparr>reference_title = js ''[Required] rCore-Tutorial v3 %u00b7 4.5 Time-sharing on address spaces'',
       reference_description = js ''End-to-end user %u2194 kernel address-space switching'',
       reference_url = js ''https://rcore-os.cn/rCore-Tutorial-Book-v3/chapter4/6multitasking-based-on-as.html''\<rparr>,
      \<lparr>reference_title = js ''[Deep dive] Linux SMAP/SMEP vs RISC-V SUM/MXR'',
       reference_description = js ''Cross-architecture comparison of kernel/user isolation'',
       reference_url = js ''https://lwn.net/Articles/517251/''\<rparr>]\<rparr>\<close>

section \<open>The phase\<close>

definition phase4En :: PhaseContent where
  \<open>phase4En = \<lparr>
    content_phaseId = 4,
    content_color = js ''#2563EB'',
    content_accent = js ''#60A5FA'',
    content_lessons = [phase4En_lesson1, phase4En_lesson2, phase4En_lesson3, phase4En_lesson4, phase4En_lesson5]\<rparr>\<close>

section \<open>Well-formedness\<close>

lemma phase4En_lesson1_ok: "lesson_ok phase4En_lesson1"
  by (simp add: lesson_ok_def section_ok_def phase4En_lesson1_def
      phase4En_lesson1_section1_def
      phase4En_lesson1_section2_def
      phase4En_lesson1_section3_def
      phase4En_lesson1_section4_def
      phase4En_lesson1_section5_def
      phase4En_lesson1_exercise1_def
      phase4En_lesson1_exercise2_def)

lemma phase4En_lesson2_ok: "lesson_ok phase4En_lesson2"
  by (simp add: lesson_ok_def section_ok_def phase4En_lesson2_def
      phase4En_lesson2_section1_def
      phase4En_lesson2_section2_def
      phase4En_lesson2_section3_def
      phase4En_lesson2_section4_def
      phase4En_lesson2_section5_def
      phase4En_lesson2_exercise1_def
      phase4En_lesson2_exercise2_def)

lemma phase4En_lesson3_ok: "lesson_ok phase4En_lesson3"
  by (simp add: lesson_ok_def section_ok_def phase4En_lesson3_def
      phase4En_lesson3_section1_def
      phase4En_lesson3_section2_def
      phase4En_lesson3_section3_def
      phase4En_lesson3_section4_def
      phase4En_lesson3_section5_def
      phase4En_lesson3_exercise1_def
      phase4En_lesson3_exercise2_def)

lemma phase4En_lesson4_ok: "lesson_ok phase4En_lesson4"
  by (simp add: lesson_ok_def section_ok_def phase4En_lesson4_def
      phase4En_lesson4_section1_def
      phase4En_lesson4_section2_def
      phase4En_lesson4_section3_def
      phase4En_lesson4_section4_def
      phase4En_lesson4_section5_def
      phase4En_lesson4_exercise1_def
      phase4En_lesson4_exercise2_def)

lemma phase4En_lesson5_ok: "lesson_ok phase4En_lesson5"
  by (simp add: lesson_ok_def section_ok_def phase4En_lesson5_def
      phase4En_lesson5_section1_def
      phase4En_lesson5_section2_def
      phase4En_lesson5_section3_def
      phase4En_lesson5_section4_def
      phase4En_lesson5_exercise1_def
      phase4En_lesson5_exercise2_def)

lemma phase4En_lesson1_ids: "lesson_phaseId phase4En_lesson1 = 4" "lesson_lessonId phase4En_lesson1 = 1"
  by (simp_all add: phase4En_lesson1_def)

lemma phase4En_lesson2_ids: "lesson_phaseId phase4En_lesson2 = 4" "lesson_lessonId phase4En_lesson2 = 2"
  by (simp_all add: phase4En_lesson2_def)

lemma phase4En_lesson3_ids: "lesson_phaseId phase4En_lesson3 = 4" "lesson_lessonId phase4En_lesson3 = 3"
  by (simp_all add: phase4En_lesson3_def)

lemma phase4En_lesson4_ids: "lesson_phaseId phase4En_lesson4 = 4" "lesson_lessonId phase4En_lesson4 = 4"
  by (simp_all add: phase4En_lesson4_def)

lemma phase4En_lesson5_ids: "lesson_phaseId phase4En_lesson5 = 4" "lesson_lessonId phase4En_lesson5 = 5"
  by (simp_all add: phase4En_lesson5_def)

lemma phase4En_shape [site_shape]:
  "content_phaseId phase4En = 4" "length (content_lessons phase4En) = 5"
  by (simp_all add: phase4En_def)

lemma phase4En_ok [site_shape]: "content_ok phase4En"
  by (simp add: content_ok_def phase4En_def upt_rec
      phase4En_lesson1_ok phase4En_lesson2_ok phase4En_lesson3_ok phase4En_lesson4_ok phase4En_lesson5_ok
      phase4En_lesson1_ids phase4En_lesson2_ids phase4En_lesson3_ids phase4En_lesson4_ids phase4En_lesson5_ids)

end
