(* ===== verification/Phase5_ZhCN.thy ===== *)
theory Phase5_ZhCN
  imports Content_Types
begin

text \<open>
  Phase 5, block device and file system, in Simplified Chinese: the constant \<open>phase5ZhCN\<close> of
  \<open>website/src/data/phase5.ts\<close>, one definition per section, exercise and lesson. Below it, that the
  content is well formed.
\<close>

section \<open>Lesson 1\<close>

definition phase5ZhCN_lesson1_section1 :: ContentSection where
  \<open>phase5ZhCN_lesson1_section1 = \<lparr>
    section_title = js ''Phase 5 %u7684%u76ee%u6807%uff1a%u628a RAM %u91cc%u7684%u4e00%u5207%u6301%u4e45%u5316'',
    section_blocks = [ParagraphBlock (jcat [''Phase 0-4 %u6240%u6709%u7684%u6570%u636e%u2014%u2014%u9875%u8868%u3001%u4efb%u52a1'',
          ''%u3001%u5806%u2014%u2014%u5728 QEMU %u5173%u673a%u7684%u77ac%u95f4%u5168%u90e8%u84b8'',
          ''%u53d1%u3002Phase 5 %u505a%u7684%u4e8b%u542c%u8d77%u6765%u6734%u7d20%u4f46%u610f'',
          ''%u4e49%u91cd%u5927%uff1a%u5f15%u5165%u4e00%u5757%u771f%u6b63%u7684%u78c1%u76d8%uff0c'',
          ''%u8ba9 echo hi > f %u7684%u7ed3%u679c%u5728 reboot %u4e4b%u540e%u8fd8%u80fd%u88ab '',
          ''cat f %u8bfb%u51fa%u6765%u3002'']),
      DiagramBlock (jlines [''%u250c%r0c2500 Phase 5 %u7684%u8f6f%u4ef6%u6808 %r0c2500%u2510'',
          ''%u2502  sys_open / sys_read / sys_write          %u2502  %u2190 Lesson 5'',
          ''%u251c%r2b2500%u2524'',
          ''%u2502  File trait  +  OSInode  +  FD %u8868          %u2502  %u2190 Lesson 5'',
          ''%u251c%r2b2500%u2524'',
          ''%u2502  easy_fs::Inode  (%u76ee%u5f55%u9879 / %u540d%u5b57%u89e3%u6790)       %u2502  %u2190 Lesson 4'',
          ''%u251c%r2b2500%u2524'',
          ''%u2502  DiskInode  (%u76f4%u63a5 + %u4e00%u7ea7 + %u4e8c%u7ea7%u95f4%u63a5)        %u2502  %u2190 Lesson 4'',
          ''%u251c%r2b2500%u2524'',
          ''%u2502  Bitmap %u5206%u914d  +  5 %u533a%u78c1%u76d8%u5e03%u5c40               %u2502  %u2190 Lesson 2'',
          ''%u251c%r2b2500%u2524'',
          ''%u2502  BlockCache  (16 %u8def LRU, %u5199%u56de)              %u2502  %u2190 Lesson 3'',
          ''%u251c%r2b2500%u2524'',
          ''%u2502  BlockDevice trait  (read_block/write_block)%u2502  %u2190 Lesson 1'',
          ''%u251c%r2b2500%u2524'',
          ''%u2502  VirtIOBlock  (MMIO + virtqueue)            %u2502  %u2190 Lesson 1'',
          ''%u2514%r2b2500%u2518'']),
      CalloutBlock Info (jcat [''%u672c Phase %u7684%u6bcf%u4e00%u5c42%u90fd%u53ea%u4f9d%u8d56%u4e0b%u4e00%u5c42'',
          ''%u66b4%u9732%u7684%u4e24%u4e2a%u65b9%u6cd5%uff1aread_block / '',
          ''write_block%u3002%u6574%u4e2a%u6808%u52a0%u8d77%u6765 ~500 %u884c '',
          ''Rust%u2014%u2014%u6613%u7ecf%uff08easy-fs%uff09%u7684%u300c%u6613%u300d%u6b63%u662f%u6307%u6b64%u3002''])]\<rparr>\<close>

definition phase5ZhCN_lesson1_section2 :: ContentSection where
  \<open>phase5ZhCN_lesson1_section2 = \<lparr>
    section_title = jcat [''VirtIO %u662f%u4ec0%u4e48%uff1a%u4e00%u4e2a%u534a%u865a%u62df%u5316%u7684%u6807'',
        ''%u51c6%u8bbe%u5907%u63a5%u53e3''],
    section_blocks = [ParagraphBlock (jcat [''%u771f%u5b9e%u78c1%u76d8%u9a71%u52a8%uff08AHCI%u3001NVMe%uff09%u52a8%u8f84%u51e0'',
          ''%u5343%u884c%uff1bVirtIO %u662f Hypervisor %u548c Guest OS '',
          ''%u4e4b%u95f4%u7ea6%u5b9a%u7684%u300c%u7b80%u5316%u8bbe%u5907%u63a5%u53e3%u300d%u2014%u2014%u4e0d%u6a21%u62df'',
          ''%u771f%u5b9e%u786c%u4ef6%uff0c%u800c%u662f%u66b4%u9732%u4e00%u7ec4 MMIO '',
          ''%u5bc4%u5b58%u5668 + %u5171%u4eab%u5185%u5b58%u4e2d%u7684%u73af%u5f62%u961f%u5217%u3002QEMU '',
          ''%u7528 -device virtio-blk-device %u5c31%u628a%u5b83%u6302%u5230 0x1000_1000 '',
          ''%u7269%u7406%u5730%u5740%u3002'']),
      TableBlock [js ''offset'',
         js ''%u5bc4%u5b58%u5668'',
         js ''%u4f5c%u7528'']
        [[js ''0x000'',
          js ''MagicValue'',
          jcat [''%u56fa%u5b9a 0x74726976%uff08ASCII "virt"%uff09%uff0c%u9a71%u52a8%u542f%u52a8%u5148'',
            ''%u8bfb%u5b83%u9a8c%u8eab'']],
         [js ''0x004'',
          js ''Version'',
          js ''1 = legacy MMIO%uff0c2 = %u65b0%u7248%uff08%u672c%u8bfe%u7528 legacy%uff09''],
         [js ''0x008'',
          js ''DeviceID'',
          js ''2 = block device%uff0c%u5176%u5b83%u503c%u4ee3%u8868 net/console/gpu %u7b49''],
         [js ''0x030'',
          js ''QueueSel'',
          jcat [''%u9009%u4e2d%u8981%u914d%u7f6e%u7684%u961f%u5217%u53f7%uff08blk %u53ea%u6709 1 '',
            ''%u4e2a%uff09'']],
         [js ''0x038'',
          js ''QueueNum'',
          js ''%u544a%u8bc9%u8bbe%u5907%u672c%u961f%u5217%u6df1%u5ea6%uff08%u6211%u4eec%u7528 16%uff09''],
         [js ''0x040'',
          js ''QueuePFN'',
          jcat [''descriptor %u73af%u7684%u7269%u7406%u9875%u53f7 %u2014%u2014 '',
            ''%u5171%u4eab%u5185%u5b58%u8d77%u70b9'']],
         [js ''0x050'',
          js ''QueueNotify'',
          jcat [''%u5411%u5b83%u5199%u961f%u5217%u53f7 = kick%uff08%u901a%u77e5%u8bbe%u5907%u6709'',
            ''%u65b0%u8bf7%u6c42%uff09'']],
         [js ''0x070'',
          js ''Status'',
          js ''%u9a71%u52a8%u6309%u4f4d%u5199%u5165 ACK/DRIVER/DRIVER_OK %u6807%u5fd7%u4f4d'']],
      CalloutBlock Tip (jcat [''MMIO = Memory-Mapped I/O%uff1a%u5bf9%u8fd9%u4e9b%u5730%u5740%u7684 load/store '',
          ''%u76f4%u63a5%u53d8%u6210%u8bbe%u5907%u547d%u4ee4%u3002%u4e0d%u9700%u8981%u7279%u6b8a%u6307'',
          ''%u4ee4%uff0c%u4f46%u4e00%u5b9a%u8981%u7528 volatile '',
          ''%u8bbf%u95ee%uff0c%u5426%u5219%u7f16%u8bd1%u5668%u4f1a%u628a%u300c%u5199%u4e24%u6b21 '',
          ''QueueNotify%u300d%u4f18%u5316%u6210%u4e00%u6b21%u3002''])]\<rparr>\<close>

definition phase5ZhCN_lesson1_section3 :: ContentSection where
  \<open>phase5ZhCN_lesson1_section3 = \<lparr>
    section_title = js ''virtqueue%uff1a%u5171%u4eab%u5185%u5b58%u91cc%u7684%u4e09%u4e2a%u73af'',
    section_blocks = [DiagramBlock (jlines [''Descriptor Table (16 %u9879)       Avail Ring (%u9a71%u52a8%u2192%u8bbe%u5907)    Used Ring (%u8bbe%u5907%u2192%u9a71%u52a8)'',
          ''%u250c%r162500%u2510      %u250c%r132500%u2510    %u250c%r132500%u2510'',
          ''%u2502#0 addr|len|flags|next%u2502      %u2502idx | ring[0..16]  %u2502    %u2502idx | ring[0..16]  %u2502'',
          ''%u2502#1 addr|len|flags|next%u2502      %u2502     %u2502 desc_head   %u2502    %u2502     %u2502 desc_head   %u2502'',
          ''%u2502#2 addr|len|flags|next%u2502      %u2502     %u2502   ...       %u2502    %u2502     %u2502    len      %u2502'',
          ''%u2502...                   %u2502      %u2514%r132500%u2518    %u2514%r132500%u2518'',
          ''%u2502#15 ...               %u2502             %u25b2                         %u25b2'',
          ''%u2514%r162500%u2518             %u2502 %u9a71%u52a8 push               %u2502 %u8bbe%u5907 push'',
          ''         %u25b2                            kick %u2500%u2510                   %u2502'',
          ''         %u2502                                  %u25bc                   %u2502'',
          ''       %u4e09%u6bb5%u94fe: head%u2192data%u2192status  %u250c%r102500%u2510           %u2502'',
          ''                                  %u2502 QEMU %u540e%u7aef       %u2502%r0a2500%u2518'',
          ''                                  %u2514%r102500%u2518'']),
      ParagraphBlock (jcat [''%u4e09%u4e2a%u73af%u90fd%u5728 guest %u7269%u7406%u5185%u5b58%u91cc%uff0chypervisor '',
          ''%u76f4%u63a5%u6620%u5c04%u8bfb%u5199%u2014%u2014%u96f6%u62f7%u8d1d%u3002Descriptor '',
          ''Table %u5b58%u300c%u4e00%u6bb5%u5185%u5b58%u300d%u7684%u5730%u5740/%u957f%u5ea6/flags'',
          ''%uff1bAvail Ring %u662f%u4e00%u4e2a FIFO%uff0c%u9a71%u52a8%u628a%u300c%u672c%u6b21'',
          ''%u8bf7%u6c42%u94fe%u8868%u7684%u5934%u63cf%u8ff0%u7b26%u53f7%u300d%u585e%u8fdb%u53bb'',
          ''%uff1bUsed Ring %u53cd%u5411%uff0c%u8bbe%u5907%u5b8c%u6210%u540e%u628a%u5934%u53f7 '',
          ''+ %u5199%u56de%u5b57%u8282%u6570%u585e%u56de%u6765%u3002'']),
      TableBlock [js ''flag %u4f4d'',
         js ''%u8bed%u4e49'']
        [[js ''VIRTQ_DESC_F_NEXT (1)'',
          js ''%u6709%u540e%u7eed%u63cf%u8ff0%u7b26%uff0cnext %u5b57%u6bb5%u6709%u6548''],
         [js ''VIRTQ_DESC_F_WRITE (2)'',
          jcat [''%u8bbe%u5907%u5c06%u5199%u5165%u6b64 buffer%uff08%u8bfb%u8bf7%u6c42%u91cc%u7684 '',
            ''data / %u6240%u6709%u8bf7%u6c42%u7684 status%uff09'']],
         [js ''VIRTQ_DESC_F_INDIRECT (4)'',
          jcat [''%u672c%u63cf%u8ff0%u7b26%u6307%u5411%u53e6%u4e00%u5f20%u63cf%u8ff0%u7b26%u8868%uff08'',
            ''%u5927%u8bf7%u6c42%u7528%uff0c%u672c%u8bfe%u4e0d%u7528%uff09'']]]]\<rparr>\<close>

definition phase5ZhCN_lesson1_section4 :: ContentSection where
  \<open>phase5ZhCN_lesson1_section4 = \<lparr>
    section_title = js ''%u4e00%u6b21%u8bfb%u8bf7%u6c42%u7684%u4e09%u6bb5%u63cf%u8ff0%u7b26%u94fe'',
    section_blocks = [DiagramBlock (jlines [''read_block(sector=42) %u5c55%u5f00%u6210%uff1a'',
          '''',
          '' desc #0 (RO)           desc #1 (RW)           desc #2 (RW)'',
          ''%u250c%r0e2500%u2510       %u250c%r0e2500%u2510       %u250c%r0e2500%u2510'',
          ''%u2502 BlkReqHeader %u2502%u2500next%u2500%u25b6%u2502  data 512 B  %u2502%u2500next%u2500%u25b6%u2502  status 1 B  %u2502'',
          ''%u2502 type = IN(0) %u2502       %u2502  %u2190 kernel    %u2502       %u2502  %u2190 QEMU %u5199   %u2502'',
          ''%u2502 reserved = 0 %u2502       %u2502    buffer    %u2502       %u2502    0 = OK    %u2502'',
          ''%u2502 sector = 42  %u2502       %u2502              %u2502       %u2502    1 = IOERR %u2502'',
          ''%u2502 flags: NEXT  %u2502       %u2502 flags:NEXT|W %u2502       %u2502 flags: WRITE %u2502'',
          ''%u2514%r0e2500%u2518       %u2514%r0e2500%u2518       %u2514%r0e2500%u2518'',
          ''  16 %u5b57%u8282                    512 %u5b57%u8282              1 %u5b57%u8282'',
          ''  %u9a71%u52a8%u586b%uff0c%u8bbe%u5907%u8bfb              %u8bbe%u5907%u5199%u6b64 buffer      %u8bbe%u5907%u5199%u5b8c%u540e%u586b'',
          '''',
          ''Avail.ring[idx++] = 0   (%u94fe%u8868%u5934%u7684%u63cf%u8ff0%u7b26%u53f7)'',
          ''%u5199 QueueNotify = 0      (kick!)'',
          ''%u8f6e%u8be2 Used.ring %u770b idx %u6709%u6ca1%u6709%u63a8%u8fdb %u2192 %u53d6%u51fa%u5b8c%u6210%u7684%u94fe'']),
      CalloutBlock Warning (jcat [''%u5199%u8bf7%u6c42%u548c%u8bfb%u8bf7%u6c42%u552f%u4e00%u7684%u533a%u522b%u662f%uff1a'',
          ''type = OUT(1)%uff0c%u5e76%u4e14 data %u63cf%u8ff0%u7b26%u7684 flags %u4e0d%u5e26 '',
          ''WRITE %u4f4d%uff08%u6570%u636e%u65b9%u5411%u5bf9 virtio '',
          ''%u800c%u8a00%u662f%u300c%u4ece%u9a71%u52a8%u89c6%u89d2%u300d%u2014%u2014%u8bfb%u8bf7%u6c42 = '',
          ''%u8bbe%u5907%u5199%u5165 data%uff1b%u5199%u8bf7%u6c42 = %u8bbe%u5907%u8bfb%u51fa '',
          ''data%uff09%u3002%u8fd9%u4e2a%u53cd%u76f4%u89c9%uff0c%u8003%u8bd5%u5e38%u9519%u3002''])]\<rparr>\<close>

definition phase5ZhCN_lesson1_section5 :: ContentSection where
  \<open>phase5ZhCN_lesson1_section5 = \<lparr>
    section_title = js ''%u4e3a%u4ec0%u4e48%u6211%u4eec%u4e0d%u81ea%u5df1%u624b%u5199 virtqueue'',
    section_blocks = [ParagraphBlock (jcat [''%u4e0a%u9762%u8fd9%u4e00%u5207%u2014%u2014%u521d%u59cb%u5316%u63e1%u624b%u3001%u63cf'',
          ''%u8ff0%u7b26%u5206%u914d%u56de%u6536%u3001%u5185%u5b58%u5bf9%u9f50%u3001feature '',
          ''negotiation%u2014%u2014rCore %u751f%u6001%u5df2%u7ecf%u62bd%u6210%u4e86 virtio-drivers '',
          ''crate%u3002%u9a71%u52a8%u4f5c%u8005%u7684%u5de5%u4f5c%u88ab%u538b%u7f29%u5230 2 '',
          ''%u4ef6%u4e8b%uff1a'']),
      ListBlock True
        [jcat [''%u5b9e%u73b0 Hal trait%uff1a%u544a%u8bc9 crate %u5982%u4f55%u5206%u914d DMA '',
           ''%u5185%u5b58%u3001%u5982%u4f55%u505a%u7269%u7406%u5730%u5740/%u865a%u62df%u5730%u5740'',
           ''%u7ffb%u8bd1''],
         jcat [''%u628a VirtIOBlk<Hal, MmioTransport> %u5305%u4e00%u5c42 Mutex%uff0c%u5b9e%u73b0 '',
           ''BlockDevice trait'']],
      CodeBlock (Some (js ''rust'')) (jlines [''pub struct VirtIOBlock(Mutex<VirtIOBlk<'static, VirtioHal, MmioTransport>>);'',
          '''',
          ''impl BlockDevice for VirtIOBlock {'',
          ''    fn read_block(&self, block_id: usize, buf: &mut [u8]) {'',
          ''        self.0.lock().read_blocks(block_id, buf)'',
          ''            .expect("virtio read failed");'',
          ''    }'',
          ''    fn write_block(&self, block_id: usize, buf: &[u8]) {'',
          ''        self.0.lock().write_blocks(block_id, buf)'',
          ''            .expect("virtio write failed");'',
          ''    }'',
          ''}'']),
      CalloutBlock Info (jcat [''%u6559%u5b66%u76ee%u7684%u662f%u300c%u61c2%u5f97%u5e95%u4e0b%u5728%u505a%u4ec0%u4e48'',
          ''%u300d%u800c%u4e0d%u662f%u300c%u628a 700 %u884c%u6837%u677f%u4ee3%u7801%u518d%u6572'',
          ''%u4e00%u904d%u300d%u3002Phase 7%uff08%u6311%u6218%u8bfe%uff09%u6709%u4e00%u8282'',
          ''%u8ba9%u4f60%u53bb%u6389 virtio-drivers %u76f4%u63a5%u64cd%u4f5c%u5bc4%u5b58%u5668'',
          ''%u2014%u2014%u5230%u90a3%u65f6%u4f60%u5df2%u7ecf%u8bfb%u5b8c%u672c%u8bfe%uff0c%u6709'',
          ''%u80fd%u529b%u81ea%u5df1%u5bf9%u7740 spec 1.1 %u5b9e%u73b0%u4e86%u3002''])]\<rparr>\<close>

definition phase5ZhCN_lesson1_section6 :: ContentSection where
  \<open>phase5ZhCN_lesson1_section6 = \<lparr>
    section_title = js ''%u5e38%u89c1%u9519%u8bef%u4e0e%u8c03%u8bd5%u7ebf%u7d22'',
    section_blocks = [ListBlock False
        [jcat [''DMA %u4e00%u81f4%u6027%uff1a%u771f%u673a%u4e0a%u63cf%u8ff0%u7b26%u73af%u5199%u5165'',
           ''%u540e%u5fc5%u987b fence%uff0c%u5426%u5219%u8bbe%u5907%u53ef%u80fd%u770b%u5230%u65e7'',
           ''%u503c%u3002QEMU %u4e0a%u300c%u78b0%u5de7%u300d%u4e0d%u51fa%u9519%uff0c%u5230%u771f'',
           ''%u677f%uff08VisionFive / Allwinner D1%uff09%u5c31%u6302%u2014%u2014%u4e00%u5b9a'',
           ''%u8981%u5728 Hal::share %u91cc%u5199 fence.rw%u3002''],
         jcat [''%u8bf7%u6c42%u683c%u5f0f%uff1a%u628a status %u585e%u8fdb data '',
           ''%u63cf%u8ff0%u7b26%u662f spec %u8fdd%u89c4%uff0cQEMU %u4f1a%u8fd4%u56de '',
           ''IOERR%u3002%u4e00%u5b9a%u8981%u4e09%u4e2a%u72ec%u7acb%u63cf%u8ff0%u7b26%u3002''],
         jcat [''%u6b7b%u7b49%uff1a%u8f6e%u8be2 Used Ring %u65f6%u8981%u9650%u5b9a%u4e00%u4e2a%u5927'',
           ''%u4e0a%u9650%uff08%u6bd4%u5982 1_000_000 %u6b21%uff09%uff0c%u8d85%u8fc7%u5c31 '',
           ''panic%u2014%u2014%u5426%u5219%u8bbe%u5907%u574f%u4e86%u6574%u4e2a%u5185%u6838%u5c31%u50f5'',
           ''%u4f4f%u3002''],
         jcat [''sector %u4e0d%u662f byte offset%uff1aBlkReqHeader.sector %u7684%u5355%u4f4d%u662f '',
           ''512 B%uff0c%u522b%u5199%u6210%u5b57%u8282%u5730%u5740%u3002'']]]\<rparr>\<close>

definition phase5ZhCN_lesson1_exercise1 :: CodeExercise where
  \<open>phase5ZhCN_lesson1_exercise1 = \<lparr>
    exercise_id = js ''lab1-virtio-block'',
    exercise_title = js ''Lab 1 %u2b50%u2b50 %u5b9e%u73b0 VirtIOBlock'',
    exercise_description = jcat [''%u7528 virtio-drivers crate %u628a 0x1000_1000 %u7684 MMIO '',
        ''%u8bbe%u5907%u5305%u88c5%u6210 BlockDevice%u3002''],
    exercise_labFile = Some (js ''labs/phase_5_fs/src/drivers/virtio_blk.rs''),
    exercise_hints = [js ''VirtIOBlk::new(MmioTransport::new(header)?)? %u4e09%u6b65%u5efa%u5bf9%u8c61'',
       js ''VirtioHal %u91cc%u7684 dma_alloc %u5bf9%u9f50%u5230 4 KiB'',
       jcat [''read_blocks / write_blocks %u5df2%u662f%u540c%u6b65%u963b%u585e%u2014%u2014crate '',
         ''%u5185%u90e8%u5728%u8f6e%u8be2 Used Ring''],
       js ''%u5168%u5c40%u5355%u4f8b%u7528 lazy_static! + Arc<dyn BlockDevice>''],
    exercise_pseudocode = Some (jlines [''lazy_static! {'',
          ''    pub static ref BLOCK_DEVICE: Arc<dyn BlockDevice> = {'',
          ''        let header = unsafe { &mut *(VIRTIO0 as *mut VirtIOHeader) };'',
          ''        let transport = MmioTransport::new(header).unwrap();'',
          ''        let blk = VirtIOBlk::<VirtioHal, _>::new(transport).unwrap();'',
          ''        Arc::new(VirtIOBlock(Mutex::new(blk)))'',
          ''    };'',
          ''}''])\<rparr>\<close>

definition phase5ZhCN_lesson1_exercise2 :: CodeExercise where
  \<open>phase5ZhCN_lesson1_exercise2 = \<lparr>
    exercise_id = js ''lab1-hal'',
    exercise_title = js ''Lab 1b %u2b50 %u5b9e%u73b0 VirtioHal'',
    exercise_description = jcat [''Hal trait %u7684 4 %u4e2a%u65b9%u6cd5%u544a%u8bc9 crate '',
        ''%u5982%u4f55%u5728%u5185%u6838%u91cc%u5206%u914d/%u91ca%u653e%u7269%u7406%u8fde%u7eed%u9875%uff0c%u4ee5'',
        ''%u53ca%u865a%u62df%u2194%u7269%u7406%u5730%u5740%u8f6c%u6362%uff08Phase 4 '',
        ''%u5df2%u7ecf%u6709 frame_alloc %u53ef%u76f4%u63a5%u8c03%uff09%u3002''],
    exercise_labFile = Some (js ''labs/phase_5_fs/src/drivers/virtio_blk.rs''),
    exercise_hints = [jcat [''dma_alloc(pages) %u2192 %u5faa%u73af%u8c03 frame_alloc%uff0c%u6536%u96c6%u6210 '',
         ''Vec<FrameTracker> %u5b58%u5165%u9759%u6001%u8868''],
       js ''phys_to_virt %u5728%u6052%u7b49%u6620%u5c04%u4e0b = %u539f%u503c'',
       jcat [''virt_to_phys %u67e5%u5f53%u524d%u9875%u8868%uff0c%u6216%u5728%u5185%u6838%u6001'',
         ''%u76f4%u63a5%u53d6%u4f4e%u4f4d%uff08%u5185%u6838%u6052%u7b49%u6620%u5c04%uff09'']],
    exercise_pseudocode = None\<rparr>\<close>

definition phase5ZhCN_lesson1 :: Lesson where
  \<open>phase5ZhCN_lesson1 = \<lparr>
    lesson_phaseId = 5, lesson_lessonId = 1,
    lesson_title = jcat [''VirtIO-blk %u534f%u8bae%uff1a%u628a QEMU %u7684%u78c1%u76d8%u5f53%u6210%u5bc4%u5b58'',
        ''%u5668%u64cd%u4f5c''],
    lesson_subtitle = js ''MMIO %u5bc4%u5b58%u5668 + virtqueue + %u4e09%u6bb5%u63cf%u8ff0%u7b26%u8bf7%u6c42'',
    lesson_type = js ''Concept + Practice'',
    lesson_duration = js ''2 hours'',
    lesson_objectives = [jcat [''%u770b%u61c2 VirtIO MMIO %u5bc4%u5b58%u5668%u5e03%u5c40%uff1aMagicValue / QueueSel '',
         ''/ QueuePFN / QueueNotify''],
       jcat [''%u7406%u89e3 virtqueue %u4e09%u4e2a%u73af%uff08descriptor / avail / '',
         ''used%uff09%u7684%u4f5c%u7528%u4e0e%u5185%u5b58%u5e03%u5c40''],
       jcat [''%u638c%u63e1 virtio-blk %u8bf7%u6c42%u7684%u4e09%u6bb5%u63cf%u8ff0%u7b26%u94fe%uff1a'',
         ''header + data + status''],
       jcat [''%u77e5%u9053%u4e3a%u4ec0%u4e48%u6211%u4eec%u76f4%u63a5%u7528 virtio-drivers '',
         ''crate%uff0c%u53ea%u5b9e%u73b0 Hal trait'']],
    lesson_sections = [phase5ZhCN_lesson1_section1,
      phase5ZhCN_lesson1_section2,
      phase5ZhCN_lesson1_section3,
      phase5ZhCN_lesson1_section4,
      phase5ZhCN_lesson1_section5,
      phase5ZhCN_lesson1_section6],
    lesson_exercises = [phase5ZhCN_lesson1_exercise1, phase5ZhCN_lesson1_exercise2],
    lesson_acceptanceCriteria = [jcat [''cargo test --test test_lab1_blkdev %u901a%u8fc7%uff1a%u5199%u5165%u4e00%u4e2a%u5757'',
         ''%u3001%u8bfb%u56de%u3001%u6570%u636e%u4e00%u81f4''],
       jcat [''%u80fd%u8bf4%u660e VIRTQ_DESC_F_WRITE %u4e3a%u4ec0%u4e48%u5728%u8bfb%u8bf7%u6c42'',
         ''%u91cc%u8d34%u5728 data %u4e0a''],
       jcat [''%u80fd%u753b%u51fa%u4ece read_block %u5230 MMIO %u5199 QueueNotify '',
         ''%u7684%u51fd%u6570%u8c03%u7528%u94fe'']],
    lesson_references = [\<lparr>reference_title = js ''rCore-Tutorial %u00a76.1'',
       reference_description = js ''[%u5fc5%u8bfb] %u5757%u8bbe%u5907%u4e0e virtio-drivers %u96c6%u6210'',
       reference_url = js ''https://rcore-os.cn/rCore-Tutorial-Book-v3/chapter6/1fs-interface.html''\<rparr>,
      \<lparr>reference_title = js ''VirtIO 1.1 Spec %u00a74.2 & %u00a75.2'',
       reference_description = jcat [''[%u5fc5%u8bfb] MMIO %u5bc4%u5b58%u5668%u6743%u5a01%u5b9a%u4e49 + virtio-blk '',
          ''%u8bf7%u6c42%u683c%u5f0f''],
       reference_url = js ''https://docs.oasis-open.org/virtio/virtio/v1.1/virtio-v1.1.pdf''\<rparr>,
      \<lparr>reference_title = js ''virtio-drivers crate docs'',
       reference_description = jcat [''[%u6df1%u5165%u9605%u8bfb] Rust %u5b9e%u73b0%u7684%u4ee3%u7801%u53ef%u8bfb%u6027'',
          ''%u9ad8%u4e8e Linux C %u7248''],
       reference_url = js ''https://docs.rs/virtio-drivers/''\<rparr>,
      \<lparr>reference_title = js ''xv6 kernel/virtio_disk.c'',
       reference_description = jcat [''[%u6df1%u5165%u9605%u8bfb] C %u8bed%u8a00%u624b%u5199 virtqueue '',
          ''%u7684%u5bf9%u7167%u7ec4%uff0c~300 %u884c''],
       reference_url = js ''https://github.com/mit-pdos/xv6-riscv/blob/riscv/kernel/virtio_disk.c''\<rparr>]\<rparr>\<close>

section \<open>Lesson 2\<close>

definition phase5ZhCN_lesson2_section1 :: ContentSection where
  \<open>phase5ZhCN_lesson2_section1 = \<lparr>
    section_title = js ''%u5e03%u5c40%u603b%u89c8'',
    section_blocks = [DiagramBlock (jlines [''block #   0         1..a      a..b       b..c         c..total-1'',
          ''        %u250c%r092500%u252c%r0a2500%u252c%r0a2500%u252c%r0a2500%u252c%r162500%u2510'',
          ''        %u2502 Super   %u2502 Inode    %u2502 Data     %u2502 Inodes   %u2502 Data Blocks          %u2502'',
          ''        %u2502 Block   %u2502 Bitmap   %u2502 Bitmap   %u2502 packed   %u2502 (one per file block) %u2502'',
          ''        %u2502 1 blk   %u2502 N blks   %u2502 M blks   %u2502 4/block  %u2502                      %u2502'',
          ''        %u2514%r092500%u2534%r0a2500%u2534%r0a2500%u2534%r0a2500%u2534%r162500%u2518'',
          ''          %u2191           %u2191           %u2191           %u2191             %u2191'',
          ''        magic +     %u6bcf%u4f4d%u7ba11%u4e2a   %u6bcf%u4f4d%u7ba11%u4e2a    128 B %u00d7       512 B %u00d7 %u4e00%u5927%u7247'',
          ''        %u5404%u533a%u8d77%u70b9    inode       data block  (4N %u4e2a)'',
          ''        %u4e0e%u5757%u6570      (%u2264 4096N)   (%u2264 4096M)'',
          '''',
          ''%u6240%u6709%u300c%u8d77%u70b9 + %u5757%u6570%u300d%u5b57%u6bb5%u90fd%u5199%u5728 block 0 %u7684 SuperBlock %u91cc%uff1b'',
          ''mkfs %u8ba1%u7b97%u4e00%u6b21%u3001%u5199%u8fdb%u53bb%uff0c%u4e4b%u540e%u5185%u6838%u4fe1%u8d56%u5b83%uff0c%u4e0d%u518d%u91cd%u7b97%u3002'']),
      CalloutBlock Info (jcat [''%u4e3a%u4ec0%u4e48%u662f 5 %u4e2a%u533a%u800c%u4e0d%u662f%u66f4%u591a%uff1f%u56e0'',
          ''%u4e3a easy-fs %u4e0d%u652f%u6301 extent%u3001journaling%u3001reserved-gdt%u2014'',
          ''%u2014ext2 %u90a3%u4e9b%u82b1%u54e8%u7279%u6027%u90fd%u6ca1%u6709%u3002%u8fd9%u662f'',
          ''%u300c%u6700%u6734%u7d20%u4f46%u4ecd%u6b63%u786e%u300d%u7684 Unix FS '',
          ''%u5f62%u6001%uff0c%u4e0e 1984 %u5e74%u7684 FFS %u8bba%u6587%u51e0%u4e4e%u540c%u6784%u3002''])]\<rparr>\<close>

definition phase5ZhCN_lesson2_section2 :: ContentSection where
  \<open>phase5ZhCN_lesson2_section2 = \<lparr>
    section_title = js ''SuperBlock%uff1a%u78c1%u76d8%u7684%u5143%u5143%u6570%u636e'',
    section_blocks = [CodeBlock (Some (js ''rust'')) (jlines [''#[repr(C)]'',
          ''pub struct SuperBlock {'',
          ''    magic: u32,                  // 0x3b800001 %u2014%u2014 mkfs %u65f6%u5199%u5165'',
          ''    pub total_blocks: u32,'',
          ''    pub inode_bitmap_blocks: u32,'',
          ''    pub inode_area_blocks: u32,'',
          ''    pub data_bitmap_blocks: u32,'',
          ''    pub data_area_blocks: u32,'',
          ''}'',
          '''',
          ''impl SuperBlock {'',
          ''    pub fn is_valid(&self) -> bool {'',
          ''        self.magic == EFS_MAGIC'',
          ''    }'',
          ''}'']),
      ParagraphBlock (jcat [''%u52a0%u8f7d%u6587%u4ef6%u7cfb%u7edf%u65f6%uff0c%u5185%u6838%u5148%u8bfb block 0 '',
          ''%u2192 %u68c0%u67e5 magic %u2192 %u5982%u679c%u4e0d%u662f easy-fs '',
          ''%u7684%u9b54%u6570%u5c31 panic%uff08%u907f%u514d%u628a%u4e00%u4e2a ext4 %u955c%u50cf%u5f53 easy-fs '',
          ''%u9519%u8bfb%uff09%u3002%u6240%u6709%u5176%u5b83%u533a%u7684%u8d77%u70b9%u7531 '',
          ''SuperBlock %u7684%u5b57%u6bb5%u300c%u524d%u7f00%u548c%u300d%u7b97%u51fa%uff0c%u4e0d%u5355'',
          ''%u72ec%u5b58%u3002''])]\<rparr>\<close>

definition phase5ZhCN_lesson2_section3 :: ContentSection where
  \<open>phase5ZhCN_lesson2_section3 = \<lparr>
    section_title = jcat [''%u5bb9%u91cf%u8ba1%u7b97%uff1a%u7ed9%u5b9a 4 MiB '',
        ''%u78c1%u76d8%uff0c%u5982%u4f55%u5206%uff1f''],
    section_blocks = [TableBlock [js ''%u91cf'',
         js ''%u516c%u5f0f / %u503c'',
         js ''%u8bf4%u660e'']
        [[js ''%u5757%u5927%u5c0f'',
          js ''512 B'',
          js ''%u4e0e virtio-blk sector %u4e00%u81f4%uff0c%u907f%u514d%u8bfb%u5199%u653e%u5927''],
         [js ''total_blocks'',
          js ''4 MiB / 512 = 8192'',
          js ''%u78c1%u76d8%u603b%u5757%u6570''],
         [js ''inode_bitmap_blocks'',
          js ''1 %u5757 = 4096 bit'',
          js ''%u6700%u591a 4096 %u4e2a inode%uff08%u8db3%u591f%u8bfe%u7a0b%u4f7f%u7528%uff09''],
         [js ''inode_area_blocks'',
          js ''%u23084096 / 4%u2309 = 1024'',
          js ''%u6bcf%u5757%u5bb9 4 %u4e2a 128 B inode''],
         [js ''data_bitmap_blocks'',
          js ''%u2248 2 %u5757'',
          jcat [''%u7531%u300c%u5269%u4f59%u5757 / (1 + 4096)%u300d%u89e3%u51fa%uff0c%u4e0b%u9762'',
            ''%u63a8%u5bfc'']],
         [js ''data_area_blocks'',
          js ''8192 - 1 - 1 - 1024 - 2 = 7164'',
          js ''%u5b9e%u9645%u5b58%u6587%u4ef6%u6570%u636e%u7684%u5757'']],
      ParagraphBlock (jcat [''data bitmap %u81ea%u8eab%u4e5f%u5360%u5757%uff0c%u8fd8%u8981%u7ba1%u7406%u540e%u9762'',
          ''%u7684%u6570%u636e%u5757%u2014%u2014%u8fd9%u662f%u4e00%u4e2a%u81ea%u6307%u65b9%u7a0b'',
          ''%uff1a%u8bbe data_bitmap_blocks = M%uff0c%u6570%u636e%u5757%u6570 = 8192 - 1 - 1 - '',
          ''1024 - M%uff0c%u800c 1 %u4e2a bitmap %u5757%u80fd%u7ba1 4096 '',
          ''%u4e2a%u6570%u636e%u5757%uff0c%u6240%u4ee5 M = %u2308(8192-1026-M)/4096%u2309%u3002%u628a M=2 '',
          ''%u4ee3%u5165%uff1a4096%u00d72 = 8192 %u2265 8192-1028 = 7164%uff0c%u6210%u7acb%u3002'']),
      CalloutBlock Tip (jcat [''%u53ef%u4ee5%u624b%u7b97%u4e00%u904d 8 MiB / 16 MiB '',
          ''%u78c1%u76d8%u7684%u5206%u914d%uff0c%u9a8c%u8bc1%u4f60%u5bf9 easy-fs-fuse/src/main.rs %u91cc%u7684 '',
          ''EasyFileSystem::create %u7684%u7406%u89e3%u3002%u8fd9%u662f%u672c%u8bfe%u6700%u5bb9%u6613%u88ab'',
          ''%u95ee%u5230%u7684%u9762%u8bd5%u9898%u3002''])]\<rparr>\<close>

definition phase5ZhCN_lesson2_section4 :: ContentSection where
  \<open>phase5ZhCN_lesson2_section4 = \<lparr>
    section_title = js ''Bitmap %u7684 O(1) %u5206%u914d%u6280%u5de7'',
    section_blocks = [ParagraphBlock (jcat [''%u4e00%u4e2a bitmap %u5757 = 512 B = 4096 bit%u3002%u5982%u679c%u5faa%u73af 4096 '',
          ''%u6b21%u627e%u7b2c%u4e00%u4e2a 0 %u4f4d%uff0calloc %u5c31%u662f O(4096) '',
          ''%u7684%u70ed%u70b9%u3002%u6211%u4eec%u501f%u52a9%u786c%u4ef6 ctz '',
          ''%u6307%u4ee4%u628a%u5b83%u538b%u6210 O(64)%u3002'']),
      CodeBlock (Some (js ''rust'')) (jlines [''type BitmapBlock = [u64; 64];   // 64 %u00d7 64 = 4096 bit'',
          '''',
          ''pub fn alloc(&self, dev: &Arc<dyn BlockDevice>) -> Option<usize> {'',
          ''    for block_id in 0..self.blocks {'',
          ''        let pos = get_block_cache(block_id + self.start, dev).lock()'',
          ''            .modify(0, |bits: &mut BitmapBlock| {'',
          ''                // %u6bcf 64 bit %u4e00%u7ec4%uff0c%u627e%u5230%u7b2c%u4e00%u4e2a%u4e0d%u662f%u5168 1 %u7684'',
          ''                for (i, w) in bits.iter_mut().enumerate() {'',
          ''                    if *w != u64::MAX {'',
          ''                        let bit = w.trailing_ones() as usize;  // %u2605 O(1)'',
          ''                        *w |= 1u64 << bit;'',
          ''                        return Some(i * 64 + bit);'',
          ''                    }'',
          ''                }'',
          ''                None'',
          ''            });'',
          ''        if let Some(p) = pos { return Some(block_id * 4096 + p); }'',
          ''    }'',
          ''    None'',
          ''}'']),
      CalloutBlock Warning (jcat [''trailing_ones %u5728 RISC-V %u4e0a%u7f16%u8bd1%u6210 '',
          ''ctz(!w)%uff0c%u5355%u6307%u4ee4%u5b8c%u6210%u3002%u5343%u4e07%u4e0d%u8981%u624b%u5199 for bit in 0..64 '',
          ''%u5faa%u73af%u2014%u2014%u4e0a%u767e%u4e07%u6b21 alloc '',
          ''%u7684%u5dee%u8ddd%u662f%u51e0%u5341%u500d%u3002''])]\<rparr>\<close>

definition phase5ZhCN_lesson2_exercise1 :: CodeExercise where
  \<open>phase5ZhCN_lesson2_exercise1 = \<lparr>
    exercise_id = js ''lab2-bitmap'',
    exercise_title = js ''Lab 2a %u2b50%u2b50 %u5b9e%u73b0 Bitmap::{alloc, dealloc}'',
    exercise_description = jcat [''%u5b9e%u73b0 bitmap %u5206%u914d/%u56de%u6536%u3002alloc %u8fd4%u56de bit '',
        ''%u7684%u5168%u5c40%u7f16%u53f7%uff08%u4ece%u672c bitmap '',
        ''%u8d77%u70b9%u7b97%u8d77%uff09%uff0cdealloc(pos) %u628a%u5bf9%u5e94%u4f4d%u6e05%u96f6%u3002''],
    exercise_labFile = Some (js ''labs/phase_5_fs/easy-fs/src/bitmap.rs''),
    exercise_hints = [js ''alloc %u7528 trailing_ones%uff1bdealloc %u76f4%u63a5 &= !(1u64 << bit)'',
       jcat [''pos %25 4096 %u786e%u5b9a%u672c%u5757%u5185%u504f%u79fb%uff0cpos / 4096 '',
         ''%u786e%u5b9a%u5757%u53f7''],
       js ''dealloc %u8981 assert!(bit == 1) %u5426%u5219%u66b4%u9732%u91cd%u590d%u56de%u6536 bug''],
    exercise_pseudocode = Some (jlines [''fn decomposition(pos: usize) -> (usize, usize, usize) {'',
          ''    let block_pos = pos / BLOCK_BITS;'',
          ''    let bit = pos %25 BLOCK_BITS;'',
          ''    (block_pos, bit / 64, bit %25 64)'',
          ''}''])\<rparr>\<close>

definition phase5ZhCN_lesson2_exercise2 :: CodeExercise where
  \<open>phase5ZhCN_lesson2_exercise2 = \<lparr>
    exercise_id = js ''lab2-layout'',
    exercise_title = js ''Lab 2b %u2b50 %u624b%u7b97%u4e00%u904d%u5bb9%u91cf%u8868'',
    exercise_description = jcat [''%u7ed9%u5b9a 16 MiB %u78c1%u76d8%uff0832768 %u5757%uff09%uff0c%u7b97%u51fa '',
        ''inode_bitmap_blocks / inode_area_blocks / data_bitmap_blocks / '',
        ''data_area_blocks%uff0c%u5e76%u5728 easy-fs-fuse %u91cc%u6253%u5370 SuperBlock %u9a8c%u8bc1%u3002''],
    exercise_labFile = None,
    exercise_hints = [js ''%u5148%u56fa%u5b9a inode %u6570%u4e0a%u9650 = 4096%uff081 %u5757 inode_bitmap %u591f%uff09'',
       js ''%u5269%u4f59 = 32768 - 1 - 1 - 1024 = 31742'',
       js ''data_bitmap_blocks = %u230831742 / 4097%u2309 = 8''],
    exercise_pseudocode = None\<rparr>\<close>

definition phase5ZhCN_lesson2 :: Lesson where
  \<open>phase5ZhCN_lesson2 = \<lparr>
    lesson_phaseId = 5, lesson_lessonId = 2,
    lesson_title = js ''easy-fs %u78c1%u76d8%u5e03%u5c40%uff1a5 %u4e2a%u533a%u5212%u5206 8192 %u4e2a%u5757'',
    lesson_subtitle = js ''Superblock + 2 %u4e2a bitmap + inode %u533a + data %u533a'',
    lesson_type = js ''Concept + Practice'',
    lesson_duration = js ''1.5 hours'',
    lesson_objectives = [js ''%u638c%u63e1 easy-fs %u7684 5 %u533a%u5e03%u5c40%u53ca%u5404%u533a%u5b57%u6bb5%u542b%u4e49'',
       jcat [''%u80fd%u6839%u636e%u78c1%u76d8%u603b%u5927%u5c0f%u624b%u7b97 bitmap %u548c inode '',
         ''%u533a%u7684%u5757%u6570''],
       jcat [''%u7406%u89e3 bitmap %u4e3a%u4ec0%u4e48%u7528 [u64; 64] %u6570%u7ec4 + trailing_ones '',
         ''%u505a O(1) %u5206%u914d''],
       js ''%u770b%u61c2 SuperBlock %u7684 magic %u6821%u9a8c%u903b%u8f91''],
    lesson_sections = [phase5ZhCN_lesson2_section1,
      phase5ZhCN_lesson2_section2,
      phase5ZhCN_lesson2_section3,
      phase5ZhCN_lesson2_section4],
    lesson_exercises = [phase5ZhCN_lesson2_exercise1, phase5ZhCN_lesson2_exercise2],
    lesson_acceptanceCriteria = [jcat [''cargo test --test test_lab2_bitmap %u901a%u8fc7%uff1aalloc 4097 %u6b21%u540e%u7b2c '',
         ''4097 %u4e2a%u5e94%u8fd4%u56de%u4e0d%u540c block_id''],
       js ''SuperBlock::is_valid() %u80fd%u6321%u4f4f%u975e easy-fs %u955c%u50cf'',
       js ''%u80fd%u5199%u51fa data_bitmap_blocks %u7684%u81ea%u6307%u65b9%u7a0b%u5e76%u89e3%u51fa''],
    lesson_references = [\<lparr>reference_title = js ''xv6 book Ch. 8.2 Buffer cache layer'',
       reference_description = js ''[%u5fc5%u8bfb] %u7c7b%u4f3c%u7684%u5e03%u5c40%u5728 xv6 %u91cc%u53eb mkfs.c'',
       reference_url = js ''https://pdos.csail.mit.edu/6.828/2023/xv6/book-riscv-rev3.pdf''\<rparr>,
      \<lparr>reference_title = js ''rCore-Tutorial %u00a76.3'',
       reference_description = js ''[%u5fc5%u8bfb] easy-fs %u78c1%u76d8%u5e03%u5c40%u4e2d%u6587%u8bb2%u89e3'',
       reference_url = js ''https://rcore-os.cn/rCore-Tutorial-Book-v3/chapter6/3fs-implementation.html''\<rparr>,
      \<lparr>reference_title = js ''A Fast File System for UNIX (1984)'',
       reference_description = js ''[%u6df1%u5165%u9605%u8bfb] 5 %u533a%u5e03%u5c40%u7684 30 %u5e74%u524d%u539f%u578b'',
       reference_url = js ''https://dsf.berkeley.edu/cs262/FFS.pdf''\<rparr>]\<rparr>\<close>

section \<open>Lesson 3\<close>

definition phase5ZhCN_lesson3_section1 :: ContentSection where
  \<open>phase5ZhCN_lesson3_section1 = \<lparr>
    section_title = js ''%u4e3a%u4ec0%u4e48%u8981%u7f13%u5b58%uff1f%u6570%u4e00%u4e0b%u78c1%u76d8 IO %u6b21%u6570'',
    section_blocks = [ParagraphBlock (jcat [''%u6ca1%u6709%u7f13%u5b58%u65f6%uff0c%u4e00%u6b21 open("/hello.txt") '',
          ''%u9700%u8981%u89e6%u53ca%u7684%u5757%uff1aSuperBlock (1) + %u6839 inode %u6240%u5728%u5757 (1) '',
          ''+ %u6839 inode %u7684 data %u5757%u82e5%u5e72 (3) + %u76ee%u6807 inode %u5757 (1) + '',
          ''%u76ee%u6807 inode %u7684%u6570%u636e%u5757 (%u82e5%u5e72) %u2248 10 '',
          ''%u6b21%u78c1%u76d8%u8bfb%u3002%u52a0%u4e00%u4e2a 16 %u8def LRU %u540e%uff0c%u9664%u4e86 '',
          ''SuperBlock %u548c%u6839 inode %u6240%u5728%u5757%u51e0%u4e4e%u6c38%u9a7b '',
          ''MRU%uff0c%u53ea%u5269%u76ee%u6807 inode %u548c%u6570%u636e%u5757%u4f1a miss %u2248 2 %u6b21%u3002'']),
      DiagramBlock (jlines [''%u65e0%u7f13%u5b58%uff1a'',
          ''  open    %u2192 [%u8d85%u7ea7%u5757][%u6839inode%u5757][%u6839data%u00d73][%u76ee%u6807inode%u5757][%u76ee%u6807data]  = 7 %u6b21%u78c1%u76d8%u5f80%u8fd4'',
          ''  read    %u2192 [%u76ee%u6807data%u00d7N]                                         = N %u6b21'',
          '''',
          ''16 %u8def LRU%uff1a'',
          ''  open    %u2192 %u524d 5 %u5757%u5168%u90e8%u5728 MRU%uff08%u542f%u52a8%u671f%u5c31%u52a0%u8f7d%u8fc7%uff09%uff0c%u53ea miss 2 %u6b21'',
          ''  read    %u2192 %u987a%u5e8f%u8bbf%u95ee%u65f6%u524d 1 %u5757%u4f1a miss%uff0c%u5176%u4f59 N-1 %u5757%u82e5%u8de8%u5757%u4e5f%u90fd miss'',
          ''            %uff08%u6570%u636e%u5757%u7f13%u5b58%u6536%u76ca%u6709%u9650%u2014%u2014%u70ed%u70b9%u6587%u4ef6%u624d%u6709%u6548%uff09'',
          '''',
          ''MRU %u2192 [super][root_i][root_d0][root_d1][root_d2][bitmap_i]...[?] %u2190 LRU'',
          ''          %u2191 %u6bcf%u6b21%u8bbf%u95ee%u628a%u5b83%u63d0%u5230%u961f%u9996              %u2191 16 %u6ee1%u4e86%uff0c%u9009%u5b83%u9a71%u9010''])]\<rparr>\<close>

definition phase5ZhCN_lesson3_section2 :: ContentSection where
  \<open>phase5ZhCN_lesson3_section2 = \<lparr>
    section_title = js ''%u7f13%u5b58%u5757 vs %u7f13%u5b58%u6587%u4ef6'',
    section_blocks = [TableBlock [js ''%u7b56%u7565'',
         js ''%u4f18%u70b9'',
         js ''%u7f3a%u70b9'']
        [[js ''%u5757%u7f13%u5b58%uff08%u6613%u7ecf%u91c7%u7528%uff09'',
          jcat [''%u5143%u6570%u636e%u4e0e%u6570%u636e%u7edf%u4e00%uff1binode '',
            ''%u5757%u88ab%u591a%u6587%u4ef6%u5171%u4eab%u65f6%u4e0d%u91cd%u590d%u5360%u7528''],
          js ''%u8de8%u6587%u4ef6%u62f7%u8d1d%u8981%u7ecf%u8fc7 kernel memcpy%uff0c%u65e0 zero-copy''],
         [js ''%u6587%u4ef6%u7f13%u5b58%uff08Linux page cache%uff09'',
          js ''mmap/%u96f6%u62f7%u8d1d%u53cb%u597d%uff1b%u6587%u4ef6%u7c92%u5ea6%u9884%u8bfb'',
          js ''%u5143%u6570%u636e%u53e6%u5f00 dcache/icache%uff1b%u5b9e%u73b0%u590d%u6742%u5ea6 3 %u500d'']],
      ParagraphBlock (jcat [''Linux %u4e24%u79cd%u90fd%u6709%u2014%u2014struct buffer_head '',
          ''%u662f%u5757%u7f13%u5b58%uff0cstruct page %u662f%u6587%u4ef6%u7f13%u5b58%u3002easy-fs '',
          ''%u53ea%u5b9e%u73b0%u5757%u7f13%u5b58%uff0c%u7b80%u5355%u6e05%u6670%u3002Phase 7 '',
          ''%u7684%u6311%u6218%u9898%u4f1a%u5f15%u5165%u7c7b%u4f3c page cache %u7684%u4e1c%u897f%u3002''])]\<rparr>\<close>

definition phase5ZhCN_lesson3_section3 :: ContentSection where
  \<open>phase5ZhCN_lesson3_section3 = \<lparr>
    section_title = js ''%u6570%u636e%u7ed3%u6784%uff1aVecDeque<(block_id, Arc<Mutex<BlockCache>>)>'',
    section_blocks = [CodeBlock (Some (js ''rust'')) (jlines [''const BLOCK_CACHE_SIZE: usize = 16;'',
          '''',
          ''pub struct BlockCache {'',
          ''    cache: [u8; BLOCK_SZ],   // 512'',
          ''    block_id: usize,'',
          ''    block_device: Arc<dyn BlockDevice>,'',
          ''    modified: bool,'',
          ''}'',
          '''',
          ''pub struct BlockCacheManager {'',
          ''    queue: VecDeque<(usize, Arc<Mutex<BlockCache>>)>,'',
          ''}'']),
      DiagramBlock (jlines [''get_block_cache(block_id, dev):'',
          ''  %u250c%u2500 %u547d%u4e2d%uff1f (%u904d%u5386 queue %u627e block_id)'',
          ''  %u2502    %u2514%u2500 %u662f %u2192 %u8fd4%u56de Arc<Mutex<BlockCache>>.clone()      %uff08O(n) %u4f46 n=16%uff09'',
          ''  %u2502'',
          ''  %u2514%u2500 miss%uff1a'',
          ''       1. %u82e5 queue.len() == 16%uff1a'',
          ''             %u627e%u5230%u7b2c%u4e00%u4e2a Arc::strong_count == 1 %u7684%u9879 %u2192 %u8e22%u51fa'',
          ''             %uff08%u5b83%u7684 Drop %u4f1a%u81ea%u52a8 sync %u810f%u5757%uff09'',
          ''       2. %u4ece%u78c1%u76d8%u8bfb block_id %u8fdb%u65b0 cache'',
          ''       3. queue.push_back((block_id, Arc::new(...)))'',
          ''       4. %u8fd4%u56de'']),
      CalloutBlock Warning (jcat [''strong_count == 1 %u7684%u5224%u65ad%u662f%u6838%u5fc3%u5b89%u5168%u673a%u5236%u3002'',
          ''%u5982%u679c%u53e6%u4e00%u7ebf%u7a0b%u6b63%u501f%u7528%u8fd9%u4e2a cache '',
          ''%u505a%u957f%u65f6%u95f4%u7684 read_at%uff0c%u5f3a%u5236%u9a71%u9010%u4f1a%u8ba9%u5b83'',
          ''%u7684 MutexGuard %u6307%u5411%u88ab%u66ff%u6362%u7684%u6570%u636e%u3002%u89c4%u5219'',
          ''%u662f%u300c%u53ea%u9a71%u9010%u65e0%u4eba%u5360%u7528%u7684%u300d%u2014%u2014%u82e5'',
          '' 16 %u9879%u5168%u88ab%u5360%u7528%uff0c%u76f4%u63a5 '',
          ''panic%uff0c%u544a%u8bc9%u7528%u6237%u7f13%u5b58%u592a%u5c0f%u3002''])]\<rparr>\<close>

definition phase5ZhCN_lesson3_section4 :: ContentSection where
  \<open>phase5ZhCN_lesson3_section4 = \<lparr>
    section_title = js ''%u5199%u56de%uff08write-back%uff09vs %u5199%u901a%uff08write-through%uff09'',
    section_blocks = [TableBlock [js ''%u7b56%u7565'',
         js ''write %u884c%u4e3a'',
         js ''crash %u5b89%u5168'',
         js ''%u541e%u5410'']
        [[js ''write-back%uff08%u672c%u8bfe%uff09'',
          jcat [''%u6539 cache%uff0c%u6807%u8bb0 modified%uff1b%u88ab%u9a71%u9010%u6216 sync '',
            ''%u65f6%u843d%u76d8''],
          js ''%u4e0d%u5b89%u5168%u2014%u2014crash %u65f6%u810f%u5757%u4e22%u5931'',
          js ''%u9ad8%uff1a%u5408%u5e76%u591a%u6b21%u5199''],
         [js ''write-through'',
          js ''%u6bcf%u6b21 write %u7acb%u523b%u843d%u76d8'',
          js ''%u66f4%u5b89%u5168'',
          js ''%u4f4e%uff1a%u6bcf%u6b21%u5199%u90fd%u6709%u78c1%u76d8%u5ef6%u8fdf'']],
      ParagraphBlock (jcat [''BlockCache::drop %u91cc%u68c0%u67e5 modified '',
          ''%u4f4d%uff1a%u5982%u679c%u810f%uff0c%u5199%u56de block_device '',
          ''%u518d%u6790%u6784%u3002%u8fd9%u4fdd%u8bc1%u300c%u6b63%u5e38%u9000%u51fa%u65f6%u4e00%u5207%u843d%u76d8%u300d%u3002%u4f46%u300ccrash / '',
          ''%u65ad%u7535%u300d%u65f6%u6709 16 %u4e2a%u5757%u7684%u810f%u6570%u636e%u53ef%u80fd'',
          ''%u6c38%u8fdc%u4e22%u5931%u2014%u2014%u771f FS %u7528 journaling (ext4) %u6216 COW '',
          ''(btrfs/zfs) %u89e3%u51b3%u8fd9%u4e2a%u95ee%u9898%uff0c%u672c%u8bfe%u6559%u5b66%u6027'',
          ''%u5730%u5ffd%u7565%u3002'']),
      CodeBlock (Some (js ''rust'')) (jlines [''pub fn sync(&mut self) {'',
          ''    if self.modified {'',
          ''        self.modified = false;'',
          ''        self.block_device.write_block(self.block_id, &self.cache);'',
          ''    }'',
          ''}'',
          ''impl Drop for BlockCache { fn drop(&mut self) { self.sync(); } }'',
          '''',
          ''pub fn block_cache_sync_all() {'',
          ''    // %u5173%u673a%u524d%u5185%u6838%u8c03%u4e00%u6b21%uff0c%u628a%u6240%u6709%u7f13%u5b58%u5168%u90e8%u5237%u56de'',
          ''    for (_, c) in BLOCK_CACHE_MANAGER.lock().queue.iter() {'',
          ''        c.lock().sync();'',
          ''    }'',
          ''}''])]\<rparr>\<close>

definition phase5ZhCN_lesson3_section5 :: ContentSection where
  \<open>phase5ZhCN_lesson3_section5 = \<lparr>
    section_title = js ''modify / read%uff1a%u95ed%u5305%u4f20%u9012 &mut T / &T'',
    section_blocks = [CodeBlock (Some (js ''rust'')) (jlines [''impl BlockCache {'',
          ''    pub fn read<T, V>(&self, offset: usize, f: impl FnOnce(&T) -> V) -> V {'',
          ''        let type_size = core::mem::size_of::<T>();'',
          ''        assert!(offset + type_size <= BLOCK_SZ);'',
          ''        let ptr = (&self.cache[offset] as *const u8) as *const T;'',
          ''        f(unsafe { &*ptr })'',
          ''    }'',
          ''    pub fn modify<T, V>(&mut self, offset: usize, f: impl FnOnce(&mut T) -> V) -> V {'',
          ''        self.modified = true;'',
          ''        let ptr = (&mut self.cache[offset] as *mut u8) as *mut T;'',
          ''        f(unsafe { &mut *ptr })'',
          ''    }'',
          ''}'']),
      CalloutBlock Info (jcat [''%u8fd9%u79cd%u300c%u501f%u51fa%u89c6%u56fe%u518d%u901a%u8fc7%u95ed%u5305%u4fee%u6539'',
          ''%u300d%u7684 API %u662f Rust %u60ef%u7528%u6cd5%u2014%u2014%u5b83%u4fdd%u8bc1 '',
          ''modified %u4f4d%u4e00%u5b9a%u88ab%u8bbe%u7f6e%uff08%u4e0a%u5c42%u5fd8%u4e0d%u6389%uff09'',
          ''%uff0c%u4e5f%u907f%u514d%u8fd4%u56de%u6307%u5411%u7f13%u5b58%u5185%u90e8%u7684%u751f'',
          ''%u501f%u7528%u3002''])]\<rparr>\<close>

definition phase5ZhCN_lesson3_exercise1 :: CodeExercise where
  \<open>phase5ZhCN_lesson3_exercise1 = \<lparr>
    exercise_id = js ''lab3-cache'',
    exercise_title = js ''Lab 3 %u2b50%u2b50 %u5b9e%u73b0 BlockCacheManager'',
    exercise_description = js ''%u5b9e%u73b0 get_block_cache / %u9a71%u9010%u903b%u8f91 / block_cache_sync_all%u3002'',
    exercise_labFile = Some (js ''labs/phase_5_fs/easy-fs/src/block_cache.rs''),
    exercise_hints = [js ''queue.iter().find(|(id,_)| *id == block_id) %u547d%u4e2d%u5224%u65ad'',
       js ''position(|(_, c)| Arc::strong_count(c)==1) %u627e%u53ef%u9a71%u9010%u9879'',
       js ''%u5168%u5c40%u5355%u4f8b%uff1alazy_static! + Mutex<BlockCacheManager>'',
       js ''sync_all %u5728 panic_handler %u548c shutdown %u524d%u90fd%u8981%u8c03''],
    exercise_pseudocode = Some (jlines [''pub fn get_block_cache(block_id, dev) -> Arc<Mutex<BlockCache>> {'',
          ''    if let Some((_, c)) = queue.iter().find(|(id,_)| *id == block_id) {'',
          ''        return c.clone();'',
          ''    }'',
          ''    if queue.len() == BLOCK_CACHE_SIZE {'',
          ''        let (idx, _) = queue.iter().enumerate()'',
          ''            .find(|(_, (_, c))| Arc::strong_count(c) == 1)'',
          ''            .expect("cache full, all lines in use");'',
          ''        queue.drain(idx..=idx);'',
          ''    }'',
          ''    let c = Arc::new(Mutex::new(BlockCache::new(block_id, dev)));'',
          ''    queue.push_back((block_id, c.clone()));'',
          ''    c'',
          ''}''])\<rparr>\<close>

definition phase5ZhCN_lesson3 :: Lesson where
  \<open>phase5ZhCN_lesson3 = \<lparr>
    lesson_phaseId = 5, lesson_lessonId = 3,
    lesson_title = js ''Block Cache%uff1a16 %u8def LRU %u4e3a%u4ec0%u4e48%u80fd%u6551%u547d'',
    lesson_subtitle = jcat [''%u7f13%u5b58%u5757%u800c%u975e%u6587%u4ef6 + %u5199%u56de%u7b56%u7565 + Arc '',
        ''%u5f3a%u5f15%u7528%u9a71%u9010''],
    lesson_type = js ''Concept + Practice'',
    lesson_duration = js ''1.5 hours'',
    lesson_objectives = [jcat [''%u7406%u89e3%u4e3a%u4ec0%u4e48 easy-fs %u5728%u300c%u5757%u300d%u800c%u975e%u300c'',
         ''%u6587%u4ef6%u300d%u7c92%u5ea6%u4e0a%u505a%u7f13%u5b58''],
       jcat [''%u638c%u63e1 LRU %u7684 VecDeque %u5b9e%u73b0%u4e0e%u300c%u5f3a%u5f15%u7528%u4e3a 1 '',
         ''%u624d%u53ef%u9a71%u9010%u300d%u89c4%u5219''],
       jcat [''%u770b%u61c2%u5199%u56de vs %u5199%u901a%u7b56%u7565%u7684%u6743%u8861%uff0c%u4ee5'',
         ''%u53ca sync_all %u5728%u4f55%u65f6%u8c03%u7528''],
       jcat [''%u80fd%u89e3%u91ca%u4e00%u6b21 open("/hello.txt") '',
         ''%u7684%u7f13%u5b58%u547d%u4e2d%u8def%u5f84%uff08%u9884%u671f 2 %u6b21 miss%uff09'']],
    lesson_sections = [phase5ZhCN_lesson3_section1,
      phase5ZhCN_lesson3_section2,
      phase5ZhCN_lesson3_section3,
      phase5ZhCN_lesson3_section4,
      phase5ZhCN_lesson3_section5],
    lesson_exercises = [phase5ZhCN_lesson3_exercise1],
    lesson_acceptanceCriteria = [jcat [''%u7b2c 17 %u6b21%u8bbf%u95ee%u4e0d%u540c%u5757%u65f6%u89e6%u53d1%u9a71%u9010%uff0c'',
         ''%u4e14%u88ab%u9a71%u9010%u7684%u662f%u6700%u65e9%u4e14%u65e0%u4eba%u5360%u7528%u7684''],
       jcat [''shutdown %u4e4b%u524d block_cache_sync_all %u88ab%u8c03%uff0c%u810f%u5757%u5168'',
         ''%u90e8%u843d%u76d8''],
       js ''cargo test --test test_lab3_cache %u901a%u8fc7''],
    lesson_references = [\<lparr>reference_title = js ''xv6 book Ch. 8.2 Buffer cache'',
       reference_description = js ''[%u5fc5%u8bfb] LRU bcache %u7684 C %u5b9e%u73b0%u8bb2%u89e3'',
       reference_url = js ''https://pdos.csail.mit.edu/6.828/2023/xv6/book-riscv-rev3.pdf''\<rparr>,
      \<lparr>reference_title = js ''rCore-Tutorial %u00a76.3.2'',
       reference_description = js ''[%u5fc5%u8bfb] BlockCacheManager %u4ee3%u7801%u9010%u884c'',
       reference_url = js ''https://rcore-os.cn/rCore-Tutorial-Book-v3/chapter6/3fs-implementation.html''\<rparr>,
      \<lparr>reference_title = js ''OSTEP Ch. 40 %u00a740.10 Crash consistency'',
       reference_description = js ''[%u6df1%u5165%u9605%u8bfb] %u5199%u56de%u7b56%u7565%u7684 crash %u98ce%u9669'',
       reference_url = js ''https://pages.cs.wisc.edu/~remzi/OSTEP/file-journaling.pdf''\<rparr>]\<rparr>\<close>

section \<open>Lesson 4\<close>

definition phase5ZhCN_lesson4_section1 :: ContentSection where
  \<open>phase5ZhCN_lesson4_section1 = \<lparr>
    section_title = js ''DiskInode%uff1a128 %u5b57%u8282%u91cc%u585e%u4e0b%u4e00%u4e2a%u6587%u4ef6'',
    section_blocks = [CodeBlock (Some (js ''rust'')) (jlines [''const INODE_DIRECT_COUNT: usize = 28;'',
          ''const INODE_INDIRECT1_COUNT: usize = 128;   // 512 B / 4 B'',
          ''const INODE_INDIRECT2_COUNT: usize = 128 * 128;'',
          '''',
          ''#[repr(C)]'',
          ''pub struct DiskInode {'',
          ''    pub size: u32,                              // %u5b57%u8282%u6570'',
          ''    pub direct: [u32; INODE_DIRECT_COUNT],      // 28 %u4e2a%u76f4%u63a5%u6307%u9488'',
          ''    pub indirect1: u32,                          // %u4e00%u7ea7%u95f4%u63a5%uff1a%u6307%u5411%u5757'',
          ''    pub indirect2: u32,                          // %u4e8c%u7ea7%u95f4%u63a5%uff1a%u6307%u5411%u300c%u6307%u9488%u5757%u300d'',
          ''    type_: DiskInodeType,                        // File / Directory'',
          ''}'',
          ''// %u603b%u5927%u5c0f%uff1a4 + 28*4 + 4 + 4 + 4 = 128 B %uff08%u4e00%u5757%u653e 4 %u4e2a%uff0c%u975e%u5e38%u6574%u9f50%uff09'']),
      CalloutBlock Info (jcat [''%u4e3a%u4ec0%u4e48%u4e0d%u662f inode_bitmap '',
          ''%u7684%u6bcf%u4f4d%u5bf9%u5e94%u4e00%u4e2a inode %u5bf9%u8c61%u2014%u2014inode '',
          ''%u5bf9%u8c61%u672c%u8eab%u4f4f%u5728%u300cinode %u533a%u300d%uff0cbitmap %u53ea%u7ba1%u5206%u914d%u4f4d%u56fe%u3002find '',
          ''%u4e00%u4e2a%u7a7a inode = bitmap.alloc() %u8fd4%u56de%u7684 pos '',
          ''%u5c31%u662f%u5168%u5c40 inode %u7f16%u53f7%uff0cpos / 4 %u2192 %u54ea%u4e00%u5757%uff0cpos %25 4 '',
          ''%u2192 %u5757%u5185%u7b2c%u51e0%u4e2a%u3002''])]\<rparr>\<close>

definition phase5ZhCN_lesson4_section2 :: ContentSection where
  \<open>phase5ZhCN_lesson4_section2 = \<lparr>
    section_title = js ''%u6307%u9488%u6811%uff1a%u4ece%u903b%u8f91%u5757%u53f7%u5230%u7269%u7406%u5757%u53f7'',
    section_blocks = [DiagramBlock (jlines [''           %u250c%u2500 direct[0]  %r152500%u25ba block#A0  (512 B)'',
          ''           %u251c%u2500 direct[1]  %r152500%u25ba block#A1'',
          ''           %u2502  ...'',
          ''DiskInode %u2500%u253c%u2500 direct[27] %r152500%u25ba block#A27        14 KiB %u5408%u8ba1'',
          ''           %u2502'',
          ''           %u251c%u2500 indirect1 %u2500%u2500%u25ba block#I1'',
          ''           %u2502                 %u250c%r0e2500%u2510'',
          ''           %u2502                 %u2502 u32[128]     %u2502%u2500%u2500%u25ba block#B0        64 KiB %u5408%u8ba1'',
          ''           %u2502                 %u2502              %u2502%u2500%u2500%u25ba block#B1'',
          ''           %u2502                 %u2502              %u2502%u2500%u2500%u25ba ...'',
          ''           %u2502                 %u2514%r0e2500%u2518'',
          ''           %u2502'',
          ''           %u2514%u2500 indirect2 %u2500%u2500%u25ba block#I2'',
          ''                             %u250c%r0e2500%u2510'',
          ''                             %u2502 u32[128]     %u2502%u2500%u2500%u25ba block#C0 (%u4e8c%u7ea7%u6307%u9488%u5757)'',
          ''                             %u2502              %u2502       %u250c%r0e2500%u2510'',
          ''                             %u2502              %u2502       %u2502 u32[128]     %u2502%u2500%u2500%u25ba D0 (%u6570%u636e)'',
          ''                             %u2502              %u2502       %u2502              %u2502%u2500%u2500%u25ba D1'',
          ''                             %u2502              %u2502       %u2514%r0e2500%u2518'',
          ''                             %u2514%r0e2500%u2518                    8 MiB %u5408%u8ba1'',
          '''',
          ''%u6700%u5927%u6587%u4ef6%uff1a28 %u00d7 512 + 128 %u00d7 512 + 128 %u00d7 128 %u00d7 512'',
          ''       = 14 KiB + 64 KiB + 8 MiB %u2248 8.08 MiB'']),
      TableBlock [js ''%u8303%u56f4'',
         js ''n %u7684%u503c'',
         js ''%u516c%u5f0f'']
        [[js ''%u76f4%u63a5%u5757'',
          js ''0 %u2264 n < 28'',
          js ''direct[n]''],
         [js ''%u4e00%u7ea7%u95f4%u63a5'',
          js ''28 %u2264 n < 156'',
          js ''indirect1_block[n - 28]''],
         [js ''%u4e8c%u7ea7%u95f4%u63a5'',
          js ''156 %u2264 n < 16540'',
          js ''indirect2_block[(n-156)/128][(n-156)%25128]'']],
      CodeBlock (Some (js ''rust'')) (jlines [''pub fn get_block_id(&self, inner_id: u32, dev: &Arc<dyn BlockDevice>) -> u32 {'',
          ''    let n = inner_id as usize;'',
          ''    if n < INODE_DIRECT_COUNT {'',
          ''        self.direct[n]'',
          ''    } else if n < INODE_DIRECT_COUNT + INODE_INDIRECT1_COUNT {'',
          ''        get_block_cache(self.indirect1 as usize, dev).lock()'',
          ''            .read(0, |b: &IndirectBlock| b[n - INODE_DIRECT_COUNT])'',
          ''    } else {'',
          ''        let last = n - INODE_DIRECT_COUNT - INODE_INDIRECT1_COUNT;'',
          ''        let a0 = get_block_cache(self.indirect2 as usize, dev).lock()'',
          ''            .read(0, |b: &IndirectBlock| b[last / INODE_INDIRECT1_COUNT]);'',
          ''        get_block_cache(a0 as usize, dev).lock()'',
          ''            .read(0, |b: &IndirectBlock| b[last %25 INODE_INDIRECT1_COUNT])'',
          ''    }'',
          ''}'']),
      CalloutBlock Warning (jcat [''increase_size %u8981%u6309%u987a%u5e8f%u5206%u914d%uff1a%u5148%u586b%u6ee1 '',
          ''direct%uff0c%u518d%u5206%u914d indirect1 %u81ea%u8eab + 128 '',
          ''%u4e2a%u69fd%u4f4d%uff0c%u518d%u5206%u914d indirect2 + %u82e5%u5e72%u4e8c%u7ea7%u6307%u9488%u5757 + '',
          ''%u6570%u636e%u5757%u3002%u987a%u5e8f%u9519%u4e86%uff0ctruncate '',
          ''%u65f6%u91ca%u653e%u6b21%u5e8f%u4e5f%u4f1a%u9519%u3002''])]\<rparr>\<close>

definition phase5ZhCN_lesson4_section3 :: ContentSection where
  \<open>phase5ZhCN_lesson4_section3 = \<lparr>
    section_title = js ''read_at / write_at %u7684%u6838%u5fc3%u5faa%u73af'',
    section_blocks = [CodeBlock (Some (js ''rust'')) (jlines [''pub fn read_at(&self, offset: usize, buf: &mut [u8], dev: &Arc<dyn BlockDevice>) -> usize {'',
          ''    let mut start = offset;'',
          ''    let end = (offset + buf.len()).min(self.size as usize);'',
          ''    if start >= end { return 0; }'',
          ''    let mut start_block = start / BLOCK_SZ;'',
          ''    let mut out = 0usize;'',
          ''    while start < end {'',
          ''        let end_current_block = ((start / BLOCK_SZ + 1) * BLOCK_SZ).min(end);'',
          ''        let block_read = end_current_block - start;'',
          ''        let dst = &mut buf[out..out + block_read];'',
          ''        let block_id = self.get_block_id(start_block as u32, dev);'',
          ''        get_block_cache(block_id as usize, dev).lock()'',
          ''            .read(0, |d: &DataBlock| {'',
          ''                let src = &d[start %25 BLOCK_SZ..start %25 BLOCK_SZ + block_read];'',
          ''                dst.copy_from_slice(src);'',
          ''            });'',
          ''        out += block_read;'',
          ''        start = end_current_block;'',
          ''        start_block += 1;'',
          ''    }'',
          ''    out'',
          ''}'']),
      ParagraphBlock (jcat [''%u4e09%u4e2a%u6613%u9519%u70b9%uff1a(1) %u8d77%u59cb / '',
          ''%u7ed3%u5c3e%u7684%u300c%u4e0d%u5b8c%u6574%u5757%u300d%u8981%u6309 %25 '',
          ''%u504f%u79fb%u53ea%u62f7%u8d1d%u90e8%u5206%uff1b(2) buf %u5c0f%u4e8e%u6587%u4ef6%u5269%u4f59%u5927%u5c0f%u65f6%u7528 '',
          ''min(offset + buf.len(), size)%uff1b(3) write_at %u5fc5%u987b%u786e%u4fdd offset + '',
          ''buf.len() %u2264 size%u2014%u2014%u589e%u957f%u6587%u4ef6%u662f increase_size '',
          ''%u7684%u804c%u8d23%uff0cwrite_at %u4e0d%u81ea%u52a8%u6269%u5bb9%u3002''])]\<rparr>\<close>

definition phase5ZhCN_lesson4_section4 :: ContentSection where
  \<open>phase5ZhCN_lesson4_section4 = \<lparr>
    section_title = js ''DirEntry%uff1a%u76ee%u5f55%u5c31%u662f%u4e00%u4e2a%u6587%u4ef6'',
    section_blocks = [DiagramBlock (jlines [''byte  0                            27 28        31'',
          ''     %u250c%r1e2500%u252c%r0c2500%u2510'',
          ''     %u2502 name (NUL-padded, %u2264 27 %u5b57%u7b26) %u2502 inode (u32)%u2502'',
          ''     %u2514%r1e2500%u2534%r0c2500%u2518'',
          ''  %u4e00%u9879 32 B%uff1b%u4e00%u5757 512 B %u653e 16 %u9879%u3002'',
          ''  %u76ee%u5f55%u6587%u4ef6%u5c31%u662f DirEntry %u7684%u6570%u7ec4%uff0cls %u5c31%u662f read_at %u5168%u90e8 + %u904d%u5386%u3002'',
          '''',
          ''%u6839%u76ee%u5f55%u793a%u4f8b%uff1a'',
          '' %u250c%r0e2500%u252c%r062500%u2510'',
          '' %u2502 "hello.txt"  %u2502  12  %u2502'',
          '' %u251c%r0e2500%u253c%r062500%u2524'',
          '' %u2502 "apps/"      %u2502   7  %u2502   %u2190 %u672c%u8bfe%u4e0d%u5206 "/" %u7ed3%u5c3e%uff0c%u7c7b%u578b%u5728 inode %u81ea%u5e26'',
          '' %u251c%r0e2500%u253c%r062500%u2524'',
          '' %u2502 ""   (%u7a7a%u9879)  %u2502   0  %u2502   %u2190 %u5220%u9664%u540e%u4e0d%u6574%u7406%uff0c%u7559%u7a7a'',
          '' %u2514%r0e2500%u2534%r062500%u2518'']),
      CodeBlock (Some (js ''rust'')) (jlines [''pub fn find(&self, name: &str) -> Option<Arc<Inode>> {'',
          ''    self.read_disk_inode(|d| {'',
          ''        assert!(d.is_dir());'',
          ''        let count = (d.size as usize) / DIRENT_SZ;'',
          ''        for i in 0..count {'',
          ''            let mut ent = DirEntry::empty();'',
          ''            d.read_at(i * DIRENT_SZ, ent.as_bytes_mut(), &self.block_device);'',
          ''            if ent.name() == name {'',
          ''                return Some(Arc::new(Inode::new(ent.inode_id(), ...)));'',
          ''            }'',
          ''        }'',
          ''        None'',
          ''    })'',
          ''}'']),
      CalloutBlock Tip (jcat [''O(n) %u7684%u7ebf%u6027%u641c%u7d22%u5bf9%u767e%u9879%u5185%u7684%u76ee%u5f55%u8db3'',
          ''%u591f%u5feb%u3002ext4 %u7684 htree / btrfs %u7684 B '',
          ''%u6811%u662f%u628a%u5b83%u5347%u7ea7%u5230 O(log n) %u7684%u65b9%u6848%u2014%u2014%u4f46%u5728 easy-fs '',
          ''%u7684%u6559%u5b66%u89c4%u6a21%u4e0b%uff0clinear scan '',
          ''%u6bd4%u4efb%u4f55%u82b1%u54e8%u6570%u636e%u7ed3%u6784%u90fd%u6e05%u6670%u6613%u61c2%u3002''])]\<rparr>\<close>

definition phase5ZhCN_lesson4_section5 :: ContentSection where
  \<open>phase5ZhCN_lesson4_section5 = \<lparr>
    section_title = js ''create%uff1a%u628a%u4e09%u4ef6%u4e8b%u7f1d%u8d77%u6765'',
    section_blocks = [ListBlock True
        [jcat [''fs.alloc_inode() %u2014%u2014 inode bitmap %u5206%u914d%u4e00%u4e2a '',
           ''pos%uff0c%u5f97%u5230%u5168%u5c40 inode_id''],
         jcat [''%u5728 inode %u533a%u5bf9%u5e94%u4f4d%u7f6e%u5199%u5165%u65b0 '',
           ''DiskInode%uff08type=File%uff0csize=0%uff0c%u6240%u6709%u6307%u9488 0%uff09''],
         jcat [''%u5728%u5f53%u524d%u76ee%u5f55%u672b%u5c3e append %u4e00%u6761 DirEntry(name, '',
           ''inode_id)%u2014%u2014%u9700%u8981%u5148 increase_size(+32)'']],
      ParagraphBlock (jcat [''%u4e09%u4ef6%u4e8b%u4efb%u4e00%u6b65%u5931%u8d25%u90fd%u8981%u56de%u6eda%u2014%u2014'',
          ''%u672c%u8bfe%u7b80%u5316%uff1acreate %u4e0d%u652f%u6301%u5e76%u53d1%uff0c%u5931'',
          ''%u8d25%u76f4%u63a5 panic%u3002%u771f FS %u8981%u5728 journal '',
          ''%u91cc%u8bb0%u5f55%u300c%u539f%u5b50%u7ec4%u300d%uff0c%u5168%u90e8%u6210%u529f%u624d%u63d0%u4ea4%u3002''])]\<rparr>\<close>

definition phase5ZhCN_lesson4_exercise1 :: CodeExercise where
  \<open>phase5ZhCN_lesson4_exercise1 = \<lparr>
    exercise_id = js ''lab4-getblock'',
    exercise_title = js ''Lab 4a %u2b50%u2b50 %u5b9e%u73b0 DiskInode::get_block_id'',
    exercise_description = jcat [''%u4e09%u6bb5%u5206%u652f%uff0c%u5b9a%u4f4d%u903b%u8f91%u5757 n '',
        ''%u7684%u7269%u7406%u5757%u53f7%u3002%u52a1%u5fc5%u7528 get_block_cache '',
        ''%u8bfb%u95f4%u63a5%u5757%uff0c%u4e0d%u8981%u76f4%u63a5 block_device.read_block%u3002''],
    exercise_labFile = Some (js ''labs/phase_5_fs/easy-fs/src/layout.rs''),
    exercise_hints = [js ''IndirectBlock = [u32; 128] %u4e0e BlockCache::read %u7684%u95ed%u5305%u5bf9%u63a5'',
       jcat [''%u8fb9%u754c%u6761%u4ef6%uff1an == INODE_DIRECT_COUNT - 1 %u662f direct '',
         ''%u6700%u540e%u4e00%u4e2a''],
       jcat [''%u907f%u514d as usize %u6ea2%u51fa%u2014%u2014%u5148%u68c0%u67e5 n '',
         ''%u8303%u56f4%u518d%u51cf%u504f%u79fb'']],
    exercise_pseudocode = None\<rparr>\<close>

definition phase5ZhCN_lesson4_exercise2 :: CodeExercise where
  \<open>phase5ZhCN_lesson4_exercise2 = \<lparr>
    exercise_id = js ''lab4-readat'',
    exercise_title = js ''Lab 4b %r032b50 %u5b9e%u73b0 DiskInode::read_at / write_at'',
    exercise_description = jcat [''%u5faa%u73af%u6309%u5757%u62f7%u8d1d%uff0c%u5904%u7406%u9996%u5c3e%u4e0d%u5b8c%u6574'',
        ''%u5757%u3002%u5199%u4e00%u4e2a%u5355%u5143%u6d4b%u8bd5%uff1a%u521b%u5efa%u4e00%u4e2a'',
        '' 1.5 KiB %u7684%u6587%u4ef6%uff0c%u4ece offset=100 %u8bfb 1200 '',
        ''B%uff0c%u9a8c%u8bc1%u8de8%u5757%u6b63%u786e%u3002''],
    exercise_labFile = Some (js ''labs/phase_5_fs/easy-fs/src/layout.rs''),
    exercise_hints = [js ''max_inner_id = (size + BLOCK_SZ - 1) / BLOCK_SZ'',
       js ''write_at %u4e0d%u6269%u5bb9%u2014%u2014%u5148%u8c03 increase_size %u518d%u5199'',
       js ''end_current_block %u7528 (start/BLOCK_SZ + 1) * BLOCK_SZ''],
    exercise_pseudocode = None\<rparr>\<close>

definition phase5ZhCN_lesson4_exercise3 :: CodeExercise where
  \<open>phase5ZhCN_lesson4_exercise3 = \<lparr>
    exercise_id = js ''lab4-vfs'',
    exercise_title = js ''Lab 4c %u2b50%u2b50 %u5b9e%u73b0 Inode::{find, create, ls}'',
    exercise_description = jcat [''%u76ee%u5f55%u64cd%u4f5c%u3002find %u7ebf%u6027%u626b%u63cf%uff1bcreate '',
        ''%u4e09%u6b65%u8d70%uff1bls %u8fd4%u56de Vec<String>%u3002''],
    exercise_labFile = Some (js ''labs/phase_5_fs/easy-fs/src/vfs.rs''),
    exercise_hints = [js ''%u5168%u5c40 fs %u5355%u4f8b%u901a%u8fc7 Arc<Mutex<EasyFileSystem>> %u6301%u6709'',
       jcat [''%u4fee%u6539%u76ee%u5f55%u540e%u52a1%u5fc5 block_cache_sync_all%uff0c%u5426%u5219 '',
         ''reboot %u540e%u4e22%u5931''],
       js ''name > 27 %u5b57%u7b26%u5e94%u8fd4%u56de%u9519%u8bef%uff0c%u522b%u8d8a%u754c''],
    exercise_pseudocode = None\<rparr>\<close>

definition phase5ZhCN_lesson4 :: Lesson where
  \<open>phase5ZhCN_lesson4 = \<lparr>
    lesson_phaseId = 5, lesson_lessonId = 4,
    lesson_title = js ''DiskInode %u4e0e%u76ee%u5f55%u9879%uff1a%u6307%u9488%u6811%u548c%u540d%u5b57%u89e3%u6790'',
    lesson_subtitle = jcat [''%u76f4%u63a5 / %u4e00%u7ea7 / %u4e8c%u7ea7%u95f4%u63a5%u5757 + 32 '',
        ''%u5b57%u8282%u76ee%u5f55%u9879''],
    lesson_type = js ''Concept + Practice'',
    lesson_duration = js ''2 hours'',
    lesson_objectives = [js ''%u8bb0%u4f4f 128 %u5b57%u8282 DiskInode %u7684%u5b8c%u6574%u5b57%u6bb5%u5e03%u5c40'',
       jcat [''%u770b%u61c2 get_block_id(n) %u7684%u4e09%u6bb5%u5206%u652f%uff1adirect / indirect1 '',
         ''/ indirect2''],
       jcat [''%u80fd%u7b97%u51fa%u6700%u5927%u6587%u4ef6%u5927%u5c0f %u2248 8.08 '',
         ''MiB%uff0c%u5e76%u7406%u89e3%u4e3a%u4ec0%u4e48%u662f%u8fd9%u4e2a%u6570''],
       jcat [''%u5b9e%u73b0 Inode::find / create / ls%uff0c%u638c%u63e1%u76ee%u5f55%u5373%u6587'',
         ''%u4ef6%u7684%u601d%u60f3'']],
    lesson_sections = [phase5ZhCN_lesson4_section1,
      phase5ZhCN_lesson4_section2,
      phase5ZhCN_lesson4_section3,
      phase5ZhCN_lesson4_section4,
      phase5ZhCN_lesson4_section5],
    lesson_exercises = [phase5ZhCN_lesson4_exercise1, phase5ZhCN_lesson4_exercise2, phase5ZhCN_lesson4_exercise3],
    lesson_acceptanceCriteria = [jcat [''cargo test --test test_lab4_inode %u901a%u8fc7%uff1a%u5199%u5165 7 MiB %u6587%u4ef6 '',
         ''%u2192 %u5173%u6389 %u2192 %u91cd%u5f00 %u2192 %u8bfb%u56de%u4e00%u81f4''],
       jcat [''ls / %u8fd4%u56de%u5f53%u524d%u76ee%u5f55%u4e0b%u6240%u6709%u6587%u4ef6%u540d%uff0c'',
         ''%u4e14%u987a%u5e8f%u4e0e%u521b%u5efa%u987a%u5e8f%u4e00%u81f4''],
       jcat [''%u80fd%u6b63%u786e%u62a5%u51fa%u6700%u5927%u6587%u4ef6%u5927%u5c0f%uff08%u6574%u6570'',
         ''%u5b57%u8282%u503c%uff09'']],
    lesson_references = [\<lparr>reference_title = js ''xv6 book Ch. 8.10 Directory layer'',
       reference_description = js ''[%u5fc5%u8bfb] dirlink / dirlookup %u7684 C %u5b9e%u73b0'',
       reference_url = js ''https://pdos.csail.mit.edu/6.828/2023/xv6/book-riscv-rev3.pdf''\<rparr>,
      \<lparr>reference_title = js ''OSTEP Ch. 39 File system implementation'',
       reference_description = js ''[%u5fc5%u8bfb] inode %u6307%u9488%u6811%u7684%u7ecf%u5178%u8bb2%u89e3'',
       reference_url = js ''https://pages.cs.wisc.edu/~remzi/OSTEP/file-implementation.pdf''\<rparr>,
      \<lparr>reference_title = js ''rCore-Tutorial %u00a76.3.5-6.3.6'',
       reference_description = js ''[%u5fc5%u8bfb] DiskInode %u4e0e Inode %u4e2d%u6587%u89e3%u6790'',
       reference_url = js ''https://rcore-os.cn/rCore-Tutorial-Book-v3/chapter6/3fs-implementation.html''\<rparr>,
      \<lparr>reference_title = js ''Linux fs/ext2/inode.c'',
       reference_description = js ''[%u6df1%u5165%u9605%u8bfb] %u5de5%u4e1a%u7ea7 inode %u7684 truncate / extend %u903b%u8f91'',
       reference_url = js ''https://git.kernel.org/pub/scm/linux/kernel/git/torvalds/linux.git/tree/fs/ext2/inode.c''\<rparr>]\<rparr>\<close>

section \<open>Lesson 5\<close>

definition phase5ZhCN_lesson5_section1 :: ContentSection where
  \<open>phase5ZhCN_lesson5_section1 = \<lparr>
    section_title = js ''File trait%uff1a%u7edf%u4e00%u62bd%u8c61'',
    section_blocks = [CodeBlock (Some (js ''rust'')) (jlines [''pub trait File: Send + Sync {'',
          ''    fn readable(&self) -> bool;'',
          ''    fn writable(&self) -> bool;'',
          ''    fn read(&self, buf: UserBuffer) -> usize;'',
          ''    fn write(&self, buf: UserBuffer) -> usize;'',
          ''}'']),
      DiagramBlock (jlines [''                   %u250c%u2500 Stdin   (%u4ece sbi_console %u8bfb 1 %u5b57%u8282)'',
          ''                   %u2502'',
          ''trait File %r082500%u253c%u2500 Stdout  (%u5f80 println! %u5199)'',
          ''                   %u2502'',
          ''                   %u2514%u2500 OSInode (%u5305%u88c5 easy_fs::Inode)'',
          '''',
          ''%u8fdb%u7a0b%u7684 fd_table: Vec<Option<Arc<dyn File>>>'',
          '''',
          ''fd=0 %u2192 Stdin'',
          ''fd=1 %u2192 Stdout'',
          ''fd=2 %u2192 Stdout%uff08%u672a%u5b9e%u73b0 stderr%uff0c%u5408%u5e76%uff09'',
          ''fd%u22653 %u2192 OSInode%uff08open %u540e%u5206%u914d%uff09'',
          '''',
          ''sys_read(fd, buf, n):'',
          ''  file = task.fd_table[fd].clone()?'',
          ''  assert!(file.readable())'',
          ''  file.read(UserBuffer::new(buf, n))  %u2190 %u7edf%u4e00%u5165%u53e3%uff0c%u4e0d%u5173%u5fc3%u4e0b%u5c42%u7c7b%u578b'']),
      CalloutBlock Info (jcat [''%u8fd9%u4e2a trait %u662f Unix %u54f2%u5b66%u300c%u4e00%u5207%u7686%u6587%u4ef6'',
          ''%u300d%u7684%u843d%u5730%uff1a%u7ba1%u9053%u3001%u5957%u63a5%u5b57%u3001%u7ec8%u7aef'',
          ''%u90fd%u80fd%u585e%u8fdb fd_table%u3002Phase 6 %u7684 pipe %u5c31%u662f%u5b9e%u73b0 '',
          ''File %u7684%u7b2c%u56db%u79cd%u7c7b%u578b%u3002''])]\<rparr>\<close>

definition phase5ZhCN_lesson5_section2 :: ContentSection where
  \<open>phase5ZhCN_lesson5_section2 = \<lparr>
    section_title = js ''OSInode%uff1a%u7ed9 easy-fs Inode %u52a0%u6e38%u6807'',
    section_blocks = [CodeBlock (Some (js ''rust'')) (jlines [''pub struct OSInode {'',
          ''    readable: bool,'',
          ''    writable: bool,'',
          ''    inner: Mutex<OSInodeInner>,'',
          ''}'',
          ''struct OSInodeInner {'',
          ''    offset: usize,                  // %u5f53%u524d%u8bfb%u5199%u4f4d%u7f6e'',
          ''    inode: Arc<easy_fs::Inode>,'',
          ''}'',
          '''',
          ''impl File for OSInode {'',
          ''    fn read(&self, mut buf: UserBuffer) -> usize {'',
          ''        let mut inner = self.inner.lock();'',
          ''        let mut total = 0;'',
          ''        for slice in buf.buffers.iter_mut() {'',
          ''            let n = inner.inode.read_at(inner.offset, slice);'',
          ''            if n == 0 { break; }'',
          ''            inner.offset += n;'',
          ''            total += n;'',
          ''        }'',
          ''        total'',
          ''    }'',
          ''    fn write(&self, buf: UserBuffer) -> usize {'',
          ''        let mut inner = self.inner.lock();'',
          ''        let mut total = 0;'',
          ''        for slice in buf.buffers.iter() {'',
          ''            let n = inner.inode.write_at(inner.offset, slice);'',
          ''            assert_eq!(n, slice.len());'',
          ''            inner.offset += n;'',
          ''            total += n;'',
          ''        }'',
          ''        total'',
          ''    }'',
          ''}'']),
      ParagraphBlock (jcat [''UserBuffer %u662f Phase 4 %u5df2%u6709%u7684%u5de5%u5177%uff1a%u8de8%u9875%u7684'',
          ''%u7528%u6237%u7f13%u51b2%u533a%u62c6%u6210%u82e5%u5e72%u8fde%u7eed%u5207%u7247%u3002'',
          ''%u5faa%u73af%u6bcf%u6bb5%u8c03%u4e00%u6b21 inode.read_at/write_at%u2014%u2014%u4e0b'',
          ''%u5c42 easy-fs %u6839%u672c%u4e0d%u77e5%u9053 buf '',
          ''%u5728%u7528%u6237%u6001%u8fd8%u662f%u5185%u6838%u6001%u3002''])]\<rparr>\<close>

definition phase5ZhCN_lesson5_section3 :: ContentSection where
  \<open>phase5ZhCN_lesson5_section3 = \<lparr>
    section_title = js ''Stdin / Stdout%uff1a%u4e24%u4e2a%u9000%u5316%u5b9e%u73b0'',
    section_blocks = [CodeBlock (Some (js ''rust'')) (jlines [''pub struct Stdin;'',
          ''pub struct Stdout;'',
          '''',
          ''impl File for Stdin {'',
          ''    fn readable(&self) -> bool { true }'',
          ''    fn writable(&self) -> bool { false }'',
          ''    fn read(&self, mut buf: UserBuffer) -> usize {'',
          ''        assert_eq!(buf.len(), 1);          // %u4e00%u6b21%u8bfb%u4e00%u4e2a%u5b57%u8282%uff08%u7b80%u5316%uff09'',
          ''        let c = loop {'',
          ''            let c = sbi::console_getchar();'',
          ''            if c != 0 { break c as u8; }'',
          ''            suspend_current_and_run_next();    // %u6ca1%u8f93%u5165%u5c31%u8ba9%u51fa'',
          ''        };'',
          ''        unsafe { buf.buffers[0].as_mut_ptr().write_volatile(c); }'',
          ''        1'',
          ''    }'',
          ''    fn write(&self, _: UserBuffer) -> usize { panic!("Stdin not writable"); }'',
          ''}'',
          '''',
          ''impl File for Stdout {'',
          ''    fn readable(&self) -> bool { false }'',
          ''    fn writable(&self) -> bool { true }'',
          ''    fn read(&self, _: UserBuffer) -> usize { panic!("Stdout not readable"); }'',
          ''    fn write(&self, buf: UserBuffer) -> usize {'',
          ''        for slice in buf.buffers.iter() {'',
          ''            print!("{}", core::str::from_utf8(slice).unwrap());'',
          ''        }'',
          ''        buf.len()'',
          ''    }'',
          ''}'']),
      CalloutBlock Tip (jcat [''Stdin %u7684 console_getchar %u975e%u963b%u585e %u2014%u2014 %u8fd4%u56de 0 %u5c31 '',
          ''yield %u8ba9%u8c03%u5ea6%u5668%u8dd1%u522b%u7684%u4efb%u52a1%u3002%u8fd9%u662f%u6700'',
          ''%u6734%u7d20%u7684%u300c%u534f%u4f5c%u5f0f I/O '',
          ''%u591a%u8def%u590d%u7528%u300d%u3002Phase 6 '',
          ''%u4f1a%u6362%u6210%u57fa%u4e8e%u4fe1%u53f7%u91cf%u7684%u963b%u585e%u5524%u9192%u3002''])]\<rparr>\<close>

definition phase5ZhCN_lesson5_section4 :: ContentSection where
  \<open>phase5ZhCN_lesson5_section4 = \<lparr>
    section_title = js ''open_file%uff1a%u7ffb%u8bd1 flags %u5230 easy-fs %u64cd%u4f5c'',
    section_blocks = [CodeBlock (Some (js ''rust'')) (jlines [''bitflags! {'',
          ''    pub struct OpenFlags: u32 {'',
          ''        const RDONLY = 0;'',
          ''        const WRONLY = 1 << 0;'',
          ''        const RDWR   = 1 << 1;'',
          ''        const CREATE = 1 << 9;'',
          ''        const TRUNC  = 1 << 10;'',
          ''    }'',
          ''}'',
          ''impl OpenFlags { pub fn read_write(&self) -> (bool, bool) { ... } }'',
          '''',
          ''pub fn open_file(name: &str, flags: OpenFlags) -> Option<Arc<OSInode>> {'',
          ''    let (r, w) = flags.read_write();'',
          ''    if flags.contains(OpenFlags::CREATE) {'',
          ''        if let Some(inode) = ROOT.find(name) {'',
          ''            inode.clear();                      // O_TRUNC %u8bed%u4e49'',
          ''            Some(Arc::new(OSInode::new(r, w, inode)))'',
          ''        } else {'',
          ''            let inode = ROOT.create(name)?;'',
          ''            Some(Arc::new(OSInode::new(r, w, inode)))'',
          ''        }'',
          ''    } else {'',
          ''        let inode = ROOT.find(name)?;'',
          ''        if flags.contains(OpenFlags::TRUNC) { inode.clear(); }'',
          ''        Some(Arc::new(OSInode::new(r, w, inode)))'',
          ''    }'',
          ''}''])]\<rparr>\<close>

definition phase5ZhCN_lesson5_section5 :: ContentSection where
  \<open>phase5ZhCN_lesson5_section5 = \<lparr>
    section_title = js ''sys_open/read/write/close %u56db%u4e2a%u7cfb%u7edf%u8c03%u7528'',
    section_blocks = [CodeBlock (Some (js ''rust'')) (jlines [''pub fn sys_open(path: *const u8, flags: u32) -> isize {'',
          ''    let token = current_user_token();'',
          ''    let path = translated_str(token, path);'',
          ''    let flags = OpenFlags::from_bits(flags).unwrap();'',
          ''    if let Some(inode) = open_file(path.as_str(), flags) {'',
          ''        let fd = current_task().alloc_fd(inode);'',
          ''        fd as isize'',
          ''    } else { -1 }'',
          ''}'',
          ''pub fn sys_close(fd: usize) -> isize {'',
          ''    let t = current_task();'',
          ''    if t.fd_table[fd].is_none() { return -1; }'',
          ''    t.fd_table[fd].take();                   // %u91ca%u653e Arc<dyn File>'',
          ''    0'',
          ''}'',
          ''pub fn sys_read(fd, buf, n) -> isize {'',
          ''    let file = current_task().fd_table[fd].clone()?;'',
          ''    if !file.readable() { return -1; }'',
          ''    let buf = UserBuffer::new(translated_byte_buffer(token, buf, n));'',
          ''    file.read(buf) as isize'',
          ''}'',
          ''// sys_write %u955c%u50cf%u5bf9%u79f0'']),
      CalloutBlock Warning (jcat [''fd_table %u7684%u5206%u914d%u7b56%u7565%uff1a%u627e%u7b2c%u4e00%u4e2a None '',
          ''%u590d%u7528%u3002%u8fd9%u4fdd%u8bc1 fd %u4e0d%u4f1a%u65e0%u9650%u589e%u957f%uff0c%u4e5f'',
          ''%u7b26%u5408 Unix%u300copen %u8fd4%u56de%u6700%u5c0f%u672a%u7528 '',
          ''fd%u300d%u7684%u89c4%u8303%u3002close %u4e4b%u540e Arc %u8ba1%u6570%u5f52 0%uff0cOSInode '',
          ''%u6790%u6784%u2014%u2014%u4f46 easy-fs::Inode %u53ef%u80fd%u8fd8%u88ab%u522b%u7684 fd '',
          ''%u5171%u4eab%uff0c%u6240%u4ee5 Arc %u5f88%u91cd%u8981%u3002''])]\<rparr>\<close>

definition phase5ZhCN_lesson5_section6 :: ContentSection where
  \<open>phase5ZhCN_lesson5_section6 = \<lparr>
    section_title = js ''%u6574%u5408%u9a8c%u6536%u6d41%u7a0b'',
    section_blocks = [DiagramBlock (jlines [''user$ echo hello > greeting'',
          ''        %u2193 shell fork+exec'',
          ''user%u7a0b%u5e8f%u8c03 sys_open("greeting", WRONLY|CREATE|TRUNC)'',
          ''        %u2193 ecall'',
          ''sys_open %u2192 open_file %u2192 ROOT.create("greeting") %u2192 %u5206%u914d inode + %u5199 DirEntry'',
          ''                       block_cache_sync_all'',
          ''        %u2193 %u8fd4%u56de fd=3'',
          ''sys_write(3, "hello%5cn", 6) %u2192 OSInode::write %u2192 Inode::write_at'',
          ''                                               %u2192 DiskInode::write_at'',
          ''                                               %u2192 BlockCache.modify'',
          ''                                                 (%u810f%u6807%u8bb0%uff0cDrop %u65f6%u5237%u56de)'',
          ''sys_close(3)                %u2192 Arc drop %u2192 %u6700%u540e%u4e00%u4e2a fd %u8d70%uff0cOSInode drop'',
          ''                                         OSInode drop %u2192 Inode drop%uff08%u5982%u679c%u662f%u6700%u540e%uff09'',
          '''',
          ''reboot %u2192 easy-fs %u91cd%u65b0%u8bfb SuperBlock %u2192 ROOT.find("greeting") %u2192 %u5185%u5bb9%u5b8c%u597d %u2713''])]\<rparr>\<close>

definition phase5ZhCN_lesson5_exercise1 :: CodeExercise where
  \<open>phase5ZhCN_lesson5_exercise1 = \<lparr>
    exercise_id = js ''lab5-osinode'',
    exercise_title = js ''Lab 5a %u2b50%u2b50 %u5b9e%u73b0 OSInode + open_file'',
    exercise_description = js ''%u8ba9 easy-fs Inode %u80fd%u5145%u5f53 File%u3002'',
    exercise_labFile = Some (js ''labs/phase_5_fs/src/fs/inode.rs''),
    exercise_hints = [js ''OSInodeInner %u7528 Mutex %u4fdd%u62a4 offset + inode'',
       js ''flags.read_write() %u8fd4%u56de (readable, writable) %u4e8c%u5143%u7ec4'',
       jcat [''CREATE %u4f46%u6587%u4ef6%u5df2%u5b58%u5728%u7684%u8bed%u4e49 = O_TRUNC '',
         ''%u6e05%u7a7a%u540e%u590d%u7528'']],
    exercise_pseudocode = None\<rparr>\<close>

definition phase5ZhCN_lesson5_exercise2 :: CodeExercise where
  \<open>phase5ZhCN_lesson5_exercise2 = \<lparr>
    exercise_id = js ''lab5-stdio'',
    exercise_title = js ''Lab 5b %u2b50 %u5b9e%u73b0 Stdin / Stdout'',
    exercise_description = jcat [''%u5728%u8fdb%u7a0b%u542f%u52a8%u65f6%u628a Stdin/Stdout %u7684 Arc %u586b%u5165 '',
        ''fd_table[0..=2]%u3002''],
    exercise_labFile = Some (js ''labs/phase_5_fs/src/fs/stdio.rs''),
    exercise_hints = [jcat [''fd=2 %u6682%u65f6%u6307%u5411%u540c%u4e00%u4e2a Stdout%uff08stderr %u7559%u5230 '',
         ''Phase 6%uff09''],
       js ''Stdin::read %u91cc sbi_console_getchar %u8fd4%u56de u8''],
    exercise_pseudocode = None\<rparr>\<close>

definition phase5ZhCN_lesson5_exercise3 :: CodeExercise where
  \<open>phase5ZhCN_lesson5_exercise3 = \<lparr>
    exercise_id = js ''lab5-syscall'',
    exercise_title = js ''Lab 5c %u2b50%u2b50 sys_open/read/write/close'',
    exercise_description = jcat [''%u63a5%u5165 syscall %u8868%uff0c%u8bfb%u5199%u90fd%u8981%u8fc7 UserBuffer '',
        ''%u4ee5%u5904%u7406%u8de8%u9875%u3002''],
    exercise_labFile = Some (js ''labs/phase_5_fs/src/syscall/fs.rs''),
    exercise_hints = [js ''path %u4ece%u7528%u6237%u6001%u6307%u9488%u62f7%u8d1d%u7528 translated_str'',
       js ''buf %u7684%u7528%u6237%u7269%u7406%u5185%u5b58%u7528 translated_byte_buffer %u5207%u7247'',
       jcat [''sys_close %u8981 take() %u800c%u4e0d%u662f%u4ec5%u8bbe%u4e3a None%uff0c%u8ba9 Arc '',
         ''%u771f%u6b63 drop'']],
    exercise_pseudocode = Some (jlines [''pub fn syscall(id: usize, args: [usize; 3]) -> isize {'',
          ''    match id {'',
          ''        56 => sys_open(args[0] as *const u8, args[1] as u32, args[2] as u32),'',
          ''        57 => sys_close(args[0]),'',
          ''        63 => sys_read(args[0], args[1] as *const u8, args[2]),'',
          ''        64 => sys_write(args[0], args[1] as *const u8, args[2]),'',
          ''        ...'',
          ''    }'',
          ''}''])\<rparr>\<close>

definition phase5ZhCN_lesson5_exercise4 :: CodeExercise where
  \<open>phase5ZhCN_lesson5_exercise4 = \<lparr>
    exercise_id = js ''lab5-integration'',
    exercise_title = js ''Lab 5d %u2b50%u2b50 %u7aef%u5230%u7aef%u9a8c%u6536'',
    exercise_description = jcat [''make fs-img && make run%uff1atest_fs %u7528%u6237%u7a0b%u5e8f%u901a%u8fc7%uff0creboo'',
        ''t %u540e hello.txt %u4ecd%u5728%u3002''],
    exercise_labFile = Some (js ''labs/phase_5_fs/user/src/bin/test_fs.rs''),
    exercise_hints = [js ''make fs-img %u8c03 easy-fs-fuse %u5728%u5bbf%u4e3b%u6784%u9020 target/fs.img'',
       js ''QEMU %u7528 -drive file=target/fs.img %u6302%u8f7d'',
       jcat [''test_fs %u6b65%u9aa4%uff1a%u5199 %u2192 %u8bfb %u2192 %u9a8c%u8bc1 %u2192 '',
         ''%u5220%u9664 %u2192 %u518d open %u671f%u671b%u5931%u8d25'']],
    exercise_pseudocode = None\<rparr>\<close>

definition phase5ZhCN_lesson5 :: Lesson where
  \<open>phase5ZhCN_lesson5 = \<lparr>
    lesson_phaseId = 5, lesson_lessonId = 5,
    lesson_title = js ''VFS %u5c42%uff1aFile trait %u7edf%u4e00%u6587%u4ef6%u4e0e%u6d41'',
    lesson_subtitle = js ''OSInode + stdin/stdout + sys_open/read/write/close'',
    lesson_type = js ''Practice + Integration'',
    lesson_duration = js ''2 hours'',
    lesson_objectives = [jcat [''%u7406%u89e3 File trait %u4e3a%u4ec0%u4e48%u662f%u7edf%u4e00%u300c%u4e00%u5207%u7686'',
         ''%u6587%u4ef6%u300d%u7684%u5173%u952e%u62bd%u8c61''],
       jcat [''%u5b9e%u73b0 OSInode%uff1a%u7ed9 easy-fs Inode '',
         ''%u52a0%u4e0a%u6e38%u6807%u548c%u8bfb%u5199%u6743%u9650''],
       js ''%u5b9e%u73b0 sys_open/read/write/close %u56db%u4e2a%u7cfb%u7edf%u8c03%u7528'',
       jcat [''%u8dd1%u901a cat / echo%uff0c%u91cd%u542f%u540e%u6570%u636e%u4ecd%u5728%u2014%u2014P'',
         ''hase 5 %u9a8c%u6536'']],
    lesson_sections = [phase5ZhCN_lesson5_section1,
      phase5ZhCN_lesson5_section2,
      phase5ZhCN_lesson5_section3,
      phase5ZhCN_lesson5_section4,
      phase5ZhCN_lesson5_section5,
      phase5ZhCN_lesson5_section6],
    lesson_exercises = [phase5ZhCN_lesson5_exercise1, phase5ZhCN_lesson5_exercise2, phase5ZhCN_lesson5_exercise3, phase5ZhCN_lesson5_exercise4],
    lesson_acceptanceCriteria = [js ''make qemu %u8dd1 test_fs %u8f93%u51fa "test_fs OK"'',
       jcat [''%u5173 QEMU%u3001%u91cd%u542f%uff0ctest_fs %u91cc%u4e0a%u6b21%u7559%u4e0b%u7684 '',
         ''hello.txt %u80fd%u88ab cat %u8bfb%u51fa''],
       jcat [''scripts/grade.py %u6253%u6ee1%u5206%uff08%u5305%u62ec LRU / bitmap / indirect2 '',
         ''%u7684%u8fb9%u754c%u6d4b%u8bd5%uff09''],
       js ''lsof %u98ce%u683c%u7684 task.fd_table %u904d%u5386%u4e0d%u4f1a%u6cc4%u6f0f Arc''],
    lesson_references = [\<lparr>reference_title = js ''xv6 book Ch. 8.6-8.10 File descriptor layer'',
       reference_description = js ''[%u5fc5%u8bfb] File %u62bd%u8c61%u7684%u7ecf%u5178%u6765%u6e90'',
       reference_url = js ''https://pdos.csail.mit.edu/6.828/2023/xv6/book-riscv-rev3.pdf''\<rparr>,
      \<lparr>reference_title = js ''rCore-Tutorial %u00a76.4'',
       reference_description = js ''[%u5fc5%u8bfb] OSInode + sys_open %u4e2d%u6587%u5b9e%u73b0'',
       reference_url = js ''https://rcore-os.cn/rCore-Tutorial-Book-v3/chapter6/4fs-syscall.html''\<rparr>,
      \<lparr>reference_title = js ''OSTEP Ch. 39 %u00a739.3-39.4'',
       reference_description = js ''[%u5fc5%u8bfb] fd %u8868%u3001open/read/write %u8bed%u4e49'',
       reference_url = js ''https://pages.cs.wisc.edu/~remzi/OSTEP/file-intro.pdf''\<rparr>,
      \<lparr>reference_title = js ''Linux fs/open.c + fs/read_write.c'',
       reference_description = js ''[%u6df1%u5165%u9605%u8bfb] %u5de5%u4e1a%u7ea7 sys_open / vfs_read %u6e90%u7801'',
       reference_url = js ''https://git.kernel.org/pub/scm/linux/kernel/git/torvalds/linux.git/tree/fs''\<rparr>,
      \<lparr>reference_title = js ''Stretch question'',
       reference_description = jcat [''[%u62d3%u5c55] %u5982%u4f55%u6269%u5c55 File trait %u4ee5%u652f%u6301 lseek / fstat '',
          ''/ mmap%uff1f%u5982%u679c%u5141%u8bb8 fd %u8de8%u8fdb%u7a0b%u5171%u4eab%uff08fork '',
          ''%u540e%uff09%uff0coffset %u600e%u4e48%u5904%u7406%uff1f''],
       reference_url = js ''''\<rparr>]\<rparr>\<close>

section \<open>The phase\<close>

definition phase5ZhCN :: PhaseContent where
  \<open>phase5ZhCN = \<lparr>
    content_phaseId = 5,
    content_color = js ''#0891B2'',
    content_accent = js ''#06B6D4'',
    content_lessons = [phase5ZhCN_lesson1, phase5ZhCN_lesson2, phase5ZhCN_lesson3, phase5ZhCN_lesson4, phase5ZhCN_lesson5]\<rparr>\<close>

section \<open>Well-formedness\<close>

lemma phase5ZhCN_lesson1_ok: "lesson_ok phase5ZhCN_lesson1"
  by (simp add: lesson_ok_def section_ok_def phase5ZhCN_lesson1_def
      phase5ZhCN_lesson1_section1_def
      phase5ZhCN_lesson1_section2_def
      phase5ZhCN_lesson1_section3_def
      phase5ZhCN_lesson1_section4_def
      phase5ZhCN_lesson1_section5_def
      phase5ZhCN_lesson1_section6_def
      phase5ZhCN_lesson1_exercise1_def
      phase5ZhCN_lesson1_exercise2_def)

lemma phase5ZhCN_lesson2_ok: "lesson_ok phase5ZhCN_lesson2"
  by (simp add: lesson_ok_def section_ok_def phase5ZhCN_lesson2_def
      phase5ZhCN_lesson2_section1_def
      phase5ZhCN_lesson2_section2_def
      phase5ZhCN_lesson2_section3_def
      phase5ZhCN_lesson2_section4_def
      phase5ZhCN_lesson2_exercise1_def
      phase5ZhCN_lesson2_exercise2_def)

lemma phase5ZhCN_lesson3_ok: "lesson_ok phase5ZhCN_lesson3"
  by (simp add: lesson_ok_def section_ok_def phase5ZhCN_lesson3_def
      phase5ZhCN_lesson3_section1_def
      phase5ZhCN_lesson3_section2_def
      phase5ZhCN_lesson3_section3_def
      phase5ZhCN_lesson3_section4_def
      phase5ZhCN_lesson3_section5_def
      phase5ZhCN_lesson3_exercise1_def)

lemma phase5ZhCN_lesson4_ok: "lesson_ok phase5ZhCN_lesson4"
  by (simp add: lesson_ok_def section_ok_def phase5ZhCN_lesson4_def
      phase5ZhCN_lesson4_section1_def
      phase5ZhCN_lesson4_section2_def
      phase5ZhCN_lesson4_section3_def
      phase5ZhCN_lesson4_section4_def
      phase5ZhCN_lesson4_section5_def
      phase5ZhCN_lesson4_exercise1_def
      phase5ZhCN_lesson4_exercise2_def
      phase5ZhCN_lesson4_exercise3_def)

lemma phase5ZhCN_lesson5_ok: "lesson_ok phase5ZhCN_lesson5"
  by (simp add: lesson_ok_def section_ok_def phase5ZhCN_lesson5_def
      phase5ZhCN_lesson5_section1_def
      phase5ZhCN_lesson5_section2_def
      phase5ZhCN_lesson5_section3_def
      phase5ZhCN_lesson5_section4_def
      phase5ZhCN_lesson5_section5_def
      phase5ZhCN_lesson5_section6_def
      phase5ZhCN_lesson5_exercise1_def
      phase5ZhCN_lesson5_exercise2_def
      phase5ZhCN_lesson5_exercise3_def
      phase5ZhCN_lesson5_exercise4_def)

lemma phase5ZhCN_lesson1_ids: "lesson_phaseId phase5ZhCN_lesson1 = 5" "lesson_lessonId phase5ZhCN_lesson1 = 1"
  by (simp_all add: phase5ZhCN_lesson1_def)

lemma phase5ZhCN_lesson2_ids: "lesson_phaseId phase5ZhCN_lesson2 = 5" "lesson_lessonId phase5ZhCN_lesson2 = 2"
  by (simp_all add: phase5ZhCN_lesson2_def)

lemma phase5ZhCN_lesson3_ids: "lesson_phaseId phase5ZhCN_lesson3 = 5" "lesson_lessonId phase5ZhCN_lesson3 = 3"
  by (simp_all add: phase5ZhCN_lesson3_def)

lemma phase5ZhCN_lesson4_ids: "lesson_phaseId phase5ZhCN_lesson4 = 5" "lesson_lessonId phase5ZhCN_lesson4 = 4"
  by (simp_all add: phase5ZhCN_lesson4_def)

lemma phase5ZhCN_lesson5_ids: "lesson_phaseId phase5ZhCN_lesson5 = 5" "lesson_lessonId phase5ZhCN_lesson5 = 5"
  by (simp_all add: phase5ZhCN_lesson5_def)

lemma phase5ZhCN_shape [site_shape]:
  "content_phaseId phase5ZhCN = 5" "length (content_lessons phase5ZhCN) = 5"
  by (simp_all add: phase5ZhCN_def)

lemma phase5ZhCN_ok [site_shape]: "content_ok phase5ZhCN"
  by (simp add: content_ok_def phase5ZhCN_def upt_rec
      phase5ZhCN_lesson1_ok phase5ZhCN_lesson2_ok phase5ZhCN_lesson3_ok phase5ZhCN_lesson4_ok phase5ZhCN_lesson5_ok
      phase5ZhCN_lesson1_ids phase5ZhCN_lesson2_ids phase5ZhCN_lesson3_ids phase5ZhCN_lesson4_ids phase5ZhCN_lesson5_ids)

end
