(* ===== verification/Phase5_En.thy ===== *)
theory Phase5_En
  imports Content_Types
begin

text \<open>
  Phase 5, block device and file system, in English: the constant \<open>phase5En\<close> of
  \<open>website/src/data/phase5.ts\<close>, one definition per section, exercise and lesson. Below it, that the
  content is well formed.
\<close>

section \<open>Lesson 1\<close>

definition phase5En_lesson1_section1 :: ContentSection where
  \<open>phase5En_lesson1_section1 = \<lparr>
    section_title = js ''Phase 5's mission: persist everything that lived in RAM'',
    section_blocks = [ParagraphBlock (jcat [''Every structure of Phases 0-4 %u2014 page tables, tasks, heap %u2014 evaporates the '',
          ''instant QEMU halts. Phase 5 is modest-sounding but enormous in consequence: add a '',
          ''real disk so that echo hi > f survives a reboot and cat f reads it back.'']),
      DiagramBlock (jlines [''%u250c%r0c2500 Phase 5 software stack %r0c2500%u2510'',
          ''%u2502  sys_open / sys_read / sys_write                %u2502  %u2190 Lesson 5'',
          ''%u251c%r312500%u2524'',
          ''%u2502  File trait  +  OSInode  +  fd table            %u2502  %u2190 Lesson 5'',
          ''%u251c%r312500%u2524'',
          ''%u2502  easy_fs::Inode  (dir entries / name lookup)    %u2502  %u2190 Lesson 4'',
          ''%u251c%r312500%u2524'',
          ''%u2502  DiskInode  (direct + indirect1 + indirect2)    %u2502  %u2190 Lesson 4'',
          ''%u251c%r312500%u2524'',
          ''%u2502  Bitmap alloc  +  5-region layout               %u2502  %u2190 Lesson 2'',
          ''%u251c%r312500%u2524'',
          ''%u2502  BlockCache  (16-way LRU, write-back)           %u2502  %u2190 Lesson 3'',
          ''%u251c%r312500%u2524'',
          ''%u2502  BlockDevice trait  (read_block/write_block)    %u2502  %u2190 Lesson 1'',
          ''%u251c%r312500%u2524'',
          ''%u2502  VirtIOBlock  (MMIO + virtqueue)                %u2502  %u2190 Lesson 1'',
          ''%u2514%r312500%u2518'']),
      CalloutBlock Info (jcat [''Every layer depends only on the two methods its neighbour exposes: read_block / '',
          ''write_block. The whole stack fits in ~500 lines of Rust %u2014 the "easy" in easy-fs is '',
          ''earned.''])]\<rparr>\<close>

definition phase5En_lesson1_section2 :: ContentSection where
  \<open>phase5En_lesson1_section2 = \<lparr>
    section_title = js ''What VirtIO is: a paravirtualised standard device interface'',
    section_blocks = [ParagraphBlock (jcat [''Real disk drivers (AHCI, NVMe) run to thousands of lines. VirtIO is a simpler '',
          ''interface negotiated between the hypervisor and the guest: a handful of MMIO registers '',
          ''plus ring buffers in shared memory. QEMU's -device virtio-blk-device maps such a '',
          ''device at physical address 0x1000_1000.'']),
      TableBlock [js ''offset'',
         js ''register'',
         js ''purpose'']
        [[js ''0x000'',
          js ''MagicValue'',
          js ''Constant 0x74726976 (ASCII "virt"); driver reads it first to verify''],
         [js ''0x004'',
          js ''Version'',
          js ''1 = legacy MMIO, 2 = modern. We use legacy''],
         [js ''0x008'',
          js ''DeviceID'',
          js ''2 = block device; other values for net/console/gpu''],
         [js ''0x030'',
          js ''QueueSel'',
          js ''Selects which queue we are configuring (blk has only one)''],
         [js ''0x038'',
          js ''QueueNum'',
          js ''Tells the device our ring depth (we use 16)''],
         [js ''0x040'',
          js ''QueuePFN'',
          js ''Physical page number of the descriptor ring %u2014 the shared memory root''],
         [js ''0x050'',
          js ''QueueNotify'',
          js ''Writing the queue number here = kick; device wakes up''],
         [js ''0x070'',
          js ''Status'',
          js ''Driver writes ACK / DRIVER / DRIVER_OK bits to complete handshake'']],
      CalloutBlock Tip (jcat [''MMIO = Memory-Mapped I/O: loads and stores to these addresses turn into device '',
          ''commands. No special instructions %u2014 but you must use volatile accesses, otherwise '',
          ''the compiler will fuse "write QueueNotify twice" into a single write.''])]\<rparr>\<close>

definition phase5En_lesson1_section3 :: ContentSection where
  \<open>phase5En_lesson1_section3 = \<lparr>
    section_title = js ''virtqueue: three rings sharing memory'',
    section_blocks = [DiagramBlock (jlines [''Descriptor Table (16 entries)   Avail Ring (driver%u2192device)   Used Ring (device%u2192driver)'',
          ''%u250c%r162500%u2510        %u250c%r132500%u2510         %u250c%r132500%u2510'',
          ''%u2502#0 addr|len|flags|next%u2502        %u2502idx | ring[0..16]  %u2502         %u2502idx | ring[0..16]  %u2502'',
          ''%u2502#1 addr|len|flags|next%u2502        %u2502      desc_head    %u2502         %u2502      desc_head    %u2502'',
          ''%u2502#2 addr|len|flags|next%u2502        %u2502         ...       %u2502         %u2502         len       %u2502'',
          ''%u2502...                   %u2502        %u2514%r132500%u2518         %u2514%r132500%u2518'',
          ''%u2502#15 ...               %u2502               %u25b2                              %u25b2'',
          ''%u2514%r162500%u2518               %u2502 driver push                  %u2502 device push'',
          ''         %u25b2                              kick %u2500%u2510                        %u2502'',
          ''         %u2502                                    %u25bc                        %u2502'',
          ''       chain: head%u2192data%u2192status  %u250c%r102500%u2510                    %u2502'',
          ''                                 %u2502 QEMU backend   %u2502%r132500 %u2518'',
          ''                                 %u2514%r102500%u2518'']),
      ParagraphBlock (jcat [''All three rings live in guest physical memory; the hypervisor maps them directly '',
          ''%u2014 zero-copy. The Descriptor Table stores (addr, len, flags, next) per memory '',
          ''segment. The Avail Ring is a FIFO the driver writes the head descriptor index into; '',
          ''the Used Ring is the reverse, filled by the device with (head, bytes-written) on '',
          ''completion.'']),
      TableBlock [js ''flag bit'',
         js ''meaning'']
        [[js ''VIRTQ_DESC_F_NEXT (1)'',
          js ''Chain continues via the next field''],
         [js ''VIRTQ_DESC_F_WRITE (2)'',
          js ''Device will write this buffer (data on reads, status on every request)''],
         [js ''VIRTQ_DESC_F_INDIRECT (4)'',
          js ''Points to a secondary descriptor table (large requests, not used here)'']]]\<rparr>\<close>

definition phase5En_lesson1_section4 :: ContentSection where
  \<open>phase5En_lesson1_section4 = \<lparr>
    section_title = js ''A read request as three chained descriptors'',
    section_blocks = [DiagramBlock (jlines [''read_block(sector=42) expands to:'',
          '''',
          '' desc #0 (RO)           desc #1 (RW)           desc #2 (RW)'',
          ''%u250c%r0e2500%u2510       %u250c%r0e2500%u2510       %u250c%r0e2500%u2510'',
          ''%u2502 BlkReqHeader %u2502%u2500next%u2500%u25b6%u2502  data 512 B  %u2502%u2500next%u2500%u25b6%u2502  status 1 B  %u2502'',
          ''%u2502 type = IN(0) %u2502       %u2502   kernel     %u2502       %u2502 filled by    %u2502'',
          ''%u2502 reserved = 0 %u2502       %u2502   buffer     %u2502       %u2502 QEMU         %u2502'',
          ''%u2502 sector = 42  %u2502       %u2502              %u2502       %u2502 0 = OK       %u2502'',
          ''%u2502 flags: NEXT  %u2502       %u2502 flags:NEXT|W %u2502       %u2502 flags: WRITE %u2502'',
          ''%u2514%r0e2500%u2518       %u2514%r0e2500%u2518       %u2514%r0e2500%u2518'',
          ''  16 bytes                  512 bytes              1 byte'',
          ''  driver fills,             device writes          device writes'',
          ''  device reads              into this              after completion'',
          '''',
          ''Avail.ring[idx++] = 0   (head descriptor index)'',
          ''write QueueNotify = 0   (kick!)'',
          ''poll Used.ring until its idx advances %u2192 completion'']),
      CalloutBlock Warning (jcat [''A write request differs only in type = OUT(1) and that the data descriptor lacks '',
          ''WRITE. The direction is expressed from the driver's perspective %u2014 a read request '',
          ''means "the device writes into data", a write request means "the device reads from '',
          ''data". This is the most common exam-style trap.''])]\<rparr>\<close>

definition phase5En_lesson1_section5 :: ContentSection where
  \<open>phase5En_lesson1_section5 = \<lparr>
    section_title = js ''Why we don't hand-write the virtqueue'',
    section_blocks = [ParagraphBlock (jcat [''All of the above %u2014 init handshake, descriptor alloc/free, memory alignment, '',
          ''feature negotiation %u2014 is already packaged by the rCore community in the '',
          ''virtio-drivers crate. The driver author's responsibility collapses to two items:'']),
      ListBlock True
        [jcat [''Implement the Hal trait: tell the crate how to allocate DMA memory and translate '',
           ''between physical and virtual addresses''],
         js ''Wrap VirtIOBlk<Hal, MmioTransport> in a Mutex and implement BlockDevice''],
      CodeBlock (Some (js ''rust'')) (jlines [''pub struct VirtIOBlock(Mutex<VirtIOBlk<'static, VirtioHal, MmioTransport>>);'',
          '''',
          ''impl BlockDevice for VirtIOBlock {'',
          ''    fn read_block(&self, block_id: usize, buf: &mut [u8]) {'',
          ''        self.0.lock().read_blocks(block_id, buf)'',
          ''            .expect("virtio read failed");'',
          ''    }'',
          ''    fn write_block(&self, block_id: usize, buf: &[u8]) {'',
          ''        self.0.lock().write_blocks(block_id, buf)'',
          ''            .expect("virtio write failed");'',
          ''    }'',
          ''}'']),
      CalloutBlock Info (jcat [''The pedagogical goal is "understand what's underneath", not "type 700 lines of '',
          ''boilerplate". A stretch lab in Phase 7 drops virtio-drivers and asks you to drive the '',
          ''registers by hand %u2014 by then this lesson gives you the map.''])]\<rparr>\<close>

definition phase5En_lesson1_section6 :: ContentSection where
  \<open>phase5En_lesson1_section6 = \<lparr>
    section_title = js ''Common mistakes and debugging clues'',
    section_blocks = [ListBlock False
        [jcat [''DMA coherency %u2014 on real hardware you must fence after descriptor writes or the '',
           ''device sees stale values. QEMU happens to forgive you; real RISC-V boards '',
           ''(VisionFive, Allwinner D1) will silently corrupt. Put fence.rw in Hal::share.''],
         jcat [''Request layout %u2014 putting status inside the data descriptor violates the spec; '',
           ''QEMU returns IOERR. Three independent descriptors, always.''],
         jcat [''Busy-wait forever %u2014 bound the poll loop (say 1_000_000 iterations), panic on '',
           ''overflow. A broken device should crash loudly, not hang the kernel.''],
         js ''Sector vs byte %u2014 BlkReqHeader.sector is in units of 512 bytes, not bytes.'']]\<rparr>\<close>

definition phase5En_lesson1_exercise1 :: CodeExercise where
  \<open>phase5En_lesson1_exercise1 = \<lparr>
    exercise_id = js ''lab1-virtio-block'',
    exercise_title = js ''Lab 1 %u2b50%u2b50 Implement VirtIOBlock'',
    exercise_description = js ''Use the virtio-drivers crate to wrap the MMIO device at 0x1000_1000 into a BlockDevice.'',
    exercise_labFile = Some (js ''labs/phase_5_fs/src/drivers/virtio_blk.rs''),
    exercise_hints = [js ''VirtIOBlk::new(MmioTransport::new(header)?)? constructs in three steps'',
       js ''Align dma_alloc in VirtioHal to 4 KiB'',
       js ''read_blocks / write_blocks are synchronous %u2014 the crate polls Used Ring internally'',
       js ''Expose the global singleton via lazy_static! + Arc<dyn BlockDevice>''],
    exercise_pseudocode = Some (jlines [''lazy_static! {'',
          ''    pub static ref BLOCK_DEVICE: Arc<dyn BlockDevice> = {'',
          ''        let header = unsafe { &mut *(VIRTIO0 as *mut VirtIOHeader) };'',
          ''        let transport = MmioTransport::new(header).unwrap();'',
          ''        let blk = VirtIOBlk::<VirtioHal, _>::new(transport).unwrap();'',
          ''        Arc::new(VirtIOBlock(Mutex::new(blk)))'',
          ''    };'',
          ''}''])\<rparr>\<close>

definition phase5En_lesson1_exercise2 :: CodeExercise where
  \<open>phase5En_lesson1_exercise2 = \<lparr>
    exercise_id = js ''lab1-hal'',
    exercise_title = js ''Lab 1b %u2b50 Implement VirtioHal'',
    exercise_description = jcat [''The Hal trait's four methods tell the crate how to allocate physically contiguous '',
        ''pages and translate addresses. Phase 4 already gives you frame_alloc.''],
    exercise_labFile = Some (js ''labs/phase_5_fs/src/drivers/virtio_blk.rs''),
    exercise_hints = [js ''dma_alloc(pages) loops frame_alloc and stores FrameTrackers in a static table'',
       js ''phys_to_virt is identity under our kernel identity mapping'',
       js ''virt_to_phys walks the current page table or returns the low bits (kernel identity)''],
    exercise_pseudocode = None\<rparr>\<close>

definition phase5En_lesson1 :: Lesson where
  \<open>phase5En_lesson1 = \<lparr>
    lesson_phaseId = 5, lesson_lessonId = 1,
    lesson_title = js ''The VirtIO-blk protocol: treating the disk as registers'',
    lesson_subtitle = js ''MMIO registers + virtqueue + three-descriptor requests'',
    lesson_type = js ''Concept + Practice'',
    lesson_duration = js ''2 hours'',
    lesson_objectives = [js ''Read the VirtIO MMIO register map: MagicValue / QueueSel / QueuePFN / QueueNotify'',
       jcat [''Understand the three rings of a virtqueue (descriptor / avail / used) and their '',
         ''memory layout''],
       js ''Trace a virtio-blk request through its three-descriptor chain: header + data + status'',
       js ''Know why we use the virtio-drivers crate and only implement the Hal trait''],
    lesson_sections = [phase5En_lesson1_section1,
      phase5En_lesson1_section2,
      phase5En_lesson1_section3,
      phase5En_lesson1_section4,
      phase5En_lesson1_section5,
      phase5En_lesson1_section6],
    lesson_exercises = [phase5En_lesson1_exercise1, phase5En_lesson1_exercise2],
    lesson_acceptanceCriteria = [js ''cargo test --test test_lab1_blkdev passes: write a block, read it back, data matches'',
       js ''Can explain why VIRTQ_DESC_F_WRITE is set on the data descriptor of a read request'',
       js ''Can sketch the call chain from read_block down to the MMIO write on QueueNotify''],
    lesson_references = [\<lparr>reference_title = js ''rCore-Tutorial %u00a76.1'',
       reference_description = js ''[Required] Block devices and virtio-drivers integration'',
       reference_url = js ''https://rcore-os.cn/rCore-Tutorial-Book-v3/chapter6/1fs-interface.html''\<rparr>,
      \<lparr>reference_title = js ''VirtIO 1.1 Spec %u00a74.2 & %u00a75.2'',
       reference_description = js ''[Required] Authoritative MMIO register map and virtio-blk request format'',
       reference_url = js ''https://docs.oasis-open.org/virtio/virtio/v1.1/virtio-v1.1.pdf''\<rparr>,
      \<lparr>reference_title = js ''virtio-drivers crate docs'',
       reference_description = js ''[Deep dive] Rust implementation more readable than Linux's C version'',
       reference_url = js ''https://docs.rs/virtio-drivers/''\<rparr>,
      \<lparr>reference_title = js ''xv6 kernel/virtio_disk.c'',
       reference_description = js ''[Deep dive] A ~300-line C hand-rolled virtqueue for comparison'',
       reference_url = js ''https://github.com/mit-pdos/xv6-riscv/blob/riscv/kernel/virtio_disk.c''\<rparr>]\<rparr>\<close>

section \<open>Lesson 2\<close>

definition phase5En_lesson2_section1 :: ContentSection where
  \<open>phase5En_lesson2_section1 = \<lparr>
    section_title = js ''The layout at a glance'',
    section_blocks = [DiagramBlock (jlines [''block #   0         1..a       a..b       b..c         c..total-1'',
          ''        %u250c%r092500%u252c%r0a2500%u252c%r0a2500%u252c%r0a2500%u252c%r162500%u2510'',
          ''        %u2502 Super   %u2502 Inode    %u2502 Data     %u2502 Inodes   %u2502 Data Blocks          %u2502'',
          ''        %u2502 Block   %u2502 Bitmap   %u2502 Bitmap   %u2502 packed   %u2502 (one per file block) %u2502'',
          ''        %u2502 1 blk   %u2502 N blks   %u2502 M blks   %u2502 4/block  %u2502                      %u2502'',
          ''        %u2514%r092500%u2534%r0a2500%u2534%r0a2500%u2534%r0a2500%u2534%r162500%u2518'',
          ''          %u2191           %u2191           %u2191           %u2191             %u2191'',
          ''        magic +     one bit     one bit    128 B x        512 B x many'',
          ''        region      per inode   per data    (4N total)'',
          ''        starts      (%u2264 4096N)   (%u2264 4096M)'',
          '''',
          ''Every "start + length" lives in block 0's SuperBlock; mkfs computes it once,'',
          ''writes it there, and the kernel trusts it forever after.'']),
      CalloutBlock Info (jcat [''Why five regions and not more? Because easy-fs omits extents, journaling, '',
          ''reserved-gdt, quotas %u2014 every ext2 feature is stripped. This is the "simplest thing that '',
          ''still works", almost isomorphic to the 1984 FFS paper.''])]\<rparr>\<close>

definition phase5En_lesson2_section2 :: ContentSection where
  \<open>phase5En_lesson2_section2 = \<lparr>
    section_title = js ''SuperBlock: the metadata of metadata'',
    section_blocks = [CodeBlock (Some (js ''rust'')) (jlines [''#[repr(C)]'',
          ''pub struct SuperBlock {'',
          ''    magic: u32,                  // 0x3b800001 %u2014 written by mkfs'',
          ''    pub total_blocks: u32,'',
          ''    pub inode_bitmap_blocks: u32,'',
          ''    pub inode_area_blocks: u32,'',
          ''    pub data_bitmap_blocks: u32,'',
          ''    pub data_area_blocks: u32,'',
          ''}'',
          '''',
          ''impl SuperBlock {'',
          ''    pub fn is_valid(&self) -> bool { self.magic == EFS_MAGIC }'',
          ''}'']),
      ParagraphBlock (jcat [''At mount the kernel reads block 0, checks magic, and panics on mismatch %u2014 this '',
          ''stops us from silently corrupting an ext4 image we mistook for easy-fs. All other '',
          ''region starts are prefix-sums of the SuperBlock fields, never stored separately.''])]\<rparr>\<close>

definition phase5En_lesson2_section3 :: ContentSection where
  \<open>phase5En_lesson2_section3 = \<lparr>
    section_title = js ''Capacity math: given a 4 MiB disk, how do we split it?'',
    section_blocks = [TableBlock [js ''quantity'',
         js ''formula / value'',
         js ''note'']
        [[js ''block size'',
          js ''512 B'',
          js ''matches virtio-blk sector %u2014 no read/write amplification''],
         [js ''total_blocks'',
          js ''4 MiB / 512 = 8192'',
          js ''total block count''],
         [js ''inode_bitmap_blocks'',
          js ''1 block = 4096 bits'',
          js ''max 4096 inodes (plenty for coursework)''],
         [js ''inode_area_blocks'',
          js ''%u23084096 / 4%u2309 = 1024'',
          js ''four 128-byte inodes per block''],
         [js ''data_bitmap_blocks'',
          js ''%u2248 2 blocks'',
          js ''solved from a self-referential equation below''],
         [js ''data_area_blocks'',
          js ''8192 - 1 - 1 - 1024 - 2 = 7164'',
          js ''actual file data blocks'']],
      ParagraphBlock (jcat [''data bitmap consumes blocks and governs the blocks that follow %u2014 a '',
          ''self-referential equation. Let M = data_bitmap_blocks, data_blocks = 8192 - 1 - 1 - 1024 - M, '',
          ''and one bitmap block covers 4096 data blocks, so M = %u2308(8192-1026-M)/4096%u2309. '',
          ''Plug M=2: 4096%u00d72 = 8192 %u2265 8192-1028 = 7164. It holds.'']),
      CalloutBlock Tip (jcat [''Repeat for 8 MiB / 16 MiB disks by hand %u2014 it proves you can read '',
          ''easy-fs-fuse/src/main.rs's EasyFileSystem::create. This is the most common interview-style '',
          ''question on this module.''])]\<rparr>\<close>

definition phase5En_lesson2_section4 :: ContentSection where
  \<open>phase5En_lesson2_section4 = \<lparr>
    section_title = js ''O(1) bitmap allocation'',
    section_blocks = [ParagraphBlock (jcat [''A bitmap block is 512 B = 4096 bits. A naive linear scan would be O(4096) on the '',
          ''hot path. We compress it to O(64) via the hardware count-trailing-zeros instruction.'']),
      CodeBlock (Some (js ''rust'')) (jlines [''type BitmapBlock = [u64; 64];   // 64 %u00d7 64 = 4096 bits'',
          '''',
          ''pub fn alloc(&self, dev: &Arc<dyn BlockDevice>) -> Option<usize> {'',
          ''    for block_id in 0..self.blocks {'',
          ''        let pos = get_block_cache(block_id + self.start, dev).lock()'',
          ''            .modify(0, |bits: &mut BitmapBlock| {'',
          ''                // every 64-bit word: find the first not all-ones'',
          ''                for (i, w) in bits.iter_mut().enumerate() {'',
          ''                    if *w != u64::MAX {'',
          ''                        let bit = w.trailing_ones() as usize;  // %u2605 O(1)'',
          ''                        *w |= 1u64 << bit;'',
          ''                        return Some(i * 64 + bit);'',
          ''                    }'',
          ''                }'',
          ''                None'',
          ''            });'',
          ''        if let Some(p) = pos { return Some(block_id * 4096 + p); }'',
          ''    }'',
          ''    None'',
          ''}'']),
      CalloutBlock Warning (jcat [''trailing_ones compiles to ctz(!w) on RISC-V %u2014 a single instruction. Do not '',
          ''write for bit in 0..64; the naive version is tens of times slower over a million '',
          ''allocations.''])]\<rparr>\<close>

definition phase5En_lesson2_exercise1 :: CodeExercise where
  \<open>phase5En_lesson2_exercise1 = \<lparr>
    exercise_id = js ''lab2-bitmap'',
    exercise_title = js ''Lab 2a %u2b50%u2b50 Implement Bitmap::{alloc, dealloc}'',
    exercise_description = jcat [''Implement bitmap allocation and free. alloc returns the global bit index (relative '',
        ''to this bitmap's start); dealloc(pos) clears the corresponding bit.''],
    exercise_labFile = Some (js ''labs/phase_5_fs/easy-fs/src/bitmap.rs''),
    exercise_hints = [js ''alloc uses trailing_ones; dealloc uses &= !(1u64 << bit)'',
       js ''pos %25 4096 gives the in-block offset, pos / 4096 gives the block index'',
       js ''dealloc should assert the bit was 1 %u2014 catches double-free bugs''],
    exercise_pseudocode = Some (jlines [''fn decomposition(pos: usize) -> (usize, usize, usize) {'',
          ''    let block_pos = pos / BLOCK_BITS;'',
          ''    let bit = pos %25 BLOCK_BITS;'',
          ''    (block_pos, bit / 64, bit %25 64)'',
          ''}''])\<rparr>\<close>

definition phase5En_lesson2_exercise2 :: CodeExercise where
  \<open>phase5En_lesson2_exercise2 = \<lparr>
    exercise_id = js ''lab2-layout'',
    exercise_title = js ''Lab 2b %u2b50 Hand-compute a capacity table'',
    exercise_description = jcat [''Given a 16 MiB disk (32768 blocks), compute inode_bitmap_blocks / inode_area_blocks '',
        ''/ data_bitmap_blocks / data_area_blocks. Print the resulting SuperBlock in '',
        ''easy-fs-fuse to verify.''],
    exercise_labFile = None,
    exercise_hints = [js ''Fix inode_bitmap_blocks = 1 %u2192 4096 inodes max'',
       js ''Remaining = 32768 - 1 - 1 - 1024 = 31742'',
       js ''data_bitmap_blocks = %u230831742 / 4097%u2309 = 8''],
    exercise_pseudocode = None\<rparr>\<close>

definition phase5En_lesson2 :: Lesson where
  \<open>phase5En_lesson2 = \<lparr>
    lesson_phaseId = 5, lesson_lessonId = 2,
    lesson_title = js ''The easy-fs disk layout: five regions over 8192 blocks'',
    lesson_subtitle = js ''Superblock + two bitmaps + inode area + data area'',
    lesson_type = js ''Concept + Practice'',
    lesson_duration = js ''1.5 hours'',
    lesson_objectives = [js ''Memorise the five regions of easy-fs and the fields in each'',
       js ''Compute bitmap and inode-region block counts from a total disk size'',
       js ''Understand why the bitmap stores [u64; 64] and uses trailing_ones for O(1) alloc'',
       js ''Read the SuperBlock magic-check logic''],
    lesson_sections = [phase5En_lesson2_section1,
      phase5En_lesson2_section2,
      phase5En_lesson2_section3,
      phase5En_lesson2_section4],
    lesson_exercises = [phase5En_lesson2_exercise1, phase5En_lesson2_exercise2],
    lesson_acceptanceCriteria = [jcat [''cargo test --test test_lab2_bitmap passes: after 4096 allocations, the 4097th '',
         ''returns a different block id''],
       js ''SuperBlock::is_valid() rejects non-easy-fs images'',
       js ''Can derive the self-referential equation for data_bitmap_blocks and solve it''],
    lesson_references = [\<lparr>reference_title = js ''xv6 book Ch. 8.2 Buffer cache layer'',
       reference_description = js ''[Required] Analogous layout in xv6 (mkfs.c)'',
       reference_url = js ''https://pdos.csail.mit.edu/6.828/2023/xv6/book-riscv-rev3.pdf''\<rparr>,
      \<lparr>reference_title = js ''rCore-Tutorial %u00a76.3'',
       reference_description = js ''[Required] Layout walk-through in Chinese'',
       reference_url = js ''https://rcore-os.cn/rCore-Tutorial-Book-v3/chapter6/3fs-implementation.html''\<rparr>,
      \<lparr>reference_title = js ''A Fast File System for UNIX (1984)'',
       reference_description = js ''[Deep dive] The 30-year-old prototype of the five-region layout'',
       reference_url = js ''https://dsf.berkeley.edu/cs262/FFS.pdf''\<rparr>]\<rparr>\<close>

section \<open>Lesson 3\<close>

definition phase5En_lesson3_section1 :: ContentSection where
  \<open>phase5En_lesson3_section1 = \<lparr>
    section_title = js ''Why cache? Count the disk round-trips'',
    section_blocks = [ParagraphBlock (jcat [''Without a cache, one open("/hello.txt") touches: the SuperBlock (1) + root-inode '',
          ''block (1) + root directory data blocks (~3) + target inode block (1) + target data '',
          ''blocks (several) %u2248 10 disk reads. With a 16-way LRU, SuperBlock and root-inode '',
          ''block are permanently near MRU, leaving only target inode and data %u2014 %u2248 2 '',
          ''misses.'']),
      DiagramBlock (jlines [''No cache:'',
          ''  open    %u2192 [super][root_inode][root_data %u00d73][target_inode][target_data] = 7 round-trips'',
          ''  read    %u2192 [target_data %u00d7 N]                                             = N trips'',
          '''',
          ''16-way LRU:'',
          ''  open    %u2192 first 5 blocks already MRU (loaded at boot), only 2 misses'',
          ''  read    %u2192 first data block misses; subsequent blocks miss only if they cross'',
          ''            (data-block caching is marginal %u2014 only hot files benefit)'',
          '''',
          ''MRU %u2192 [super][root_i][root_d0][root_d1][root_d2][bitmap_i]...[?] %u2190 LRU'',
          ''           %u2191 each access promotes                 %u2191 16 full %u2192 evict this''])]\<rparr>\<close>

definition phase5En_lesson3_section2 :: ContentSection where
  \<open>phase5En_lesson3_section2 = \<lparr>
    section_title = js ''Block cache vs file cache'',
    section_blocks = [TableBlock [js ''strategy'',
         js ''pros'',
         js ''cons'']
        [[js ''Block cache (easy-fs choice)'',
          js ''Metadata and data unified; shared inode blocks not duplicated'',
          js ''No zero-copy across files; all reads go through kernel memcpy''],
         [js ''File cache (Linux page cache)'',
          js ''mmap and zero-copy friendly; file-level readahead'',
          js ''Separate dcache/icache needed; implementation ~3%u00d7 complexity'']],
      ParagraphBlock (jcat [''Linux runs both: struct buffer_head is a block cache, struct page backs the page '',
          ''cache. easy-fs keeps only the block cache for clarity. Phase 7's stretch work '',
          ''introduces page-cache-like structures.''])]\<rparr>\<close>

definition phase5En_lesson3_section3 :: ContentSection where
  \<open>phase5En_lesson3_section3 = \<lparr>
    section_title = js ''Data structure: VecDeque<(block_id, Arc<Mutex<BlockCache>>)>'',
    section_blocks = [CodeBlock (Some (js ''rust'')) (jlines [''const BLOCK_CACHE_SIZE: usize = 16;'',
          '''',
          ''pub struct BlockCache {'',
          ''    cache: [u8; BLOCK_SZ],   // 512'',
          ''    block_id: usize,'',
          ''    block_device: Arc<dyn BlockDevice>,'',
          ''    modified: bool,'',
          ''}'',
          '''',
          ''pub struct BlockCacheManager {'',
          ''    queue: VecDeque<(usize, Arc<Mutex<BlockCache>>)>,'',
          ''}'']),
      DiagramBlock (jlines [''get_block_cache(block_id, dev):'',
          ''  %u250c%u2500 hit? (scan queue for block_id)'',
          ''  %u2502    %u2514%u2500 yes %u2192 return Arc<Mutex<BlockCache>>.clone()      (O(n) but n=16)'',
          ''  %u2502'',
          ''  %u2514%u2500 miss:'',
          ''       1. if queue.len() == 16:'',
          ''            find first entry with Arc::strong_count == 1 %u2192 evict it'',
          ''            (its Drop auto-syncs dirty contents)'',
          ''       2. read block_id from disk into a new cache'',
          ''       3. queue.push_back((block_id, Arc::new(...)))'',
          ''       4. return the clone'']),
      CalloutBlock Warning (jcat [''The strong_count == 1 check is the safety kernel here. If some thread holds a '',
          ''long-running MutexGuard on a cache line and we force-evict, its guard points into freed '',
          ''memory. Rule: evict only lines nobody holds. If all 16 are busy, panic %u2014 it '',
          ''signals the cache is too small for the workload.''])]\<rparr>\<close>

definition phase5En_lesson3_section4 :: ContentSection where
  \<open>phase5En_lesson3_section4 = \<lparr>
    section_title = js ''Write-back vs write-through'',
    section_blocks = [TableBlock [js ''strategy'',
         js ''write behaviour'',
         js ''crash safety'',
         js ''throughput'']
        [[js ''write-back (this course)'',
          js ''Modifies cache, marks modified; flushed on evict or sync'',
          js ''Unsafe %u2014 dirty blocks lost on crash'',
          js ''High: multiple writes coalesce''],
         [js ''write-through'',
          js ''Every write hits disk immediately'',
          js ''Safer'',
          js ''Low: every write pays disk latency'']],
      ParagraphBlock (jcat [''BlockCache::drop checks modified and, if set, writes back before destructing. This '',
          ''gives "everything flushes on clean shutdown". But crash or power loss can lose up to '',
          ''16 dirty blocks %u2014 real filesystems use journaling (ext4) or COW (btrfs/zfs) '',
          ''for crash consistency; we deliberately skip that.'']),
      CodeBlock (Some (js ''rust'')) (jlines [''pub fn sync(&mut self) {'',
          ''    if self.modified {'',
          ''        self.modified = false;'',
          ''        self.block_device.write_block(self.block_id, &self.cache);'',
          ''    }'',
          ''}'',
          ''impl Drop for BlockCache { fn drop(&mut self) { self.sync(); } }'',
          '''',
          ''pub fn block_cache_sync_all() {'',
          ''    // Kernel calls this before shutdown to drain every dirty line'',
          ''    for (_, c) in BLOCK_CACHE_MANAGER.lock().queue.iter() {'',
          ''        c.lock().sync();'',
          ''    }'',
          ''}''])]\<rparr>\<close>

definition phase5En_lesson3_section5 :: ContentSection where
  \<open>phase5En_lesson3_section5 = \<lparr>
    section_title = js ''modify / read: closure-style &mut T / &T'',
    section_blocks = [CodeBlock (Some (js ''rust'')) (jlines [''impl BlockCache {'',
          ''    pub fn read<T, V>(&self, offset: usize, f: impl FnOnce(&T) -> V) -> V {'',
          ''        assert!(offset + core::mem::size_of::<T>() <= BLOCK_SZ);'',
          ''        let ptr = (&self.cache[offset] as *const u8) as *const T;'',
          ''        f(unsafe { &*ptr })'',
          ''    }'',
          ''    pub fn modify<T, V>(&mut self, offset: usize, f: impl FnOnce(&mut T) -> V) -> V {'',
          ''        self.modified = true;'',
          ''        let ptr = (&mut self.cache[offset] as *mut u8) as *mut T;'',
          ''        f(unsafe { &mut *ptr })'',
          ''    }'',
          ''}'']),
      CalloutBlock Info (jcat [''This "lend a view through a closure" idiom is idiomatic Rust %u2014 it guarantees '',
          ''the modified flag is set (callers cannot forget) and prevents returning borrows that '',
          ''would alias the cache internals.''])]\<rparr>\<close>

definition phase5En_lesson3_exercise1 :: CodeExercise where
  \<open>phase5En_lesson3_exercise1 = \<lparr>
    exercise_id = js ''lab3-cache'',
    exercise_title = js ''Lab 3 %u2b50%u2b50 Implement BlockCacheManager'',
    exercise_description = js ''Implement get_block_cache, eviction, and block_cache_sync_all.'',
    exercise_labFile = Some (js ''labs/phase_5_fs/easy-fs/src/block_cache.rs''),
    exercise_hints = [js ''queue.iter().find(|(id,_)| *id == block_id) for the hit path'',
       js ''position(|(_, c)| Arc::strong_count(c)==1) for the evict candidate'',
       js ''Global singleton via lazy_static! + Mutex<BlockCacheManager>'',
       js ''Call sync_all from the panic handler and before shutdown''],
    exercise_pseudocode = Some (jlines [''pub fn get_block_cache(block_id, dev) -> Arc<Mutex<BlockCache>> {'',
          ''    if let Some((_, c)) = queue.iter().find(|(id,_)| *id == block_id) {'',
          ''        return c.clone();'',
          ''    }'',
          ''    if queue.len() == BLOCK_CACHE_SIZE {'',
          ''        let (idx, _) = queue.iter().enumerate()'',
          ''            .find(|(_, (_, c))| Arc::strong_count(c) == 1)'',
          ''            .expect("cache full, all lines in use");'',
          ''        queue.drain(idx..=idx);'',
          ''    }'',
          ''    let c = Arc::new(Mutex::new(BlockCache::new(block_id, dev)));'',
          ''    queue.push_back((block_id, c.clone()));'',
          ''    c'',
          ''}''])\<rparr>\<close>

definition phase5En_lesson3 :: Lesson where
  \<open>phase5En_lesson3 = \<lparr>
    lesson_phaseId = 5, lesson_lessonId = 3,
    lesson_title = js ''Block Cache: why 16-way LRU saves us'',
    lesson_subtitle = js ''Caching blocks (not files) + write-back + strong-count eviction'',
    lesson_type = js ''Concept + Practice'',
    lesson_duration = js ''1.5 hours'',
    lesson_objectives = [js ''Understand why easy-fs caches at block granularity rather than file granularity'',
       js ''Implement LRU with VecDeque and the "evict only if strong_count == 1" rule'',
       js ''Compare write-back vs write-through and know when sync_all is called'',
       js ''Trace a cache-hit path for a typical open("/hello.txt") (~2 misses)''],
    lesson_sections = [phase5En_lesson3_section1,
      phase5En_lesson3_section2,
      phase5En_lesson3_section3,
      phase5En_lesson3_section4,
      phase5En_lesson3_section5],
    lesson_exercises = [phase5En_lesson3_exercise1],
    lesson_acceptanceCriteria = [js ''The 17th distinct-block access triggers eviction, and the earliest non-busy entry leaves'',
       js ''block_cache_sync_all runs before shutdown and drains every dirty line'',
       js ''cargo test --test test_lab3_cache passes''],
    lesson_references = [\<lparr>reference_title = js ''xv6 book Ch. 8.2 Buffer cache'',
       reference_description = js ''[Required] LRU bcache in C, line by line'',
       reference_url = js ''https://pdos.csail.mit.edu/6.828/2023/xv6/book-riscv-rev3.pdf''\<rparr>,
      \<lparr>reference_title = js ''rCore-Tutorial %u00a76.3.2'',
       reference_description = js ''[Required] BlockCacheManager walk-through in Chinese'',
       reference_url = js ''https://rcore-os.cn/rCore-Tutorial-Book-v3/chapter6/3fs-implementation.html''\<rparr>,
      \<lparr>reference_title = js ''OSTEP Ch. 40 %u00a740.10 Crash consistency'',
       reference_description = js ''[Deep dive] The crash hazards of write-back caches'',
       reference_url = js ''https://pages.cs.wisc.edu/~remzi/OSTEP/file-journaling.pdf''\<rparr>]\<rparr>\<close>

section \<open>Lesson 4\<close>

definition phase5En_lesson4_section1 :: ContentSection where
  \<open>phase5En_lesson4_section1 = \<lparr>
    section_title = js ''DiskInode: a whole file in 128 bytes'',
    section_blocks = [CodeBlock (Some (js ''rust'')) (jlines [''const INODE_DIRECT_COUNT: usize = 28;'',
          ''const INODE_INDIRECT1_COUNT: usize = 128;   // 512 / 4'',
          ''const INODE_INDIRECT2_COUNT: usize = 128 * 128;'',
          '''',
          ''#[repr(C)]'',
          ''pub struct DiskInode {'',
          ''    pub size: u32,                              // bytes'',
          ''    pub direct: [u32; INODE_DIRECT_COUNT],      // 28 direct pointers'',
          ''    pub indirect1: u32,                          // single indirect'',
          ''    pub indirect2: u32,                          // double indirect'',
          ''    type_: DiskInodeType,                        // File / Directory'',
          ''}'',
          ''// Total: 4 + 28*4 + 4 + 4 + 4 = 128 B %u2014 exactly 4 fit in a 512-byte block.'']),
      CalloutBlock Info (jcat [''Why doesn't inode_bitmap bit N point to inode object N directly? Because the object '',
          ''lives in the inode area %u2014 the bitmap only allocates positions. Allocating a '',
          ''new inode = bitmap.alloc() returns pos; pos / 4 is the block, pos %25 4 is the slot '',
          ''within it.''])]\<rparr>\<close>

definition phase5En_lesson4_section2 :: ContentSection where
  \<open>phase5En_lesson4_section2 = \<lparr>
    section_title = js ''The pointer tree: from logical to physical block'',
    section_blocks = [DiagramBlock (jlines [''           %u250c%u2500 direct[0]  %r152500%u25ba block #A0  (512 B)'',
          ''           %u251c%u2500 direct[1]  %r152500%u25ba block #A1'',
          ''           %u2502  ...'',
          ''DiskInode %u2500%u253c%u2500 direct[27] %r152500%u25ba block #A27     14 KiB total'',
          ''           %u2502'',
          ''           %u251c%u2500 indirect1 %u2500%u2500%u25ba block #I1'',
          ''           %u2502                 %u250c%r0e2500%u2510'',
          ''           %u2502                 %u2502 u32[128]     %u2502%u2500%u2500%u25ba block #B0      64 KiB total'',
          ''           %u2502                 %u2502              %u2502%u2500%u2500%u25ba block #B1'',
          ''           %u2502                 %u2502              %u2502%u2500%u2500%u25ba ...'',
          ''           %u2502                 %u2514%r0e2500%u2518'',
          ''           %u2502'',
          ''           %u2514%u2500 indirect2 %u2500%u2500%u25ba block #I2'',
          ''                             %u250c%r0e2500%u2510'',
          ''                             %u2502 u32[128]     %u2502%u2500%u2500%u25ba block #C0 (indirect-1 block)'',
          ''                             %u2502              %u2502       %u250c%r0e2500%u2510'',
          ''                             %u2502              %u2502       %u2502 u32[128]     %u2502%u2500%u2500%u25ba D0 (data)'',
          ''                             %u2502              %u2502       %u2502              %u2502%u2500%u2500%u25ba D1'',
          ''                             %u2502              %u2502       %u2514%r0e2500%u2518'',
          ''                             %u2514%r0e2500%u2518                    8 MiB total'',
          '''',
          ''Max file size: 28 %u00d7 512 + 128 %u00d7 512 + 128 %u00d7 128 %u00d7 512'',
          ''            = 14 KiB + 64 KiB + 8 MiB %u2248 8.08 MiB'']),
      TableBlock [js ''range'',
         js ''n values'',
         js ''formula'']
        [[js ''direct'',
          js ''0 %u2264 n < 28'',
          js ''direct[n]''],
         [js ''indirect1'',
          js ''28 %u2264 n < 156'',
          js ''indirect1_block[n - 28]''],
         [js ''indirect2'',
          js ''156 %u2264 n < 16540'',
          js ''indirect2_block[(n-156)/128][(n-156)%25128]'']],
      CodeBlock (Some (js ''rust'')) (jlines [''pub fn get_block_id(&self, inner_id: u32, dev: &Arc<dyn BlockDevice>) -> u32 {'',
          ''    let n = inner_id as usize;'',
          ''    if n < INODE_DIRECT_COUNT {'',
          ''        self.direct[n]'',
          ''    } else if n < INODE_DIRECT_COUNT + INODE_INDIRECT1_COUNT {'',
          ''        get_block_cache(self.indirect1 as usize, dev).lock()'',
          ''            .read(0, |b: &IndirectBlock| b[n - INODE_DIRECT_COUNT])'',
          ''    } else {'',
          ''        let last = n - INODE_DIRECT_COUNT - INODE_INDIRECT1_COUNT;'',
          ''        let a0 = get_block_cache(self.indirect2 as usize, dev).lock()'',
          ''            .read(0, |b: &IndirectBlock| b[last / INODE_INDIRECT1_COUNT]);'',
          ''        get_block_cache(a0 as usize, dev).lock()'',
          ''            .read(0, |b: &IndirectBlock| b[last %25 INODE_INDIRECT1_COUNT])'',
          ''    }'',
          ''}'']),
      CalloutBlock Warning (jcat [''increase_size must allocate in order: fill direct first, then indirect1 itself + '',
          ''its 128 slots, then indirect2 + the second-level pointer blocks + data blocks. Get the '',
          ''order wrong and truncate's free order mirrors the mistake.''])]\<rparr>\<close>

definition phase5En_lesson4_section3 :: ContentSection where
  \<open>phase5En_lesson4_section3 = \<lparr>
    section_title = js ''read_at / write_at: the core loop'',
    section_blocks = [CodeBlock (Some (js ''rust'')) (jlines [''pub fn read_at(&self, offset: usize, buf: &mut [u8], dev: &Arc<dyn BlockDevice>) -> usize {'',
          ''    let mut start = offset;'',
          ''    let end = (offset + buf.len()).min(self.size as usize);'',
          ''    if start >= end { return 0; }'',
          ''    let mut start_block = start / BLOCK_SZ;'',
          ''    let mut out = 0usize;'',
          ''    while start < end {'',
          ''        let end_current_block = ((start / BLOCK_SZ + 1) * BLOCK_SZ).min(end);'',
          ''        let block_read = end_current_block - start;'',
          ''        let dst = &mut buf[out..out + block_read];'',
          ''        let block_id = self.get_block_id(start_block as u32, dev);'',
          ''        get_block_cache(block_id as usize, dev).lock()'',
          ''            .read(0, |d: &DataBlock| {'',
          ''                let src = &d[start %25 BLOCK_SZ..start %25 BLOCK_SZ + block_read];'',
          ''                dst.copy_from_slice(src);'',
          ''            });'',
          ''        out += block_read;'',
          ''        start = end_current_block;'',
          ''        start_block += 1;'',
          ''    }'',
          ''    out'',
          ''}'']),
      ParagraphBlock (jcat [''Three classic traps: (1) partial start/end blocks must be offset-copied; (2) if buf '',
          ''is smaller than the file remainder, clamp with min(offset + buf.len(), size); (3) '',
          ''write_at does not grow the file %u2014 increase_size is its own step, and write_at '',
          ''must assert offset + buf.len() %u2264 size.''])]\<rparr>\<close>

definition phase5En_lesson4_section4 :: ContentSection where
  \<open>phase5En_lesson4_section4 = \<lparr>
    section_title = js ''DirEntry: a directory is literally a file'',
    section_blocks = [DiagramBlock (jlines [''byte  0                           27 28        31'',
          ''     %u250c%r1e2500%u252c%r0c2500%u2510'',
          ''     %u2502 name (NUL-padded, %u2264 27 chars)%u2502 inode (u32)%u2502'',
          ''     %u2514%r1e2500%u2534%r0c2500%u2518'',
          ''  Each entry is 32 B; a 512-B block holds 16 entries.'',
          ''  A directory file is just an array of DirEntry; ls = read_at all + iterate.'',
          '''',
          ''Sample root:'',
          '' %u250c%r0e2500%u252c%r062500%u2510'',
          '' %u2502 "hello.txt"  %u2502  12  %u2502'',
          '' %u251c%r0e2500%u253c%r062500%u2524'',
          '' %u2502 "apps/"      %u2502   7  %u2502   %u2190 no trailing slash here; type lives in the inode'',
          '' %u251c%r0e2500%u253c%r062500%u2524'',
          '' %u2502 ""  (empty)  %u2502   0  %u2502   %u2190 tombstone left after deletion; never compacted'',
          '' %u2514%r0e2500%u2534%r062500%u2518'']),
      CodeBlock (Some (js ''rust'')) (jlines [''pub fn find(&self, name: &str) -> Option<Arc<Inode>> {'',
          ''    self.read_disk_inode(|d| {'',
          ''        assert!(d.is_dir());'',
          ''        let count = (d.size as usize) / DIRENT_SZ;'',
          ''        for i in 0..count {'',
          ''            let mut ent = DirEntry::empty();'',
          ''            d.read_at(i * DIRENT_SZ, ent.as_bytes_mut(), &self.block_device);'',
          ''            if ent.name() == name {'',
          ''                return Some(Arc::new(Inode::new(ent.inode_id(), ...)));'',
          ''            }'',
          ''        }'',
          ''        None'',
          ''    })'',
          ''}'']),
      CalloutBlock Tip (jcat [''O(n) linear search is fine at the course scale. ext4's htree or btrfs's B-trees '',
          ''exist to push this toward O(log n); at hundreds of entries, linear scan is clearer than '',
          ''any fancier structure.''])]\<rparr>\<close>

definition phase5En_lesson4_section5 :: ContentSection where
  \<open>phase5En_lesson4_section5 = \<lparr>
    section_title = js ''create: three operations that must look atomic'',
    section_blocks = [ListBlock True
        [js ''fs.alloc_inode() %u2014 bitmap gives you a pos, which is the global inode_id'',
         js ''Write a fresh DiskInode at the inode-area location (type=File, size=0, pointers zero)'',
         jcat [''Append a DirEntry(name, inode_id) to the current directory %u2014 remember to '',
           ''increase_size(+32) first'']],
      ParagraphBlock (jcat [''Any of the three failing leaves the FS inconsistent %u2014 a real rollback would '',
          ''use a journal. easy-fs simplifies by panicking on failure and assuming a '',
          ''single-threaded FS; Phase 7 asks you to add an atomic group.''])]\<rparr>\<close>

definition phase5En_lesson4_exercise1 :: CodeExercise where
  \<open>phase5En_lesson4_exercise1 = \<lparr>
    exercise_id = js ''lab4-getblock'',
    exercise_title = js ''Lab 4a %u2b50%u2b50 Implement DiskInode::get_block_id'',
    exercise_description = jcat [''Three branches, locating the physical block for logical block n. Always go through '',
        ''get_block_cache for indirect blocks, never block_device.read_block directly.''],
    exercise_labFile = Some (js ''labs/phase_5_fs/easy-fs/src/layout.rs''),
    exercise_hints = [js ''IndirectBlock = [u32; 128] pairs naturally with BlockCache::read'',
       js ''Boundary: n == INODE_DIRECT_COUNT - 1 is the last direct slot'',
       js ''Beware of as usize overflow %u2014 range-check before subtracting offsets''],
    exercise_pseudocode = None\<rparr>\<close>

definition phase5En_lesson4_exercise2 :: CodeExercise where
  \<open>phase5En_lesson4_exercise2 = \<lparr>
    exercise_id = js ''lab4-readat'',
    exercise_title = js ''Lab 4b %r032b50 Implement DiskInode::read_at / write_at'',
    exercise_description = jcat [''Loop block-by-block, handle partial start and end blocks. Unit test: write a 1.5 '',
        ''KiB file, read 1200 bytes starting at offset 100, verify cross-block correctness.''],
    exercise_labFile = Some (js ''labs/phase_5_fs/easy-fs/src/layout.rs''),
    exercise_hints = [js ''max_inner_id = (size + BLOCK_SZ - 1) / BLOCK_SZ'',
       js ''write_at does not grow %u2014 call increase_size first'',
       js ''end_current_block = (start/BLOCK_SZ + 1) * BLOCK_SZ''],
    exercise_pseudocode = None\<rparr>\<close>

definition phase5En_lesson4_exercise3 :: CodeExercise where
  \<open>phase5En_lesson4_exercise3 = \<lparr>
    exercise_id = js ''lab4-vfs'',
    exercise_title = js ''Lab 4c %u2b50%u2b50 Implement Inode::{find, create, ls}'',
    exercise_description = jcat [''Directory operations. find linear-scans; create runs the three-step sequence; ls '',
        ''returns Vec<String>.''],
    exercise_labFile = Some (js ''labs/phase_5_fs/easy-fs/src/vfs.rs''),
    exercise_hints = [js ''Global fs singleton is Arc<Mutex<EasyFileSystem>>'',
       js ''After any directory modification, call block_cache_sync_all so a reboot preserves it'',
       js ''Names longer than 27 chars should return an error %u2014 never overflow''],
    exercise_pseudocode = None\<rparr>\<close>

definition phase5En_lesson4 :: Lesson where
  \<open>phase5En_lesson4 = \<lparr>
    lesson_phaseId = 5, lesson_lessonId = 4,
    lesson_title = js ''DiskInode and directory entries: pointer trees and name lookup'',
    lesson_subtitle = js ''direct / indirect1 / indirect2 + 32-byte dir entries'',
    lesson_type = js ''Concept + Practice'',
    lesson_duration = js ''2 hours'',
    lesson_objectives = [js ''Memorise the 128-byte DiskInode layout'',
       js ''Trace get_block_id(n) through its three branches: direct, indirect1, indirect2'',
       js ''Derive the maximum file size %u2248 8.08 MiB and understand why'',
       js ''Implement Inode::find / create / ls, internalising "a directory is a file"''],
    lesson_sections = [phase5En_lesson4_section1,
      phase5En_lesson4_section2,
      phase5En_lesson4_section3,
      phase5En_lesson4_section4,
      phase5En_lesson4_section5],
    lesson_exercises = [phase5En_lesson4_exercise1, phase5En_lesson4_exercise2, phase5En_lesson4_exercise3],
    lesson_acceptanceCriteria = [jcat [''cargo test --test test_lab4_inode passes: write a 7 MiB file, remount, read '',
         ''identical bytes back''],
       js ''ls / returns all entries in creation order'',
       js ''You can state the maximum file size as an exact integer byte count''],
    lesson_references = [\<lparr>reference_title = js ''xv6 book Ch. 8.10 Directory layer'',
       reference_description = js ''[Required] dirlink / dirlookup in C'',
       reference_url = js ''https://pdos.csail.mit.edu/6.828/2023/xv6/book-riscv-rev3.pdf''\<rparr>,
      \<lparr>reference_title = js ''OSTEP Ch. 39 File system implementation'',
       reference_description = js ''[Required] Canonical pointer-tree explanation'',
       reference_url = js ''https://pages.cs.wisc.edu/~remzi/OSTEP/file-implementation.pdf''\<rparr>,
      \<lparr>reference_title = js ''rCore-Tutorial %u00a76.3.5-6.3.6'',
       reference_description = js ''[Required] DiskInode and Inode in Chinese'',
       reference_url = js ''https://rcore-os.cn/rCore-Tutorial-Book-v3/chapter6/3fs-implementation.html''\<rparr>,
      \<lparr>reference_title = js ''Linux fs/ext2/inode.c'',
       reference_description = js ''[Deep dive] Industrial truncate/extend logic for comparison'',
       reference_url = js ''https://git.kernel.org/pub/scm/linux/kernel/git/torvalds/linux.git/tree/fs/ext2/inode.c''\<rparr>]\<rparr>\<close>

section \<open>Lesson 5\<close>

definition phase5En_lesson5_section1 :: ContentSection where
  \<open>phase5En_lesson5_section1 = \<lparr>
    section_title = js ''The File trait: unifying storage and streams'',
    section_blocks = [CodeBlock (Some (js ''rust'')) (jlines [''pub trait File: Send + Sync {'',
          ''    fn readable(&self) -> bool;'',
          ''    fn writable(&self) -> bool;'',
          ''    fn read(&self, buf: UserBuffer) -> usize;'',
          ''    fn write(&self, buf: UserBuffer) -> usize;'',
          ''}'']),
      DiagramBlock (jlines [''                   %u250c%u2500 Stdin   (reads 1 byte via sbi_console)'',
          ''                   %u2502'',
          ''trait File %r082500%u253c%u2500 Stdout  (writes via println!)'',
          ''                   %u2502'',
          ''                   %u2514%u2500 OSInode (wraps an easy_fs::Inode)'',
          '''',
          ''Per-process fd_table: Vec<Option<Arc<dyn File>>>'',
          '''',
          ''fd=0 %u2192 Stdin'',
          ''fd=1 %u2192 Stdout'',
          ''fd=2 %u2192 Stdout (stderr not yet separate; merged for simplicity)'',
          ''fd%u22653 %u2192 OSInode (allocated on open)'',
          '''',
          ''sys_read(fd, buf, n):'',
          ''  file = task.fd_table[fd].clone()?'',
          ''  assert!(file.readable())'',
          ''  file.read(UserBuffer::new(buf, n))   %u2190 one entry point, type-agnostic'']),
      CalloutBlock Info (jcat [''This trait makes "everything is a file" concrete: pipes, sockets, ttys all slot '',
          ''into fd_table. Phase 6's pipe is the fourth File impl.''])]\<rparr>\<close>

definition phase5En_lesson5_section2 :: ContentSection where
  \<open>phase5En_lesson5_section2 = \<lparr>
    section_title = js ''OSInode: give easy-fs Inode a cursor'',
    section_blocks = [CodeBlock (Some (js ''rust'')) (jlines [''pub struct OSInode {'',
          ''    readable: bool,'',
          ''    writable: bool,'',
          ''    inner: Mutex<OSInodeInner>,'',
          ''}'',
          ''struct OSInodeInner {'',
          ''    offset: usize,                  // current R/W position'',
          ''    inode: Arc<easy_fs::Inode>,'',
          ''}'',
          '''',
          ''impl File for OSInode {'',
          ''    fn read(&self, mut buf: UserBuffer) -> usize {'',
          ''        let mut inner = self.inner.lock();'',
          ''        let mut total = 0;'',
          ''        for slice in buf.buffers.iter_mut() {'',
          ''            let n = inner.inode.read_at(inner.offset, slice);'',
          ''            if n == 0 { break; }'',
          ''            inner.offset += n;'',
          ''            total += n;'',
          ''        }'',
          ''        total'',
          ''    }'',
          ''    fn write(&self, buf: UserBuffer) -> usize {'',
          ''        let mut inner = self.inner.lock();'',
          ''        let mut total = 0;'',
          ''        for slice in buf.buffers.iter() {'',
          ''            let n = inner.inode.write_at(inner.offset, slice);'',
          ''            assert_eq!(n, slice.len());'',
          ''            inner.offset += n;'',
          ''            total += n;'',
          ''        }'',
          ''        total'',
          ''    }'',
          ''}'']),
      ParagraphBlock (jcat [''UserBuffer is already defined in Phase 4: a page-spanning user buffer decomposed '',
          ''into contiguous slices. We loop each slice through inode.read_at/write_at %u2014 the '',
          ''lower easy-fs layer never needs to know whether buf lives in user or kernel memory.''])]\<rparr>\<close>

definition phase5En_lesson5_section3 :: ContentSection where
  \<open>phase5En_lesson5_section3 = \<lparr>
    section_title = js ''Stdin / Stdout: two degenerate implementations'',
    section_blocks = [CodeBlock (Some (js ''rust'')) (jlines [''pub struct Stdin;'',
          ''pub struct Stdout;'',
          '''',
          ''impl File for Stdin {'',
          ''    fn readable(&self) -> bool { true }'',
          ''    fn writable(&self) -> bool { false }'',
          ''    fn read(&self, mut buf: UserBuffer) -> usize {'',
          ''        assert_eq!(buf.len(), 1);          // one byte at a time (simplified)'',
          ''        let c = loop {'',
          ''            let c = sbi::console_getchar();'',
          ''            if c != 0 { break c as u8; }'',
          ''            suspend_current_and_run_next();    // no input yet %u2014 yield'',
          ''        };'',
          ''        unsafe { buf.buffers[0].as_mut_ptr().write_volatile(c); }'',
          ''        1'',
          ''    }'',
          ''    fn write(&self, _: UserBuffer) -> usize { panic!("Stdin not writable"); }'',
          ''}'',
          '''',
          ''impl File for Stdout {'',
          ''    fn readable(&self) -> bool { false }'',
          ''    fn writable(&self) -> bool { true }'',
          ''    fn read(&self, _: UserBuffer) -> usize { panic!("Stdout not readable"); }'',
          ''    fn write(&self, buf: UserBuffer) -> usize {'',
          ''        for slice in buf.buffers.iter() {'',
          ''            print!("{}", core::str::from_utf8(slice).unwrap());'',
          ''        }'',
          ''        buf.len()'',
          ''    }'',
          ''}'']),
      CalloutBlock Tip (jcat [''Stdin's console_getchar is non-blocking %u2014 returning 0 means "yield and let the '',
          ''scheduler run other tasks". This is the most primitive cooperative I/O '',
          ''multiplexing. Phase 6 swaps it for semaphore-based blocking wakeup.''])]\<rparr>\<close>

definition phase5En_lesson5_section4 :: ContentSection where
  \<open>phase5En_lesson5_section4 = \<lparr>
    section_title = js ''open_file: translating flags into easy-fs operations'',
    section_blocks = [CodeBlock (Some (js ''rust'')) (jlines [''bitflags! {'',
          ''    pub struct OpenFlags: u32 {'',
          ''        const RDONLY = 0;'',
          ''        const WRONLY = 1 << 0;'',
          ''        const RDWR   = 1 << 1;'',
          ''        const CREATE = 1 << 9;'',
          ''        const TRUNC  = 1 << 10;'',
          ''    }'',
          ''}'',
          ''impl OpenFlags { pub fn read_write(&self) -> (bool, bool) { ... } }'',
          '''',
          ''pub fn open_file(name: &str, flags: OpenFlags) -> Option<Arc<OSInode>> {'',
          ''    let (r, w) = flags.read_write();'',
          ''    if flags.contains(OpenFlags::CREATE) {'',
          ''        if let Some(inode) = ROOT.find(name) {'',
          ''            inode.clear();                      // O_TRUNC semantics'',
          ''            Some(Arc::new(OSInode::new(r, w, inode)))'',
          ''        } else {'',
          ''            let inode = ROOT.create(name)?;'',
          ''            Some(Arc::new(OSInode::new(r, w, inode)))'',
          ''        }'',
          ''    } else {'',
          ''        let inode = ROOT.find(name)?;'',
          ''        if flags.contains(OpenFlags::TRUNC) { inode.clear(); }'',
          ''        Some(Arc::new(OSInode::new(r, w, inode)))'',
          ''    }'',
          ''}''])]\<rparr>\<close>

definition phase5En_lesson5_section5 :: ContentSection where
  \<open>phase5En_lesson5_section5 = \<lparr>
    section_title = js ''The four syscalls: sys_open/read/write/close'',
    section_blocks = [CodeBlock (Some (js ''rust'')) (jlines [''pub fn sys_open(path: *const u8, flags: u32) -> isize {'',
          ''    let token = current_user_token();'',
          ''    let path = translated_str(token, path);'',
          ''    let flags = OpenFlags::from_bits(flags).unwrap();'',
          ''    if let Some(inode) = open_file(path.as_str(), flags) {'',
          ''        let fd = current_task().alloc_fd(inode);'',
          ''        fd as isize'',
          ''    } else { -1 }'',
          ''}'',
          ''pub fn sys_close(fd: usize) -> isize {'',
          ''    let t = current_task();'',
          ''    if t.fd_table[fd].is_none() { return -1; }'',
          ''    t.fd_table[fd].take();                   // drops Arc<dyn File>'',
          ''    0'',
          ''}'',
          ''pub fn sys_read(fd, buf, n) -> isize {'',
          ''    let file = current_task().fd_table[fd].clone()?;'',
          ''    if !file.readable() { return -1; }'',
          ''    let buf = UserBuffer::new(translated_byte_buffer(token, buf, n));'',
          ''    file.read(buf) as isize'',
          ''}'',
          ''// sys_write is symmetric'']),
      CalloutBlock Warning (jcat [''fd_table allocation: grab the first None slot. This keeps fds bounded and matches '',
          ''Unix's "open returns the smallest free fd". close() via take() drops the Arc to zero '',
          ''%u2014 but easy-fs::Inode may still be shared by another fd, hence the Arc.''])]\<rparr>\<close>

definition phase5En_lesson5_section6 :: ContentSection where
  \<open>phase5En_lesson5_section6 = \<lparr>
    section_title = js ''End-to-end acceptance flow'',
    section_blocks = [DiagramBlock (jlines [''user$ echo hello > greeting'',
          ''        %u2193 shell fork+exec'',
          ''user binary calls sys_open("greeting", WRONLY|CREATE|TRUNC)'',
          ''        %u2193 ecall'',
          ''sys_open %u2192 open_file %u2192 ROOT.create("greeting") %u2192 alloc inode + write DirEntry'',
          ''                                                  block_cache_sync_all'',
          ''        %u2193 returns fd=3'',
          ''sys_write(3, "hello%5cn", 6) %u2192 OSInode::write %u2192 Inode::write_at'',
          ''                                              %u2192 DiskInode::write_at'',
          ''                                              %u2192 BlockCache.modify'',
          ''                                                (mark dirty; flush on Drop)'',
          ''sys_close(3)                %u2192 Arc drop %u2192 last fd gone, OSInode drop'',
          ''                                         OSInode drop %u2192 Inode drop (if last)'',
          '''',
          ''reboot %u2192 easy-fs re-reads SuperBlock %u2192 ROOT.find("greeting") %u2192 bytes intact %u2713''])]\<rparr>\<close>

definition phase5En_lesson5_exercise1 :: CodeExercise where
  \<open>phase5En_lesson5_exercise1 = \<lparr>
    exercise_id = js ''lab5-osinode'',
    exercise_title = js ''Lab 5a %u2b50%u2b50 Implement OSInode + open_file'',
    exercise_description = js ''Make an easy-fs Inode behave like a File.'',
    exercise_labFile = Some (js ''labs/phase_5_fs/src/fs/inode.rs''),
    exercise_hints = [js ''OSInodeInner under a Mutex, holding (offset, inode)'',
       js ''flags.read_write() returns (readable, writable)'',
       js ''CREATE on an existing file equals O_TRUNC + reuse''],
    exercise_pseudocode = None\<rparr>\<close>

definition phase5En_lesson5_exercise2 :: CodeExercise where
  \<open>phase5En_lesson5_exercise2 = \<lparr>
    exercise_id = js ''lab5-stdio'',
    exercise_title = js ''Lab 5b %u2b50 Implement Stdin / Stdout'',
    exercise_description = js ''During task spawn, populate fd_table[0..=2] with Stdin/Stdout Arcs.'',
    exercise_labFile = Some (js ''labs/phase_5_fs/src/fs/stdio.rs''),
    exercise_hints = [js ''fd=2 points at the same Stdout for now (stderr deferred to Phase 6)'',
       js ''Stdin::read reads a single u8 via sbi_console_getchar''],
    exercise_pseudocode = None\<rparr>\<close>

definition phase5En_lesson5_exercise3 :: CodeExercise where
  \<open>phase5En_lesson5_exercise3 = \<lparr>
    exercise_id = js ''lab5-syscall'',
    exercise_title = js ''Lab 5c %u2b50%u2b50 sys_open/read/write/close'',
    exercise_description = jcat [''Wire the four calls into the syscall table; both read and write flow through '',
        ''UserBuffer for page-spanning safety.''],
    exercise_labFile = Some (js ''labs/phase_5_fs/src/syscall/fs.rs''),
    exercise_hints = [js ''Copy path from userspace via translated_str'',
       js ''Slice the user physical memory via translated_byte_buffer'',
       js ''sys_close uses take(), not set-to-None %u2014 otherwise the Arc is never dropped''],
    exercise_pseudocode = Some (jlines [''pub fn syscall(id: usize, args: [usize; 3]) -> isize {'',
          ''    match id {'',
          ''        56 => sys_open(args[0] as *const u8, args[1] as u32, args[2] as u32),'',
          ''        57 => sys_close(args[0]),'',
          ''        63 => sys_read(args[0], args[1] as *const u8, args[2]),'',
          ''        64 => sys_write(args[0], args[1] as *const u8, args[2]),'',
          ''        ...'',
          ''    }'',
          ''}''])\<rparr>\<close>

definition phase5En_lesson5_exercise4 :: CodeExercise where
  \<open>phase5En_lesson5_exercise4 = \<lparr>
    exercise_id = js ''lab5-integration'',
    exercise_title = js ''Lab 5d %u2b50%u2b50 End-to-end acceptance'',
    exercise_description = js ''make fs-img && make run: test_fs passes, reboot, hello.txt still present.'',
    exercise_labFile = Some (js ''labs/phase_5_fs/user/src/bin/test_fs.rs''),
    exercise_hints = [js ''make fs-img invokes easy-fs-fuse on the host and produces target/fs.img'',
       js ''QEMU attaches via -drive file=target/fs.img'',
       jcat [''test_fs steps: write %u2192 read %u2192 verify %u2192 delete %u2192 reopen '',
         ''expecting failure'']],
    exercise_pseudocode = None\<rparr>\<close>

definition phase5En_lesson5 :: Lesson where
  \<open>phase5En_lesson5 = \<lparr>
    lesson_phaseId = 5, lesson_lessonId = 5,
    lesson_title = js ''The VFS layer: a File trait for files and streams'',
    lesson_subtitle = js ''OSInode + stdin/stdout + sys_open/read/write/close'',
    lesson_type = js ''Practice + Integration'',
    lesson_duration = js ''2 hours'',
    lesson_objectives = [js ''Understand why the File trait is the keystone of "everything is a file"'',
       js ''Implement OSInode: attach a cursor and R/W flags to an easy-fs Inode'',
       js ''Implement sys_open/read/write/close'',
       js ''Run cat / echo end-to-end; data survives reboot %u2014 the Phase 5 acceptance gate''],
    lesson_sections = [phase5En_lesson5_section1,
      phase5En_lesson5_section2,
      phase5En_lesson5_section3,
      phase5En_lesson5_section4,
      phase5En_lesson5_section5,
      phase5En_lesson5_section6],
    lesson_exercises = [phase5En_lesson5_exercise1, phase5En_lesson5_exercise2, phase5En_lesson5_exercise3, phase5En_lesson5_exercise4],
    lesson_acceptanceCriteria = [js ''make qemu runs test_fs and prints "test_fs OK"'',
       js ''After quitting QEMU and restarting, a hello.txt created in a previous run is cat-able'',
       js ''scripts/grade.py gives full marks (including LRU / bitmap / indirect2 edge cases)'',
       js ''An lsof-style walk over task.fd_table leaks no Arcs''],
    lesson_references = [\<lparr>reference_title = js ''xv6 book Ch. 8.6-8.10 File descriptor layer'',
       reference_description = js ''[Required] The canonical source of the File abstraction'',
       reference_url = js ''https://pdos.csail.mit.edu/6.828/2023/xv6/book-riscv-rev3.pdf''\<rparr>,
      \<lparr>reference_title = js ''rCore-Tutorial %u00a76.4'',
       reference_description = js ''[Required] OSInode + sys_open walk-through in Chinese'',
       reference_url = js ''https://rcore-os.cn/rCore-Tutorial-Book-v3/chapter6/4fs-syscall.html''\<rparr>,
      \<lparr>reference_title = js ''OSTEP Ch. 39 %u00a739.3-39.4'',
       reference_description = js ''[Required] fd table, open/read/write semantics'',
       reference_url = js ''https://pages.cs.wisc.edu/~remzi/OSTEP/file-intro.pdf''\<rparr>,
      \<lparr>reference_title = js ''Linux fs/open.c + fs/read_write.c'',
       reference_description = js ''[Deep dive] Industrial sys_open / vfs_read sources'',
       reference_url = js ''https://git.kernel.org/pub/scm/linux/kernel/git/torvalds/linux.git/tree/fs''\<rparr>,
      \<lparr>reference_title = js ''Stretch question'',
       reference_description = jcat [''[Stretch] How would you extend the File trait with lseek / fstat / mmap? If fork '',
          ''can share fds, how should offset be handled (per-fd vs per-inode)?''],
       reference_url = js ''''\<rparr>]\<rparr>\<close>

section \<open>The phase\<close>

definition phase5En :: PhaseContent where
  \<open>phase5En = \<lparr>
    content_phaseId = 5,
    content_color = js ''#0891B2'',
    content_accent = js ''#06B6D4'',
    content_lessons = [phase5En_lesson1, phase5En_lesson2, phase5En_lesson3, phase5En_lesson4, phase5En_lesson5]\<rparr>\<close>

section \<open>Well-formedness\<close>

lemma phase5En_lesson1_ok: "lesson_ok phase5En_lesson1"
  by (simp add: lesson_ok_def section_ok_def phase5En_lesson1_def
      phase5En_lesson1_section1_def
      phase5En_lesson1_section2_def
      phase5En_lesson1_section3_def
      phase5En_lesson1_section4_def
      phase5En_lesson1_section5_def
      phase5En_lesson1_section6_def
      phase5En_lesson1_exercise1_def
      phase5En_lesson1_exercise2_def)

lemma phase5En_lesson2_ok: "lesson_ok phase5En_lesson2"
  by (simp add: lesson_ok_def section_ok_def phase5En_lesson2_def
      phase5En_lesson2_section1_def
      phase5En_lesson2_section2_def
      phase5En_lesson2_section3_def
      phase5En_lesson2_section4_def
      phase5En_lesson2_exercise1_def
      phase5En_lesson2_exercise2_def)

lemma phase5En_lesson3_ok: "lesson_ok phase5En_lesson3"
  by (simp add: lesson_ok_def section_ok_def phase5En_lesson3_def
      phase5En_lesson3_section1_def
      phase5En_lesson3_section2_def
      phase5En_lesson3_section3_def
      phase5En_lesson3_section4_def
      phase5En_lesson3_section5_def
      phase5En_lesson3_exercise1_def)

lemma phase5En_lesson4_ok: "lesson_ok phase5En_lesson4"
  by (simp add: lesson_ok_def section_ok_def phase5En_lesson4_def
      phase5En_lesson4_section1_def
      phase5En_lesson4_section2_def
      phase5En_lesson4_section3_def
      phase5En_lesson4_section4_def
      phase5En_lesson4_section5_def
      phase5En_lesson4_exercise1_def
      phase5En_lesson4_exercise2_def
      phase5En_lesson4_exercise3_def)

lemma phase5En_lesson5_ok: "lesson_ok phase5En_lesson5"
  by (simp add: lesson_ok_def section_ok_def phase5En_lesson5_def
      phase5En_lesson5_section1_def
      phase5En_lesson5_section2_def
      phase5En_lesson5_section3_def
      phase5En_lesson5_section4_def
      phase5En_lesson5_section5_def
      phase5En_lesson5_section6_def
      phase5En_lesson5_exercise1_def
      phase5En_lesson5_exercise2_def
      phase5En_lesson5_exercise3_def
      phase5En_lesson5_exercise4_def)

lemma phase5En_lesson1_ids: "lesson_phaseId phase5En_lesson1 = 5" "lesson_lessonId phase5En_lesson1 = 1"
  by (simp_all add: phase5En_lesson1_def)

lemma phase5En_lesson2_ids: "lesson_phaseId phase5En_lesson2 = 5" "lesson_lessonId phase5En_lesson2 = 2"
  by (simp_all add: phase5En_lesson2_def)

lemma phase5En_lesson3_ids: "lesson_phaseId phase5En_lesson3 = 5" "lesson_lessonId phase5En_lesson3 = 3"
  by (simp_all add: phase5En_lesson3_def)

lemma phase5En_lesson4_ids: "lesson_phaseId phase5En_lesson4 = 5" "lesson_lessonId phase5En_lesson4 = 4"
  by (simp_all add: phase5En_lesson4_def)

lemma phase5En_lesson5_ids: "lesson_phaseId phase5En_lesson5 = 5" "lesson_lessonId phase5En_lesson5 = 5"
  by (simp_all add: phase5En_lesson5_def)

lemma phase5En_shape [site_shape]:
  "content_phaseId phase5En = 5" "length (content_lessons phase5En) = 5"
  by (simp_all add: phase5En_def)

lemma phase5En_ok [site_shape]: "content_ok phase5En"
  by (simp add: content_ok_def phase5En_def upt_rec
      phase5En_lesson1_ok phase5En_lesson2_ok phase5En_lesson3_ok phase5En_lesson4_ok phase5En_lesson5_ok
      phase5En_lesson1_ids phase5En_lesson2_ids phase5En_lesson3_ids phase5En_lesson4_ids phase5En_lesson5_ids)

end
