(* ===== verification/Phase6_ZhCN.thy ===== *)
theory Phase6_ZhCN
  imports Content_Types
begin

text \<open>
  Phase 6, shell, pipes and user programs, in Simplified Chinese: the constant \<open>phase6ZhCN\<close> of
  \<open>website/src/data/phase6.ts\<close>, one definition per section, exercise and lesson. Below it, that the
  content is well formed.
\<close>

section \<open>Lesson 1\<close>

definition phase6ZhCN_lesson1_section1 :: ContentSection where
  \<open>phase6ZhCN_lesson1_section1 = \<lparr>
    section_title = js ''%u4e00%u6b21 syscall%uff0c%u4e24%u4e2a%u8fd4%u56de%u503c'',
    section_blocks = [ParagraphBlock (jcat [''fork %u662f Unix %u6700%u6709%u7075%u6027%u7684%u8bbe%u8ba1%uff1a%u540c%u4e00%u6761 '',
          ''ecall%uff0c%u7236%u8fdb%u7a0b%u62ff%u5230%u5b50%u8fdb%u7a0b%u7684 '',
          ''pid%uff08%u6b63%u6570%uff09%uff0c%u5b50%u8fdb%u7a0b%u62ff%u5230 '',
          ''0%u3002%u8fd9%u79cd%u53cc%u8fd4%u56de%u503c%u4e0d%u662f%u8bed%u8a00%u7279%u6027%u2014%u2014%u5b83%u662f%u6211%u4eec'',
          ''%u624b%u52a8%u628a%u5b50%u8fdb%u7a0b TrapContext %u4e2d%u7684 x[10]%uff08%u5373 '',
          ''a0%uff09%u5199%u6210 0 %u7684%u7ed3%u679c%u3002%u5f53%u8c03%u5ea6%u5668%u5c06%u6765 '',
          ''__restore %u5b50%u8fdb%u7a0b%u65f6%uff0csret %u628a 0 '',
          ''%u88c5%u8fdb%u7528%u6237%u5bc4%u5b58%u5668 a0%uff0c%u4e8e%u662f C %u4ee3%u7801%u91cc%u7684 if (pid == 0) '',
          ''%u5206%u652f%u5c31%u81ea%u7136%u5206%u6d41%u4e86%u3002'']),
      DiagramBlock (jlines [''  fork %u4e4b%u524d                       fork %u4e4b%u540e'',
          ''  %u250c%r0c2500%u2510                 %u250c%r0c2500%u2510   %u250c%r0c2500%u2510'',
          ''  %u2502 parent PCB %u2502                 %u2502 parent PCB %u2502   %u2502  child PCB %u2502'',
          ''  %u2502 pid = 7    %u2502     %r062550%u25b6    %u2502 pid = 7    %u2502   %u2502  pid = 8   %u2502'',
          ''  %u2502 a0 = ?     %u2502                 %u2502 a0 = 8     %u2502   %u2502  a0 = 0    %u2502  %u2190 %u624b%u52a8%u6539'',
          ''  %u2502 memory A   %u2502                 %u2502 memory A   %u2502   %u2502  memory A' %u2502  %u2190 %u5168%u91cf%u62f7%u8d1d'',
          ''  %u2502 fd[0..3]   %u2502                 %u2502 fd[0..3]   %u2502   %u2502  fd[0..3]  %u2502  %u2190 Arc::clone'',
          ''  %u2514%r0c2500%u2518                 %u2514%r0c2500%u2518   %u2514%r0c2500%u2518'',
          ''                                              %u2191'',
          ''                                   %u4e24%u8005%u5171%u4eab%u540c%u4e00%u4e2a File trait object'',
          ''                                   %u7684%u5f15%u7528%u8ba1%u6570%u2014%u2014%u8fd9%u662f%u7ba1%u9053%u80fd%u5de5%u4f5c%u7684%u6839%u57fa'']),
      CodeBlock (Some (js ''rust'')) (jlines [''// labs/phase_6_shell/src/task/fork.rs'',
          ''pub fn sys_fork() -> isize {'',
          ''    let parent = current_task().unwrap();'',
          ''    let child  = parent.fork();                    // %u6df1%u62f7%u8d1d memory_set%uff0cArc::clone fd_table'',
          ''    let trap_cx = child.inner_exclusive_access().get_trap_cx();'',
          ''    trap_cx.x[10] = 0;                              // %u2605 %u5b50%u8fdb%u7a0b a0 = 0'',
          ''    let new_pid = child.pid.0 as isize;'',
          ''    add_task(child);                                // %u5165%u5c31%u7eea%u961f%u5217'',
          ''    new_pid                                         // %u7236%u8fdb%u7a0b a0 = %u5b50 pid'',
          ''}'']),
      CalloutBlock Info (jcat [''%u8fd9%u5c31%u662f%u8457%u540d%u7684 Unix "%u4e00%u6b21%u7cfb%u7edf%u8c03%u7528'',
          ''%u8fd4%u56de%u4e24%u6b21" %u7684%u9b54%u6cd5%u3002%u786c%u4ef6%u6839%u672c%u4e0d'',
          ''%u77e5%u9053%u6709%u8fd9%u56de%u4e8b%u2014%u2014%u79d8%u5bc6%u5168%u85cf%u5728%u8c03'',
          ''%u5ea6%u5668 __restore %u4e4b%u524d%u90a3%u4e00%u6b21 trap_cx.x[10] = 0 '',
          ''%u7684%u8d4b%u503c%u3002''])]\<rparr>\<close>

definition phase6ZhCN_lesson1_section2 :: ContentSection where
  \<open>phase6ZhCN_lesson1_section2 = \<lparr>
    section_title = js ''Copy-on-write%uff1a%u672c%u9879%u76ee%u4e0d%u505a%uff0c%u4f46%u5fc5%u987b%u61c2'',
    section_blocks = [ParagraphBlock (jcat [''%u672c%u6559%u5b66%u5185%u6838%u5728 fork %u65f6%u505a%u5b8c%u6574%u7684%u7269%u7406'',
          ''%u5e27%u590d%u5236%uff08MemorySet::from_existed_user%uff09%u3002%u5982%u679c%u7236'',
          ''%u8fdb%u7a0b%u7d27%u63a5%u7740 exec%uff0c%u90a3%u4e9b%u590d%u5236%u51fa%u6765%u7684'',
          ''%u5e27%u7acb%u523b%u88ab%u4e22%u5f03%u2014%u2014%u7eaf%u7cb9%u7684%u6d6a%u8d39%u3002'',
          ''%u771f%u5b9e%u7684 Linux %u7528 COW%uff1a%u5b50%u8fdb%u7a0b%u7ee7%u627f%u7236%u8fdb'',
          ''%u7a0b%u7684%u9875%u8868%uff0c%u6240%u6709%u53ef%u5199%u9875%u4e34%u65f6%u6539%u6210'',
          ''%u53ea%u8bfb%uff1b%u4efb%u4e00%u65b9%u5199%u5165%u89e6%u53d1%u7f3a%u9875%u5f02%u5e38'',
          ''%uff0c%u5185%u6838%u624d%u61d2%u60f0%u5730%u5206%u914d%u65b0%u5e27%u5e76%u62f7%u8d1d'',
          ''%u3002'']),
      TableBlock [js ''%u65b9%u6848'',
         js ''fork %u65f6%u5f00%u9500'',
         js ''exec %u540e%u5f00%u9500'',
         js ''%u5b9e%u73b0%u590d%u6742%u5ea6'']
        [[js ''%u5b8c%u6574%u62f7%u8d1d%uff08%u672c%u9879%u76ee%uff09'',
          js ''O(memory_size)'',
          js ''%u4e22%u5f03%u5e76%u91cd%u5efa'',
          js ''%u6700%u7b80%u5355''],
         [js ''Copy-on-write'',
          js ''O(page_count)%uff08%u53ea%u6807%u53ea%u8bfb%uff09'',
          js ''%u51e0%u4e4e%u65e0%u6d6a%u8d39'',
          js ''%u9700%u8981%u5199%u65f6%u7f3a%u9875%u8def%u5f84 + %u5f15%u7528%u8ba1%u6570%u5e27''],
         [js ''vfork / posix_spawn'',
          js ''%u4e0d%u62f7%u8d1d%uff0c%u7236%u963b%u585e'',
          js ''%u5b50%u5fc5%u987b%u7acb%u523b exec'',
          js ''API %u7ea6%u675f%u5f88%u5f3a'']],
      CalloutBlock Tip (jcat [''Phase 4 %u4f60%u5df2%u7ecf%u6709%u4e86 MapArea %u548c '',
          ''PageTable%u2014%u2014%u60f3%u7ed9%u9879%u76ee%u5347%u7ea7 COW '',
          ''%u662f%u5f88%u597d%u7684%u6269%u5c55%u7ec3%u4e60%uff0c%u4f46%u4f1a%u8ddf Phase 3 '',
          ''%u7684%u9501%u4ea4%u4e92%u53d8%u590d%u6742%u3002%u5efa%u8bae%u505a%u5b8c Phase 6 %u518d%u56de%u5934%u52a0%u3002''])]\<rparr>\<close>

definition phase6ZhCN_lesson1_section3 :: ContentSection where
  \<open>phase6ZhCN_lesson1_section3 = \<lparr>
    section_title = js ''exec%uff1a%u8eab%u4efd%u4fdd%u7559%uff0c%u7075%u9b42%u66ff%u6362'',
    section_blocks = [DiagramBlock (jlines [''  before exec("sh")           after exec("sh")'',
          ''  %u250c%r0c2500%u2510              %u250c%r0c2500%u2510'',
          ''  %u2502 memory_set %u2502  %u2500%u2500 drop %u2500%u2500%u25b6 %u2502 memory_set %u2502   %u2190 %u65b0 ELF %u7684 segments'',
          ''  %u2502 (old prog) %u2502              %u2502 (sh prog)  %u2502'',
          ''  %u251c%r0c2500%u2524              %u251c%r0c2500%u2524'',
          ''  %u2502 fd_table   %u2502  %u2500%u2500 keep %u2500%u2500%u25b6 %u2502 fd_table   %u2502   %u2190 %u4fdd%u7559%uff01%u8fd9%u662f%u91cd%u5b9a%u5411%u80fd%u8de8'',
          ''  %u251c%r0c2500%u2524              %u251c%r0c2500%u2524       %u8fc7 exec %u7684%u5173%u952e'',
          ''  %u2502 pid, ppid  %u2502  %u2500%u2500 keep %u2500%u2500%u25b6 %u2502 pid, ppid  %u2502'',
          ''  %u2502 children[] %u2502  %u2500%u2500 keep %u2500%u2500%u25b6 %u2502 children[] %u2502'',
          ''  %u2514%r0c2500%u2518              %u2514%r0c2500%u2518'']),
      ParagraphBlock (jcat [''exec %u89e3%u6790 ELF%uff0c%u7528 MemorySet::from_elf '',
          ''%u6784%u9020%u65b0%u5730%u5740%u7a7a%u95f4%uff0c%u76f4%u63a5%u8d4b%u503c%u7ed9 inner.memory_set%u2014%u2014Rust '',
          ''RAII %u4f1a%u628a%u8001%u7684%u4e00%u6574%u5957%u5e27%u91ca%u653e%u3002%u7136%u540e'',
          ''%u7528 TrapContext::app_init_context %u5728%u65b0%u7528%u6237%u6808%u9876%u5199'',
          ''%u4e00%u4e2a%u5e72%u51c0%u7684 TrapContext%uff0c%u8ba9 __restore '',
          ''%u628a%u7528%u6237%u5bc4%u5b58%u5668%u5168%u6e05%u96f6%uff0c%u4ece ELF entry '',
          ''%u5f00%u59cb%u6267%u884c%u3002'']),
      CodeBlock (Some (js ''rust'')) (jlines [''// labs/phase_6_shell/src/task/exec.rs'',
          ''pub fn exec(&self, elf_data: &[u8], args: Vec<String>) {'',
          ''    let (memory_set, mut user_sp, entry) = MemorySet::from_elf(elf_data);'',
          ''    let trap_cx_ppn = memory_set.translate(TRAP_CONTEXT.into())'',
          ''        .unwrap().ppn();'',
          ''    // %u628a argv %u62f7%u5230%u7528%u6237%u6808%u9876%uff08%u6309 RISC-V ABI%uff09'',
          ''    user_sp = push_args_to_stack(&mut user_sp, &args, &memory_set);'',
          ''    let mut inner = self.inner_exclusive_access();'',
          ''    inner.memory_set = memory_set;             // %u8001 MemorySet %u5728%u6b64 drop'',
          ''    inner.trap_cx_ppn = trap_cx_ppn;'',
          ''    *inner.get_trap_cx() = TrapContext::app_init_context('',
          ''        entry, user_sp,'',
          ''        KERNEL_SPACE.exclusive_access().token(),'',
          ''        self.kernel_stack.get_top(),'',
          ''        trap_handler as usize,'',
          ''    );'',
          ''    // fd_table %u5b8c%u5168%u4e0d%u52a8%u2014%u2014%u8fd9%u662f redirection %u7684%u7075%u9b42'',
          ''}''])]\<rparr>\<close>

definition phase6ZhCN_lesson1_section4 :: ContentSection where
  \<open>phase6ZhCN_lesson1_section4 = \<lparr>
    section_title = js ''waitpid%uff1a%u50f5%u5c38%u56de%u6536%u7684%u4e09%u6001%u534f%u8bae'',
    section_blocks = [ParagraphBlock (jcat [''exit(code) %u4e0d%u80fd%u7acb%u523b%u91ca%u653e '',
          ''TCB%u2014%u2014%u7236%u8fdb%u7a0b%u53ef%u80fd%u60f3%u8bfb%u53d6%u9000%u51fa%u7801%u3002%u6211%u4eec%u628a%u5b50%u8fdb'',
          ''%u7a0b%u6807%u8bb0%u4e3a Zombie%uff0c%u4fdd%u7559%u4e00%u4e2a%u53ea%u542b exit_code '',
          ''%u7684%u8f7b%u91cf PCB%u3002waitpid %u6765%u627e%u5b83%u3001%u62ff%u8d70 '',
          ''exit_code%u3001%u4ece%u7236%u7684 children %u5217%u8868%u91cc%u6458%u6389%uff0c%u6b64%u65f6'',
          ''%u5f15%u7528%u8ba1%u6570%u5f52%u96f6%uff0cTCB %u624d%u771f%u6b63%u6d88%u5931%u3002'']),
      TableBlock [js ''%u60c5%u51b5'',
         js ''%u8fd4%u56de%u503c'',
         js ''%u542b%u4e49'']
        [[js ''%u65e0%u4efb%u4f55%u5339%u914d%u5b50%u8fdb%u7a0b'',
          js ''-1'',
          js ''%u53c2%u6570%u9519%u6216%u5b50%u8fdb%u7a0b%u65e9%u5c31%u4e0d%u5b58%u5728''],
         [js ''%u6709%u5339%u914d%u5b50%u8fdb%u7a0b%u4f46%u90fd%u8fd8%u5728%u8dd1'',
          js ''-2'',
          js ''%u7528%u6237%u6001%u81ea%u5df1 sys_yield %u540e%u91cd%u8bd5''],
         [js ''%u627e%u5230%u4e00%u4e2a%u50f5%u5c38'',
          js ''pid'',
          js ''exit_code %u5199%u5165 *status%uff0c%u5b50 PCB %u88ab%u56de%u6536'']],
      CodeBlock (Some (js ''rust'')) (jlines [''// labs/phase_6_shell/src/task/waitpid.rs'',
          ''pub fn sys_waitpid(pid: isize, exit_code_ptr: *mut i32) -> isize {'',
          ''    let task = current_task().unwrap();'',
          ''    let mut inner = task.inner_exclusive_access();'',
          ''    if !inner.children.iter().any(|c| pid == -1 || c.pid.0 as isize == pid) {'',
          ''        return -1;                              // %u6ca1%u8fd9%u4e2a%u5b69%u5b50'',
          ''    }'',
          ''    let pos = inner.children.iter().position(|c| {'',
          ''        c.inner_exclusive_access().is_zombie()'',
          ''            && (pid == -1 || c.pid.0 as isize == pid)'',
          ''    });'',
          ''    if let Some(idx) = pos {'',
          ''        let child = inner.children.remove(idx);'',
          ''        let child_pid = child.pid.0 as isize;'',
          ''        let exit_code = child.inner_exclusive_access().exit_code;'',
          ''        // %u628a exit_code %u62f7%u5230%u7528%u6237%u7a7a%u95f4'',
          ''        *translated_refmut(inner.memory_set.token(), exit_code_ptr) = exit_code;'',
          ''        child_pid                                // %u2190 %u8fd4%u56de pid'',
          ''    } else {'',
          ''        -2                                       // %u2190 %u6709%u5b69%u5b50%u4f46%u8fd8%u6ca1%u9000%u51fa'',
          ''    }'',
          ''}'']),
      CalloutBlock Warning (jcat [''init %u8fdb%u7a0b%uff08pid=0%uff09%u5fc5%u987b%u5728%u6b7b%u5faa%u73af%u91cc '',
          ''waitpid(-1) %u6765%u6536%u5272%u6240%u6709%u5b64%u513f%u2014%u2014%u4efb%u4f55%u7528%u6237'',
          ''%u8fdb%u7a0b%u7684%u7236%u8fdb%u7a0b%u5148%u6b7b%u4e86%uff0c%u5b83%u7684%u5b69%u5b50'',
          ''%u4f1a%u88ab%u91cd%u65b0%u6302%u5230 init %u540d%u4e0b%u3002%u5fd8%u4e86%u8fd9%u4e00'',
          ''%u6b65%uff0c%u7cfb%u7edf%u8dd1%u4e00%u4f1a%u5c31%u5168%u662f%u50f5%u5c38 PCB '',
          ''%u5360%u7740%u7269%u7406%u9875%u3002''])]\<rparr>\<close>

definition phase6ZhCN_lesson1_exercise1 :: CodeExercise where
  \<open>phase6ZhCN_lesson1_exercise1 = \<lparr>
    exercise_id = js ''lab1-fork'',
    exercise_title = js ''Lab 1a %u2b50%u2b50 %u5b9e%u73b0 sys_fork'',
    exercise_description = jcat [''%u5728 task/fork.rs %u91cc%u5b9e%u73b0 fork()%uff1a%u6df1%u62f7%u8d1d '',
        ''memory_set%uff0cArc::clone fd_table%uff0c%u628a%u5b50%u8fdb%u7a0b%u7684 a0 %u6539%u4e3a '',
        ''0%uff0c%u8fd4%u56de%u5b50 pid%u3002''],
    exercise_labFile = Some (js ''labs/phase_6_shell/src/task/fork.rs''),
    exercise_hints = [jcat [''MemorySet::from_existed_user(&parent.memory_set) %u4f1a%u5e2e%u4f60%u9010 MapArea '',
         ''%u590d%u5236''],
       jcat [''fd_table %u662f Vec<Option<Arc<dyn File>>>%u2014%u2014%u5bf9%u6bcf%u4e00%u9879 '',
         ''.as_ref().map(Arc::clone) %u5373%u53ef''],
       js ''%u2605 %u6700%u5bb9%u6613%u6f0f%u7684%uff1achild.trap_cx.x[10] = 0'',
       js ''add_task(child) %u5fc5%u987b%u5728 trap_cx %u4fee%u6539%u4e4b%u540e''],
    exercise_pseudocode = Some (jlines [''fn fork(parent) -> Arc<TaskControlBlock>:'',
          ''    memory_set  = MemorySet::from_existed_user(&parent.memory_set)'',
          ''    fd_table    = parent.fd_table.iter().map(clone_arc)'',
          ''    pid         = pid_alloc()'',
          ''    kernel_stack= KernelStack::new(pid)'',
          ''    child       = TCB { pid, parent: Weak(parent), memory_set, fd_table, ... }'',
          ''    # %u5173%u952e%u4e00%u6b65'',
          ''    child.get_trap_cx().x[10] = 0'',
          ''    parent.children.push(Arc::clone(&child))'',
          ''    return child''])\<rparr>\<close>

definition phase6ZhCN_lesson1_exercise2 :: CodeExercise where
  \<open>phase6ZhCN_lesson1_exercise2 = \<lparr>
    exercise_id = js ''lab1-exec'',
    exercise_title = js ''Lab 1b %u2b50%u2b50 %u5b9e%u73b0 sys_exec'',
    exercise_description = jcat [''%u8bfb%u53d6%u8def%u5f84%uff0c%u4ece easy-fs %u91cc%u627e%u5230 ELF%uff0c%u8c03 '',
        ''MemorySet::from_elf%uff0c%u66ff%u6362 inner.memory_set%u3002argv %u6309 RISC-V ABI '',
        ''%u538b%u5230%u7528%u6237%u6808%u9876%u3002''],
    exercise_labFile = Some (js ''labs/phase_6_shell/src/task/exec.rs''),
    exercise_hints = [jcat [''%u5148 translated_str %u628a%u7528%u6237%u6001%u8def%u5f84%u62f7%u5230%u5185%u6838'',
         ''%u7f13%u51b2%u533a''],
       js ''OSInode %u7684 read_all() %u8fd4%u56de%u5b8c%u6574 ELF bytes'',
       jcat [''argv %u8981%u5148%u5b58%u6307%u9488%u6570%u7ec4%uff0c%u518d%u5728%u6808%u4e0b%u65b9'',
         ''%u5b58%u5b57%u7b26%u4e32%u672c%u8eab%u2014%u2014entry %u7ea6%u5b9a a0=argc, a1=argv''],
       js ''fd_table **%u4e0d%u8981** %u91cd%u7f6e''],
    exercise_pseudocode = Some (jlines [''fn exec(path, argv) -> isize:'',
          ''    elf = open(path)?.read_all()'',
          ''    (memory_set, user_sp, entry) = MemorySet::from_elf(elf)'',
          ''    user_sp = push_args(user_sp, argv)'',
          ''    self.memory_set  = memory_set        # %u8001%u7684%u81ea%u52a8 drop'',
          ''    self.trap_cx_ppn = memory_set.translate(TRAP_CONTEXT).ppn()'',
          ''    *self.get_trap_cx() = TrapContext::app_init_context(entry, user_sp, ...)'',
          ''    # fd_table %u4fdd%u7559'',
          ''    return argv.len() as isize''])\<rparr>\<close>

definition phase6ZhCN_lesson1_exercise3 :: CodeExercise where
  \<open>phase6ZhCN_lesson1_exercise3 = \<lparr>
    exercise_id = js ''lab1-waitpid'',
    exercise_title = js ''Lab 1c %u2b50%u2b50 %u5b9e%u73b0 sys_waitpid'',
    exercise_description = jcat [''%u5b9e%u73b0%u4e09%u6001%u8fd4%u56de%u3002%u8bb0%u5f97%u6e05%u7a7a%u5b50%u8fdb%u7a0b'',
        ''%u7684 fd_table%u2014%u2014%u5426%u5219 File Arc '',
        ''%u6c38%u8fdc%u4e0d%u91ca%u653e%u3002''],
    exercise_labFile = Some (js ''labs/phase_6_shell/src/task/waitpid.rs''),
    exercise_hints = [js ''children.iter().position(|c| c.is_zombie()) %u627e%u7b2c%u4e00%u4e2a%u50f5%u5c38'',
       js ''translated_refmut %u628a exit_code %u5199%u56de%u7528%u6237%u7a7a%u95f4'',
       jcat [''%u2605 %u5b50%u8fdb%u7a0b remove %u4e4b%u524d%u5148 '',
         ''fd_table.clear()%uff0c%u5426%u5219 inode / pipe %u6c38%u4e0d%u5173%u95ed'']],
    exercise_pseudocode = None\<rparr>\<close>

definition phase6ZhCN_lesson1 :: Lesson where
  \<open>phase6ZhCN_lesson1 = \<lparr>
    lesson_phaseId = 6, lesson_lessonId = 1,
    lesson_title = js ''fork / exec / waitpid%uff1a%u8fdb%u7a0b%u4e09%u4ef6%u5957'',
    lesson_subtitle = js ''%u7528%u6237%u6001%u8fdb%u7a0b%u7684%u8bde%u751f%u3001%u8715%u53d8%u4e0e%u56de%u6536'',
    lesson_type = js ''Concept'',
    lesson_duration = js ''2 hours'',
    lesson_objectives = [jcat [''%u7406%u89e3 fork %u5982%u4f55%u514b%u9686 TCB '',
         ''%u5e76%u8ba9%u4e00%u6b21%u7cfb%u7edf%u8c03%u7528%u8fd4%u56de%u4e24%u4e2a%u503c''],
       jcat [''%u641e%u6e05 exec %u5982%u4f55%u5728%u4fdd%u7559 PCB '',
         ''%u8eab%u4efd%u7684%u524d%u63d0%u4e0b%u66ff%u6362%u6574%u4e2a%u5730%u5740%u7a7a%u95f4''],
       jcat [''%u638c%u63e1 waitpid %u7684%u4e09%u6001%u8fd4%u56de%u4e0e%u50f5%u5c38%u8fdb%u7a0b'',
         ''%u56de%u6536%u65f6%u673a''],
       jcat [''%u80fd%u89e3%u91ca%u4e3a%u4ec0%u4e48 Unix %u9009%u62e9 fork+exec '',
         ''%u800c%u4e0d%u662f%u5355%u4e00%u7684 spawn'']],
    lesson_sections = [phase6ZhCN_lesson1_section1,
      phase6ZhCN_lesson1_section2,
      phase6ZhCN_lesson1_section3,
      phase6ZhCN_lesson1_section4],
    lesson_exercises = [phase6ZhCN_lesson1_exercise1, phase6ZhCN_lesson1_exercise2, phase6ZhCN_lesson1_exercise3],
    lesson_acceptanceCriteria = [js ''fork()+waitpid() %u5faa%u73af 1000 %u6b21%uff0c%u5185%u6838%u5185%u5b58%u4e0d%u589e%u957f'',
       js ''exec("nonexistent") %u6b63%u786e%u8fd4%u56de -1 %u800c%u4e0d%u662f panic'',
       jcat [''%u5b50%u8fdb%u7a0b exit %u540e%uff0c%u7236%u8fdb%u7a0b%u7acb%u5373 waitpid '',
         ''%u62ff%u5230%u6b63%u786e exit_code''],
       js ''init %u8fdb%u7a0b%u80fd%u56de%u6536%u6240%u6709%u5b64%u513f%u50f5%u5c38''],
    lesson_references = [\<lparr>reference_title = js ''labs/phase_6_shell/COURSE.zh-CN.md %u00a76.1-6.3'',
       reference_description = js ''[%u5fc5%u8bfb] fork/exec/waitpid %u4e09%u8282%u5b8c%u6574%u8bb2%u89e3'',
       reference_url = js ''./labs/phase_6_shell/COURSE.zh-CN.md''\<rparr>,
      \<lparr>reference_title = js ''xv6-riscv book Ch. 1'',
       reference_description = jcat [''[%u5fc5%u8bfb] Unix %u63a5%u53e3%u7684%u7ecf%u5178%u8bb2%u89e3%uff0cfork+exec '',
          ''%u7684%u8bbe%u8ba1%u54f2%u5b66''],
       reference_url = js ''https://pdos.csail.mit.edu/6.828/2023/xv6/book-riscv-rev3.pdf''\<rparr>,
      \<lparr>reference_title = js ''APUE Ch. 8 Process Control'',
       reference_description = jcat [''[%u6df1%u5165%u9605%u8bfb] POSIX %u6743%u5a01%u2014%u2014waitpid %u7684 '',
          ''WNOHANG/WUNTRACED %u5b8c%u6574%u8bed%u4e49''],
       reference_url = js ''https://www.apuebook.com/''\<rparr>,
      \<lparr>reference_title = js ''rCore-Tutorial %u00a77.2 %u8fdb%u7a0b%u7ba1%u7406'',
       reference_description = js ''[%u6df1%u5165%u9605%u8bfb] %u540c%u6837 Rust+RISC-V %u7684%u5b9e%u73b0%u53c2%u7167'',
       reference_url = js ''https://rcore-os.cn/rCore-Tutorial-Book-v3/chapter7/''\<rparr>]\<rparr>\<close>

section \<open>Lesson 2\<close>

definition phase6ZhCN_lesson2_section1 :: ContentSection where
  \<open>phase6ZhCN_lesson2_section1 = \<lparr>
    section_title = js ''%u4e09%u5c42%u6620%u5c04%uff1afd %u2192 File %u2192 inode/pipe'',
    section_blocks = [DiagramBlock (jlines [''  process A                 kernel                  device'',
          ''  %u250c%r0c2500%u2510             %u250c%r0e2500%u2510        %u250c%r092500%u2510'',
          ''  %u2502 fd_table   %u2502             %u2502 File trait   %u2502        %u2502 inode   %u2502'',
          ''  %u2502 [0] Stdin  %u2502%r0c2500%u25b6%u2502  object      %u2502%r062500%u25b6 %u2502 of /a.t %u2502'',
          ''  %u2502 [1] %r062500%u2510%u2502             %u2502  (OSInode)   %u2502        %u2514%r092500%u2518'',
          ''  %u2502 [2] Stdout%u2502%u2502             %u2514%r0e2500%u2518'',
          ''  %u2502 [3] %u2500%u2500%u2510   %u2502%u2502             %u250c%r0e2500%u2510        %u250c%r092500%u2510'',
          ''  %u2514%r072500%u2502%r032500%u2502%u2502             %u2502 Pipe read    %u2502%u2500%u2500%u2510     %u2502 ring    %u2502'',
          ''          %u2502   %u2502%u2514%r0c2500%u25b6%u2502  end         %u2502  %u2502%r042500%u25b6%u2502 buffer  %u2502'',
          ''          %u2502   %u2502              %u2514%r0e2500%u2518  %u2502     %u2514%r092500%u2518'',
          ''          %u2502   %u2502              %u250c%r0e2500%u2510  %u2502'',
          ''          %u2502   %u2514%r0d2500%u25b6%u2502 Pipe write   %u2502%u2500%u2500%u2518'',
          ''          %u2502                  %u2502  end         %u2502'',
          ''          %u2502                  %u2514%r0e2500%u2518'',
          ''  process B (fork of A)          %u2191'',
          ''  %u250c%r0c2500%u2510                 %u2502 Arc::clone'',
          ''  %u2502 [0] Stdin  %u2502%r112500%u2518'']),
      ParagraphBlock (jcat [''fd %u672c%u8eab%u53ea%u662f%u4e2a usize %u6570%u7ec4%u4e0b%u6807%u2014%u2014%u5b83'',
          ''%u4e0d%u662f%u5185%u6838%u8d44%u6e90%u3002%u771f%u6b63%u7684%u5185%u6838%u8d44%u6e90'',
          ''%u662f Arc<dyn File>%uff1aOSInode%u3001Pipe%u3001Stdin%u3001Stdout '',
          ''%u90fd%u5b9e%u73b0 File trait%uff0c%u90fd%u901a%u8fc7 Arc '',
          ''%u5f15%u7528%u8ba1%u6570%u5171%u4eab%u3002fork %u65f6%u6bcf%u4e2a Arc::clone %u4e00%u6b21%uff0cclose %u65f6 drop '',
          ''%u4e00%u6b21%u2014%u2014%u5f53%u5f15%u7528%u8ba1%u6570%u5f52%u96f6%uff0c%u5e95%u5c42%u8d44'',
          ''%u6e90%uff08%u7f13%u51b2%u533a%u3001inode %u53e5%u67c4%uff09%u81ea%u52a8%u91ca%u653e'',
          ''%u3002'']),
      CodeBlock (Some (js ''rust'')) (jlines [''// labs/phase_6_shell/src/fs/fd_table.rs'',
          ''pub trait File: Send + Sync {'',
          ''    fn readable(&self) -> bool;'',
          ''    fn writable(&self) -> bool;'',
          ''    fn read (&self, buf: UserBuffer) -> usize;'',
          ''    fn write(&self, buf: UserBuffer) -> usize;'',
          ''}'',
          '''',
          ''pub struct FdTable {'',
          ''    table: Vec<Option<Arc<dyn File>>>,    // None = %u5173%u95ed%u7684%u69fd'',
          ''}'',
          '''',
          ''impl FdTable {'',
          ''    pub fn alloc(&mut self, file: Arc<dyn File>) -> usize {'',
          ''        // %u627e%u6700%u5c0f%u7684%u7a7a%u69fd%uff1b%u6ca1%u6709%u5c31%u6269%u5c55'',
          ''        if let Some(i) = self.table.iter().position(|x| x.is_none()) {'',
          ''            self.table[i] = Some(file);  i'',
          ''        } else {'',
          ''            self.table.push(Some(file));  self.table.len() - 1'',
          ''        }'',
          ''    }'',
          ''}'']),
      CalloutBlock Info (jcat [''"%u6700%u5c0f%u53ef%u7528 fd" %u7684%u5206%u914d%u89c4%u5219%u4e0d%u662f%u968f%u4fbf'',
          ''%u5b9a%u7684%u2014%u2014shell %u4f9d%u8d56%u5b83%u3002close(1) '',
          ''%u4e4b%u540e%u4e0b%u4e00%u4e2a dup %u5fc5%u7136%u8fd4%u56de '',
          ''1%uff0c%u8fd9%u662f%u91cd%u5b9a%u5411%u7b97%u6cd5%u7684%u57fa%u77f3%u3002''])]\<rparr>\<close>

definition phase6ZhCN_lesson2_section2 :: ContentSection where
  \<open>phase6ZhCN_lesson2_section2 = \<lparr>
    section_title = js ''sys_dup vs sys_dup2'',
    section_blocks = [TableBlock [js ''syscall'',
         js ''%u8bed%u4e49'',
         js ''%u5e38%u89c1%u7528%u9014'']
        [[js ''dup(fd)'',
          js ''%u590d%u5236%u5230%u6700%u5c0f%u7a7a fd%uff0c%u8fd4%u56de%u65b0 fd'',
          js ''%u4fdd%u5b58%u5907%u4efd%u3001%u5360%u4f4d''],
         [js ''dup2(src, dst)'',
          jcat [''%u628a src %u590d%u5236%u5230 **%u6307%u5b9a** dst%uff1b%u5982 dst '',
            ''%u5df2%u5f00%u5219%u5148 close''],
          js ''%u7cbe%u786e%u91cd%u5b9a%u5411''],
         [js ''close(fd)'',
          js ''drop %u8be5%u69fd%u7684 Arc'',
          js ''%u91ca%u653e%u8d44%u6e90'']],
      ParagraphBlock (jcat [''dup2 %u662f shell %u7684%u4e3b%u529b%u3002%u8bed%u4e49%u8bfb%u4f5c "%u8ba9 dst '',
          ''%u6307%u5411 src %u6240%u6307%u7684 File"%u2014%u2014%u6267%u884c%u540e src %u548c '',
          ''dst %u662f%u540c%u4e00%u4e2a File %u7684%u4e24%u4e2a%u522b%u540d%uff0cclose '',
          ''%u5176%u4e2d%u4e00%u4e2a%u4e0d%u5f71%u54cd%u53e6%u4e00%u4e2a%u3002'']),
      CodeBlock (Some (js ''rust'')) (jlines [''pub fn sys_dup2(src: usize, dst: usize) -> isize {'',
          ''    let task = current_task().unwrap();'',
          ''    let mut inner = task.inner_exclusive_access();'',
          ''    let Some(Some(file)) = inner.fd_table.get(src) else { return -1 };'',
          ''    let file = Arc::clone(file);'',
          ''    // %u6269%u5c55%u5230%u81f3%u5c11 dst+1 %u4e2a%u69fd'',
          ''    while inner.fd_table.len() <= dst { inner.fd_table.push(None); }'',
          ''    inner.fd_table[dst] = Some(file);        // %u65e7%u7684%u81ea%u52a8 drop'',
          ''    dst as isize'',
          ''}''])]\<rparr>\<close>

definition phase6ZhCN_lesson2_section3 :: ContentSection where
  \<open>phase6ZhCN_lesson2_section3 = \<lparr>
    section_title = js ''%u91cd%u5b9a%u5411%u4e09%u6b65%u8d70%uff1a`>`, `<`, `>>`'',
    section_blocks = [ParagraphBlock (jcat [''shell %u770b%u5230 cmd > out %u65f6%uff0c%u5728 fork %u5b8c%u3001exec '',
          ''%u524d%u505a%u4e09%u4ef6%u4e8b%uff1a%u6253%u5f00%u6587%u4ef6%u62ff%u5230 fd_f%u3001%u7528 '',
          ''dup2(fd_f, 1) %u8ba9 1 %u53f7 fd %u6307%u5411%u6587%u4ef6%u3001close(fd_f) '',
          ''%u53bb%u6389%u4e34%u65f6%u522b%u540d%u3002exec %u540e%u4fdd%u7559%u7684 fd_table '',
          ''%u8ba9%u65b0%u7a0b%u5e8f%u7684 stdout %u5199%u5165%u5c31%u76f4%u8fbe%u6587%u4ef6%u3002'']),
      CodeBlock (Some (js ''rust'')) (jlines [''// %u7528%u6237%u6001 shell %u4ee3%u7801%u7247%u6bb5'',
          ''fn run_with_redir(cmd: &Command) {'',
          ''    if sys_fork() == 0 {                              // %u5b50%u8fdb%u7a0b'',
          ''        if let Some(ref path) = cmd.stdout {'',
          ''            let fd = sys_open(path, O_CREATE | O_WRONLY);'',
          ''            sys_dup2(fd, 1);                          // %u8ba9 stdout %u6307%u5411%u6587%u4ef6'',
          ''            sys_close(fd);                            // %u53bb%u6389%u591a%u4f59%u522b%u540d'',
          ''        }'',
          ''        if let Some(ref path) = cmd.stdin {'',
          ''            let fd = sys_open(path, O_RDONLY);'',
          ''            sys_dup2(fd, 0);'',
          ''            sys_close(fd);'',
          ''        }'',
          ''        sys_exec(&cmd.path, &cmd.args);              // fd_table %u7a7f%u8d8a exec'',
          ''        sys_exit(-1);                                 // exec %u5931%u8d25%u624d%u5230%u8fd9'',
          ''    }'',
          ''}'']),
      DiagramBlock (jlines [''  %u6267%u884c `echo hi > out` %u7684 fd_table %u53d8%u5316%uff1a'',
          '''',
          ''  fork %u540e%uff1a     [0]Stdin  [1]Stdout  [2]Stdout'',
          ''  open "out": [0]Stdin  [1]Stdout  [2]Stdout  [3]File("out")'',
          ''  dup2(3,1):  [0]Stdin  [1]File   [2]Stdout  [3]File("out")  %u2190 1 %u548c 3 %u522b%u540d'',
          ''  close(3):   [0]Stdin  [1]File   [2]Stdout  [3]None'',
          ''  exec echo:  [0]Stdin  [1]File   [2]Stdout              %u2190 echo %u7684 write(1,...)'',
          ''                                                            %u76f4%u63a5%u843d%u5230 out''])]\<rparr>\<close>

definition phase6ZhCN_lesson2_exercise1 :: CodeExercise where
  \<open>phase6ZhCN_lesson2_exercise1 = \<lparr>
    exercise_id = js ''lab2-fd'',
    exercise_title = js ''Lab 2a %u2b50 FdTable %u57fa%u7840'',
    exercise_description = jcat [''%u5b9e%u73b0 FdTable::alloc / close / get%uff0c%u4fdd%u8bc1%u6700%u5c0f%u53ef%u7528'',
        ''%u69fd%u8bed%u4e49%u3002''],
    exercise_labFile = Some (js ''labs/phase_6_shell/src/fs/fd_table.rs''),
    exercise_hints = [js ''new() %u521d%u59cb%u5316 [Stdin, Stdout, Stdout] %u4e09%u4e2a%u9ed8%u8ba4%u9879'',
       js ''alloc %u7528 position(|x| x.is_none())'',
       js ''close %u5c31%u662f table[fd] = None''],
    exercise_pseudocode = None\<rparr>\<close>

definition phase6ZhCN_lesson2_exercise2 :: CodeExercise where
  \<open>phase6ZhCN_lesson2_exercise2 = \<lparr>
    exercise_id = js ''lab2-dup'',
    exercise_title = js ''Lab 2b %u2b50%u2b50 sys_dup / sys_dup2'',
    exercise_description = jcat [''%u5b9e%u73b0%u4e24%u4e2a syscall%u3002%u6ce8%u610f dup2 '',
        ''%u9700%u8981%u80fd%u6269%u5c55 Vec %u5230%u6307%u5b9a%u5927%u5c0f%u3002''],
    exercise_labFile = Some (js ''labs/phase_6_shell/src/task/mod.rs''),
    exercise_hints = [js ''dup %u76f4%u63a5%u8f6c%u53d1%u7ed9 fd_table.alloc(Arc::clone(file))'',
       js ''dup2 %u7684 src == dst %u662f%u5408%u6cd5%u7684%u7a7a%u64cd%u4f5c%uff0c%u8fd4%u56de dst'',
       js ''dst %u8d85%u51fa%u5f53%u524d%u957f%u5ea6%u65f6 push None %u586b%u5145''],
    exercise_pseudocode = Some (jlines [''fn sys_dup2(src, dst):'',
          ''    file = fd_table[src]?'',
          ''    if src == dst: return dst'',
          ''    while fd_table.len() <= dst: fd_table.push(None)'',
          ''    fd_table[dst] = Some(Arc::clone(&file))     # %u65e7 Arc drop'',
          ''    return dst''])\<rparr>\<close>

definition phase6ZhCN_lesson2 :: Lesson where
  \<open>phase6ZhCN_lesson2 = \<lparr>
    lesson_phaseId = 6, lesson_lessonId = 2,
    lesson_title = js ''%u6587%u4ef6%u63cf%u8ff0%u7b26%u8868 + dup + %u91cd%u5b9a%u5411'',
    lesson_subtitle = js ''%u4e00%u4e2a Vec<Option<Arc<dyn File>>> %u6491%u8d77%u6574%u4e2a IO %u4e16%u754c'',
    lesson_type = js ''Concept + Practice'',
    lesson_duration = js ''1.5 hours'',
    lesson_objectives = [jcat [''%u7406%u89e3%u6bcf%u8fdb%u7a0b fd %u6570%u7ec4%u3001%u5168%u5c40 File trait object '',
         ''%u4e24%u5c42%u6620%u5c04%u7684%u5173%u7cfb''],
       js ''%u638c%u63e1 sys_dup / sys_dup2 %u7684%u5206%u914d%u8bed%u4e49'',
       js ''%u5b66%u4f1a%u7528 dup2+close %u4e09%u6b65%u5b9e%u73b0 shell %u7684 >%u3001<%u3001>>'',
       js ''%u7406%u89e3%u4e3a%u4ec0%u4e48 fd_table %u5fc5%u987b%u80fd%u8de8 exec %u5b58%u6d3b''],
    lesson_sections = [phase6ZhCN_lesson2_section1,
      phase6ZhCN_lesson2_section2,
      phase6ZhCN_lesson2_section3],
    lesson_exercises = [phase6ZhCN_lesson2_exercise1, phase6ZhCN_lesson2_exercise2],
    lesson_acceptanceCriteria = [js ''echo hello > /tmp/a %u540e cat /tmp/a %u5f97%u5230 hello'',
       js ''cmd < input.txt %u80fd%u8ba9 cmd %u4ece%u6587%u4ef6%u8bfb stdin'',
       js ''echo a >> log; echo b >> log %u8ffd%u52a0%u5199%u4e24%u884c'',
       js ''1000 %u6b21 open+close %u540e inode %u5f15%u7528%u8ba1%u6570%u4e0d%u6cc4%u6f0f''],
    lesson_references = [\<lparr>reference_title = js ''labs/phase_6_shell/COURSE.zh-CN.md %u00a76.4'',
       reference_description = js ''[%u5fc5%u8bfb] %u6587%u4ef6%u63cf%u8ff0%u7b26%u8868%u672c%u7ae0%u5b8c%u6574%u8bb2%u89e3'',
       reference_url = js ''./labs/phase_6_shell/COURSE.zh-CN.md''\<rparr>,
      \<lparr>reference_title = js ''xv6-riscv book %u00a71.3 & %u00a78.1'',
       reference_description = js ''[%u5fc5%u8bfb] Unix fd %u62bd%u8c61%u4e0e dup %u7684%u8bbe%u8ba1'',
       reference_url = js ''https://pdos.csail.mit.edu/6.828/2023/xv6/book-riscv-rev3.pdf''\<rparr>,
      \<lparr>reference_title = js ''APUE Ch. 3 File I/O'',
       reference_description = js ''[%u6df1%u5165%u9605%u8bfb] dup/dup2/fcntl %u7684%u5b8c%u6574 POSIX %u8bed%u4e49'',
       reference_url = js ''https://www.apuebook.com/''\<rparr>,
      \<lparr>reference_title = js ''man 2 dup2'',
       reference_description = js ''[%u901f%u67e5] Linux %u624b%u518c%u9875'',
       reference_url = js ''https://man7.org/linux/man-pages/man2/dup.2.html''\<rparr>]\<rparr>\<close>

section \<open>Lesson 3\<close>

definition phase6ZhCN_lesson3_section1 :: ContentSection where
  \<open>phase6ZhCN_lesson3_section1 = \<lparr>
    section_title = js ''%u4e24%u4e2a Arc%uff0c%u4e00%u5757%u73af'',
    section_blocks = [ParagraphBlock (jcat [''pipe() %u4e00%u6b21%u8fd4%u56de%u4e24%u4e2a fd%uff1a[0] %u8bfb%u7aef%uff0c[1] '',
          ''%u5199%u7aef%u3002%u5185%u6838%u5c42%u9762%u5b83%u4eec%u662f%u4e24%u4e2a%u4e0d%u540c%u7684'',
          '' Arc<Pipe>%uff0c%u4f46%u90fd%u6301%u6709%u6307%u5411%u540c%u4e00%u4e2a '',
          ''PipeRingBuffer %u7684 Arc%u2014%u2014%u8bfb%u5199%u64cd%u4f5c%u90fd%u843d%u5230%u90a3%u5757%u5171'',
          ''%u4eab%u5185%u5b58%u4e0a%u3002'']),
      DiagramBlock (jlines [''  read_end : Arc<Pipe> %u2500%u2500%u2510'',
          ''                         %u251c%u2500%u25b6 Arc<Mutex<PipeRingBuffer>>'',
          ''  write_end: Arc<Pipe> %u2500%u2500%u2518         %u2502'',
          ''                                   %u25bc'',
          ''        %u250c%r212500%u2510'',
          ''        %u2502 buf: [u8; RING=2048]            %u2502'',
          ''        %u2502 head: usize    (%u4e0b%u4e00%u4e2a%u8bfb%u4f4d%u7f6e)   %u2502'',
          ''        %u2502 tail: usize    (%u4e0b%u4e00%u4e2a%u5199%u4f4d%u7f6e)   %u2502'',
          ''        %u2502 status: Empty | Normal | Full   %u2502'',
          ''        %u2502 write_end: Weak<Pipe>  %u2605        %u2502'',
          ''        %u2514%r212500%u2518'']),
      CalloutBlock Info (jcat [''Weak %u662f%u5173%u952e%u3002ring %u6301%u6709%u7684%u662f%u5199%u7aef%u7684 '',
          ''Weak%u2014%u2014%u4e0d%u589e%u52a0%u5f15%u7528%u8ba1%u6570%u3002%u5f53%u6700%u540e%u4e00'',
          ''%u4e2a%u5199%u7aef Arc drop %u540e%uff0cweak.upgrade() %u8fd4%u56de '',
          ''None%uff0c%u8bfb%u7aef%u7531%u6b64%u5224%u65ad EOF%u3002%u5982%u679c%u7528 Arc '',
          ''%u4f1a%u5faa%u73af%u5f15%u7528%uff0c%u6ca1%u4eba%u4f1a%u88ab%u91ca%u653e%u3002''])]\<rparr>\<close>

definition phase6ZhCN_lesson3_section2 :: ContentSection where
  \<open>phase6ZhCN_lesson3_section2 = \<lparr>
    section_title = js ''%u73af%u5f62%u7f13%u51b2%uff1ahead == tail %u7684%u4e8c%u4e49%u6027'',
    section_blocks = [ParagraphBlock (jcat [''%u73af%u7684%u7ecf%u5178%u96be%u9898%uff1ahead %u548c tail '',
          ''%u76f8%u9047%u65f6%uff0c%u5230%u5e95%u662f%u7a7a%u8fd8%u662f%u6ee1%uff1f%u89e3%u51b3%u65b9%u6848%u662f%u52a0'',
          ''%u4e2a status %u4e09%u6001%u5b57%u6bb5%u3002%u6bcf%u6b21%u8bfb%u628a status %u671d '',
          ''Empty %u63a8%uff0c%u6bcf%u6b21%u5199%u671d Full %u63a8%u3002'']),
      TableBlock [js ''status'',
         js ''%u53ef%u8bfb%u5b57%u8282%u6570'',
         js ''%u53ef%u5199%u5b57%u8282%u6570'']
        [[js ''Empty'',
          js ''0'',
          js ''RING_SIZE''],
         [js ''Normal'',
          js ''(tail - head + RING) %25 RING'',
          js ''RING - %u53ef%u8bfb''],
         [js ''Full'',
          js ''RING_SIZE'',
          js ''0'']],
      CodeBlock (Some (js ''rust'')) (jlines [''// labs/phase_6_shell/src/fs/pipe.rs'',
          ''const RING_SIZE: usize = 2048;'',
          '''',
          ''pub struct PipeRingBuffer {'',
          ''    buf: [u8; RING_SIZE],'',
          ''    head: usize, tail: usize,'',
          ''    status: RingStatus,'',
          ''    write_end: Option<Weak<Pipe>>,         // %u2605 %u4e0d%u662f Arc'',
          ''}'',
          '''',
          ''impl PipeRingBuffer {'',
          ''    fn available_read(&self) -> usize {'',
          ''        match self.status {'',
          ''            RingStatus::Empty  => 0,'',
          ''            RingStatus::Full   => RING_SIZE,'',
          ''            RingStatus::Normal => (self.tail + RING_SIZE - self.head) %25 RING_SIZE,'',
          ''        }'',
          ''    }'',
          ''    fn all_write_ends_closed(&self) -> bool {'',
          ''        self.write_end.as_ref().unwrap().upgrade().is_none()'',
          ''    }'',
          ''}'']),
      DiagramBlock (jlines [''  RING=4 %u7684%u6f14%u8fdb%uff08.=%u7a7a%uff0cX=%u6570%u636e%uff0cH=head%uff0cT=tail%uff09%uff1a'',
          '''',
          ''  %u521d%u59cb        [. . . .]  H=0 T=0  Empty'',
          ''  write 3B    [X X X .]  H=0 T=3  Normal   avail_read=3'',
          ''  read  2B    [. . X .]  H=2 T=3  Normal   avail_read=1'',
          ''  write 3B    [X X X X]  H=2 T=2  Full     avail_read=4 %u2190 %u7ed5%u56de%u4e86'',
          ''  read  4B    [. . . .]  H=2 T=2  Empty    avail_read=0''])]\<rparr>\<close>

definition phase6ZhCN_lesson3_section3 :: ContentSection where
  \<open>phase6ZhCN_lesson3_section3 = \<lparr>
    section_title = js ''%u8bfb%u5199%u534f%u7a0b%uff1a%u5fd9%u8f6e%u8be2 or %u7761%u7720'',
    section_blocks = [ParagraphBlock (jcat [''%u672c%u5185%u6838%u7b80%u5316%u5b9e%u73b0%uff1a%u6ca1%u6709%u6761%u4ef6%u53d8%u91cf'',
          ''%uff0cPipe::read %u5728%u73af%u4e3a%u7a7a%u4f46%u5199%u7aef%u6ca1%u5173%u65f6%u4e3b'',
          ''%u52a8 sys_yield()%uff1bPipe::write %u5728%u73af%u6ee1%u65f6 '',
          ''yield%u3002%u9ad8%u6027%u80fd%u5b9e%u73b0%u8981%u7b49 Phase 7/8 %u52a0%u4e86 WaitQueue '',
          ''%u4e4b%u540e%u624d%u6362%u6210%u7761%u7720%u3002'']),
      CodeBlock (Some (js ''rust'')) (jlines [''impl File for Pipe {'',
          ''    fn read(&self, mut buf: UserBuffer) -> usize {'',
          ''        assert!(self.readable);'',
          ''        let mut read_size = 0usize;'',
          ''        let want = buf.len();'',
          ''        loop {'',
          ''            let mut ring = self.buffer.lock();'',
          ''            let n = ring.available_read();'',
          ''            if n == 0 {'',
          ''                if ring.all_write_ends_closed() { return read_size; }  // EOF'',
          ''                drop(ring);                                             // %u2605 %u5148 drop %u9501'',
          ''                suspend_current_and_run_next();                         // yield'',
          ''                continue;'',
          ''            }'',
          ''            // %u62f7%u8d1d min(n, want-read_size) %u5b57%u8282'',
          ''            for i in 0..n.min(want - read_size) {'',
          ''                buf.write_byte(read_size, ring.read_byte());'',
          ''                read_size += 1;'',
          ''            }'',
          ''            if read_size == want { return read_size; }'',
          ''        }'',
          ''    }'',
          ''}'']),
      CalloutBlock Warning (jcat [''drop(ring) %u5728 suspend %u4e4b%u524d%u662f%u786c%u6027%u8981%u6c42%u2014%u2014Mute'',
          ''xGuard %u6a2a%u8de8 schedule() %u4f1a%u8ba9%u8c03%u5ea6%u5668%u6c38%u8fdc%u62ff'',
          ''%u4e0d%u5230%u9501%uff0c%u6574%u4e2a%u7cfb%u7edf hang %u6b7b%u3002Phase 3 Lab 2c '',
          ''%u5df2%u7ecf%u8e29%u8fc7%u4e00%u6b21%u4e86%u3002''])]\<rparr>\<close>

definition phase6ZhCN_lesson3_section4 :: ContentSection where
  \<open>phase6ZhCN_lesson3_section4 = \<lparr>
    section_title = js ''EOF %u7684%u663e%u5fae%u955c'',
    section_blocks = [ParagraphBlock (jcat [''ls | wc -l%uff1als %u5199%u5b8c%u3001exit%uff1b%u6b64%u65f6%u73af%u91cc%u8fd8%u6709'',
          ''%u6570%u636e%uff0cwc %u53ef%u4ee5%u7ee7%u7eed%u8bfb%u3002%u5173%u952e%u662f wc '',
          ''%u6700%u540e%u4e00%u6b21 read %u8bfb%u5b8c%u6240%u6709%u6570%u636e%u540e%u518d%u8fdb'',
          ''%u5165 loop%u2014%u2014%u6b64%u65f6 avail_read==0%u3001all_write_ends_closed()==true'',
          ''%uff0c%u4e8e%u662f%u8fd4%u56de read_size%uff08%u53ef%u80fd%u4e3a '',
          ''0%uff09%u3002%u4e0a%u5c42 read %u89c1%u5230 0 %u5c31%u8ba4%u4e3a%u6587%u4ef6%u7ed3%u675f%u3002'']),
      DiagramBlock (jlines [''  t0:  ls %u6267%u884c%u4e2d                 pipe.write_end.strong_count = 2'',
          ''                                 (shell %u7236 + ls %u5b50)'',
          ''  t1:  ls %u5199 "foo.txt%5cnbar%5cn"    ring %u91cc 9 %u5b57%u8282'',
          ''  t2:  shell %u7236 drop(write_end)  strong_count = 1'',
          ''  t3:  ls exit                   ls %u7684 fd_table %u91ca%u653e %u2192 drop'',
          ''                                 strong_count = 0'',
          ''  t4:  wc read                   avail_read=9 %u2192 %u62f7%u51fa 9 %u5b57%u8282'',
          ''  t5:  wc read %u53c8%u8c03              avail_read=0'',
          ''                                 upgrade() = None %u2192 %u8fd4%u56de 0 %u2192 EOF''])]\<rparr>\<close>

definition phase6ZhCN_lesson3_exercise1 :: CodeExercise where
  \<open>phase6ZhCN_lesson3_exercise1 = \<lparr>
    exercise_id = js ''lab3-ring'',
    exercise_title = js ''Lab 3a %u2b50%u2b50 %u73af%u5f62%u7f13%u51b2'',
    exercise_description = jcat [''%u5b9e%u73b0 PipeRingBuffer %u7684 read_byte / write_byte / available_read / '',
        ''available_write%u3002%u8dd1 test_ring_wrap %u9a8c%u8bc1%u7ed5%u56de%u6b63%u786e%u3002''],
    exercise_labFile = Some (js ''labs/phase_6_shell/src/fs/pipe.rs''),
    exercise_hints = [js ''%u6bcf%u6b21 read_byte%uff1ahead = (head+1) %25 RING; %u66f4%u65b0 status'',
       js ''%u5199%u6ee1%u540e status=Full%uff0c%u518d%u5199%u8981%u5148 yield'',
       jcat [''%u5728%u7eb8%u4e0a%u753b RING=4 %u8dd1%u5b8c Section 3 '',
         ''%u7684%u793a%u4f8b%uff0c%u518d%u5bf9%u7167%u4ee3%u7801'']],
    exercise_pseudocode = Some (jlines [''fn read_byte(&mut self) -> u8:'',
          ''    assert!(self.status != Empty)'',
          ''    byte = self.buf[self.head]'',
          ''    self.head = (self.head + 1) %25 RING_SIZE'',
          ''    self.status = if self.head == self.tail: Empty else Normal'',
          ''    return byte'',
          '''',
          ''fn write_byte(&mut self, b: u8):'',
          ''    assert!(self.status != Full)'',
          ''    self.buf[self.tail] = b'',
          ''    self.tail = (self.tail + 1) %25 RING_SIZE'',
          ''    self.status = if self.tail == self.head: Full else Normal''])\<rparr>\<close>

definition phase6ZhCN_lesson3_exercise2 :: CodeExercise where
  \<open>phase6ZhCN_lesson3_exercise2 = \<lparr>
    exercise_id = js ''lab3-pipe'',
    exercise_title = js ''Lab 3b %r032b50 Pipe::read/write + sys_pipe'',
    exercise_description = jcat [''%u7528 Arc<Mutex<PipeRingBuffer>> %u4e32%u8d77%u8bfb%u5199%u4e24%u7aef%uff1b%u5b9e'',
        ''%u73b0 sys_pipe %u8fd4%u56de%u4e00%u5bf9 fd%u3002''],
    exercise_labFile = Some (js ''labs/phase_6_shell/src/fs/pipe.rs''),
    exercise_hints = [js ''make_pipe() %u8fd4%u56de (Arc<Pipe>, Arc<Pipe>)%uff0c%u4e24%u8005%u5171%u4eab ring'',
       jcat [''%u5148%u521b%u5efa write_end Arc%uff0c%u518d%u628a Arc::downgrade %u5b58%u5165 '',
         ''ring.write_end''],
       js ''%u2605%u2605 read %u5faa%u73af%u91cc yield %u524d%u5fc5%u987b drop(ring_guard)'',
       js ''EOF %u6761%u4ef6%uff1aavail_read==0 && all_write_ends_closed()''],
    exercise_pseudocode = None\<rparr>\<close>

definition phase6ZhCN_lesson3 :: Lesson where
  \<open>phase6ZhCN_lesson3 = \<lparr>
    lesson_phaseId = 6, lesson_lessonId = 3,
    lesson_title = js ''Pipe%uff1a%u73af%u5f62%u7f13%u51b2 + %u5f15%u7528%u8ba1%u6570'',
    lesson_subtitle = jcat [''%u4e24%u4e2a Arc<Pipe> + %u4e00%u4e2a Weak<> %u6362%u6765%u5b8c%u7f8e%u7684 EOF '',
        ''%u8bed%u4e49''],
    lesson_type = js ''Concept + Practice'',
    lesson_duration = js ''2 hours'',
    lesson_objectives = [jcat [''%u8bbe%u8ba1%u5e76%u5b9e%u73b0%u56fa%u5b9a%u5927%u5c0f%u7684%u73af%u5f62%u7f13%u51b2'',
         ''%uff08head/tail + status %u6d88%u6b67%uff09''],
       js ''%u7528 Arc<Mutex<PipeRingBuffer>> %u5728%u4e24%u7aef%u5171%u4eab%u540c%u4e00%u5757%u73af'',
       jcat [''%u7406%u89e3 Weak<> %u5982%u4f55%u5b9e%u73b0 '',
         ''"%u6240%u6709%u5199%u7aef%u5173%u95ed%u65f6%u8bfb%u7aef%u89c1 EOF" %u8bed%u4e49''],
       jcat [''%u80fd%u5728%u7eb8%u4e0a%u9010%u6b65%u753b%u51fa read/write '',
         ''%u4ea4%u66ff%u7684%u5149%u6807%u79fb%u52a8'']],
    lesson_sections = [phase6ZhCN_lesson3_section1,
      phase6ZhCN_lesson3_section2,
      phase6ZhCN_lesson3_section3,
      phase6ZhCN_lesson3_section4],
    lesson_exercises = [phase6ZhCN_lesson3_exercise1, phase6ZhCN_lesson3_exercise2],
    lesson_acceptanceCriteria = [jcat [''writer %u5199%u6ee1 2048 B %u540e reader %u6bcf%u6b21%u8bfb 100 '',
         ''B%uff0c%u6700%u7ec8%u4e24%u8fb9%u90fd%u4e0d%u963b%u585e%u6b7b''],
       jcat [''writer %u5199%u5b8c drop fd%uff0creader %u80fd%u8bfb%u5230%u6240%u6709%u6570%u636e'',
         ''%u540e%u89c1%u5230 read()==0%uff08EOF%uff09''],
       js ''10 %u8f6e ls | wc -l %u540e%u4e0d%u6cc4%u6f0f%u4efb%u4f55%u7269%u7406%u9875'',
       js ''test_ring_wrap %u8fb9%u754c%u7528%u4f8b%u5168%u90e8%u901a%u8fc7''],
    lesson_references = [\<lparr>reference_title = js ''labs/phase_6_shell/COURSE.zh-CN.md %u00a76.5'',
       reference_description = js ''[%u5fc5%u8bfb] Pipe %u7ae0%u8282'',
       reference_url = js ''./labs/phase_6_shell/COURSE.zh-CN.md''\<rparr>,
      \<lparr>reference_title = js ''xv6-riscv book Ch. 9 Pipes'',
       reference_description = js ''[%u5fc5%u8bfb] %u6559%u79d1%u4e66%u7ea7%u7ba1%u9053%u5b9e%u73b0'',
       reference_url = js ''https://pdos.csail.mit.edu/6.828/2023/xv6/book-riscv-rev3.pdf''\<rparr>,
      \<lparr>reference_title = js ''Linux fs/pipe.c'',
       reference_description = jcat [''[%u6df1%u5165%u9605%u8bfb] %u5de5%u4e1a%u7ea7%u73af%u5f62%u7f13%u51b2 + '',
          ''%u5524%u9192%u7b56%u7565''],
       reference_url = js ''https://git.kernel.org/pub/scm/linux/kernel/git/torvalds/linux.git/tree/fs/pipe.c''\<rparr>,
      \<lparr>reference_title = js ''man 7 pipe'',
       reference_description = js ''[%u901f%u67e5] POSIX pipe %u539f%u5b50%u5199%u8bed%u4e49 (PIPE_BUF)'',
       reference_url = js ''https://man7.org/linux/man-pages/man7/pipe.7.html''\<rparr>]\<rparr>\<close>

section \<open>Lesson 4\<close>

definition phase6ZhCN_lesson4_section1 :: ContentSection where
  \<open>phase6ZhCN_lesson4_section1 = \<lparr>
    section_title = js ''%u56db%u9636%u6bb5%u7ba1%u7ebf'',
    section_blocks = [DiagramBlock (jlines [''  %u539f%u59cb%u884c:   cat f | grep foo > out &'',
          ''             %u2502'',
          ''             %u25bc  tokenize%uff08%u5c0a%u91cd%u5f15%u53f7%uff09'',
          ''  tokens:   [cat] [f] [|] [grep] [foo] [>] [out] [&]'',
          ''             %u2502'',
          ''             %u25bc  split_by_pipe'',
          ''  groups:   [[cat][f]]   [[grep][foo][>][out][&]]'',
          ''             %u2502'',
          ''             %u25bc  extract_redirs + detect_background'',
          ''  pipeline: Pipeline {'',
          ''              commands: ['',
          ''                Command{argv:[cat,f]},'',
          ''                Command{argv:[grep,foo], stdout:Some("out")}'',
          ''              ],'',
          ''              background: true'',
          ''            }'',
          ''             %u2502'',
          ''             %u25bc  execute'',
          ''  fork chain + dup2 + exec''])]\<rparr>\<close>

definition phase6ZhCN_lesson4_section2 :: ContentSection where
  \<open>phase6ZhCN_lesson4_section2 = \<lparr>
    section_title = js ''Tokenizer%uff1a%u5e26%u5f15%u53f7%u72b6%u6001%u673a'',
    section_blocks = [ParagraphBlock (jcat [''%u6700%u6734%u7d20%u7684 split_whitespace %u9047%u5230 echo "hello world" '',
          ''%u5c31%u65ad%u4e86%u2014%u2014"hello %u548c world" %u53d8%u6210%u4e24%u4e2a '',
          ''token%uff0c%u8fd8%u5404%u81ea%u5e26%u7740%u5f15%u53f7%u3002%u6b63%u786e%u505a%u6cd5%u662f%u4e00'',
          ''%u4e2a%u4e09%u72b6%u6001%u673a%uff1aNormal%u3001InDoubleQuote%u3001InSingleQuote'',
          ''%u3002'']),
      CodeBlock (Some (js ''rust'')) (jlines [''// labs/phase_6_shell/src/user_shell.rs'',
          ''fn tokenize(line: &str) -> Vec<String> {'',
          ''    let mut out = Vec::new();'',
          ''    let mut cur = String::new();'',
          ''    let mut in_dq = false;'',
          ''    let mut in_sq = false;'',
          ''    for c in line.chars() {'',
          ''        match c {'',
          ''            '"'  if !in_sq => in_dq = !in_dq,'',
          ''            '%27' if !in_dq => in_sq = !in_sq,'',
          ''            c if c.is_whitespace() && !in_dq && !in_sq => {'',
          ''                if !cur.is_empty() { out.push(core::mem::take(&mut cur)); }'',
          ''            }'',
          ''            '|' | '<' | '>' | '&' if !in_dq && !in_sq => {'',
          ''                if !cur.is_empty() { out.push(core::mem::take(&mut cur)); }'',
          ''                // %u5904%u7406 >> %u4e24%u5b57%u7b26 token'',
          ''                if let Some(last) = out.last_mut() {'',
          ''                    if last == ">" && c == '>' { last.push('>'); continue; }'',
          ''                }'',
          ''                out.push(c.to_string());'',
          ''            }'',
          ''            _ => cur.push(c),'',
          ''        }'',
          ''    }'',
          ''    if !cur.is_empty() { out.push(cur); }'',
          ''    out'',
          ''}''])]\<rparr>\<close>

definition phase6ZhCN_lesson4_section3 :: ContentSection where
  \<open>phase6ZhCN_lesson4_section3 = \<lparr>
    section_title = js ''%u7ba1%u9053%u5207%u5206 + %u91cd%u5b9a%u5411%u62bd%u53d6'',
    section_blocks = [CodeBlock (Some (js ''rust'')) (jlines [''pub struct Command {'',
          ''    pub path: String,'',
          ''    pub args: Vec<String>,'',
          ''    pub stdin:   Option<String>,'',
          ''    pub stdout:  Option<String>,'',
          ''    pub append:  bool,'',
          ''}'',
          ''pub struct Pipeline { pub commands: Vec<Command>, pub background: bool }'',
          '''',
          ''fn parse(tokens: Vec<String>) -> Pipeline {'',
          ''    let mut bg = false;'',
          ''    let mut toks = tokens;'',
          ''    if toks.last().map(|s| s.as_str()) == Some("&") { bg = true; toks.pop(); }'',
          '''',
          ''    let mut commands = Vec::new();'',
          ''    for group in toks.split(|t| t == "|") {'',
          ''        let mut cmd = Command::default();'',
          ''        let mut i = 0;'',
          ''        while i < group.len() {'',
          ''            match group[i].as_str() {'',
          ''                "<"  => { cmd.stdin  = Some(group[i+1].clone()); i += 2; }'',
          ''                ">"  => { cmd.stdout = Some(group[i+1].clone()); cmd.append = false; i += 2; }'',
          ''                ">>" => { cmd.stdout = Some(group[i+1].clone()); cmd.append = true;  i += 2; }'',
          ''                _    => { cmd.args.push(group[i].clone()); i += 1; }'',
          ''            }'',
          ''        }'',
          ''        cmd.path = cmd.args[0].clone();'',
          ''        commands.push(cmd);'',
          ''    }'',
          ''    Pipeline { commands, background: bg }'',
          ''}'']),
      CalloutBlock Tip (jcat [''%u5148%u5207%u7ba1%u9053%u3001%u518d%u62bd%u91cd%u5b9a%u5411%u3001%u518d%u5904%u7406'',
          ''%u540e%u53f0%u2014%u2014%u8fd9%u4e2a%u987a%u5e8f%u6709%u8bb2%u7a76%u3002%u5982%u679c'',
          ''%u5148%u62bd%u91cd%u5b9a%u5411%uff0cpipeline %u4e2d%u95f4%u90a3%u4e9b | '',
          ''%u4f1a%u88ab%u5f53%u6210%u666e%u901a%u53c2%u6570%u3002''])]\<rparr>\<close>

definition phase6ZhCN_lesson4_section4 :: ContentSection where
  \<open>phase6ZhCN_lesson4_section4 = \<lparr>
    section_title = js ''%u6267%u884c%uff1an-1 %u4e2a%u7ba1%u9053%uff0cn %u6b21 fork'',
    section_blocks = [CodeBlock (Some (js ''rust'')) (jlines [''fn execute(p: &Pipeline) {'',
          ''    let n = p.commands.len();'',
          ''    // %u5148%u4e00%u6b21%u6027%u5f00%u6240%u6709%u7ba1%u9053'',
          ''    let mut pipes: Vec<(usize,usize)> = Vec::new();'',
          ''    for _ in 0..n-1 {'',
          ''        let mut fd = [0usize; 2];'',
          ''        sys_pipe(&mut fd);'',
          ''        pipes.push((fd[0], fd[1]));'',
          ''    }'',
          '''',
          ''    let mut children = Vec::new();'',
          ''    for i in 0..n {'',
          ''        let pid = sys_fork();'',
          ''        if pid == 0 {'',
          ''            // %u5b50%u8fdb%u7a0b%uff1a%u5148%u8fde%u597d%u7ba1%u9053%u548c%u91cd%u5b9a%u5411'',
          ''            if i > 0       { sys_dup2(pipes[i-1].0, 0); }   // %u4e0a%u4e00%u6bb5%u7684%u8bfb%u7aef %u2192 stdin'',
          ''            if i < n-1     { sys_dup2(pipes[i].1,   1); }   // %u5f53%u524d%u6bb5%u7684%u5199%u7aef %u2192 stdout'',
          ''            // %u2605 %u7236%u5b50%u90fd%u8981%u628a%u6240%u6709 pipe fd %u6e05%u7406%uff0c%u5426%u5219 EOF %u6c38%u4e0d%u5230%u6765'',
          ''            for (r, w) in &pipes { sys_close(%2ar); sys_close(%2aw); }'',
          ''            // %u663e%u5f0f%u91cd%u5b9a%u5411%u8986%u76d6%u7ba1%u9053'',
          ''            apply_redirections(&p.commands[i]);'',
          ''            sys_exec(&p.commands[i].path, &p.commands[i].args);'',
          ''            sys_exit(-1);'',
          ''        } else { children.push(pid); }'',
          ''    }'',
          ''    // %u2605%u2605 %u5173%u952e%uff1a%u7236%u8fdb%u7a0b%u5fc5%u987b%u7acb%u523b%u5173%u6389%u6240%u6709 pipe fd%uff0c%u5426%u5219 reader %u6c38%u8fdc%u89c1%u4e0d%u5230 EOF'',
          ''    for (r, w) in pipes { sys_close(r); sys_close(w); }'',
          '''',
          ''    if !p.background {'',
          ''        for pid in children { let mut code = 0; sys_waitpid(pid, &mut code); }'',
          ''    }'',
          ''}'']),
      CalloutBlock Warning (jcat [''%u6574%u4e2a phase 6 %u6700%u7ecf%u5178%u7684 '',
          ''bug%uff1a%u7236%u8fdb%u7a0b%u5fd8%u4e86%u5173%u81ea%u5df1%u624b%u91cc%u7684 pipe '',
          ''fd%u3002%u53ea%u8981%u8fd8%u6709%u4e00%u4e2a write_end Arc %u6d3b%u7740%uff0c%u8bfb%u7aef%u5c31%u6c38%u8fdc EOF '',
          ''%u4e0d%u4e86%uff0cwc -l %u4f1a%u6302%u4f4f%u3002%u5199%u5b8c execute %u5148%u8dd1 '',
          ''ls | wc -l%uff0c%u6302%u4f4f%u4e86 100%25 %u662f close %u6f0f%u4e86%u3002''])]\<rparr>\<close>

definition phase6ZhCN_lesson4_exercise1 :: CodeExercise where
  \<open>phase6ZhCN_lesson4_exercise1 = \<lparr>
    exercise_id = js ''lab4-tokenize'',
    exercise_title = js ''Lab 4a %u2b50%u2b50 tokenize + parse'',
    exercise_description = jcat [''%u5b9e%u73b0%u5e26%u5f15%u53f7%u7684 tokenize%u3001%u7ba1%u9053%u5207%u5206%u3001'',
        ''%u91cd%u5b9a%u5411%u62bd%u53d6%u3001%u540e%u53f0%u8bc6%u522b%u3002%u8868%u9a71%u52a8'',
        ''%u6d4b%u8bd5 20 %u4e2a%u7528%u4f8b%u3002''],
    exercise_labFile = Some (js ''labs/phase_6_shell/src/user_shell.rs''),
    exercise_hints = [js ''%u5efa%u8bae%u5148 tokenize %u518d parse%uff0c%u4e24%u6b65%u5206%u79bb'',
       js ''"hello world" %u4fdd%u7559%u7a7a%u683c%u3001%u4fdd%u7559 | < >'',
       jcat [''>> %u8981%u4f5c%u4e3a%u5355%u4e2a token%uff1b%u7b80%u5355%u505a%u6cd5%u662f%u5728 '',
         ''tokenize %u91cc%u5408%u5e76%u76f8%u90bb >''],
       js ''%u6d4b%u8bd5%u7528%u4f8b%uff1aecho "a|b" %u5e94%u8be5%u4ea7%u751f%u4e00%u4e2a token a|b''],
    exercise_pseudocode = None\<rparr>\<close>

definition phase6ZhCN_lesson4_exercise2 :: CodeExercise where
  \<open>phase6ZhCN_lesson4_exercise2 = \<lparr>
    exercise_id = js ''lab4-execute'',
    exercise_title = js ''Lab 4b %r032b50 %u6267%u884c%u7ba1%u9053'',
    exercise_description = jcat [''fork %u51fa n %u4e2a%u5b50%u8fdb%u7a0b%uff0c%u7528 dup2 '',
        ''%u4e32%u8054%uff0c%u91cd%u70b9%u5173%u6ce8%u7236%u5b50%u4e24%u7aef%u7684 close%u3002''],
    exercise_labFile = Some (js ''labs/phase_6_shell/src/user_shell.rs''),
    exercise_hints = [js ''%u5148%u5f00%u5b8c%u6240%u6709 pipe %u518d%u5f00 fork %u5faa%u73af'',
       jcat [''%u5b50%u8fdb%u7a0b%uff1adup2 %u7ed1%u597d%u540e%uff0c%u904d%u5386 pipes '',
         ''%u6570%u7ec4%u628a%u6240%u6709 fd close %u6389''],
       jcat [''%u2605 %u7236%u8fdb%u7a0b fork %u5faa%u73af%u7ed3%u675f%u540e%uff0c%u7acb%u523b '',
         ''close %u6240%u6709 pipe fd''],
       js ''%u540e%u53f0%u4efb%u52a1%uff1a%u4e0d waitpid%uff0c%u8ba9 init %u53bb%u6536%u5272''],
    exercise_pseudocode = Some (jlines [''fn execute(pipeline):'',
          ''    pipes = for _ in 0..n-1: sys_pipe()'',
          ''    for i in 0..n:'',
          ''        pid = fork()'',
          ''        if pid == 0:                  # child'',
          ''            if i > 0:   dup2(pipes[i-1].read, 0)'',
          ''            if i < n-1: dup2(pipes[i].write,  1)'',
          ''            for (r, w) in pipes: close(r); close(w)'',
          ''            apply_redirections(commands[i])'',
          ''            exec(commands[i])'',
          ''    for (r, w) in pipes: close(r); close(w)     # %u2605 parent %u6e05%u7406'',
          ''    if !background: waitpid all children''])\<rparr>\<close>

definition phase6ZhCN_lesson4 :: Lesson where
  \<open>phase6ZhCN_lesson4 = \<lparr>
    lesson_phaseId = 6, lesson_lessonId = 4,
    lesson_title = js ''Shell %u884c%u89e3%u6790%uff1a%u4ece%u5b57%u8282%u6d41%u5230%u7ba1%u9053%u8ba1%u5212'',
    lesson_subtitle = jcat [''%u8bcd%u6cd5%u5206%u6790%u3001%u7ba1%u9053%u5206%u6bb5%u3001%u91cd%u5b9a%u5411%u62bd'',
        ''%u53d6%u3001%u540e%u53f0%u7b26%u53f7''],
    lesson_type = js ''Concept + Practice'',
    lesson_duration = js ''1.5 hours'',
    lesson_objectives = [js ''%u5b9e%u73b0%u5e26%u5f15%u53f7%u652f%u6301%u7684 tokenizer'',
       js ''%u6309 | %u5207%u5206 token %u5217%u8868%u4e3a Command %u6570%u7ec4'',
       jcat [''%u628a < > >> %u4ece argv %u91cc%u62bd%u51fa%u6765%uff0c%u7559%u4e0b%u5e72%u51c0'',
         ''%u7684%u53c2%u6570''],
       js ''%u8bc6%u522b%u672b%u5c3e & %u6807%u8bb0%u4e3a%u540e%u53f0%u4efb%u52a1''],
    lesson_sections = [phase6ZhCN_lesson4_section1,
      phase6ZhCN_lesson4_section2,
      phase6ZhCN_lesson4_section3,
      phase6ZhCN_lesson4_section4],
    lesson_exercises = [phase6ZhCN_lesson4_exercise1, phase6ZhCN_lesson4_exercise2],
    lesson_acceptanceCriteria = [js ''echo "a|b|c" %u6253%u5370 a|b|c%uff08%u4e0d%u5207%u7ba1%u9053%uff09'',
       js ''ls | grep rs | wc -l %u8fd4%u56de%u6b63%u786e%u884c%u6570%uff0c%u4e0d%u6302%u8d77'',
       js ''cat file > out 2> err %u5206%u79bb stdout/stderr%uff08%u53ef%u9009%u6269%u5c55%uff09'',
       js ''sleep 5 & %u7acb%u523b%u8fd4%u56de%u63d0%u793a%u7b26''],
    lesson_references = [\<lparr>reference_title = js ''labs/phase_6_shell/COURSE.zh-CN.md %u00a76.6'',
       reference_description = js ''[%u5fc5%u8bfb] Shell %u89e3%u6790%u7ae0%u8282'',
       reference_url = js ''./labs/phase_6_shell/COURSE.zh-CN.md''\<rparr>,
      \<lparr>reference_title = js ''Bash source execute_cmd.c'',
       reference_description = js ''[%u6df1%u5165%u9605%u8bfb] %u771f%u5b9e shell %u7684 execute_pipeline %u5b9e%u73b0'',
       reference_url = js ''https://git.savannah.gnu.org/cgit/bash.git/tree/execute_cmd.c''\<rparr>,
      \<lparr>reference_title = js ''The Unix Programming Environment, Ch. 3'',
       reference_description = js ''[%u6df1%u5165%u9605%u8bfb] Kernighan & Pike %u8bb2%u89e3 shell %u8bed%u4e49'',
       reference_url = js ''https://archive.org/details/UnixProgrammingEnvironment''\<rparr>,
      \<lparr>reference_title = js ''xv6 sh.c'',
       reference_description = jcat [''[%u901f%u67e5] 300 %u884c%u5b9e%u73b0%u7684%u6781%u7b80 '',
          ''shell%uff0c%u9605%u8bfb%u53c2%u8003''],
       reference_url = js ''https://github.com/mit-pdos/xv6-riscv/blob/riscv/user/sh.c''\<rparr>]\<rparr>\<close>

section \<open>Lesson 5\<close>

definition phase6ZhCN_lesson5_section1 :: ContentSection where
  \<open>phase6ZhCN_lesson5_section1 = \<lparr>
    section_title = js ''init %u7684%u6b7b%u5faa%u73af'',
    section_blocks = [ParagraphBlock (jcat [''kernel main %u8dd1%u5230%u6700%u540e%u505a%u4e00%u4ef6%u4e8b%uff1aadd_initproc()'',
          ''%u2014%u2014%u628a /bin/init %u4f5c%u4e3a pid 0 '',
          ''%u585e%u8fdb%u5c31%u7eea%u961f%u5217%u3002init %u7684%u6e90%u7801%u53ea%u6709 20 '',
          ''%u884c%uff0c%u5374%u662f%u6574%u4e2a%u7cfb%u7edf%u7684%u5b88%u62a4%u795e%u3002'']),
      CodeBlock (Some (js ''rust'')) (jlines [''// labs/phase_6_shell/user/src/bin/init.rs'',
          ''#![no_std] #![no_main]'',
          '''',
          ''#[no_mangle]'',
          ''fn main() -> i32 {'',
          ''    if fork() == 0 {'',
          ''        exec("/bin/sh%5c0", &["sh%5c0"]);          // %u5b50%u8fdb%u7a0b%uff1a%u505a shell'',
          ''    } else {'',
          ''        loop {'',
          ''            let mut exit_code = 0;'',
          ''            let pid = waitpid(-1, &mut exit_code);   // %u7236%u8fdb%u7a0b%uff1a%u6536%u5272'',
          ''            if pid == -1 { yield_(); continue; }     // %u6682%u65f6%u6ca1%u50f5%u5c38'',
          ''            // %u6253%u5370%u6536%u5c38%u8bb0%u5f55%uff08%u53ef%u9009%uff09'',
          ''            println!("[init] pid {} exited with {}", pid, exit_code);'',
          ''        }'',
          ''    }'',
          ''    0'',
          ''}'']),
      CalloutBlock Info (jcat [''%u8fd9 20 %u884c%u662f%u6574%u4e2a OS %u6240%u6709%u7528%u6237%u8fdb%u7a0b%u751f'',
          ''%u547d%u5468%u671f%u7684%u95ed%u73af%uff1a%u6240%u6709%u5b64%u513f%u6700%u7ec8%u90fd'',
          ''%u6302%u5230 init %u540d%u4e0b%uff0c%u6240%u6709%u50f5%u5c38%u6700%u7ec8%u90fd%u88ab'',
          ''%u8fd9%u4e2a waitpid(-1) %u6536%u8d70%u3002%u6ca1%u6709%u5b83%uff0c%u7cfb%u7edf'',
          ''%u8fdf%u65e9%u5185%u5b58%u8017%u5c3d%u3002''])]\<rparr>\<close>

definition phase6ZhCN_lesson5_section2 :: ContentSection where
  \<open>phase6ZhCN_lesson5_section2 = \<lparr>
    section_title = js ''%u8fdb%u7a0b%u6811%u7684%u8bde%u751f'',
    section_blocks = [DiagramBlock (jlines [''  %u542f%u52a8%u5e8f%u5217%uff1a'',
          '''',
          ''  t0  kernel: add_initproc()'',
          ''  t1  scheduler: %u9009%u4e2d init%uff0c__restore'',
          ''  t2  init: fork()'',
          ''  t3  scheduler: %u7236%u7ee7%u7eed%u3001%u5b50%u88ab%u52a0%u5165%u961f%u5217'',
          ''  t4  init(parent): %u8fdb%u5165 waitpid %u5faa%u73af'',
          ''  t5  init(child):  exec("/bin/sh")'',
          ''  t6  sh: %u6253%u5370 "$ "%u3001read_line'',
          ''  t7  user types: ls | wc -l'',
          ''  t8  sh: parse + execute'',
          ''        %u251c%u2500 fork cat (pid 3)'',
          ''        %u251c%u2500 fork grep (pid 4)'',
          ''        %u2514%u2500 fork wc   (pid 5)'',
          ''  t9  pipeline %u7ed3%u675f%uff0cwaitpid %u56de%u6536 3/4/5'',
          ''  t10 sh: %u4e0b%u4e00%u4e2a%u63d0%u793a%u7b26'',
          '''',
          ''  %u6700%u7ec8%u8fdb%u7a0b%u6811%uff1a'',
          '''',
          ''      init (0)'',
          ''       %u2514%u2500%u2500 sh (1)'',
          ''            %u251c%u2500%u2500 ls  (2, %u77ac%u65f6)'',
          ''            %u251c%u2500%u2500 cat (3, %u77ac%u65f6)'',
          ''            %u2514%u2500%u2500 ...''])]\<rparr>\<close>

definition phase6ZhCN_lesson5_section3 :: ContentSection where
  \<open>phase6ZhCN_lesson5_section3 = \<lparr>
    section_title = js ''%u516b%u4e2a coreutil'',
    section_blocks = [TableBlock [js ''%u7a0b%u5e8f'',
         js ''%u529f%u80fd'',
         js ''%u4e3b%u8981 syscall'',
         js ''%u884c%u6570%u4f30%u7b97'']
        [[js ''ls [path]'',
          js ''%u5217%u76ee%u5f55'',
          js ''open + readdir + close'',
          js ''~60''],
         [js ''cat FILE...'',
          js ''%u62fc%u63a5%u8f93%u51fa'',
          js ''open + read + write'',
          js ''~40''],
         [js ''echo ARGS'',
          js ''%u6253%u5370%u53c2%u6570'',
          js ''write'',
          js ''~15''],
         [js ''mkdir DIR'',
          js ''%u5efa%u76ee%u5f55'',
          js ''sys_mkdir'',
          js ''~20''],
         [js ''rm FILE'',
          js ''%u5220%u9664'',
          js ''sys_unlink'',
          js ''~20''],
         [js ''ps'',
          js ''%u8fdb%u7a0b%u5217%u8868'',
          js ''sys_ps%uff08%u65b0 syscall%uff09'',
          js ''~30''],
         [js ''kill PID SIG'',
          js ''%u53d1%u4fe1%u53f7'',
          js ''sys_kill'',
          js ''~25''],
         [js ''wc [-l]'',
          js ''%u8ba1%u884c/%u5b57'',
          js ''read%uff08%u5230 EOF%uff09'',
          js ''~50'']],
      CodeBlock (Some (js ''rust'')) (jlines [''// user/src/bin/cat.rs %u2014 %u6700%u77ed%u7684 coreutil%uff0c%u4f46%u5df2%u7ecf%u80fd%u8d70%u5b8c%u6574%u6761%u8def%u5f84'',
          ''#![no_std] #![no_main]'',
          ''use user_lib::{open, read, write, OpenFlags};'',
          '''',
          ''#[no_mangle]'',
          ''fn main(argc: usize, argv: &[&str]) -> i32 {'',
          ''    for path in &argv[1..] {'',
          ''        let fd = open(path, OpenFlags::RDONLY);'',
          ''        if fd < 0 { println!("cat: {}: No such file", path); continue; }'',
          ''        let mut buf = [0u8; 512];'',
          ''        loop {'',
          ''            let n = read(fd as usize, &mut buf);'',
          ''            if n <= 0 { break; }                 // %u2605 EOF from pipe or file'',
          ''            write(1, &buf[..n as usize]);'',
          ''        }'',
          ''        close(fd as usize);'',
          ''    }'',
          ''    0'',
          ''}'']),
      CalloutBlock Tip (jcat [''cat %u4e0d%u533a%u5206 "%u6587%u4ef6" %u548c '',
          ''"%u7ba1%u9053"%u2014%u2014%u5b83%u53ea%u770b%u5230 read(fd, buf) %u8fd4%u56de 0 '',
          ''%u5c31%u9000%u51fa%u3002%u8fd9%u5c31%u662f Unix %u7684 "everything is a file" '',
          ''%u62bd%u8c61%u529b%u7684%u7ec8%u6781%u4f53%u73b0%uff1acat file %u548c cat | grep foo '',
          ''%u8d70%u7684%u662f%u540c%u4e00%u6bb5%u4ee3%u7801%u3002''])]\<rparr>\<close>

definition phase6ZhCN_lesson5_section4 :: ContentSection where
  \<open>phase6ZhCN_lesson5_section4 = \<lparr>
    section_title = js ''make qemu %u7684%u4ea4%u4ed8%u7269'',
    section_blocks = [CodeBlock (Some (js ''text'')) (jlines [''$ make qemu'',
          ''[kernel] boot, paging enabled, heap initialized'',
          ''[kernel] init process pid=0 loaded'',
          ''[init] forking /bin/sh'',
          ''$ ls'',
          ''README.md   COURSE.md   src'',
          ''$ cat README.md | wc -l'',
          ''42'',
          ''$ ps'',
          ''PID  PPID  STATE  NAME'',
          ''0    -     R      init'',
          ''1    0     R      sh'',
          ''$ echo "built an OS from scratch" > out.txt'',
          ''$ cat out.txt'',
          ''built an OS from scratch'',
          ''$ kill 1 9'',
          ''[init] pid 1 exited with -9'',
          ''[init] forking /bin/sh     # init %u5e94%u8be5%u91cd%u542f sh%uff1b%u7ec3%u4e60%u9898'',
          ''$ '']),
      CalloutBlock Quote (jcat [''You have built an operating system. 6 %u4e2a phase%uff0c%u7ea6 8000 %u884c '',
          ''Rust%u2014%u2014%u6bcf%u4e00%u884c%u90fd%u662f%u4f60%u4eb2%u624b%u5199%u7684%u3002%u4e0b'',
          ''%u6b21 make qemu %u4e4b%u540e%uff0c%u8bb0%u5f97%u5728%u65e5%u8bb0%u91cc%u5199%u4e00'',
          ''%u53e5%uff1a2026/04/15%uff0cmy OS said hi%u3002''])]\<rparr>\<close>

definition phase6ZhCN_lesson5_section5 :: ContentSection where
  \<open>phase6ZhCN_lesson5_section5 = \<lparr>
    section_title = js ''%u5e38%u89c1%u9519%u8bef%u5408%u96c6'',
    section_blocks = [TableBlock [js ''%u75c7%u72b6'',
         js ''%u6839%u56e0'',
         js ''%u4fee%u590d'']
        [[js ''ls | wc -l %u6302%u4f4f'',
          js ''%u7236%u8fdb%u7a0b%u5fd8%u4e86%u5173 pipe fd'',
          js ''execute %u672b%u5c3e close %u6240%u6709 pipes''],
         [js ''echo "a b" %u6253%u5370 "a" "b"'',
          js ''tokenizer %u4e0d%u61c2%u5f15%u53f7'',
          js ''%u52a0%u4e09%u72b6%u6001%u673a''],
         [js ''%u50f5%u5c38%u5806%u79ef'',
          js ''init %u6ca1%u5faa%u73af waitpid'',
          js ''init %u7528 while %u6536%u5272''],
         [js ''exec %u540e fd %u5168%u4e22'',
          js ''exec %u8bef%u6e05%u4e86 fd_table'',
          js ''exec %u53ea%u6362 memory_set''],
         [js ''fork bomb'',
          js ''%u5fd8%u4e86%u6539%u5b50 a0 = 0'',
          js ''trap_cx.x[10] = 0''],
         [js ''sys_open %u8fde%u7eed%u5931%u8d25'',
          js ''waitpid %u6ca1 clear fd_table'',
          js ''reap %u65f6%u663e%u5f0f%u6e05%u7a7a'']]]\<rparr>\<close>

definition phase6ZhCN_lesson5_exercise1 :: CodeExercise where
  \<open>phase6ZhCN_lesson5_exercise1 = \<lparr>
    exercise_id = js ''lab5-init'',
    exercise_title = js ''Lab 5a %u2b50%u2b50 /bin/init'',
    exercise_description = jcat [''%u5199 init.rs%uff1afork sh%uff0c%u7236%u8fdb%u7a0b%u6b7b%u5faa%u73af '',
        ''waitpid(-1)%u3002%u653e%u8fdb user/src/bin%u3002''],
    exercise_labFile = Some (js ''labs/phase_6_shell/user/src/bin/init.rs''),
    exercise_hints = [jcat [''exec %u8def%u5f84%u8981%u4ee5 %5c0 %u7ed3%u5c3e%uff08C '',
         ''%u5b57%u7b26%u4e32%u7ea6%u5b9a%uff09''],
       jcat [''waitpid %u8fd4%u56de -1 %u8868%u793a%u6682%u65f6%u6ca1%u50f5%u5c38%uff0csys_yield '',
         ''%u540e%u91cd%u8bd5''],
       jcat [''%u6269%u5c55%u7ec3%u4e60%uff1ash %u9000%u51fa%u65f6%u81ea%u52a8%u91cd%u542f%uff08'',
         ''%u8fdb%u7a0b%u53f7%u6c38%u8fdc%u662f 1%uff09'']],
    exercise_pseudocode = None\<rparr>\<close>

definition phase6ZhCN_lesson5_exercise2 :: CodeExercise where
  \<open>phase6ZhCN_lesson5_exercise2 = \<lparr>
    exercise_id = js ''lab5-coreutils'',
    exercise_title = js ''Lab 5b %r032b50 %u516b%u4e2a coreutil'',
    exercise_description = jcat [''%u5728 user/src/bin %u4e0b%u5404%u5199%u4e00%u4e2a%u6587%u4ef6%uff1als%u3001cat'',
        ''%u3001echo%u3001mkdir%u3001rm%u3001ps%u3001kill%u3001wc%u3002%u6bcf%u4e2a%u4e0d'',
        ''%u8d85%u8fc7 80 %u884c%u3002''],
    exercise_labFile = Some (js ''labs/phase_6_shell/user/src/bin/''),
    exercise_hints = [jcat [''argv %u901a%u8fc7 main(argc, argv) %u4f20%u5165%u2014%u2014user_lib '',
         ''%u5df2%u7ecf%u5904%u7406%u597d ABI''],
       js ''ls %u8981%u5b9e%u73b0 sys_readdir %u6216%u4ece stat %u62fc%u63a5'',
       js ''ps %u9700%u8981%u5185%u6838%u65b0%u589e sys_ps(buf, len) %u6216 sys_listpid'',
       jcat [''wc %u8bfb%u5230 read==0 %u5c31%u662f EOF%uff0c%u4e0d%u8981%u68c0%u6d4b%u5177%u4f53'',
         ''%u5b57%u8282'']],
    exercise_pseudocode = None\<rparr>\<close>

definition phase6ZhCN_lesson5_exercise3 :: CodeExercise where
  \<open>phase6ZhCN_lesson5_exercise3 = \<lparr>
    exercise_id = js ''lab5-integration'',
    exercise_title = js ''Lab 5c %r042b50 %u5b8c%u6574%u96c6%u6210'',
    exercise_description = jcat [''make qemu %u540e%uff0c%u8dd1 cat COURSE.md | grep Lab | wc -l '',
        ''%u770b%u5230%u6b63%u786e%u884c%u6570%u3002%u8dd1 grade.py %u62ff%u6ee1%u5206%u3002''],
    exercise_labFile = Some (js ''labs/phase_6_shell/''),
    exercise_hints = [jcat [''%u5361%u4f4f%u65f6%uff1aCOURSE.zh-CN.md "Common Mistakes" '',
         ''%u90a3%u4e00%u8282%u6309%u75c7%u72b6%u7d22%u5f15''],
       js ''QEMU %u5185 Ctrl-A X %u9000%u51fa'',
       jcat [''%u8dd1 1000 %u6b21 ls | wc -l %u4e0d%u6cc4%u6f0f%u2014%u2014%u52a0%u4e2a%u538b%u6d4b'',
         ''%u811a%u672c%u68c0%u67e5'']],
    exercise_pseudocode = None\<rparr>\<close>

definition phase6ZhCN_lesson5 :: Lesson where
  \<open>phase6ZhCN_lesson5 = \<lparr>
    lesson_phaseId = 6, lesson_lessonId = 5,
    lesson_title = js ''coreutils + init %u81ea%u4e3e%uff1a8000 %u884c%u7684 Unix %u68a6'',
    lesson_subtitle = js ''/bin/init %u2192 /bin/sh %u2192 ls | wc -l'',
    lesson_type = js ''Integration'',
    lesson_duration = js ''2-3 hours'',
    lesson_objectives = [jcat [''%u5b9e%u73b0 init %u8fdb%u7a0b%uff1afork /bin/sh%u3001%u6b7b%u5faa%u73af%u56de%u6536'',
         ''%u5b64%u513f''],
       js ''%u7f16%u5199 ls / cat / echo / mkdir / rm / ps / kill %u516b%u4e2a coreutil'',
       jcat [''%u7406%u89e3%u7528%u6237%u6001%u7a0b%u5e8f%u5982%u4f55%u901a%u8fc7 syscall '',
         ''%u8bbf%u95ee fs/pipe/task %u5b50%u7cfb%u7edf''],
       jcat [''%u4f53%u4f1a "OS %u662f%u4e00%u6761%u4ece _start %u5230 shell '',
         ''%u63d0%u793a%u7b26%u7684%u8def%u5f84"'']],
    lesson_sections = [phase6ZhCN_lesson5_section1,
      phase6ZhCN_lesson5_section2,
      phase6ZhCN_lesson5_section3,
      phase6ZhCN_lesson5_section4,
      phase6ZhCN_lesson5_section5],
    lesson_exercises = [phase6ZhCN_lesson5_exercise1, phase6ZhCN_lesson5_exercise2, phase6ZhCN_lesson5_exercise3],
    lesson_acceptanceCriteria = [js ''make qemu %u542f%u52a8%u540e%uff0csh %u6b63%u5e38%u51fa%u63d0%u793a%u7b26'',
       jcat [''ls%u3001cat%u3001echo%u3001mkdir%u3001rm%u3001ps%u3001kill%u3001wc '',
         ''%u5168%u90e8%u53ef%u7528''],
       js ''cat X | grep Y | wc -l %u94fe%u5f0f%u7ba1%u9053%u6b63%u786e%u9000%u51fa'',
       js ''scripts/grade.py %u8bc4%u5206%u4e3a%u6ee1%u5206'',
       jcat [''%u8fde%u7eed%u8fd0%u884c 1 %u5c0f%u65f6%u7684%u968f%u673a%u547d%u4ee4%u6d41%u65e0'',
         ''%u5185%u5b58%u6cc4%u6f0f'']],
    lesson_references = [\<lparr>reference_title = js ''labs/phase_6_shell/COURSE.zh-CN.md %u00a76.7-6.8'',
       reference_description = jcat [''[%u5fc5%u8bfb] %u96c6%u6210%u7ae0 + %u5c55%u671b + '',
          ''%u5b8c%u6574%u5e38%u89c1%u9519%u8bef%u8868''],
       reference_url = js ''./labs/phase_6_shell/COURSE.zh-CN.md''\<rparr>,
      \<lparr>reference_title = js ''xv6-riscv user/init.c + user/sh.c'',
       reference_description = jcat [''[%u5fc5%u8bfb] %u53c2%u8003 C %u5b9e%u73b0%uff0c200 '',
          ''%u884c%u770b%u61c2%u6574%u4e2a%u81ea%u4e3e''],
       reference_url = js ''https://github.com/mit-pdos/xv6-riscv/tree/riscv/user''\<rparr>,
      \<lparr>reference_title = js ''GNU coreutils %u6e90%u7801'',
       reference_description = jcat [''[%u6df1%u5165%u9605%u8bfb] %u5de5%u4e1a%u7ea7%u5b9e%u73b0%u2014%u2014%u6ce8%u610f '',
          ''ls %u7684 20 %u79cd%u9009%u9879%u53ef%u4ee5%u4e0d%u505a''],
       reference_url = js ''https://www.gnu.org/software/coreutils/''\<rparr>,
      \<lparr>reference_title = js ''Lions' Commentary on UNIX 6th Edition'',
       reference_description = jcat [''[%u6df1%u5165%u9605%u8bfb] %u4e00%u672c%u4e66%u8bfb%u5b8c Unix V6 '',
          ''%u5168%u90e8%u5185%u6838%u6e90%u7801''],
       reference_url = js ''https://warsus.github.io/lions-/''\<rparr>]\<rparr>\<close>

section \<open>The phase\<close>

definition phase6ZhCN :: PhaseContent where
  \<open>phase6ZhCN = \<lparr>
    content_phaseId = 6,
    content_color = js ''#DB2777'',
    content_accent = js ''#F472B6'',
    content_lessons = [phase6ZhCN_lesson1, phase6ZhCN_lesson2, phase6ZhCN_lesson3, phase6ZhCN_lesson4, phase6ZhCN_lesson5]\<rparr>\<close>

section \<open>Well-formedness\<close>

lemma phase6ZhCN_lesson1_ok: "lesson_ok phase6ZhCN_lesson1"
  by (simp add: lesson_ok_def section_ok_def phase6ZhCN_lesson1_def
      phase6ZhCN_lesson1_section1_def
      phase6ZhCN_lesson1_section2_def
      phase6ZhCN_lesson1_section3_def
      phase6ZhCN_lesson1_section4_def
      phase6ZhCN_lesson1_exercise1_def
      phase6ZhCN_lesson1_exercise2_def
      phase6ZhCN_lesson1_exercise3_def)

lemma phase6ZhCN_lesson2_ok: "lesson_ok phase6ZhCN_lesson2"
  by (simp add: lesson_ok_def section_ok_def phase6ZhCN_lesson2_def
      phase6ZhCN_lesson2_section1_def
      phase6ZhCN_lesson2_section2_def
      phase6ZhCN_lesson2_section3_def
      phase6ZhCN_lesson2_exercise1_def
      phase6ZhCN_lesson2_exercise2_def)

lemma phase6ZhCN_lesson3_ok: "lesson_ok phase6ZhCN_lesson3"
  by (simp add: lesson_ok_def section_ok_def phase6ZhCN_lesson3_def
      phase6ZhCN_lesson3_section1_def
      phase6ZhCN_lesson3_section2_def
      phase6ZhCN_lesson3_section3_def
      phase6ZhCN_lesson3_section4_def
      phase6ZhCN_lesson3_exercise1_def
      phase6ZhCN_lesson3_exercise2_def)

lemma phase6ZhCN_lesson4_ok: "lesson_ok phase6ZhCN_lesson4"
  by (simp add: lesson_ok_def section_ok_def phase6ZhCN_lesson4_def
      phase6ZhCN_lesson4_section1_def
      phase6ZhCN_lesson4_section2_def
      phase6ZhCN_lesson4_section3_def
      phase6ZhCN_lesson4_section4_def
      phase6ZhCN_lesson4_exercise1_def
      phase6ZhCN_lesson4_exercise2_def)

lemma phase6ZhCN_lesson5_ok: "lesson_ok phase6ZhCN_lesson5"
  by (simp add: lesson_ok_def section_ok_def phase6ZhCN_lesson5_def
      phase6ZhCN_lesson5_section1_def
      phase6ZhCN_lesson5_section2_def
      phase6ZhCN_lesson5_section3_def
      phase6ZhCN_lesson5_section4_def
      phase6ZhCN_lesson5_section5_def
      phase6ZhCN_lesson5_exercise1_def
      phase6ZhCN_lesson5_exercise2_def
      phase6ZhCN_lesson5_exercise3_def)

lemma phase6ZhCN_lesson1_ids: "lesson_phaseId phase6ZhCN_lesson1 = 6" "lesson_lessonId phase6ZhCN_lesson1 = 1"
  by (simp_all add: phase6ZhCN_lesson1_def)

lemma phase6ZhCN_lesson2_ids: "lesson_phaseId phase6ZhCN_lesson2 = 6" "lesson_lessonId phase6ZhCN_lesson2 = 2"
  by (simp_all add: phase6ZhCN_lesson2_def)

lemma phase6ZhCN_lesson3_ids: "lesson_phaseId phase6ZhCN_lesson3 = 6" "lesson_lessonId phase6ZhCN_lesson3 = 3"
  by (simp_all add: phase6ZhCN_lesson3_def)

lemma phase6ZhCN_lesson4_ids: "lesson_phaseId phase6ZhCN_lesson4 = 6" "lesson_lessonId phase6ZhCN_lesson4 = 4"
  by (simp_all add: phase6ZhCN_lesson4_def)

lemma phase6ZhCN_lesson5_ids: "lesson_phaseId phase6ZhCN_lesson5 = 6" "lesson_lessonId phase6ZhCN_lesson5 = 5"
  by (simp_all add: phase6ZhCN_lesson5_def)

lemma phase6ZhCN_shape [site_shape]:
  "content_phaseId phase6ZhCN = 6" "length (content_lessons phase6ZhCN) = 5"
  by (simp_all add: phase6ZhCN_def)

lemma phase6ZhCN_ok [site_shape]: "content_ok phase6ZhCN"
  by (simp add: content_ok_def phase6ZhCN_def upt_rec
      phase6ZhCN_lesson1_ok phase6ZhCN_lesson2_ok phase6ZhCN_lesson3_ok phase6ZhCN_lesson4_ok phase6ZhCN_lesson5_ok
      phase6ZhCN_lesson1_ids phase6ZhCN_lesson2_ids phase6ZhCN_lesson3_ids phase6ZhCN_lesson4_ids phase6ZhCN_lesson5_ids)

end
