(* ===== verification/Phase6_En.thy ===== *)
theory Phase6_En
  imports Content_Types
begin

text \<open>
  Phase 6, shell, pipes and user programs, in English: the constant \<open>phase6En\<close> of
  \<open>website/src/data/phase6.ts\<close>, one definition per section, exercise and lesson. Below it, that the
  content is well formed.
\<close>

section \<open>Lesson 1\<close>

definition phase6En_lesson1_section1 :: ContentSection where
  \<open>phase6En_lesson1_section1 = \<lparr>
    section_title = js ''One syscall, two return values'',
    section_blocks = [ParagraphBlock (jcat [''fork is Unix at its most elegant: a single ecall, but the parent gets the child's '',
          ''pid (positive) while the child gets 0. That dual return isn't a language feature '',
          ''%u2014 it comes from manually overwriting the child TrapContext's x[10] (a0) with '',
          ''0. When the scheduler later __restores the child, sret loads 0 into user a0, and the '',
          ''C-level if (pid == 0) branch splits naturally.'']),
      DiagramBlock (jlines [''  before fork                     after fork'',
          ''  %u250c%r0c2500%u2510                 %u250c%r0c2500%u2510   %u250c%r0c2500%u2510'',
          ''  %u2502 parent PCB %u2502                 %u2502 parent PCB %u2502   %u2502  child PCB %u2502'',
          ''  %u2502 pid = 7    %u2502     %r062550%u25b6    %u2502 pid = 7    %u2502   %u2502  pid = 8   %u2502'',
          ''  %u2502 a0 = ?     %u2502                 %u2502 a0 = 8     %u2502   %u2502  a0 = 0    %u2502  %u2190 manual'',
          ''  %u2502 memory A   %u2502                 %u2502 memory A   %u2502   %u2502  memory A' %u2502  %u2190 full copy'',
          ''  %u2502 fd[0..3]   %u2502                 %u2502 fd[0..3]   %u2502   %u2502  fd[0..3]  %u2502  %u2190 Arc::clone'',
          ''  %u2514%r0c2500%u2518                 %u2514%r0c2500%u2518   %u2514%r0c2500%u2518'',
          ''                                              %u2191'',
          ''                                   Both hold the same File trait'',
          ''                                   object's refcount %u2014 this is the'',
          ''                                   foundation pipes rest on.'']),
      CodeBlock (Some (js ''rust'')) (jlines [''// labs/phase_6_shell/src/task/fork.rs'',
          ''pub fn sys_fork() -> isize {'',
          ''    let parent = current_task().unwrap();'',
          ''    let child  = parent.fork();                    // deep-copy memory_set, Arc::clone fd_table'',
          ''    let trap_cx = child.inner_exclusive_access().get_trap_cx();'',
          ''    trap_cx.x[10] = 0;                              // %u2605 child's a0 = 0'',
          ''    let new_pid = child.pid.0 as isize;'',
          ''    add_task(child);                                // enqueue'',
          ''    new_pid                                         // parent's a0 = child pid'',
          ''}'']),
      CalloutBlock Info (jcat [''This is the famous Unix "one syscall returns twice" trick. The hardware has no idea '',
          ''%u2014 the secret is the single trap_cx.x[10] = 0 assignment before __restore.''])]\<rparr>\<close>

definition phase6En_lesson1_section2 :: ContentSection where
  \<open>phase6En_lesson1_section2 = \<lparr>
    section_title = js ''Copy-on-write: not implemented here, but know it'',
    section_blocks = [ParagraphBlock (jcat [''This teaching kernel does a full physical-frame copy at fork '',
          ''(MemorySet::from_existed_user). If the parent immediately execs, all those copies are discarded %u2014 '',
          ''pure waste. Real Linux uses COW: the child inherits the parent's page table with all '',
          ''writable pages marked read-only; writes from either side trigger a page fault, and '',
          ''only then does the kernel lazily allocate and copy.'']),
      TableBlock [js ''Scheme'',
         js ''fork cost'',
         js ''post-exec cost'',
         js ''Complexity'']
        [[js ''Full copy (this project)'',
          js ''O(memory_size)'',
          js ''Discard & rebuild'',
          js ''Simplest''],
         [js ''Copy-on-write'',
          js ''O(page_count) (mark RO)'',
          js ''Almost free'',
          js ''Write-fault path + refcounted frames''],
         [js ''vfork / posix_spawn'',
          js ''No copy; parent blocks'',
          js ''Child must exec immediately'',
          js ''Strong API constraint'']],
      CalloutBlock Tip (jcat [''Phase 4 gave you MapArea and PageTable %u2014 upgrading to COW is a great '',
          ''extension, but it complicates Phase 3 locking. Recommend finishing Phase 6 first, then '',
          ''looping back.''])]\<rparr>\<close>

definition phase6En_lesson1_section3 :: ContentSection where
  \<open>phase6En_lesson1_section3 = \<lparr>
    section_title = js ''exec: keep the identity, swap the soul'',
    section_blocks = [DiagramBlock (jlines [''  before exec("sh")           after exec("sh")'',
          ''  %u250c%r0c2500%u2510              %u250c%r0c2500%u2510'',
          ''  %u2502 memory_set %u2502  %u2500%u2500 drop %u2500%u2500%u25b6 %u2502 memory_set %u2502   %u2190 new ELF segments'',
          ''  %u2502 (old prog) %u2502              %u2502 (sh prog)  %u2502'',
          ''  %u251c%r0c2500%u2524              %u251c%r0c2500%u2524'',
          ''  %u2502 fd_table   %u2502  %u2500%u2500 keep %u2500%u2500%u25b6 %u2502 fd_table   %u2502   %u2190 preserved! This is why'',
          ''  %u251c%r0c2500%u2524              %u251c%r0c2500%u2524       redirection survives exec'',
          ''  %u2502 pid, ppid  %u2502  %u2500%u2500 keep %u2500%u2500%u25b6 %u2502 pid, ppid  %u2502'',
          ''  %u2502 children[] %u2502  %u2500%u2500 keep %u2500%u2500%u25b6 %u2502 children[] %u2502'',
          ''  %u2514%r0c2500%u2518              %u2514%r0c2500%u2518'']),
      ParagraphBlock (jcat [''exec parses the ELF, builds a new MemorySet via from_elf, and assigns it straight '',
          ''into inner.memory_set %u2014 Rust's RAII frees the old frames. Then it writes a fresh '',
          ''TrapContext at the new user-stack top so __restore clears all user registers and '',
          ''enters the ELF entry point.'']),
      CodeBlock (Some (js ''rust'')) (jlines [''// labs/phase_6_shell/src/task/exec.rs'',
          ''pub fn exec(&self, elf_data: &[u8], args: Vec<String>) {'',
          ''    let (memory_set, mut user_sp, entry) = MemorySet::from_elf(elf_data);'',
          ''    let trap_cx_ppn = memory_set.translate(TRAP_CONTEXT.into())'',
          ''        .unwrap().ppn();'',
          ''    // copy argv onto the user stack per RISC-V ABI'',
          ''    user_sp = push_args_to_stack(&mut user_sp, &args, &memory_set);'',
          ''    let mut inner = self.inner_exclusive_access();'',
          ''    inner.memory_set = memory_set;             // old MemorySet drops here'',
          ''    inner.trap_cx_ppn = trap_cx_ppn;'',
          ''    *inner.get_trap_cx() = TrapContext::app_init_context('',
          ''        entry, user_sp,'',
          ''        KERNEL_SPACE.exclusive_access().token(),'',
          ''        self.kernel_stack.get_top(),'',
          ''        trap_handler as usize,'',
          ''    );'',
          ''    // fd_table untouched %u2014 this is the soul of redirection'',
          ''}''])]\<rparr>\<close>

definition phase6En_lesson1_section4 :: ContentSection where
  \<open>phase6En_lesson1_section4 = \<lparr>
    section_title = js ''waitpid: the three-state reaping protocol'',
    section_blocks = [ParagraphBlock (jcat [''exit(code) can't free the TCB immediately %u2014 the parent may want the exit code. '',
          ''We mark the child as Zombie and keep a lightweight PCB holding just the exit_code. '',
          ''waitpid finds it, pulls exit_code, removes it from children; when the last Arc drops '',
          ''the TCB is gone.'']),
      TableBlock [js ''Case'',
         js ''Return'',
         js ''Meaning'']
        [[js ''No matching child'',
          js ''-1'',
          js ''Bad arg or child never existed''],
         [js ''Matching child still running'',
          js ''-2'',
          js ''User-space yields and retries''],
         [js ''Found a zombie'',
          js ''pid'',
          js ''exit_code written back, PCB reaped'']],
      CodeBlock (Some (js ''rust'')) (jlines [''// labs/phase_6_shell/src/task/waitpid.rs'',
          ''pub fn sys_waitpid(pid: isize, exit_code_ptr: *mut i32) -> isize {'',
          ''    let task = current_task().unwrap();'',
          ''    let mut inner = task.inner_exclusive_access();'',
          ''    if !inner.children.iter().any(|c| pid == -1 || c.pid.0 as isize == pid) {'',
          ''        return -1;                              // no such child'',
          ''    }'',
          ''    let pos = inner.children.iter().position(|c| {'',
          ''        c.inner_exclusive_access().is_zombie()'',
          ''            && (pid == -1 || c.pid.0 as isize == pid)'',
          ''    });'',
          ''    if let Some(idx) = pos {'',
          ''        let child = inner.children.remove(idx);'',
          ''        let child_pid = child.pid.0 as isize;'',
          ''        let exit_code = child.inner_exclusive_access().exit_code;'',
          ''        *translated_refmut(inner.memory_set.token(), exit_code_ptr) = exit_code;'',
          ''        child_pid'',
          ''    } else {'',
          ''        -2                                       // child exists, not exited'',
          ''    }'',
          ''}'']),
      CalloutBlock Warning (jcat [''init (pid 0) must loop on waitpid(-1) forever to reap orphans %u2014 any user '',
          ''process whose parent dies first gets reparented to init. Forget this and your system '',
          ''fills up with zombie PCBs pinning physical pages.''])]\<rparr>\<close>

definition phase6En_lesson1_exercise1 :: CodeExercise where
  \<open>phase6En_lesson1_exercise1 = \<lparr>
    exercise_id = js ''lab1-fork'',
    exercise_title = js ''Lab 1a %u2b50%u2b50 implement sys_fork'',
    exercise_description = jcat [''In task/fork.rs implement fork(): deep-copy memory_set, Arc::clone the fd_table, '',
        ''set the child's a0 to 0, return the child pid.''],
    exercise_labFile = Some (js ''labs/phase_6_shell/src/task/fork.rs''),
    exercise_hints = [js ''MemorySet::from_existed_user(&parent.memory_set) handles per-MapArea copy'',
       js ''fd_table is Vec<Option<Arc<dyn File>>> %u2014 .as_ref().map(Arc::clone) each slot'',
       js ''%u2605 Easy to miss: child.trap_cx.x[10] = 0'',
       js ''add_task(child) must happen after the trap_cx tweak''],
    exercise_pseudocode = Some (jlines [''fn fork(parent) -> Arc<TaskControlBlock>:'',
          ''    memory_set  = MemorySet::from_existed_user(&parent.memory_set)'',
          ''    fd_table    = parent.fd_table.iter().map(clone_arc)'',
          ''    pid         = pid_alloc()'',
          ''    kernel_stack= KernelStack::new(pid)'',
          ''    child       = TCB { pid, parent: Weak(parent), memory_set, fd_table, ... }'',
          ''    # critical'',
          ''    child.get_trap_cx().x[10] = 0'',
          ''    parent.children.push(Arc::clone(&child))'',
          ''    return child''])\<rparr>\<close>

definition phase6En_lesson1_exercise2 :: CodeExercise where
  \<open>phase6En_lesson1_exercise2 = \<lparr>
    exercise_id = js ''lab1-exec'',
    exercise_title = js ''Lab 1b %u2b50%u2b50 implement sys_exec'',
    exercise_description = jcat [''Read the path, find the ELF in easy-fs, call MemorySet::from_elf, replace '',
        ''inner.memory_set. Push argv on the user stack per RISC-V ABI.''],
    exercise_labFile = Some (js ''labs/phase_6_shell/src/task/exec.rs''),
    exercise_hints = [js ''translated_str copies the user-space path into a kernel buffer first'',
       js ''OSInode::read_all() returns the full ELF bytes'',
       js ''argv: pointer array above, strings below %u2014 entry expects a0=argc, a1=argv'',
       js ''**Do not** reset fd_table''],
    exercise_pseudocode = Some (jlines [''fn exec(path, argv) -> isize:'',
          ''    elf = open(path)?.read_all()'',
          ''    (memory_set, user_sp, entry) = MemorySet::from_elf(elf)'',
          ''    user_sp = push_args(user_sp, argv)'',
          ''    self.memory_set  = memory_set        # old one drops'',
          ''    self.trap_cx_ppn = memory_set.translate(TRAP_CONTEXT).ppn()'',
          ''    *self.get_trap_cx() = TrapContext::app_init_context(entry, user_sp, ...)'',
          ''    # keep fd_table'',
          ''    return argv.len() as isize''])\<rparr>\<close>

definition phase6En_lesson1_exercise3 :: CodeExercise where
  \<open>phase6En_lesson1_exercise3 = \<lparr>
    exercise_id = js ''lab1-waitpid'',
    exercise_title = js ''Lab 1c %u2b50%u2b50 implement sys_waitpid'',
    exercise_description = jcat [''Implement the three-state return. Remember to clear the child's fd_table %u2014 '',
        ''otherwise File Arcs never release.''],
    exercise_labFile = Some (js ''labs/phase_6_shell/src/task/waitpid.rs''),
    exercise_hints = [js ''children.iter().position(|c| c.is_zombie()) finds the first zombie'',
       js ''translated_refmut writes exit_code back to user space'',
       js ''%u2605 Before removing the child, fd_table.clear() %u2014 else inodes/pipes never close''],
    exercise_pseudocode = None\<rparr>\<close>

definition phase6En_lesson1 :: Lesson where
  \<open>phase6En_lesson1 = \<lparr>
    lesson_phaseId = 6, lesson_lessonId = 1,
    lesson_title = js ''fork / exec / waitpid: the process trinity'',
    lesson_subtitle = js ''Birth, metamorphosis, and reaping of user processes'',
    lesson_type = js ''Concept'',
    lesson_duration = js ''2 hours'',
    lesson_objectives = [js ''Understand how fork clones a TCB and makes one syscall return two values'',
       js ''See how exec replaces the entire address space while keeping PCB identity'',
       js ''Master waitpid's three-state return and zombie reaping'',
       js ''Explain why Unix chose fork+exec over a single spawn primitive''],
    lesson_sections = [phase6En_lesson1_section1,
      phase6En_lesson1_section2,
      phase6En_lesson1_section3,
      phase6En_lesson1_section4],
    lesson_exercises = [phase6En_lesson1_exercise1, phase6En_lesson1_exercise2, phase6En_lesson1_exercise3],
    lesson_acceptanceCriteria = [js ''Loop fork()+waitpid() 1000 times with no kernel memory growth'',
       js ''exec("nonexistent") returns -1 cleanly, no panic'',
       js ''After child exits, parent's waitpid returns correct exit_code'',
       js ''init reaps all orphan zombies''],
    lesson_references = [\<lparr>reference_title = js ''labs/phase_6_shell/COURSE.en.md %u00a76.1-6.3'',
       reference_description = js ''[Required] Full walkthrough of fork/exec/waitpid'',
       reference_url = js ''./labs/phase_6_shell/COURSE.en.md''\<rparr>,
      \<lparr>reference_title = js ''xv6-riscv book Ch. 1'',
       reference_description = js ''[Required] Canonical Unix interface chapter, fork+exec design'',
       reference_url = js ''https://pdos.csail.mit.edu/6.828/2023/xv6/book-riscv-rev3.pdf''\<rparr>,
      \<lparr>reference_title = js ''APUE Ch. 8 Process Control'',
       reference_description = js ''[Deep dive] POSIX authority %u2014 full waitpid WNOHANG/WUNTRACED semantics'',
       reference_url = js ''https://www.apuebook.com/''\<rparr>,
      \<lparr>reference_title = js ''rCore-Tutorial %u00a77.2 Process Management'',
       reference_description = js ''[Deep dive] Sister Rust+RISC-V reference'',
       reference_url = js ''https://rcore-os.cn/rCore-Tutorial-Book-v3/chapter7/''\<rparr>]\<rparr>\<close>

section \<open>Lesson 2\<close>

definition phase6En_lesson2_section1 :: ContentSection where
  \<open>phase6En_lesson2_section1 = \<lparr>
    section_title = js ''Three-level mapping: fd %u2192 File %u2192 inode/pipe'',
    section_blocks = [DiagramBlock (jlines [''  process A                 kernel                  device'',
          ''  %u250c%r0c2500%u2510             %u250c%r0e2500%u2510        %u250c%r092500%u2510'',
          ''  %u2502 fd_table   %u2502             %u2502 File trait   %u2502        %u2502 inode   %u2502'',
          ''  %u2502 [0] Stdin  %u2502%r0c2500%u25b6%u2502  object      %u2502%r062500%u25b6 %u2502 of /a.t %u2502'',
          ''  %u2502 [1] %r062500%u2510%u2502             %u2502  (OSInode)   %u2502        %u2514%r092500%u2518'',
          ''  %u2502 [2] Stdout%u2502%u2502             %u2514%r0e2500%u2518'',
          ''  %u2502 [3] %u2500%u2500%u2510   %u2502%u2502             %u250c%r0e2500%u2510        %u250c%r092500%u2510'',
          ''  %u2514%r072500%u2502%r032500%u2502%u2502             %u2502 Pipe read    %u2502%u2500%u2500%u2510     %u2502 ring    %u2502'',
          ''          %u2502   %u2502%u2514%r0c2500%u25b6%u2502  end         %u2502  %u2502%r042500%u25b6%u2502 buffer  %u2502'',
          ''          %u2502   %u2502              %u2514%r0e2500%u2518  %u2502     %u2514%r092500%u2518'',
          ''          %u2502   %u2502              %u250c%r0e2500%u2510  %u2502'',
          ''          %u2502   %u2514%r0d2500%u25b6%u2502 Pipe write   %u2502%u2500%u2500%u2518'',
          ''          %u2502                  %u2502  end         %u2502'',
          ''          %u2502                  %u2514%r0e2500%u2518'',
          ''  process B (fork of A)          %u2191'',
          ''  %u250c%r0c2500%u2510                 %u2502 Arc::clone'',
          ''  %u2502 [0] Stdin  %u2502%r112500%u2518'']),
      ParagraphBlock (jcat [''An fd is just an array index %u2014 it's not a kernel resource by itself. The real '',
          ''resource is Arc<dyn File>: OSInode, Pipe, Stdin, Stdout all implement the File '',
          ''trait, all shared via Arc refcounting. fork Arc::clones each slot; close drops one. When '',
          ''the count hits zero the underlying buffer / inode handle is released automatically.'']),
      CodeBlock (Some (js ''rust'')) (jlines [''// labs/phase_6_shell/src/fs/fd_table.rs'',
          ''pub trait File: Send + Sync {'',
          ''    fn readable(&self) -> bool;'',
          ''    fn writable(&self) -> bool;'',
          ''    fn read (&self, buf: UserBuffer) -> usize;'',
          ''    fn write(&self, buf: UserBuffer) -> usize;'',
          ''}'',
          '''',
          ''pub struct FdTable {'',
          ''    table: Vec<Option<Arc<dyn File>>>,    // None = closed slot'',
          ''}'',
          '''',
          ''impl FdTable {'',
          ''    pub fn alloc(&mut self, file: Arc<dyn File>) -> usize {'',
          ''        if let Some(i) = self.table.iter().position(|x| x.is_none()) {'',
          ''            self.table[i] = Some(file);  i'',
          ''        } else {'',
          ''            self.table.push(Some(file));  self.table.len() - 1'',
          ''        }'',
          ''    }'',
          ''}'']),
      CalloutBlock Info (jcat [''The "lowest unused fd" rule isn't arbitrary %u2014 the shell relies on it. After '',
          ''close(1), the next dup is guaranteed to return 1, which is the keystone of the '',
          ''redirection algorithm.''])]\<rparr>\<close>

definition phase6En_lesson2_section2 :: ContentSection where
  \<open>phase6En_lesson2_section2 = \<lparr>
    section_title = js ''sys_dup vs sys_dup2'',
    section_blocks = [TableBlock [js ''syscall'',
         js ''Semantics'',
         js ''Typical use'']
        [[js ''dup(fd)'',
          js ''Copy into lowest free slot; return new fd'',
          js ''Backup, placeholder''],
         [js ''dup2(src, dst)'',
          js ''Copy into **specified** dst; close dst if open'',
          js ''Precise redirect''],
         [js ''close(fd)'',
          js ''Drop the slot's Arc'',
          js ''Release resources'']],
      ParagraphBlock (jcat [''dup2 is the shell's workhorse. Read it as "make dst refer to the same File as src" '',
          ''%u2014 afterwards src and dst are two aliases for the same File; closing one '',
          ''doesn't affect the other.'']),
      CodeBlock (Some (js ''rust'')) (jlines [''pub fn sys_dup2(src: usize, dst: usize) -> isize {'',
          ''    let task = current_task().unwrap();'',
          ''    let mut inner = task.inner_exclusive_access();'',
          ''    let Some(Some(file)) = inner.fd_table.get(src) else { return -1 };'',
          ''    let file = Arc::clone(file);'',
          ''    while inner.fd_table.len() <= dst { inner.fd_table.push(None); }'',
          ''    inner.fd_table[dst] = Some(file);        // old entry drops'',
          ''    dst as isize'',
          ''}''])]\<rparr>\<close>

definition phase6En_lesson2_section3 :: ContentSection where
  \<open>phase6En_lesson2_section3 = \<lparr>
    section_title = js ''Redirection in three steps: `>`, `<`, `>>`'',
    section_blocks = [ParagraphBlock (jcat [''When the shell sees cmd > out, after fork() but before exec() it does three things: '',
          ''open the file %u2192 fd_f, dup2(fd_f, 1) so fd 1 points to the file, close(fd_f) to '',
          ''remove the spare alias. Because fd_table survives exec, the new program's writes to '',
          ''stdout go straight to the file.'']),
      CodeBlock (Some (js ''rust'')) (jlines [''// user-space shell snippet'',
          ''fn run_with_redir(cmd: &Command) {'',
          ''    if sys_fork() == 0 {                              // child'',
          ''        if let Some(ref path) = cmd.stdout {'',
          ''            let fd = sys_open(path, O_CREATE | O_WRONLY);'',
          ''            sys_dup2(fd, 1);                          // stdout %u2192 file'',
          ''            sys_close(fd);                            // drop the spare alias'',
          ''        }'',
          ''        if let Some(ref path) = cmd.stdin {'',
          ''            let fd = sys_open(path, O_RDONLY);'',
          ''            sys_dup2(fd, 0);'',
          ''            sys_close(fd);'',
          ''        }'',
          ''        sys_exec(&cmd.path, &cmd.args);              // fd_table crosses exec'',
          ''        sys_exit(-1);'',
          ''    }'',
          ''}'']),
      DiagramBlock (jlines [''  fd_table evolution for `echo hi > out`:'',
          '''',
          ''  after fork:  [0]Stdin  [1]Stdout  [2]Stdout'',
          ''  open "out": [0]Stdin  [1]Stdout  [2]Stdout  [3]File("out")'',
          ''  dup2(3,1):  [0]Stdin  [1]File   [2]Stdout  [3]File("out")  %u2190 1 & 3 alias'',
          ''  close(3):   [0]Stdin  [1]File   [2]Stdout  [3]None'',
          ''  exec echo:  [0]Stdin  [1]File   [2]Stdout              %u2190 echo's write(1,...)'',
          ''                                                            lands in out''])]\<rparr>\<close>

definition phase6En_lesson2_exercise1 :: CodeExercise where
  \<open>phase6En_lesson2_exercise1 = \<lparr>
    exercise_id = js ''lab2-fd'',
    exercise_title = js ''Lab 2a %u2b50 FdTable basics'',
    exercise_description = js ''Implement FdTable::alloc / close / get with lowest-free-slot semantics.'',
    exercise_labFile = Some (js ''labs/phase_6_shell/src/fs/fd_table.rs''),
    exercise_hints = [js ''new() seeds with [Stdin, Stdout, Stdout]'',
       js ''alloc uses position(|x| x.is_none())'',
       js ''close is just table[fd] = None''],
    exercise_pseudocode = None\<rparr>\<close>

definition phase6En_lesson2_exercise2 :: CodeExercise where
  \<open>phase6En_lesson2_exercise2 = \<lparr>
    exercise_id = js ''lab2-dup'',
    exercise_title = js ''Lab 2b %u2b50%u2b50 sys_dup / sys_dup2'',
    exercise_description = js ''Implement both syscalls. dup2 must be able to grow the Vec to the specified size.'',
    exercise_labFile = Some (js ''labs/phase_6_shell/src/task/mod.rs''),
    exercise_hints = [js ''dup forwards to fd_table.alloc(Arc::clone(file))'',
       js ''dup2 where src == dst is a legal no-op returning dst'',
       js ''Grow with pushed None when dst exceeds current length''],
    exercise_pseudocode = Some (jlines [''fn sys_dup2(src, dst):'',
          ''    file = fd_table[src]?'',
          ''    if src == dst: return dst'',
          ''    while fd_table.len() <= dst: fd_table.push(None)'',
          ''    fd_table[dst] = Some(Arc::clone(&file))     # old Arc drops'',
          ''    return dst''])\<rparr>\<close>

definition phase6En_lesson2 :: Lesson where
  \<open>phase6En_lesson2 = \<lparr>
    lesson_phaseId = 6, lesson_lessonId = 2,
    lesson_title = js ''File descriptor table + dup + redirection'',
    lesson_subtitle = js ''A Vec<Option<Arc<dyn File>>> holds up the whole IO world'',
    lesson_type = js ''Concept + Practice'',
    lesson_duration = js ''1.5 hours'',
    lesson_objectives = [js ''Understand the two-level mapping: per-process fd array %u2192 global File trait object'',
       js ''Master the allocation semantics of sys_dup / sys_dup2'',
       js ''Implement shell >, <, >> in three steps: dup2+close'',
       js ''See why fd_table must survive exec''],
    lesson_sections = [phase6En_lesson2_section1,
      phase6En_lesson2_section2,
      phase6En_lesson2_section3],
    lesson_exercises = [phase6En_lesson2_exercise1, phase6En_lesson2_exercise2],
    lesson_acceptanceCriteria = [js ''echo hello > /tmp/a then cat /tmp/a prints hello'',
       js ''cmd < input.txt feeds stdin from a file'',
       js ''echo a >> log; echo b >> log appends two lines'',
       js ''1000 open+close cycles do not leak inode refs''],
    lesson_references = [\<lparr>reference_title = js ''labs/phase_6_shell/COURSE.en.md %u00a76.4'',
       reference_description = js ''[Required] Full fd-table chapter'',
       reference_url = js ''./labs/phase_6_shell/COURSE.en.md''\<rparr>,
      \<lparr>reference_title = js ''xv6-riscv book %u00a71.3 & %u00a78.1'',
       reference_description = js ''[Required] Unix fd abstraction and dup design'',
       reference_url = js ''https://pdos.csail.mit.edu/6.828/2023/xv6/book-riscv-rev3.pdf''\<rparr>,
      \<lparr>reference_title = js ''APUE Ch. 3 File I/O'',
       reference_description = js ''[Deep dive] Full POSIX dup/dup2/fcntl semantics'',
       reference_url = js ''https://www.apuebook.com/''\<rparr>,
      \<lparr>reference_title = js ''man 2 dup2'',
       reference_description = js ''[Reference] Linux manual'',
       reference_url = js ''https://man7.org/linux/man-pages/man2/dup.2.html''\<rparr>]\<rparr>\<close>

section \<open>Lesson 3\<close>

definition phase6En_lesson3_section1 :: ContentSection where
  \<open>phase6En_lesson3_section1 = \<lparr>
    section_title = js ''Two Arcs, one ring'',
    section_blocks = [ParagraphBlock (jcat [''pipe() returns two fds: [0] read end, [1] write end. In the kernel they are two '',
          ''different Arc<Pipe> but both hold an Arc pointing to the same PipeRingBuffer %u2014 '',
          ''reads and writes all land in that shared memory.'']),
      DiagramBlock (jlines [''  read_end : Arc<Pipe> %u2500%u2500%u2510'',
          ''                         %u251c%u2500%u25b6 Arc<Mutex<PipeRingBuffer>>'',
          ''  write_end: Arc<Pipe> %u2500%u2500%u2518         %u2502'',
          ''                                   %u25bc'',
          ''        %u250c%r212500%u2510'',
          ''        %u2502 buf: [u8; RING=2048]            %u2502'',
          ''        %u2502 head: usize    (next read idx)  %u2502'',
          ''        %u2502 tail: usize    (next write idx) %u2502'',
          ''        %u2502 status: Empty | Normal | Full   %u2502'',
          ''        %u2502 write_end: Weak<Pipe>  %u2605        %u2502'',
          ''        %u2514%r212500%u2518'']),
      CalloutBlock Info (jcat [''Weak is the key. The ring holds a Weak to the write end %u2014 no refcount bump. '',
          ''When the last write-end Arc drops, weak.upgrade() returns None and the reader sees '',
          ''EOF. Arc would cycle and nothing would ever free.''])]\<rparr>\<close>

definition phase6En_lesson3_section2 :: ContentSection where
  \<open>phase6En_lesson3_section2 = \<lparr>
    section_title = js ''Ring buffer: disambiguating head == tail'',
    section_blocks = [ParagraphBlock (jcat [''The classic ring question: when head and tail meet, is it empty or full? Solution: '',
          ''a three-state status field. Every read pushes status toward Empty; every write '',
          ''pushes it toward Full.'']),
      TableBlock [js ''status'',
         js ''Readable bytes'',
         js ''Writable bytes'']
        [[js ''Empty'',
          js ''0'',
          js ''RING_SIZE''],
         [js ''Normal'',
          js ''(tail - head + RING) %25 RING'',
          js ''RING - readable''],
         [js ''Full'',
          js ''RING_SIZE'',
          js ''0'']],
      CodeBlock (Some (js ''rust'')) (jlines [''// labs/phase_6_shell/src/fs/pipe.rs'',
          ''const RING_SIZE: usize = 2048;'',
          '''',
          ''pub struct PipeRingBuffer {'',
          ''    buf: [u8; RING_SIZE],'',
          ''    head: usize, tail: usize,'',
          ''    status: RingStatus,'',
          ''    write_end: Option<Weak<Pipe>>,         // %u2605 not Arc'',
          ''}'',
          '''',
          ''impl PipeRingBuffer {'',
          ''    fn available_read(&self) -> usize {'',
          ''        match self.status {'',
          ''            RingStatus::Empty  => 0,'',
          ''            RingStatus::Full   => RING_SIZE,'',
          ''            RingStatus::Normal => (self.tail + RING_SIZE - self.head) %25 RING_SIZE,'',
          ''        }'',
          ''    }'',
          ''    fn all_write_ends_closed(&self) -> bool {'',
          ''        self.write_end.as_ref().unwrap().upgrade().is_none()'',
          ''    }'',
          ''}'']),
      DiagramBlock (jlines [''  RING=4 evolution (.=empty, X=data, H=head, T=tail):'',
          '''',
          ''  initial      [. . . .]  H=0 T=0  Empty'',
          ''  write 3B     [X X X .]  H=0 T=3  Normal   avail_read=3'',
          ''  read  2B     [. . X .]  H=2 T=3  Normal   avail_read=1'',
          ''  write 3B     [X X X X]  H=2 T=2  Full     avail_read=4 %u2190 wrapped'',
          ''  read  4B     [. . . .]  H=2 T=2  Empty    avail_read=0''])]\<rparr>\<close>

definition phase6En_lesson3_section3 :: ContentSection where
  \<open>phase6En_lesson3_section3 = \<lparr>
    section_title = js ''Read/write coroutines: busy-wait vs sleep'',
    section_blocks = [ParagraphBlock (jcat [''This kernel is minimalist: no condition variables. Pipe::read yields (sys_yield) '',
          ''when the ring is empty but writers still exist; Pipe::write yields when full. A '',
          ''high-perf implementation would use WaitQueues once you have those in later phases.'']),
      CodeBlock (Some (js ''rust'')) (jlines [''impl File for Pipe {'',
          ''    fn read(&self, mut buf: UserBuffer) -> usize {'',
          ''        assert!(self.readable);'',
          ''        let mut read_size = 0usize;'',
          ''        let want = buf.len();'',
          ''        loop {'',
          ''            let mut ring = self.buffer.lock();'',
          ''            let n = ring.available_read();'',
          ''            if n == 0 {'',
          ''                if ring.all_write_ends_closed() { return read_size; }  // EOF'',
          ''                drop(ring);                                             // %u2605 drop lock first'',
          ''                suspend_current_and_run_next();                         // yield'',
          ''                continue;'',
          ''            }'',
          ''            for i in 0..n.min(want - read_size) {'',
          ''                buf.write_byte(read_size, ring.read_byte());'',
          ''                read_size += 1;'',
          ''            }'',
          ''            if read_size == want { return read_size; }'',
          ''        }'',
          ''    }'',
          ''}'']),
      CalloutBlock Warning (jcat [''drop(ring) before suspend is mandatory %u2014 a MutexGuard held across schedule() '',
          ''means the scheduler can never retake the lock, hanging the whole system. Phase 3 Lab '',
          ''2c already bit you once.''])]\<rparr>\<close>

definition phase6En_lesson3_section4 :: ContentSection where
  \<open>phase6En_lesson3_section4 = \<lparr>
    section_title = js ''EOF under the microscope'',
    section_blocks = [ParagraphBlock (jcat [''ls | wc -l: ls finishes writing, exits; data is still in the ring, so wc keeps '',
          ''reading. The key step is wc's final read: after draining, it loops once more %u2014 this '',
          ''time avail_read==0 and all_write_ends_closed()==true, so read() returns read_size '',
          ''(possibly 0). The caller treats 0 as EOF.'']),
      DiagramBlock (jlines [''  t0:  ls running                pipe.write_end.strong_count = 2'',
          ''                                  (shell parent + ls child)'',
          ''  t1:  ls writes "foo.txt%5cnbar%5cn" 9 bytes in ring'',
          ''  t2:  shell parent drop(write)   strong_count = 1'',
          ''  t3:  ls exit                    its fd_table drops %u2192 drop'',
          ''                                  strong_count = 0'',
          ''  t4:  wc read                    avail_read=9 %u2192 copy 9 bytes'',
          ''  t5:  wc read again              avail_read=0'',
          ''                                  upgrade() = None %u2192 return 0 %u2192 EOF''])]\<rparr>\<close>

definition phase6En_lesson3_exercise1 :: CodeExercise where
  \<open>phase6En_lesson3_exercise1 = \<lparr>
    exercise_id = js ''lab3-ring'',
    exercise_title = js ''Lab 3a %u2b50%u2b50 ring buffer'',
    exercise_description = jcat [''Implement PipeRingBuffer's read_byte / write_byte / available_read / '',
        ''available_write. Verify wrapping with test_ring_wrap.''],
    exercise_labFile = Some (js ''labs/phase_6_shell/src/fs/pipe.rs''),
    exercise_hints = [js ''Each read_byte: head = (head+1) %25 RING; update status'',
       js ''When full, status=Full; next write must yield'',
       js ''Work through Section 3's example on paper with RING=4, then diff against code''],
    exercise_pseudocode = Some (jlines [''fn read_byte(&mut self) -> u8:'',
          ''    assert!(self.status != Empty)'',
          ''    byte = self.buf[self.head]'',
          ''    self.head = (self.head + 1) %25 RING_SIZE'',
          ''    self.status = if self.head == self.tail: Empty else Normal'',
          ''    return byte'',
          '''',
          ''fn write_byte(&mut self, b: u8):'',
          ''    assert!(self.status != Full)'',
          ''    self.buf[self.tail] = b'',
          ''    self.tail = (self.tail + 1) %25 RING_SIZE'',
          ''    self.status = if self.tail == self.head: Full else Normal''])\<rparr>\<close>

definition phase6En_lesson3_exercise2 :: CodeExercise where
  \<open>phase6En_lesson3_exercise2 = \<lparr>
    exercise_id = js ''lab3-pipe'',
    exercise_title = js ''Lab 3b %r032b50 Pipe::read/write + sys_pipe'',
    exercise_description = jcat [''Wire the two ends with Arc<Mutex<PipeRingBuffer>>; implement sys_pipe returning a '',
        ''pair of fds.''],
    exercise_labFile = Some (js ''labs/phase_6_shell/src/fs/pipe.rs''),
    exercise_hints = [js ''make_pipe() returns (Arc<Pipe>, Arc<Pipe>) sharing the ring'',
       js ''Create the write-end Arc first, then store Arc::downgrade in ring.write_end'',
       js ''%u2605%u2605 In the read loop, drop(ring_guard) before yield'',
       js ''EOF condition: avail_read==0 && all_write_ends_closed()''],
    exercise_pseudocode = None\<rparr>\<close>

definition phase6En_lesson3 :: Lesson where
  \<open>phase6En_lesson3 = \<lparr>
    lesson_phaseId = 6, lesson_lessonId = 3,
    lesson_title = js ''Pipe: ring buffer + refcounting'',
    lesson_subtitle = js ''Two Arc<Pipe> + one Weak<> give you clean EOF semantics'',
    lesson_type = js ''Concept + Practice'',
    lesson_duration = js ''2 hours'',
    lesson_objectives = [js ''Design and implement a fixed-size ring buffer (head/tail + status to disambiguate)'',
       js ''Share one ring between both ends via Arc<Mutex<PipeRingBuffer>>'',
       js ''Grasp how Weak<> gives the "reader sees EOF when all writers closed" property'',
       js ''Step through interleaved reads/writes on paper''],
    lesson_sections = [phase6En_lesson3_section1,
      phase6En_lesson3_section2,
      phase6En_lesson3_section3,
      phase6En_lesson3_section4],
    lesson_exercises = [phase6En_lesson3_exercise1, phase6En_lesson3_exercise2],
    lesson_acceptanceCriteria = [js ''Writer fills 2048 B, reader takes 100 B at a time %u2014 both progress without deadlock'',
       js ''Writer drops fd after done; reader drains and sees read()==0 (EOF)'',
       js ''10 cycles of ls | wc -l leak no frames'',
       js ''test_ring_wrap covers wrap-around correctly''],
    lesson_references = [\<lparr>reference_title = js ''labs/phase_6_shell/COURSE.en.md %u00a76.5'',
       reference_description = js ''[Required] Pipe chapter'',
       reference_url = js ''./labs/phase_6_shell/COURSE.en.md''\<rparr>,
      \<lparr>reference_title = js ''xv6-riscv book Ch. 9 Pipes'',
       reference_description = js ''[Required] Textbook-level pipe implementation'',
       reference_url = js ''https://pdos.csail.mit.edu/6.828/2023/xv6/book-riscv-rev3.pdf''\<rparr>,
      \<lparr>reference_title = js ''Linux fs/pipe.c'',
       reference_description = js ''[Deep dive] Industrial ring buffer + wake policy'',
       reference_url = js ''https://git.kernel.org/pub/scm/linux/kernel/git/torvalds/linux.git/tree/fs/pipe.c''\<rparr>,
      \<lparr>reference_title = js ''man 7 pipe'',
       reference_description = js ''[Reference] POSIX pipe atomic-write semantics (PIPE_BUF)'',
       reference_url = js ''https://man7.org/linux/man-pages/man7/pipe.7.html''\<rparr>]\<rparr>\<close>

section \<open>Lesson 4\<close>

definition phase6En_lesson4_section1 :: ContentSection where
  \<open>phase6En_lesson4_section1 = \<lparr>
    section_title = js ''Four-stage pipeline'',
    section_blocks = [DiagramBlock (jlines [''  raw line:  cat f | grep foo > out &'',
          ''              %u2502'',
          ''              %u25bc  tokenize (quote-aware)'',
          ''  tokens:    [cat] [f] [|] [grep] [foo] [>] [out] [&]'',
          ''              %u2502'',
          ''              %u25bc  split_by_pipe'',
          ''  groups:    [[cat][f]]   [[grep][foo][>][out][&]]'',
          ''              %u2502'',
          ''              %u25bc  extract_redirs + detect_background'',
          ''  pipeline:  Pipeline {'',
          ''               commands: ['',
          ''                 Command{argv:[cat,f]},'',
          ''                 Command{argv:[grep,foo], stdout:Some("out")}'',
          ''               ],'',
          ''               background: true'',
          ''             }'',
          ''              %u2502'',
          ''              %u25bc  execute'',
          ''  fork chain + dup2 + exec''])]\<rparr>\<close>

definition phase6En_lesson4_section2 :: ContentSection where
  \<open>phase6En_lesson4_section2 = \<lparr>
    section_title = js ''Tokenizer: quote-aware state machine'',
    section_blocks = [ParagraphBlock (jcat [''A naive split_whitespace chokes on echo "hello world" %u2014 it yields "hello and '',
          ''world" with quotes still attached. The fix is a three-state machine: Normal, '',
          ''InDoubleQuote, InSingleQuote.'']),
      CodeBlock (Some (js ''rust'')) (jlines [''// labs/phase_6_shell/src/user_shell.rs'',
          ''fn tokenize(line: &str) -> Vec<String> {'',
          ''    let mut out = Vec::new();'',
          ''    let mut cur = String::new();'',
          ''    let mut in_dq = false;'',
          ''    let mut in_sq = false;'',
          ''    for c in line.chars() {'',
          ''        match c {'',
          ''            '"'  if !in_sq => in_dq = !in_dq,'',
          ''            '%27' if !in_dq => in_sq = !in_sq,'',
          ''            c if c.is_whitespace() && !in_dq && !in_sq => {'',
          ''                if !cur.is_empty() { out.push(core::mem::take(&mut cur)); }'',
          ''            }'',
          ''            '|' | '<' | '>' | '&' if !in_dq && !in_sq => {'',
          ''                if !cur.is_empty() { out.push(core::mem::take(&mut cur)); }'',
          ''                // handle >> as a two-char token'',
          ''                if let Some(last) = out.last_mut() {'',
          ''                    if last == ">" && c == '>' { last.push('>'); continue; }'',
          ''                }'',
          ''                out.push(c.to_string());'',
          ''            }'',
          ''            _ => cur.push(c),'',
          ''        }'',
          ''    }'',
          ''    if !cur.is_empty() { out.push(cur); }'',
          ''    out'',
          ''}''])]\<rparr>\<close>

definition phase6En_lesson4_section3 :: ContentSection where
  \<open>phase6En_lesson4_section3 = \<lparr>
    section_title = js ''Pipe split + redir extraction'',
    section_blocks = [CodeBlock (Some (js ''rust'')) (jlines [''pub struct Command {'',
          ''    pub path: String,'',
          ''    pub args: Vec<String>,'',
          ''    pub stdin:   Option<String>,'',
          ''    pub stdout:  Option<String>,'',
          ''    pub append:  bool,'',
          ''}'',
          ''pub struct Pipeline { pub commands: Vec<Command>, pub background: bool }'',
          '''',
          ''fn parse(tokens: Vec<String>) -> Pipeline {'',
          ''    let mut bg = false;'',
          ''    let mut toks = tokens;'',
          ''    if toks.last().map(|s| s.as_str()) == Some("&") { bg = true; toks.pop(); }'',
          '''',
          ''    let mut commands = Vec::new();'',
          ''    for group in toks.split(|t| t == "|") {'',
          ''        let mut cmd = Command::default();'',
          ''        let mut i = 0;'',
          ''        while i < group.len() {'',
          ''            match group[i].as_str() {'',
          ''                "<"  => { cmd.stdin  = Some(group[i+1].clone()); i += 2; }'',
          ''                ">"  => { cmd.stdout = Some(group[i+1].clone()); cmd.append = false; i += 2; }'',
          ''                ">>" => { cmd.stdout = Some(group[i+1].clone()); cmd.append = true;  i += 2; }'',
          ''                _    => { cmd.args.push(group[i].clone()); i += 1; }'',
          ''            }'',
          ''        }'',
          ''        cmd.path = cmd.args[0].clone();'',
          ''        commands.push(cmd);'',
          ''    }'',
          ''    Pipeline { commands, background: bg }'',
          ''}'']),
      CalloutBlock Tip (jcat [''Split pipes first, extract redirs second, detect background third. The order '',
          ''matters: extracting redirs before splitting would swallow the | tokens between pipeline '',
          ''stages as regular args.''])]\<rparr>\<close>

definition phase6En_lesson4_section4 :: ContentSection where
  \<open>phase6En_lesson4_section4 = \<lparr>
    section_title = js ''Execute: n-1 pipes, n forks'',
    section_blocks = [CodeBlock (Some (js ''rust'')) (jlines [''fn execute(p: &Pipeline) {'',
          ''    let n = p.commands.len();'',
          ''    let mut pipes: Vec<(usize,usize)> = Vec::new();'',
          ''    for _ in 0..n-1 {'',
          ''        let mut fd = [0usize; 2];'',
          ''        sys_pipe(&mut fd);'',
          ''        pipes.push((fd[0], fd[1]));'',
          ''    }'',
          '''',
          ''    let mut children = Vec::new();'',
          ''    for i in 0..n {'',
          ''        let pid = sys_fork();'',
          ''        if pid == 0 {'',
          ''            // child: wire up pipes and redirections first'',
          ''            if i > 0       { sys_dup2(pipes[i-1].0, 0); }'',
          ''            if i < n-1     { sys_dup2(pipes[i].1,   1); }'',
          ''            // %u2605 both parent & child must close every pipe fd not in use'',
          ''            for (r, w) in &pipes { sys_close(%2ar); sys_close(%2aw); }'',
          ''            apply_redirections(&p.commands[i]);'',
          ''            sys_exec(&p.commands[i].path, &p.commands[i].args);'',
          ''            sys_exit(-1);'',
          ''        } else { children.push(pid); }'',
          ''    }'',
          ''    // %u2605%u2605 critical: parent must close all pipe fds NOW'',
          ''    for (r, w) in pipes { sys_close(r); sys_close(w); }'',
          '''',
          ''    if !p.background {'',
          ''        for pid in children { let mut code = 0; sys_waitpid(pid, &mut code); }'',
          ''    }'',
          ''}'']),
      CalloutBlock Warning (jcat [''The all-time classic Phase 6 bug: the parent forgets to close its pipe fds. One '',
          ''dangling write-end Arc keeps EOF from ever arriving, and wc -l hangs forever. After '',
          ''writing execute, run ls | wc -l first; if it hangs, it's 100%25 a missing close.''])]\<rparr>\<close>

definition phase6En_lesson4_exercise1 :: CodeExercise where
  \<open>phase6En_lesson4_exercise1 = \<lparr>
    exercise_id = js ''lab4-tokenize'',
    exercise_title = js ''Lab 4a %u2b50%u2b50 tokenize + parse'',
    exercise_description = jcat [''Implement quote-aware tokenize, pipe splitting, redirection extraction, background '',
        ''detection. Table-drive 20 test cases.''],
    exercise_labFile = Some (js ''labs/phase_6_shell/src/user_shell.rs''),
    exercise_hints = [js ''Keep tokenize and parse as two separate passes'',
       js ''"hello world" preserves the space and keeps | < > literal'',
       js ''>> must be a single token; easiest approach is merging adjacent > in tokenize'',
       js ''Test: echo "a|b" should yield one token a|b''],
    exercise_pseudocode = None\<rparr>\<close>

definition phase6En_lesson4_exercise2 :: CodeExercise where
  \<open>phase6En_lesson4_exercise2 = \<lparr>
    exercise_id = js ''lab4-execute'',
    exercise_title = js ''Lab 4b %r032b50 execute pipelines'',
    exercise_description = jcat [''Fork n children, chain them with dup2, focus on closing pipe fds in both parent and '',
        ''children.''],
    exercise_labFile = Some (js ''labs/phase_6_shell/src/user_shell.rs''),
    exercise_hints = [js ''Open all pipes before the fork loop'',
       js ''Children: after dup2, iterate pipes[] and close every fd'',
       js ''%u2605 Parent: immediately after the fork loop, close all pipe fds'',
       js ''Background task: skip waitpid and let init reap''],
    exercise_pseudocode = Some (jlines [''fn execute(pipeline):'',
          ''    pipes = for _ in 0..n-1: sys_pipe()'',
          ''    for i in 0..n:'',
          ''        pid = fork()'',
          ''        if pid == 0:                  # child'',
          ''            if i > 0:   dup2(pipes[i-1].read, 0)'',
          ''            if i < n-1: dup2(pipes[i].write,  1)'',
          ''            for (r, w) in pipes: close(r); close(w)'',
          ''            apply_redirections(commands[i])'',
          ''            exec(commands[i])'',
          ''    for (r, w) in pipes: close(r); close(w)     # %u2605 parent cleanup'',
          ''    if !background: waitpid all children''])\<rparr>\<close>

definition phase6En_lesson4 :: Lesson where
  \<open>phase6En_lesson4 = \<lparr>
    lesson_phaseId = 6, lesson_lessonId = 4,
    lesson_title = js ''Shell line parsing: bytes to a pipeline plan'',
    lesson_subtitle = js ''Tokenization, pipe splitting, redir extraction, background &'',
    lesson_type = js ''Concept + Practice'',
    lesson_duration = js ''1.5 hours'',
    lesson_objectives = [js ''Implement a quote-aware tokenizer'',
       js ''Split the token list into Command groups on |'',
       js ''Extract < > >> out of argv, leaving clean arguments'',
       js ''Detect trailing & as background marker''],
    lesson_sections = [phase6En_lesson4_section1,
      phase6En_lesson4_section2,
      phase6En_lesson4_section3,
      phase6En_lesson4_section4],
    lesson_exercises = [phase6En_lesson4_exercise1, phase6En_lesson4_exercise2],
    lesson_acceptanceCriteria = [js ''echo "a|b|c" prints a|b|c (no pipe split)'',
       js ''ls | grep rs | wc -l returns the right line count, never hangs'',
       js ''cat file > out 2> err splits stdout/stderr (optional extension)'',
       js ''sleep 5 & returns the prompt immediately''],
    lesson_references = [\<lparr>reference_title = js ''labs/phase_6_shell/COURSE.en.md %u00a76.6'',
       reference_description = js ''[Required] Shell-parsing chapter'',
       reference_url = js ''./labs/phase_6_shell/COURSE.en.md''\<rparr>,
      \<lparr>reference_title = js ''Bash source execute_cmd.c'',
       reference_description = js ''[Deep dive] The real shell's execute_pipeline'',
       reference_url = js ''https://git.savannah.gnu.org/cgit/bash.git/tree/execute_cmd.c''\<rparr>,
      \<lparr>reference_title = js ''The Unix Programming Environment Ch. 3'',
       reference_description = js ''[Deep dive] Kernighan & Pike on shell semantics'',
       reference_url = js ''https://archive.org/details/UnixProgrammingEnvironment''\<rparr>,
      \<lparr>reference_title = js ''xv6 sh.c'',
       reference_description = js ''[Reference] 300-line minimal shell, great read'',
       reference_url = js ''https://github.com/mit-pdos/xv6-riscv/blob/riscv/user/sh.c''\<rparr>]\<rparr>\<close>

section \<open>Lesson 5\<close>

definition phase6En_lesson5_section1 :: ContentSection where
  \<open>phase6En_lesson5_section1 = \<lparr>
    section_title = js ''init's eternal loop'',
    section_blocks = [ParagraphBlock (jcat [''kernel main ends with one thing: add_initproc() %u2014 put /bin/init as pid 0 into '',
          ''the ready queue. init's source is 20 lines, but it's the guardian of the whole '',
          ''system.'']),
      CodeBlock (Some (js ''rust'')) (jlines [''// labs/phase_6_shell/user/src/bin/init.rs'',
          ''#![no_std] #![no_main]'',
          '''',
          ''#[no_mangle]'',
          ''fn main() -> i32 {'',
          ''    if fork() == 0 {'',
          ''        exec("/bin/sh%5c0", &["sh%5c0"]);          // child: become shell'',
          ''    } else {'',
          ''        loop {'',
          ''            let mut exit_code = 0;'',
          ''            let pid = waitpid(-1, &mut exit_code);'',
          ''            if pid == -1 { yield_(); continue; } // no zombies yet'',
          ''            println!("[init] pid {} exited with {}", pid, exit_code);'',
          ''        }'',
          ''    }'',
          ''    0'',
          ''}'']),
      CalloutBlock Info (jcat [''These 20 lines close the entire process-lifecycle loop of the OS: every orphan '',
          ''eventually reparents here, every zombie eventually gets harvested by this waitpid(-1). '',
          ''Without it, memory is exhausted eventually.''])]\<rparr>\<close>

definition phase6En_lesson5_section2 :: ContentSection where
  \<open>phase6En_lesson5_section2 = \<lparr>
    section_title = js ''Birth of the process tree'',
    section_blocks = [DiagramBlock (jlines [''  Boot sequence:'',
          '''',
          ''  t0  kernel: add_initproc()'',
          ''  t1  scheduler: picks init, __restore'',
          ''  t2  init: fork()'',
          ''  t3  scheduler: parent continues, child queued'',
          ''  t4  init(parent): enter waitpid loop'',
          ''  t5  init(child):  exec("/bin/sh")'',
          ''  t6  sh: prints "$ ", read_line'',
          ''  t7  user types: ls | wc -l'',
          ''  t8  sh: parse + execute'',
          ''        %u251c%u2500 fork cat (pid 3)'',
          ''        %u251c%u2500 fork grep (pid 4)'',
          ''        %u2514%u2500 fork wc   (pid 5)'',
          ''  t9  pipeline done, waitpid reaps 3/4/5'',
          ''  t10 sh: next prompt'',
          '''',
          ''  Final tree:'',
          '''',
          ''      init (0)'',
          ''       %u2514%u2500%u2500 sh (1)'',
          ''            %u251c%u2500%u2500 ls  (2, transient)'',
          ''            %u251c%u2500%u2500 cat (3, transient)'',
          ''            %u2514%u2500%u2500 ...''])]\<rparr>\<close>

definition phase6En_lesson5_section3 :: ContentSection where
  \<open>phase6En_lesson5_section3 = \<lparr>
    section_title = js ''Eight coreutils'',
    section_blocks = [TableBlock [js ''Program'',
         js ''Function'',
         js ''Key syscalls'',
         js ''Approx LOC'']
        [[js ''ls [path]'',
          js ''list dir'',
          js ''open + readdir + close'',
          js ''~60''],
         [js ''cat FILE...'',
          js ''concat + print'',
          js ''open + read + write'',
          js ''~40''],
         [js ''echo ARGS'',
          js ''print args'',
          js ''write'',
          js ''~15''],
         [js ''mkdir DIR'',
          js ''create dir'',
          js ''sys_mkdir'',
          js ''~20''],
         [js ''rm FILE'',
          js ''remove'',
          js ''sys_unlink'',
          js ''~20''],
         [js ''ps'',
          js ''process list'',
          js ''sys_ps (new syscall)'',
          js ''~30''],
         [js ''kill PID SIG'',
          js ''send signal'',
          js ''sys_kill'',
          js ''~25''],
         [js ''wc [-l]'',
          js ''count lines/words'',
          js ''read (to EOF)'',
          js ''~50'']],
      CodeBlock (Some (js ''rust'')) (jlines [''// user/src/bin/cat.rs %u2014 the shortest coreutil, already walks the whole stack'',
          ''#![no_std] #![no_main]'',
          ''use user_lib::{open, read, write, OpenFlags};'',
          '''',
          ''#[no_mangle]'',
          ''fn main(argc: usize, argv: &[&str]) -> i32 {'',
          ''    for path in &argv[1..] {'',
          ''        let fd = open(path, OpenFlags::RDONLY);'',
          ''        if fd < 0 { println!("cat: {}: No such file", path); continue; }'',
          ''        let mut buf = [0u8; 512];'',
          ''        loop {'',
          ''            let n = read(fd as usize, &mut buf);'',
          ''            if n <= 0 { break; }                 // %u2605 EOF (file or pipe)'',
          ''            write(1, &buf[..n as usize]);'',
          ''        }'',
          ''        close(fd as usize);'',
          ''    }'',
          ''    0'',
          ''}'']),
      CalloutBlock Tip (jcat [''cat doesn't distinguish "file" from "pipe" %u2014 it just sees read(fd, buf) return '',
          ''0 and exits. This is Unix's "everything is a file" abstraction at its finest: cat '',
          ''file and cat | grep foo share the exact same code path.''])]\<rparr>\<close>

definition phase6En_lesson5_section4 :: ContentSection where
  \<open>phase6En_lesson5_section4 = \<lparr>
    section_title = js ''The make qemu deliverable'',
    section_blocks = [CodeBlock (Some (js ''text'')) (jlines [''$ make qemu'',
          ''[kernel] boot, paging enabled, heap initialized'',
          ''[kernel] init process pid=0 loaded'',
          ''[init] forking /bin/sh'',
          ''$ ls'',
          ''README.md   COURSE.md   src'',
          ''$ cat README.md | wc -l'',
          ''42'',
          ''$ ps'',
          ''PID  PPID  STATE  NAME'',
          ''0    -     R      init'',
          ''1    0     R      sh'',
          ''$ echo "built an OS from scratch" > out.txt'',
          ''$ cat out.txt'',
          ''built an OS from scratch'',
          ''$ kill 1 9'',
          ''[init] pid 1 exited with -9'',
          ''[init] forking /bin/sh     # init should restart sh; exercise'',
          ''$ '']),
      CalloutBlock Quote (jcat [''You have built an operating system. Six phases, about 8000 lines of Rust %u2014 '',
          ''every line written by you. After your next make qemu, write it down: 2026/04/15, my OS '',
          ''said hi.''])]\<rparr>\<close>

definition phase6En_lesson5_section5 :: ContentSection where
  \<open>phase6En_lesson5_section5 = \<lparr>
    section_title = js ''Common mistakes, consolidated'',
    section_blocks = [TableBlock [js ''Symptom'',
         js ''Root cause'',
         js ''Fix'']
        [[js ''ls | wc -l hangs'',
          js ''Parent forgot to close pipe fds'',
          js ''close all pipes at end of execute()''],
         [js ''echo "a b" prints "a" "b"'',
          js ''Tokenizer doesn't know quotes'',
          js ''add three-state machine''],
         [js ''Zombies pile up'',
          js ''init not looping on waitpid'',
          js ''while-loop reaper in init''],
         [js ''fd's lost after exec'',
          js ''exec reset the fd_table'',
          js ''exec swaps memory_set only''],
         [js ''fork bomb'',
          js ''Forgot child's a0 = 0'',
          js ''trap_cx.x[10] = 0''],
         [js ''sys_open fails repeatedly'',
          js ''waitpid didn't clear fd_table'',
          js ''Explicitly clear on reap'']]]\<rparr>\<close>

definition phase6En_lesson5_exercise1 :: CodeExercise where
  \<open>phase6En_lesson5_exercise1 = \<lparr>
    exercise_id = js ''lab5-init'',
    exercise_title = js ''Lab 5a %u2b50%u2b50 /bin/init'',
    exercise_description = js ''Write init.rs: fork sh, parent loops on waitpid(-1). Drop it in user/src/bin.'',
    exercise_labFile = Some (js ''labs/phase_6_shell/user/src/bin/init.rs''),
    exercise_hints = [js ''exec paths must be NUL-terminated (C-string convention)'',
       js ''waitpid returning -1 means no zombie right now %u2014 sys_yield and retry'',
       js ''Stretch: automatically restart sh when it exits (pid always 1)''],
    exercise_pseudocode = None\<rparr>\<close>

definition phase6En_lesson5_exercise2 :: CodeExercise where
  \<open>phase6En_lesson5_exercise2 = \<lparr>
    exercise_id = js ''lab5-coreutils'',
    exercise_title = js ''Lab 5b %r032b50 eight coreutils'',
    exercise_description = jcat [''Under user/src/bin, one file each: ls, cat, echo, mkdir, rm, ps, kill, wc. Each '',
        ''under 80 lines.''],
    exercise_labFile = Some (js ''labs/phase_6_shell/user/src/bin/''),
    exercise_hints = [js ''argv arrives via main(argc, argv) %u2014 user_lib handles the ABI'',
       js ''ls needs sys_readdir or stat-based construction'',
       js ''ps needs a new kernel syscall sys_ps(buf, len) or sys_listpid'',
       js ''wc treats read()==0 as EOF %u2014 don't inspect bytes''],
    exercise_pseudocode = None\<rparr>\<close>

definition phase6En_lesson5_exercise3 :: CodeExercise where
  \<open>phase6En_lesson5_exercise3 = \<lparr>
    exercise_id = js ''lab5-integration'',
    exercise_title = js ''Lab 5c %r042b50 full integration'',
    exercise_description = jcat [''After make qemu, run cat COURSE.md | grep Lab | wc -l and see a correct number. Run '',
        ''grade.py for a full score.''],
    exercise_labFile = Some (js ''labs/phase_6_shell/''),
    exercise_hints = [js ''Stuck? COURSE.en.md "Common Mistakes" is indexed by symptom'',
       js ''Exit QEMU with Ctrl-A X'',
       js ''Run 1000 ls | wc -l cycles as a leak test''],
    exercise_pseudocode = None\<rparr>\<close>

definition phase6En_lesson5 :: Lesson where
  \<open>phase6En_lesson5 = \<lparr>
    lesson_phaseId = 6, lesson_lessonId = 5,
    lesson_title = js ''coreutils + init bootstrap: the 8000-line Unix dream'',
    lesson_subtitle = js ''/bin/init %u2192 /bin/sh %u2192 ls | wc -l'',
    lesson_type = js ''Integration'',
    lesson_duration = js ''2-3 hours'',
    lesson_objectives = [js ''Write init: fork /bin/sh and loop reaping orphans forever'',
       js ''Build ls / cat / echo / mkdir / rm / ps / kill %u2014 eight coreutils'',
       js ''Understand how user programs reach fs/pipe/task subsystems via syscall'',
       js ''Feel "an OS is the path from _start to the shell prompt"''],
    lesson_sections = [phase6En_lesson5_section1,
      phase6En_lesson5_section2,
      phase6En_lesson5_section3,
      phase6En_lesson5_section4,
      phase6En_lesson5_section5],
    lesson_exercises = [phase6En_lesson5_exercise1, phase6En_lesson5_exercise2, phase6En_lesson5_exercise3],
    lesson_acceptanceCriteria = [js ''make qemu boots and sh shows the prompt'',
       js ''ls, cat, echo, mkdir, rm, ps, kill, wc all usable'',
       js ''cat X | grep Y | wc -l chains correctly and exits cleanly'',
       js ''scripts/grade.py reports a full score'',
       js ''One hour of random command streams shows no memory leak''],
    lesson_references = [\<lparr>reference_title = js ''labs/phase_6_shell/COURSE.en.md %u00a76.7-6.8'',
       reference_description = js ''[Required] Integration chapter + outlook + full common-mistakes table'',
       reference_url = js ''./labs/phase_6_shell/COURSE.en.md''\<rparr>,
      \<lparr>reference_title = js ''xv6-riscv user/init.c + user/sh.c'',
       reference_description = js ''[Required] Reference C implementation, 200 lines cover the entire bootstrap'',
       reference_url = js ''https://github.com/mit-pdos/xv6-riscv/tree/riscv/user''\<rparr>,
      \<lparr>reference_title = js ''GNU coreutils source'',
       reference_description = js ''[Deep dive] Industrial-grade %u2014 note you can skip ls's 20 options'',
       reference_url = js ''https://www.gnu.org/software/coreutils/''\<rparr>,
      \<lparr>reference_title = js ''Lions' Commentary on UNIX 6th Edition'',
       reference_description = js ''[Deep dive] One book covering the entire Unix V6 kernel source'',
       reference_url = js ''https://warsus.github.io/lions-/''\<rparr>]\<rparr>\<close>

section \<open>The phase\<close>

definition phase6En :: PhaseContent where
  \<open>phase6En = \<lparr>
    content_phaseId = 6,
    content_color = js ''#DB2777'',
    content_accent = js ''#F472B6'',
    content_lessons = [phase6En_lesson1, phase6En_lesson2, phase6En_lesson3, phase6En_lesson4, phase6En_lesson5]\<rparr>\<close>

section \<open>Well-formedness\<close>

lemma phase6En_lesson1_ok: "lesson_ok phase6En_lesson1"
  by (simp add: lesson_ok_def section_ok_def phase6En_lesson1_def
      phase6En_lesson1_section1_def
      phase6En_lesson1_section2_def
      phase6En_lesson1_section3_def
      phase6En_lesson1_section4_def
      phase6En_lesson1_exercise1_def
      phase6En_lesson1_exercise2_def
      phase6En_lesson1_exercise3_def)

lemma phase6En_lesson2_ok: "lesson_ok phase6En_lesson2"
  by (simp add: lesson_ok_def section_ok_def phase6En_lesson2_def
      phase6En_lesson2_section1_def
      phase6En_lesson2_section2_def
      phase6En_lesson2_section3_def
      phase6En_lesson2_exercise1_def
      phase6En_lesson2_exercise2_def)

lemma phase6En_lesson3_ok: "lesson_ok phase6En_lesson3"
  by (simp add: lesson_ok_def section_ok_def phase6En_lesson3_def
      phase6En_lesson3_section1_def
      phase6En_lesson3_section2_def
      phase6En_lesson3_section3_def
      phase6En_lesson3_section4_def
      phase6En_lesson3_exercise1_def
      phase6En_lesson3_exercise2_def)

lemma phase6En_lesson4_ok: "lesson_ok phase6En_lesson4"
  by (simp add: lesson_ok_def section_ok_def phase6En_lesson4_def
      phase6En_lesson4_section1_def
      phase6En_lesson4_section2_def
      phase6En_lesson4_section3_def
      phase6En_lesson4_section4_def
      phase6En_lesson4_exercise1_def
      phase6En_lesson4_exercise2_def)

lemma phase6En_lesson5_ok: "lesson_ok phase6En_lesson5"
  by (simp add: lesson_ok_def section_ok_def phase6En_lesson5_def
      phase6En_lesson5_section1_def
      phase6En_lesson5_section2_def
      phase6En_lesson5_section3_def
      phase6En_lesson5_section4_def
      phase6En_lesson5_section5_def
      phase6En_lesson5_exercise1_def
      phase6En_lesson5_exercise2_def
      phase6En_lesson5_exercise3_def)

lemma phase6En_lesson1_ids: "lesson_phaseId phase6En_lesson1 = 6" "lesson_lessonId phase6En_lesson1 = 1"
  by (simp_all add: phase6En_lesson1_def)

lemma phase6En_lesson2_ids: "lesson_phaseId phase6En_lesson2 = 6" "lesson_lessonId phase6En_lesson2 = 2"
  by (simp_all add: phase6En_lesson2_def)

lemma phase6En_lesson3_ids: "lesson_phaseId phase6En_lesson3 = 6" "lesson_lessonId phase6En_lesson3 = 3"
  by (simp_all add: phase6En_lesson3_def)

lemma phase6En_lesson4_ids: "lesson_phaseId phase6En_lesson4 = 6" "lesson_lessonId phase6En_lesson4 = 4"
  by (simp_all add: phase6En_lesson4_def)

lemma phase6En_lesson5_ids: "lesson_phaseId phase6En_lesson5 = 6" "lesson_lessonId phase6En_lesson5 = 5"
  by (simp_all add: phase6En_lesson5_def)

lemma phase6En_shape [site_shape]:
  "content_phaseId phase6En = 6" "length (content_lessons phase6En) = 5"
  by (simp_all add: phase6En_def)

lemma phase6En_ok [site_shape]: "content_ok phase6En"
  by (simp add: content_ok_def phase6En_def upt_rec
      phase6En_lesson1_ok phase6En_lesson2_ok phase6En_lesson3_ok phase6En_lesson4_ok phase6En_lesson5_ok
      phase6En_lesson1_ids phase6En_lesson2_ids phase6En_lesson3_ids phase6En_lesson4_ids phase6En_lesson5_ids)

end
