(* ===== verification/Content_Index.thy ===== *)
theory Content_Index
  imports Localized
    Phase0_ZhCN Phase0_En
    Phase1_ZhCN Phase1_En
    Phase2_ZhCN Phase2_En
    Phase3_ZhCN Phase3_En
    Phase4_ZhCN Phase4_En
    Phase5_ZhCN Phase5_En
    Phase6_ZhCN Phase6_En
begin

text \<open>
  \<open>website/src/data/index.ts\<close>: the content table by locale and phase number, and the three functions
  through which the pages read it. \<open>undefined\<close> is \<open>None\<close>. Theorems: the table's lookup is a
  translated table (interpretation \<open>content\<close>), a lesson is found exactly when its numbers name one,
  the lesson found is the one at its position, and all shipped content is well formed.
\<close>

section \<open>The table and its readers\<close>

definition phases_zhCN :: "(nat \<times> PhaseContent) list" where
  "phases_zhCN = [(0, phase0ZhCN), (1, phase1ZhCN), (2, phase2ZhCN), (3, phase3ZhCN),
     (4, phase4ZhCN), (5, phase5ZhCN), (6, phase6ZhCN)]"

definition phases_en :: "(nat \<times> PhaseContent) list" where
  "phases_en = [(0, phase0En), (1, phase1En), (2, phase2En), (3, phase3En),
     (4, phase4En), (5, phase5En), (6, phase6En)]"

definition PHASE_CONTENT :: "(nat \<times> PhaseContent) list obj" where
  "PHASE_CONTENT = [(zh_CN, phases_zhCN), (zh_TW, phases_zhCN), (en_locale, phases_en)]"

definition getPhaseContent :: "jsnum \<Rightarrow> jstring \<Rightarrow> PhaseContent option" where
  "getPhaseContent phaseId locale =
     nullish (opt_member (prop_get PHASE_CONTENT locale) (\<lambda>ps. num_get ps phaseId))
             (opt_member (prop_get PHASE_CONTENT zh_CN) (\<lambda>ps. num_get ps phaseId))"

definition getLesson :: "jsnum \<Rightarrow> jsnum \<Rightarrow> jstring \<Rightarrow> Lesson option" where
  "getLesson phaseId lessonId locale = Option.bind (getPhaseContent phaseId locale)
     (\<lambda>phase. List.find (\<lambda>l. num_eq (num_of (lesson_lessonId l)) lessonId) (content_lessons phase))"

definition hasLessons :: "jsnum \<Rightarrow> bool" where
  "hasLessons phaseId \<longleftrightarrow>
     opt_member (prop_get PHASE_CONTENT zh_CN) (\<lambda>ps. num_get ps phaseId) \<noteq> None"

section \<open>Shape of the table\<close>

text \<open>The number of lessons of each phase.\<close>

definition syllabus :: "nat list" where
  "syllabus = [1, 5, 5, 4, 5, 5, 5]"

definition names_lesson :: "nat \<Rightarrow> nat \<Rightarrow> bool" where
  "names_lesson p l \<longleftrightarrow> p < length syllabus \<and> 1 \<le> l \<and> l \<le> syllabus ! p"

lemma length_syllabus [simp]: "length syllabus = 7"
  by (simp add: syllabus_def)

lemma phases_content:
  "(n, p) \<in> set phases_zhCN \<union> set phases_en \<Longrightarrow>
     content_ok p \<and> content_phaseId p = n \<and> n < 7 \<and> length (content_lessons p) = syllabus ! n"
  by (auto simp: phases_zhCN_def phases_en_def syllabus_def site_shape)

lemma phases_keys: "map fst phases_zhCN = [0..<7]" "map fst phases_en = [0..<7]"
  by (simp_all add: phases_zhCN_def phases_en_def upt_rec)

lemma PHASE_CONTENT_locale:
  "map_of PHASE_CONTENT l = (if l = zh_CN \<or> l = zh_TW then Some phases_zhCN
     else if l = en_locale then Some phases_en else None)"
  by (simp add: PHASE_CONTENT_def)

text \<open>The interface: the content is a translated table with the phase numbers as its keys.\<close>

abbreviation content_table :: "jstring \<Rightarrow> jsnum \<Rightarrow> PhaseContent option" where
  "content_table l k \<equiv> opt_member (prop_get PHASE_CONTENT l) (\<lambda>ps. num_get ps k)"

lemma num_get_phases:
  "num_get phases_zhCN k \<noteq> None \<longleftrightarrow> k \<in> num_of ` {..<7}"
  "num_get phases_en k \<noteq> None \<longleftrightarrow> k \<in> num_of ` {..<7}"
  unfolding num_get_keys set_map [symmetric] phases_keys by (simp_all add: atLeast0LessThan)

interpretation content: translated content_table zh_CN "\<lambda>l k. getPhaseContent k l" Locale
  "num_of ` {..<7}" "\<lambda>_. True"
proof unfold_locales
  fix l k
  show "getPhaseContent k l = nullish (content_table l k) (content_table zh_CN k)"
    by (simp add: getPhaseContent_def)
  show "l \<in> Locale \<Longrightarrow> content_table l k \<noteq> None \<longleftrightarrow> k \<in> num_of ` {..<7}"
    by (auto simp: opt_member_map_of PHASE_CONTENT_locale Locale_def num_get_phases simp del: not_None_eq)
  show "zh_CN \<in> Locale" by (simp add: Locale_def)
  show "l \<notin> Locale \<Longrightarrow> content_table l k = None"
    by (simp add: opt_member_map_of PHASE_CONTENT_locale Locale_def)
qed

section \<open>What the readers return\<close>

lemma getPhaseContent_cases:
  assumes "getPhaseContent k l = Some p"
  obtains n where "k = num_of n" "n < 7" "(n, p) \<in> set phases_zhCN \<union> set phases_en"
proof -
  have "content_table l k = Some p \<or> content_table zh_CN k = Some p"
    using content.get_source [OF assms] by blast
  then have "num_get phases_zhCN k = Some p \<or> num_get phases_en k = Some p"
    by (auto simp: opt_member_map_of PHASE_CONTENT_locale split: if_splits)
  then obtain n where n: "k = num_of n" "map_of phases_zhCN n = Some p \<or> map_of phases_en n = Some p"
    by (blast dest: num_get_Some)
  then have "(n, p) \<in> set phases_zhCN \<union> set phases_en" by (auto dest: map_of_SomeD)
  with n(1) phases_content [of n p] show thesis using that by blast
qed

lemma getPhaseContent_ok:
  assumes "getPhaseContent k l = Some p"
  shows "k = num_of (content_phaseId p)" "content_ok p" "content_phaseId p < 7"
    "length (content_lessons p) = syllabus ! content_phaseId p"
  using getPhaseContent_cases [OF assms] phases_content by metis+

lemma find_lesson:
  assumes "content_ok p"
  shows "List.find (\<lambda>l. num_eq (num_of (lesson_lessonId l)) (num_of n)) (content_lessons p) =
    (if 1 \<le> n \<and> n \<le> length (content_lessons p) then Some (content_lessons p ! (n - 1)) else None)"
proof -
  let ?ls = "content_lessons p"
  have ids: "map lesson_lessonId ?ls = [1..<Suc (length ?ls)]"
    using assms by (simp add: content_ok_def)
  have eq: "(\<lambda>l. num_eq (num_of (lesson_lessonId l)) (num_of n)) = (\<lambda>l. lesson_lessonId l = n)"
    by (simp only: num_eq_nat)
  show ?thesis
  proof (cases "1 \<le> n \<and> n \<le> length ?ls")
    case True
    then obtain j where j: "n = Suc j" "j < length ?ls" by (cases n) auto
    show ?thesis using find_upt_nth [OF ids j(2)] True by (simp only: eq j) simp
  next
    case False
    then have "n = 0 \<or> length ?ls < n" by auto
    show ?thesis using find_upt_None [OF ids \<open>n = 0 \<or> length ?ls < n\<close>] False by (simp only: eq) simp
  qed
qed

lemma find_lesson_Some:
  assumes "content_ok p"
    and "List.find (\<lambda>l. num_eq (num_of (lesson_lessonId l)) k) (content_lessons p) = Some l"
  obtains n where "k = num_of n" "1 \<le> n" "n \<le> length (content_lessons p)"
    "l = content_lessons p ! (n - 1)" "lesson_lessonId l = n"
proof -
  have "num_eq (num_of (lesson_lessonId l)) k" using find_Some_set [OF assms(2)] by simp
  then have k: "k = num_of (lesson_lessonId l)" by (simp only: num_eq_iff)
  show thesis using assms(2) unfolding k find_lesson [OF assms(1)]
    by (intro that [OF k]) (auto split: if_splits)
qed

text \<open>A lesson is found exactly when the two numbers name one, whatever the locale.\<close>

lemma getLesson_nat:
  "getLesson (num_of p) (num_of l) loc =
     (if names_lesson p l
      then map_option (\<lambda>c. content_lessons c ! (l - 1)) (getPhaseContent (num_of p) loc) else None)"
proof (cases "getPhaseContent (num_of p) loc")
  case None
  then have "num_of p \<notin> num_of ` {..<7}" using content.get_iff_keys [of "num_of p" loc] by simp
  then have "\<not> names_lesson p l" by (auto simp: names_lesson_def)
  with None show ?thesis by (simp add: getLesson_def)
next
  case (Some c)
  from getPhaseContent_ok [OF Some] have c: "content_ok c" "p = content_phaseId c" "p < 7"
    "length (content_lessons c) = syllabus ! p" by auto
  show ?thesis
    unfolding getLesson_def Some bind.bind_lunit find_lesson [OF c(1)]
    using c(3,4) by (simp add: names_lesson_def)
qed

lemma getLesson_Some:
  assumes "getLesson k j loc = Some l"
  obtains c where "getPhaseContent k loc = Some c" "content_ok c"
    "k = num_of (lesson_phaseId l)" "j = num_of (lesson_lessonId l)"
    "names_lesson (lesson_phaseId l) (lesson_lessonId l)" "lesson_ok l"
    "l = content_lessons c ! (lesson_lessonId l - 1)" "content_phaseId c = lesson_phaseId l"
proof -
  from assms obtain c where c: "getPhaseContent k loc = Some c"
    and f: "List.find (\<lambda>l. num_eq (num_of (lesson_lessonId l)) j) (content_lessons c) = Some l"
    by (auto simp: getLesson_def bind_eq_Some_conv)
  note ok = getPhaseContent_ok [OF c]
  obtain n where n: "j = num_of n" "1 \<le> n" "n \<le> length (content_lessons c)"
    "l = content_lessons c ! (n - 1)" "lesson_lessonId l = n"
    by (rule find_lesson_Some [OF ok(2) f])
  have "l \<in> set (content_lessons c)" using find_Some_set [OF f] by simp
  then have l: "lesson_phaseId l = content_phaseId c" "lesson_ok l"
    using ok(2) by (auto simp: content_ok_def list_all_iff)
  show thesis
    by (rule that [OF c]) (use ok n l in \<open>simp_all add: names_lesson_def\<close>)
qed

lemma getLesson_iff:
  "getLesson k j loc \<noteq> None \<longleftrightarrow> (\<exists>p l. k = num_of p \<and> j = num_of l \<and> names_lesson p l)"
proof
  assume "getLesson k j loc \<noteq> None"
  then show "\<exists>p l. k = num_of p \<and> j = num_of l \<and> names_lesson p l"
    by (auto elim: getLesson_Some)
next
  assume "\<exists>p l. k = num_of p \<and> j = num_of l \<and> names_lesson p l"
  then obtain p l where pl: "k = num_of p" "j = num_of l" "names_lesson p l" by blast
  have "getPhaseContent (num_of p) loc \<noteq> None"
    using content.get_iff_keys [of "num_of p" loc] pl(3) by (simp add: names_lesson_def)
  with pl show "getLesson k j loc \<noteq> None" by (auto simp: getLesson_nat)
qed

lemma hasLessons_iff: "hasLessons k \<longleftrightarrow> k \<in> num_of ` {..<7}"
  using content.supported_keys [OF content.fallback_supported] by (simp add: hasLessons_def)

lemma names_lesson_small: "names_lesson p l \<Longrightarrow> p < 7 \<and> 1 \<le> l \<and> l \<le> 5"
  by (auto simp: names_lesson_def syllabus_def nth_Cons split: nat.splits)

lemma names_Number:
  assumes "names_lesson p l"
  shows "Number (nat_str p) = num_of p" "Number (nat_str l) = num_of l"
  using names_lesson_small [OF assms] by (simp_all add: Number_small)

lemma found_lesson:
  assumes "names_lesson p l"
  obtains c le where "getPhaseContent (num_of p) loc = Some c" "le = content_lessons c ! (l - 1)"
    "lesson_phaseId le = p" "lesson_lessonId le = l" "lesson_ok le"
    "getLesson (num_of p) (num_of l) loc = Some le" "l - 1 < length (content_lessons c)"
    "length (content_lessons c) = syllabus ! p" "content_ok c"
proof -
  have "getLesson (num_of p) (num_of l) loc \<noteq> None" using assms getLesson_iff by blast
  then obtain le where le: "getLesson (num_of p) (num_of l) loc = Some le" by blast
  then obtain c where c: "getPhaseContent (num_of p) loc = Some c" "content_ok c"
    "num_of p = num_of (lesson_phaseId le)" "num_of l = num_of (lesson_lessonId le)"
    "lesson_ok le" "le = content_lessons c ! (lesson_lessonId le - 1)" "content_phaseId c = lesson_phaseId le"
    by (rule getLesson_Some)
  then have "length (content_lessons c) = syllabus ! p" using getPhaseContent_ok(4) [OF c(1)] by simp
  with c le assms show thesis by (intro that [of c le]) (auto simp: names_lesson_def)
qed

lemma content_by_locale:
  "getPhaseContent (num_of p) loc = map_of (if loc = en_locale then phases_en else phases_zhCN) p"
proof (cases "loc = en_locale")
  case True
  then show ?thesis
    using content.get_own_language [of loc "num_of p"]
    by (simp add: Locale_def opt_member_map_of PHASE_CONTENT_locale)
next
  case False
  then show ?thesis
    by (simp add: getPhaseContent_def opt_member_map_of PHASE_CONTENT_locale split: option.splits)
      (auto simp: nullish_def split: option.splits)
qed

end
