(* ===== verification/Lesson_Page.thy ===== *)
theory Lesson_Page
  imports Vdom I18n Content_Index
begin

text \<open>
  \<open>website/src/pages/LessonPage.tsx\<close>: the page of one lesson. \<open>LessonPage\<close> is the component's render
  function, from the locale of the context, the two route parameters and the values of its three state
  hooks to the element tree; its parts are definitions of their own, in the order of the source. The
  message function is passed as \<open>tr\<close>. The handlers and the effect are the functions on
  \<open>lesson_state\<close>.
\<close>

section \<open>Style constants\<close>

definition codeBlockStyle :: "style" where
  \<open>codeBlockStyle =
    [(''fontSize'', CssNum 12), (''lineHeight'', CssNum (16 / 10)),
       (''color'', CssStr (js ''#D4D4D8'')), (''background'', CssStr (js ''rgba(0,0,0,0.4)'')),
       (''border'', CssStr (js ''1px solid rgba(228,228,231,0.08)'')),
       (''borderRadius'', CssNum 8), (''padding'', CssStr (js ''14px 18px'')),
       (''overflowX'', CssStr (js ''auto'')),
       (''fontFamily'', CssStr (js ''%27JetBrains Mono', 'SF Mono', 'Fira Code', monospace'')),
       (''whiteSpace'', CssStr (js ''pre''))]\<close>

definition toggleBtnStyle :: "style" where
  \<open>toggleBtnStyle =
    [(''background'', CssStr (js ''none'')), (''border'', CssStr (js ''none'')),
       (''cursor'', CssStr (js ''pointer'')), (''fontSize'', CssNum 12),
       (''color'', CssStr (js ''#52525B'')), (''padding'', CssStr (js ''4px 0'')),
       (''fontFamily'', CssStr (js ''inherit'')), (''display'', CssStr (js ''flex'')),
       (''alignItems'', CssStr (js ''center'')), (''gap'', CssNum 6)]\<close>

definition navBtnStyle :: "jstring \<Rightarrow> style" where
  \<open>navBtnStyle color =
    [(''padding'', CssStr (js ''6px 14px'')), (''background'', CssStr (color @ js ''12'')),
       (''border'', CssStr (js ''1px solid '' @ color @ js ''33'')),
       (''borderRadius'', CssNum 4), (''color'', CssStr (js ''#A1A1AA'')),
       (''fontSize'', CssNum 12), (''cursor'', CssStr (js ''pointer'')),
       (''fontFamily'', CssStr (js ''inherit''))]\<close>

definition navLinkStyle :: "style" where
  \<open>navLinkStyle =
    [(''color'', CssStr (js ''#71717A'')), (''textDecoration'', CssStr (js ''none'')),
       (''fontSize'', CssNum 13), (''padding'', CssStr (js ''8px 0'')),
       (''transition'', CssStr (js ''color 0.2s''))]\<close>

definition styles_page :: "style" where
  \<open>styles_page =
    [(''fontFamily'', CssStr (js ''%27JetBrains Mono', 'SF Mono', 'Fira Code', monospace'')),
       (''background'', CssStr (js ''#0A0A0B'')), (''color'', CssStr (js ''#E4E4E7'')),
       (''minHeight'', CssStr (js ''100vh'')), (''position'', CssStr (js ''relative''))]\<close>

definition styles_grid :: "style" where
  \<open>styles_grid =
    [(''position'', CssStr (js ''fixed'')), (''inset'', CssNum 0), (''zIndex'', CssNum 0),
       (''backgroundImage'', CssStr (jlines ['''',
      ''      linear-gradient(rgba(228,228,231,0.03) 1px, transparent 1px),'',
      ''      linear-gradient(90deg, rgba(228,228,231,0.03) 1px, transparent 1px)'',
      ''    ''])),
       (''backgroundSize'', CssStr (js ''40px 40px'')), (''pointerEvents'', CssStr (js ''none''))]\<close>

definition styles_container :: "style" where
  \<open>styles_container =
    [(''position'', CssStr (js ''relative'')), (''zIndex'', CssNum 10),
       (''maxWidth'', CssNum 760), (''margin'', CssStr (js ''0 auto'')),
       (''padding'', CssStr (js ''32px 20px 0''))]\<close>

definition styles_backLink :: "style" where
  \<open>styles_backLink =
    [(''color'', CssStr (js ''#52525B'')), (''textDecoration'', CssStr (js ''none'')),
       (''fontSize'', CssNum 13), (''display'', CssStr (js ''inline-flex'')),
       (''alignItems'', CssStr (js ''center'')), (''gap'', CssNum 4),
       (''transition'', CssStr (js ''color 0.2s''))]\<close>

definition styles_card :: "style" where
  \<open>styles_card =
    [(''padding'', CssStr (js ''16px 20px'')),
       (''background'', CssStr (js ''rgba(228,228,231,0.03)'')),
       (''border'', CssStr (js ''1px solid rgba(228,228,231,0.08)'')),
       (''borderRadius'', CssNum 8)]\<close>

section \<open>Rich content blocks\<close>

definition SectionTitle :: "vnode list \<Rightarrow> vnode" where
  \<open>SectionTitle children =
    Elem ''div''
       [Style [(''fontSize'', CssNum 10), (''color'', CssStr (js ''#71717A'')),
             (''letterSpacing'', CssStr (js ''0.12em'')),
             (''textTransform'', CssStr (js ''uppercase'')), (''marginBottom'', CssNum 12),
             (''fontWeight'', CssNum 600)]]
      children\<close>

fun heading_size :: "heading_level \<Rightarrow> cssval" where
  "heading_size Level2 = CssNum 18"
| "heading_size Level3 = CssNum 15"
| "heading_size Level4 = CssNum 13"

text \<open>
  The records of the callout variants: background, border and icon. The source's default branches
  (\<open>|| variantStyles.info\<close> here, \<open>return null\<close> after the last block type) cannot be reached: the two
  types have no other values.
\<close>

fun variantStyles :: "jstring \<Rightarrow> callout_variant \<Rightarrow> jstring \<times> jstring \<times> jstring" where
  \<open>variantStyles color Info = (js ''rgba(37,99,235,0.08)'', js ''rgba(37,99,235,0.3)'', js ''%u2139'')\<close>
| \<open>variantStyles color Warning = (js ''rgba(217,119,6,0.08)'', js ''rgba(217,119,6,0.3)'', js ''%u26a0'')\<close>
| \<open>variantStyles color Tip = (js ''rgba(5,150,105,0.08)'', js ''rgba(5,150,105,0.3)'', js ''%ud83d%udca1'')\<close>
| \<open>variantStyles color Quote = (color @ js ''08'', color @ js ''44'', js ''%u203a'')\<close>

fun RenderBlock :: "ContentBlock \<Rightarrow> jstring \<Rightarrow> jstring \<Rightarrow> vnode" where
  \<open>RenderBlock (ParagraphBlock text) color accent =
    Elem ''p''
       [Style [(''fontSize'', CssNum 13), (''color'', CssStr (js ''#A1A1AA'')),
             (''lineHeight'', CssNum (185 / 100)), (''margin'', CssStr (js ''0 0 16px''))]]
      [Text text]\<close>
| \<open>RenderBlock (HeadingBlock level text) color accent =
    Elem ''div''
       [Style [(''fontSize'', heading_size level), (''fontWeight'', CssNum 600),
             (''color'', if level = Level2 then CssStr (js ''#E4E4E7'')
               else if level = Level3 then CssStr (js ''#D4D4D8'') else CssStr (js ''#A1A1AA'')),
             (''margin'', if level = Level2 then CssStr (js ''28px 0 12px'')
               else CssStr (js ''20px 0 8px'')),
             (''paddingBottom'', if level = Level2 then CssNum 8 else CssNum 0),
             (''borderBottom'', if level = Level2 then CssStr (js ''1px solid rgba(228,228,231,0.08)'') else CssStr (js ''none''))]]
      [Text text]\<close>
| \<open>RenderBlock (CodeBlock language code) color accent =
    Elem ''pre''
       [Style (merge_style codeBlockStyle
            [(''margin'', CssStr (js ''0 0 16px''))])]
      [Text code]\<close>
| \<open>RenderBlock (DiagramBlock content) color accent =
    Elem ''pre''
       [Style [(''fontSize'', CssNum 12), (''lineHeight'', CssNum (15 / 10)),
             (''color'', CssStr (js ''#71717A'')),
             (''background'', CssStr (js ''rgba(228,228,231,0.04)'')),
             (''border'', CssStr (js ''1px solid rgba(228,228,231,0.08)'')),
             (''borderRadius'', CssNum 8), (''padding'', CssStr (js ''16px 20px'')),
             (''margin'', CssStr (js ''0 0 16px'')), (''overflowX'', CssStr (js ''auto'')),
             (''fontFamily'', CssStr (js ''%27JetBrains Mono', 'SF Mono', 'Fira Code', monospace'')),
             (''whiteSpace'', CssStr (js ''pre''))]]
      [Text content]\<close>
| \<open>RenderBlock (TableBlock headers rows) color accent =
    Elem ''div''
       [Style [(''overflowX'', CssStr (js ''auto'')), (''margin'', CssStr (js ''0 0 16px''))]]
      [Elem ''table''
          [Style [(''width'', CssStr (js ''100%25'')),
                (''borderCollapse'', CssStr (js ''collapse'')), (''fontSize'', CssNum 12),
                (''fontFamily'', CssStr (js ''inherit''))]]
         [Elem ''thead''
             []
            [Elem ''tr''
                []
               (map_idx (\<lambda>h i. 
                  Elem ''th''
                     [Key (nat_str i),
                      Style [(''textAlign'', CssStr (js ''left'')),
                           (''padding'', CssStr (js ''8px 12px'')),
                           (''borderBottom'', CssStr (js ''1px solid rgba(228,228,231,0.15)'')),
                           (''color'', CssStr (js ''#E4E4E7'')), (''fontWeight'', CssNum 600),
                           (''fontSize'', CssNum 11),
                           (''letterSpacing'', CssStr (js ''0.05em'')),
                           (''whiteSpace'', CssStr (js ''nowrap''))]]
                    [Text h])
                  headers)],
          Elem ''tbody''
             []
            (map_idx (\<lambda>row i. 
               Elem ''tr''
                  [Key (nat_str i)]
                 (map_idx (\<lambda>cell j. 
                    Elem ''td''
                       [Key (nat_str j),
                        Style [(''padding'', CssStr (js ''8px 12px'')),
                             (''borderBottom'', CssStr (js ''1px solid rgba(228,228,231,0.06)'')),
                             (''color'', CssStr (js ''#A1A1AA'')),
                             (''lineHeight'', CssNum (16 / 10))]]
                      [Text cell])
                    row))
               rows)]]\<close>
| \<open>RenderBlock (CalloutBlock variant text) color accent =
    (let v = variantStyles color variant in
    Elem ''div''
       [Style [(''padding'', CssStr (js ''14px 18px'')), (''background'', CssStr (fst v)),
             (''borderLeft'', CssStr (js ''3px solid '' @ fst (snd v))),
             (''borderRadius'', CssStr (js ''0 6px 6px 0'')),
             (''margin'', CssStr (js ''0 0 16px'')), (''fontSize'', CssNum 13),
             (''lineHeight'', CssNum (18 / 10)), (''color'', CssStr (js ''#A1A1AA''))]]
      [Text text])\<close>
| \<open>RenderBlock (ListBlock ordered items) color accent =
    Elem ''div''
       [Style [(''margin'', CssStr (js ''0 0 16px'')), (''paddingLeft'', CssNum 4)]]
      (map_idx (\<lambda>item i. 
         Elem ''div''
            [Key (nat_str i),
             Style [(''display'', CssStr (js ''flex'')), (''gap'', CssNum 10),
                  (''padding'', CssStr (js ''4px 0'')), (''fontSize'', CssNum 13),
                  (''color'', CssStr (js ''#A1A1AA'')), (''lineHeight'', CssNum (17 / 10))]]
           [Elem ''span''
               [Style [(''color'', CssStr (js ''#52525B'')), (''flexShrink'', CssNum 0),
                     (''width'', CssNum 16), (''textAlign'', CssStr (js ''right''))]]
              [Text (if ordered then nat_str (i + 1) @ js ''.'' else js ''%u00b7'')],
            Elem ''span''
               []
              [Text item]])
         items)\<close>

definition RenderBlocks :: "ContentBlock list \<Rightarrow> jstring \<Rightarrow> jstring \<Rightarrow> vnode list" where
  "RenderBlocks blocks color accent =
     map_idx (\<lambda>block i. with_key (nat_str i) (RenderBlock block color accent)) blocks"

section \<open>State and handlers\<close>

text \<open>The three \<open>useState\<close> hooks.\<close>

record lesson_state =
  expandedSections :: "nat set"
  expandedHints :: "jstring set"
  expandedPseudo :: "jstring set"

definition lesson_state_init :: lesson_state where
  "lesson_state_init = \<lparr>expandedSections = {}, expandedHints = {}, expandedPseudo = {}\<rparr>"

text \<open>\<open>next.has(x) ? next.delete(x) : next.add(x)\<close> on a copy of the previous set.\<close>

definition toggle :: "'a \<Rightarrow> 'a set \<Rightarrow> 'a set" where
  "toggle x prev = (if x \<in> prev then prev - {x} else insert x prev)"

definition toggleSection :: "nat \<Rightarrow> lesson_state \<Rightarrow> lesson_state" where
  "toggleSection i st = st\<lparr>expandedSections := toggle i (expandedSections st)\<rparr>"

definition toggleHint :: "jstring \<Rightarrow> lesson_state \<Rightarrow> lesson_state" where
  "toggleHint k st = st\<lparr>expandedHints := toggle k (expandedHints st)\<rparr>"

definition togglePseudo :: "jstring \<Rightarrow> lesson_state \<Rightarrow> lesson_state" where
  "togglePseudo k st = st\<lparr>expandedPseudo := toggle k (expandedPseudo st)\<rparr>"

text \<open>The effect on \<open>[phaseId, lessonId]\<close>: everything is closed again.\<close>

definition lesson_effect :: "lesson_state \<Rightarrow> lesson_state" where
  "lesson_effect st = st\<lparr>expandedSections := {}, expandedHints := {}, expandedPseudo := {}\<rparr>"

section \<open>The page\<close>

definition LessonPage_notFound :: "message_fn \<Rightarrow> vnode" where
  \<open>LessonPage_notFound tr =
    Elem ''div''
       [Style styles_page]
      [Elem ''div''
          [Style styles_container]
         [Elem ''Link''
             [Attr ''to'' (js ''/''),
              Style styles_backLink]
            [Text (tr (js ''lesson.back'') [])],
          Elem ''div''
             [Style [(''marginTop'', CssNum 48), (''textAlign'', CssStr (js ''center'')),
                   (''color'', CssStr (js ''#71717A''))]]
            [Elem ''div''
                [Style [(''fontSize'', CssNum 48), (''marginBottom'', CssNum 16)]]
               [Text (js ''404'')],
             Elem ''div''
                [Style [(''fontSize'', CssNum 15)]]
               [Text (tr (js ''lesson.notFound'') [])]]]]\<close>

definition LessonPage_header :: "message_fn \<Rightarrow> PhaseContent \<Rightarrow> Lesson \<Rightarrow> jsnum \<Rightarrow> jsnum \<Rightarrow> bool \<Rightarrow> bool \<Rightarrow> jstring \<Rightarrow> vnode" where
  \<open>LessonPage_header tr phase lesson pId lId hasPrev hasNext color =
    Elem ''header''
       [Style [(''marginTop'', CssNum 24), (''marginBottom'', CssNum 40)]]
      [Elem ''div''
          [Style [(''display'', CssStr (js ''flex'')), (''alignItems'', CssStr (js ''center'')),
                (''gap'', CssNum 8), (''marginBottom'', CssNum 16),
                (''flexWrap'', CssStr (js ''wrap''))]]
         [Elem ''span''
             [Style [(''padding'', CssStr (js ''4px 10px'')),
                   (''background'', CssStr (color @ js ''18'')),
                   (''border'', CssStr (js ''1px solid '' @ color @ js ''44'')),
                   (''borderRadius'', CssNum 4), (''fontSize'', CssNum 11),
                   (''letterSpacing'', CssStr (js ''0.08em'')), (''color'', CssStr color),
                   (''textTransform'', CssStr (js ''uppercase''))]]
            [Text (js ''Phase ''),
             Text (num_text pId),
             Text (js '' %u00b7 Lesson ''),
             Text (num_text lId)],
          Elem ''span''
             [Style [(''padding'', CssStr (js ''4px 10px'')),
                   (''background'', CssStr (js ''rgba(228,228,231,0.06)'')),
                   (''border'', CssStr (js ''1px solid rgba(228,228,231,0.1)'')),
                   (''borderRadius'', CssNum 4), (''fontSize'', CssNum 11),
                   (''color'', CssStr (js ''#A1A1AA''))]]
            [Text (lesson_type lesson),
             Text (js '' %u00b7 ''),
             Text (lesson_duration lesson)]],
       Elem ''h1''
          [Style [(''fontSize'', CssStr (js ''clamp(22px, 5vw, 28px)'')),
                (''fontWeight'', CssNum 700), (''lineHeight'', CssNum (13 / 10)),
                (''margin'', CssStr (js ''0 0 6px'')), (''color'', CssStr (js ''#E4E4E7''))]]
         [Text (lesson_title lesson)],
       Elem ''p''
          [Style [(''fontSize'', CssNum 14), (''color'', CssStr (js ''#52525B'')),
                (''fontStyle'', CssStr (js ''italic'')), (''margin'', CssNum 0)]]
         [Text (lesson_subtitle lesson)],
       Elem ''div''
          [Style [(''display'', CssStr (js ''flex'')), (''gap'', CssNum 8),
                (''marginTop'', CssNum 20), (''flexWrap'', CssStr (js ''wrap''))]]
         ((show_if hasPrev ([Elem ''button''
               [OnClick (Navigate (js ''/phase/'' @ num_text pId @ js ''/lesson/''
                 @ num_text (num_sub lId (num_of 1)))),
                Style (navBtnStyle color)]
              [Text (tr (js ''lesson.prev'') [])]]))
         @ (show_if hasNext ([Elem ''button''
               [OnClick (Navigate (js ''/phase/'' @ num_text pId @ js ''/lesson/''
                 @ num_text (num_add lId (num_of 1)))),
                Style (navBtnStyle color)]
              [Text (tr (js ''lesson.next'') [])]])))]\<close>

definition LessonPage_objectives :: "message_fn \<Rightarrow> Lesson \<Rightarrow> jstring \<Rightarrow> vnode" where
  \<open>LessonPage_objectives tr lesson accent =
    Elem ''section''
       [Style [(''marginBottom'', CssNum 36)]]
      [SectionTitle [Text (tr (js ''lesson.objectives'') [])],
       Elem ''div''
          [Style styles_card]
         (map_idx (\<lambda>obj i. 
            Elem ''div''
               [Key (nat_str i),
                Style [(''display'', CssStr (js ''flex'')), (''gap'', CssNum 12),
                     (''padding'', CssStr (js ''10px 0'')),
                     (''borderBottom'', if i < length (lesson_objectives lesson) - 1 then CssStr (js ''1px solid rgba(228,228,231,0.06)'') else CssStr (js ''none'')),
                     (''fontSize'', CssNum 13), (''color'', CssStr (js ''#A1A1AA'')),
                     (''lineHeight'', CssNum (17 / 10))]]
              [Elem ''span''
                  [Style [(''color'', CssStr accent), (''fontWeight'', CssNum 700),
                        (''fontSize'', CssNum 12), (''flexShrink'', CssNum 0),
                        (''width'', CssNum 20), (''textAlign'', CssStr (js ''right''))]]
                 [Text (nat_str (i + 1)),
                  Text (js ''.'')],
               Elem ''span''
                  []
                 [Text obj]])
            (lesson_objectives lesson))]\<close>

definition LessonPage_sections :: "message_fn \<Rightarrow> Lesson \<Rightarrow> jstring \<Rightarrow> jstring \<Rightarrow> lesson_state \<Rightarrow> vnode list" where
  \<open>LessonPage_sections tr lesson color accent st =
    show_if (0 < length (lesson_sections lesson)) ([Elem ''section''
         [Style [(''marginBottom'', CssNum 36)]]
        [SectionTitle [Text (tr (js ''lesson.content'') [])],
         Elem ''div''
            [Style [(''display'', CssStr (js ''flex'')),
                  (''flexDirection'', CssStr (js ''column'')), (''gap'', CssNum 8)]]
           (map_idx (\<lambda>sec i. let isOpen = (i \<in> expandedSections st) in
              Elem ''div''
                 [Key (nat_str i),
                  Style (merge_style styles_card
                      [(''cursor'', CssStr (js ''pointer'')),
                       (''transition'', CssStr (js ''border-color 0.2s'')),
                       (''borderColor'', if isOpen then CssStr (color @ js ''44'')
                         else CssStr (js ''rgba(228,228,231,0.08)''))])]
                ([Elem ''div''
                    [OnClick (ToggleSection i),
                     Style [(''display'', CssStr (js ''flex'')),
                          (''justifyContent'', CssStr (js ''space-between'')),
                          (''alignItems'', CssStr (js ''center''))]]
                   [Elem ''div''
                       [Style [(''display'', CssStr (js ''flex'')), (''gap'', CssNum 10),
                             (''alignItems'', CssStr (js ''center''))]]
                      [Elem ''span''
                          [Style [(''display'', CssStr (js ''inline-block'')),
                                (''width'', CssNum 6), (''height'', CssNum 6),
                                (''borderRadius'', CssStr (js ''50%25'')),
                                (''background'', if isOpen then CssStr color
                                  else CssStr (js ''#52525B'')),
                                (''flexShrink'', CssNum 0),
                                (''transition'', CssStr (js ''background 0.2s''))]]
                         [],
                       Elem ''span''
                          [Style [(''fontSize'', CssNum 14), (''fontWeight'', CssNum 600),
                                (''color'', if isOpen then CssStr (js ''#E4E4E7'')
                                  else CssStr (js ''#A1A1AA'')),
                                (''transition'', CssStr (js ''color 0.2s''))]]
                         [Text (section_title sec)]],
                    Elem ''span''
                       [Style [(''color'', CssStr (js ''#52525B'')), (''fontSize'', CssNum 12),
                             (''transform'', if isOpen then CssStr (js ''rotate(90deg)'')
                               else CssStr (js ''rotate(0)'')),
                             (''transition'', CssStr (js ''transform 0.2s'')),
                             (''flexShrink'', CssNum 0)]]
                      [Text (js ''%u2192'')]]]
                @ (show_if isOpen ([Elem ''div''
                      [Style [(''marginTop'', CssNum 16), (''paddingTop'', CssNum 16),
                            (''borderTop'', CssStr (js ''1px solid rgba(228,228,231,0.06)'')),
                            (''animation'', CssStr (js ''fadeIn 0.3s ease''))]]
                     (RenderBlocks (section_blocks sec) color accent)]))))
              (lesson_sections lesson))]])\<close>

definition LessonPage_exercise :: "message_fn \<Rightarrow> jstring \<Rightarrow> jstring \<Rightarrow> lesson_state \<Rightarrow> CodeExercise \<Rightarrow> vnode" where
  \<open>LessonPage_exercise tr color accent st ex =
    Elem ''div''
       [Key (exercise_id ex),
        Style (merge_style styles_card
            [(''background'', CssStr (js ''linear-gradient(135deg, '' @ color @ js ''08, '' @ accent
              @ js ''04)'')),
             (''borderColor'', CssStr (color @ js ''22''))])]
      ([Elem ''div''
          [Style [(''display'', CssStr (js ''flex'')), (''alignItems'', CssStr (js ''center'')),
                (''gap'', CssNum 10), (''marginBottom'', CssNum 12),
                (''flexWrap'', CssStr (js ''wrap''))]]
         [Elem ''code''
             [Style [(''fontSize'', CssNum 12), (''color'', CssStr accent),
                   (''background'', CssStr (color @ js ''18'')),
                   (''padding'', CssStr (js ''3px 8px'')), (''borderRadius'', CssNum 4),
                   (''fontWeight'', CssNum 600)]]
            [Text (js ''Step ''),
             Text (exercise_id ex)],
          Elem ''span''
             [Style [(''fontSize'', CssNum 14), (''fontWeight'', CssNum 600),
                   (''color'', CssStr (js ''#E4E4E7''))]]
            [Text (exercise_title ex)]],
       Elem ''pre''
          [Style [(''fontSize'', CssNum 13), (''color'', CssStr (js ''#A1A1AA'')),
                (''lineHeight'', CssNum (18 / 10)), (''margin'', CssStr (js ''0 0 12px'')),
                (''whiteSpace'', CssStr (js ''pre-wrap'')),
                (''wordBreak'', CssStr (js ''break-word'')),
                (''fontFamily'', CssStr (js ''inherit''))]]
         [Text (exercise_description ex)]]
      @ (show_if (truthy (exercise_labFile ex)) ([Elem ''div''
            [Style [(''display'', CssStr (js ''inline-flex'')),
                  (''alignItems'', CssStr (js ''center'')), (''gap'', CssNum 6),
                  (''padding'', CssStr (js ''4px 10px'')),
                  (''background'', CssStr (js ''rgba(228,228,231,0.06)'')),
                  (''borderRadius'', CssNum 4), (''fontSize'', CssNum 12),
                  (''color'', CssStr (js ''#71717A'')), (''marginBottom'', CssNum 12)]]
           [Elem ''span''
               [Style [(''opacity'', CssNum (6 / 10))]]
              [Text (js ''%ud83d%udcc1'')],
            Elem ''code''
               [Style [(''color'', CssStr (js ''#A1A1AA''))]]
              (opt_text (exercise_labFile ex))]]))
      @ (show_if (truthy (exercise_pseudocode ex)) ([Elem ''div''
            [Style [(''marginTop'', CssNum 4), (''marginBottom'', CssNum 8)]]
           ([Elem ''button''
               [OnClick (TogglePseudo (exercise_id ex)),
                Style toggleBtnStyle]
              [Elem ''span''
                  [Style [(''transform'', if exercise_id ex \<in> expandedPseudo st then CssStr (js ''rotate(90deg)'') else CssStr (js ''rotate(0)'')),
                        (''transition'', CssStr (js ''transform 0.2s'')),
                        (''display'', CssStr (js ''inline-block''))]]
                 [Text (js ''%u2192'')],
               Text (if exercise_id ex \<in> expandedPseudo st then tr (js ''lesson.hidePseudo'') []
                 else tr (js ''lesson.showPseudo'') [])]]
           @ (show_if (exercise_id ex \<in> expandedPseudo st) ([Elem ''pre''
                 [Style (merge_style codeBlockStyle
                      [(''marginTop'', CssNum 8),
                       (''animation'', CssStr (js ''fadeIn 0.2s ease''))])]
                (opt_text (exercise_pseudocode ex))])))]))
      @ (show_if (0 < length (exercise_hints ex)) ([Elem ''div''
            [Style [(''marginTop'', CssNum 4)]]
           ([Elem ''button''
               [OnClick (ToggleHint (exercise_id ex)),
                Style toggleBtnStyle]
              [Elem ''span''
                  [Style [(''transform'', if exercise_id ex \<in> expandedHints st then CssStr (js ''rotate(90deg)'') else CssStr (js ''rotate(0)'')),
                        (''transition'', CssStr (js ''transform 0.2s'')),
                        (''display'', CssStr (js ''inline-block''))]]
                 [Text (js ''%u2192'')],
               Text (if exercise_id ex \<in> expandedHints st then tr (js ''lesson.hideHints'') []
                 else tr (js ''lesson.showHints'') [])]]
           @ (show_if (exercise_id ex \<in> expandedHints st) ([Elem ''div''
                 [Style [(''marginTop'', CssNum 8), (''padding'', CssStr (js ''10px 14px'')),
                       (''background'', CssStr (js ''rgba(228,228,231,0.04)'')),
                       (''borderRadius'', CssNum 6),
                       (''animation'', CssStr (js ''fadeIn 0.2s ease''))]]
                (map_idx (\<lambda>hint j. 
                   Elem ''div''
                      [Key (nat_str j),
                       Style [(''fontSize'', CssNum 12), (''color'', CssStr (js ''#71717A'')),
                            (''padding'', CssStr (js ''4px 0'')),
                            (''display'', CssStr (js ''flex'')), (''gap'', CssNum 8)]]
                     [Elem ''span''
                         [Style [(''color'', CssStr (js ''#52525B'')), (''flexShrink'', CssNum 0)]]
                        [Text (js ''%ud83d%udca1'')],
                      Elem ''span''
                         []
                        [Text hint]])
                   (exercise_hints ex))])))])))\<close>

definition LessonPage_exercises :: "message_fn \<Rightarrow> Lesson \<Rightarrow> jstring \<Rightarrow> jstring \<Rightarrow> lesson_state \<Rightarrow> vnode list" where
  \<open>LessonPage_exercises tr lesson color accent st =
    show_if (0 < length (lesson_exercises lesson)) ([Elem ''section''
         [Style [(''marginBottom'', CssNum 36)]]
        [SectionTitle [Text (tr (js ''lesson.exercises'') [])],
         Elem ''div''
            [Style [(''display'', CssStr (js ''flex'')),
                  (''flexDirection'', CssStr (js ''column'')), (''gap'', CssNum 12)]]
           (map (\<lambda>ex. 
              LessonPage_exercise tr color accent st ex)
              (lesson_exercises lesson))]])\<close>

definition LessonPage_criteria :: "message_fn \<Rightarrow> Lesson \<Rightarrow> jstring \<Rightarrow> vnode list" where
  \<open>LessonPage_criteria tr lesson color =
    show_if (0 < length (lesson_acceptanceCriteria lesson)) ([Elem ''section''
         [Style [(''marginBottom'', CssNum 36)]]
        [SectionTitle [Text (tr (js ''lesson.criteria'') [])],
         Elem ''div''
            [Style styles_card]
           (map_idx (\<lambda>ac i. 
              Elem ''div''
                 [Key (nat_str i),
                  Style [(''display'', CssStr (js ''flex'')),
                       (''alignItems'', CssStr (js ''flex-start'')), (''gap'', CssNum 10),
                       (''padding'', CssStr (js ''8px 0'')),
                       (''borderBottom'', if i < length (lesson_acceptanceCriteria lesson) - 1 then CssStr (js ''1px solid rgba(228,228,231,0.06)'') else CssStr (js ''none''))]]
                [Elem ''span''
                    [Style [(''display'', CssStr (js ''inline-block'')), (''width'', CssNum 16),
                          (''height'', CssNum 16), (''borderRadius'', CssNum 3),
                          (''border'', CssStr (js ''1px solid '' @ color @ js ''44'')),
                          (''flexShrink'', CssNum 0), (''marginTop'', CssNum 2)]]
                   [],
                 Elem ''span''
                    [Style [(''fontSize'', CssNum 13), (''color'', CssStr (js ''#A1A1AA'')),
                          (''lineHeight'', CssNum (16 / 10))]]
                   [Text ac]])
              (lesson_acceptanceCriteria lesson))]])\<close>

definition LessonPage_references :: "message_fn \<Rightarrow> Lesson \<Rightarrow> jstring \<Rightarrow> jstring \<Rightarrow> vnode list" where
  \<open>LessonPage_references tr lesson color accent =
    show_if (0 < length (lesson_references lesson)) ([Elem ''section''
         [Style [(''marginBottom'', CssNum 48)]]
        [SectionTitle [Text (tr (js ''lesson.references'') [])],
         Elem ''div''
            [Style [(''display'', CssStr (js ''grid'')),
                  (''gridTemplateColumns'', CssStr (js ''repeat(auto-fill, minmax(min(280px, 100%25), 1fr))'')),
                  (''gap'', CssNum 12)]]
           (map_idx (\<lambda>ref i. 
              Elem ''a''
                 [Key (nat_str i),
                  Attr ''href'' (reference_url ref),
                  Attr ''target'' (js ''_blank''),
                  Attr ''rel'' (js ''noopener noreferrer''),
                  Style (merge_style styles_card
                      [(''textDecoration'', CssStr (js ''none'')),
                       (''display'', CssStr (js ''block'')),
                       (''transition'', CssStr (js ''border-color 0.2s, background 0.2s''))]),
                  OnMouseEnter [(''borderColor'', CssStr (color @ js ''44'')),
                     (''background'', CssStr (color @ js ''08''))],
                  OnMouseLeave [(''borderColor'', CssStr (js ''rgba(228,228,231,0.08)'')),
                     (''background'', CssStr (js ''rgba(228,228,231,0.03)''))]]
                [Elem ''div''
                    [Style [(''fontSize'', CssNum 13), (''fontWeight'', CssNum 600),
                          (''color'', CssStr accent), (''marginBottom'', CssNum 6),
                          (''display'', CssStr (js ''flex'')),
                          (''alignItems'', CssStr (js ''center'')), (''gap'', CssNum 6)]]
                   [Text (reference_title ref),
                    Elem ''span''
                       [Style [(''fontSize'', CssNum 11), (''opacity'', CssNum (6 / 10))]]
                      [Text (js ''%u2197'')]],
                 Elem ''div''
                    [Style [(''fontSize'', CssNum 12), (''color'', CssStr (js ''#71717A'')),
                          (''lineHeight'', CssNum (16 / 10))]]
                   [Text (reference_description ref)]])
              (lesson_references lesson))]])\<close>

definition LessonPage_nav :: "message_fn \<Rightarrow> PhaseContent \<Rightarrow> jsnum \<Rightarrow> jsnum \<Rightarrow> bool \<Rightarrow> bool \<Rightarrow> vnode" where
  \<open>LessonPage_nav tr phase pId lId hasPrev hasNext =
    Elem ''nav''
       [Style [(''display'', CssStr (js ''flex'')),
             (''justifyContent'', CssStr (js ''space-between'')),
             (''alignItems'', CssStr (js ''center'')), (''flexWrap'', CssStr (js ''wrap'')),
             (''gap'', CssNum 12), (''paddingTop'', CssNum 24),
             (''borderTop'', CssStr (js ''1px solid rgba(228,228,231,0.08)'')),
             (''marginBottom'', CssNum 80)]]
      [Elem ''div''
          []
         (if hasPrev then [Elem ''Link''
               [Attr ''to'' (js ''/phase/'' @ num_text pId @ js ''/lesson/''
                 @ num_text (num_sub lId (num_of 1))),
                Style navLinkStyle]
              ([Text (js ''%u2190 '')]
              @ (opt_text (map_option lesson_title (arr_get (content_lessons phase) (num_sub lId (num_of 2))))))]
          else [Elem ''Link''
               [Attr ''to'' (js ''/''),
                Style navLinkStyle]
              [Text (tr (js ''lesson.back'') [])]]),
       Elem ''div''
          []
         (if hasNext then [Elem ''Link''
               [Attr ''to'' (js ''/phase/'' @ num_text pId @ js ''/lesson/''
                 @ num_text (num_add lId (num_of 1))),
                Style navLinkStyle]
              ((opt_text (map_option lesson_title (arr_get (content_lessons phase) lId)))
              @ [Text (js '' %u2192'')])]
          else [Elem ''Link''
               [Attr ''to'' (js ''/''),
                Style navLinkStyle]
              [Text (tr (js ''lesson.complete'') [(js ''phaseId'', num_text pId)])]])]\<close>

definition LessonPage_found ::
  "message_fn \<Rightarrow> PhaseContent \<Rightarrow> Lesson \<Rightarrow> jsnum \<Rightarrow> jsnum \<Rightarrow> lesson_state \<Rightarrow> vnode" where
  \<open>LessonPage_found tr phase lesson pId lId st = (
     let color = content_color phase; accent = content_accent phase;
         totalLessons = length (content_lessons phase);
         hasPrev = num_less (num_of 1) lId;
         hasNext = num_less lId (num_of totalLessons)
     in Elem ''div'' [Style styles_page]
       [Elem ''div'' [Style styles_grid] [],
        Elem ''div'' [Style styles_container]
          ([Elem ''Link''
           [Attr ''to'' (js ''/''),
            Style styles_backLink]
          [Text (tr (js ''lesson.back'') [])],
            LessonPage_header tr phase lesson pId lId hasPrev hasNext color,
            LessonPage_objectives tr lesson accent]
           @ LessonPage_sections tr lesson color accent st
           @ LessonPage_exercises tr lesson color accent st
           @ LessonPage_criteria tr lesson color
           @ LessonPage_references tr lesson color accent
           @ [LessonPage_nav tr phase pId lId hasPrev hasNext])])\<close>

text \<open>
  The component: the route parameters are strings, the lookups decide between the page and the
  not-found view.
\<close>

definition LessonPage :: "jstring \<Rightarrow> jstring \<Rightarrow> jstring \<Rightarrow> lesson_state \<Rightarrow> vnode" where
  "LessonPage locale phaseId lessonId st = (
     let tr = translate locale; pId = Number phaseId; lId = Number lessonId;
         phase = getPhaseContent pId locale; lesson = getLesson pId lId locale
     in case (phase, lesson) of
          (Some ph, Some le) \<Rightarrow> LessonPage_found tr ph le pId lId st
        | _ \<Rightarrow> LessonPage_notFound tr)"

text \<open>The component under a context value: \<open>useLocale()\<close> is its first call that may throw.\<close>

definition LessonPage_component ::
  "locale_state option \<Rightarrow> jstring \<Rightarrow> jstring \<Rightarrow> lesson_state \<Rightarrow> js_error + vnode" where
  "LessonPage_component ctx phaseId lessonId st = (case useLocale ctx of
     Inl e \<Rightarrow> Inl e
   | Inr c \<Rightarrow> Inr (LessonPage (locale_value c) phaseId lessonId st))"


text \<open>The address of a lesson, as the page writes it into its links.\<close>

definition lesson_link :: "jsnum \<Rightarrow> jsnum \<Rightarrow> jstring" where
  "lesson_link p l = js ''/phase/'' @ num_text p @ js ''/lesson/'' @ num_text l"

text \<open>Which of the page's foldable parts are open, under the action that folds them.\<close>

fun is_open :: "action \<Rightarrow> lesson_state \<Rightarrow> bool" where
  "is_open (ToggleSection i) st \<longleftrightarrow> i \<in> expandedSections st"
| "is_open (ToggleHint k) st \<longleftrightarrow> k \<in> expandedHints st"
| "is_open (TogglePseudo k) st \<longleftrightarrow> k \<in> expandedPseudo st"
| "is_open _ st \<longleftrightarrow> False"

fun foldable :: "action \<Rightarrow> bool" where
  "foldable (ToggleSection i) \<longleftrightarrow> True"
| "foldable (ToggleHint k) \<longleftrightarrow> True"
| "foldable (TogglePseudo k) \<longleftrightarrow> True"
| "foldable _ \<longleftrightarrow> False"

text \<open>Everything a found page lets the user do.\<close>

definition lesson_actions :: "Lesson \<Rightarrow> nat \<Rightarrow> jsnum \<Rightarrow> jsnum \<Rightarrow> action set" where
  "lesson_actions lesson n pId lId =
     {Navigate (js ''/'')}
     \<union> (if num_less (num_of 1) lId then {Navigate (lesson_link pId (num_sub lId (num_of 1)))} else {})
     \<union> (if num_less lId (num_of n) then {Navigate (lesson_link pId (num_add lId (num_of 1)))} else {})
     \<union> ToggleSection ` {..<length (lesson_sections lesson)}
     \<union> {TogglePseudo (exercise_id ex) | ex. ex \<in> set (lesson_exercises lesson) \<and> truthy (exercise_pseudocode ex)}
     \<union> {ToggleHint (exercise_id ex) | ex. ex \<in> set (lesson_exercises lesson) \<and> exercise_hints ex \<noteq> []}"

text \<open>The text of a block: what a reader of the rendered block sees, in order.\<close>

fun block_text :: "ContentBlock \<Rightarrow> jstring list" where
  "block_text (ParagraphBlock s) = [s]"
| "block_text (HeadingBlock lv s) = [s]"
| "block_text (CodeBlock lang s) = [s]"
| "block_text (DiagramBlock s) = [s]"
| "block_text (TableBlock headers rows) = headers @ concat rows"
| "block_text (CalloutBlock v s) = [s]"
| "block_text (ListBlock ordered items) =
     concat (map_idx (\<lambda>item i. [if ordered then nat_str (i + 1) @ js ''.'' else js ''%u00b7'', item]) items)"

section \<open>What the page offers\<close>

lemma clicks_RenderBlock [simp]: "clicks (RenderBlock b color accent) = []"
  by (cases b) (simp_all add: page_eval)

lemma clicks_RenderBlocks [simp]: "concat (map clicks (RenderBlocks bs color accent)) = []"
  by (simp add: RenderBlocks_def page_eval)

lemma clicks_SectionTitle [simp]: "clicks (SectionTitle ns) = concat (map clicks ns)"
  by (simp add: SectionTitle_def)

lemma clicks_header:
  "clicks (LessonPage_header tr phase lesson pId lId hasPrev hasNext color) =
     show_if hasPrev [Navigate (lesson_link pId (num_sub lId (num_of 1)))]
     @ show_if hasNext [Navigate (lesson_link pId (num_add lId (num_of 1)))]"
  by (simp add: LessonPage_header_def lesson_link_def)

lemma clicks_objectives [simp]: "clicks (LessonPage_objectives tr lesson accent) = []"
  by (simp add: LessonPage_objectives_def page_eval)

lemma clicks_criteria [simp]: "concat (map clicks (LessonPage_criteria tr lesson color)) = []"
  by (simp add: LessonPage_criteria_def page_eval)

lemma clicks_references [simp]: "concat (map clicks (LessonPage_references tr lesson color accent)) = []"
  by (simp add: LessonPage_references_def page_eval)

lemma clicks_sections:
  "concat (map clicks (LessonPage_sections tr lesson color accent st)) =
     map ToggleSection [0..<length (lesson_sections lesson)]"
  by (simp add: LessonPage_sections_def page_eval concat_map_idx_single show_if_def [of "lesson_sections lesson \<noteq> []"])

lemma clicks_exercise:
  "clicks (LessonPage_exercise tr color accent st ex) =
     show_if (truthy (exercise_pseudocode ex)) [TogglePseudo (exercise_id ex)]
     @ show_if (exercise_hints ex \<noteq> []) [ToggleHint (exercise_id ex)]"
  by (simp add: LessonPage_exercise_def page_eval)

lemma clicks_exercises:
  "concat (map clicks (LessonPage_exercises tr lesson color accent st)) =
     concat (map (\<lambda>ex. show_if (truthy (exercise_pseudocode ex)) [TogglePseudo (exercise_id ex)]
       @ show_if (exercise_hints ex \<noteq> []) [ToggleHint (exercise_id ex)]) (lesson_exercises lesson))"
  by (simp add: LessonPage_exercises_def clicks_exercise page_eval
      show_if_def [of "lesson_exercises lesson \<noteq> []"])

lemma clicks_nav:
  "clicks (LessonPage_nav tr phase pId lId hasPrev hasNext) =
     [Navigate (if hasPrev then lesson_link pId (num_sub lId (num_of 1)) else js ''/''),
      Navigate (if hasNext then lesson_link pId (num_add lId (num_of 1)) else js ''/'')]"
  by (simp add: LessonPage_nav_def lesson_link_def)

lemma clicks_notFound: "clicks (LessonPage_notFound tr) = [Navigate (js ''/'')]"
  by (simp add: LessonPage_notFound_def)

lemma clicks_found:
  "set (clicks (LessonPage_found tr phase lesson pId lId st)) =
     lesson_actions lesson (length (content_lessons phase)) pId lId"
  by (auto simp: LessonPage_found_def Let_def clicks_header clicks_nav
      clicks_sections clicks_exercises lesson_actions_def set_show_if split: if_splits)

section \<open>Sibling keys\<close>

lemma keys_ok_RenderBlock [simp]: "keys_ok (RenderBlock b color accent)"
  by (cases b) (simp_all add: page_eval ball_map_idx concat_map_idx_single)

lemma node_keys_RenderBlock [simp]: "node_keys (with_key k (RenderBlock b color accent)) = [k]"
  by (cases b) (simp_all add: Let_def)

lemma keys_RenderBlocks [simp]:
  "concat (map node_keys (RenderBlocks bs color accent)) = map nat_str [0..<length bs]"
  "\<forall>n \<in> set (RenderBlocks bs color accent). keys_ok n"
  by (simp_all add: RenderBlocks_def key_eval)

lemma keys_SectionTitle [simp]:
  "node_keys (SectionTitle ns) = []" "keys_ok (SectionTitle [Text s])"
  by (simp_all add: SectionTitle_def)

lemma keys_header [simp]:
  "keys_ok (LessonPage_header tr phase lesson pId lId hasPrev hasNext color)"
  "node_keys (LessonPage_header tr phase lesson pId lId hasPrev hasNext color) = []"
  by (simp_all add: LessonPage_header_def key_eval)

lemma keys_objectives [simp]:
  "keys_ok (LessonPage_objectives tr lesson accent)" "node_keys (LessonPage_objectives tr lesson accent) = []"
  by (simp_all add: LessonPage_objectives_def key_eval)

lemma keys_sections [simp]:
  "\<forall>n \<in> set (LessonPage_sections tr lesson color accent st). keys_ok n"
  "concat (map node_keys (LessonPage_sections tr lesson color accent st)) = []"
  by (simp_all add: LessonPage_sections_def key_eval)

lemma keys_exercise [simp]:
  "keys_ok (LessonPage_exercise tr color accent st ex)"
  "node_keys (LessonPage_exercise tr color accent st ex) = [exercise_id ex]"
  by (simp_all add: LessonPage_exercise_def key_eval)

lemma keys_exercises [simp]:
  "(\<forall>n \<in> set (LessonPage_exercises tr lesson color accent st). keys_ok n) \<longleftrightarrow>
     distinct (map exercise_id (lesson_exercises lesson))"
  "concat (map node_keys (LessonPage_exercises tr lesson color accent st)) = []"
  by (auto simp: LessonPage_exercises_def key_eval)

lemma keys_criteria [simp]:
  "\<forall>n \<in> set (LessonPage_criteria tr lesson color). keys_ok n"
  "concat (map node_keys (LessonPage_criteria tr lesson color)) = []"
  by (simp_all add: LessonPage_criteria_def key_eval)

lemma keys_references [simp]:
  "\<forall>n \<in> set (LessonPage_references tr lesson color accent). keys_ok n"
  "concat (map node_keys (LessonPage_references tr lesson color accent)) = []"
  by (simp_all add: LessonPage_references_def key_eval)

lemma keys_nav [simp]:
  "keys_ok (LessonPage_nav tr phase pId lId hasPrev hasNext)"
  "node_keys (LessonPage_nav tr phase pId lId hasPrev hasNext) = []"
  by (simp_all add: LessonPage_nav_def ball_Un)

text \<open>The page keeps React's rule exactly when the exercise ids are distinct.\<close>

lemma keys_found:
  "keys_ok (LessonPage_found tr phase lesson pId lId st) \<longleftrightarrow>
     distinct (map exercise_id (lesson_exercises lesson))"
  by (simp add: LessonPage_found_def Let_def ball_Un)

section \<open>What is shown\<close>

text \<open>
  The reading of an exercise card: the pseudocode and the hints are shown exactly when they are
  unfolded, under a button whose label says what it does.
\<close>

lemma texts_exercise:
  "texts (LessonPage_exercise tr color accent st ex) =
     [js ''Step '', exercise_id ex, exercise_title ex, exercise_description ex]
     @ show_if (truthy (exercise_labFile ex)) [js ''%ud83d%udcc1'', the (exercise_labFile ex)]
     @ show_if (truthy (exercise_pseudocode ex))
         (if is_open (TogglePseudo (exercise_id ex)) st
          then [js ''%u2192'', tr (js ''lesson.hidePseudo'') [], the (exercise_pseudocode ex)]
          else [js ''%u2192'', tr (js ''lesson.showPseudo'') []])
     @ show_if (exercise_hints ex \<noteq> [])
         (if is_open (ToggleHint (exercise_id ex)) st
          then [js ''%u2192'', tr (js ''lesson.hideHints'') []]
            @ concat (map (\<lambda>h. [js ''%ud83d%udca1'', h]) (exercise_hints ex))
          else [js ''%u2192'', tr (js ''lesson.showHints'') []])"
  by (cases "exercise_labFile ex"; cases "exercise_pseudocode ex")
    (simp_all add: LessonPage_exercise_def page_eval truthy_def opt_text_def concat_map_idx_const)

lemma texts_RenderBlock [simp]: "texts (RenderBlock b color accent) = block_text b"
  by (cases b) (simp_all add: page_eval concat_map_idx_const)

lemma texts_RenderBlocks [simp]:
  "concat (map texts (RenderBlocks bs color accent)) = concat (map block_text bs)"
  by (simp add: RenderBlocks_def page_eval concat_map_idx_const)

lemma texts_section_body:
  "concat (map texts (LessonPage_sections tr lesson color accent st)) =
     show_if (lesson_sections lesson \<noteq> []) (tr (js ''lesson.content'') [] # concat (map_idx (\<lambda>sec i.
       [section_title sec, js ''%u2192'']
       @ show_if (is_open (ToggleSection i) st)
           (concat (map block_text (section_blocks sec))))
       (lesson_sections lesson)))"
  by (simp add: LessonPage_sections_def page_eval SectionTitle_def)

text \<open>The labels of the bottom navigation are the titles of the neighbouring lessons.\<close>

lemma nav_texts:
  assumes "content_ok c" and "1 \<le> l" and "l \<le> length (content_lessons c)" and "length (content_lessons c) \<le> 10"
  shows "texts (LessonPage_nav tr c (num_of p) (num_of l) (1 < l) (l < length (content_lessons c))) =
     (if 1 < l then [js ''%u2190 '', lesson_title (content_lessons c ! (l - 2))] else [tr (js ''lesson.back'') []])
     @ (if l < length (content_lessons c) then [lesson_title (content_lessons c ! l), js '' %u2192'']
        else [tr (js ''lesson.complete'') [(js ''phaseId'', num_text (num_of p))]])"
proof -
  have "arr_get (content_lessons c) (num_sub (num_of l) (num_of 2)) = Some (content_lessons c ! (l - 2))" if "1 < l"
    using that assms by (simp add: num_sub_nat safe_small)
  then show ?thesis using assms by (auto simp: LessonPage_nav_def opt_text_def)
qed

section \<open>External links\<close>

lemma hrefs_RenderBlock [simp]: "hrefs (RenderBlock b color accent) = []"
  by (cases b) (simp_all add: page_eval)

lemma hrefs_RenderBlocks [simp]: "concat (map hrefs (RenderBlocks bs color accent)) = []"
  by (simp add: RenderBlocks_def page_eval)

lemma hrefs_SectionTitle [simp]: "hrefs (SectionTitle ns) = concat (map hrefs ns)"
  by (simp add: SectionTitle_def)

lemma hrefs_parts [simp]:
  "hrefs (LessonPage_header tr phase lesson pId lId hasPrev hasNext color) = []"
  "hrefs (LessonPage_objectives tr lesson accent) = []"
  "concat (map hrefs (LessonPage_sections tr lesson color accent st)) = []"
  "hrefs (LessonPage_exercise tr color accent st ex) = []"
  "concat (map hrefs (LessonPage_criteria tr lesson color)) = []"
  "hrefs (LessonPage_nav tr phase pId lId hasPrev hasNext) = []"
  by (simp_all add: LessonPage_header_def LessonPage_objectives_def LessonPage_sections_def
      LessonPage_exercise_def LessonPage_criteria_def LessonPage_nav_def page_eval)

lemma hrefs_exercises [simp]: "concat (map hrefs (LessonPage_exercises tr lesson color accent st)) = []"
  by (simp add: LessonPage_exercises_def page_eval)

lemma hrefs_references [simp]:
  "concat (map hrefs (LessonPage_references tr lesson color accent)) = map reference_url (lesson_references lesson)"
  by (cases "lesson_references lesson")
    (simp_all add: LessonPage_references_def page_eval concat_map_idx_const)

lemma hrefs_found:
  "hrefs (LessonPage_found tr phase lesson pId lId st) = map reference_url (lesson_references lesson)"
  by (simp add: LessonPage_found_def Let_def)

section \<open>Messages\<close>

text \<open>The page asks for messages at keys of the dictionaries only.\<close>

lemma found_messages:
  assumes "\<And>key. key \<in> fst ` set zhCN \<Longrightarrow> tr key = tr' key"
  shows "LessonPage_found tr c le p l st = LessonPage_found tr' c le p l st"
    and "LessonPage_notFound tr = LessonPage_notFound tr'"
proof -
  note eqs = message_keys_lesson [THEN assms]
  show "LessonPage_found tr c le p l st = LessonPage_found tr' c le p l st"
    unfolding LessonPage_found_def LessonPage_header_def LessonPage_objectives_def
      LessonPage_sections_def LessonPage_exercises_def LessonPage_exercise_def LessonPage_criteria_def
      LessonPage_references_def LessonPage_nav_def eqs by (rule refl)
  show "LessonPage_notFound tr = LessonPage_notFound tr'"
    unfolding LessonPage_notFound_def eqs by (rule refl)
qed

end
