(* ===== verification/Roadmap_Data.thy ===== *)
theory Roadmap_Data
  imports Localized Content_Types
begin

text \<open>
  \<open>website/src/data/phases.ts\<close>: the cards of the roadmap, the layers of the architecture tab and the
  principles, in two languages, with the functions the home page reads them through. A value that comes
  from \<open>Object.prototype\<close> instead of the table stays visible in the result (\<open>Inherited\<close>).
\<close>

record Deliverable =
  deliverable_name :: jstring
  deliverable_desc :: jstring
  deliverable_acceptance :: "jstring list"

record Phase =
  phase_id :: nat
  phase_week :: jstring
  phase_duration :: jstring
  phase_title :: jstring
  phase_subtitle :: jstring
  phase_icon :: jstring
  phase_color :: jstring
  phase_accent :: jstring
  phase_goal :: jstring
  phase_concepts :: "jstring list"
  phase_readings :: "jstring list"
  phase_deliverable :: Deliverable

record ArchitectureLayer =
  layer_name :: jstring
  layer_color :: jstring
  layer_modules :: "jstring list"

record Architecture =
  architecture_layers :: "ArchitectureLayer list"

record Principle =
  principle_num :: jstring
  principle_title :: jstring
  principle_desc :: jstring
  principle_color :: jstring

section \<open>Architecture\<close>

definition ARCHITECTURE :: Architecture where
  \<open>ARCHITECTURE = \<lparr>architecture_layers = [\<lparr>layer_name = js ''Shell & User'', layer_color = js ''#DB2777'',
       layer_modules = [js ''init'', js ''sh'', js ''coreutils'', js ''libc %u88c1%u526a'']\<rparr>,
      \<lparr>layer_name = js ''File System'', layer_color = js ''#DC2626'',
       layer_modules = [js ''VFS'', js ''easy-fs'', js ''BlockCache'', js ''virtio-blk'']\<rparr>,
      \<lparr>layer_name = js ''Virtual Memory'', layer_color = js ''#2563EB'',
       layer_modules = [js ''PageTable SV39'', js ''FrameAllocator'', js ''MemorySet'', js ''mmap'']\<rparr>,
      \<lparr>layer_name = js ''Concurrency'', layer_color = js ''#7C3AED'',
       layer_modules = [js ''SpinLock'', js ''SleepLock'', js ''Semaphore'', js ''Condvar'']\<rparr>,
      \<lparr>layer_name = js ''Process & Sched'', layer_color = js ''#059669'',
       layer_modules = [js ''TCB'', js ''__switch'', js ''Round-Robin'', js ''fork/exec'']\<rparr>,
      \<lparr>layer_name = js ''Traps & Syscalls'', layer_color = js ''#D97706'',
       layer_modules = [js ''TrapContext'', js ''Syscall %u5206%u53d1'', js ''%u65f6%u949f%u4e2d%u65ad'', js ''ecall'']\<rparr>,
      \<lparr>layer_name = js ''Boot & Entry'', layer_color = js ''#E8453C'',
       layer_modules = [js ''entry.asm'', js ''linker.ld'', js ''SBI console'', js ''panic_handler'']\<rparr>]\<rparr>\<close>

definition getArchitecture :: Architecture where
  "getArchitecture = ARCHITECTURE"

section \<open>Phases, Simplified Chinese\<close>

definition PHASES_ZH_CN_0 :: Phase where
  \<open>PHASES_ZH_CN_0 = \<lparr>
    phase_id = 0, phase_week = js ''Phase 0'',
    phase_duration = js ''Week 1-2 %u00b7 3 labs'',
    phase_title = js ''%u542f%u52a8%uff1a%u4ece%u4e0a%u7535%u5230%u5185%u6838 main'',
    phase_subtitle = js ''Boot & Kernel Entry'',
    phase_icon = js ''%u2b21'', phase_color = js ''#E8453C'', phase_accent = js ''#FF6B5E'',
    phase_goal = jcat [''%u7406%u89e3 RISC-V %u673a%u5668%u6a21%u578b%uff0c%u4ece OpenSBI '',
        ''%u63a5%u7ba1%u63a7%u5236%u6743%uff0c%u8bbe%u7f6e%u6808%u3001%u6e05%u96f6 BSS%uff0c%u8df3%u8fdb Rust '',
        ''%u4e16%u754c%uff0c%u70b9%u4eae%u7b2c%u4e00%u6761 println!%u3002''],
    phase_concepts = [js ''RISC-V %u7279%u6743%u7ea7%uff1aM-mode / S-mode / U-mode'',
       jcat [''%u94fe%u63a5%u811a%u672c%u4e0e%u5185%u6838%u5185%u5b58%u5e03%u5c40%uff08.text / '',
         ''.rodata / .bss / stack%uff09''],
       js ''%u88f8%u673a Rust%uff1ano_std / no_main / panic_handler'',
       js ''UART %u9a71%u52a8%u4e0e SBI %u8c03%u7528%u7ea6%u5b9a'',
       js ''QEMU %u542f%u52a8%u6d41%u7a0b%u4e0e%u8c03%u8bd5%u6280%u5de7%uff08gdb-remote%uff09''],
    phase_readings = [js ''xv6-riscv book, Ch. 1-2'',
       js ''rCore-Tutorial %u00a71'',
       js ''RISC-V Privileged Spec v1.12''],
    phase_deliverable = \<lparr>
      deliverable_name = js ''tinyos-boot'',
      deliverable_desc = jcat [''%u4e00%u4e2a%u80fd%u5728 QEMU RISC-V virt %u673a%u5668%u4e0a%u542f%u52a8%u7684%u88f8'',
          ''%u673a Rust %u5185%u6838%uff1a%u81ea%u5b9a%u4e49%u94fe%u63a5%u811a%u672c + '',
          ''%u6c47%u7f16%u8df3%u677f + SBI console + panic handler%u3002''],
      deliverable_acceptance = [js ''make qemu %u540e%u4e32%u53e3%u6253%u5370 "Hello, TinyOS!"'',
         js ''panic!() %u80fd%u8f93%u51fa%u6587%u4ef6%u540d+%u884c%u53f7%u5e76%u4f18%u96c5%u5173%u673a'',
         jcat [''%u94fe%u63a5%u811a%u672c%u660e%u786e text/rodata/data/bss '',
           ''%u8fb9%u754c%u5e76%u5728%u542f%u52a8%u65f6%u6e05%u96f6 bss''],
         js ''gdb %u53ef%u4ece 0x80200000 %u5355%u6b65%u8c03%u8bd5'']\<rparr>\<rparr>\<close>

definition PHASES_ZH_CN_1 :: Phase where
  \<open>PHASES_ZH_CN_1 = \<lparr>
    phase_id = 1, phase_week = js ''Phase 1'',
    phase_duration = js ''Week 3-4 %u00b7 3 labs'',
    phase_title = js ''%u9677%u9631%uff1a%u7279%u6743%u7ea7%u5207%u6362%u4e0e%u7cfb%u7edf%u8c03%u7528'',
    phase_subtitle = js ''Traps & Syscalls'',
    phase_icon = js ''%u25c8'', phase_color = js ''#D97706'', phase_accent = js ''#F59E0B'',
    phase_goal = jcat [''%u5b9e%u73b0%u4ece U-mode %u5230 S-mode %u7684%u5b8c%u6574 trap '',
        ''%u901a%u8def%uff1a%u4fdd%u5b58%u4e0a%u4e0b%u6587%u3001%u5206%u53d1%u539f%u56e0%u3001%u6267%u884c '',
        ''syscall%u3001%u8fd4%u56de%u73b0%u573a%u3002''],
    phase_concepts = [js ''stvec / sepc / scause / stval / sstatus %u5bc4%u5b58%u5668%u8bed%u4e49'',
       jcat [''TrapContext %u8bbe%u8ba1%u4e0e%u4fdd%u5b58/%u6062%u590d%u6c47%u7f16%uff08__alltraps '',
         ''/ __restore%uff09''],
       js ''ecall %u4e0e%u7cfb%u7edf%u8c03%u7528%u7ea6%u5b9a%uff08a7=sysno, a0-a5=args, a0=ret%uff09'',
       js ''%u5f02%u5e38%u5206%u7c7b%uff1aException vs Interrupt'',
       js ''%u7b2c%u4e00%u6279 syscall%uff1awrite / exit / getpid''],
    phase_readings = [js ''xv6-riscv book, Ch. 4'',
       js ''rCore-Tutorial %u00a73'',
       js ''RISC-V ISA Manual Vol II''],
    phase_deliverable = \<lparr>
      deliverable_name = js ''tinyos-trap'',
      deliverable_desc = jcat [''%u4e00%u5957%u53ef%u8fd0%u884c U-mode %u7528%u6237%u7a0b%u5e8f%u5e76%u901a%u8fc7 '',
          ''ecall %u8fd4%u56de%u5185%u6838%u7684 trap %u5b50%u7cfb%u7edf%u3002''],
      deliverable_acceptance = [js ''%u7528%u6237%u7a0b%u5e8f%u80fd%u901a%u8fc7 sys_write %u6253%u5370%u5b57%u7b26%u4e32'',
         jcat [''%u975e%u6cd5%u6307%u4ee4/%u7f3a%u9875%u5f02%u5e38%u80fd%u88ab%u6355%u83b7%u5e76'',
           ''%u6253%u5370 scause+sepc''],
         jcat [''trap %u6765%u56de%u5f80%u8fd4%u540e%u6240%u6709%u901a%u7528%u5bc4%u5b58%u5668%u5b8c'',
           ''%u6574%u4fdd%u7559''],
         js ''%u6240%u6709 syscall %u7f16%u53f7%u96c6%u4e2d%u5728 syscall/mod.rs %u5206%u53d1%u8868'']\<rparr>\<rparr>\<close>

definition PHASES_ZH_CN_2 :: Phase where
  \<open>PHASES_ZH_CN_2 = \<lparr>
    phase_id = 2, phase_week = js ''Phase 2'',
    phase_duration = js ''Week 5-6 %u00b7 3 labs'',
    phase_title = js ''%u8fdb%u7a0b%uff1a%u4efb%u52a1%u62bd%u8c61%u4e0e%u8c03%u5ea6'',
    phase_subtitle = js ''Process & Scheduling'',
    phase_icon = js ''%u25c7'', phase_color = js ''#059669'', phase_accent = js ''#34D399'',
    phase_goal = jcat [''%u4ece%u5355%u4efb%u52a1%u8d70%u5411%u591a%u4efb%u52a1%u3002%u5b9e%u73b0 '',
        ''PCB%u3001task switch %u6c47%u7f16%u3001%u65f6%u949f%u4e2d%u65ad%u62a2%u5360%u3001%u6700%u5c0f'',
        ''%u53ef%u6269%u5c55%u8c03%u5ea6%u5668%u3002''],
    phase_concepts = [js ''Task Control Block%uff1a%u72b6%u6001%u673a Ready/Running/Zombie'',
       js ''__switch %u6c47%u7f16%uff1acallee-saved + ra + sp %u7cbe%u786e%u5207%u6362'',
       js ''%u65f6%u949f%u4e2d%u65ad%uff08sbi_set_timer%uff09%u4e0e%u65f6%u95f4%u7247%u8f6e%u8f6c'',
       js ''yield / sleep / exit %u5185%u6838%u539f%u8bed'',
       js ''Idle task %u4e0e%u8c03%u5ea6%u5668 loop %u9aa8%u67b6''],
    phase_readings = [js ''OSTEP Ch. 5-10'',
       js ''xv6-riscv Ch. 7'',
       js ''rCore-Tutorial %u00a73''],
    phase_deliverable = \<lparr>
      deliverable_name = js ''tinyos-proc'',
      deliverable_desc = jcat [''%u80fd%u5e76%u53d1%u8fd0%u884c N %u4e2a%u7528%u6237%u4efb%u52a1%u7684%u8c03%u5ea6'',
          ''%u5185%u6838%uff1aRound-Robin + 10ms %u65f6%u95f4%u7247 + fork/exec/wait/exit '',
          ''%u6700%u5c0f%u5b9e%u73b0%u3002''],
      deliverable_acceptance = [jcat [''3 %u4e2a%u7528%u6237 app %u4ea4%u9519%u6267%u884c%uff0c%u8f93%u51fa%u53ef%u89c1'',
           ''%u65f6%u95f4%u7247%u8f6e%u8f6c''],
         jcat [''__switch %u6c47%u7f16%u901a%u8fc7 200+ %u6b21%u5207%u6362%u538b%u6d4b%u4e0d%u4e22'',
           ''%u5bc4%u5b58%u5668''],
         js ''%u7236%u8fdb%u7a0b wait %u80fd%u6b63%u786e%u56de%u6536 zombie %u5b50%u8fdb%u7a0b'',
         js ''%u8fdb%u7a0b%u6570%u8fbe MAX_TASKS %u65f6 fork %u8fd4%u56de -1 %u800c%u975e%u5d29%u6e83'']\<rparr>\<rparr>\<close>

definition PHASES_ZH_CN_3 :: Phase where
  \<open>PHASES_ZH_CN_3 = \<lparr>
    phase_id = 3, phase_week = js ''Phase 3'',
    phase_duration = js ''Week 7 %u00b7 2 labs'',
    phase_title = js ''%u5e76%u53d1%uff1a%u540c%u6b65%u539f%u8bed%u4e0e%u9501'',
    phase_subtitle = js ''Concurrency & Locks'',
    phase_icon = js ''%u25c9'', phase_color = js ''#7C3AED'', phase_accent = js ''#A78BFA'',
    phase_goal = jcat [''%u5728%u62a2%u5360%u5f0f%u8c03%u5ea6%u57fa%u7840%u4e0a%u6784%u5efa%u6b63%u786e%u7684'',
        ''%u540c%u6b65%u539f%u8bed%uff1a%u81ea%u65cb%u9501%u3001%u7761%u7720%u9501%u3001%u4fe1'',
        ''%u53f7%u91cf%u3001%u6761%u4ef6%u53d8%u91cf%uff1b%u76f4%u9762%u6b7b%u9501%u3002''],
    phase_concepts = [js ''race condition %u4e0e%u539f%u5b50%u6027%uff1a%u8bfb-%u6539-%u5199%u7684%u5371%u9669'',
       js ''SpinLock%uff1aAMO + %u5173%u4e2d%u65ad%u4fdd%u8bc1%u7684%u4e34%u754c%u533a'',
       js ''SleepLock%uff1a%u6301%u9501%u65f6%u8ba9%u51fa CPU'',
       js ''Semaphore / Condvar / Mutex %u5c42%u6b21%u4e0e%u5b9e%u73b0'',
       js ''%u6b7b%u9501%u56db%u6761%u4ef6%u3001%u9501%u6392%u5e8f%u3001lockdep %u601d%u7ef4''],
    phase_readings = [js ''xv6-riscv Ch. 6'',
       js ''OSTEP Ch. 28-31'',
       js ''Linux Kernel Development Ch. 10''],
    phase_deliverable = \<lparr>
      deliverable_name = js ''tinyos-sync'',
      deliverable_desc = jcat [''%u4e00%u6574%u5957%u53ef%u5728%u5185%u6838%u4e0e%u7528%u6237%u6001%u590d%u7528%u7684'',
          ''%u540c%u6b65%u539f%u8bed%uff1aSpinLock / SleepLock / Semaphore / Condvar + '',
          ''%u7ecf%u5178 demo%u3002''],
      deliverable_acceptance = [jcat [''%u5e76%u53d1%u8ba1%u6570%u6d4b%u8bd5%uff1a10 %u4efb%u52a1 %u00d7 10000 '',
           ''%u6b21%u9012%u589e%u7ed3%u679c%u7cbe%u786e''],
         js ''%u54f2%u5b66%u5bb6%u5c31%u9910 demo %u65e0%u6b7b%u9501%u8fd0%u884c 60s'',
         js ''SpinLock %u6301%u9501%u65f6%u62d2%u7edd%u518d%u6b21%u62a2%u5360'',
         js ''semaphore %u7684 up/down %u901a%u8fc7 stress test'']\<rparr>\<rparr>\<close>

definition PHASES_ZH_CN_4 :: Phase where
  \<open>PHASES_ZH_CN_4 = \<lparr>
    phase_id = 4, phase_week = js ''Phase 4'',
    phase_duration = js ''Week 8-9 %u00b7 3 labs'',
    phase_title = js ''%u5185%u5b58%uff1a%u865a%u62df%u5185%u5b58%u4e0e%u5206%u9875'',
    phase_subtitle = js ''Virtual Memory & Paging'',
    phase_icon = js ''%u2b22'', phase_color = js ''#2563EB'', phase_accent = js ''#60A5FA'',
    phase_goal = jcat [''%u542f%u7528 SV39 %u5206%u9875%uff0c%u8ba9%u6bcf%u4e2a%u8fdb%u7a0b%u62e5%u6709%u72ec'',
        ''%u7acb%u5730%u5740%u7a7a%u95f4%u3002%u624b%u5199%u9875%u8868%u3001%u7269%u7406%u5e27'',
        ''%u5206%u914d%u3001%u5185%u6838/%u7528%u6237%u7a7a%u95f4%u5206%u79bb%u3002''],
    phase_concepts = [js ''SV39 %u4e09%u7ea7%u9875%u8868%uff1aVPN[2:0] %u2192 PPN%uff0c9/9/9/12 %u5e03%u5c40'',
       js ''PTE flags%uff1aV/R/W/X/U/G/A/D %u8bed%u4e49'',
       js ''%u7269%u7406%u5e27%u5206%u914d%u5668%uff08stack allocator%uff09'',
       js ''%u5185%u6838%u7a7a%u95f4 trampoline + %u7528%u6237 trap context %u9875'',
       js ''copy_from_user / copy_to_user %u8de8%u7a7a%u95f4%u8bbf%u5b58''],
    phase_readings = [js ''xv6-riscv Ch. 3'',
       js ''rCore-Tutorial %u00a74'',
       js ''RISC-V Priv Spec Ch. 10''],
    phase_deliverable = \<lparr>
      deliverable_name = js ''tinyos-vm'',
      deliverable_desc = jcat [''%u5b8c%u6574%u865a%u62df%u5185%u5b58%u5b50%u7cfb%u7edf%uff1aFrameAllocator + '',
          ''MemorySet + %u72ec%u7acb satp + mmap/munmap + page fault %u5904%u7406%u3002''],
      deliverable_acceptance = [jcat [''%u6bcf%u4e2a%u7528%u6237%u8fdb%u7a0b%u62e5%u6709%u72ec%u7acb%u5730%u5740%u7a7a%u95f4'',
           ''%uff0c%u6307%u9488%u4e92%u4e0d%u51b2%u7a81''],
         js ''%u8d8a%u754c%u8bbf%u95ee%u89e6%u53d1 page fault %u5e76%u88ab kill'',
         js ''sys_mmap %u80fd%u6309%u9875%u7c92%u5ea6%u5206%u914d%u4e0e%u5f52%u8fd8'',
         js ''trampoline %u9875%u5728%u6240%u6709%u5730%u5740%u7a7a%u95f4%u540c%u5730%u5740%u6620%u5c04'']\<rparr>\<rparr>\<close>

definition PHASES_ZH_CN_5 :: Phase where
  \<open>PHASES_ZH_CN_5 = \<lparr>
    phase_id = 5, phase_week = js ''Phase 5'',
    phase_duration = js ''Week 10-11 %u00b7 3 labs'',
    phase_title = js ''%u5b58%u50a8%uff1a%u5757%u8bbe%u5907%u4e0e%u6587%u4ef6%u7cfb%u7edf'',
    phase_subtitle = js ''Block Device & File System'',
    phase_icon = js ''%u2b23'', phase_color = js ''#DC2626'', phase_accent = js ''#F87171'',
    phase_goal = jcat [''%u4ece%u96f6%u642d%u5efa%u7b80%u5316%u7248 Unix '',
        ''%u6587%u4ef6%u7cfb%u7edf%uff1aVirtIO %u5757%u9a71%u52a8 %u2192 BlockCache %u2192 %u4f4d%u56fe/Inode %u2192 %u76ee%u5f55 '',
        ''%u2192 VFS%u3002''],
    phase_concepts = [js ''VirtIO Block %u534f%u8bae%u4e0e MMIO %u5bc4%u5b58%u5668'',
       js ''%u78c1%u76d8%u5206%u5c42%uff1asuperblock / bitmap / inodes / data'',
       js ''BlockCache%uff1aLRU + %u5199%u56de'',
       js ''Inode %u62bd%u8c61%u4e0e%u76ee%u5f55%u9879%u67e5%u627e/%u521b%u5efa'',
       js ''VFS%uff1aFile trait %u7edf%u4e00 stdin/stdout/%u6587%u4ef6''],
    phase_readings = [js ''xv6-riscv Ch. 8'',
       js ''OSTEP Ch. 39-40'',
       js ''rCore-Tutorial %u00a76''],
    phase_deliverable = \<lparr>
      deliverable_name = js ''tinyos-fs'',
      deliverable_desc = jcat [''%u53ef%u683c%u5f0f%u5316 + %u53ef%u8bfb%u5199 + %u53ef%u6301%u4e45%u5316%u7684 '',
          ''easy-fs%uff1amkfs %u5de5%u5177 + virtio-blk + open/read/write/close/fstat%u3002''],
      deliverable_acceptance = [jcat [''%u521b%u5efa%u3001%u8bfb%u5199%u3001%u5173%u95ed%u6587%u4ef6%u540e%u91cd%u542f%u6570'',
           ''%u636e%u4ecd%u5728''],
         js ''1MB %u6587%u4ef6%u987a%u5e8f%u8bfb%u5199%u541e%u5410 %u2265 2MB/s'',
         js ''block cache %u547d%u4e2d%u7387%u65e5%u5fd7%u53ef%u89c2%u6d4b'',
         js ''%u6587%u4ef6%u7cfb%u7edf%u955c%u50cf%u683c%u5f0f%u6709%u5b8c%u6574 spec'']\<rparr>\<rparr>\<close>

definition PHASES_ZH_CN_6 :: Phase where
  \<open>PHASES_ZH_CN_6 = \<lparr>
    phase_id = 6, phase_week = js ''Phase 6'',
    phase_duration = js ''Week 12 %u00b7 3 labs'',
    phase_title = js ''%u4ea7%u54c1%uff1aShell%u3001%u7ba1%u9053%u4e0e%u7528%u6237%u7a0b%u5e8f'',
    phase_subtitle = js ''Shell, Pipes & User Programs'',
    phase_icon = js ''%u2726'', phase_color = js ''#DB2777'', phase_accent = js ''#F472B6'',
    phase_goal = jcat [''%u628a%u4e00%u5207%u6253%u5305%u6210%u771f%u6b63%u7684 Unix '',
        ''%u4f53%u9a8c%uff1a%u4ece /bin/init %u542f%u52a8 shell%uff0c%u652f%u6301 fork/exec%u3001I/O '',
        ''%u91cd%u5b9a%u5411%u3001%u7ba1%u9053%uff0c%u5185%u7f6e%u4e00%u7ec4 coreutils%u3002''],
    phase_concepts = [js ''sys_fork / sys_exec / sys_waitpid %u5b8c%u6574%u8bed%u4e49'',
       js ''%u6587%u4ef6%u63cf%u8ff0%u7b26%u8868%u4e0e stdin/stdout/stderr'',
       js ''sys_dup / %u91cd%u5b9a%u5411%uff08>%u3001<%u3001>>%uff09'',
       jcat [''Pipe%uff1a%u5185%u6838%u73af%u5f62%u7f13%u51b2 + '',
         ''%u8bfb%u5199%u7aef%u5f15%u7528%u8ba1%u6570''],
       js ''Shell %u884c%u89e3%u6790%uff1a%u547d%u4ee4%u6d41%u3001%u7ba1%u9053%u3001%u540e%u53f0 &''],
    phase_readings = [js ''xv6-riscv Ch. 1'',
       js ''APUE Ch. 15'',
       js ''rCore-Tutorial %u00a77''],
    phase_deliverable = \<lparr>
      deliverable_name = js ''tinyos v1.0'',
      deliverable_desc = jcat [''%u4e00%u4e2a%u81ea%u4e3e%u7684%u5c0f%u578b Unix%uff1a/bin/init %u2192 /bin/sh + 8 '',
          ''%u4e2a coreutils + %u7ba1%u9053 + %u91cd%u5b9a%u5411%uff0c%u53ef%u53d1%u5e03%u5230 '',
          ''GitHub%u3002''],
      deliverable_acceptance = [jcat [''cold boot %u540e%u8fdb%u5165%u4ea4%u4e92%u5f0f '',
           ''shell%uff0c%u53ef%u6267%u884c%u6240%u6709%u5185%u7f6e%u547d%u4ee4''],
         js ''%u4e09%u7ea7%u7ba1%u9053 cat f | grep x | wc -l %u7ed3%u679c%u6b63%u786e'',
         js ''%u91cd%u542f%u540e%u6587%u4ef6%u7cfb%u7edf%u6570%u636e%u6301%u4e45'',
         js ''%u603b%u4ee3%u7801 %u2264 8000 %u884c Rust + 200 %u884c%u6c47%u7f16'']\<rparr>\<rparr>\<close>

definition PHASES_ZH_CN :: "Phase list" where
  \<open>PHASES_ZH_CN = [PHASES_ZH_CN_0, PHASES_ZH_CN_1, PHASES_ZH_CN_2, PHASES_ZH_CN_3, PHASES_ZH_CN_4, PHASES_ZH_CN_5, PHASES_ZH_CN_6]\<close>

section \<open>Phases, English\<close>

definition PHASES_EN_0 :: Phase where
  \<open>PHASES_EN_0 = \<lparr>
    phase_id = 0, phase_week = js ''Phase 0'',
    phase_duration = js ''Week 1-2 %u00b7 3 labs'',
    phase_title = js ''Boot: From Power-On to rust_main'',
    phase_subtitle = js ''Boot & Kernel Entry'',
    phase_icon = js ''%u2b21'', phase_color = js ''#E8453C'', phase_accent = js ''#FF6B5E'',
    phase_goal = jcat [''Understand the RISC-V machine model, take over from OpenSBI, set up the stack, '',
        ''clear BSS, and land in Rust with your first println!.''],
    phase_concepts = [js ''RISC-V privilege levels: M-mode / S-mode / U-mode'',
       js ''Linker script & kernel memory layout (.text/.rodata/.bss/stack)'',
       js ''Bare-metal Rust: no_std / no_main / panic_handler'',
       js ''UART & SBI calling convention'',
       js ''QEMU boot flow & gdb-remote debugging''],
    phase_readings = [js ''xv6-riscv book Ch.1-2'',
       js ''rCore-Tutorial %u00a71'',
       js ''RISC-V Privileged Spec v1.12''],
    phase_deliverable = \<lparr>
      deliverable_name = js ''tinyos-boot'',
      deliverable_desc = jcat [''A bare-metal Rust kernel that boots on QEMU RISC-V virt: custom linker script, '',
          ''assembly trampoline, SBI console, panic handler.''],
      deliverable_acceptance = [js ''make qemu prints "Hello, TinyOS!" on the UART'',
         js ''panic!() emits file+line and shuts down gracefully'',
         js ''Linker script defines all four sections; BSS zeroed at startup'',
         js ''gdb can single-step from 0x80200000'']\<rparr>\<rparr>\<close>

definition PHASES_EN_1 :: Phase where
  \<open>PHASES_EN_1 = \<lparr>
    phase_id = 1, phase_week = js ''Phase 1'',
    phase_duration = js ''Week 3-4 %u00b7 3 labs'',
    phase_title = js ''Traps: Privilege Crossings & Syscalls'',
    phase_subtitle = js ''Traps & Syscalls'',
    phase_icon = js ''%u25c8'', phase_color = js ''#D97706'', phase_accent = js ''#F59E0B'',
    phase_goal = jcat [''Implement the full U-mode %u2194 S-mode trap path: save context, dispatch the '',
        ''cause, execute syscalls, return.''],
    phase_concepts = [js ''stvec / sepc / scause / stval / sstatus semantics'',
       js ''TrapContext design + save/restore asm (__alltraps / __restore)'',
       js ''ecall ABI (a7=sysno, a0-a5=args, a0=ret)'',
       js ''Exception vs interrupt classification'',
       js ''First syscalls: write / exit / getpid''],
    phase_readings = [js ''xv6-riscv book Ch.4'',
       js ''rCore-Tutorial %u00a73'',
       js ''RISC-V ISA Manual Vol II''],
    phase_deliverable = \<lparr>
      deliverable_name = js ''tinyos-trap'',
      deliverable_desc = js ''A trap subsystem capable of running a U-mode program that returns to the kernel via ecall.'',
      deliverable_acceptance = [js ''User program prints a string via sys_write'',
         js ''Illegal-instruction / page-fault caught with scause+sepc'',
         js ''All GP regs preserved across a full trap round trip'',
         js ''Syscall table centralised in syscall/mod.rs'']\<rparr>\<rparr>\<close>

definition PHASES_EN_2 :: Phase where
  \<open>PHASES_EN_2 = \<lparr>
    phase_id = 2, phase_week = js ''Phase 2'',
    phase_duration = js ''Week 5-6 %u00b7 3 labs'',
    phase_title = js ''Processes: Task Abstraction & Scheduling'',
    phase_subtitle = js ''Process & Scheduling'',
    phase_icon = js ''%u25c7'', phase_color = js ''#059669'', phase_accent = js ''#34D399'',
    phase_goal = jcat [''From single-task to multi-task: PCB, __switch assembly, timer-driven preemption, a '',
        ''minimal extensible scheduler.''],
    phase_concepts = [js ''Task Control Block state machine (Ready/Running/Zombie)'',
       js ''__switch: callee-saved regs + ra + sp precise swap'',
       js ''Timer interrupt (sbi_set_timer) + Round-Robin slice'',
       js ''yield / sleep / exit kernel primitives'',
       js ''Idle task + scheduler loop skeleton''],
    phase_readings = [js ''OSTEP Ch.5-10'',
       js ''xv6-riscv Ch.7'',
       js ''rCore-Tutorial %u00a73''],
    phase_deliverable = \<lparr>
      deliverable_name = js ''tinyos-proc'',
      deliverable_desc = jcat [''Scheduler kernel running N user tasks concurrently with 10ms RR slices and minimal '',
          ''fork/exec/wait/exit.''],
      deliverable_acceptance = [js ''3 user apps interleave visibly on the UART'',
         js ''__switch survives 200+ cycles stress test with no reg loss'',
         js ''Parent wait correctly reaps zombie children'',
         js ''fork returns -1 (not crash) at MAX_TASKS'']\<rparr>\<rparr>\<close>

definition PHASES_EN_3 :: Phase where
  \<open>PHASES_EN_3 = \<lparr>
    phase_id = 3, phase_week = js ''Phase 3'',
    phase_duration = js ''Week 7 %u00b7 2 labs'',
    phase_title = js ''Concurrency: Sync Primitives & Locks'',
    phase_subtitle = js ''Concurrency & Locks'',
    phase_icon = js ''%u25c9'', phase_color = js ''#7C3AED'', phase_accent = js ''#A78BFA'',
    phase_goal = jcat [''Build correct synchronization on top of preemption: SpinLock, SleepLock, Semaphore, '',
        ''Condvar %u2014 face deadlock head-on.''],
    phase_concepts = [js ''Race conditions & atomicity: the read-modify-write hazard'',
       js ''SpinLock: AMO + disabled interrupts bound the critical section'',
       js ''SleepLock: yield CPU while holding the lock'',
       js ''Semaphore / Condvar / Mutex hierarchy'',
       js ''Coffman conditions, lock ordering, lockdep mindset''],
    phase_readings = [js ''xv6-riscv Ch.6'',
       js ''OSTEP Ch.28-31'',
       js ''Linux Kernel Development Ch.10''],
    phase_deliverable = \<lparr>
      deliverable_name = js ''tinyos-sync'',
      deliverable_desc = jcat [''A full suite of kernel-reusable sync primitives + classic demos (producer-consumer, '',
          ''philosophers).''],
      deliverable_acceptance = [js ''10 tasks %u00d7 10000 increments %u2192 exactly 100000'',
         js ''Dining philosophers runs 60s with no deadlock'',
         js ''SpinLock refuses re-preemption while held'',
         js ''Semaphore up/down passes stress tests'']\<rparr>\<rparr>\<close>

definition PHASES_EN_4 :: Phase where
  \<open>PHASES_EN_4 = \<lparr>
    phase_id = 4, phase_week = js ''Phase 4'',
    phase_duration = js ''Week 8-9 %u00b7 3 labs'',
    phase_title = js ''Memory: Virtual Memory & Paging'',
    phase_subtitle = js ''Virtual Memory & Paging'',
    phase_icon = js ''%u2b22'', phase_color = js ''#2563EB'', phase_accent = js ''#60A5FA'',
    phase_goal = jcat [''Enable SV39 so each process owns its address space. Hand-write page tables, frame '',
        ''allocator, kernel/user separation.''],
    phase_concepts = [js ''SV39 3-level walk: VPN[2:0] %u2192 PPN, 9/9/9/12 split'',
       js ''PTE flags: V/R/W/X/U/G/A/D'',
       js ''Physical frame allocator (stack allocator)'',
       js ''Kernel trampoline + user TRAP_CONTEXT page'',
       js ''Safe copy_from_user / copy_to_user''],
    phase_readings = [js ''xv6-riscv Ch.3'',
       js ''rCore-Tutorial %u00a74'',
       js ''RISC-V Priv Spec Ch.10''],
    phase_deliverable = \<lparr>
      deliverable_name = js ''tinyos-vm'',
      deliverable_desc = jcat [''A complete VM subsystem: FrameAllocator + MemorySet + per-proc satp + mmap/munmap + '',
          ''page-fault handling.''],
      deliverable_acceptance = [js ''Each user process has its own address space; pointers don't alias'',
         js ''OOB access triggers a page fault and kills the process'',
         js ''sys_mmap allocates and returns memory at page granularity'',
         js ''Trampoline page mapped at the same VA in every address space'']\<rparr>\<rparr>\<close>

definition PHASES_EN_5 :: Phase where
  \<open>PHASES_EN_5 = \<lparr>
    phase_id = 5, phase_week = js ''Phase 5'',
    phase_duration = js ''Week 10-11 %u00b7 3 labs'',
    phase_title = js ''Storage: Block Device & File System'',
    phase_subtitle = js ''Block Device & File System'',
    phase_icon = js ''%u2b23'', phase_color = js ''#DC2626'', phase_accent = js ''#F87171'',
    phase_goal = jcat [''Build a simplified Unix FS from scratch: VirtIO block driver %u2192 block cache '',
        ''%u2192 bitmap/inode %u2192 directory %u2192 VFS.''],
    phase_concepts = [js ''VirtIO block protocol over MMIO'',
       js ''Disk layout: superblock / bitmaps / inodes / data'',
       js ''BlockCache: LRU + write-back'',
       js ''Inode abstraction + directory lookup/create'',
       js ''VFS: File trait unifies stdin/stdout/file''],
    phase_readings = [js ''xv6-riscv Ch.8'',
       js ''OSTEP Ch.39-40'',
       js ''rCore-Tutorial %u00a76''],
    phase_deliverable = \<lparr>
      deliverable_name = js ''tinyos-fs'',
      deliverable_desc = jcat [''Formattable + read/write + persistent easy-fs: mkfs tool + virtio-blk + '',
          ''open/read/write/close/fstat.''],
      deliverable_acceptance = [js ''Create/write/close a file %u2014 after reboot the data is still there'',
         js ''1MB sequential IO throughput %u2265 2MB/s on cache hit'',
         js ''Block-cache hit-rate log is observable'',
         js ''On-disk format has a full spec document'']\<rparr>\<rparr>\<close>

definition PHASES_EN_6 :: Phase where
  \<open>PHASES_EN_6 = \<lparr>
    phase_id = 6, phase_week = js ''Phase 6'',
    phase_duration = js ''Week 12 %u00b7 3 labs'',
    phase_title = js ''Userland: Shell, Pipes & Coreutils'',
    phase_subtitle = js ''Shell, Pipes & User Programs'',
    phase_icon = js ''%u2726'', phase_color = js ''#DB2777'', phase_accent = js ''#F472B6'',
    phase_goal = jcat [''Package everything into a real Unix experience: /bin/init %u2192 /bin/sh with '',
        ''fork/exec, I/O redirection, pipes, and coreutils.''],
    phase_concepts = [js ''Full sys_fork / sys_exec / sys_waitpid semantics'',
       js ''File-descriptor table + stdin/stdout/stderr'',
       js ''sys_dup + redirection (>, <, >>)'',
       js ''Pipe: kernel ring buffer + Weak<> read/write refcounts'',
       js ''Shell line parser: pipelines, redirects, background &''],
    phase_readings = [js ''xv6-riscv Ch.1'',
       js ''APUE Ch.15'',
       js ''rCore-Tutorial %u00a77''],
    phase_deliverable = \<lparr>
      deliverable_name = js ''tinyos v1.0'',
      deliverable_desc = jcat [''A self-hosting mini Unix: /bin/init %u2192 /bin/sh + 8 coreutils + pipes + '',
          ''redirection %u2014 ship it on GitHub.''],
      deliverable_acceptance = [js ''Cold boot drops you into an interactive shell running all builtins'',
         js ''cat f | grep x | wc -l produces the correct result'',
         js ''FS survives reboot'',
         js ''Total %u2264 8000 lines Rust + 200 lines asm, with tests & CI'']\<rparr>\<rparr>\<close>

definition PHASES_EN :: "Phase list" where
  \<open>PHASES_EN = [PHASES_EN_0, PHASES_EN_1, PHASES_EN_2, PHASES_EN_3, PHASES_EN_4, PHASES_EN_5, PHASES_EN_6]\<close>

section \<open>Readers\<close>

definition PHASES_MAP :: "Phase list obj" where
  \<open>PHASES_MAP = [(zh_CN, PHASES_ZH_CN), (zh_TW, PHASES_ZH_CN), (en_locale, PHASES_EN)]\<close>

definition getPhases :: "jstring \<Rightarrow> Phase list jsval" where
  "getPhases locale = (case prop_get PHASES_MAP locale of Some v \<Rightarrow> v | None \<Rightarrow> Own PHASES_ZH_CN)"

definition PRINCIPLES_ZH_CN :: "Principle list" where
  \<open>PRINCIPLES_ZH_CN = [\<lparr>principle_num = js ''01'', principle_title = js ''%u4ece%u88f8%u673a%u8dd1%u8d77%u6765%uff0c%u518d%u8c08%u62bd%u8c61'',
      principle_desc = jcat [''%u4e0d%u8981%u4e00%u4e0a%u6765%u5c31%u6284 Linux '',
         ''%u7684%u8bbe%u8ba1%u6587%u6863%u3002%u5148%u8ba9%u5185%u6838%u5728 QEMU %u4e0a%u70b9%u4eae%u4e00%u6761 '',
         ''println!%uff0c%u6bcf%u52a0%u4e00%u5c42%u4ee3%u7801%u90fd%u80fd%u7acb%u523b%u8dd1%u3001%u7acb'',
         ''%u523b%u770b%u7ed3%u679c%u3002%u80fd%u8dd1%u7684 100 '',
         ''%u884c%u80dc%u8fc7%u5b8c%u7f8e%u7684 10000 %u884c%u8bbe%u8ba1%u7a3f%u3002''],
      principle_color = js ''#E8453C''\<rparr>,
     \<lparr>principle_num = js ''02'', principle_title = js ''%u6bcf%u4e00%u5c42%u72ec%u7acb%u53ef%u6d4b'',
      principle_desc = jcat [''%u8c03%u5ea6%u5668%u4e0d%u4f9d%u8d56 VM%uff0cVM %u4e0d%u4f9d%u8d56 '',
         ''FS%u3002%u6bcf%u4e2a Phase %u7ed3%u675f%u540e%u90fd%u662f%u4e00%u4e2a%u53ef%u4ee5%u51bb%u7ed3'',
         ''%u7684%u5feb%u7167%uff0c%u4e0b%u4e00%u9636%u6bb5%u51fa%u95ee%u9898%u65f6%u53ef%u4ee5'',
         ''%u56de%u5230%u8fd9%u91cc%u9694%u79bb%u6392%u67e5%u3002Bottom-up '',
         ''%u5206%u5c42%u4e0d%u662f%u4e3a%u4e86%u6f02%u4eae%uff0c%u662f%u4e3a%u4e86%u8c03%u8bd5%u3002''],
      principle_color = js ''#D97706''\<rparr>,
     \<lparr>principle_num = js ''03'', principle_title = js ''scause / sepc %u662f%u8c03%u8bd5%u7684%u7f57%u76d8'',
      principle_desc = jcat [''OS %u7684 bug %u4e0d%u4f1a%u7ed9%u4f60%u53cb%u597d%u7684%u9519%u8bef%u4fe1%u606f'',
         ''%u2014%u2014%u53ea%u6709%u4e00%u6761 trap %u548c%u51e0%u4e2a%u5bc4%u5b58%u5668%u3002'',
         ''%u517b%u6210%u7b2c%u4e00%u53cd%u5e94%u770b scause/sepc/stval '',
         ''%u7684%u4e60%u60ef%uff0cQEMU+gdb %u662f%u5fc5%u5907%u80fd%u529b%uff0c%u800c%u4e0d%u662f%u6700%u540e'',
         ''%u624b%u6bb5%u3002''],
      principle_color = js ''#059669''\<rparr>,
     \<lparr>principle_num = js ''04'', principle_title = js ''%u5148%u6b63%u786e%uff0c%u518d%u5e76%u53d1%uff0c%u6700%u540e%u6027%u80fd'',
      principle_desc = jcat [''%u5e76%u53d1 bug %u662f%u6700%u96be%u590d%u73b0%u7684%u3002%u5355%u6838%u8dd1%u901a'',
         ''%u529f%u80fd %u2192 %u518d%u52a0%u62a2%u5360 %u2192 %u518d%u4e0a%u9501 %u2192 '',
         ''%u518d%u8c08%u6027%u80fd%u3002%u8df3%u8fc7%u4efb%u4f55%u4e00%u6b65%uff0c%u540e%u7eed%u8c03'',
         ''%u8bd5%u6210%u672c%u4f1a%u6307%u6570%u7ea7%u4e0a%u5347%u3002''],
      principle_color = js ''#7C3AED''\<rparr>,
     \<lparr>principle_num = js ''05'', principle_title = js ''%u7528%u6237%u6001%u53ef%u89c1%u624d%u662f%u771f%u7684%u5b8c%u6210'',
      principle_desc = jcat [''%u4efb%u4f55%u5185%u6838%u7279%u6027%u2014%u2014fork%u3001mmap%u3001open%u2014%u2014'',
         ''%u53ea%u6709%u80fd%u88ab%u7528%u6237%u7a0b%u5e8f%u901a%u8fc7 syscall '',
         ''%u6b63%u786e%u4f7f%u7528%uff0c%u624d%u7b97%u771f%u6b63%u5b8c%u6210%u3002%u6bcf%u4e2a Phase '',
         ''%u90fd%u8981%u6709%u7528%u6237 demo%uff0c%u4e0d%u80fd%u505c%u5728"%u5185%u6838%u91cc'',
         ''%u6d4b%u8fc7%u4e86"%u3002''],
      principle_color = js ''#2563EB''\<rparr>]\<close>

definition PRINCIPLES_EN :: "Principle list" where
  \<open>PRINCIPLES_EN = [\<lparr>principle_num = js ''01'', principle_title = js ''Boot it before you abstract it'',
      principle_desc = jcat [''Don't start by copying Linux's design docs. Light up a println! in QEMU first; '',
         ''every new layer must immediately run and show results. 100 lines that run beat 10,000 '',
         ''lines of perfect paperware.''],
      principle_color = js ''#E8453C''\<rparr>,
     \<lparr>principle_num = js ''02'', principle_title = js ''Each layer testable in isolation'',
      principle_desc = jcat [''The scheduler doesn't depend on VM; VM doesn't depend on FS. Each phase ends at a '',
         ''freeze-able snapshot you can return to when the next phase breaks. Bottom-up layering '',
         ''is about debuggability, not aesthetics.''],
      principle_color = js ''#D97706''\<rparr>,
     \<lparr>principle_num = js ''03'', principle_title = js ''scause / sepc is your compass'',
      principle_desc = jcat [''OS bugs don't come with friendly error messages %u2014 just a trap and a few '',
         ''registers. Train the reflex to read scause/sepc/stval first; QEMU+gdb is a required skill, '',
         ''not a last resort.''],
      principle_color = js ''#059669''\<rparr>,
     \<lparr>principle_num = js ''04'', principle_title = js ''Correctness %u2192 concurrency %u2192 performance'',
      principle_desc = jcat [''Concurrency bugs are the hardest to reproduce. Make it work on one core, then '',
         ''preempt, then lock, then optimise. Skipping any step makes later debugging exponentially '',
         ''more expensive.''],
      principle_color = js ''#7C3AED''\<rparr>,
     \<lparr>principle_num = js ''05'', principle_title = js ''User-visible = actually done'',
      principle_desc = jcat [''Any kernel feature %u2014 fork, mmap, open %u2014 isn't finished until a user '',
         ''program can use it via syscall correctly. Every phase needs a user demo; "I tested it in '',
         ''the kernel" doesn't count.''],
      principle_color = js ''#2563EB''\<rparr>]\<close>

definition PRINCIPLES_MAP :: "Principle list obj" where
  \<open>PRINCIPLES_MAP = [(zh_CN, PRINCIPLES_ZH_CN), (zh_TW, PRINCIPLES_ZH_CN), (en_locale, PRINCIPLES_EN)]\<close>

definition getPrinciples :: "jstring \<Rightarrow> Principle list jsval" where
  "getPrinciples locale =
     (case prop_get PRINCIPLES_MAP locale of Some v \<Rightarrow> v | None \<Rightarrow> Own PRINCIPLES_ZH_CN)"

section \<open>What the readers return\<close>

text \<open>A supported locale reads its own entry, an unknown name the Chinese default, and a property name
  of \<open>Object.prototype\<close> the inherited built-in, which is not an array.\<close>

lemma PHASES_MAP_locale:
  "map_of PHASES_MAP l = (if l = zh_CN \<or> l = zh_TW then Some PHASES_ZH_CN
     else if l = en_locale then Some PHASES_EN else None)"
  by (simp add: PHASES_MAP_def)

lemma PRINCIPLES_MAP_locale:
  "map_of PRINCIPLES_MAP l = (if l = zh_CN \<or> l = zh_TW then Some PRINCIPLES_ZH_CN
     else if l = en_locale then Some PRINCIPLES_EN else None)"
  by (simp add: PRINCIPLES_MAP_def)

lemma getPhases_eq:
  "getPhases l = (if l \<in> set object_prototype then Inherited l
     else Own (if l = en_locale then PHASES_EN else PHASES_ZH_CN))"
  using locale_not_inherited [of l]
  by (auto simp: getPhases_def prop_get_def PHASES_MAP_locale Locale_def)

lemma getPrinciples_eq:
  "getPrinciples l = (if l \<in> set object_prototype then Inherited l
     else Own (if l = en_locale then PRINCIPLES_EN else PRINCIPLES_ZH_CN))"
  using locale_not_inherited [of l]
  by (auto simp: getPrinciples_def prop_get_def PRINCIPLES_MAP_locale Locale_def)

lemma phases_ids [site_shape]:
  "map phase_id PHASES_ZH_CN = [0..<7]" "map phase_id PHASES_EN = [0..<7]"
  by (simp_all add: upt_rec PHASES_ZH_CN_def PHASES_EN_def
      PHASES_ZH_CN_0_def PHASES_ZH_CN_1_def PHASES_ZH_CN_2_def PHASES_ZH_CN_3_def PHASES_ZH_CN_4_def PHASES_ZH_CN_5_def PHASES_ZH_CN_6_def
      PHASES_EN_0_def PHASES_EN_1_def PHASES_EN_2_def PHASES_EN_3_def PHASES_EN_4_def PHASES_EN_5_def PHASES_EN_6_def)

lemma phases_length [site_shape]: "length PHASES_ZH_CN = 7" "length PHASES_EN = 7"
  by (simp_all add: PHASES_ZH_CN_def PHASES_EN_def)

lemma principles_length [site_shape]: "length PRINCIPLES_ZH_CN = 5" "length PRINCIPLES_EN = 5"
  by (simp_all add: PRINCIPLES_ZH_CN_def PRINCIPLES_EN_def)

lemma architecture_length [site_shape]: "length (architecture_layers getArchitecture) = 7"
  by (simp add: getArchitecture_def ARCHITECTURE_def)

end
