(* ===== verification/Roadmap_Page.thy ===== *)
theory Roadmap_Page
  imports Vdom I18n Content_Index Roadmap_Data
begin

text \<open>
  The home page: \<open>website/src/components/CourseRoadmap.tsx\<close> with the language switcher in its header
  (\<open>LanguageSwitcher.tsx\<close>). \<open>CourseRoadmap\<close> is the render function from the locale and the two state
  hooks to the element tree, or the error it throws; its parts follow the order of the source.
\<close>

section \<open>The language switcher\<close>

definition LOCALES :: "(jstring \<times> jstring) list" where
  "LOCALES = [(zh_CN, js ''lang.zhCN''), (zh_TW, js ''lang.zhTW''), (en_locale, js ''lang.en'')]"

definition LanguageSwitcher :: "jstring \<Rightarrow> vnode" where
  \<open>LanguageSwitcher locale =
    Elem ''div''
       [Style [(''display'', CssStr (js ''inline-flex'')), (''gap'', CssNum 2),
             (''padding'', CssNum 2), (''background'', CssStr (js ''rgba(228,228,231,0.06)'')),
             (''border'', CssStr (js ''1px solid rgba(228,228,231,0.08)'')),
             (''borderRadius'', CssNum 6)]]
      (map (\<lambda>(key, labelKey). let isActive = (locale = key) in
         Elem ''button''
            [Key key,
             OnClick (SetLocale key),
             Style [(''padding'', CssStr (js ''4px 10px'')),
                  (''background'', if isActive then CssStr (js ''rgba(228,228,231,0.12)'')
                    else CssStr (js ''transparent'')),
                  (''border'', CssStr (js ''1px solid'')),
                  (''borderColor'', if isActive then CssStr (js ''rgba(228,228,231,0.15)'')
                    else CssStr (js ''transparent'')),
                  (''borderRadius'', CssNum 4),
                  (''color'', if isActive then CssStr (js ''#E4E4E7'') else CssStr (js ''#52525B'')),
                  (''fontSize'', CssNum 11), (''cursor'', CssStr (js ''pointer'')),
                  (''fontFamily'', CssStr (js ''%27JetBrains Mono', 'SF Mono', 'Fira Code', monospace'')),
                  (''transition'', CssStr (js ''all 0.2s'')), (''lineHeight'', CssNum (14 / 10))]]
           [Text (translate locale labelKey [])])
         LOCALES)\<close>

section \<open>State\<close>

record roadmap_state =
  activePhase :: "nat option"
  activeTab :: jstring

definition roadmap_state_init :: roadmap_state where
  "roadmap_state_init = \<lparr>activePhase = None, activeTab = js ''roadmap''\<rparr>"

section \<open>The page, part by part\<close>

definition CourseRoadmap_github :: "vnode" where
  \<open>CourseRoadmap_github =
    Elem ''a''
       [Attr ''href'' (js ''https://github.com/catundercar/building-effective-agents''),
        Attr ''target'' (js ''_blank''),
        Attr ''rel'' (js ''noopener noreferrer''),
        Attr ''title'' (js ''GitHub''),
        Style [(''display'', CssStr (js ''flex'')), (''alignItems'', CssStr (js ''center'')),
             (''justifyContent'', CssStr (js ''center'')), (''width'', CssNum 36),
             (''height'', CssNum 36), (''borderRadius'', CssNum 6),
             (''border'', CssStr (js ''1px solid rgba(228,228,231,0.12)'')),
             (''background'', CssStr (js ''rgba(228,228,231,0.05)'')),
             (''color'', CssStr (js ''#71717A'')), (''textDecoration'', CssStr (js ''none'')),
             (''transition'', CssStr (js ''all 0.2s''))],
        OnMouseEnter [(''color'', CssStr (js ''#E4E4E7'')),
           (''borderColor'', CssStr (js ''rgba(228,228,231,0.25)'')),
           (''background'', CssStr (js ''rgba(228,228,231,0.1)''))],
        OnMouseLeave [(''color'', CssStr (js ''#71717A'')),
           (''borderColor'', CssStr (js ''rgba(228,228,231,0.12)'')),
           (''background'', CssStr (js ''rgba(228,228,231,0.05)''))]]
      [Elem ''svg''
          [Attr ''width'' (js ''18''),
           Attr ''height'' (js ''18''),
           Attr ''viewBox'' (js ''0 0 24 24''),
           Attr ''fill'' (js ''currentColor'')]
         [Elem ''path''
             [Attr ''d'' (jcat [''M12 2C6.477 2 2 6.484 2 12.017c0 4.425 2.865 8.18 6.839 '',
                    ''9.504.5.092.682-.217.682-.483 0-.237-.008-.868-.013-1.703-2.782.605-3.369-1.343-3.369-1.343-.454-1.158-1.11-1.46'',
                    ''6-1.11-1.466-.908-.62.069-.608.069-.608 1.003.07 1.531 1.032 1.531 1.032.892 1.53 '',
                    ''2.341 1.088 2.91.832.092-.647.35-1.088.636-1.338-2.22-.253-4.555-1.113-4.555-4.951 '',
                    ''0-1.093.39-1.988 1.029-2.688-.103-.253-.446-1.272.098-2.65 0 0 .84-.27 2.75 '',
                    ''1.026A9.564 9.564 0 0 1 12 6.844a9.59 9.59 0 0 1 2.504.337c1.909-1.296 2.747-1.027 '',
                    ''2.747-1.027.546 1.379.202 2.398.1 2.651.64.7 1.028 1.595 1.028 2.688 0 3.848-2.339 4.695-4.566 '',
                    ''4.943.359.309.678.92.678 1.855 0 1.338-.012 2.419-.012 2.747 0 '',
                    ''.268.18.58.688.482A10.02 10.02 0 0 0 22 12.017C22 6.484 17.522 2 12 2z''])]
            []]]\<close>

definition CourseRoadmap_header :: "jstring \<Rightarrow> message_fn \<Rightarrow> roadmap_state \<Rightarrow> vnode" where
  \<open>CourseRoadmap_header locale tr st =
    Elem ''header''
       [Style [(''position'', CssStr (js ''relative'')), (''zIndex'', CssNum 10),
             (''padding'', CssStr (js ''48px 32px 24px'')),
             (''borderBottom'', CssStr (js ''1px solid rgba(228,228,231,0.08)''))]]
      [Elem ''div''
          [Style [(''maxWidth'', CssNum 960), (''margin'', CssStr (js ''0 auto''))]]
         [Elem ''div''
             [Style [(''display'', CssStr (js ''flex'')),
                   (''justifyContent'', CssStr (js ''space-between'')),
                   (''alignItems'', CssStr (js ''flex-start'')),
                   (''flexWrap'', CssStr (js ''wrap'')), (''gap'', CssNum 12)]]
            [Elem ''div''
                [Style [(''flex'', CssNum 1)]]
               [Elem ''div''
                   [Style [(''display'', CssStr (js ''inline-block'')),
                         (''padding'', CssStr (js ''4px 12px'')),
                         (''background'', CssStr (js ''rgba(232,69,60,0.15)'')),
                         (''border'', CssStr (js ''1px solid rgba(232,69,60,0.3)'')),
                         (''borderRadius'', CssNum 4), (''fontSize'', CssNum 11),
                         (''letterSpacing'', CssStr (js ''0.1em'')),
                         (''color'', CssStr (js ''#E8453C'')), (''marginBottom'', CssNum 16),
                         (''textTransform'', CssStr (js ''uppercase''))]]
                  [Text (tr (js ''header.badge'') [])],
                Elem ''h1''
                   [Style [(''fontSize'', CssNum 36), (''fontWeight'', CssNum 700),
                         (''lineHeight'', CssNum (12 / 10)),
                         (''margin'', CssStr (js ''0 0 8px'')),
                         (''background'', CssStr (js ''linear-gradient(135deg, #E4E4E7 0%25, #A1A1AA 100%25)'')),
                         (''WebkitBackgroundClip'', CssStr (js ''text'')),
                         (''WebkitTextFillColor'', CssStr (js ''transparent''))]]
                  [Text (tr (js ''header.title'') [])],
                Elem ''p''
                   [Style [(''fontSize'', CssNum 15), (''color'', CssStr (js ''#71717A'')),
                         (''margin'', CssNum 0), (''maxWidth'', CssNum 600),
                         (''lineHeight'', CssNum (16 / 10))]]
                  [Text (tr (js ''header.subtitle1'') []),
                   Elem ''br''
                      []
                     [],
                   Text (tr (js ''header.subtitle2'') [])]],
             Elem ''div''
                [Style [(''display'', CssStr (js ''flex'')),
                      (''alignItems'', CssStr (js ''center'')), (''gap'', CssNum 12)]]
               [CourseRoadmap_github,
                LanguageSwitcher locale]],
          Elem ''div''
             [Style [(''display'', CssStr (js ''flex'')), (''gap'', CssNum 2),
                   (''marginTop'', CssNum 32)]]
            (map (\<lambda>tab. 
               Elem ''button''
                  [Key (fst tab),
                   OnClick (SetActiveTab (fst tab)),
                   Style [(''padding'', CssStr (js ''8px 20px'')),
                        (''background'', if activeTab st = fst tab then CssStr (js ''rgba(228,228,231,0.1)'') else CssStr (js ''transparent'')),
                        (''border'', CssStr (js ''1px solid'')),
                        (''borderColor'', if activeTab st = fst tab then CssStr (js ''rgba(228,228,231,0.15)'') else CssStr (js ''transparent'')),
                        (''borderRadius'', CssNum 4),
                        (''color'', if activeTab st = fst tab then CssStr (js ''#E4E4E7'')
                          else CssStr (js ''#52525B'')),
                        (''fontSize'', CssNum 13), (''cursor'', CssStr (js ''pointer'')),
                        (''fontFamily'', CssStr (js ''inherit'')),
                        (''transition'', CssStr (js ''all 0.2s''))]]
                 [Text (snd tab)])
               [(js ''roadmap'', tr (js ''tab.roadmap'') []), (js ''arch'', tr (js ''tab.architecture'') []), (js ''principles'', tr (js ''tab.principles'') [])])]]\<close>

definition CourseRoadmap_phaseButton :: "Phase \<Rightarrow> bool \<Rightarrow> vnode" where
  \<open>CourseRoadmap_phaseButton phase isOpen =
    Elem ''button''
       [OnClick (SetActivePhase (if isOpen then None else Some (phase_id phase))),
        Style [(''display'', CssStr (js ''flex'')), (''alignItems'', CssStr (js ''flex-start'')),
             (''gap'', CssNum 16), (''width'', CssStr (js ''100%25'')),
             (''padding'', CssStr (js ''16px 0'')), (''background'', CssStr (js ''none'')),
             (''border'', CssStr (js ''none'')), (''cursor'', CssStr (js ''pointer'')),
             (''textAlign'', CssStr (js ''left'')), (''fontFamily'', CssStr (js ''inherit''))]]
      [Elem ''div''
          [Style [(''width'', CssNum 40), (''height'', CssNum 40), (''borderRadius'', CssNum 8),
                (''background'', CssStr (phase_color phase @ js ''18'')),
                (''border'', CssStr (js ''1px solid '' @ phase_color phase @ js ''44'')),
                (''display'', CssStr (js ''flex'')), (''alignItems'', CssStr (js ''center'')),
                (''justifyContent'', CssStr (js ''center'')), (''fontSize'', CssNum 18),
                (''flexShrink'', CssNum 0), (''transition'', CssStr (js ''all 0.3s'')),
                (''boxShadow'', if isOpen then CssStr (js ''0 0 20px '' @ phase_color phase
                  @ js ''33'') else CssStr (js ''none''))]]
         [Text (phase_icon phase)],
       Elem ''div''
          [Style [(''flex'', CssNum 1), (''minWidth'', CssNum 0)]]
         [Elem ''div''
             [Style [(''display'', CssStr (js ''flex'')),
                   (''alignItems'', CssStr (js ''baseline'')), (''gap'', CssNum 8),
                   (''flexWrap'', CssStr (js ''wrap''))]]
            [Elem ''span''
                [Style [(''fontSize'', CssNum 11), (''color'', CssStr (phase_color phase)),
                      (''letterSpacing'', CssStr (js ''0.08em'')),
                      (''textTransform'', CssStr (js ''uppercase''))]]
               [Text (phase_week phase)],
             Elem ''span''
                [Style [(''fontSize'', CssNum 11), (''color'', CssStr (js ''#52525B''))]]
               [Text (phase_duration phase)]],
          Elem ''div''
             [Style [(''fontSize'', CssNum 18), (''fontWeight'', CssNum 600),
                   (''color'', CssStr (js ''#E4E4E7'')),
                   (''margin'', CssStr (js ''4px 0 2px'')),
                   (''transition'', CssStr (js ''color 0.2s''))]]
            [Text (phase_title phase)],
          Elem ''div''
             [Style [(''fontSize'', CssNum 12), (''color'', CssStr (js ''#52525B'')),
                   (''fontStyle'', CssStr (js ''italic''))]]
            [Text (phase_subtitle phase)]],
       Elem ''div''
          [Style [(''color'', CssStr (js ''#52525B'')), (''fontSize'', CssNum 14),
                (''transform'', if isOpen then CssStr (js ''rotate(90deg)'')
                  else CssStr (js ''rotate(0)'')),
                (''transition'', CssStr (js ''transform 0.2s'')), (''marginTop'', CssNum 8)]]
         [Text (js ''%u2192'')]]\<close>

definition CourseRoadmap_columns :: "message_fn \<Rightarrow> Phase \<Rightarrow> vnode" where
  \<open>CourseRoadmap_columns tr phase =
    Elem ''div''
       [Style [(''display'', CssStr (js ''grid'')),
             (''gridTemplateColumns'', CssStr (js ''repeat(auto-fit, minmax(min(300px, 100%25), 1fr))'')),
             (''gap'', CssNum 16), (''marginBottom'', CssNum 20)]]
      [Elem ''div''
          [Style [(''padding'', CssNum 16),
                (''background'', CssStr (js ''rgba(228,228,231,0.03)'')),
                (''border'', CssStr (js ''1px solid rgba(228,228,231,0.06)'')),
                (''borderRadius'', CssNum 8)]]
         ([Elem ''div''
             [Style [(''fontSize'', CssNum 10), (''color'', CssStr (js ''#71717A'')),
                   (''letterSpacing'', CssStr (js ''0.12em'')),
                   (''textTransform'', CssStr (js ''uppercase'')), (''marginBottom'', CssNum 12)]]
            [Text (tr (js ''phase.concepts'') [])]]
         @ (map_idx (\<lambda>c j. 
            Elem ''div''
               [Key (nat_str j),
                Style [(''fontSize'', CssNum 12), (''color'', CssStr (js ''#A1A1AA'')),
                     (''padding'', CssStr (js ''6px 0'')),
                     (''borderBottom'', if j < length (phase_concepts phase) - 1 then CssStr (js ''1px solid rgba(228,228,231,0.04)'') else CssStr (js ''none'')),
                     (''display'', CssStr (js ''flex'')), (''gap'', CssNum 8)]]
              [Elem ''span''
                  [Style [(''color'', CssStr (phase_color phase)), (''opacity'', CssNum (6 / 10))]]
                 [Text (js ''%u203a'')],
               Text c])
            (phase_concepts phase))),
       Elem ''div''
          [Style [(''padding'', CssNum 16),
                (''background'', CssStr (js ''rgba(228,228,231,0.03)'')),
                (''border'', CssStr (js ''1px solid rgba(228,228,231,0.06)'')),
                (''borderRadius'', CssNum 8)]]
         ([Elem ''div''
             [Style [(''fontSize'', CssNum 10), (''color'', CssStr (js ''#71717A'')),
                   (''letterSpacing'', CssStr (js ''0.12em'')),
                   (''textTransform'', CssStr (js ''uppercase'')), (''marginBottom'', CssNum 12)]]
            [Text (tr (js ''phase.references'') [])]]
         @ (map_idx (\<lambda>r j. 
            Elem ''div''
               [Key (nat_str j),
                Style [(''fontSize'', CssNum 12), (''color'', CssStr (js ''#A1A1AA'')),
                     (''padding'', CssStr (js ''6px 0'')),
                     (''borderBottom'', if j < length (phase_readings phase) - 1 then CssStr (js ''1px solid rgba(228,228,231,0.04)'') else CssStr (js ''none'')),
                     (''display'', CssStr (js ''flex'')), (''gap'', CssNum 8)]]
              [Elem ''span''
                  [Style [(''color'', CssStr (js ''#52525B''))]]
                 [Text (js ''%ud83d%udcc4'')],
               Text r])
            (phase_readings phase)))]\<close>

definition CourseRoadmap_deliverable :: "message_fn \<Rightarrow> Phase \<Rightarrow> vnode" where
  \<open>CourseRoadmap_deliverable tr phase =
    Elem ''div''
       [Style [(''padding'', CssNum 20),
             (''background'', CssStr (js ''linear-gradient(135deg, '' @ phase_color phase
               @ js ''0A, '' @ phase_accent phase @ js ''06)'')),
             (''border'', CssStr (js ''1px solid '' @ phase_color phase @ js ''22'')),
             (''borderRadius'', CssNum 8)]]
      ([Elem ''div''
          [Style [(''display'', CssStr (js ''flex'')), (''alignItems'', CssStr (js ''center'')),
                (''gap'', CssNum 8), (''marginBottom'', CssNum 12)]]
         [Elem ''div''
             [Style [(''fontSize'', CssNum 10), (''color'', CssStr (phase_color phase)),
                   (''letterSpacing'', CssStr (js ''0.12em'')),
                   (''textTransform'', CssStr (js ''uppercase'')), (''fontWeight'', CssNum 700)]]
            [Text (tr (js ''phase.deliverable'') [])],
          Elem ''code''
             [Style [(''fontSize'', CssNum 13), (''color'', CssStr (phase_accent phase)),
                   (''background'', CssStr (phase_color phase @ js ''15'')),
                   (''padding'', CssStr (js ''2px 8px'')), (''borderRadius'', CssNum 4)]]
            [Text (deliverable_name (phase_deliverable phase))]],
       Elem ''p''
          [Style [(''fontSize'', CssNum 13), (''color'', CssStr (js ''#A1A1AA'')),
                (''lineHeight'', CssNum (17 / 10)), (''margin'', CssStr (js ''0 0 16px''))]]
         [Text (deliverable_desc (phase_deliverable phase))],
       Elem ''div''
          [Style [(''fontSize'', CssNum 10), (''color'', CssStr (js ''#71717A'')),
                (''letterSpacing'', CssStr (js ''0.1em'')),
                (''textTransform'', CssStr (js ''uppercase'')), (''marginBottom'', CssNum 8)]]
         [Text (tr (js ''phase.acceptance'') [])]]
      @ (map_idx (\<lambda>a j. 
         Elem ''div''
            [Key (nat_str j),
             Style [(''fontSize'', CssNum 12), (''color'', CssStr (js ''#A1A1AA'')),
                  (''padding'', CssStr (js ''5px 0'')), (''display'', CssStr (js ''flex'')),
                  (''alignItems'', CssStr (js ''flex-start'')), (''gap'', CssNum 8)]]
           [Elem ''span''
               [Style [(''display'', CssStr (js ''inline-block'')), (''width'', CssNum 16),
                     (''height'', CssNum 16), (''borderRadius'', CssNum 3),
                     (''border'', CssStr (js ''1px solid '' @ phase_color phase @ js ''44'')),
                     (''flexShrink'', CssNum 0), (''marginTop'', CssNum 1)]]
              [],
            Text a])
         (deliverable_acceptance (phase_deliverable phase))))\<close>

definition CourseRoadmap_expanded :: "message_fn \<Rightarrow> Phase \<Rightarrow> vnode" where
  \<open>CourseRoadmap_expanded tr phase =
    Elem ''div''
       [Style [(''marginLeft'', CssNum 56), (''marginBottom'', CssNum 24),
             (''animation'', CssStr (js ''fadeIn 0.3s ease''))]]
      ([Elem ''div''
          [Style [(''padding'', CssStr (js ''16px 20px'')),
                (''background'', CssStr (phase_color phase @ js ''08'')),
                (''borderLeft'', CssStr (js ''2px solid '' @ phase_color phase @ js ''66'')),
                (''borderRadius'', CssStr (js ''0 8px 8px 0'')), (''marginBottom'', CssNum 24),
                (''fontSize'', CssNum 13), (''lineHeight'', CssNum (17 / 10)),
                (''color'', CssStr (js ''#A1A1AA''))]]
         [Text (phase_goal phase)],
       CourseRoadmap_columns tr phase,
       CourseRoadmap_deliverable tr phase]
      @ (show_if (hasLessons (num_of (phase_id phase))) ([Elem ''Link''
            [Attr ''to'' (js ''/phase/'' @ nat_str (phase_id phase) @ js ''/lesson/1''),
             Style [(''display'', CssStr (js ''inline-flex'')),
                  (''alignItems'', CssStr (js ''center'')), (''gap'', CssNum 8),
                  (''marginTop'', CssNum 16), (''padding'', CssStr (js ''10px 20px'')),
                  (''background'', CssStr (phase_color phase @ js ''18'')),
                  (''border'', CssStr (js ''1px solid '' @ phase_color phase @ js ''44'')),
                  (''borderRadius'', CssNum 6), (''color'', CssStr (phase_accent phase)),
                  (''fontSize'', CssNum 13), (''textDecoration'', CssStr (js ''none'')),
                  (''fontFamily'', CssStr (js ''inherit'')),
                  (''cursor'', CssStr (js ''pointer'')),
                  (''transition'', CssStr (js ''background 0.2s''))]]
           [Text (tr (js ''phase.enter'') [])]])))\<close>

definition CourseRoadmap_phase :: "message_fn \<Rightarrow> roadmap_state \<Rightarrow> Phase list \<Rightarrow> Phase \<Rightarrow> nat \<Rightarrow> vnode" where
  \<open>CourseRoadmap_phase tr st PHASES phase i =
    (let isOpen = (activePhase st = Some (phase_id phase)) in
    Elem ''div''
       [Key (nat_str (phase_id phase)),
        Style [(''position'', CssStr (js ''relative'')), (''marginBottom'', CssNum 2)]]
      ((show_if (i < length PHASES - 1) ([Elem ''div''
            [Style [(''position'', CssStr (js ''absolute'')), (''left'', CssNum 19),
                  (''top'', CssNum 44), (''bottom'', CssNum (- 2)), (''width'', CssNum 1),
                  (''background'', CssStr (js ''linear-gradient(to bottom, '' @ phase_color phase
                    @ js ''44, '' @ phase_color (PHASES ! (i + 1)) @ js ''44)''))]]
           []]))
      @ [CourseRoadmap_phaseButton phase isOpen]
      @ (show_if isOpen ([CourseRoadmap_expanded tr phase]))))\<close>

definition CourseRoadmap_roadmapTab :: "message_fn \<Rightarrow> roadmap_state \<Rightarrow> Phase list \<Rightarrow> vnode list" where
  \<open>CourseRoadmap_roadmapTab tr st PHASES =
    show_if (activeTab st = js ''roadmap'') ([Elem ''div''
         []
        (map_idx (\<lambda>phase i. 
           CourseRoadmap_phase tr st PHASES phase i)
           PHASES)])\<close>

definition CourseRoadmap_layer :: "Architecture \<Rightarrow> ArchitectureLayer \<Rightarrow> nat \<Rightarrow> vnode" where
  \<open>CourseRoadmap_layer ARCH layer i =
    Elem ''div''
       [Key (nat_str i),
        Style [(''display'', CssStr (js ''flex'')), (''alignItems'', CssStr (js ''stretch'')),
             (''gap'', CssNum 0), (''borderRadius'', CssNum 8),
             (''overflow'', CssStr (js ''hidden'')),
             (''border'', CssStr (js ''1px solid '' @ layer_color layer @ js ''22''))]]
      [Elem ''div''
          [Style [(''width'', CssNum 180), (''padding'', CssStr (js ''16px 20px'')),
                (''background'', CssStr (layer_color layer @ js ''12'')),
                (''borderRight'', CssStr (js ''1px solid '' @ layer_color layer @ js ''22'')),
                (''display'', CssStr (js ''flex'')),
                (''flexDirection'', CssStr (js ''column'')),
                (''justifyContent'', CssStr (js ''center''))]]
         [Elem ''div''
             [Style [(''fontSize'', CssNum 13), (''fontWeight'', CssNum 600),
                   (''color'', CssStr (layer_color layer))]]
            [Text (layer_name layer)],
          Elem ''div''
             [Style [(''fontSize'', CssNum 10), (''color'', CssStr (js ''#52525B'')),
                   (''marginTop'', CssNum 2)]]
            [Text (js ''Phase ''),
             Text (nat_str (length (architecture_layers ARCH) - 1 - i))]],
       Elem ''div''
          [Style [(''flex'', CssNum 1), (''display'', CssStr (js ''flex'')),
                (''flexWrap'', CssStr (js ''wrap'')), (''gap'', CssNum 8),
                (''padding'', CssNum 12),
                (''background'', CssStr (js ''rgba(228,228,231,0.02)'')),
                (''alignItems'', CssStr (js ''center''))]]
         (map_idx (\<lambda>module j. 
            Elem ''div''
               [Key (nat_str j),
                Style [(''padding'', CssStr (js ''6px 12px'')),
                     (''background'', CssStr (layer_color layer @ js ''0A'')),
                     (''border'', CssStr (js ''1px solid '' @ layer_color layer @ js ''18'')),
                     (''borderRadius'', CssNum 4), (''fontSize'', CssNum 11),
                     (''color'', CssStr (js ''#A1A1AA''))]]
              [Text module])
            (layer_modules layer))]\<close>

definition CourseRoadmap_archTab :: "message_fn \<Rightarrow> roadmap_state \<Rightarrow> Architecture \<Rightarrow> vnode list" where
  \<open>CourseRoadmap_archTab tr st ARCH =
    show_if (activeTab st = js ''arch'') ([Elem ''div''
         []
        [Elem ''p''
            [Style [(''fontSize'', CssNum 13), (''color'', CssStr (js ''#71717A'')),
                  (''marginBottom'', CssNum 32), (''lineHeight'', CssNum (17 / 10))]]
           [Text (tr (js ''arch.desc'') [])],
         Elem ''div''
            [Style [(''display'', CssStr (js ''flex'')),
                  (''flexDirection'', CssStr (js ''column'')), (''gap'', CssNum 4)]]
           (map_idx (\<lambda>layer i. 
              CourseRoadmap_layer ARCH layer i)
              (architecture_layers ARCH)),
         Elem ''div''
            [Style [(''marginTop'', CssNum 32), (''padding'', CssNum 24),
                  (''background'', CssStr (js ''rgba(228,228,231,0.03)'')),
                  (''border'', CssStr (js ''1px solid rgba(228,228,231,0.06)'')),
                  (''borderRadius'', CssNum 8)]]
           [Elem ''div''
               [Style [(''fontSize'', CssNum 10), (''color'', CssStr (js ''#71717A'')),
                     (''letterSpacing'', CssStr (js ''0.12em'')),
                     (''textTransform'', CssStr (js ''uppercase'')),
                     (''marginBottom'', CssNum 16)]]
              [Text (tr (js ''arch.dataflow'') [])],
            Elem ''div''
               [Style [(''fontFamily'', CssStr (js ''inherit'')), (''fontSize'', CssNum 12),
                     (''color'', CssStr (js ''#71717A'')), (''lineHeight'', CssNum (22 / 10))]]
              [Elem ''span''
                  [Style [(''color'', CssStr (js ''#E8453C''))]]
                 [Text (js ''User Input'')],
               Text (js '' %u2192 ''),
               Elem ''span''
                  [Style [(''color'', CssStr (js ''#E8453C''))]]
                 [Text (js ''CLI Parser'')],
               Text (js '' %u2192 ''),
               Elem ''span''
                  [Style [(''color'', CssStr (js ''#7C3AED''))]]
                 [Text (js ''Agent Loop'')],
               Text (js '' %u2192 ''),
               Elem ''span''
                  [Style [(''color'', CssStr (js ''#7C3AED''))]]
                 [Text (js ''Planner'')],
               Text (js '' %u2192 ''),
               Elem ''span''
                  [Style [(''color'', CssStr (js ''#059669''))]]
                 [Text (js ''Workflow Select'')],
               Text (js '' %u2192 ''),
               Elem ''span''
                  [Style [(''color'', CssStr (js ''#2563EB''))]]
                 [Text (js ''LLM Call'')],
               Text (js '' %u2192 ''),
               Elem ''span''
                  [Style [(''color'', CssStr (js ''#D97706''))]]
                 [Text (js ''Tool Execute'')],
               Text (js '' %u2192 ''),
               Elem ''span''
                  [Style [(''color'', CssStr (js ''#7C3AED''))]]
                 [Text (js ''Observe Result'')],
               Text (js '' %u2192 ''),
               Elem ''span''
                  [Style [(''color'', CssStr (js ''#7C3AED''))]]
                 [Text (js ''Loop / Complete'')]]]]])\<close>

definition CourseRoadmap_principlesTab :: "message_fn \<Rightarrow> roadmap_state \<Rightarrow> Principle list \<Rightarrow> vnode list" where
  \<open>CourseRoadmap_principlesTab tr st principles =
    show_if (activeTab st = js ''principles'') ([Elem ''div''
         []
        ([Elem ''p''
            [Style [(''fontSize'', CssNum 13), (''color'', CssStr (js ''#71717A'')),
                  (''marginBottom'', CssNum 32), (''lineHeight'', CssNum (17 / 10))]]
           [Text (tr (js ''principles.desc'') [])]]
        @ (map_idx (\<lambda>p i. 
           Elem ''div''
              [Key (nat_str i),
               Style [(''display'', CssStr (js ''flex'')), (''gap'', CssNum 20),
                    (''padding'', CssStr (js ''24px 0'')),
                    (''borderBottom'', if i < 4 then CssStr (js ''1px solid rgba(228,228,231,0.06)'')
                      else CssStr (js ''none''))]]
             [Elem ''div''
                 [Style [(''fontSize'', CssNum 32), (''fontWeight'', CssNum 800),
                       (''color'', CssStr (principle_color p @ js ''33'')),
                       (''lineHeight'', CssNum 1), (''flexShrink'', CssNum 0),
                       (''width'', CssNum 48)]]
                [Text (principle_num p)],
              Elem ''div''
                 []
                [Elem ''div''
                    [Style [(''fontSize'', CssNum 15), (''fontWeight'', CssNum 600),
                          (''color'', CssStr (js ''#E4E4E7'')), (''marginBottom'', CssNum 8)]]
                   [Text (principle_title p)],
                 Elem ''div''
                    [Style [(''fontSize'', CssNum 13), (''color'', CssStr (js ''#71717A'')),
                          (''lineHeight'', CssNum (17 / 10))]]
                   [Text (principle_desc p)]]])
           principles))])\<close>

definition CourseRoadmap_footer :: "vnode" where
  \<open>CourseRoadmap_footer =
    Elem ''footer''
       [Style [(''position'', CssStr (js ''relative'')), (''zIndex'', CssNum 10),
             (''padding'', CssStr (js ''24px 32px'')),
             (''borderTop'', CssStr (js ''1px solid rgba(228,228,231,0.06)'')),
             (''marginTop'', CssNum 48)]]
      [Elem ''div''
          [Style [(''maxWidth'', CssNum 960), (''margin'', CssStr (js ''0 auto'')),
                (''display'', CssStr (js ''flex'')),
                (''justifyContent'', CssStr (js ''center'')),
                (''alignItems'', CssStr (js ''center'')), (''gap'', CssNum 8)]]
         [Elem ''span''
             [Style [(''fontSize'', CssNum 12), (''color'', CssStr (js ''#52525B''))]]
            [Text (js ''Generated by'')],
          Elem ''a''
             [Attr ''href'' (js ''https://github.com/catundercar/course-builder-plugin''),
              Attr ''target'' (js ''_blank''),
              Attr ''rel'' (js ''noopener noreferrer''),
              Style [(''display'', CssStr (js ''inline-flex'')),
                   (''alignItems'', CssStr (js ''center'')), (''gap'', CssNum 6),
                   (''fontSize'', CssNum 12), (''color'', CssStr (js ''#71717A'')),
                   (''textDecoration'', CssStr (js ''none'')),
                   (''padding'', CssStr (js ''4px 10px'')),
                   (''border'', CssStr (js ''1px solid rgba(228,228,231,0.08)'')),
                   (''borderRadius'', CssNum 6),
                   (''background'', CssStr (js ''rgba(228,228,231,0.03)''))],
              OnMouseEnter [(''color'', CssStr (js ''#E4E4E7'')),
                 (''borderColor'', CssStr (js ''rgba(228,228,231,0.2)''))],
              OnMouseLeave [(''color'', CssStr (js ''#71717A'')),
                 (''borderColor'', CssStr (js ''rgba(228,228,231,0.08)''))]]
            [Elem ''svg''
                [Attr ''width'' (js ''14''),
                 Attr ''height'' (js ''14''),
                 Attr ''viewBox'' (js ''0 0 24 24''),
                 Attr ''fill'' (js ''currentColor''),
                 Attr ''aria-hidden'' (js ''true'')]
               [Elem ''path''
                   [Attr ''d'' (jcat [''M12 2C6.477 2 2 6.484 2 12.017c0 4.425 2.865 8.18 6.839 '',
                          ''9.504.5.092.682-.217.682-.483 0-.237-.008-.868-.013-1.703-2.782.605-3.369-1.343-3.369-1.343-.454-1.158-1.11-1.46'',
                          ''6-1.11-1.466-.908-.62.069-.608.069-.608 1.003.07 1.531 1.032 1.531 1.032.892 1.53 '',
                          ''2.341 1.088 2.91.832.092-.647.35-1.088.636-1.338-2.22-.253-4.555-1.113-4.555-4.951 '',
                          ''0-1.093.39-1.988 1.029-2.688-.103-.253-.446-1.272.098-2.65 0 0 .84-.27 2.75 '',
                          ''1.026A9.564 9.564 0 0112 6.844c.85.004 1.705.115 2.504.337 1.909-1.296 2.747-1.027 '',
                          ''2.747-1.027.546 1.379.202 2.398.1 2.651.64.7 1.028 1.595 1.028 2.688 0 3.848-2.339 4.695-4.566 '',
                          ''4.943.359.309.678.92.678 1.855 0 1.338-.012 2.419-.012 2.747 0 '',
                          ''.268.18.58.688.482A10.019 10.019 0 0022 12.017C22 6.484 17.522 2 12 2z''])]
                  []],
             Text (js ''course-builder-plugin'')]]]\<close>

definition CourseRoadmap_view ::
  "jstring \<Rightarrow> roadmap_state \<Rightarrow> Phase list \<Rightarrow> Architecture \<Rightarrow> Principle list \<Rightarrow> vnode" where
  \<open>CourseRoadmap_view locale st PHASES ARCH principles = (
     let tr = translate locale in
     Elem ''div'' [Style [(''fontFamily'', CssStr (js ''%27JetBrains Mono', 'SF Mono', 'Fira Code', monospace'')),
               (''background'', CssStr (js ''#0A0A0B'')), (''color'', CssStr (js ''#E4E4E7'')),
               (''minHeight'', CssStr (js ''100vh'')), (''position'', CssStr (js ''relative'')),
               (''overflow'', CssStr (js ''hidden''))]]
       [Elem ''div''
           [Style [(''position'', CssStr (js ''fixed'')), (''inset'', CssNum 0),
                 (''zIndex'', CssNum 0),
                 (''backgroundImage'', CssStr (jlines ['''',
                ''          linear-gradient(rgba(228,228,231,0.03) 1px, transparent 1px),'',
                ''          linear-gradient(90deg, rgba(228,228,231,0.03) 1px, transparent 1px)'',
                ''        ''])),
                 (''backgroundSize'', CssStr (js ''40px 40px''))]]
          [],
        CourseRoadmap_header locale tr st,
        Elem ''main'' [Style [(''position'', CssStr (js ''relative'')), (''zIndex'', CssNum 10),
               (''maxWidth'', CssNum 960), (''margin'', CssStr (js ''0 auto'')),
               (''padding'', CssStr (js ''32px 32px 80px''))]]
          (CourseRoadmap_roadmapTab tr st PHASES
           @ CourseRoadmap_archTab tr st ARCH
           @ CourseRoadmap_principlesTab tr st principles),
        CourseRoadmap_footer])\<close>

text \<open>
  The component. \<open>PHASES.map\<close> and \<open>principles.map\<close> throw when the reader returned an inherited
  built-in, which has no \<open>map\<close>; each of the two is called only when its tab is the active one.
\<close>

fun is_inherited :: "'v jsval \<Rightarrow> bool" where
  "is_inherited (Own v) = False"
| "is_inherited (Inherited n) = True"

definition CourseRoadmap :: "jstring \<Rightarrow> roadmap_state \<Rightarrow> js_error + vnode" where
  "CourseRoadmap locale st = (
     let phases = getPhases locale; principles = getPrinciples locale;
         tab = activeTab st;
         view = CourseRoadmap_view locale st
           (case phases of Own ps \<Rightarrow> ps | Inherited _ \<Rightarrow> []) getArchitecture
           (case principles of Own ps \<Rightarrow> ps | Inherited _ \<Rightarrow> [])
     in if tab = js ''roadmap'' \<and> is_inherited phases then Inl TypeError
        else if tab = js ''principles'' \<and> is_inherited principles then Inl TypeError
        else Inr view)"

text \<open>The component under a context value, which it reads with \<open>useLocale()\<close>.\<close>

definition CourseRoadmap_component ::
  "locale_state option \<Rightarrow> roadmap_state \<Rightarrow> js_error + vnode" where
  "CourseRoadmap_component ctx st = (case useLocale ctx of
     Inl e \<Rightarrow> Inl e
   | Inr c \<Rightarrow> CourseRoadmap (locale_value c) st)"


definition tab_names :: "jstring list" where
  "tab_names = [js ''roadmap'', js ''arch'', js ''principles'']"

text \<open>The stages of the data flow below the layers.\<close>

definition dataflow_stages :: "jstring list" where
  "dataflow_stages = map js [''User Input'', ''CLI Parser'', ''Agent Loop'', ''Planner'', ''Workflow Select'',
     ''LLM Call'', ''Tool Execute'', ''Observe Result'', ''Loop / Complete'']"

text \<open>Everything the home page lets the user do.\<close>

definition roadmap_actions :: "roadmap_state \<Rightarrow> Phase list \<Rightarrow> action set" where
  "roadmap_actions st PHASES = SetLocale ` Locale \<union> SetActiveTab ` set tab_names
     \<union> (if activeTab st = js ''roadmap''
        then \<Union>p \<in> set PHASES. let isOpen = (activePhase st = Some (phase_id p)) in
          insert (SetActivePhase (if isOpen then None else Some (phase_id p)))
            (if isOpen \<and> hasLessons (num_of (phase_id p))
             then {Navigate (js ''/phase/'' @ nat_str (phase_id p) @ js ''/lesson/1'')} else {})
        else {})"

section \<open>What the page offers\<close>

lemma clicks_LanguageSwitcher [simp]: "clicks (LanguageSwitcher l) = map (SetLocale \<circ> fst) LOCALES"
  by (simp add: LanguageSwitcher_def LOCALES_def Let_def)

lemma clicks_github [simp]: "clicks CourseRoadmap_github = []"
  by (simp add: CourseRoadmap_github_def)

lemma clicks_roadmap_header [simp]:
  "clicks (CourseRoadmap_header l tr st) = map (SetLocale \<circ> fst) LOCALES @ map SetActiveTab tab_names"
  by (simp add: CourseRoadmap_header_def tab_names_def)

lemma clicks_phaseButton [simp]:
  "clicks (CourseRoadmap_phaseButton p isOpen) = [SetActivePhase (if isOpen then None else Some (phase_id p))]"
  by (simp add: CourseRoadmap_phaseButton_def)

lemma clicks_columns [simp]: "clicks (CourseRoadmap_columns tr p) = []"
  by (simp add: CourseRoadmap_columns_def page_eval)

lemma clicks_deliverable [simp]: "clicks (CourseRoadmap_deliverable tr p) = []"
  by (simp add: CourseRoadmap_deliverable_def page_eval)

lemma clicks_expanded [simp]:
  "clicks (CourseRoadmap_expanded tr p) = show_if (hasLessons (num_of (phase_id p)))
     [Navigate (js ''/phase/'' @ nat_str (phase_id p) @ js ''/lesson/1'')]"
  by (simp add: CourseRoadmap_expanded_def)

lemma clicks_phase:
  "clicks (CourseRoadmap_phase tr st ps p i) = (let isOpen = (activePhase st = Some (phase_id p)) in
     SetActivePhase (if isOpen then None else Some (phase_id p))
     # show_if isOpen (clicks (CourseRoadmap_expanded tr p)))"
  by (simp add: CourseRoadmap_phase_def Let_def del: clicks_expanded)

lemma clicks_roadmapTab:
  "concat (map clicks (CourseRoadmap_roadmapTab tr st ps)) = show_if (activeTab st = js ''roadmap'')
     (concat (map (\<lambda>p. clicks (CourseRoadmap_phase tr st ps p 0)) ps))"
  by (simp add: CourseRoadmap_roadmapTab_def page_eval clicks_phase concat_map_idx_const)

lemma clicks_archTab [simp]: "concat (map clicks (CourseRoadmap_archTab tr st a)) = []"
  by (simp add: CourseRoadmap_archTab_def CourseRoadmap_layer_def page_eval)

lemma clicks_principlesTab [simp]: "concat (map clicks (CourseRoadmap_principlesTab tr st ps)) = []"
  by (simp add: CourseRoadmap_principlesTab_def page_eval)

lemma clicks_footer [simp]: "clicks CourseRoadmap_footer = []"
  by (simp add: CourseRoadmap_footer_def)

lemma set_LOCALES: "fst ` set LOCALES = Locale"
  by (simp add: LOCALES_def Locale_def insert_commute)

lemma clicks_view:
  "set (clicks (CourseRoadmap_view l st ps a prs)) = roadmap_actions st ps"
proof -
  have locales: "set (map (SetLocale \<circ> fst) LOCALES) = SetLocale ` Locale"
    by (simp only: set_map image_comp [symmetric] set_LOCALES)
  have phases: "set (concat (map clicks (CourseRoadmap_roadmapTab tr st ps))) =
      (if activeTab st = js ''roadmap''
       then \<Union>p \<in> set ps. set (clicks (CourseRoadmap_phase tr st ps p 0)) else {})" for tr
    by (simp only: clicks_roadmapTab set_show_if set_concat set_map image_image)
  have "set (clicks (CourseRoadmap_view l st ps a prs)) = SetLocale ` Locale \<union> SetActiveTab ` set tab_names
     \<union> set (concat (map clicks (CourseRoadmap_roadmapTab (translate l) st ps)))"
    using locales by (simp add: CourseRoadmap_view_def Let_def Un_assoc)
  also have "\<dots> = roadmap_actions st ps"
    unfolding phases roadmap_actions_def
    by (auto simp: clicks_phase Let_def set_show_if split: if_splits)
  finally show ?thesis .
qed

section \<open>Sibling keys\<close>

lemma keys_LanguageSwitcher [simp]:
  "keys_ok (LanguageSwitcher l)" "node_keys (LanguageSwitcher l) = []"
  by (simp_all add: LanguageSwitcher_def LOCALES_def Let_def)

lemma keys_github [simp]: "keys_ok CourseRoadmap_github" "node_keys CourseRoadmap_github = []"
  by (simp_all add: CourseRoadmap_github_def)

lemma keys_roadmap_header [simp]:
  "keys_ok (CourseRoadmap_header l tr st)" "node_keys (CourseRoadmap_header l tr st) = []"
  by (simp_all add: CourseRoadmap_header_def)

lemma keys_phaseButton [simp]:
  "keys_ok (CourseRoadmap_phaseButton p b)" "node_keys (CourseRoadmap_phaseButton p b) = []"
  by (simp_all add: CourseRoadmap_phaseButton_def)

lemma keys_columns [simp]:
  "keys_ok (CourseRoadmap_columns tr p)" "node_keys (CourseRoadmap_columns tr p) = []"
  by (simp_all add: CourseRoadmap_columns_def key_eval)

lemma keys_deliverable [simp]:
  "keys_ok (CourseRoadmap_deliverable tr p)" "node_keys (CourseRoadmap_deliverable tr p) = []"
  by (simp_all add: CourseRoadmap_deliverable_def key_eval)

lemma keys_expanded [simp]:
  "keys_ok (CourseRoadmap_expanded tr p)" "node_keys (CourseRoadmap_expanded tr p) = []"
  by (simp_all add: CourseRoadmap_expanded_def key_eval)

lemma keys_phase [simp]:
  "keys_ok (CourseRoadmap_phase tr st ps p i)"
  "node_keys (CourseRoadmap_phase tr st ps p i) = [nat_str (phase_id p)]"
  by (simp_all add: CourseRoadmap_phase_def key_eval)

lemma distinct_phase_keys: "distinct (map (\<lambda>p. nat_str (phase_id p)) ps) \<longleftrightarrow> distinct (map phase_id ps)"
  by (simp add: distinct_map inj_on_def)

lemma keys_roadmapTab [simp]:
  "distinct (map phase_id ps) \<Longrightarrow> \<forall>n \<in> set (CourseRoadmap_roadmapTab tr st ps). keys_ok n"
  "concat (map node_keys (CourseRoadmap_roadmapTab tr st ps)) = []"
  by (simp_all add: CourseRoadmap_roadmapTab_def page_eval ball_map_idx concat_map_idx_const distinct_phase_keys)

lemma keys_archTab [simp]:
  "\<forall>n \<in> set (CourseRoadmap_archTab tr st a). keys_ok n"
  "concat (map node_keys (CourseRoadmap_archTab tr st a)) = []"
  by (simp_all add: CourseRoadmap_archTab_def CourseRoadmap_layer_def key_eval)

lemma keys_principlesTab [simp]:
  "\<forall>n \<in> set (CourseRoadmap_principlesTab tr st ps). keys_ok n"
  "concat (map node_keys (CourseRoadmap_principlesTab tr st ps)) = []"
  by (simp_all add: CourseRoadmap_principlesTab_def key_eval)

lemma keys_footer [simp]: "keys_ok CourseRoadmap_footer" "node_keys CourseRoadmap_footer = []"
  by (simp_all add: CourseRoadmap_footer_def)

lemma keys_view: "distinct (map phase_id ps) \<Longrightarrow> keys_ok (CourseRoadmap_view l st ps a prs)"
  by (simp add: CourseRoadmap_view_def Let_def ball_Un)

section \<open>The component\<close>

text \<open>
  The page is rendered whenever the locale is not an inherited name; otherwise the two tabs that read
  translated tables throw.
\<close>

lemma CourseRoadmap_ok:
  assumes "l \<notin> set object_prototype"
  obtains ps prs where "getPhases l = Own ps" "getPrinciples l = Own prs"
    "CourseRoadmap l st = Inr (CourseRoadmap_view l st ps getArchitecture prs)"
    "map phase_id ps = [0..<7]"
proof -
  obtain ps where ps: "getPhases l = Own ps" "map phase_id ps = [0..<7]"
    using assms by (auto simp: getPhases_eq site_shape split: if_splits)
  obtain prs where prs: "getPrinciples l = Own prs"
    using assms by (auto simp: getPrinciples_eq split: if_splits)
  show thesis by (rule that [OF ps(1) prs _ ps(2)]) (simp add: CourseRoadmap_def ps(1) prs Let_def)
qed

lemma CourseRoadmap_throws_iff:
  "CourseRoadmap l st = Inl e \<longleftrightarrow> e = TypeError \<and> l \<in> set object_prototype
     \<and> activeTab st \<in> {js ''roadmap'', js ''principles''}"
proof (cases "l \<in> set object_prototype")
  case True
  then have "l \<notin> Locale" using locale_not_inherited by blast
  with True show ?thesis
    by (auto simp: CourseRoadmap_def getPhases_eq getPrinciples_eq Let_def Locale_def)
next
  case False
  then obtain ps prs where "CourseRoadmap l st = Inr (CourseRoadmap_view l st ps getArchitecture prs)"
    by (rule CourseRoadmap_ok)
  with False show ?thesis by simp
qed

lemma CourseRoadmap_Inr:
  assumes "CourseRoadmap loc st = Inr n"
  obtains ps prs where "n = CourseRoadmap_view loc st ps getArchitecture prs" "distinct (map phase_id ps)"
proof (cases "loc \<in> set object_prototype")
  case True
  then have "n = CourseRoadmap_view loc st [] getArchitecture []"
    using assms by (auto simp: CourseRoadmap_def getPhases_eq getPrinciples_eq Let_def split: if_splits)
  then show thesis using that by simp
next
  case False
  then obtain ps prs where "CourseRoadmap loc st = Inr (CourseRoadmap_view loc st ps getArchitecture prs)"
    "map phase_id ps = [0..<7]" by (rule CourseRoadmap_ok)
  with assms show thesis by (intro that [of ps prs]) simp_all
qed

section \<open>The architecture tab\<close>

lemma texts_layer:
  "texts (CourseRoadmap_layer arch layer i) =
     [layer_name layer, js ''Phase '', nat_str (length (architecture_layers arch) - 1 - i)] @ layer_modules layer"
  by (simp add: CourseRoadmap_layer_def page_eval concat_map_idx_const)

lemma texts_archTab:
  "concat (map texts (CourseRoadmap_archTab tr st arch)) = show_if (activeTab st = js ''arch'')
     ([tr (js ''arch.desc'') []]
      @ concat (map_idx (\<lambda>layer i. [layer_name layer, js ''Phase '',
          nat_str (length (architecture_layers arch) - 1 - i)] @ layer_modules layer) (architecture_layers arch))
      @ [tr (js ''arch.dataflow'') []]
      @ tl (concat (map (\<lambda>s. [js '' %u2192 '', s]) dataflow_stages)))"
  by (simp add: CourseRoadmap_archTab_def texts_layer page_eval dataflow_stages_def)

lemma layer_colours:
  assumes "getPhases loc = Own ps"
  shows "map layer_color (architecture_layers getArchitecture) = map phase_color (rev ps)"
    and "map phase_id (rev ps) = [6, 5, 4, 3, 2, 1, 0]"
proof -
  have ps: "ps = PHASES_EN \<or> ps = PHASES_ZH_CN"
    using assms by (auto simp: getPhases_eq split: if_splits)
  have "map layer_color (architecture_layers getArchitecture) = map phase_color (rev PHASES_EN)"
    by (simp add: getArchitecture_def ARCHITECTURE_def PHASES_EN_def PHASES_EN_0_def PHASES_EN_1_def
        PHASES_EN_2_def PHASES_EN_3_def PHASES_EN_4_def PHASES_EN_5_def PHASES_EN_6_def)
  moreover have "map phase_color PHASES_EN = map phase_color PHASES_ZH_CN"
    by (simp add: PHASES_EN_def PHASES_EN_0_def PHASES_EN_1_def
        PHASES_EN_2_def PHASES_EN_3_def PHASES_EN_4_def PHASES_EN_5_def PHASES_EN_6_def
        PHASES_ZH_CN_def PHASES_ZH_CN_0_def PHASES_ZH_CN_1_def
        PHASES_ZH_CN_2_def PHASES_ZH_CN_3_def PHASES_ZH_CN_4_def PHASES_ZH_CN_5_def PHASES_ZH_CN_6_def)
  ultimately show "map layer_color (architecture_layers getArchitecture) = map phase_color (rev ps)"
    using ps by (metis rev_map)
  have "map phase_id ps = [0..<7]" using ps by (auto simp: site_shape)
  then show "map phase_id (rev ps) = [6, 5, 4, 3, 2, 1, 0]"
    unfolding rev_map [symmetric] by (simp add: upt_rec)
qed

lemma layers_numbered:
  assumes "map f qs = [6, 5, 4, 3, 2, 1, 0]" and "length xs = 7"
  shows "map_idx (\<lambda>x i. g x (length xs - 1 - i)) xs = map (\<lambda>(x, q). g x (f q)) (zip xs qs)"
proof (rule nth_equalityI)
  have len: "length qs = 7" using arg_cong [OF assms(1), of length] by simp
  then show "length (map_idx (\<lambda>x i. g x (length xs - 1 - i)) xs) = length (map (\<lambda>(x, q). g x (f q)) (zip xs qs))"
    by (simp add: assms(2))
  fix i
  assume "i < length (map_idx (\<lambda>x i. g x (length xs - 1 - i)) xs)"
  then have i: "i < 7" by (simp add: assms(2))
  then have "f (qs ! i) = [6, 5, 4, 3, 2, 1, 0] ! i" using assms(1) len by (metis nth_map)
  also have "\<dots> = 6 - i" using i by (auto simp: nth_Cons split: nat.splits)
  finally show "map_idx (\<lambda>x i. g x (length xs - 1 - i)) xs ! i = map (\<lambda>(x, q). g x (f q)) (zip xs qs) ! i"
    using i len assms(2) by simp
qed

section \<open>Colours\<close>

text \<open>The colours of a phase on the roadmap and on its lesson pages: they differ for phase 5 only.\<close>

lemma phase_colours [site_data]:
  "map (\<lambda>p. (phase_color p, phase_accent p)) PHASES_EN =
     (map (\<lambda>(n, c). (content_color c, content_accent c)) phases_en) [5 := (js ''#DC2626'', js ''#F87171'')]"
  "map (\<lambda>p. (phase_color p, phase_accent p)) PHASES_ZH_CN =
     (map (\<lambda>(n, c). (content_color c, content_accent c)) phases_zhCN) [5 := (js ''#DC2626'', js ''#F87171'')]"
  by (simp_all add: PHASES_EN_def PHASES_ZH_CN_def phases_en_def phases_zhCN_def
    PHASES_EN_0_def PHASES_EN_1_def PHASES_EN_2_def PHASES_EN_3_def PHASES_EN_4_def PHASES_EN_5_def PHASES_EN_6_def
    PHASES_ZH_CN_0_def PHASES_ZH_CN_1_def PHASES_ZH_CN_2_def PHASES_ZH_CN_3_def PHASES_ZH_CN_4_def PHASES_ZH_CN_5_def PHASES_ZH_CN_6_def
    phase0En_def phase1En_def phase2En_def phase3En_def phase4En_def phase5En_def phase6En_def
    phase0ZhCN_def phase1ZhCN_def phase2ZhCN_def phase3ZhCN_def phase4ZhCN_def phase5ZhCN_def phase6ZhCN_def)

lemma phase_colours_nth:
  assumes "p < 7" and "getPhases loc = Own ps" and "getPhaseContent (num_of p) loc = Some c"
  shows "(phase_color (ps ! p), phase_accent (ps ! p)) = (content_color c, content_accent c) \<longleftrightarrow> p \<noteq> 5"
proof -
  let ?en = "loc = en_locale"
  define cs where "cs = (if ?en then phases_en else phases_zhCN)"
  have ps: "ps = (if ?en then PHASES_EN else PHASES_ZH_CN)"
    using assms(2) by (auto simp: getPhases_eq split: if_splits)
  have keys: "map fst cs = [0..<7]" by (simp add: cs_def phases_keys)
  have c: "map_of cs p = Some c" using assms(3) by (simp add: content_by_locale cs_def)
  have col: "map (\<lambda>p. (phase_color p, phase_accent p)) ps =
      (map (\<lambda>(n, c). (content_color c, content_accent c)) cs) [5 := (js ''#DC2626'', js ''#F87171'')]"
    by (simp add: ps cs_def site_data)
  have len: "length cs = 7" using keys by (metis diff_zero length_map length_upt)
  have nth: "cs ! p = (p, c)" using map_of_upt_nth [OF keys _ c] len assms(1) by simp
  show ?thesis
  proof (cases "p = 5")
    case True
    have "snd (cs ! 5) = (if ?en then phase5En else phase5ZhCN)"
      by (simp add: cs_def phases_en_def phases_zhCN_def)
    with nth True have "content_color c = js ''#0891B2''"
      by (simp add: phase5En_def phase5ZhCN_def split: if_splits)
    moreover have "phase_color (ps ! 5) = js ''#DC2626''"
      by (simp add: ps PHASES_EN_def PHASES_ZH_CN_def PHASES_EN_5_def PHASES_ZH_CN_5_def)
    ultimately show ?thesis using True by simp
  next
    case False
    have "(phase_color (ps ! p), phase_accent (ps ! p)) =
        (case cs ! p of (n, c) \<Rightarrow> (content_color c, content_accent c))"
      using nth_map_update [OF col _ False] len assms(1) by simp
    with nth False show ?thesis by simp
  qed
qed


end
