(* ===== verification/Transition.thy ===== *)
theory Transition
  imports Main
begin

text \<open>
  Labelled transition systems and the interfaces through which the site's properties are proved: an
  invariant, a simulation of an abstract system, and a panel of independent switches.
\<close>

inductive run :: "('s \<Rightarrow> 'e \<Rightarrow> 's \<Rightarrow> bool) \<Rightarrow> 's \<Rightarrow> 'e list \<Rightarrow> 's \<Rightarrow> bool" for step where
  Nil: "run step s [] s"
| Cons: "step s e t \<Longrightarrow> run step t es u \<Longrightarrow> run step s (e # es) u"

lemma run_append: "run step s es t \<Longrightarrow> run step t fs u \<Longrightarrow> run step s (es @ fs) u"
  by (induction rule: run.induct) (auto intro: run.intros)

lemma run_mono:
  assumes "run step s es t" and "\<And>s e t. step s e t \<Longrightarrow> step' s (f e) t"
  shows "run step' s (map f es) t"
  using assms(1) by (induction rule: run.induct) (auto intro: run.intros assms(2))

locale invariant_system =
  fixes step :: "'s \<Rightarrow> 'e \<Rightarrow> 's \<Rightarrow> bool"
    and inv :: "'s \<Rightarrow> bool"
  assumes step_inv: "inv s \<Longrightarrow> step s e t \<Longrightarrow> inv t"
begin

lemma run_inv: "run step s es t \<Longrightarrow> inv s \<Longrightarrow> inv t"
  by (induction rule: run.induct) (auto dest: step_inv)

end

text \<open>
  A simulation: every step of the system is, seen through the abstraction function, a step of the
  abstract system under the same label, so every run is an abstract run over the same events.
\<close>

locale simulation = invariant_system +
  fixes abs :: "'a \<Rightarrow> 'c"
    and astep :: "'c \<Rightarrow> 'b \<Rightarrow> 'c \<Rightarrow> bool"
  assumes abs_step: "inv s \<Longrightarrow> step s e t \<Longrightarrow> astep (abs s) e (abs t)"
begin

lemma run_simulated: "run step s es t \<Longrightarrow> inv s \<Longrightarrow> run astep (abs s) es (abs t)"
proof (induction rule: run.induct)
  case (Cons s e t es u)
  have "inv t" using Cons.prems Cons.hyps(1) by (rule step_inv)
  then show ?case using abs_step [OF Cons.prems Cons.hyps(1)] Cons.IH by (blast intro: run.Cons)
qed (rule run.Nil)

end

text \<open>
  A panel of independent switches: among the quiet actions, a switch's own action flips it and no other
  one touches it.
\<close>

locale switches =
  fixes act :: "'a \<Rightarrow> 's \<Rightarrow> 's"
    and is_on :: "'a \<Rightarrow> 's \<Rightarrow> bool"
    and switch :: "'a \<Rightarrow> bool"
    and quiet :: "'a \<Rightarrow> bool"
  assumes act_flips: "quiet a \<Longrightarrow> switch b \<Longrightarrow> is_on b (act a s) \<longleftrightarrow> is_on b s \<noteq> (a = b)"
begin

text \<open>After quiet actions a switch has changed exactly when it was used an odd number of times.\<close>

lemma run_parity:
  assumes "switch b" and "list_all quiet as"
  shows "is_on b (fold act as s) \<longleftrightarrow> is_on b s \<noteq> odd (count_list as b)"
  using assms(2)
proof (induction as arbitrary: s)
  case (Cons a as)
  then show ?case using assms(1) by (auto simp: act_flips)
qed simp

end

end
