(* ===== verification/Site.thy ===== *)
theory Site
  imports Lesson_Page Roadmap_Page Transition
begin

text \<open>
  The site as a whole: \<open>website/src/App.tsx\<close> (the routes), \<open>main.tsx\<close> (the provider around the
  application) and the run of the pages under a user's clicks, the browser's back, forward and reload.
  React and the router are not part of the repository and enter as parameters: \<open>router\<close>, with the
  contract \<open>router_spec\<close>, and \<open>keep\<close>, about which nothing is assumed (whether a component instance
  survives a navigation to a path that renders the same component). A step is a click on something the
  rendered page offers, so a page that throws offers nothing.

  Lemmas: the actions each page offers, the invariant \<open>site_ok\<close> of every run (interpretation
  \<open>site\<close>), the simulation of the abstract navigation history \<open>nav_hist\<close> by the site
  (interpretation \<open>nav\<close>), the foldable parts as switches (interpretation \<open>folds\<close>), and that every
  lesson can be reached from every state.
\<close>

section \<open>Routes\<close>

text \<open>
  The router is a parameter: from the patterns of a \<open>Routes\<close> element and a path it gives the
  matched pattern with the values of its parameters.
\<close>

type_synonym params = "(jstring \<times> jstring) list"
type_synonym router = "jstring list \<Rightarrow> jstring \<Rightarrow> (jstring \<times> params) option"

datatype route_element = CourseRoadmapElement | LessonPageElement

definition App_routes :: "(jstring \<times> route_element) list" where
  "App_routes = [(js ''/'', CourseRoadmapElement),
     (js ''/phase/:phaseId/lesson/:lessonId'', LessonPageElement)]"

datatype route = HomeRoute | LessonRoute jstring jstring

text \<open>
  \<open>useParams()\<close> read at one name. A missing parameter is \<open>undefined\<close>, which the page only passes to
  \<open>Number\<close>; the string has the same number, \<open>NaN\<close>.
\<close>

definition useParam :: "params \<Rightarrow> jstring \<Rightarrow> jstring" where
  "useParam ps name = (case map_of ps name of Some v \<Rightarrow> v | None \<Rightarrow> js ''undefined'')"

fun route_for :: "route_element \<Rightarrow> params \<Rightarrow> route" where
  "route_for CourseRoadmapElement ps = HomeRoute"
| "route_for LessonPageElement ps = LessonRoute (useParam ps (js ''phaseId'')) (useParam ps (js ''lessonId''))"

definition route_of :: "router \<Rightarrow> jstring \<Rightarrow> route option" where
  "route_of router path = (case router (map fst App_routes) path of
     None \<Rightarrow> None
   | Some (pat, ps) \<Rightarrow> map_option (\<lambda>e. route_for e ps) (map_of App_routes pat))"

text \<open>
  The component \<open>App\<close>: the element of the matched route, rendered under the context value of the
  locale provider; no match renders nothing.
\<close>

definition App :: "router \<Rightarrow> locale_state option \<Rightarrow> jstring \<Rightarrow> roadmap_state \<Rightarrow> lesson_state
    \<Rightarrow> js_error + vnode option" where
  "App router ctx path rs ls = (case route_of router path of
     None \<Rightarrow> Inr None
   | Some HomeRoute \<Rightarrow> map_sum id Some (CourseRoadmap_component ctx rs)
   | Some (LessonRoute phaseId lessonId) \<Rightarrow>
       map_sum id Some (LessonPage_component ctx phaseId lessonId ls))"

section \<open>The running site\<close>

record site =
  site_path :: jstring
  site_past :: "jstring list"
  site_future :: "jstring list"
  site_locale :: locale_state
  site_roadmap :: roadmap_state
  site_lesson :: lesson_state

text \<open>Loading the page: \<open>main.tsx\<close> mounts \<open>App\<close> inside \<open>LocaleProvider\<close>.\<close>

definition site_load :: "jstring option \<Rightarrow> jstring \<Rightarrow> jstring \<Rightarrow> jstring list \<Rightarrow> jstring list \<Rightarrow> site" where
  "site_load saved lang path past future = \<lparr>site_path = path, site_past = past, site_future = future,
     site_locale = \<lparr>locale_value = init_locale saved lang, stored_locale = saved\<rparr>,
     site_roadmap = roadmap_state_init, site_lesson = lesson_effect lesson_state_init\<rparr>"

definition site_view :: "router \<Rightarrow> site \<Rightarrow> js_error + vnode option" where
  "site_view router s = App router (Some (site_locale s)) (site_path s) (site_roadmap s) (site_lesson s)"

text \<open>
  A change of the path. The state of a component lives as long as its instance: it starts anew unless
  the new path renders the same component and React keeps the instance (\<open>keep\<close>); a kept lesson page
  runs its effect when a route parameter has changed.
\<close>

definition goto :: "router \<Rightarrow> (jstring \<Rightarrow> jstring \<Rightarrow> bool) \<Rightarrow> jstring \<Rightarrow> site \<Rightarrow> site" where
  "goto router keep path s = (
     let old = route_of router (site_path s); new = route_of router path;
         kept = keep (site_path s) path
     in s\<lparr>site_path := path,
          site_roadmap := (case (old, new) of
              (Some HomeRoute, Some HomeRoute) \<Rightarrow> if kept then site_roadmap s else roadmap_state_init
            | _ \<Rightarrow> roadmap_state_init),
          site_lesson := (case (old, new) of
              (Some (LessonRoute p l), Some (LessonRoute p' l')) \<Rightarrow>
                if kept then (if p = p' \<and> l = l' then site_lesson s else lesson_effect (site_lesson s))
                else lesson_effect lesson_state_init
            | _ \<Rightarrow> lesson_effect lesson_state_init)\<rparr>)"

text \<open>
  A click: the handlers of the language switcher, of the links and of the buttons. A link pushes the
  path it leaves and drops the forward entries, as the browser's history does.
\<close>

fun site_act :: "router \<Rightarrow> (jstring \<Rightarrow> jstring \<Rightarrow> bool) \<Rightarrow> action \<Rightarrow> site \<Rightarrow> site" where
  "site_act router keep (SetLocale l) s = s\<lparr>site_locale := handleSetLocale l (site_locale s)\<rparr>"
| "site_act router keep (Navigate path) s =
     goto router keep path (s\<lparr>site_past := site_path s # site_past s, site_future := []\<rparr>)"
| "site_act router keep (SetActiveTab tab) s =
     s\<lparr>site_roadmap := (site_roadmap s)\<lparr>activeTab := tab\<rparr>\<rparr>"
| "site_act router keep (SetActivePhase p) s =
     s\<lparr>site_roadmap := (site_roadmap s)\<lparr>activePhase := p\<rparr>\<rparr>"
| "site_act router keep (ToggleSection i) s = s\<lparr>site_lesson := toggleSection i (site_lesson s)\<rparr>"
| "site_act router keep (ToggleHint k) s = s\<lparr>site_lesson := toggleHint k (site_lesson s)\<rparr>"
| "site_act router keep (TogglePseudo k) s = s\<lparr>site_lesson := togglePseudo k (site_lesson s)\<rparr>"

definition offered :: "router \<Rightarrow> site \<Rightarrow> action \<Rightarrow> bool" where
  "offered router s a \<longleftrightarrow> (case site_view router s of Inr (Some n) \<Rightarrow> a \<in> set (clicks n) | _ \<Rightarrow> False)"

datatype event = Click action | Back | Forward | Reload

inductive site_step :: "router \<Rightarrow> (jstring \<Rightarrow> jstring \<Rightarrow> bool) \<Rightarrow> jstring \<Rightarrow> site \<Rightarrow> event \<Rightarrow> site \<Rightarrow> bool"
  for router keep lang where
  click: "offered router s a \<Longrightarrow> site_step router keep lang s (Click a) (site_act router keep a s)"
| go_back: "site_past s = p # ps \<Longrightarrow> site_step router keep lang s Back
    (goto router keep p (s\<lparr>site_past := ps, site_future := site_path s # site_future s\<rparr>))"
| go_forward: "site_future s = p # ps \<Longrightarrow> site_step router keep lang s Forward
    (goto router keep p (s\<lparr>site_past := site_path s # site_past s, site_future := ps\<rparr>))"
| reload: "site_step router keep lang s Reload
    (site_load (stored_locale (site_locale s)) lang (site_path s) (site_past s) (site_future s))"

inductive_cases click_stepE: "site_step router keep lang s (Click a) t"

section \<open>Where the user is\<close>

datatype pos = AtHome | AtLesson nat nat

definition position :: "router \<Rightarrow> jstring \<Rightarrow> pos option" where
  "position router path = (case route_of router path of
     None \<Rightarrow> None
   | Some HomeRoute \<Rightarrow> Some AtHome
   | Some (LessonRoute a b) \<Rightarrow> map_option (\<lambda>le. AtLesson (lesson_phaseId le) (lesson_lessonId le))
       (getLesson (Number a) (Number b) zh_CN))"

text \<open>The navigation the course promises: enter a phase, go on, go back, return.\<close>

inductive nav_step :: "pos \<Rightarrow> pos \<Rightarrow> bool" where
  enter: "p < length syllabus \<Longrightarrow> nav_step AtHome (AtLesson p 1)"
| next_lesson: "l < syllabus ! p \<Longrightarrow> nav_step (AtLesson p l) (AtLesson p (l + 1))"
| prev_lesson: "1 < l \<Longrightarrow> nav_step (AtLesson p l) (AtLesson p (l - 1))"
| return: "nav_step (AtLesson p l) AtHome"

text \<open>
  The same with a browser's history: a link moves along the course, back and forward retrace the
  moves, everything else leaves the user in place. \<open>history\<close> is the site's history seen this way;
  a path that shows nothing has no position.
\<close>

record hist =
  hist_past :: "pos option list"
  hist_here :: "pos option"
  hist_future :: "pos option list"

definition history :: "router \<Rightarrow> site \<Rightarrow> hist" where
  "history router s = \<lparr>hist_past = map (position router) (site_past s),
     hist_here = position router (site_path s), hist_future = map (position router) (site_future s)\<rparr>"

fun is_link :: "action \<Rightarrow> bool" where
  "is_link (Navigate path) = True"
| "is_link _ = False"

inductive nav_hist :: "router \<Rightarrow> hist \<Rightarrow> event \<Rightarrow> hist \<Rightarrow> bool" for router where
  move: "nav_step x y \<Longrightarrow> position router path = Some y \<Longrightarrow>
    nav_hist router \<lparr>hist_past = P, hist_here = Some x, hist_future = F\<rparr> (Click (Navigate path))
      \<lparr>hist_past = Some x # P, hist_here = Some y, hist_future = []\<rparr>"
| stay: "\<not> is_link a \<Longrightarrow> nav_hist router h (Click a) h"
| step_back: "nav_hist router \<lparr>hist_past = x # P, hist_here = y, hist_future = F\<rparr> Back
      \<lparr>hist_past = P, hist_here = x, hist_future = y # F\<rparr>"
| step_forward: "nav_hist router \<lparr>hist_past = P, hist_here = y, hist_future = x # F\<rparr> Forward
      \<lparr>hist_past = y # P, hist_here = x, hist_future = F\<rparr>"
| reloaded: "nav_hist router h Reload h"

inductive_cases lesson_navE: "nav_step (AtLesson p l) y"

definition lesson_path :: "nat \<Rightarrow> nat \<Rightarrow> jstring" where
  "lesson_path p l = js ''/phase/'' @ nat_str p @ js ''/lesson/'' @ nat_str l"

text \<open>
  What the site relies on from the router: the path of the home page and the paths of lessons,
  whose segments are decimal numbers, match their pattern, and the parameters are the segments.
\<close>

definition router_spec :: "router \<Rightarrow> bool" where
  "router_spec router \<longleftrightarrow>
     router (map fst App_routes) (js ''/'') = Some (js ''/'', [])
   \<and> (\<forall>a b. a \<noteq> [] \<and> b \<noteq> [] \<and> list_all is_digit a \<and> list_all is_digit b \<longrightarrow>
        router (map fst App_routes) (js ''/phase/'' @ a @ js ''/lesson/'' @ b) =
          Some (js ''/phase/:phaseId/lesson/:lessonId'', [(js ''phaseId'', a), (js ''lessonId'', b)]))"

text \<open>A router that keeps the contract: patterns and paths are compared segment by segment.\<close>

fun split_on :: "16 word \<Rightarrow> jstring \<Rightarrow> jstring list" where
  "split_on c [] = [[]]"
| "split_on c (x # xs) = (if x = c then [] # split_on c xs
     else (case split_on c xs of [] \<Rightarrow> [[x]] | y # ys \<Rightarrow> (x # y) # ys))"

fun match_segments :: "jstring list \<Rightarrow> jstring list \<Rightarrow> params option" where
  "match_segments [] [] = Some []"
| "match_segments (p # ps) (s # ss) = (case p of
     [] \<Rightarrow> if s = [] then match_segments ps ss else None
   | c # name \<Rightarrow> if c = 58 then (if s = [] then None else map_option (Cons (name, s)) (match_segments ps ss))
       else if p = s then match_segments ps ss else None)"
| "match_segments _ _ = None"

definition segment_router :: router where
  "segment_router pats path = map_option (\<lambda>p. (p, the (match_segments (split_on 47 p) (split_on 47 path))))
     (List.find (\<lambda>p. match_segments (split_on 47 p) (split_on 47 path) \<noteq> None) pats)"

section \<open>The invariant of a run\<close>

text \<open>What is unfolded belongs to the lesson that is shown.\<close>

definition folds_ok :: "Lesson \<Rightarrow> lesson_state \<Rightarrow> bool" where
  "folds_ok le st \<longleftrightarrow> expandedSections st \<subseteq> {..<length (lesson_sections le)}
     \<and> expandedHints st \<subseteq> exercise_id ` set (lesson_exercises le)
     \<and> expandedPseudo st \<subseteq> exercise_id ` set (lesson_exercises le)"

definition shown_lesson :: "router \<Rightarrow> site \<Rightarrow> Lesson option" where
  "shown_lesson router s = (case route_of router (site_path s) of
     Some (LessonRoute a b) \<Rightarrow> getLesson (Number a) (Number b) (locale_value (site_locale s))
   | _ \<Rightarrow> None)"

definition site_ok :: "router \<Rightarrow> site \<Rightarrow> bool" where
  "site_ok router s \<longleftrightarrow> locale_value (site_locale s) \<in> Locale
     \<and> (\<forall>n \<in> set object_prototype. stored_locale (site_locale s) \<noteq> Some n)
     \<and> activeTab (site_roadmap s) \<in> set tab_names
     \<and> (\<forall>path \<in> insert (site_path s) (set (site_past s) \<union> set (site_future s)).
          position router path \<noteq> None)
     \<and> (case shown_lesson router s of Some le \<Rightarrow> folds_ok le (site_lesson s) | None \<Rightarrow> True)"

abbreviation click_run where
  "click_run router keep lang \<equiv> run (\<lambda>s a t. site_step router keep lang s (Click a) t)"

section \<open>Positions\<close>

lemma route_home: "router_spec router \<Longrightarrow> route_of router (js ''/'') = Some HomeRoute"
  by (simp add: router_spec_def route_of_def App_routes_def)

lemma route_lesson:
  assumes "router_spec router"
  shows "route_of router (lesson_path p l) = Some (LessonRoute (nat_str p) (nat_str l))"
proof -
  have "router (map fst App_routes) (lesson_path p l) = Some (js ''/phase/:phaseId/lesson/:lessonId'',
      [(js ''phaseId'', nat_str p), (js ''lessonId'', nat_str l)])"
    using assms nat_str_digits [of p] nat_str_digits [of l] unfolding router_spec_def lesson_path_def
    by simp
  then show ?thesis by (simp add: route_of_def App_routes_def useParam_def)
qed

lemma position_iff:
  "position router path = Some (AtLesson p l) \<longleftrightarrow>
     (\<exists>a b. route_of router path = Some (LessonRoute a b) \<and> Number a = num_of p \<and> Number b = num_of l
        \<and> names_lesson p l)"
proof
  assume "position router path = Some (AtLesson p l)"
  then obtain a b le where "route_of router path = Some (LessonRoute a b)"
    "getLesson (Number a) (Number b) zh_CN = Some le" "lesson_phaseId le = p" "lesson_lessonId le = l"
    by (auto simp: position_def split: option.splits route.splits)
  then show "\<exists>a b. route_of router path = Some (LessonRoute a b) \<and> Number a = num_of p
      \<and> Number b = num_of l \<and> names_lesson p l"
    by (auto elim: getLesson_Some)
next
  assume "\<exists>a b. route_of router path = Some (LessonRoute a b) \<and> Number a = num_of p
      \<and> Number b = num_of l \<and> names_lesson p l"
  then obtain a b where ab: "route_of router path = Some (LessonRoute a b)" "Number a = num_of p"
    "Number b = num_of l" "names_lesson p l" by blast
  then have "getLesson (num_of p) (num_of l) zh_CN \<noteq> None" using getLesson_iff by blast
  then obtain le where le: "getLesson (num_of p) (num_of l) zh_CN = Some le" by blast
  then have "lesson_phaseId le = p" "lesson_lessonId le = l" by (auto elim: getLesson_Some)
  with ab le show "position router path = Some (AtLesson p l)" by (simp add: position_def)
qed

lemma names_first: "p < 7 \<Longrightarrow> names_lesson p 1"
  by (auto simp: names_lesson_def syllabus_def nth_Cons split: nat.splits)

lemma position_home: "position router path = Some AtHome \<longleftrightarrow> route_of router path = Some HomeRoute"
  by (auto simp: position_def split: option.splits route.splits)

lemma position_paths:
  assumes "router_spec router"
  shows "position router (js ''/'') = Some AtHome"
    and "names_lesson p l \<Longrightarrow> position router (lesson_path p l) = Some (AtLesson p l)"
proof -
  show "position router (js ''/'') = Some AtHome" using route_home [OF assms] by (simp add: position_home)
  assume pl: "names_lesson p l"
  then have "Number (nat_str p) = num_of p" "Number (nat_str l) = num_of l"
    using names_lesson_small [OF pl] by (simp_all add: Number_nat_str safe_small)
  with pl route_lesson [OF assms, of p l] show "position router (lesson_path p l) = Some (AtLesson p l)"
    by (auto simp: position_iff)
qed

lemma lesson_link_path:
  "p \<le> 10 \<Longrightarrow> l \<le> 10 \<Longrightarrow> lesson_link (num_of p) (num_of l) = lesson_path p l"
  by (simp add: lesson_link_def lesson_path_def num_text_nat safe_small)

section \<open>What a page offers\<close>

lemma App_views:
  "route_of router path = None \<Longrightarrow> App router (Some c) path rs ls = Inr None"
  "route_of router path = Some HomeRoute \<Longrightarrow>
     App router (Some c) path rs ls = map_sum id Some (CourseRoadmap (locale_value c) rs)"
  "route_of router path = Some (LessonRoute a b) \<Longrightarrow>
     App router (Some c) path rs ls = Inr (Some (LessonPage (locale_value c) a b ls))"
  by (simp_all add: App_def useLocale_def CourseRoadmap_component_def LessonPage_component_def)

lemma LessonPage_cases:
  assumes "getLesson (Number a) (Number b) loc = Some le"
  obtains c where "getPhaseContent (Number a) loc = Some c"
    "LessonPage loc a b st = LessonPage_found (translate loc) c le (Number a) (Number b) st"
    "length (content_lessons c) = syllabus ! lesson_phaseId le"
proof -
  from assms obtain c where c: "getPhaseContent (Number a) loc = Some c" "content_phaseId c = lesson_phaseId le"
    by (rule getLesson_Some)
  show thesis
    by (rule that [OF c(1)])
      (use assms c getPhaseContent_ok(4) [OF c(1)] in \<open>simp_all add: LessonPage_def Let_def\<close>)
qed

lemma LessonPage_missing:
  "getLesson (Number a) (Number b) loc = None \<Longrightarrow> LessonPage loc a b st = LessonPage_notFound (translate loc)"
  by (simp add: LessonPage_def Let_def split: option.splits)

lemma lesson_at:
  assumes "position router path = Some (AtLesson p l)"
  obtains a b le where "route_of router path = Some (LessonRoute a b)" "Number a = num_of p"
    "Number b = num_of l" "names_lesson p l" "getLesson (num_of p) (num_of l) loc = Some le"
    "lesson_phaseId le = p" "lesson_lessonId le = l" "lesson_ok le"
proof -
  from assms obtain a b where ab: "route_of router path = Some (LessonRoute a b)" "Number a = num_of p"
    "Number b = num_of l" "names_lesson p l" by (auto simp: position_iff)
  then have "getLesson (num_of p) (num_of l) loc \<noteq> None" using getLesson_iff by blast
  then obtain le where le: "getLesson (num_of p) (num_of l) loc = Some le" by blast
  then have "lesson_phaseId le = p" "lesson_lessonId le = l" "lesson_ok le" by (auto elim: getLesson_Some)
  with ab le show thesis using that by blast
qed

lemma offered_lesson:
  assumes "position router (site_path s) = Some (AtLesson p l)"
    and "getLesson (num_of p) (num_of l) (locale_value (site_locale s)) = Some le"
  shows "offered router s a \<longleftrightarrow> a \<in> lesson_actions le (syllabus ! p) (num_of p) (num_of l)"
proof -
  from assms(1) obtain x y where xy: "route_of router (site_path s) = Some (LessonRoute x y)"
    "Number x = num_of p" "Number y = num_of l" by (auto simp: position_iff)
  from assms(2) have p: "lesson_phaseId le = p" by (auto elim: getLesson_Some)
  from assms(2) xy have "getLesson (Number x) (Number y) (locale_value (site_locale s)) = Some le" by simp
  then obtain c where c: "LessonPage (locale_value (site_locale s)) x y (site_lesson s) =
      LessonPage_found (translate (locale_value (site_locale s))) c le (Number x) (Number y) (site_lesson s)"
    "length (content_lessons c) = syllabus ! p"
    using LessonPage_cases p by metis
  show ?thesis by (simp add: offered_def site_view_def App_views xy c clicks_found)
qed

lemma offered_home:
  assumes "route_of router (site_path s) = Some HomeRoute"
    and "locale_value (site_locale s) \<notin> set object_prototype"
  obtains ps where "getPhases (locale_value (site_locale s)) = Own ps" "map phase_id ps = [0..<7]"
    "\<And>a. offered router s a \<longleftrightarrow> a \<in> roadmap_actions (site_roadmap s) ps"
proof -
  obtain ps prs where ps: "getPhases (locale_value (site_locale s)) = Own ps"
    "CourseRoadmap (locale_value (site_locale s)) (site_roadmap s) =
       Inr (CourseRoadmap_view (locale_value (site_locale s)) (site_roadmap s) ps getArchitecture prs)"
    "map phase_id ps = [0..<7]"
    by (rule CourseRoadmap_ok [OF assms(2)])
  show thesis
    by (rule that [OF ps(1,3)])
      (simp add: offered_def site_view_def App_views assms(1) ps(2) clicks_view)
qed

lemma home_actions:
  assumes "map phase_id ps = [0..<7]"
  shows "a \<in> roadmap_actions st ps \<longleftrightarrow>
     (\<exists>l \<in> Locale. a = SetLocale l) \<or> (\<exists>t \<in> set tab_names. a = SetActiveTab t)
     \<or> activeTab st = js ''roadmap'' \<and> (\<exists>p < 7.
         a = SetActivePhase (if activePhase st = Some p then None else Some p)
         \<or> activePhase st = Some p \<and> a = Navigate (lesson_path p 1))"
proof -
  have ids: "phase_id ` set ps = {..<7}" using assms by (metis atLeast0LessThan list.set_map set_upt)
  have link: "js ''/phase/'' @ nat_str n @ js ''/lesson/1'' = lesson_path n 1" for n
    by (simp add: lesson_path_def nat_str.simps js_def)
  let ?offer = "\<lambda>n. insert (SetActivePhase (if activePhase st = Some n then None else Some n))
    (if activePhase st = Some n \<and> n < 7 then {Navigate (lesson_path n 1)} else {})"
  have "(\<Union>p \<in> set ps. let isOpen = (activePhase st = Some (phase_id p)) in
          insert (SetActivePhase (if isOpen then None else Some (phase_id p)))
            (if isOpen \<and> hasLessons (num_of (phase_id p))
             then {Navigate (js ''/phase/'' @ nat_str (phase_id p) @ js ''/lesson/1'')} else {}))
        = (\<Union>p \<in> set ps. ?offer (phase_id p))"
    unfolding link Let_def by (simp add: hasLessons_iff image_iff)
  also have "\<dots> = (\<Union>n \<in> {..<7}. ?offer n)"
    unfolding ids [symmetric] by (simp add: image_image)
  finally show ?thesis
    unfolding roadmap_actions_def by (auto split: if_splits)
qed

lemma offered_missing:
  assumes "position router (site_path s) = None" and "offered router s a"
  shows "a = Navigate (js ''/'')"
proof (cases "route_of router (site_path s)")
  case None
  with assms(2) show ?thesis by (simp add: offered_def site_view_def App_views)
next
  case (Some r)
  with assms(1) obtain x y where xy: "r = LessonRoute x y"
    and "getLesson (Number x) (Number y) zh_CN = None"
    by (auto simp: position_def split: route.splits)
  then have "getLesson (Number x) (Number y) (locale_value (site_locale s)) = None"
    using getLesson_iff by metis
  with assms(2) Some xy show ?thesis
    by (simp add: offered_def site_view_def App_views LessonPage_missing clicks_notFound)
qed

section \<open>Navigation\<close>

lemma home_navigate:
  assumes "router_spec router" and "locale_value (site_locale s) \<notin> set object_prototype"
    and "position router (site_path s) = Some AtHome" and "offered router s (Navigate path)"
  shows "\<exists>y. position router path = Some y \<and> nav_step AtHome y"
proof -
  have "route_of router (site_path s) = Some HomeRoute" using assms(3) by (simp add: position_home)
  from offered_home [OF this assms(2)] obtain ps where ps: "map phase_id ps = [0..<7]"
    and o: "\<And>a. offered router s a \<longleftrightarrow> a \<in> roadmap_actions (site_roadmap s) ps"
    by metis
  from assms(4) obtain p where p: "p < 7" "path = lesson_path p 1"
    unfolding o home_actions [OF ps] by auto
  moreover have "nav_step AtHome (AtLesson p 1)" by (rule nav_step.enter) (simp add: p)
  ultimately show ?thesis using position_paths(2) [OF assms(1) names_first] by metis
qed

lemma lesson_links:
  assumes "names_lesson p l"
  shows "1 < l \<Longrightarrow> lesson_link (num_of p) (num_sub (num_of l) (num_of 1)) = lesson_path p (l - 1)"
    and "l < syllabus ! p \<Longrightarrow> lesson_link (num_of p) (num_add (num_of l) (num_of 1)) = lesson_path p (l + 1)"
  using names_lesson_small [OF assms] by (auto simp: num_sub_nat num_add_nat safe_small lesson_link_path)

lemma lesson_navigate:
  assumes "router_spec router" and "position router (site_path s) = Some (AtLesson p l)"
    and "offered router s (Navigate path)"
  shows "\<exists>y. position router path = Some y \<and> nav_step (AtLesson p l) y"
proof -
  obtain le where le: "getLesson (num_of p) (num_of l) (locale_value (site_locale s)) = Some le"
    and pl: "names_lesson p l"
    using lesson_at [OF assms(2)] by metis
  from offered_lesson [OF assms(2) le] assms(3)
  have "Navigate path \<in> lesson_actions le (syllabus ! p) (num_of p) (num_of l)" by simp
  then consider "path = js ''/''" | "1 < l" "path = lesson_path p (l - 1)"
    | "l < syllabus ! p" "path = lesson_path p (l + 1)"
    using lesson_links [OF pl] by (auto simp: lesson_actions_def split: if_splits)
  then show ?thesis
  proof cases
    case 1
    then show ?thesis using position_paths(1) [OF assms(1)] by (auto intro: nav_step.intros)
  next
    case 2
    then have "names_lesson p (l - 1)" using pl by (auto simp: names_lesson_def)
    with 2 show ?thesis using position_paths(2) [OF assms(1)] nav_step.prev_lesson by metis
  next
    case 3
    then have "names_lesson p (l + 1)" using pl by (auto simp: names_lesson_def)
    with 3 show ?thesis using position_paths(2) [OF assms(1)] nav_step.next_lesson by metis
  qed
qed

lemma offered_navigate:
  assumes "router_spec router" and "locale_value (site_locale s) \<notin> set object_prototype"
    and "position router (site_path s) = Some x" and "offered router s (Navigate path)"
  shows "\<exists>y. position router path = Some y \<and> nav_step x y"
  using home_navigate [OF assms(1,2) _ assms(4)] lesson_navigate [OF assms(1) _ assms(4)] assms(3)
  by (cases x) simp_all

section \<open>The invariant\<close>

lemma effect_closed [simp]: "lesson_effect st = lesson_state_init"
  by (simp add: lesson_effect_def lesson_state_init_def)

lemma folds_init [simp]: "folds_ok le lesson_state_init"
  by (simp add: folds_ok_def lesson_state_init_def)

lemma tab_init [simp]: "activeTab roadmap_state_init \<in> set tab_names"
  by (simp add: roadmap_state_init_def tab_names_def)

lemma shown_lesson_frame:
  "site_path t = site_path s \<Longrightarrow> site_locale t = site_locale s \<Longrightarrow>
     shown_lesson router t = shown_lesson router s"
  by (simp add: shown_lesson_def split: option.splits route.splits)

lemma goto_fields [simp]:
  "site_path (goto router keep path s) = path" "site_past (goto router keep path s) = site_past s"
  "site_future (goto router keep path s) = site_future s"
  "site_locale (goto router keep path s) = site_locale s"
  by (simp_all add: goto_def Let_def)

lemma goto_roadmap:
  "site_roadmap (goto router keep path s) = site_roadmap s
   \<or> site_roadmap (goto router keep path s) = roadmap_state_init"
  by (simp add: goto_def Let_def split: option.splits route.splits)

lemma goto_lesson:
  "site_lesson (goto router keep path s) = lesson_state_init
   \<or> site_lesson (goto router keep path s) = site_lesson s
     \<and> route_of router path = route_of router (site_path s)"
  by (simp add: goto_def Let_def split: option.splits route.splits)

lemma site_ok_goto:
  assumes "site_ok router s" and "position router path \<noteq> None"
    and "set past \<union> set future \<subseteq> insert (site_path s) (set (site_past s) \<union> set (site_future s))"
  shows "site_ok router (goto router keep path (s\<lparr>site_past := past, site_future := future\<rparr>))"
proof -
  let ?s = "s\<lparr>site_past := past, site_future := future\<rparr>"
  let ?t = "goto router keep path ?s"
  have "activeTab (site_roadmap ?t) \<in> set tab_names"
    using goto_roadmap [of router keep path ?s] assms(1) by (auto simp: site_ok_def)
  moreover have "\<forall>x \<in> insert path (set past \<union> set future). position router x \<noteq> None"
    using assms unfolding site_ok_def by blast
  moreover have "case shown_lesson router ?t of Some le \<Rightarrow> folds_ok le (site_lesson ?t) | None \<Rightarrow> True"
  proof (rule disjE [OF goto_lesson [of router keep path ?s]])
    assume "site_lesson ?t = site_lesson ?s \<and> route_of router path = route_of router (site_path ?s)"
    then have "shown_lesson router ?t = shown_lesson router s" "site_lesson ?t = site_lesson s"
      by (auto simp: shown_lesson_def split: option.splits route.splits)
    with assms(1) show ?thesis by (simp add: site_ok_def split: option.splits)
  qed (simp split: option.splits)
  ultimately show ?thesis using assms(1) unfolding site_ok_def goto_fields by simp
qed

lemma site_ok_load:
  assumes "\<forall>n \<in> set object_prototype. saved \<noteq> Some n"
    and "\<forall>x \<in> insert path (set past \<union> set future). position router x \<noteq> None"
  shows "site_ok router (site_load saved lang path past future)"
  using assms by (simp add: site_ok_def site_load_def init_locale_supported split: option.splits)

lemma folds_ok_toggle:
  "folds_ok le st \<Longrightarrow> i < length (lesson_sections le) \<Longrightarrow> folds_ok le (toggleSection i st)"
  "folds_ok le st \<Longrightarrow> k \<in> exercise_id ` set (lesson_exercises le) \<Longrightarrow> folds_ok le (toggleHint k st)"
  "folds_ok le st \<Longrightarrow> k \<in> exercise_id ` set (lesson_exercises le) \<Longrightarrow> folds_ok le (togglePseudo k st)"
  by (auto simp: folds_ok_def toggleSection_def toggleHint_def togglePseudo_def toggle_def)

lemma site_ok_setLocale:
  assumes "site_ok router s" and "route_of router (site_path s) = Some HomeRoute" and "l \<in> Locale"
  shows "site_ok router (s\<lparr>site_locale := handleSetLocale l (site_locale s)\<rparr>)"
  using assms locale_not_inherited [OF assms(3)]
  by (auto simp: site_ok_def shown_lesson_def handleSetLocale_def)

lemma site_ok_roadmap:
  assumes "site_ok router s" and "activeTab r \<in> set tab_names"
  shows "site_ok router (s\<lparr>site_roadmap := r\<rparr>)"
  using assms shown_lesson_frame [of "s\<lparr>site_roadmap := r\<rparr>" s]
  by (simp add: site_ok_def split: option.splits)

lemma site_ok_fold:
  assumes "site_ok router s" and "shown_lesson router s = Some le" and "folds_ok le st"
  shows "site_ok router (s\<lparr>site_lesson := st\<rparr>)"
  using assms shown_lesson_frame [of "s\<lparr>site_lesson := st\<rparr>" s] by (simp add: site_ok_def)

lemma site_ok_navigate:
  assumes "router_spec router" and "site_ok router s" and "offered router s (Navigate path)"
  shows "site_ok router (site_act router keep (Navigate path) s)"
proof -
  have loc: "locale_value (site_locale s) \<notin> set object_prototype"
    using assms(2) by (auto simp: site_ok_def dest: locale_not_inherited)
  obtain x where x: "position router (site_path s) = Some x" using assms(2) by (auto simp: site_ok_def)
  from offered_navigate [OF assms(1) loc x assms(3)] have "position router path \<noteq> None" by auto
  with assms(2) show ?thesis by (auto intro!: site_ok_goto)
qed

lemma site_ok_click_home:
  assumes "site_ok router s" and "position router (site_path s) = Some AtHome"
    and "offered router s a" and nonav: "\<nexists>path. a = Navigate path"
  shows "site_ok router (site_act router keep a s)"
proof -
  have loc: "locale_value (site_locale s) \<notin> set object_prototype"
    using assms(1) by (auto simp: site_ok_def dest: locale_not_inherited)
  have h: "route_of router (site_path s) = Some HomeRoute" using assms(2) by (simp add: position_home)
  from offered_home [OF h loc] obtain ps where ps: "map phase_id ps = [0..<7]"
    and o: "\<And>a. offered router s a \<longleftrightarrow> a \<in> roadmap_actions (site_roadmap s) ps" by metis
  have tab: "activeTab (site_roadmap s) \<in> set tab_names" using assms(1) by (simp add: site_ok_def)
  from assms(3) nonav consider l where "l \<in> Locale" "a = SetLocale l"
    | t where "t \<in> set tab_names" "a = SetActiveTab t" | p where "a = SetActivePhase p"
    unfolding o home_actions [OF ps] by auto
  then show ?thesis
    by cases (simp_all add: site_ok_setLocale [OF assms(1) h] site_ok_roadmap [OF assms(1)] tab)
qed

lemma site_ok_click_lesson:
  assumes "site_ok router s" and "position router (site_path s) = Some (AtLesson p l)"
    and "offered router s a" and nonav: "\<nexists>path. a = Navigate path"
  shows "site_ok router (site_act router keep a s)"
proof -
  obtain u v le where le: "route_of router (site_path s) = Some (LessonRoute u v)"
    "Number u = num_of p" "Number v = num_of l"
    "getLesson (num_of p) (num_of l) (locale_value (site_locale s)) = Some le"
    using lesson_at [OF assms(2)] by metis
  then have shown: "shown_lesson router s = Some le" by (simp add: shown_lesson_def)
  have a: "a \<in> lesson_actions le (syllabus ! p) (num_of p) (num_of l)"
    using offered_lesson [OF assms(2) le(4)] assms(3) by simp
  have folds: "folds_ok le (site_lesson s)" using assms(1) shown by (simp add: site_ok_def)
  note toggled = site_ok_fold [OF assms(1) shown] folds_ok_toggle [OF folds]
  from a nonav consider i where "a = ToggleSection i" "i < length (lesson_sections le)"
    | k where "a = ToggleHint k \<or> a = TogglePseudo k" "k \<in> exercise_id ` set (lesson_exercises le)"
    by (auto simp: lesson_actions_def split: if_splits)
  then show ?thesis by cases (auto simp: toggled)
qed

lemma site_ok_click:
  assumes "router_spec router" and "site_ok router s" and "offered router s a"
  shows "site_ok router (site_act router keep a s)"
proof (cases "\<exists>path. a = Navigate path")
  case True
  with assms site_ok_navigate show ?thesis by blast
next
  case False
  obtain x where x: "position router (site_path s) = Some x" using assms(2) by (auto simp: site_ok_def)
  show ?thesis
    using site_ok_click_home [OF assms(2) _ assms(3) False] site_ok_click_lesson [OF assms(2) _ assms(3) False] x
    by (cases x) simp_all
qed

lemma site_ok_step:
  assumes "site_step router keep lang s e t" and "router_spec router" and "site_ok router s"
  shows "site_ok router t"
  using assms
proof cases
  case (click a)
  then show ?thesis using site_ok_click assms by simp
next
  case (go_back p ps)
  with assms(3) have "position router p \<noteq> None" by (simp add: site_ok_def)
  with go_back assms(3) show ?thesis by (auto intro!: site_ok_goto)
next
  case (go_forward p ps)
  with assms(3) have "position router p \<noteq> None" by (simp add: site_ok_def)
  with go_forward assms(3) show ?thesis by (auto intro!: site_ok_goto)
next
  case reload
  from assms(3) have "\<forall>n \<in> set object_prototype. stored_locale (site_locale s) \<noteq> Some n"
    "\<forall>x \<in> insert (site_path s) (set (site_past s) \<union> set (site_future s)). position router x \<noteq> None"
    by (simp_all add: site_ok_def)
  then show ?thesis unfolding reload by (rule site_ok_load)
qed

text \<open>The site as an invariant system, for every router that keeps its contract.\<close>

interpretation site: invariant_system "site_step router keep lang"
  "\<lambda>s. router_spec router \<and> site_ok router s" for router keep lang
  by unfold_locales (auto dest: site_ok_step)

lemma history_stay: "\<not> is_link a \<Longrightarrow> history router (site_act router keep a s) = history router s"
  by (cases a) (simp_all add: history_def)

lemma nav_hist_click:
  assumes "router_spec router" and "site_ok router s" and "offered router s a"
  shows "nav_hist router (history router s) (Click a) (history router (site_act router keep a s))"
proof (cases "is_link a")
  case True
  then obtain path where a: "a = Navigate path" by (cases a) simp_all
  have loc: "locale_value (site_locale s) \<notin> set object_prototype"
    using assms(2) by (auto simp: site_ok_def dest: locale_not_inherited)
  obtain x where x: "position router (site_path s) = Some x" using assms(2) by (auto simp: site_ok_def)
  obtain y where "position router path = Some y" "nav_step x y"
    using offered_navigate [OF assms(1) loc x] assms(3) a by blast
  then show ?thesis using x by (simp add: a history_def nav_hist.move)
next
  case False
  then show ?thesis by (simp add: history_stay nav_hist.stay)
qed

text \<open>The site, under its events, refines the abstract navigation with a history.\<close>

interpretation nav: simulation "site_step router keep lang"
  "\<lambda>s. router_spec router \<and> site_ok router s" "history router" "nav_hist router"
  for router keep lang
proof unfold_locales
  fix s e t
  assume s: "router_spec router \<and> site_ok router s"
  assume "site_step router keep lang s e t"
  then show "nav_hist router (history router s) e (history router t)"
  proof cases
    case (click a)
    with s nav_hist_click show ?thesis by blast
  next
    case (go_back p ps)
    then show ?thesis by (simp add: history_def nav_hist.step_back)
  next
    case (go_forward p ps)
    then show ?thesis by (simp add: history_def nav_hist.step_forward)
  next
    case reload
    then have "history router t = history router s" by (simp add: history_def site_load_def)
    with reload show ?thesis by (simp add: nav_hist.reloaded)
  qed
qed

text \<open>On a lesson the links offer every step the course has there, and no other.\<close>

lemma lesson_moves:
  assumes "router_spec router" and "position router (site_path s) = Some (AtLesson p l)"
  shows "{y. \<exists>path. offered router s (Navigate path) \<and> position router path = Some y} =
     Collect (nav_step (AtLesson p l))"
proof (intro set_eqI iffI; simp only: mem_Collect_eq)
  fix y
  assume "\<exists>path. offered router s (Navigate path) \<and> position router path = Some y"
  then obtain path where path: "offered router s (Navigate path)" "position router path = Some y" by blast
  from lesson_navigate [OF assms path(1)] path(2) show "nav_step (AtLesson p l) y" by auto
next
  fix y
  assume step: "nav_step (AtLesson p l) y"
  obtain le where le: "getLesson (num_of p) (num_of l) (locale_value (site_locale s)) = Some le"
    and pl: "names_lesson p l" using lesson_at [OF assms(2)] by metis
  note offer = offered_lesson [OF assms(2) le] and link = lesson_links [OF pl]
  from step show "\<exists>path. offered router s (Navigate path) \<and> position router path = Some y"
  proof cases
    case next_lesson
    then have "offered router s (Navigate (lesson_path p (l + 1)))" "names_lesson p (l + 1)"
      using link pl by (simp_all add: offer lesson_actions_def names_lesson_def)
    then show ?thesis using next_lesson position_paths(2) [OF assms(1)] by blast
  next
    case prev_lesson
    then have "offered router s (Navigate (lesson_path p (l - 1)))" "names_lesson p (l - 1)"
      using link pl by (auto simp: offer lesson_actions_def names_lesson_def)
    then show ?thesis using prev_lesson position_paths(2) [OF assms(1)] by blast
  next
    case return
    have "offered router s (Navigate (js ''/''))" by (simp add: offer lesson_actions_def)
    then show ?thesis using return position_paths(1) [OF assms(1)] by blast
  qed
qed

section \<open>Folding\<close>

text \<open>While no link is followed, every foldable part of the running site is a switch of its own.\<close>

interpretation folds: switches "site_act router keep" "\<lambda>b s. is_open b (site_lesson s)" foldable
  "\<lambda>a. \<not> is_link a" for router keep
proof
  fix a b s
  assume "\<not> is_link a" and "foldable b"
  then show "is_open b (site_lesson (site_act router keep a s)) \<longleftrightarrow> is_open b (site_lesson s) \<noteq> (a = b)"
    by (cases a; cases b) (auto simp: toggleSection_def toggleHint_def togglePseudo_def toggle_def)
qed

section \<open>Reachability\<close>

lemma click_run_one:
  "offered router s a \<Longrightarrow> click_run router keep lang s [a] (site_act router keep a s)"
  by (auto intro: run.intros site_step.click)

lemma site_ok_not_inherited: "site_ok router s \<Longrightarrow> locale_value (site_locale s) \<notin> set object_prototype"
  by (auto simp: site_ok_def dest: locale_not_inherited)

text \<open>The links every state offers: back to the roadmap, the next lesson, a phase on the open roadmap.\<close>

lemma offers_home:
  assumes "position router (site_path s) = Some (AtLesson p l)"
  shows "offered router s (Navigate (js ''/''))"
proof -
  obtain le where "getLesson (num_of p) (num_of l) (locale_value (site_locale s)) = Some le"
    using lesson_at [OF assms] by metis
  from offered_lesson [OF assms this] show ?thesis by (simp add: lesson_actions_def)
qed

lemma offers_next:
  assumes "position router (site_path s) = Some (AtLesson p l)" and "l < syllabus ! p"
  shows "offered router s (Navigate (lesson_path p (l + 1)))"
proof -
  obtain le where le: "getLesson (num_of p) (num_of l) (locale_value (site_locale s)) = Some le"
    and pl: "names_lesson p l"
    using lesson_at [OF assms(1)] by metis
  have "lesson_link (num_of p) (num_add (num_of l) (num_of 1)) = lesson_path p (l + 1)"
    using names_lesson_small [OF pl] by (simp add: num_add_nat safe_small lesson_link_path)
  with offered_lesson [OF assms(1) le] assms(2) show ?thesis by (simp add: lesson_actions_def)
qed

lemma offers_roadmap:
  assumes "site_ok router s" and "position router (site_path s) = Some AtHome"
  shows "offered router s (SetActiveTab (js ''roadmap''))"
    and "activeTab (site_roadmap s) = js ''roadmap'' \<Longrightarrow> p < 7 \<Longrightarrow> activePhase (site_roadmap s) \<noteq> Some p \<Longrightarrow>
      offered router s (SetActivePhase (Some p))"
    and "activeTab (site_roadmap s) = js ''roadmap'' \<Longrightarrow> p < 7 \<Longrightarrow> activePhase (site_roadmap s) = Some p \<Longrightarrow>
      offered router s (Navigate (lesson_path p 1))"
proof -
  have h: "route_of router (site_path s) = Some HomeRoute" using assms(2) by (simp add: position_home)
  from offered_home [OF h site_ok_not_inherited [OF assms(1)]] obtain ps
    where ps: "map phase_id ps = [0..<7]"
      and o: "\<And>a. offered router s a \<longleftrightarrow> a \<in> roadmap_actions (site_roadmap s) ps" by metis
  note home = o [unfolded home_actions [OF ps]]
  show "offered router s (SetActiveTab (js ''roadmap''))" by (simp add: home tab_names_def)
  show "activeTab (site_roadmap s) = js ''roadmap'' \<Longrightarrow> p < 7 \<Longrightarrow> activePhase (site_roadmap s) \<noteq> Some p \<Longrightarrow>
      offered router s (SetActivePhase (Some p))" by (auto simp: home)
  show "activeTab (site_roadmap s) = js ''roadmap'' \<Longrightarrow> p < 7 \<Longrightarrow> activePhase (site_roadmap s) = Some p \<Longrightarrow>
      offered router s (Navigate (lesson_path p 1))" by (auto simp: home)
qed

text \<open>From the roadmap a phase is entered with three clicks at most.\<close>

lemma reach_open:
  assumes "router_spec router" and "site_ok router s" and "position router (site_path s) = Some AtHome"
    and "activeTab (site_roadmap s) = js ''roadmap''" and "p < 7"
  obtains as t where "click_run router keep lang s as t" "length as \<le> 1" "site_ok router t"
    "position router (site_path t) = Some AtHome" "activeTab (site_roadmap t) = js ''roadmap''"
    "activePhase (site_roadmap t) = Some p"
proof (cases "activePhase (site_roadmap s) = Some p")
  case True
  show thesis by (rule that [of "[]" s]) (simp_all add: assms True run.Nil)
next
  case False
  have o: "offered router s (SetActivePhase (Some p))" by (rule offers_roadmap(2) [OF assms(2-5) False])
  show thesis
    by (rule that [of "[SetActivePhase (Some p)]" "site_act router keep (SetActivePhase (Some p)) s"])
      (use assms click_run_one [OF o] site_ok_click [OF assms(1,2) o, of keep] in simp_all)
qed

lemma reach_first:
  assumes "router_spec router" and "site_ok router s" and "position router (site_path s) = Some AtHome"
    and "p < 7"
  shows "\<exists>as t. click_run router keep lang s as t \<and> length as \<le> 3 \<and> site_ok router t
     \<and> position router (site_path t) = Some (AtLesson p 1)"
proof -
  let ?tab = "SetActiveTab (js ''roadmap'')" and ?enter = "Navigate (lesson_path p 1)"
  let ?s = "site_act router keep ?tab s"
  have o1: "offered router s ?tab" by (rule offers_roadmap(1) [OF assms(2,3)])
  have s1: "site_ok router ?s" "position router (site_path ?s) = Some AtHome"
    "activeTab (site_roadmap ?s) = js ''roadmap''"
    using site_ok_click [OF assms(1,2) o1, of keep] assms(3) by simp_all
  obtain as t where t: "click_run router keep lang ?s as t" "length as \<le> 1" "site_ok router t"
    "position router (site_path t) = Some AtHome" "activeTab (site_roadmap t) = js ''roadmap''"
    "activePhase (site_roadmap t) = Some p"
    by (rule reach_open [OF assms(1) s1 assms(4)])
  let ?u = "site_act router keep ?enter t"
  have o3: "offered router t ?enter" by (rule offers_roadmap(3) [OF t(3-5) assms(4) t(6)])
  have "position router (site_path ?u) = Some (AtLesson p 1)"
    using position_paths(2) [OF assms(1) names_first [OF assms(4)]] by simp
  moreover have "click_run router keep lang s ([?tab] @ as @ [?enter]) ?u"
    by (intro run_append [OF click_run_one [OF o1]] run_append [OF t(1)] click_run_one o3)
  moreover have "site_ok router ?u" by (rule site_ok_click [OF assms(1) t(3) o3])
  ultimately show ?thesis using t(2) by (intro exI [of _ "[?tab] @ as @ [?enter]"] exI [of _ ?u]) simp
qed

lemma reach_next:
  assumes "router_spec router" and "site_ok router s"
    and "position router (site_path s) = Some (AtLesson p l)" and "l + k \<le> syllabus ! p"
  shows "\<exists>as t. click_run router keep lang s as t \<and> length as = k \<and> site_ok router t
     \<and> position router (site_path t) = Some (AtLesson p (l + k))"
  using assms(4)
proof (induction k)
  case 0
  show ?case by (rule exI [of _ "[]"], rule exI [of _ s]) (simp add: run.Nil assms)
next
  case (Suc k)
  then obtain as t where t: "click_run router keep lang s as t" "length as = k" "site_ok router t"
    "position router (site_path t) = Some (AtLesson p (l + k))" by auto
  have o: "offered router t (Navigate (lesson_path p (l + k + 1)))"
    by (rule offers_next [OF t(4)]) (use Suc.prems in simp)
  let ?u = "site_act router keep (Navigate (lesson_path p (l + k + 1))) t"
  have "names_lesson p (l + k)" using t(4) by (auto simp: position_iff)
  then have "names_lesson p (l + k + 1)" using Suc.prems by (simp add: names_lesson_def)
  then have "position router (site_path ?u) = Some (AtLesson p (l + Suc k))"
    using position_paths(2) [OF assms(1)] by simp
  moreover have "click_run router keep lang s (as @ [Navigate (lesson_path p (l + k + 1))]) ?u"
    by (rule run_append [OF t(1) click_run_one [OF o]])
  moreover have "site_ok router ?u" by (rule site_ok_click [OF assms(1) t(3) o])
  ultimately show ?case using t(2) by (metis length_append_singleton)
qed

text \<open>On the last lesson the links lead home or back only.\<close>

lemma last_lesson_links:
  assumes "router_spec router" and "position router (site_path s) = Some (AtLesson p (syllabus ! p))"
    and "offered router s (Navigate path)"
  shows "position router path \<in> {Some AtHome, Some (AtLesson p (syllabus ! p - 1))}"
  using lesson_navigate [OF assms] by (auto elim: lesson_navE)

lemma reach_home:
  assumes "router_spec router" and "site_ok router s"
  shows "\<exists>as t. click_run router keep lang s as t \<and> length as \<le> 1 \<and> site_ok router t
     \<and> position router (site_path t) = Some AtHome"
proof -
  obtain x where x: "position router (site_path s) = Some x" using assms(2) by (auto simp: site_ok_def)
  show ?thesis
  proof (cases x)
    case AtHome
    with x assms show ?thesis by (intro exI [of _ "[]"] exI [of _ s]) (simp add: run.Nil)
  next
    case (AtLesson p l)
    have o: "offered router s (Navigate (js ''/''))" by (rule offers_home [OF x [unfolded AtLesson]])
    show ?thesis
      by (intro exI [of _ "[Navigate (js ''/'')]"] exI [of _ "site_act router keep (Navigate (js ''/'')) s"])
        (use position_paths(1) [OF assms(1)] click_run_one [OF o] site_ok_click [OF assms o] in simp)
  qed
qed

lemma reach_lesson:
  assumes "router_spec router" and "site_ok router s" and "names_lesson p l"
  shows "\<exists>as t. click_run router keep lang s as t \<and> length as \<le> l + 3
     \<and> position router (site_path t) = Some (AtLesson p l)"
proof -
  obtain as s1 where s1: "click_run router keep lang s as s1" "length as \<le> 1" "site_ok router s1"
    "position router (site_path s1) = Some AtHome" using reach_home [OF assms(1,2)] by metis
  have p: "p < 7" "1 + (l - 1) \<le> syllabus ! p" "1 + (l - 1) = l"
    using assms(3) names_lesson_small [OF assms(3)] by (auto simp: names_lesson_def)
  obtain bs s2 where s2: "click_run router keep lang s1 bs s2" "length bs \<le> 3" "site_ok router s2"
    "position router (site_path s2) = Some (AtLesson p 1)"
    using reach_first [OF assms(1) s1(3,4) p(1)] by metis
  obtain cs t where t: "click_run router keep lang s2 cs t" "length cs = l - 1"
    "position router (site_path t) = Some (AtLesson p (1 + (l - 1)))"
    using reach_next [OF assms(1) s2(3,4) p(2)] by metis
  have "click_run router keep lang s (as @ bs @ cs) t"
    by (intro run_append [OF s1(1)] run_append [OF s2(1)] t(1))
  moreover have "length (as @ bs @ cs) \<le> l + 3" using s1(2) s2(2) t(2) p(3) by simp
  ultimately show ?thesis using t(3) p(3) by metis
qed

section \<open>The segment router keeps the contract\<close>

lemma split_on_segment: "c \<notin> set a \<Longrightarrow> split_on c (a @ c # r) = a # split_on c r"
  by (induction a) auto

lemma split_on_last: "c \<notin> set a \<Longrightarrow> split_on c a = [a]"
  by (induction a) auto

lemma digits_no_slash: "list_all is_digit a \<Longrightarrow> 47 \<notin> set a"
  by (auto simp: list_all_iff is_digit_def)

lemma split_patterns:
  "split_on 47 (js ''/'') = [[], []]"
  "split_on 47 (js ''/phase/:phaseId/lesson/:lessonId'') =
     [[], js ''phase'', js '':phaseId'', js ''lesson'', js '':lessonId'']"
  by (simp_all add: js_def)

lemma split_lesson_path:
  assumes "list_all is_digit a" and "list_all is_digit b"
  shows "split_on 47 (js ''/phase/'' @ a @ js ''/lesson/'' @ b) = [[], js ''phase'', a, js ''lesson'', b]"
proof -
  have parts: "js ''/phase/'' = [] @ 47 # js ''phase'' @ [47]" "js ''/lesson/'' = [47] @ js ''lesson'' @ [47]"
    by (simp_all add: js_def)
  have plain: "47 \<notin> set (js ''phase'')" "47 \<notin> set (js ''lesson'')" by (simp_all add: js_def)
  show ?thesis unfolding parts
    using plain assms [THEN digits_no_slash] by (simp add: split_on_segment split_on_last)
qed

lemma segment_router_ok: "router_spec segment_router"
proof -
  have home: "segment_router (map fst App_routes) (js ''/'') = Some (js ''/'', [])"
    by (simp add: segment_router_def App_routes_def split_patterns)
  moreover have "segment_router (map fst App_routes) (js ''/phase/'' @ a @ js ''/lesson/'' @ b) =
      Some (js ''/phase/:phaseId/lesson/:lessonId'', [(js ''phaseId'', a), (js ''lessonId'', b)])"
    if "a \<noteq> [] \<and> b \<noteq> [] \<and> list_all is_digit a \<and> list_all is_digit b" for a b
  proof -
    have digits: "list_all is_digit a" "list_all is_digit b" using that by simp_all
    have "match_segments (split_on 47 (js ''/phase/:phaseId/lesson/:lessonId''))
        (split_on 47 (js ''/phase/'' @ a @ js ''/lesson/'' @ b)) = Some [(js ''phaseId'', a), (js ''lessonId'', b)]"
      using that unfolding split_patterns split_lesson_path [OF digits] by (simp add: js_def)
    moreover have "match_segments (split_on 47 (js ''/''))
        (split_on 47 (js ''/phase/'' @ a @ js ''/lesson/'' @ b)) = None"
      unfolding split_patterns split_lesson_path [OF digits] by (simp add: js_def)
    ultimately show ?thesis by (simp add: segment_router_def App_routes_def)
  qed
  ultimately show ?thesis by (simp add: router_spec_def)
qed

section \<open>Pages of a run\<close>

lemma found_not_missing: "LessonPage_found tr c le p l st \<noteq> LessonPage_notFound tr'"
  by (simp add: LessonPage_found_def LessonPage_notFound_def Let_def)

lemma roadmap_not_missing: "CourseRoadmap_view l st ps a prs \<noteq> LessonPage_notFound tr'"
  by (simp add: CourseRoadmap_view_def LessonPage_notFound_def Let_def)

lemma site_ok_view:
  assumes "site_ok router s"
  shows "\<exists>n. site_view router s = Inr (Some n) \<and> n \<noteq> LessonPage_notFound (translate (locale_value (site_locale s)))"
proof -
  obtain x where x: "position router (site_path s) = Some x" using assms by (auto simp: site_ok_def)
  show ?thesis
  proof (cases x)
    case AtHome
    with x have "route_of router (site_path s) = Some HomeRoute" by (simp add: position_home)
    then show ?thesis
      using CourseRoadmap_ok [OF site_ok_not_inherited [OF assms], of "site_roadmap s"] roadmap_not_missing
      by (simp add: site_view_def App_views) (metis map_sum.simps(2))
  next
    case (AtLesson p l)
    obtain a b le where ab: "route_of router (site_path s) = Some (LessonRoute a b)"
      "getLesson (Number a) (Number b) (locale_value (site_locale s)) = Some le"
      using lesson_at [OF x [unfolded AtLesson], of "locale_value (site_locale s)"] by metis
    then show ?thesis
      using LessonPage_cases [OF ab(2), of "site_lesson s"] found_not_missing
      by (simp add: site_view_def App_views) metis
  qed
qed

lemma start_ok:
  assumes "router_spec router" and "saved \<notin> Some ` set object_prototype"
  shows "site_ok router (site_load saved lang (js ''/'') [] [])"
  by (rule site_ok_load) (use assms position_paths(1) in auto)

lemma run_ok:
  assumes "router_spec router" and "saved \<notin> Some ` set object_prototype"
    and "run (site_step router keep lang) (site_load saved lang (js ''/'') [] []) es t"
  shows "site_ok router t"
  using site.run_inv [OF assms(3)] assms start_ok by blast

text \<open>Nothing but the language switcher changes the locale, and a reload reads it back.\<close>

lemma locale_kept:
  assumes "site_step router keep lang s e t" and "\<forall>l'. e \<noteq> Click (SetLocale l')" and "l \<in> Locale"
    and "locale_value (site_locale s) = l" and "stored_locale (site_locale s) = Some l"
  shows "locale_value (site_locale t) = l \<and> stored_locale (site_locale t) = Some l"
  using assms(1)
proof cases
  case (click a)
  with assms show ?thesis by (cases a) simp_all
next
  case reload
  have "init_locale (Some l) lang = l" using assms(3) by (subst init_locale_eq) simp
  with reload assms show ?thesis by (simp add: site_load_def)
qed (use assms in simp_all)

lemma locale_kept_run:
  assumes "run (site_step router keep lang) s es t" and "l \<in> Locale"
    and "\<forall>l'. Click (SetLocale l') \<notin> set es"
    and "locale_value (site_locale s) = l" and "stored_locale (site_locale s) = Some l"
  shows "locale_value (site_locale t) = l \<and> stored_locale (site_locale t) = Some l"
  using assms(1,3-)
proof (induction rule: run.induct)
  case (Cons s e t es u)
  then have "\<forall>l'. e \<noteq> Click (SetLocale l')" by auto
  from locale_kept [OF Cons.hyps(1) this assms(2) Cons.prems(2,3)] Cons.IH Cons.prems(1) show ?case by auto
qed simp

end
