(* ===== verification/Content_Parity.thy ===== *)
theory Content_Parity
  imports Content_Index
begin

text \<open>
  The two translations of the course have the same outline: lesson by lesson the same number of
  objectives, sections, criteria and references, the same kinds of blocks in the same order (tables of
  the same size, lists of the same length, code in the same language, callouts of the same kind), and
  exercises with the same ids, lab files and number of hints. One lemma per lesson, then the phases.
\<close>

section \<open>Lesson by lesson\<close>

lemma outline_phase0En_lesson1: "outline_lesson phase0En_lesson1 = outline_lesson phase0ZhCN_lesson1"
  by (simp add: outline_lesson_def outline_exercise_def phase0En_lesson1_def phase0ZhCN_lesson1_def
      phase0En_lesson1_section1_def phase0En_lesson1_section2_def phase0En_lesson1_section3_def
      phase0En_lesson1_exercise1_def phase0En_lesson1_exercise2_def phase0En_lesson1_exercise3_def
      phase0ZhCN_lesson1_section1_def phase0ZhCN_lesson1_section2_def phase0ZhCN_lesson1_section3_def
      phase0ZhCN_lesson1_exercise1_def phase0ZhCN_lesson1_exercise2_def phase0ZhCN_lesson1_exercise3_def)

lemma outline_phase1En_lesson1: "outline_lesson phase1En_lesson1 = outline_lesson phase1ZhCN_lesson1"
  by (simp add: outline_lesson_def outline_exercise_def phase1En_lesson1_def phase1ZhCN_lesson1_def
      phase1En_lesson1_section1_def phase1En_lesson1_section2_def phase1En_lesson1_section3_def
      phase1En_lesson1_exercise1_def
      phase1ZhCN_lesson1_section1_def phase1ZhCN_lesson1_section2_def phase1ZhCN_lesson1_section3_def
      phase1ZhCN_lesson1_exercise1_def)

lemma outline_phase1En_lesson2: "outline_lesson phase1En_lesson2 = outline_lesson phase1ZhCN_lesson2"
  by (simp add: outline_lesson_def outline_exercise_def phase1En_lesson2_def phase1ZhCN_lesson2_def
      phase1En_lesson2_section1_def phase1En_lesson2_section2_def phase1En_lesson2_section3_def phase1En_lesson2_section4_def phase1En_lesson2_section5_def
      phase1En_lesson2_exercise1_def
      phase1ZhCN_lesson2_section1_def phase1ZhCN_lesson2_section2_def phase1ZhCN_lesson2_section3_def phase1ZhCN_lesson2_section4_def phase1ZhCN_lesson2_section5_def
      phase1ZhCN_lesson2_exercise1_def)

lemma outline_phase1En_lesson3: "outline_lesson phase1En_lesson3 = outline_lesson phase1ZhCN_lesson3"
  by (simp add: outline_lesson_def outline_exercise_def phase1En_lesson3_def phase1ZhCN_lesson3_def
      phase1En_lesson3_section1_def phase1En_lesson3_section2_def phase1En_lesson3_section3_def phase1En_lesson3_section4_def
      phase1En_lesson3_exercise1_def
      phase1ZhCN_lesson3_section1_def phase1ZhCN_lesson3_section2_def phase1ZhCN_lesson3_section3_def phase1ZhCN_lesson3_section4_def
      phase1ZhCN_lesson3_exercise1_def)

lemma outline_phase1En_lesson4: "outline_lesson phase1En_lesson4 = outline_lesson phase1ZhCN_lesson4"
  by (simp add: outline_lesson_def outline_exercise_def phase1En_lesson4_def phase1ZhCN_lesson4_def
      phase1En_lesson4_section1_def phase1En_lesson4_section2_def phase1En_lesson4_section3_def phase1En_lesson4_section4_def phase1En_lesson4_section5_def
      phase1En_lesson4_exercise1_def
      phase1ZhCN_lesson4_section1_def phase1ZhCN_lesson4_section2_def phase1ZhCN_lesson4_section3_def phase1ZhCN_lesson4_section4_def phase1ZhCN_lesson4_section5_def
      phase1ZhCN_lesson4_exercise1_def)

lemma outline_phase1En_lesson5: "outline_lesson phase1En_lesson5 = outline_lesson phase1ZhCN_lesson5"
  by (simp add: outline_lesson_def outline_exercise_def phase1En_lesson5_def phase1ZhCN_lesson5_def
      phase1En_lesson5_section1_def phase1En_lesson5_section2_def phase1En_lesson5_section3_def phase1En_lesson5_section4_def
      phase1En_lesson5_exercise1_def phase1En_lesson5_exercise2_def
      phase1ZhCN_lesson5_section1_def phase1ZhCN_lesson5_section2_def phase1ZhCN_lesson5_section3_def phase1ZhCN_lesson5_section4_def
      phase1ZhCN_lesson5_exercise1_def phase1ZhCN_lesson5_exercise2_def)

lemma outline_phase2En_lesson1: "outline_lesson phase2En_lesson1 = outline_lesson phase2ZhCN_lesson1"
  by (simp add: outline_lesson_def outline_exercise_def phase2En_lesson1_def phase2ZhCN_lesson1_def
      phase2En_lesson1_section1_def phase2En_lesson1_section2_def phase2En_lesson1_section3_def phase2En_lesson1_section4_def
      phase2En_lesson1_exercise1_def
      phase2ZhCN_lesson1_section1_def phase2ZhCN_lesson1_section2_def phase2ZhCN_lesson1_section3_def phase2ZhCN_lesson1_section4_def
      phase2ZhCN_lesson1_exercise1_def)

lemma outline_phase2En_lesson2: "outline_lesson phase2En_lesson2 = outline_lesson phase2ZhCN_lesson2"
  by (simp add: outline_lesson_def outline_exercise_def phase2En_lesson2_def phase2ZhCN_lesson2_def
      phase2En_lesson2_section1_def phase2En_lesson2_section2_def phase2En_lesson2_section3_def phase2En_lesson2_section4_def
      phase2En_lesson2_exercise1_def
      phase2ZhCN_lesson2_section1_def phase2ZhCN_lesson2_section2_def phase2ZhCN_lesson2_section3_def phase2ZhCN_lesson2_section4_def
      phase2ZhCN_lesson2_exercise1_def)

lemma outline_phase2En_lesson3: "outline_lesson phase2En_lesson3 = outline_lesson phase2ZhCN_lesson3"
  by (simp add: outline_lesson_def outline_exercise_def phase2En_lesson3_def phase2ZhCN_lesson3_def
      phase2En_lesson3_section1_def phase2En_lesson3_section2_def phase2En_lesson3_section3_def phase2En_lesson3_section4_def phase2En_lesson3_section5_def
      phase2En_lesson3_exercise1_def
      phase2ZhCN_lesson3_section1_def phase2ZhCN_lesson3_section2_def phase2ZhCN_lesson3_section3_def phase2ZhCN_lesson3_section4_def phase2ZhCN_lesson3_section5_def
      phase2ZhCN_lesson3_exercise1_def)

lemma outline_phase2En_lesson4: "outline_lesson phase2En_lesson4 = outline_lesson phase2ZhCN_lesson4"
  by (simp add: outline_lesson_def outline_exercise_def phase2En_lesson4_def phase2ZhCN_lesson4_def
      phase2En_lesson4_section1_def phase2En_lesson4_section2_def phase2En_lesson4_section3_def phase2En_lesson4_section4_def phase2En_lesson4_section5_def
      phase2En_lesson4_exercise1_def
      phase2ZhCN_lesson4_section1_def phase2ZhCN_lesson4_section2_def phase2ZhCN_lesson4_section3_def phase2ZhCN_lesson4_section4_def phase2ZhCN_lesson4_section5_def
      phase2ZhCN_lesson4_exercise1_def)

lemma outline_phase2En_lesson5: "outline_lesson phase2En_lesson5 = outline_lesson phase2ZhCN_lesson5"
  by (simp add: outline_lesson_def outline_exercise_def phase2En_lesson5_def phase2ZhCN_lesson5_def
      phase2En_lesson5_section1_def phase2En_lesson5_section2_def phase2En_lesson5_section3_def phase2En_lesson5_section4_def phase2En_lesson5_section5_def phase2En_lesson5_section6_def
      phase2En_lesson5_exercise1_def phase2En_lesson5_exercise2_def
      phase2ZhCN_lesson5_section1_def phase2ZhCN_lesson5_section2_def phase2ZhCN_lesson5_section3_def phase2ZhCN_lesson5_section4_def phase2ZhCN_lesson5_section5_def phase2ZhCN_lesson5_section6_def
      phase2ZhCN_lesson5_exercise1_def phase2ZhCN_lesson5_exercise2_def)

lemma outline_phase3En_lesson1: "outline_lesson phase3En_lesson1 = outline_lesson phase3ZhCN_lesson1"
  by (simp add: outline_lesson_def outline_exercise_def phase3En_lesson1_def phase3ZhCN_lesson1_def
      phase3En_lesson1_section1_def phase3En_lesson1_section2_def phase3En_lesson1_section3_def phase3En_lesson1_section4_def
      phase3En_lesson1_exercise1_def
      phase3ZhCN_lesson1_section1_def phase3ZhCN_lesson1_section2_def phase3ZhCN_lesson1_section3_def phase3ZhCN_lesson1_section4_def
      phase3ZhCN_lesson1_exercise1_def)

lemma outline_phase3En_lesson2: "outline_lesson phase3En_lesson2 = outline_lesson phase3ZhCN_lesson2"
  by (simp add: outline_lesson_def outline_exercise_def phase3En_lesson2_def phase3ZhCN_lesson2_def
      phase3En_lesson2_section1_def phase3En_lesson2_section2_def phase3En_lesson2_section3_def phase3En_lesson2_section4_def
      phase3En_lesson2_exercise1_def
      phase3ZhCN_lesson2_section1_def phase3ZhCN_lesson2_section2_def phase3ZhCN_lesson2_section3_def phase3ZhCN_lesson2_section4_def
      phase3ZhCN_lesson2_exercise1_def)

lemma outline_phase3En_lesson3: "outline_lesson phase3En_lesson3 = outline_lesson phase3ZhCN_lesson3"
  by (simp add: outline_lesson_def outline_exercise_def phase3En_lesson3_def phase3ZhCN_lesson3_def
      phase3En_lesson3_section1_def phase3En_lesson3_section2_def phase3En_lesson3_section3_def phase3En_lesson3_section4_def phase3En_lesson3_section5_def
      phase3En_lesson3_exercise1_def
      phase3ZhCN_lesson3_section1_def phase3ZhCN_lesson3_section2_def phase3ZhCN_lesson3_section3_def phase3ZhCN_lesson3_section4_def phase3ZhCN_lesson3_section5_def
      phase3ZhCN_lesson3_exercise1_def)

lemma outline_phase3En_lesson4: "outline_lesson phase3En_lesson4 = outline_lesson phase3ZhCN_lesson4"
  by (simp add: outline_lesson_def outline_exercise_def phase3En_lesson4_def phase3ZhCN_lesson4_def
      phase3En_lesson4_section1_def phase3En_lesson4_section2_def phase3En_lesson4_section3_def phase3En_lesson4_section4_def phase3En_lesson4_section5_def
      phase3En_lesson4_exercise1_def phase3En_lesson4_exercise2_def
      phase3ZhCN_lesson4_section1_def phase3ZhCN_lesson4_section2_def phase3ZhCN_lesson4_section3_def phase3ZhCN_lesson4_section4_def phase3ZhCN_lesson4_section5_def
      phase3ZhCN_lesson4_exercise1_def phase3ZhCN_lesson4_exercise2_def)

lemma outline_phase4En_lesson1: "outline_lesson phase4En_lesson1 = outline_lesson phase4ZhCN_lesson1"
  by (simp add: outline_lesson_def outline_exercise_def phase4En_lesson1_def phase4ZhCN_lesson1_def
      phase4En_lesson1_section1_def phase4En_lesson1_section2_def phase4En_lesson1_section3_def phase4En_lesson1_section4_def phase4En_lesson1_section5_def
      phase4En_lesson1_exercise1_def phase4En_lesson1_exercise2_def
      phase4ZhCN_lesson1_section1_def phase4ZhCN_lesson1_section2_def phase4ZhCN_lesson1_section3_def phase4ZhCN_lesson1_section4_def phase4ZhCN_lesson1_section5_def
      phase4ZhCN_lesson1_exercise1_def phase4ZhCN_lesson1_exercise2_def)

lemma outline_phase4En_lesson2: "outline_lesson phase4En_lesson2 = outline_lesson phase4ZhCN_lesson2"
  by (simp add: outline_lesson_def outline_exercise_def phase4En_lesson2_def phase4ZhCN_lesson2_def
      phase4En_lesson2_section1_def phase4En_lesson2_section2_def phase4En_lesson2_section3_def phase4En_lesson2_section4_def phase4En_lesson2_section5_def
      phase4En_lesson2_exercise1_def phase4En_lesson2_exercise2_def
      phase4ZhCN_lesson2_section1_def phase4ZhCN_lesson2_section2_def phase4ZhCN_lesson2_section3_def phase4ZhCN_lesson2_section4_def phase4ZhCN_lesson2_section5_def
      phase4ZhCN_lesson2_exercise1_def phase4ZhCN_lesson2_exercise2_def)

lemma outline_phase4En_lesson3: "outline_lesson phase4En_lesson3 = outline_lesson phase4ZhCN_lesson3"
  by (simp add: outline_lesson_def outline_exercise_def phase4En_lesson3_def phase4ZhCN_lesson3_def
      phase4En_lesson3_section1_def phase4En_lesson3_section2_def phase4En_lesson3_section3_def phase4En_lesson3_section4_def phase4En_lesson3_section5_def
      phase4En_lesson3_exercise1_def phase4En_lesson3_exercise2_def
      phase4ZhCN_lesson3_section1_def phase4ZhCN_lesson3_section2_def phase4ZhCN_lesson3_section3_def phase4ZhCN_lesson3_section4_def phase4ZhCN_lesson3_section5_def
      phase4ZhCN_lesson3_exercise1_def phase4ZhCN_lesson3_exercise2_def)

lemma outline_phase4En_lesson4: "outline_lesson phase4En_lesson4 = outline_lesson phase4ZhCN_lesson4"
  by (simp add: outline_lesson_def outline_exercise_def phase4En_lesson4_def phase4ZhCN_lesson4_def
      phase4En_lesson4_section1_def phase4En_lesson4_section2_def phase4En_lesson4_section3_def phase4En_lesson4_section4_def phase4En_lesson4_section5_def
      phase4En_lesson4_exercise1_def phase4En_lesson4_exercise2_def
      phase4ZhCN_lesson4_section1_def phase4ZhCN_lesson4_section2_def phase4ZhCN_lesson4_section3_def phase4ZhCN_lesson4_section4_def phase4ZhCN_lesson4_section5_def
      phase4ZhCN_lesson4_exercise1_def phase4ZhCN_lesson4_exercise2_def)

lemma outline_phase4En_lesson5: "outline_lesson phase4En_lesson5 = outline_lesson phase4ZhCN_lesson5"
  by (simp add: outline_lesson_def outline_exercise_def phase4En_lesson5_def phase4ZhCN_lesson5_def
      phase4En_lesson5_section1_def phase4En_lesson5_section2_def phase4En_lesson5_section3_def phase4En_lesson5_section4_def
      phase4En_lesson5_exercise1_def phase4En_lesson5_exercise2_def
      phase4ZhCN_lesson5_section1_def phase4ZhCN_lesson5_section2_def phase4ZhCN_lesson5_section3_def phase4ZhCN_lesson5_section4_def
      phase4ZhCN_lesson5_exercise1_def phase4ZhCN_lesson5_exercise2_def)

lemma outline_phase5En_lesson1: "outline_lesson phase5En_lesson1 = outline_lesson phase5ZhCN_lesson1"
  by (simp add: outline_lesson_def outline_exercise_def phase5En_lesson1_def phase5ZhCN_lesson1_def
      phase5En_lesson1_section1_def phase5En_lesson1_section2_def phase5En_lesson1_section3_def phase5En_lesson1_section4_def phase5En_lesson1_section5_def phase5En_lesson1_section6_def
      phase5En_lesson1_exercise1_def phase5En_lesson1_exercise2_def
      phase5ZhCN_lesson1_section1_def phase5ZhCN_lesson1_section2_def phase5ZhCN_lesson1_section3_def phase5ZhCN_lesson1_section4_def phase5ZhCN_lesson1_section5_def phase5ZhCN_lesson1_section6_def
      phase5ZhCN_lesson1_exercise1_def phase5ZhCN_lesson1_exercise2_def)

lemma outline_phase5En_lesson2: "outline_lesson phase5En_lesson2 = outline_lesson phase5ZhCN_lesson2"
  by (simp add: outline_lesson_def outline_exercise_def phase5En_lesson2_def phase5ZhCN_lesson2_def
      phase5En_lesson2_section1_def phase5En_lesson2_section2_def phase5En_lesson2_section3_def phase5En_lesson2_section4_def
      phase5En_lesson2_exercise1_def phase5En_lesson2_exercise2_def
      phase5ZhCN_lesson2_section1_def phase5ZhCN_lesson2_section2_def phase5ZhCN_lesson2_section3_def phase5ZhCN_lesson2_section4_def
      phase5ZhCN_lesson2_exercise1_def phase5ZhCN_lesson2_exercise2_def)

lemma outline_phase5En_lesson3: "outline_lesson phase5En_lesson3 = outline_lesson phase5ZhCN_lesson3"
  by (simp add: outline_lesson_def outline_exercise_def phase5En_lesson3_def phase5ZhCN_lesson3_def
      phase5En_lesson3_section1_def phase5En_lesson3_section2_def phase5En_lesson3_section3_def phase5En_lesson3_section4_def phase5En_lesson3_section5_def
      phase5En_lesson3_exercise1_def
      phase5ZhCN_lesson3_section1_def phase5ZhCN_lesson3_section2_def phase5ZhCN_lesson3_section3_def phase5ZhCN_lesson3_section4_def phase5ZhCN_lesson3_section5_def
      phase5ZhCN_lesson3_exercise1_def)

lemma outline_phase5En_lesson4: "outline_lesson phase5En_lesson4 = outline_lesson phase5ZhCN_lesson4"
  by (simp add: outline_lesson_def outline_exercise_def phase5En_lesson4_def phase5ZhCN_lesson4_def
      phase5En_lesson4_section1_def phase5En_lesson4_section2_def phase5En_lesson4_section3_def phase5En_lesson4_section4_def phase5En_lesson4_section5_def
      phase5En_lesson4_exercise1_def phase5En_lesson4_exercise2_def phase5En_lesson4_exercise3_def
      phase5ZhCN_lesson4_section1_def phase5ZhCN_lesson4_section2_def phase5ZhCN_lesson4_section3_def phase5ZhCN_lesson4_section4_def phase5ZhCN_lesson4_section5_def
      phase5ZhCN_lesson4_exercise1_def phase5ZhCN_lesson4_exercise2_def phase5ZhCN_lesson4_exercise3_def)

lemma outline_phase5En_lesson5: "outline_lesson phase5En_lesson5 = outline_lesson phase5ZhCN_lesson5"
  by (simp add: outline_lesson_def outline_exercise_def phase5En_lesson5_def phase5ZhCN_lesson5_def
      phase5En_lesson5_section1_def phase5En_lesson5_section2_def phase5En_lesson5_section3_def phase5En_lesson5_section4_def phase5En_lesson5_section5_def phase5En_lesson5_section6_def
      phase5En_lesson5_exercise1_def phase5En_lesson5_exercise2_def phase5En_lesson5_exercise3_def phase5En_lesson5_exercise4_def
      phase5ZhCN_lesson5_section1_def phase5ZhCN_lesson5_section2_def phase5ZhCN_lesson5_section3_def phase5ZhCN_lesson5_section4_def phase5ZhCN_lesson5_section5_def phase5ZhCN_lesson5_section6_def
      phase5ZhCN_lesson5_exercise1_def phase5ZhCN_lesson5_exercise2_def phase5ZhCN_lesson5_exercise3_def phase5ZhCN_lesson5_exercise4_def)

lemma outline_phase6En_lesson1: "outline_lesson phase6En_lesson1 = outline_lesson phase6ZhCN_lesson1"
  by (simp add: outline_lesson_def outline_exercise_def phase6En_lesson1_def phase6ZhCN_lesson1_def
      phase6En_lesson1_section1_def phase6En_lesson1_section2_def phase6En_lesson1_section3_def phase6En_lesson1_section4_def
      phase6En_lesson1_exercise1_def phase6En_lesson1_exercise2_def phase6En_lesson1_exercise3_def
      phase6ZhCN_lesson1_section1_def phase6ZhCN_lesson1_section2_def phase6ZhCN_lesson1_section3_def phase6ZhCN_lesson1_section4_def
      phase6ZhCN_lesson1_exercise1_def phase6ZhCN_lesson1_exercise2_def phase6ZhCN_lesson1_exercise3_def)

lemma outline_phase6En_lesson2: "outline_lesson phase6En_lesson2 = outline_lesson phase6ZhCN_lesson2"
  by (simp add: outline_lesson_def outline_exercise_def phase6En_lesson2_def phase6ZhCN_lesson2_def
      phase6En_lesson2_section1_def phase6En_lesson2_section2_def phase6En_lesson2_section3_def
      phase6En_lesson2_exercise1_def phase6En_lesson2_exercise2_def
      phase6ZhCN_lesson2_section1_def phase6ZhCN_lesson2_section2_def phase6ZhCN_lesson2_section3_def
      phase6ZhCN_lesson2_exercise1_def phase6ZhCN_lesson2_exercise2_def)

lemma outline_phase6En_lesson3: "outline_lesson phase6En_lesson3 = outline_lesson phase6ZhCN_lesson3"
  by (simp add: outline_lesson_def outline_exercise_def phase6En_lesson3_def phase6ZhCN_lesson3_def
      phase6En_lesson3_section1_def phase6En_lesson3_section2_def phase6En_lesson3_section3_def phase6En_lesson3_section4_def
      phase6En_lesson3_exercise1_def phase6En_lesson3_exercise2_def
      phase6ZhCN_lesson3_section1_def phase6ZhCN_lesson3_section2_def phase6ZhCN_lesson3_section3_def phase6ZhCN_lesson3_section4_def
      phase6ZhCN_lesson3_exercise1_def phase6ZhCN_lesson3_exercise2_def)

lemma outline_phase6En_lesson4: "outline_lesson phase6En_lesson4 = outline_lesson phase6ZhCN_lesson4"
  by (simp add: outline_lesson_def outline_exercise_def phase6En_lesson4_def phase6ZhCN_lesson4_def
      phase6En_lesson4_section1_def phase6En_lesson4_section2_def phase6En_lesson4_section3_def phase6En_lesson4_section4_def
      phase6En_lesson4_exercise1_def phase6En_lesson4_exercise2_def
      phase6ZhCN_lesson4_section1_def phase6ZhCN_lesson4_section2_def phase6ZhCN_lesson4_section3_def phase6ZhCN_lesson4_section4_def
      phase6ZhCN_lesson4_exercise1_def phase6ZhCN_lesson4_exercise2_def)

lemma outline_phase6En_lesson5: "outline_lesson phase6En_lesson5 = outline_lesson phase6ZhCN_lesson5"
  by (simp add: outline_lesson_def outline_exercise_def phase6En_lesson5_def phase6ZhCN_lesson5_def
      phase6En_lesson5_section1_def phase6En_lesson5_section2_def phase6En_lesson5_section3_def phase6En_lesson5_section4_def phase6En_lesson5_section5_def
      phase6En_lesson5_exercise1_def phase6En_lesson5_exercise2_def phase6En_lesson5_exercise3_def
      phase6ZhCN_lesson5_section1_def phase6ZhCN_lesson5_section2_def phase6ZhCN_lesson5_section3_def phase6ZhCN_lesson5_section4_def phase6ZhCN_lesson5_section5_def
      phase6ZhCN_lesson5_exercise1_def phase6ZhCN_lesson5_exercise2_def phase6ZhCN_lesson5_exercise3_def)

section \<open>Phase by phase\<close>

lemma outline_phase0 [site_shape]:
  "map outline_lesson (content_lessons phase0En) = map outline_lesson (content_lessons phase0ZhCN)"
  by (simp add: phase0En_def phase0ZhCN_def outline_phase0En_lesson1)

lemma outline_phase1 [site_shape]:
  "map outline_lesson (content_lessons phase1En) = map outline_lesson (content_lessons phase1ZhCN)"
  by (simp add: phase1En_def phase1ZhCN_def outline_phase1En_lesson1 outline_phase1En_lesson2 outline_phase1En_lesson3 outline_phase1En_lesson4 outline_phase1En_lesson5)

lemma outline_phase2 [site_shape]:
  "map outline_lesson (content_lessons phase2En) = map outline_lesson (content_lessons phase2ZhCN)"
  by (simp add: phase2En_def phase2ZhCN_def outline_phase2En_lesson1 outline_phase2En_lesson2 outline_phase2En_lesson3 outline_phase2En_lesson4 outline_phase2En_lesson5)

lemma outline_phase3 [site_shape]:
  "map outline_lesson (content_lessons phase3En) = map outline_lesson (content_lessons phase3ZhCN)"
  by (simp add: phase3En_def phase3ZhCN_def outline_phase3En_lesson1 outline_phase3En_lesson2 outline_phase3En_lesson3 outline_phase3En_lesson4)

lemma outline_phase4 [site_shape]:
  "map outline_lesson (content_lessons phase4En) = map outline_lesson (content_lessons phase4ZhCN)"
  by (simp add: phase4En_def phase4ZhCN_def outline_phase4En_lesson1 outline_phase4En_lesson2 outline_phase4En_lesson3 outline_phase4En_lesson4 outline_phase4En_lesson5)

lemma outline_phase5 [site_shape]:
  "map outline_lesson (content_lessons phase5En) = map outline_lesson (content_lessons phase5ZhCN)"
  by (simp add: phase5En_def phase5ZhCN_def outline_phase5En_lesson1 outline_phase5En_lesson2 outline_phase5En_lesson3 outline_phase5En_lesson4 outline_phase5En_lesson5)

lemma outline_phase6 [site_shape]:
  "map outline_lesson (content_lessons phase6En) = map outline_lesson (content_lessons phase6ZhCN)"
  by (simp add: phase6En_def phase6ZhCN_def outline_phase6En_lesson1 outline_phase6En_lesson2 outline_phase6En_lesson3 outline_phase6En_lesson4 outline_phase6En_lesson5)

lemma outline_tables:
  "map_option (\<lambda>c. map outline_lesson (content_lessons c)) (map_of phases_en n) =
   map_option (\<lambda>c. map outline_lesson (content_lessons c)) (map_of phases_zhCN n)"
proof -
  have "map (\<lambda>(n, c). (n, map outline_lesson (content_lessons c))) phases_en =
      map (\<lambda>(n, c). (n, map outline_lesson (content_lessons c))) phases_zhCN"
    by (simp add: phases_en_def phases_zhCN_def site_shape)
  then have "map_of (map (\<lambda>(n, c). (n, map outline_lesson (content_lessons c))) phases_en) =
      map_of (map (\<lambda>(n, c). (n, map outline_lesson (content_lessons c))) phases_zhCN)" by (rule arg_cong)
  from fun_cong [OF this [unfolded map_of_map], of n] show ?thesis by simp
qed

lemma outline_content:
  "map_option (\<lambda>c. map outline_lesson (content_lessons c)) (getPhaseContent (num_of n) loc) =
   map_option (\<lambda>c. map outline_lesson (content_lessons c)) (map_of phases_zhCN n)"
  by (simp add: content_by_locale outline_tables)

end
