(* ===== verification/Spec2Isabelle.thy ===== *)
theory Spec2Isabelle
  imports Site Content_Parity
begin

text \<open>
  The web site of the TinyOS course (\<open>website/src\<close>): a React application that shows the course's
  roadmap on a home page and one page per lesson, in three languages, from content that is part of the
  program. This development models the whole TypeScript program: the data, the lookups, the locale
  context, every component's render function down to the last element and style, the state each page
  keeps with its handlers, and the routes; and it proves that a user who clicks around cannot get lost.

  The parts and how they meet. \<open>main.tsx\<close> mounts \<open>App\<close> inside \<open>LocaleProvider\<close>
  (\<open>i18n/LocaleContext.tsx\<close>), which holds the locale, stores it in \<open>localStorage\<close> and gives the
  pages the message function \<open>t\<close>. \<open>App.tsx\<close> routes \<open>/\<close> to \<open>CourseRoadmap\<close> and
  \<open>/phase/:phaseId/lesson/:lessonId\<close> to \<open>LessonPage\<close>. The roadmap reads \<open>data/phases.ts\<close>, the
  lesson page reads \<open>data/index.ts\<close>, which selects among the phase files \<open>data/phase0.ts\<close> to
  \<open>data/phase6.ts\<close> by locale and number. Links and buttons change the path, the locale or the state
  of the page.

  The theories.
  \<^item> \<open>Prelude\<close>: the operators of the language without state (\<open>??\<close>, conditional children,
    \<open>map\<close> with an index) and generic lemmas.
  \<^item> \<open>Js_String\<close>, \<open>Js_Number\<close>, \<open>Js_Object\<close>: the values the source computes with. A string
    is a list of 16-bit words; the literals of the source are written as ASCII with escapes
    (\<open>%uXXXX\<close>) that \<open>js\<close> decodes. A number is \<open>NaN\<close>, an infinity or a rational that is the value
    of a binary64 datum, with rounding, \<open>Number(s)\<close> and \<open>String(n)\<close>. Property lookup sees the names
    inherited from \<open>Object.prototype\<close>.
  \<^item> \<open>Localized\<close>: the interface of a translated table with a fallback, as the locales
    \<open>localized\<close> and \<open>translated\<close>.
  \<^item> \<open>Content_Types\<close> (\<open>data/types.ts\<close>), \<open>Phase0_En\<close> \<dots> \<open>Phase6_ZhCN\<close>
    (\<open>data/phase0.ts\<close> \<dots> \<open>data/phase6.ts\<close>): the whole content, one definition per section,
    exercise and lesson, with the proof that each lesson is well formed.
  \<^item> \<open>Content_Index\<close> (\<open>data/index.ts\<close>): the content table and its readers; interpretation
    \<open>content\<close>. \<open>Content_Parity\<close>: the two languages have the same outline, lesson by lesson.
  \<^item> \<open>Roadmap_Data\<close> (\<open>data/phases.ts\<close>): phases, principles and architecture.
  \<^item> \<open>I18n\<close> (\<open>i18n/*\<close>): dictionaries, initial locale, setting it, messages and placeholders;
    interpretation \<open>messages\<close>. \<open>translate\<close> is the source's \<open>t\<close>.
  \<^item> \<open>Vdom\<close>: element trees, and how a reader, a user and React read them: \<open>texts\<close>,
    \<open>clicks\<close>, \<open>hrefs\<close>, \<open>keys_ok\<close>.
  \<^item> \<open>Lesson_Page\<close> (\<open>pages/LessonPage.tsx\<close>): the page part by part, its three sets of unfolded
    items, the toggles and the effect.
  \<^item> \<open>Roadmap_Page\<close> (\<open>components/CourseRoadmap.tsx\<close>, \<open>LanguageSwitcher.tsx\<close>): the home page.
  \<^item> \<open>Transition\<close>: runs, invariants, simulations and independent switches, as the locales
    \<open>invariant_system\<close>, \<open>simulation\<close> and \<open>switches\<close>.
  \<^item> \<open>Site\<close> (\<open>App.tsx\<close>, \<open>main.tsx\<close>): routes, the running site, its steps, its invariant
    (interpretation \<open>site\<close>), the navigation with a history that it refines (interpretation
    \<open>nav\<close>) and the folding of the lesson page (interpretation \<open>folds\<close>).

  What the properties below show. Navigation (C1 to C3, C36): no run of clicks, back, forward and
  reload from the home page ends at an error, a blank or a not-found page; every run is, event by event,
  a walk along the course's order with a browser's history; every lesson stays reachable; a phase can be
  worked through. Lessons (C4 to C7): which parameters show a lesson, that it is the right one, that the
  translations agree, that all content is well formed. The lesson page (C8 to C20): its actions, labels,
  links, folding and keys. The home page (C21 to C26) and the locale with its messages (C27 to C35).

  Parameters. React and the router are third-party code. The router is the argument \<open>router\<close>, whose
  contract \<open>router_spec\<close> says that the two route patterns match the home path and the lesson paths with
  decimal segments; \<open>segment_router\<close> is an executable router that keeps it. Whether React keeps the
  instance of a page when the path changes but the component does not is the argument \<open>keep\<close>, about
  which nothing is assumed. The browser's language is the argument \<open>lang\<close>.

  Bounds. Numbers round to 53 bits; the links are exact for all safe integers (C11). No definition uses
  fuel: all loops of the source run over lists, and \<open>replace_from\<close> has a measure. The placeholder
  substitution stands for the source's regular expression at names of word characters (C33), the only
  ones the source passes; a message key that names a built-in property finds it, as in the language, and
  \<open>translate\<close> gives it no text: the pages ask for keys of the dictionaries only (C31, C32).

  Not modelled. Scrolling to the top in the lesson page's effect, and the pixels: CSS, hover handlers
  beyond the styles they set, and the style sheet \<open>global.css\<close>. The render of a kept lesson page between
  a navigation and its effect. The build configuration. The Rust kernels under \<open>labs\<close> are exercises
  whose bodies are left to the student, so there is no behaviour to verify.
\<close>

section \<open>Sample runs\<close>

text \<open>A run of the English site, used by the witnesses: open phase 3, enter it, go back, reload.\<close>

definition sample_start :: site where
  "sample_start = site_load None (js ''en'') (js ''/'') [] []"

definition sample_clicks :: "action list" where
  "sample_clicks = [SetActivePhase (Some 3), Navigate (lesson_path 3 1)]"

definition sample_events :: "event list" where
  "sample_events = map Click sample_clicks @ [Back, Reload]"

abbreviation sample_keep :: "jstring \<Rightarrow> jstring \<Rightarrow> bool" where
  "sample_keep \<equiv> \<lambda>_ _. True"

lemma sample_click_run:
  "\<exists>t. click_run segment_router sample_keep (js ''en'') sample_start sample_clicks t
    \<and> site_past t = [js ''/''] \<and> site_path t = lesson_path 3 1 \<and> site_future t = []"
proof -
  let ?act = "site_act segment_router sample_keep"
  let ?s = "?act (SetActivePhase (Some 3)) sample_start"
  let ?t = "?act (Navigate (lesson_path 3 1)) ?s"
  have ok: "site_ok segment_router sample_start"
    unfolding sample_start_def by (rule start_ok [OF segment_router_ok]) simp
  have home: "position segment_router (site_path sample_start) = Some AtHome"
    using position_paths(1) [OF segment_router_ok] by (simp add: sample_start_def site_load_def)
  have tab: "activeTab (site_roadmap sample_start) = js ''roadmap''"
    "activePhase (site_roadmap sample_start) \<noteq> Some 3"
    by (simp_all add: sample_start_def site_load_def roadmap_state_init_def)
  have o1: "offered segment_router sample_start (SetActivePhase (Some 3))"
    by (rule offers_roadmap(2) [OF ok home tab(1) _ tab(2)]) simp
  have ok1: "site_ok segment_router ?s" by (rule site_ok_click [OF segment_router_ok ok o1])
  have o2: "offered segment_router ?s (Navigate (lesson_path 3 1))"
    by (rule offers_roadmap(3) [OF ok1]) (use home tab in simp_all)
  have "click_run segment_router sample_keep (js ''en'') sample_start sample_clicks ?t"
    unfolding sample_clicks_def using o1 o2 by (auto intro!: run.intros site_step.click)
  moreover have "site_past ?t = [js ''/'']" "site_path ?t = lesson_path 3 1" "site_future ?t = []"
    by (simp_all add: sample_start_def site_load_def)
  ultimately show ?thesis by blast
qed

lemma sample_run:
  "\<exists>t. run (site_step segment_router sample_keep (js ''en'')) sample_start sample_events t"
proof -
  from sample_click_run obtain t
    where t: "click_run segment_router sample_keep (js ''en'') sample_start sample_clicks t"
      "site_past t = [js ''/'']" by blast
  have "run (site_step segment_router sample_keep (js ''en'')) sample_start (map Click sample_clicks) t"
    by (rule run_mono [OF t(1)])
  moreover have "\<exists>u. run (site_step segment_router sample_keep (js ''en'')) t [Back, Reload] u"
    using site_step.go_back [OF t(2)] by (blast intro: run.intros site_step.reload)
  ultimately show ?thesis using run_append unfolding sample_events_def by fastforce
qed

section \<open>Navigation\<close>

text \<open>
  C1. No dead ends. Start the site at the home page with a stored locale that is not the name of a
  built-in property. Whatever the user then clicks among what the pages offer, goes back, forward or
  reloads: the page that is shown neither throws nor is blank nor is the not-found view.
\<close>

theorem no_dead_ends:
  assumes "router_spec router" and "saved \<notin> Some ` set object_prototype"
    and "run (site_step router keep lang) (site_load saved lang (js ''/'') [] []) es t"
  shows "\<exists>n. site_view router t = Inr (Some n)
     \<and> n \<noteq> LessonPage_notFound (translate (locale_value (site_locale t)))"
  using run_ok [OF assms] by (rule site_ok_view)

theorem no_dead_ends_witness:
  "\<exists>t n. run (site_step segment_router sample_keep (js ''en'')) sample_start sample_events t
     \<and> site_view segment_router t = Inr (Some n)
     \<and> n \<noteq> LessonPage_notFound (translate (locale_value (site_locale t)))"
proof -
  obtain t where t: "run (site_step segment_router sample_keep (js ''en'')) sample_start sample_events t"
    using sample_run by blast
  from no_dead_ends [OF segment_router_ok _ t [unfolded sample_start_def]] t show ?thesis by auto
qed

text \<open>
  C2. The site refines the course's navigation. Event by event, every run from the home page is a run of
  the abstract navigation with a browser's history: a followed link is one step of the course (enter a
  phase at its first lesson, next, previous, return to the roadmap), back and forward retrace these
  steps, and all other clicks and a reload leave the user where he is. Moreover, on a lesson the links
  offer exactly the course's steps from there.
\<close>

theorem clicks_refine_navigation:
  assumes "router_spec router" and "saved \<notin> Some ` set object_prototype"
    and "run (site_step router keep lang) (site_load saved lang (js ''/'') [] []) es t"
  shows "run (nav_hist router) \<lparr>hist_past = [], hist_here = Some AtHome, hist_future = []\<rparr> es (history router t)
     \<and> (\<forall>p l. position router (site_path t) = Some (AtLesson p l) \<longrightarrow>
          {y. \<exists>path. offered router t (Navigate path) \<and> position router path = Some y} =
            Collect (nav_step (AtLesson p l)))"
proof (intro conjI allI impI lesson_moves [OF assms(1)])
  have "history router (site_load saved lang (js ''/'') [] []) =
      \<lparr>hist_past = [], hist_here = Some AtHome, hist_future = []\<rparr>"
    using position_paths(1) [OF assms(1)] by (simp add: history_def site_load_def)
  then show "run (nav_hist router) \<lparr>hist_past = [], hist_here = Some AtHome, hist_future = []\<rparr> es (history router t)"
    using nav.run_simulated [OF assms(3)] start_ok [OF assms(1,2)] assms(1) by metis
qed

theorem clicks_refine_navigation_witness:
  "\<exists>t. run (site_step segment_router sample_keep (js ''en'')) sample_start (map Click sample_clicks) t
     \<and> run (nav_hist segment_router) \<lparr>hist_past = [], hist_here = Some AtHome, hist_future = []\<rparr>
         (map Click sample_clicks)
         \<lparr>hist_past = [Some AtHome], hist_here = Some (AtLesson 3 1), hist_future = []\<rparr>
     \<and> {y. \<exists>path. offered segment_router t (Navigate path) \<and> position segment_router path = Some y} =
         {AtLesson 3 2, AtHome}"
proof -
  from sample_click_run obtain t
    where t: "click_run segment_router sample_keep (js ''en'') sample_start sample_clicks t"
      "site_past t = [js ''/'']" "site_path t = lesson_path 3 1" "site_future t = []" by blast
  have r: "run (site_step segment_router sample_keep (js ''en'')) sample_start (map Click sample_clicks) t"
    by (rule run_mono [OF t(1)])
  have pos: "position segment_router (site_path t) = Some (AtLesson 3 1)"
    unfolding t(3) by (rule position_paths(2) [OF segment_router_ok names_first]) simp
  have h: "history segment_router t =
      \<lparr>hist_past = [Some AtHome], hist_here = Some (AtLesson 3 1), hist_future = []\<rparr>"
    using pos position_paths(1) [OF segment_router_ok] by (simp add: history_def t(2,4))
  have steps: "Collect (nav_step (AtLesson 3 1)) = {AtLesson 3 2, AtHome}"
    by (auto elim!: lesson_navE intro: nav_step.return simp: nav_step.simps syllabus_def)
  from clicks_refine_navigation [OF segment_router_ok _ r [unfolded sample_start_def]] r pos h steps
  show ?thesis by auto
qed

text \<open>
  C3. Every lesson stays reachable: from every state a run can be in, some sequence of at most
  \<open>l + 3\<close> clicks leads to lesson \<open>l\<close> of phase \<open>p\<close>.
\<close>

theorem every_lesson_reachable:
  assumes "router_spec router" and "saved \<notin> Some ` set object_prototype"
    and "run (site_step router keep lang) (site_load saved lang (js ''/'') [] []) es s"
    and "names_lesson p l"
  shows "\<exists>as t. click_run router keep lang s as t \<and> length as \<le> l + 3
     \<and> position router (site_path t) = Some (AtLesson p l)"
  by (rule reach_lesson [OF assms(1) run_ok [OF assms(1-3)] assms(4)])

theorem every_lesson_reachable_witness:
  "\<exists>s as t. run (site_step segment_router sample_keep (js ''en'')) sample_start sample_events s
     \<and> click_run segment_router sample_keep (js ''en'') s as t \<and> length as \<le> 8
     \<and> position segment_router (site_path t) = Some (AtLesson 6 5)"
proof -
  obtain s where s: "run (site_step segment_router sample_keep (js ''en'')) sample_start sample_events s"
    using sample_run by blast
  have "names_lesson 6 5" by (simp add: names_lesson_def syllabus_def)
  from every_lesson_reachable [OF segment_router_ok _ s [unfolded sample_start_def] this] s
  show ?thesis by auto
qed

text \<open>
  C36. A phase can be worked through: from its first lesson, \<open>n - 1\<close> clicks lead to the last of its \<open>n\<close>
  lessons, and there every link goes to the home page or back to the lesson before.
\<close>

theorem next_walk_ends:
  assumes "router_spec router" and "saved \<notin> Some ` set object_prototype"
    and "run (site_step router keep lang) (site_load saved lang (js ''/'') [] []) es s"
    and "position router (site_path s) = Some (AtLesson p 1)"
  shows "\<exists>as t. click_run router keep lang s as t \<and> length as = syllabus ! p - 1
     \<and> position router (site_path t) = Some (AtLesson p (syllabus ! p))
     \<and> {position router path | path. offered router t (Navigate path)}
         \<subseteq> {Some AtHome, Some (AtLesson p (syllabus ! p - 1))}"
proof -
  have n: "1 + (syllabus ! p - 1) = syllabus ! p"
    using assms(4) by (auto simp: position_iff names_lesson_def)
  obtain as t where t: "click_run router keep lang s as t" "length as = syllabus ! p - 1"
    "position router (site_path t) = Some (AtLesson p (1 + (syllabus ! p - 1)))"
    using reach_next [OF assms(1) run_ok [OF assms(1-3)] assms(4), where k = "syllabus ! p - 1"
        and keep = keep and lang = lang] n by auto
  with last_lesson_links [OF assms(1), of t p] n show ?thesis by (intro exI [of _ as] exI [of _ t]) auto
qed

theorem next_walk_ends_witness:
  "\<exists>s as t. run (site_step segment_router sample_keep (js ''en'')) sample_start (map Click sample_clicks) s
     \<and> click_run segment_router sample_keep (js ''en'') s as t \<and> length as = 3
     \<and> position segment_router (site_path t) = Some (AtLesson 3 4)"
proof -
  from sample_click_run obtain s
    where s: "click_run segment_router sample_keep (js ''en'') sample_start sample_clicks s"
      "site_path s = lesson_path 3 1" by blast
  have r: "run (site_step segment_router sample_keep (js ''en'')) sample_start (map Click sample_clicks) s"
    by (rule run_mono [OF s(1)])
  have p: "position segment_router (site_path s) = Some (AtLesson 3 1)"
    unfolding s(2) by (rule position_paths(2) [OF segment_router_ok names_first]) simp
  have "syllabus ! 3 = 4" by (simp add: syllabus_def)
  with next_walk_ends [OF segment_router_ok _ r [unfolded sample_start_def] p] r show ?thesis by auto
qed

section \<open>Lessons and their content\<close>

text \<open>
  C4. A lesson page shows a lesson exactly when its two route parameters, read as numbers, name one of
  the syllabus; otherwise it is the not-found view. This does not depend on the locale.
\<close>

theorem lesson_page_found_iff:
  "LessonPage loc a b st \<noteq> LessonPage_notFound (translate loc) \<longleftrightarrow>
     (\<exists>p l. Number a = num_of p \<and> Number b = num_of l \<and> names_lesson p l)"
proof (cases "getLesson (Number a) (Number b) loc")
  case None
  then show ?thesis using getLesson_iff [of "Number a" "Number b" loc] by (simp add: LessonPage_missing)
next
  case (Some le)
  then obtain c where "LessonPage loc a b st = LessonPage_found (translate loc) c le (Number a) (Number b) st"
    by (rule LessonPage_cases)
  then show ?thesis
    using found_not_missing getLesson_iff [of "Number a" "Number b" loc] Some by auto
qed

text \<open>
  C5. The right lesson: the page of lesson \<open>l\<close> of phase \<open>p\<close> shows the \<open>l\<close>-th lesson of that
  phase's content in the current locale, which carries these two numbers and is well formed.
\<close>

theorem lesson_shown:
  assumes "names_lesson p l"
  shows "\<exists>c le. getPhaseContent (num_of p) loc = Some c \<and> le = content_lessons c ! (l - 1)
     \<and> lesson_phaseId le = p \<and> lesson_lessonId le = l \<and> lesson_ok le
     \<and> getLesson (num_of p) (num_of l) loc = Some le
     \<and> LessonPage loc (nat_str p) (nat_str l) st
         = LessonPage_found (translate loc) c le (num_of p) (num_of l) st"
proof -
  obtain c le where c: "getPhaseContent (num_of p) loc = Some c" "le = content_lessons c ! (l - 1)"
    "lesson_phaseId le = p" "lesson_lessonId le = l" "lesson_ok le"
    "getLesson (num_of p) (num_of l) loc = Some le"
    by (rule found_lesson [OF assms])
  moreover have "LessonPage loc (nat_str p) (nat_str l) st
      = LessonPage_found (translate loc) c le (num_of p) (num_of l) st"
    using c(1,6) by (simp add: LessonPage_def Let_def names_Number [OF assms])
  ultimately show ?thesis by blast
qed

theorem lesson_shown_witness:
  "names_lesson 3 4 \<and> (\<exists>c le. getPhaseContent (num_of 3) en_locale = Some c
     \<and> le = content_lessons c ! 3 \<and> lesson_phaseId le = 3 \<and> lesson_lessonId le = 4 \<and> lesson_ok le
     \<and> LessonPage en_locale (nat_str 3) (nat_str 4) lesson_state_init
         = LessonPage_found (translate en_locale) c le (num_of 3) (num_of 4) lesson_state_init)"
proof -
  have "names_lesson 3 4" by (simp add: names_lesson_def syllabus_def)
  from lesson_shown [OF this, of en_locale lesson_state_init] this show ?thesis by auto
qed

text \<open>
  C6. The translations agree: whatever the two locales, a lesson has the same outline in both: the
  same sections with the same kinds of blocks in the same order (heading levels, code languages, table
  and list sizes), the same exercises with their ids, lab files, numbers of hints and pseudocode, and
  the same numbers of objectives, criteria and references.
\<close>

theorem translations_agree:
  "map_option outline_lesson (getLesson k j loc) = map_option outline_lesson (getLesson k j loc')"
proof (cases "\<exists>p l. k = num_of p \<and> j = num_of l \<and> names_lesson p l")
  case False
  then have "getLesson k j loc = None" "getLesson k j loc' = None" using getLesson_iff by blast+
  then show ?thesis by simp
next
  case True
  then obtain p l where pl: "k = num_of p" "j = num_of l" "names_lesson p l" by blast
  obtain c c' where c: "getPhaseContent (num_of p) loc = Some c" "getPhaseContent (num_of p) loc' = Some c'"
    "l - 1 < length (content_lessons c)"
    using found_lesson [OF pl(3), of loc] found_lesson [OF pl(3), of loc'] by metis
  have "map outline_lesson (content_lessons c) = map outline_lesson (content_lessons c')"
    using outline_content [of p loc] outline_content [of p loc'] c(1,2)
    by (metis option.inject option.map(2))
  then have "outline_lesson (content_lessons c ! (l - 1)) = outline_lesson (content_lessons c' ! (l - 1))"
    using c(3) by (rule nth_cong_map)
  then show ?thesis unfolding pl getLesson_nat using c pl(3) by simp
qed

text \<open>
  C7. All shipped content is well formed: whatever the content lookup returns has lessons numbered
  1 to n, each with the phase's id, with rectangular tables, no empty list, section or lesson part, and
  exercise ids that are distinct within the lesson; it is the content of the phase that was asked for.
\<close>

theorem content_wellformed:
  assumes "getPhaseContent k loc = Some c"
  shows "content_ok c \<and> k = num_of (content_phaseId c) \<and> content_phaseId c < 7
     \<and> length (content_lessons c) = syllabus ! content_phaseId c"
  using getPhaseContent_ok [OF assms] by simp

theorem content_wellformed_witness:
  "getPhaseContent (num_of 2) en_locale = Some phase2En \<and> content_ok phase2En"
proof -
  have c: "getPhaseContent (num_of 2) en_locale = Some phase2En"
    by (simp add: content_by_locale phases_en_def)
  from content_wellformed [OF c] c show ?thesis by simp
qed

section \<open>The lesson page\<close>

lemma js_Nil: "js '''' = []"
  by (simp add: js_def)

lemma Number_hex: "Number (js ''0x3'') = num_of 3"
proof -
  have "js_trim (js ''0x3'') = [48, 120, 51]" by (simp add: js_trim_def js_def is_space_def)
  then show ?thesis
    by (simp add: Number_def Let_def js_def parse_radix_def digit_of_def
        round_double_nat [unfolded One_nat_def])
qed

text \<open>
  C8. What a found lesson page offers, completely: back to the roadmap, the previous lesson unless it is
  the first, the next one unless it is the last, one toggle per section, and for each exercise a toggle
  for its pseudocode and one for its hints when it has any.
\<close>

theorem lesson_page_actions:
  assumes "getLesson (Number a) (Number b) loc = Some le"
  shows "set (clicks (LessonPage loc a b st)) =
     lesson_actions le (syllabus ! lesson_phaseId le) (Number a) (Number b)"
  using LessonPage_cases [OF assms, of st] clicks_found by metis

theorem lesson_page_actions_witness:
  "\<exists>le. getLesson (Number (js ''0x3'')) (Number (nat_str 1)) en_locale = Some le
     \<and> set (clicks (LessonPage en_locale (js ''0x3'') (nat_str 1) lesson_state_init)) =
         lesson_actions le 4 (num_of 3) (num_of 1)"
proof -
  have "names_lesson 3 1" by (simp add: names_lesson_def syllabus_def)
  then obtain le where le: "getLesson (num_of 3) (num_of 1) en_locale = Some le" "lesson_phaseId le = 3"
    using found_lesson by metis
  moreover have "syllabus ! 3 = 4" by (simp add: syllabus_def)
  ultimately show ?thesis
    using lesson_page_actions [of "js ''0x3''" "nat_str 1" en_locale le lesson_state_init]
    by (simp add: Number_hex Number_small)
qed

text \<open>
  C9. The labels of the bottom navigation name their targets: the title on the previous link is the title
  of the lesson that a lookup of \<open>lId - 1\<close> finds, the one on the next link that of \<open>lId + 1\<close>; where
  there is no such lesson the labels are the messages for going back and for completing the phase.
\<close>

theorem nav_labels_match_targets:
  assumes "names_lesson p l" and "getPhaseContent (num_of p) loc = Some c"
  shows "texts (LessonPage_nav (translate loc) c (num_of p) (num_of l) (num_less (num_of 1) (num_of l))
       (num_less (num_of l) (num_of (length (content_lessons c))))) =
     (case getLesson (num_of p) (num_sub (num_of l) (num_of 1)) loc of
        Some le \<Rightarrow> [js ''%u2190 '', lesson_title le] | None \<Rightarrow> [translate loc (js ''lesson.back'') []])
     @ (case getLesson (num_of p) (num_add (num_of l) (num_of 1)) loc of
        Some le \<Rightarrow> [lesson_title le, js '' %u2192'']
      | None \<Rightarrow> [translate loc (js ''lesson.complete'') [(js ''phaseId'', nat_str p)]])"
proof -
  have pl: "p < 7" "1 \<le> l" "l \<le> syllabus ! p" "l \<le> 5" "num_text (num_of p) = nat_str p"
    using assms(1) names_lesson_small [OF assms(1)] by (simp_all add: names_lesson_def num_text_small)
  obtain c' where "getPhaseContent (num_of p) loc = Some c'"
    "length (content_lessons c') = syllabus ! p" "content_ok c'"
    by (rule found_lesson [OF assms(1)])
  with assms(2) have c: "length (content_lessons c) = syllabus ! p" "content_ok c" by simp_all
  have n: "syllabus ! p \<le> 10" using pl(1) by (auto simp: syllabus_def nth_Cons split: nat.splits)
  have prev: "getLesson (num_of p) (num_sub (num_of l) (num_of 1)) loc =
      (if 1 < l then Some (content_lessons c ! (l - 2)) else None)"
    using pl assms(2) by (auto simp: num_sub_nat safe_small getLesson_nat names_lesson_def numeral_2_eq_2)
  have nxt: "getLesson (num_of p) (num_add (num_of l) (num_of 1)) loc =
      (if l < syllabus ! p then Some (content_lessons c ! l) else None)"
    using pl assms(2) by (auto simp: num_add_nat safe_small getLesson_nat names_lesson_def)
  show ?thesis
    unfolding prev nxt using nav_texts [OF c(2) pl(2), of "translate loc" p] pl c(1) n by simp
qed

theorem nav_labels_match_targets_witness:
  "names_lesson 2 3 \<and> (\<exists>c. getPhaseContent (num_of 2) zh_CN = Some c
     \<and> length (texts (LessonPage_nav (translate zh_CN) c (num_of 2) (num_of 3)
         (num_less (num_of 1) (num_of 3)) (num_less (num_of 3) (num_of (length (content_lessons c)))))) = 4)"
proof -
  have n: "names_lesson 2 3" "names_lesson 2 2" "names_lesson 2 4"
    by (simp_all add: names_lesson_def syllabus_def)
  obtain c where c: "getPhaseContent (num_of 2) zh_CN = Some c" by (rule found_lesson [OF n(1)])
  have "num_sub (num_of 3) (num_of 1) = num_of 2" "num_add (num_of 3) (num_of 1) = num_of 4"
    by (simp_all add: num_sub_nat num_add_nat safe_small)
  moreover obtain x where "getLesson (num_of 2) (num_of 2) zh_CN = Some x" by (rule found_lesson [OF n(2)])
  moreover obtain y where "getLesson (num_of 2) (num_of 4) zh_CN = Some y" by (rule found_lesson [OF n(3)])
  ultimately show ?thesis using nav_labels_match_targets [OF n(1) c] n(1) c by auto
qed

text \<open>
  C10. Neighbouring lessons are linked both ways: the page of a lesson links to the page of the next one,
  whose page links back.
\<close>

theorem neighbours_linked:
  assumes "names_lesson p l" and "names_lesson p (l + 1)"
  shows "Navigate (lesson_path p (l + 1)) \<in> set (clicks (LessonPage loc (nat_str p) (nat_str l) st))
     \<and> Navigate (lesson_path p l) \<in> set (clicks (LessonPage loc (nat_str p) (nat_str (l + 1)) st'))"
proof -
  have small: "p < 7" "1 \<le> l" "l + 1 \<le> 5" "l < syllabus ! p"
    using names_lesson_small [OF assms(1)] names_lesson_small [OF assms(2)] assms
    by (simp_all add: names_lesson_def)
  have links: "lesson_link (num_of p) (num_add (num_of l) (num_of 1)) = lesson_path p (l + 1)"
    "lesson_link (num_of p) (num_sub (num_of (l + 1)) (num_of 1)) = lesson_path p l"
    using small num_sub_nat [of 1 "l + 1"] by (simp_all add: num_add_nat safe_small lesson_link_path)
  have "\<exists>le. set (clicks (LessonPage loc (nat_str p) (nat_str k) s)) =
      lesson_actions le (syllabus ! p) (num_of p) (num_of k)" if k: "names_lesson p k" for k s
  proof -
    obtain le where le: "getLesson (Number (nat_str p)) (Number (nat_str k)) loc = Some le"
      "lesson_phaseId le = p"
      using found_lesson [OF k, of loc] names_Number [OF k] by metis
    then show ?thesis using LessonPage_cases [OF le(1), of s] clicks_found names_Number [OF k] by metis
  qed
  from this [OF assms(1), of st] this [OF assms(2), of st'] show ?thesis
    using small links by (auto simp: lesson_actions_def)
qed

theorem neighbours_linked_witness:
  "Navigate (lesson_path 4 5) \<in> set (clicks (LessonPage en_locale (nat_str 4) (nat_str 4) lesson_state_init))
   \<and> Navigate (lesson_path 4 4) \<in> set (clicks (LessonPage en_locale (nat_str 4) (nat_str 5) lesson_state_init))"
  using neighbours_linked [of 4 4 en_locale lesson_state_init lesson_state_init]
  by (simp add: names_lesson_def syllabus_def)

text \<open>
  C11. Links are read back: the path the page writes for two numbers is matched by the lesson route, and
  \<open>Number\<close> of the two parameters gives the numbers again, for all safe integers.
\<close>

theorem link_roundtrip:
  assumes "router_spec router" and "safe_integer p" and "safe_integer l"
  shows "\<exists>a b. route_of router (lesson_link (num_of p) (num_of l)) = Some (LessonRoute a b)
     \<and> Number a = num_of p \<and> Number b = num_of l"
proof -
  have "lesson_link (num_of p) (num_of l) = lesson_path p l"
    using assms by (simp add: lesson_link_def lesson_path_def num_text_nat)
  with route_lesson [OF assms(1), of p l] show ?thesis using assms by (simp add: Number_nat_str)
qed

theorem link_roundtrip_witness:
  "\<exists>a b. route_of segment_router (lesson_link (num_of 6) (num_of 9007199254740991)) = Some (LessonRoute a b)
     \<and> Number a = num_of 6 \<and> Number b = num_of 9007199254740991"
  by (rule link_roundtrip [OF segment_router_ok]) (simp_all add: safe_integer_def)

text \<open>
  C12. Every page recovers: from any path at all, also one that shows the not-found view, every link that
  is offered leads to the home page or to an existing lesson.
\<close>

theorem every_page_recovers:
  assumes "router_spec router" and "locale_value (site_locale s) \<notin> set object_prototype"
    and "offered router s (Navigate path)"
  shows "position router path \<noteq> None"
proof (cases "position router (site_path s)")
  case None
  from offered_missing [OF this assms(3)] position_paths(1) [OF assms(1)] show ?thesis by simp
next
  case (Some x)
  from offered_navigate [OF assms(1,2) Some assms(3)] show ?thesis by auto
qed

theorem every_page_recovers_witness:
  "position segment_router (lesson_path 9 9) = None
   \<and> offered segment_router (site_load None (js ''en'') (lesson_path 9 9) [] []) (Navigate (js ''/''))
   \<and> position segment_router (js ''/'') \<noteq> None"
proof -
  let ?s = "site_load None (js ''en'') (lesson_path 9 9) [] []"
  have none: "getLesson (num_of 9) (num_of 9) loc = None" for loc
    by (simp add: getLesson_nat names_lesson_def)
  have p: "position segment_router (lesson_path 9 9) = None"
    by (simp add: position_def route_lesson [OF segment_router_ok] Number_small none)
  have o: "offered segment_router ?s (Navigate (js ''/''))"
    using LessonPage_missing [of "nat_str 9" "nat_str 9"] none
    by (simp add: offered_def site_view_def App_views site_load_def route_lesson [OF segment_router_ok]
        Number_small clicks_notFound)
  have loc: "locale_value (site_locale ?s) \<notin> set object_prototype"
    using init_locale_None locale_not_inherited by (simp add: site_load_def)
  from every_page_recovers [OF segment_router_ok loc o] p o show ?thesis by simp
qed

text \<open>
  C13. What is unfolded belongs to the lesson on screen: in every state of a run the open sections are
  indices of its sections, and the open hints and pseudocode panels are ids of its exercises.
\<close>

theorem folds_of_current_lesson:
  assumes "router_spec router" and "saved \<notin> Some ` set object_prototype"
    and "run (site_step router keep lang) (site_load saved lang (js ''/'') [] []) es t"
    and "shown_lesson router t = Some le"
  shows "folds_ok le (site_lesson t)"
  using run_ok [OF assms(1-3)] assms(4) by (simp add: site_ok_def)

theorem folds_of_current_lesson_witness:
  "\<exists>t le. run (site_step segment_router sample_keep (js ''en'')) sample_start (map Click sample_clicks) t
     \<and> shown_lesson segment_router t = Some le \<and> folds_ok le (site_lesson t)"
proof -
  from sample_click_run obtain t
    where t: "click_run segment_router sample_keep (js ''en'') sample_start sample_clicks t"
      "site_path t = lesson_path 3 1" by blast
  have r: "run (site_step segment_router sample_keep (js ''en'')) sample_start (map Click sample_clicks) t"
    by (rule run_mono [OF t(1)])
  have "names_lesson 3 1" by (simp add: names_lesson_def syllabus_def)
  then obtain le where "getLesson (num_of 3) (num_of 1) (locale_value (site_locale t)) = Some le"
    by (rule found_lesson)
  then have le: "shown_lesson segment_router t = Some le"
    by (simp add: shown_lesson_def t(2) route_lesson [OF segment_router_ok] Number_small)
  from folds_of_current_lesson [OF segment_router_ok _ r [unfolded sample_start_def] le] r le
  show ?thesis by auto
qed

text \<open>
  C14. A new lesson starts closed: after a navigation that changes the route nothing is unfolded, whether
  or not React keeps the instance of the page.
\<close>

theorem new_lesson_starts_closed:
  assumes "route_of router path \<noteq> route_of router (site_path s)"
  shows "\<not> is_open b (site_lesson (goto router keep path s))"
  using goto_lesson [of router keep path s] assms
  by (cases b) (auto simp: lesson_state_init_def)

theorem new_lesson_starts_closed_witness:
  "route_of segment_router (lesson_path 3 1) \<noteq> route_of segment_router (site_path sample_start)
   \<and> \<not> is_open (ToggleSection 0) (site_lesson (goto segment_router sample_keep (lesson_path 3 1)
       (sample_start\<lparr>site_lesson := toggleSection 0 lesson_state_init\<rparr>)))"
proof -
  have r: "route_of segment_router (lesson_path 3 1) \<noteq> route_of segment_router (site_path sample_start)"
    by (simp add: sample_start_def site_load_def route_home [OF segment_router_ok]
        route_lesson [OF segment_router_ok])
  with new_lesson_starts_closed [of segment_router "lesson_path 3 1"
      "sample_start\<lparr>site_lesson := toggleSection 0 lesson_state_init\<rparr>" "ToggleSection 0" sample_keep]
  show ?thesis by simp
qed

text \<open>
  C15. Folding: after any clicks on the running site that follow no link, a section, a hint list or a
  pseudocode panel has changed exactly when its own toggle was clicked an odd number of times; other
  clicks do not touch it. (A link to another lesson closes everything, by C14.)
\<close>

theorem folding_parity:
  assumes "foldable b" and "list_all (\<lambda>a. \<not> is_link a) as"
  shows "is_open b (site_lesson (fold (site_act router keep) as s)) \<longleftrightarrow>
     is_open b (site_lesson s) \<noteq> odd (count_list as b)"
  by (rule folds.run_parity [OF assms])

theorem folding_parity_witness:
  "is_open (ToggleSection 2) (site_lesson (fold (site_act segment_router sample_keep)
     [ToggleSection 2, ToggleHint (js ''1.1''), ToggleSection 2, ToggleSection 2] sample_start))"
  using folding_parity [of "ToggleSection 2"
      "[ToggleSection 2, ToggleHint (js ''1.1''), ToggleSection 2, ToggleSection 2]"
      segment_router sample_keep sample_start]
  by (simp add: sample_start_def site_load_def lesson_state_init_def)

text \<open>
  C16. An exercise card shows its id, title and description, the lab file when there is one, and the
  pseudocode and all hints exactly when they are unfolded, under a button whose label says what a click
  will do.
\<close>

theorem exercise_card_text:
  "texts (LessonPage_exercise tr color accent st ex) =
     [js ''Step '', exercise_id ex, exercise_title ex, exercise_description ex]
     @ show_if (truthy (exercise_labFile ex)) [js ''%ud83d%udcc1'', the (exercise_labFile ex)]
     @ show_if (truthy (exercise_pseudocode ex))
         (if is_open (TogglePseudo (exercise_id ex)) st
          then [js ''%u2192'', tr (js ''lesson.hidePseudo'') [], the (exercise_pseudocode ex)]
          else [js ''%u2192'', tr (js ''lesson.showPseudo'') []])
     @ show_if (exercise_hints ex \<noteq> [])
         (if is_open (ToggleHint (exercise_id ex)) st
          then [js ''%u2192'', tr (js ''lesson.hideHints'') []]
            @ concat (map (\<lambda>h. [js ''%ud83d%udca1'', h]) (exercise_hints ex))
          else [js ''%u2192'', tr (js ''lesson.showHints'') []])"
  by (rule texts_exercise)

text \<open>
  C17. The content part shows every section's title, and the whole text of a section, block by block and
  in order (list items numbered from 1 when the list is ordered, tables row by row), exactly when the
  section is unfolded.
\<close>

theorem section_text:
  "concat (map texts (LessonPage_sections tr lesson color accent st)) =
     show_if (lesson_sections lesson \<noteq> []) (tr (js ''lesson.content'') [] # concat (map_idx (\<lambda>sec i.
       [section_title sec, js ''%u2192'']
       @ show_if (is_open (ToggleSection i) st) (concat (map block_text (section_blocks sec))))
       (lesson_sections lesson)))"
  by (rule texts_section_body)

text \<open>
  C18. The external links of a lesson page are the urls of its references, in order, and nothing else.
\<close>

theorem lesson_page_links:
  assumes "getLesson (Number a) (Number b) loc = Some le"
  shows "hrefs (LessonPage loc a b st) = map reference_url (lesson_references le)"
  using LessonPage_cases [OF assms, of st] hrefs_found by metis

theorem lesson_page_links_witness:
  "\<exists>le. getLesson (Number (nat_str 4)) (Number (nat_str 2)) zh_TW = Some le
     \<and> hrefs (LessonPage zh_TW (nat_str 4) (nat_str 2) lesson_state_init) =
         map reference_url (lesson_references le)"
proof -
  have "names_lesson 4 2" by (simp add: names_lesson_def syllabus_def)
  then obtain le where "getLesson (num_of 4) (num_of 2) zh_TW = Some le" by (rule found_lesson)
  then have "getLesson (Number (nat_str 4)) (Number (nat_str 2)) zh_TW = Some le" by (simp add: Number_small)
  with lesson_page_links [OF this] show ?thesis by blast
qed

text \<open>
  C19. One reference of the last lesson of phase 1 and of phase 5 has no url: in every locale the page
  renders it as a link to the empty address.
\<close>

theorem empty_reference_links:
  "[] \<in> set (hrefs (LessonPage loc (nat_str 1) (nat_str 5) st))
   \<and> [] \<in> set (hrefs (LessonPage loc (nat_str 5) (nat_str 5) st))"
proof -
  have refs: "[] \<in> reference_url ` set (lesson_references phase1En_lesson5)"
    "[] \<in> reference_url ` set (lesson_references phase1ZhCN_lesson5)"
    "[] \<in> reference_url ` set (lesson_references phase5En_lesson5)"
    "[] \<in> reference_url ` set (lesson_references phase5ZhCN_lesson5)"
    by (simp_all add: phase1En_lesson5_def phase1ZhCN_lesson5_def phase5En_lesson5_def
        phase5ZhCN_lesson5_def js_Nil)
  have lessons: "getLesson (num_of 1) (num_of 5) loc =
      Some (if loc = en_locale then phase1En_lesson5 else phase1ZhCN_lesson5)"
    "getLesson (num_of 5) (num_of 5) loc =
      Some (if loc = en_locale then phase5En_lesson5 else phase5ZhCN_lesson5)"
    by (simp_all add: getLesson_nat names_lesson_def syllabus_def content_by_locale phases_en_def
        phases_zhCN_def phase1En_def phase1ZhCN_def phase5En_def phase5ZhCN_def)
  have "hrefs (LessonPage loc (nat_str p) (nat_str 5) st) = map reference_url (lesson_references le)"
    if "getLesson (num_of p) (num_of 5) loc = Some le" "p \<le> 10" for p le
  proof -
    have "getLesson (Number (nat_str p)) (Number (nat_str 5)) loc = Some le"
      using that by (simp add: Number_small)
    then show ?thesis using LessonPage_cases [of "nat_str p" "nat_str 5" loc le st] hrefs_found by metis
  qed
  from this [OF lessons(1)] this [OF lessons(2)] refs show ?thesis by auto
qed

text \<open>
  C20. React's rule for keyed children holds on every lesson page, in every state and for every pair of
  route parameters: no two siblings have the same key.
\<close>

theorem lesson_page_keys: "keys_ok (LessonPage loc a b st)"
proof (cases "getLesson (Number a) (Number b) loc")
  case None
  then show ?thesis by (simp add: LessonPage_missing LessonPage_notFound_def)
next
  case (Some le)
  then have "lesson_ok le" by (rule getLesson_Some)
  then have "distinct (map exercise_id (lesson_exercises le))" by (simp add: lesson_ok_def)
  with keys_found show ?thesis using LessonPage_cases [OF Some, of st] by metis
qed

section \<open>The home page\<close>

text \<open>
  C21. What the home page offers, completely: the three languages, the three tabs, and on the roadmap tab
  for each of the seven phases its button, which opens it or closes it when it is the open one, and the
  link to lesson 1 of the open phase only.
\<close>

theorem roadmap_page_actions:
  assumes "CourseRoadmap loc st = Inr n" and "loc \<notin> set object_prototype"
  shows "a \<in> set (clicks n) \<longleftrightarrow>
     (\<exists>l \<in> Locale. a = SetLocale l) \<or> (\<exists>t \<in> set tab_names. a = SetActiveTab t)
     \<or> activeTab st = js ''roadmap'' \<and> (\<exists>p < 7.
         a = SetActivePhase (if activePhase st = Some p then None else Some p)
         \<or> activePhase st = Some p \<and> a = Navigate (lesson_path p 1))"
proof -
  obtain ps prs where "CourseRoadmap loc st = Inr (CourseRoadmap_view loc st ps getArchitecture prs)"
    "map phase_id ps = [0..<7]" by (rule CourseRoadmap_ok [OF assms(2)])
  with assms(1) have "n = CourseRoadmap_view loc st ps getArchitecture prs" "map phase_id ps = [0..<7]"
    by simp_all
  then show ?thesis by (simp only: clicks_view home_actions)
qed

theorem roadmap_page_actions_witness:
  "\<exists>n. CourseRoadmap en_locale (roadmap_state_init\<lparr>activePhase := Some 3\<rparr>) = Inr n
     \<and> Navigate (lesson_path 3 1) \<in> set (clicks n) \<and> Navigate (lesson_path 4 1) \<notin> set (clicks n)"
proof -
  have l: "en_locale \<notin> set object_prototype" by (rule locale_not_inherited) (simp add: Locale_def)
  then obtain n where n: "CourseRoadmap en_locale (roadmap_state_init\<lparr>activePhase := Some 3\<rparr>) = Inr n"
    by (rule CourseRoadmap_ok)
  have "lesson_path 4 1 \<noteq> lesson_path 3 1" by (simp add: lesson_path_def)
  with roadmap_page_actions [OF n l] n show ?thesis by (auto simp: roadmap_state_init_def)
qed

text \<open>C22. Whenever the home page is rendered, no two siblings on it have the same key.\<close>

theorem roadmap_keys: "CourseRoadmap loc st = Inr n \<Longrightarrow> keys_ok n"
  using CourseRoadmap_Inr keys_view by metis

theorem roadmap_keys_witness:
  "\<exists>n. CourseRoadmap en_locale roadmap_state_init = Inr n \<and> keys_ok n"
proof -
  have "en_locale \<notin> set object_prototype" by (rule locale_not_inherited) (simp add: Locale_def)
  then obtain n where "CourseRoadmap en_locale roadmap_state_init = Inr n" by (rule CourseRoadmap_ok)
  with roadmap_keys show ?thesis by blast
qed

text \<open>
  C23. When the home page throws: exactly when the current locale is the name of a property every object
  inherits and the active tab is one that maps over a translated table.
\<close>

theorem roadmap_throws_iff:
  "CourseRoadmap loc st = Inl e \<longleftrightarrow> e = TypeError \<and> loc \<in> set object_prototype
     \<and> activeTab st \<in> {js ''roadmap'', js ''principles''}"
  by (rule CourseRoadmap_throws_iff)

text \<open>
  C24. The button that leads into a phase is shown exactly for phases that have a first lesson, whatever
  the locale.
\<close>

theorem enter_link_iff_lesson: "hasLessons k \<longleftrightarrow> getLesson k (num_of 1) loc \<noteq> None"
proof -
  have "names_lesson p 1 \<longleftrightarrow> p < 7" for p using names_first [of p] by (auto simp: names_lesson_def)
  then show ?thesis unfolding hasLessons_iff getLesson_iff by (auto simp: image_iff)
qed

text \<open>
  C25. The architecture tab shows its seven layers from top to bottom as the phases from last to first:
  each layer's name, the number of its phase and its modules, between the tab's description and the data
  flow; and each layer has the colour of that phase on the roadmap, in every locale. The tab shows
  nothing when it is not the active one.
\<close>

theorem architecture_labels:
  assumes "getPhases loc = Own ps"
  shows "concat (map texts (CourseRoadmap_archTab tr st getArchitecture)) =
     show_if (activeTab st = js ''arch'')
       ([tr (js ''arch.desc'') []]
        @ concat (map (\<lambda>(layer, p). [layer_name layer, js ''Phase '', nat_str (phase_id p)] @ layer_modules layer)
            (zip (architecture_layers getArchitecture) (rev ps)))
        @ [tr (js ''arch.dataflow'') []]
        @ tl (concat (map (\<lambda>s. [js '' %u2192 '', s]) dataflow_stages)))
     \<and> map layer_color (architecture_layers getArchitecture) = map phase_color (rev ps)"
  using layers_numbered [OF layer_colours(2) [OF assms] architecture_length,
      of "\<lambda>layer k. [layer_name layer, js ''Phase '', nat_str k] @ layer_modules layer"]
    layer_colours(1) [OF assms]
  by (simp only: texts_archTab simp_thms)

theorem architecture_labels_witness:
  "\<exists>ps. getPhases en_locale = Own ps
     \<and> concat (map texts (CourseRoadmap_archTab (translate en_locale)
         (roadmap_state_init\<lparr>activeTab := js ''arch''\<rparr>) getArchitecture)) =
         [translate en_locale (js ''arch.desc'') []]
         @ concat (map (\<lambda>(layer, p). [layer_name layer, js ''Phase '', nat_str (phase_id p)] @ layer_modules layer)
             (zip (architecture_layers getArchitecture) (rev ps)))
         @ [translate en_locale (js ''arch.dataflow'') []]
         @ tl (concat (map (\<lambda>s. [js '' %u2192 '', s]) dataflow_stages))"
proof -
  have "en_locale \<notin> set object_prototype" by (rule locale_not_inherited) (simp add: Locale_def)
  then obtain ps where "getPhases en_locale = Own ps" by (rule CourseRoadmap_ok)
  with architecture_labels [OF this, of "translate en_locale" "roadmap_state_init\<lparr>activeTab := js ''arch''\<rparr>"]
  show ?thesis by auto
qed

text \<open>
  C26. The roadmap and the lesson pages give a phase the same two colours, for every phase but phase 5,
  where they differ in every locale.
\<close>

theorem colours_agree_iff:
  assumes "p < 7" and "getPhases loc = Own ps" and "getPhaseContent (num_of p) loc = Some c"
  shows "(phase_color (ps ! p), phase_accent (ps ! p)) = (content_color c, content_accent c) \<longleftrightarrow> p \<noteq> 5"
  using phase_colours_nth [OF assms] by simp

theorem colours_agree_iff_witness:
  "\<exists>ps c. getPhases en_locale = Own ps \<and> getPhaseContent (num_of 5) en_locale = Some c
     \<and> (phase_color (ps ! 5), phase_accent (ps ! 5)) \<noteq> (content_color c, content_accent c)"
proof -
  have "en_locale \<notin> set object_prototype" by (rule locale_not_inherited) (simp add: Locale_def)
  then have ps: "getPhases en_locale = Own PHASES_EN" by (simp add: getPhases_eq)
  have c: "getPhaseContent (num_of 5) en_locale = Some phase5En"
    by (simp add: content_by_locale phases_en_def)
  from colours_agree_iff [OF _ ps c] ps c show ?thesis by auto
qed

section \<open>The locale and the messages\<close>

text \<open>
  C27. The locale the site starts with is one of the three supported ones, except when the stored value
  is the name of a property that every object inherits.
\<close>

theorem initial_locale_supported_iff:
  "init_locale saved lang \<in> Locale \<longleftrightarrow> saved \<notin> Some ` set object_prototype"
  using init_locale_supported [of saved lang] by auto

text \<open>
  C28. In that case the home page crashes: with such a name stored, loading the site throws a
  \<open>TypeError\<close>, whatever the browser's language.
\<close>

theorem stored_builtin_name_crashes:
  assumes "router_spec router" and "n \<in> set object_prototype"
  shows "site_view router (site_load (Some n) lang (js ''/'') [] []) = Inl TypeError"
proof -
  have "init_locale (Some n) lang = n" using assms(2) by (subst init_locale_eq) simp
  moreover have "CourseRoadmap n roadmap_state_init = Inl TypeError"
    using assms(2) by (simp add: CourseRoadmap_throws_iff roadmap_state_init_def)
  ultimately show ?thesis
    using route_home [OF assms(1)] by (simp add: site_view_def site_load_def App_views)
qed

theorem stored_builtin_name_crashes_witness:
  "js ''toString'' \<in> set object_prototype
   \<and> site_view segment_router (site_load (Some (js ''toString'')) (js ''en'') (js ''/'') [] []) = Inl TypeError"
proof -
  have "js ''toString'' \<in> set object_prototype" by (simp add: object_prototype_def)
  with stored_builtin_name_crashes [OF segment_router_ok this] show ?thesis by simp
qed

text \<open>
  C29. A chosen language stays: after a click on a supported language, whatever the user does short of
  choosing another one, reloading included, the site is in that language and stores it.
\<close>

theorem chosen_locale_persists:
  assumes "l \<in> Locale" and "\<forall>l'. Click (SetLocale l') \<notin> set es"
    and "run (site_step router keep lang) (site_act router keep (SetLocale l) s) es t"
  shows "locale_value (site_locale t) = l \<and> stored_locale (site_locale t) = Some l"
  by (rule locale_kept_run [OF assms(3,1,2)]) (simp_all add: handleSetLocale_def)

theorem chosen_locale_persists_witness:
  "\<exists>t. run (site_step segment_router sample_keep (js ''en''))
       (site_act segment_router sample_keep (SetLocale zh_TW) sample_start) [Reload, Reload] t
     \<and> locale_value (site_locale t) = zh_TW"
proof -
  obtain t where t: "run (site_step segment_router sample_keep (js ''en''))
      (site_act segment_router sample_keep (SetLocale zh_TW) sample_start) [Reload, Reload] t"
    by (blast intro: run.intros site_step.reload)
  have "zh_TW \<in> Locale" by (simp add: Locale_def)
  from chosen_locale_persists [OF this _ t] t show ?thesis by auto
qed

text \<open>
  C30. Every dictionary is complete: in a locale that has a dictionary, every lookup answers from that
  dictionary alone (the fallback is never needed), all dictionaries have the same keys, and no message is
  empty.
\<close>

theorem messages_complete:
  assumes "map_of dictionaries loc = Some d"
  shows "message loc key = prop_get d key \<and> fst ` set d = fst ` set zhCN \<and> [] \<notin> snd ` set d"
  using message_own [OF assms] dictionary_key_set [OF assms] message_texts [OF assms] by blast

theorem messages_complete_witness:
  "map_of dictionaries en_locale = Some en
   \<and> message en_locale (js ''tab.roadmap'') = Some (Own (js ''Roadmap''))
   \<and> message en_locale (js ''constructor'') = Some (Inherited (js ''constructor''))"
proof -
  have d: "map_of dictionaries en_locale = Some en" by (simp add: dictionaries_locale)
  have "prop_get en (js ''tab.roadmap'') = Some (Own (js ''Roadmap''))"
    by (simp add: prop_get_def en_def)
  moreover have "prop_get en (js ''constructor'') = Some (Inherited (js ''constructor''))"
    by (simp add: prop_get_def en_def object_prototype_def)
  ultimately show ?thesis
    using d messages_complete [OF d, of "js ''tab.roadmap''"] messages_complete [OF d, of "js ''constructor''"]
    by simp
qed

text \<open>
  C31. The lesson page uses existing messages only: its tree depends on the message function at keys of
  the dictionary and nowhere else, so no raw key is ever shown.
\<close>

theorem lesson_page_messages_exist:
  assumes "\<And>key. key \<in> fst ` set zhCN \<Longrightarrow> tr key = tr' key"
  shows "LessonPage_found tr c le p l st = LessonPage_found tr' c le p l st
     \<and> LessonPage_notFound tr = LessonPage_notFound tr'"
  using found_messages [of tr tr', OF assms] by blast

theorem lesson_page_messages_exist_witness:
  "LessonPage_found (translate en_locale) phase0En phase0En_lesson1 (num_of 0) (num_of 1) lesson_state_init =
   LessonPage_found (\<lambda>key. if key \<in> fst ` set zhCN then translate en_locale key else (\<lambda>_. []))
     phase0En phase0En_lesson1 (num_of 0) (num_of 1) lesson_state_init"
  using lesson_page_messages_exist [of "translate en_locale"
      "\<lambda>key. if key \<in> fst ` set zhCN then translate en_locale key else (\<lambda>_. [])"
      phase0En phase0En_lesson1 "num_of 0" "num_of 1" lesson_state_init]
  by simp

text \<open>
  C32. The same for the home page: its header and its three tabs depend on the message function at keys
  of the dictionary only, and the labels of the language switcher are among them.
\<close>

theorem roadmap_messages_exist:
  assumes "\<And>key. key \<in> fst ` set zhCN \<Longrightarrow> tr key = tr' key"
  shows "CourseRoadmap_header loc tr st = CourseRoadmap_header loc tr' st
     \<and> CourseRoadmap_roadmapTab tr st ps = CourseRoadmap_roadmapTab tr' st ps
     \<and> CourseRoadmap_archTab tr st arch = CourseRoadmap_archTab tr' st arch
     \<and> CourseRoadmap_principlesTab tr st prs = CourseRoadmap_principlesTab tr' st prs
     \<and> snd ` set LOCALES \<subseteq> fst ` set zhCN"
proof -
  note eqs = message_keys_roadmap [THEN assms]
  have "snd ` set LOCALES \<subseteq> fst ` set zhCN" using message_keys_lang by (simp add: LOCALES_def)
  then show ?thesis
    unfolding CourseRoadmap_header_def CourseRoadmap_roadmapTab_def CourseRoadmap_phase_def
      CourseRoadmap_expanded_def CourseRoadmap_columns_def CourseRoadmap_deliverable_def
      CourseRoadmap_archTab_def CourseRoadmap_principlesTab_def eqs by simp
qed

theorem roadmap_messages_exist_witness:
  "CourseRoadmap_archTab (translate zh_CN) (roadmap_state_init\<lparr>activeTab := js ''arch''\<rparr>) getArchitecture =
   CourseRoadmap_archTab (\<lambda>key. if key \<in> fst ` set zhCN then translate zh_CN key else (\<lambda>_. []))
     (roadmap_state_init\<lparr>activeTab := js ''arch''\<rparr>) getArchitecture"
  using roadmap_messages_exist [of "translate zh_CN"
      "\<lambda>key. if key \<in> fst ` set zhCN then translate zh_CN key else (\<lambda>_. [])" zh_CN
      "roadmap_state_init\<lparr>activeTab := js ''arch''\<rparr>" "[]" getArchitecture "[]"]
  by simp



text \<open>
  C34. The label that completes a phase shows the phase's number in place of the placeholder, in each
  supported language.
\<close>

theorem complete_label:
  assumes "loc \<in> Locale"
  shows "translate loc (js ''lesson.complete'') [(js ''phaseId'', nat_str p)] =
     (if loc = en_locale then js ''Finish Phase '' else js ''%u5b8c%u6210 Phase '') @ nat_str p @ js '' %u2192''"
proof -
  have v: "36 \<notin> set (nat_str p)" by (rule digits_no_dollar [OF nat_str_digits])
  have en: "\<forall>s \<in> set [js ''Finish Phase '', js '' %u2192'']. 123 \<notin> set s"
    by (simp add: js_def hex_unit_def hex_value_def hex_digit_def)
  have zh: "\<forall>s \<in> set [js ''%u5b8c%u6210 Phase '', js '' %u2192'']. 123 \<notin> set s"
    by (simp add: js_def hex_unit_def hex_value_def hex_digit_def)
  show ?thesis
    using message_own [OF Locale_dictionary [OF assms], of "js ''lesson.complete''"]
      replace_from_joined [OF v en, of "js ''phaseId''" "[]"]
      replace_from_joined [OF v zh, of "js ''phaseId''" "[]"]
    by (simp add: translate_def prop_get_def complete_message replace_placeholder_def del: js_eq_iff)
qed

theorem complete_label_witness:
  "translate en_locale (js ''lesson.complete'') [(js ''phaseId'', nat_str 3)] = js ''Finish Phase 3 %u2192''"
  using complete_label [of en_locale 3] by (simp add: Locale_def js_def nat_str.simps)

text \<open>
  C35. A locale without content of its own shows the simplified Chinese lesson pages: traditional Chinese,
  as the comment in \<open>data/index.ts\<close> says, and every unsupported name.
\<close>

theorem unsupported_locale_is_chinese:
  assumes "loc \<notin> Locale \<or> loc = zh_TW"
  shows "LessonPage loc a b st = LessonPage zh_CN a b st"
proof -
  have tr: "translate loc key = translate zh_CN key" if "key \<in> fst ` set zhCN" for key
    by (rule ext) (simp add: translate_def message_chinese [OF assms key_dotted [OF that]])
  have tw: "zh_TW \<in> Locale" by (simp add: Locale_def)
  have "getPhaseContent k zh_TW = getPhaseContent k zh_CN" for k
    using content.get_own_language [OF tw, of k] content.get_fallback [of k]
    by (simp add: opt_member_map_of PHASE_CONTENT_locale)
  then have content: "getPhaseContent k loc = getPhaseContent k zh_CN" for k
    using assms content.get_unsupported [of loc k] content.get_fallback [of k] by auto
  have "getLesson k j loc = getLesson k j zh_CN" for k j by (simp add: getLesson_def content)
  with content found_messages [of "translate loc" "translate zh_CN", OF tr] show ?thesis
    by (simp add: LessonPage_def Let_def split: option.splits)
qed

theorem unsupported_locale_is_chinese_witness:
  "LessonPage zh_TW (nat_str 2) (nat_str 1) lesson_state_init =
   LessonPage zh_CN (nat_str 2) (nat_str 1) lesson_state_init"
  by (rule unsupported_locale_is_chinese) simp

end
